(* ===== verification/Prelude.thy ===== *)
theory Prelude
  imports Complex_Main "HOL-Library.AList" "HOL-Library.Sublist"
begin

text \<open>
  Shared vocabulary of the development: Python exceptions and effectful calls, JSON values,
  insertion-ordered dictionaries, the string functions the sources use, integer formatting
  and parsing, rounding.  Component theories add their rules to the collections declared
  here.
\<close>

named_theorems io_simps "evaluation rules of effectful calls"
named_theorems frame_simps "fields an operation leaves unchanged"


section \<open>Time\<close>

text \<open>
  \<open>time.time()\<close> returns a double; every double is a rational number.  Clock readings,
  scores of sorted sets and money amounts are exact rationals here: rounding of the
  floating-point operations themselves is not modelled.
\<close>

type_synonym time = rat


section \<open>Exceptions and effectful calls\<close>

datatype py_exn =
    TypeError
  | AttributeError
  | KeyError
  | IndexError
  | ReError
  | JSONDecodeError
  | IntegrityError
  | ValueError string
  | NotImplementedError string
  | RateLimitExceeded string int   \<comment> \<open>message, retry\_after\<close>
  | HTTPException int string
  | ProviderError string string int   \<comment> \<open>message, provider, status code\<close>
  | OtherError string

type_synonym 'a res = "py_exn + 'a"

text \<open>
  A coroutine that works on a state \<open>'s\<close>: it returns a value or raises, and the effects
  made before an exception stay.
\<close>

type_synonym ('s, 'a) io = "'s \<Rightarrow> 'a res \<times> 's"

definition ret :: "'a \<Rightarrow> ('s, 'a) io" where
  "ret a = (\<lambda>s. (Inr a, s))"

definition raise :: "py_exn \<Rightarrow> ('s, 'a) io" where
  "raise e = (\<lambda>s. (Inl e, s))"

definition bnd :: "('s, 'a) io \<Rightarrow> ('a \<Rightarrow> ('s, 'b) io) \<Rightarrow> ('s, 'b) io" where
  "bnd m f = (\<lambda>s. case m s of (Inl e, s') \<Rightarrow> (Inl e, s') | (Inr a, s') \<Rightarrow> f a s')"

definition try_except :: "('s, 'a) io \<Rightarrow> (py_exn \<Rightarrow> ('s, 'a) io) \<Rightarrow> ('s, 'a) io" where
  "try_except m h = (\<lambda>s. case m s of (Inl e, s') \<Rightarrow> h e s' | (Inr a, s') \<Rightarrow> (Inr a, s'))"

fun for_each :: "'b list \<Rightarrow> ('b \<Rightarrow> ('s, unit) io) \<Rightarrow> ('s, unit) io" where
  "for_each [] f = ret ()"
| "for_each (x # xs) f = bnd (f x) (\<lambda>_. for_each xs f)"

lemma ret_apply [simp]: "ret a s = (Inr a, s)"
  by (simp add: ret_def)

lemma raise_apply [simp]: "raise e s = (Inl e, s)"
  by (simp add: raise_def)

lemma bnd_Inr [io_simps]: "m s = (Inr a, s') \<Longrightarrow> bnd m f s = f a s'"
  by (simp add: bnd_def)

lemma bnd_Inl [io_simps]: "m s = (Inl e, s') \<Longrightarrow> bnd m f s = (Inl e, s')"
  by (simp add: bnd_def)

lemma bnd_ret [simp]: "bnd (ret a) f = f a"
  by (simp add: bnd_def fun_eq_iff)

lemma bnd_raise [simp]: "bnd (raise e) f = raise e"
  by (simp add: bnd_def fun_eq_iff)

lemma bnd_InrE:
  assumes "bnd m f s = (Inr b, s')"
  obtains a s1 where "m s = (Inr a, s1)" and "f a s1 = (Inr b, s')"
  using assms by (auto simp: bnd_def split: prod.splits sum.splits)

lemma try_Inr [io_simps]: "m s = (Inr a, s') \<Longrightarrow> try_except m h s = (Inr a, s')"
  by (simp add: try_except_def)

lemma try_Inl [io_simps]: "m s = (Inl e, s') \<Longrightarrow> try_except m h s = h e s'"
  by (simp add: try_except_def)

text \<open>The pure version, for code that raises but has no state.\<close>

definition rbind :: "'a res \<Rightarrow> ('a \<Rightarrow> 'b res) \<Rightarrow> 'b res" where
  "rbind m f = (case m of Inl e \<Rightarrow> Inl e | Inr a \<Rightarrow> f a)"

lemma rbind_simps [simp]: "rbind (Inl e) f = Inl e" "rbind (Inr a) f = f a"
  by (simp_all add: rbind_def)

lemma rbind_Inr_iff: "rbind m f = Inr b \<longleftrightarrow> (\<exists>a. m = Inr a \<and> f a = Inr b)"
  by (cases m) auto

fun all_res :: "('a \<Rightarrow> 'b res) \<Rightarrow> 'a list \<Rightarrow> 'b list res" where
  "all_res f [] = Inr []"
| "all_res f (x # xs) = rbind (f x) (\<lambda>y. rbind (all_res f xs) (\<lambda>ys. Inr (y # ys)))"


section \<open>Dictionaries\<close>

text \<open>
  A Python dict keeps its keys in insertion order; assignment to a present key keeps its
  place.  This is \<^const>\<open>AList.update\<close> on a list with distinct keys; \<open>pop\<close> is
  \<^const>\<open>AList.delete\<close>.
\<close>

type_synonym ('k, 'v) pydict = "('k \<times> 'v) list"

abbreviation dict_set :: "'k \<Rightarrow> 'v \<Rightarrow> ('k, 'v) pydict \<Rightarrow> ('k, 'v) pydict" where
  "dict_set \<equiv> AList.update"

abbreviation dict_pop :: "'k \<Rightarrow> ('k, 'v) pydict \<Rightarrow> ('k, 'v) pydict" where
  "dict_pop \<equiv> AList.delete"

abbreviation dict_wf :: "('k, 'v) pydict \<Rightarrow> bool" where
  "dict_wf d \<equiv> distinct (map fst d)"

definition dict_get :: "'v \<Rightarrow> 'k \<Rightarrow> ('k, 'v) pydict \<Rightarrow> 'v" where
  "dict_get dflt k d = (case map_of d k of None \<Rightarrow> dflt | Some v \<Rightarrow> v)"

lemma dict_set_lookup [simp]: "map_of (dict_set k v d) k' = (if k' = k then Some v else map_of d k')"
  by (simp add: update_conv')

lemma dict_pop_lookup [simp]: "map_of (dict_pop k d) k' = (if k' = k then None else map_of d k')"
  by (simp add: delete_conv')

lemma dict_wf_set [simp, intro]: "dict_wf d \<Longrightarrow> dict_wf (dict_set k v d)"
  by (rule distinct_update)

lemma dict_wf_pop [simp, intro]: "dict_wf d \<Longrightarrow> dict_wf (dict_pop k d)"
  by (rule distinct_delete)

lemma dict_set_fresh: "k \<notin> fst ` set d \<Longrightarrow> dict_set k v d = d @ [(k, v)]"
  by (induction d) auto

lemma dict_pop_absent: "k \<notin> fst ` set d \<Longrightarrow> dict_pop k d = d"
  by (induction d) auto

lemma set_dict_set_subset: "set (dict_set k v d) \<subseteq> insert (k, v) (set d)"
  by (induction d) auto

lemma length_dict_set: "length (dict_set k v d) = (if k \<in> fst ` set d then length d else Suc (length d))"
  by (induction d) auto



section \<open>JSON values\<close>

datatype json =
    JNull
  | JBool bool
  | JInt int
  | JFloat rat
  | JStr string
  | JList "json list"
  | JObj "(string \<times> json) list"

type_synonym jdict = "(string, json) pydict"

text \<open>\<open>d.get(k)\<close> and \<open>d.get(k, dflt)\<close> on a dictionary of JSON values.\<close>

definition jget :: "string \<Rightarrow> jdict \<Rightarrow> json" where
  "jget k d = dict_get JNull k d"

definition jget_or :: "json \<Rightarrow> string \<Rightarrow> jdict \<Rightarrow> json" where
  "jget_or dflt k d = dict_get dflt k d"

text \<open>Truth value of an object, as \<open>if x:\<close> and \<open>x or y\<close> use it.\<close>

fun truthy :: "json \<Rightarrow> bool" where
  "truthy JNull = False"
| "truthy (JBool b) = b"
| "truthy (JInt n) = (n \<noteq> 0)"
| "truthy (JFloat x) = (x \<noteq> 0)"
| "truthy (JStr s) = (s \<noteq> [])"
| "truthy (JList xs) = (xs \<noteq> [])"
| "truthy (JObj d) = (d \<noteq> [])"

fun is_str :: "json \<Rightarrow> bool" where
  "is_str (JStr s) = True"
| "is_str _ = False"

text \<open>The string in a value already known to be one.\<close>

fun str_val :: "json \<Rightarrow> string" where
  "str_val (JStr s) = s"
| "str_val _ = []"

text \<open>\<open>for x in v\<close>: lists, strings and dictionaries iterate, other values raise.\<close>

fun py_iter :: "json \<Rightarrow> json list res" where
  "py_iter (JList xs) = Inr xs"
| "py_iter (JStr s) = Inr (map (\<lambda>c. JStr [c]) s)"
| "py_iter (JObj d) = Inr (map (\<lambda>p. JStr (fst p)) d)"
| "py_iter _ = Inl TypeError"

text \<open>\<open>x or y\<close> on optional strings.\<close>

definition str_or :: "string \<Rightarrow> string \<Rightarrow> string" where
  "str_or a b = (if a \<noteq> [] then a else b)"


section \<open>Strings\<close>

text \<open>
  Text is \<^typ>\<open>string\<close>; the model covers code points below 256, and case mapping is the
  ASCII one.
\<close>

definition lower_char :: "char \<Rightarrow> char" where
  "lower_char c = (let n = (of_char c :: nat) in if 65 \<le> n \<and> n \<le> 90 then char_of (n + 32) else c)"

definition upper_char :: "char \<Rightarrow> char" where
  "upper_char c = (let n = (of_char c :: nat) in if 97 \<le> n \<and> n \<le> 122 then char_of (n - 32) else c)"

definition str_lower :: "string \<Rightarrow> string" where
  "str_lower = map lower_char"

definition str_upper :: "string \<Rightarrow> string" where
  "str_upper = map upper_char"

definition is_space :: "char \<Rightarrow> bool" where
  "is_space c = (let n = (of_char c :: nat) in n = 32 \<or> (9 \<le> n \<and> n \<le> 13) \<or> (28 \<le> n \<and> n \<le> 31) \<or> n = 133 \<or> n = 160)"

definition str_strip :: "string \<Rightarrow> string" where
  "str_strip s = rev (dropWhile is_space (rev (dropWhile is_space s)))"

text \<open>\<open>p in s\<close> for strings.\<close>

fun str_in :: "string \<Rightarrow> string \<Rightarrow> bool" where
  "str_in p [] = (p = [])"
| "str_in p (c # s) = (prefix p (c # s) \<or> str_in p s)"

lemma str_in_iff_sublist: "str_in p s \<longleftrightarrow> sublist p s"
  by (induction s) (auto simp: sublist_Cons_right)

text \<open>\<open>s.split(sep)\<close> for a one-character separator; never the empty list.\<close>

fun split_on :: "char \<Rightarrow> string \<Rightarrow> string list" where
  "split_on sep [] = [[]]"
| "split_on sep (c # s) =
     (if c = sep then [] # split_on sep s
      else (case split_on sep s of [] \<Rightarrow> [[c]] | w # ws \<Rightarrow> (c # w) # ws))"

text \<open>\<open>s.split()\<close>: maximal runs of non-space characters.\<close>

fun split_ws_aux :: "string \<Rightarrow> string \<Rightarrow> string list" where
  "split_ws_aux acc [] = (if acc = [] then [] else [rev acc])"
| "split_ws_aux acc (c # s) =
     (if is_space c then (if acc = [] then split_ws_aux [] s else rev acc # split_ws_aux [] s)
      else split_ws_aux (c # acc) s)"

definition split_ws :: "string \<Rightarrow> string list" where
  "split_ws s = split_ws_aux [] s"

fun str_join :: "string \<Rightarrow> string list \<Rightarrow> string" where
  "str_join sep [] = []"
| "str_join sep [w] = w"
| "str_join sep (w # v # ws) = w @ sep @ str_join sep (v # ws)"

lemma split_on_ne [simp]: "split_on sep s \<noteq> []"
  by (induction s) (auto split: list.splits)

lemma split_on_no_sep: "sep \<notin> set s \<Longrightarrow> split_on sep s = [s]"
  by (induction s) auto

lemma split_on_append: "sep \<notin> set a \<Longrightarrow> split_on sep (a @ sep # b) = a # split_on sep b"
  by (induction a) auto

lemma hd_split_on: "hd (split_on sep s) = takeWhile (\<lambda>c. c \<noteq> sep) s"
  by (induction s) (auto split: list.splits)

lemma str_join_split: "str_join [sep] (split_on sep s) = s"
proof (induction s)
  case (Cons c s)
  then show ?case
    by (cases "split_on sep s"; cases "tl (split_on sep s)") (auto split: list.splits)
qed simp


lemma length_filter_mono_le:
  "(\<And>x. x \<in> set xs \<Longrightarrow> P x \<Longrightarrow> Q x) \<Longrightarrow> length (filter P xs) \<le> length (filter Q xs)"
  by (induction xs) fastforce+

lemma length_filter_strict:
  "(\<And>x. x \<in> set xs \<Longrightarrow> P x \<Longrightarrow> Q x) \<Longrightarrow> a \<in> set xs \<Longrightarrow> Q a \<Longrightarrow> \<not> P a \<Longrightarrow>
   length (filter P xs) < length (filter Q xs)"
proof (induction xs)
  case (Cons x xs)
  have le: "length (filter P xs) \<le> length (filter Q xs)"
    using Cons.prems(1) by (intro length_filter_mono_le) auto
  from Cons show ?case using le by (cases "x = a") auto
qed simp


section \<open>Shell patterns\<close>

text \<open>
  \<open>fnmatch.fnmatch\<close> on a case-sensitive platform.  After an opening bracket: an optional
  exclamation mark, the class body (a leading closing bracket belongs to it) and the rest
  of the pattern; \<^const>\<open>None\<close> when the bracket is not closed and stands for itself.
\<close>

definition glob_class :: "string \<Rightarrow> (bool \<times> string \<times> string) option" where
  "glob_class r =
     (let neg = (case r of [] \<Rightarrow> False | c # _ \<Rightarrow> c = CHR ''!'');
          r1 = (if neg then tl r else r);
          pre = (case r1 of [] \<Rightarrow> [] | c # _ \<Rightarrow> if c = CHR '']'' then [c] else []);
          r2 = (if pre = [] then r1 else tl r1);
          body = takeWhile (\<lambda>c. c \<noteq> CHR '']'') r2;
          rest = dropWhile (\<lambda>c. c \<noteq> CHR '']'') r2
      in if rest = [] then None else Some (neg, pre @ body, tl rest))"

fun in_glob_class :: "char \<Rightarrow> string \<Rightarrow> bool" where
  "in_glob_class x [] = False"
| "in_glob_class x [a] = (x = a)"
| "in_glob_class x [a, b] = (x = a \<or> x = b)"
| "in_glob_class x (a # b # c # cs) =
     (if b = CHR ''-''
      then ((of_char a :: nat) \<le> of_char x \<and> (of_char x :: nat) \<le> of_char c) \<or> in_glob_class x cs
      else x = a \<or> in_glob_class x (b # c # cs))"

lemma glob_class_shorter: "glob_class r = Some (n, b, p) \<Longrightarrow> length p < length r"
  by (auto simp: glob_class_def Let_def split: list.splits if_splits)
     (metis (no_types, lifting) length_dropWhile_le le_imp_less_Suc less_SucI list.size(4) length_tl
       diff_le_self le_trans add.right_neutral add_Suc_right)+

function fnmatch :: "string \<Rightarrow> string \<Rightarrow> bool" where
  "fnmatch s [] = (s = [])"
| "fnmatch s (c # p) =
     (if c = CHR ''*'' then fnmatch s p \<or> (case s of [] \<Rightarrow> False | _ # t \<Rightarrow> fnmatch t (c # p))
      else if c = CHR ''?'' then (case s of [] \<Rightarrow> False | _ # t \<Rightarrow> fnmatch t p)
      else if c = CHR ''['' then
        (case glob_class p of
           None \<Rightarrow> (case s of [] \<Rightarrow> False | x # t \<Rightarrow> x = c \<and> fnmatch t p)
         | Some (neg, cls, p') \<Rightarrow>
             (case s of [] \<Rightarrow> False | x # t \<Rightarrow> in_glob_class x cls \<noteq> neg \<and> fnmatch t p'))
      else (case s of [] \<Rightarrow> False | x # t \<Rightarrow> x = c \<and> fnmatch t p))"
  by pat_completeness auto
termination
  by (relation "measure (\<lambda>(s, p). length s + length p)") (auto dest: glob_class_shorter)

declare fnmatch.simps(2) [simp del]

lemma fnmatch_star [simp]: "fnmatch s ''*''"
  by (induction s) (simp_all add: fnmatch.simps(2))

text \<open>Literal prefix followed by a star: the patterns the code lists keys with.\<close>

definition plain_char :: "char \<Rightarrow> bool" where
  "plain_char c \<longleftrightarrow> c \<noteq> CHR ''*'' \<and> c \<noteq> CHR ''?'' \<and> c \<noteq> CHR ''[''"

lemma fnmatch_plain_Cons: "plain_char c \<Longrightarrow> fnmatch s (c # p) = (case s of [] \<Rightarrow> False | x # t \<Rightarrow> x = c \<and> fnmatch t p)"
  by (simp add: fnmatch.simps(2) plain_char_def)

lemma fnmatch_prefix_star:
  "list_all plain_char p \<Longrightarrow> fnmatch s (p @ ''*'') \<longleftrightarrow> prefix p s"
proof (induction p arbitrary: s)
  case (Cons c p)
  then show ?case by (cases s) (auto simp: fnmatch_plain_Cons)
qed simp


section \<open>Integers as text\<close>

fun show_nat :: "nat \<Rightarrow> string" where
  "show_nat n = (if n < 10 then [char_of (48 + n)]
                 else show_nat (n div 10) @ [char_of (48 + n mod 10)])"

declare show_nat.simps [simp del]

definition show_int :: "int \<Rightarrow> string" where
  "show_int i = (if i < 0 then CHR ''-'' # show_nat (nat (- i)) else show_nat (nat i))"

definition digit_val :: "char \<Rightarrow> nat option" where
  "digit_val c = (let n = (of_char c :: nat) in if 48 \<le> n \<and> n \<le> 57 then Some (n - 48) else None)"

text \<open>The accumulator is the value of the digits read so far.\<close>

fun parse_digits :: "nat \<Rightarrow> string \<Rightarrow> nat option" where
  "parse_digits acc [] = Some acc"
| "parse_digits acc (c # s) =
     (case digit_val c of None \<Rightarrow> None | Some d \<Rightarrow> parse_digits (10 * acc + d) s)"

text \<open>
  \<open>int(s)\<close>: surrounding white space and one sign are accepted, then digits (the
  underscores Python also accepts between digits are not).
\<close>

definition parse_int :: "string \<Rightarrow> int option" where
  "parse_int s0 = (let s = str_strip s0 in
     case s of [] \<Rightarrow> None
     | c # r \<Rightarrow> (if c = CHR ''-'' then (if r = [] then None else map_option (\<lambda>n. - int n) (parse_digits 0 r))
                 else if c = CHR ''+'' then (if r = [] then None else map_option int (parse_digits 0 r))
                 else map_option int (parse_digits 0 s)))"

lemma parse_digits_append:
  "parse_digits acc (a @ b) = Option.bind (parse_digits acc a) (\<lambda>m. parse_digits m b)"
  by (induction acc a rule: parse_digits.induct) (auto split: option.splits)

lemma digit_val_digit: "d < 10 \<Longrightarrow> digit_val (char_of (48 + d)) = Some d"
  by (simp add: digit_val_def of_char_of)

lemma show_nat_ne [simp]: "show_nat n \<noteq> []"
  by (subst show_nat.simps) simp

lemma show_nat_digits: "c \<in> set (show_nat n) \<Longrightarrow> 48 \<le> (of_char c :: nat) \<and> (of_char c :: nat) \<le> 57"
proof (induction n rule: show_nat.induct)
  case (1 n)
  then show ?case
    by (auto simp: show_nat.simps [of n] of_char_of split: if_splits)
qed

lemma parse_show_nat: "parse_digits 0 (show_nat n) = Some n"
proof (induction n rule: show_nat.induct)
  case (1 n)
  have d: "digit_val (char_of (48 + n mod 10)) = Some (n mod 10)" by (rule digit_val_digit) simp
  show ?case
  proof (cases "n < 10")
    case True
    then show ?thesis by (subst show_nat.simps) (simp add: digit_val_digit)
  next
    case False
    then show ?thesis
      by (subst show_nat.simps) (simp add: parse_digits_append 1 d)
  qed
qed

lemma str_strip_id: "\<forall>c \<in> set s. \<not> is_space c \<Longrightarrow> str_strip s = s"
proof -
  assume a: "\<forall>c \<in> set s. \<not> is_space c"
  have d: "dropWhile is_space s = s" using a by (cases s) auto
  have "\<forall>c \<in> set (rev s). \<not> is_space c" using a by simp
  then have "dropWhile is_space (rev s) = rev s" by (cases "rev s") auto
  with d show ?thesis by (simp add: str_strip_def)
qed

lemma show_nat_no_space: "\<forall>c \<in> set (show_nat n). \<not> is_space c"
  using show_nat_digits by (fastforce simp: is_space_def)

lemma show_nat_no_char: "\<not> (48 \<le> (of_char c :: nat) \<and> (of_char c :: nat) \<le> 57) \<Longrightarrow> c \<notin> set (show_nat n)"
  using show_nat_digits by blast

lemma parse_show_int: "parse_int (show_int i) = Some i"
proof -
  have sp: "\<forall>c \<in> set (show_int i). \<not> is_space c"
    using show_nat_no_space by (auto simp: show_int_def is_space_def)
  show ?thesis
  proof (cases "i < 0")
    case True
    then show ?thesis
      using sp by (simp add: parse_int_def str_strip_id) (simp add: show_int_def parse_show_nat)
  next
    case False
    obtain c r where cr: "show_nat (nat i) = c # r" by (cases "show_nat (nat i)") auto
    have "c \<noteq> CHR ''-''" "c \<noteq> CHR ''+''"
      using show_nat_digits [of c "nat i"] cr by auto
    then show ?thesis
      using sp False cr parse_show_nat [of "nat i"]
      by (simp add: parse_int_def str_strip_id) (simp add: show_int_def)
  qed
qed

lemma show_nat_inject [simp]: "show_nat m = show_nat n \<longleftrightarrow> m = n"
  using parse_show_nat by (metis option.inject)

lemma show_int_inject [simp]: "show_int i = show_int j \<longleftrightarrow> i = j"
  using parse_show_int by (metis option.inject)


section \<open>Rounding\<close>

text \<open>\<open>int(x)\<close> truncates towards zero; \<open>round(x, n)\<close> rounds half to even.\<close>

definition py_trunc :: "rat \<Rightarrow> int" where
  "py_trunc x = (if 0 \<le> x then \<lfloor>x\<rfloor> else \<lceil>x\<rceil>)"

definition round_half_even :: "rat \<Rightarrow> int" where
  "round_half_even x =
     (let f = \<lfloor>x\<rfloor>; d = x - of_int f
      in if d < 1/2 then f else if d > 1/2 then f + 1 else if even f then f else f + 1)"

definition py_round :: "rat \<Rightarrow> nat \<Rightarrow> rat" where
  "py_round x n = of_int (round_half_even (x * 10 ^ n)) / 10 ^ n"

lemma round_half_even_error: "\<bar>of_int (round_half_even x) - x\<bar> \<le> 1/2"
proof -
  have "of_int \<lfloor>x\<rfloor> \<le> x" "x < of_int \<lfloor>x\<rfloor> + 1" by linarith+
  then show ?thesis by (auto simp: round_half_even_def Let_def abs_le_iff)
qed

lemma round_half_even_of_int [simp]: "round_half_even (of_int k) = k"
  by (simp add: round_half_even_def)

lemma round_half_even_nonneg: "0 \<le> x \<Longrightarrow> 0 \<le> round_half_even x"
  by (auto simp: round_half_even_def Let_def)

lemma py_round_error: "\<bar>py_round x n - x\<bar> \<le> 1 / (2 * 10 ^ n)"
proof -
  have "\<bar>of_int (round_half_even (x * 10 ^ n)) - x * 10 ^ n\<bar> \<le> 1/2"
    by (rule round_half_even_error)
  then have "\<bar>py_round x n - x\<bar> * 10 ^ n \<le> 1/2"
    by (simp add: py_round_def abs_mult [symmetric] flip: abs_mult_pos) (simp add: field_simps)
  then show ?thesis by (simp add: field_simps)
qed

lemma py_round_nonneg: "0 \<le> x \<Longrightarrow> 0 \<le> py_round x n"
  by (simp add: py_round_def round_half_even_nonneg)

end
