(* ===== verification/RedisClient.thy ===== *)
theory RedisClient
  imports Prelude
begin

text \<open>
  \<open>redis_client.py\<close>: the in-memory store with expiry (\<open>InMemoryStore\<close>), the client that
  chooses between a Redis server and that store (\<open>RedisClient\<close>), and the module's
  convenience functions, collected in a record of operations that the other components take
  as an argument.  The library \<open>redis.asyncio\<close> is a parameter.  The locale
  \<open>kv_store\<close> states what the other components rely on; it is interpreted on the in-memory
  store and on the client in fallback mode.

  All readings of the clock within one operation are one value \<open>now\<close>.
\<close>


section \<open>InMemoryStore\<close>

text \<open>
  A stored value is a string, a set (a list without duplicates, iterated in that order) or a
  sorted set (a dictionary from members to scores).
\<close>

datatype sval = SStr string | SSet "string list" | SZset "(string, rat) pydict"

type_synonym entry = "sval \<times> time option"

record mem_store =
  store_data :: "(string, entry) pydict"

definition mem_is_expired :: "time \<Rightarrow> string \<Rightarrow> mem_store \<Rightarrow> bool \<times> mem_store" where
  "mem_is_expired now key s =
     (case map_of (store_data s) key of
        None \<Rightarrow> (True, s)
      | Some (_, expires_at) \<Rightarrow>
          (case expires_at of
             Some e \<Rightarrow> if now > e then (True, s\<lparr>store_data := dict_pop key (store_data s)\<rparr>)
                       else (False, s)
           | None \<Rightarrow> (False, s)))"

definition mem_put :: "string \<Rightarrow> entry \<Rightarrow> mem_store \<Rightarrow> mem_store" where
  "mem_put key e s = s\<lparr>store_data := dict_set key e (store_data s)\<rparr>"

definition mem_set_with_ttl :: "time \<Rightarrow> string \<Rightarrow> string \<Rightarrow> int \<Rightarrow> (mem_store, unit) io" where
  "mem_set_with_ttl now key v ttl s =
     (Inr (), mem_put key (SStr v, if ttl > 0 then Some (now + of_int ttl) else None) s)"

definition mem_get_value :: "time \<Rightarrow> string \<Rightarrow> (mem_store, sval option) io" where
  "mem_get_value now key s =
     (let (ex, s1) = mem_is_expired now key s
      in if ex then (Inr None, s1)
         else (Inr (map_option fst (map_of (store_data s1) key)), s1))"

definition mem_delete_key :: "string \<Rightarrow> (mem_store, bool) io" where
  "mem_delete_key key s =
     (Inr (map_of (store_data s) key \<noteq> None), s\<lparr>store_data := dict_pop key (store_data s)\<rparr>)"

definition mem_increment :: "time \<Rightarrow> string \<Rightarrow> int \<Rightarrow> (mem_store, int) io" where
  "mem_increment now key amount s =
     (let (ex, s1) = mem_is_expired now key s
      in if ex then (Inr amount, mem_put key (SStr (show_int amount), None) s1)
         else (case map_of (store_data s1) key of
                 None \<Rightarrow> (Inr amount, mem_put key (SStr (show_int amount), None) s1)
               | Some (SStr v, e) \<Rightarrow>
                   (case parse_int v of
                      None \<Rightarrow> (Inl (ValueError v), s1)
                    | Some n \<Rightarrow> (Inr (n + amount), mem_put key (SStr (show_int (n + amount)), e) s1))
               | Some _ \<Rightarrow> (Inl TypeError, s1)))"

definition entry_expired :: "time \<Rightarrow> entry \<Rightarrow> bool" where
  "entry_expired now e = (case snd e of None \<Rightarrow> False | Some x \<Rightarrow> now > x)"

definition mem_get_all_keys :: "time \<Rightarrow> string \<Rightarrow> (mem_store, string list) io" where
  "mem_get_all_keys now pattern s =
     (let d = filter (\<lambda>p. \<not> entry_expired now (snd p)) (store_data s)
      in (Inr (filter (\<lambda>k. fnmatch k pattern) (map fst d)), s\<lparr>store_data := d\<rparr>))"

definition mem_ttl_remaining :: "time \<Rightarrow> string \<Rightarrow> (mem_store, int option) io" where
  "mem_ttl_remaining now key s =
     (let (ex, s1) = mem_is_expired now key s
      in if ex then (Inr None, s1)
         else (case map_of (store_data s1) key of
                 None \<Rightarrow> (Inr None, s1)
               | Some (_, None) \<Rightarrow> (Inr (Some (- 1)), s1)
               | Some (_, Some e) \<Rightarrow> (Inr (Some (max (py_trunc (e - now)) 0)), s1)))"

definition mem_exists :: "time \<Rightarrow> string \<Rightarrow> (mem_store, bool) io" where
  "mem_exists now key s =
     (let (ex, s1) = mem_is_expired now key s
      in if ex then (Inr False, s1) else (Inr (map_of (store_data s1) key \<noteq> None), s1))"

text \<open>Adding to a list-represented set: new members go to the end.\<close>

fun set_update :: "string list \<Rightarrow> string list \<Rightarrow> string list" where
  "set_update xs [] = xs"
| "set_update xs (m # ms) = set_update (if m \<in> set xs then xs else xs @ [m]) ms"

definition mem_set_add :: "time \<Rightarrow> string \<Rightarrow> string list \<Rightarrow> (mem_store, int) io" where
  "mem_set_add now key members s =
     (let (ex, s1) = mem_is_expired now key s;
          s2 = (if ex then mem_put key (SSet [], None) s1 else s1)
      in case map_of (store_data s2) key of
           None \<Rightarrow> (Inr (int (length members)), mem_put key (SSet (set_update [] members), None) s2)
         | Some (v, e) \<Rightarrow>
             (let current = (case v of SSet xs \<Rightarrow> xs | _ \<Rightarrow> [])
              in (Inr (int (length members)), mem_put key (SSet (set_update current members), e) s2)))"

definition mem_set_members :: "time \<Rightarrow> string \<Rightarrow> (mem_store, string list) io" where
  "mem_set_members now key s =
     (let (ex, s1) = mem_is_expired now key s
      in if ex then (Inr [], s1)
         else (case map_of (store_data s1) key of
                 Some (SSet xs, _) \<Rightarrow> (Inr xs, s1)
               | _ \<Rightarrow> (Inr [], s1)))"

definition mem_set_remove :: "string \<Rightarrow> string list \<Rightarrow> (mem_store, int) io" where
  "mem_set_remove key members s =
     (case map_of (store_data s) key of
        Some (SSet xs, e) \<Rightarrow>
          (Inr (int (length (filter (\<lambda>m. m \<in> set xs) (remdups members)))),
           mem_put key (SSet (filter (\<lambda>x. x \<notin> set members) xs), e) s)
      | _ \<Rightarrow> (Inr 0, s))"

definition mem_set_count :: "time \<Rightarrow> string \<Rightarrow> (mem_store, int) io" where
  "mem_set_count now key = bnd (mem_set_members now key) (\<lambda>ms. ret (int (length ms)))"

fun zset_update :: "(string, rat) pydict \<Rightarrow> (string, rat) pydict \<Rightarrow> (string, rat) pydict" where
  "zset_update z [] = z"
| "zset_update z ((m, sc) # ms) = zset_update (dict_set m sc z) ms"

definition mem_zadd :: "time \<Rightarrow> string \<Rightarrow> (string, rat) pydict \<Rightarrow> (mem_store, int) io" where
  "mem_zadd now key mapping s =
     (let (ex, s1) = mem_is_expired now key s;
          s2 = (if ex then mem_put key (SZset [], None) s1 else s1)
      in case map_of (store_data s2) key of
           None \<Rightarrow> (Inr (int (length mapping)), mem_put key (SZset mapping, None) s2)
         | Some (v, e) \<Rightarrow>
             (let zset = (case v of SZset z \<Rightarrow> z | _ \<Rightarrow> [])
              in (Inr (int (length (filter (\<lambda>p. map_of zset (fst p) = None) mapping))),
                  mem_put key (SZset (zset_update zset mapping), e) s2)))"

text \<open>An upper score bound is a number or infinity.\<close>

definition score_le :: "rat \<Rightarrow> rat option \<Rightarrow> bool" where
  "score_le x ub = (case ub of None \<Rightarrow> True | Some b \<Rightarrow> x \<le> b)"

definition zrange :: "rat \<Rightarrow> rat option \<Rightarrow> (string, rat) pydict \<Rightarrow> string list" where
  "zrange lo ub z = map fst (filter (\<lambda>p. lo \<le> snd p \<and> score_le (snd p) ub) (sort_key snd z))"

definition mem_zrangebyscore :: "time \<Rightarrow> string \<Rightarrow> rat \<Rightarrow> rat option \<Rightarrow> (mem_store, string list) io" where
  "mem_zrangebyscore now key lo ub s =
     (let (ex, s1) = mem_is_expired now key s
      in if ex then (Inr [], s1)
         else (case map_of (store_data s1) key of
                 Some (SZset z, _) \<Rightarrow> (Inr (zrange lo ub z), s1)
               | _ \<Rightarrow> (Inr [], s1)))"

definition zrem :: "rat \<Rightarrow> rat option \<Rightarrow> (string, rat) pydict \<Rightarrow> (string, rat) pydict" where
  "zrem lo ub z = filter (\<lambda>p. \<not> (lo \<le> snd p \<and> score_le (snd p) ub)) z"

definition mem_zremrangebyscore :: "string \<Rightarrow> rat \<Rightarrow> rat option \<Rightarrow> (mem_store, int) io" where
  "mem_zremrangebyscore key lo ub s =
     (case map_of (store_data s) key of
        Some (SZset z, e) \<Rightarrow>
          (Inr (int (length z) - int (length (zrem lo ub z))), mem_put key (SZset (zrem lo ub z), e) s)
      | _ \<Rightarrow> (Inr 0, s))"

definition mem_expire :: "time \<Rightarrow> string \<Rightarrow> int \<Rightarrow> (mem_store, bool) io" where
  "mem_expire now key ttl s =
     (case map_of (store_data s) key of
        None \<Rightarrow> (Inr False, s)
      | Some (v, _) \<Rightarrow> (Inr True, mem_put key (v, Some (now + of_int ttl)) s))"

definition mem_flushdb :: "(mem_store, unit) io" where
  "mem_flushdb s = (Inr (), s\<lparr>store_data := []\<rparr>)"


section \<open>RedisClient\<close>

text \<open>
  The Redis library: \<open>from_url\<close> and the methods of its client object, whose state is a
  type parameter.  Every method may raise.
\<close>

record 'r aioredis =
  from_url :: "string \<Rightarrow> 'r res"
  ar_ping :: "('r, unit) io"
  ar_close :: "('r, unit) io"
  ar_set :: "time \<Rightarrow> string \<Rightarrow> string \<Rightarrow> int \<Rightarrow> ('r, unit) io"
  ar_get :: "time \<Rightarrow> string \<Rightarrow> ('r, sval option) io"
  ar_delete :: "string \<Rightarrow> ('r, int) io"
  ar_incrby :: "time \<Rightarrow> string \<Rightarrow> int \<Rightarrow> ('r, int) io"
  ar_scan_iter :: "time \<Rightarrow> string \<Rightarrow> ('r, string list) io"
  ar_ttl :: "time \<Rightarrow> string \<Rightarrow> ('r, int) io"
  ar_exists :: "time \<Rightarrow> string \<Rightarrow> ('r, int) io"
  ar_sadd :: "time \<Rightarrow> string \<Rightarrow> string list \<Rightarrow> ('r, int) io"
  ar_smembers :: "time \<Rightarrow> string \<Rightarrow> ('r, string list) io"
  ar_srem :: "string \<Rightarrow> string list \<Rightarrow> ('r, int) io"
  ar_scard :: "time \<Rightarrow> string \<Rightarrow> ('r, int) io"
  ar_zadd :: "time \<Rightarrow> string \<Rightarrow> (string, rat) pydict \<Rightarrow> ('r, int) io"
  ar_zrangebyscore :: "time \<Rightarrow> string \<Rightarrow> rat \<Rightarrow> rat option \<Rightarrow> ('r, string list) io"
  ar_zremrangebyscore :: "string \<Rightarrow> rat \<Rightarrow> rat option \<Rightarrow> ('r, int) io"
  ar_expire :: "time \<Rightarrow> string \<Rightarrow> int \<Rightarrow> ('r, bool) io"

record 'r redis_client =
  rc_redis :: "'r option"
  rc_fallback :: mem_store
  rc_using_fallback :: bool
  rc_connect_attempted :: bool

definition new_redis_client :: "'r redis_client" where
  "new_redis_client = \<lparr>rc_redis = None, rc_fallback = \<lparr>store_data = []\<rparr>,
     rc_using_fallback = True, rc_connect_attempted = False\<rparr>"

text \<open>\<open>url\<close> is \<open>settings.REDIS_URL\<close>.\<close>

definition rc_connect :: "'r aioredis \<Rightarrow> string \<Rightarrow> ('r redis_client, bool) io" where
  "rc_connect lib url c =
     (if url = [] then (Inr False, c\<lparr>rc_using_fallback := True, rc_connect_attempted := True\<rparr>)
      else (let failed = c\<lparr>rc_redis := None, rc_using_fallback := True, rc_connect_attempted := True\<rparr>
            in case from_url lib url of
                 Inl e \<Rightarrow> (Inr False, failed)
               | Inr r \<Rightarrow>
                   (case ar_ping lib r of
                      (Inl e, _) \<Rightarrow> (Inr False, failed)
                    | (Inr (), r') \<Rightarrow>
                        (Inr True, c\<lparr>rc_redis := Some r', rc_using_fallback := False,
                                     rc_connect_attempted := True\<rparr>))))"

definition rc_is_connected :: "'r redis_client \<Rightarrow> bool" where
  "rc_is_connected c \<longleftrightarrow> \<not> rc_using_fallback c \<and> rc_redis c \<noteq> None"

definition rc_close :: "'r aioredis \<Rightarrow> ('r redis_client, unit) io" where
  "rc_close lib c = (case rc_redis c of None \<Rightarrow> (Inr (), c) | Some r \<Rightarrow> (Inr (), c\<lparr>rc_redis := None\<rparr>))"

definition get_redis :: "'r aioredis \<Rightarrow> string \<Rightarrow> ('r redis_client, unit) io" where
  "get_redis lib url c =
     (if rc_connect_attempted c then (Inr (), c)
      else bnd (rc_connect lib url) (\<lambda>_. ret ()) c)"

text \<open>
  \<open>client.store\<close>: the in-memory store in fallback mode, otherwise the Redis object.  A method
  call on a client that was closed after a connection is an attribute error on
  \<open>None\<close>.
\<close>

definition on_redis :: "('r, 'a) io \<Rightarrow> ('r redis_client, 'a) io" where
  "on_redis m c = (case rc_redis c of
       None \<Rightarrow> (Inl AttributeError, c)
     | Some r \<Rightarrow> (let (x, r') = m r in (x, c\<lparr>rc_redis := Some r'\<rparr>)))"

definition on_fallback :: "(mem_store, 'a) io \<Rightarrow> ('r redis_client, 'a) io" where
  "on_fallback m c =
     (if rc_using_fallback c
      then (let (x, s') = m (rc_fallback c) in (x, c\<lparr>rc_fallback := s'\<rparr>))
      else (Inl AttributeError, c))"

definition dispatch ::
    "'r aioredis \<Rightarrow> string \<Rightarrow> ('r, 'a) io \<Rightarrow> (mem_store, 'a) io \<Rightarrow> ('r redis_client, 'a) io" where
  "dispatch lib url redis_op mem_op =
     bnd (get_redis lib url) (\<lambda>_ c. if rc_is_connected c then on_redis redis_op c else on_fallback mem_op c)"


section \<open>Convenience functions\<close>

text \<open>The module's functions, as the record of operations the other components call.\<close>

record 's redis_ops =
  r_set_with_ttl :: "time \<Rightarrow> string \<Rightarrow> string \<Rightarrow> int \<Rightarrow> ('s, unit) io"
  r_get_value :: "time \<Rightarrow> string \<Rightarrow> ('s, sval option) io"
  r_delete_key :: "time \<Rightarrow> string \<Rightarrow> ('s, bool) io"
  r_increment :: "time \<Rightarrow> string \<Rightarrow> int \<Rightarrow> ('s, int) io"
  r_get_all_keys :: "time \<Rightarrow> string \<Rightarrow> ('s, string list) io"
  r_ttl_remaining :: "time \<Rightarrow> string \<Rightarrow> ('s, int option) io"
  r_exists :: "time \<Rightarrow> string \<Rightarrow> ('s, bool) io"
  r_set_add :: "time \<Rightarrow> string \<Rightarrow> string list \<Rightarrow> ('s, int) io"
  r_set_members :: "time \<Rightarrow> string \<Rightarrow> ('s, string list) io"
  r_set_remove :: "time \<Rightarrow> string \<Rightarrow> string list \<Rightarrow> ('s, int) io"
  r_set_count :: "time \<Rightarrow> string \<Rightarrow> ('s, int) io"
  r_zadd :: "time \<Rightarrow> string \<Rightarrow> (string, rat) pydict \<Rightarrow> ('s, int) io"
  r_zrangebyscore :: "time \<Rightarrow> string \<Rightarrow> rat \<Rightarrow> rat option \<Rightarrow> ('s, string list) io"
  r_zremrangebyscore :: "time \<Rightarrow> string \<Rightarrow> rat \<Rightarrow> rat option \<Rightarrow> ('s, int) io"
  r_expire :: "time \<Rightarrow> string \<Rightarrow> int \<Rightarrow> ('s, bool) io"

definition redis_module :: "'r aioredis \<Rightarrow> string \<Rightarrow> 'r redis_client redis_ops" where
  "redis_module lib url = \<lparr>
     r_set_with_ttl = (\<lambda>now k v ttl. dispatch lib url (ar_set lib now k v ttl) (mem_set_with_ttl now k v ttl)),
     r_get_value = (\<lambda>now k. dispatch lib url (ar_get lib now k) (mem_get_value now k)),
     r_delete_key = (\<lambda>now k. dispatch lib url (bnd (ar_delete lib k) (\<lambda>n. ret (n > 0))) (mem_delete_key k)),
     r_increment = (\<lambda>now k n. dispatch lib url (ar_incrby lib now k n) (mem_increment now k n)),
     r_get_all_keys = (\<lambda>now p. dispatch lib url (ar_scan_iter lib now p) (mem_get_all_keys now p)),
     r_ttl_remaining = (\<lambda>now k. dispatch lib url
        (bnd (ar_ttl lib now k) (\<lambda>t. ret (if t \<ge> 0 then Some t else None))) (mem_ttl_remaining now k)),
     r_exists = (\<lambda>now k. dispatch lib url (bnd (ar_exists lib now k) (\<lambda>n. ret (n \<noteq> 0))) (mem_exists now k)),
     r_set_add = (\<lambda>now k ms. dispatch lib url (ar_sadd lib now k ms) (mem_set_add now k ms)),
     r_set_members = (\<lambda>now k. dispatch lib url (ar_smembers lib now k) (mem_set_members now k)),
     r_set_remove = (\<lambda>now k ms. dispatch lib url (ar_srem lib k ms) (mem_set_remove k ms)),
     r_set_count = (\<lambda>now k. dispatch lib url (ar_scard lib now k) (mem_set_count now k)),
     r_zadd = (\<lambda>now k m. dispatch lib url (ar_zadd lib now k m) (mem_zadd now k m)),
     r_zrangebyscore = (\<lambda>now k lo ub. dispatch lib url (ar_zrangebyscore lib now k lo ub) (mem_zrangebyscore now k lo ub)),
     r_zremrangebyscore = (\<lambda>now k lo ub. dispatch lib url (ar_zremrangebyscore lib k lo ub) (mem_zremrangebyscore k lo ub)),
     r_expire = (\<lambda>now k ttl. dispatch lib url (ar_expire lib now k ttl) (mem_expire now k ttl)) \<rparr>"

text \<open>A library whose server cannot be reached.\<close>

definition no_redis_lib :: "unit aioredis" where
  "no_redis_lib = \<lparr>from_url = (\<lambda>_. Inl TypeError), ar_ping = ret (), ar_close = ret (),
     ar_set = (\<lambda>_ _ _ _. ret ()), ar_get = (\<lambda>_ _. ret None), ar_delete = (\<lambda>_. ret 0),
     ar_incrby = (\<lambda>_ _ _. ret 0), ar_scan_iter = (\<lambda>_ _. ret []), ar_ttl = (\<lambda>_ _. ret 0),
     ar_exists = (\<lambda>_ _. ret 0), ar_sadd = (\<lambda>_ _ _. ret 0), ar_smembers = (\<lambda>_ _. ret []),
     ar_srem = (\<lambda>_ _. ret 0), ar_scard = (\<lambda>_ _. ret 0), ar_zadd = (\<lambda>_ _ _. ret 0),
     ar_zrangebyscore = (\<lambda>_ _ _ _. ret []), ar_zremrangebyscore = (\<lambda>_ _ _. ret 0),
     ar_expire = (\<lambda>_ _ _. ret True)\<rparr>"

text \<open>The same operations directly on the in-memory store.\<close>

definition mem_ops :: "mem_store redis_ops" where
  "mem_ops = \<lparr>
     r_set_with_ttl = mem_set_with_ttl, r_get_value = mem_get_value,
     r_delete_key = (\<lambda>now. mem_delete_key), r_increment = mem_increment,
     r_get_all_keys = mem_get_all_keys, r_ttl_remaining = mem_ttl_remaining,
     r_exists = mem_exists, r_set_add = mem_set_add, r_set_members = mem_set_members,
     r_set_remove = (\<lambda>now. mem_set_remove), r_set_count = mem_set_count, r_zadd = mem_zadd,
     r_zrangebyscore = mem_zrangebyscore, r_zremrangebyscore = (\<lambda>now. mem_zremrangebyscore),
     r_expire = mem_expire \<rparr>"


section \<open>What the other components rely on\<close>

text \<open>
  \<open>look s t k\<close> is the entry of key \<open>k\<close> that is alive at time \<open>t\<close>.
\<close>

definition live :: "time \<Rightarrow> entry \<Rightarrow> entry option" where
  "live t e = (if entry_expired t e then None else Some e)"

lemma live_None [simp]: "live t (v, None) = Some (v, None)"
  by (simp add: live_def entry_expired_def)

lemma live_Some: "live t (v, Some x) = (if t > x then None else Some (v, Some x))"
  by (simp add: live_def entry_expired_def)

lemma live_SomeD: "live t e = Some e' \<Longrightarrow> e' = e \<and> \<not> entry_expired t e"
  by (simp add: live_def split: if_splits)

lemma entry_expired_mono: "entry_expired t e \<Longrightarrow> t \<le> t' \<Longrightarrow> entry_expired t' e"
  by (auto simp: entry_expired_def split: option.splits)

type_synonym 's view = "'s \<Rightarrow> time \<Rightarrow> string \<Rightarrow> entry option"

text \<open>From \<open>now\<close> on, \<open>s'\<close> shows \<open>x\<close> at key \<open>k\<close> and otherwise what \<open>s\<close> shows.\<close>

definition updates :: "'s view \<Rightarrow> time \<Rightarrow> 's \<Rightarrow> string \<Rightarrow> entry option \<Rightarrow> 's \<Rightarrow> bool" where
  "updates look now s k x s' \<longleftrightarrow>
     (\<forall>t\<ge>now. \<forall>k'. look s' t k' = (if k' = k then Option.bind x (live t) else look s t k'))"

definition same_view :: "'s view \<Rightarrow> time \<Rightarrow> 's \<Rightarrow> 's \<Rightarrow> bool" where
  "same_view look now s s' \<longleftrightarrow> (\<forall>t\<ge>now. \<forall>k'. look s' t k' = look s t k')"

text \<open>Every key but \<open>k\<close> shows what it showed.\<close>

definition frame_but :: "'s view \<Rightarrow> time \<Rightarrow> string \<Rightarrow> 's \<Rightarrow> 's \<Rightarrow> bool" where
  "frame_but look now k s s' \<longleftrightarrow> (\<forall>t\<ge>now. \<forall>k'. k' \<noteq> k \<longrightarrow> look s' t k' = look s t k')"

definition zset_of :: "entry option \<Rightarrow> (string, rat) pydict" where
  "zset_of x = (case x of Some (SZset z, _) \<Rightarrow> z | _ \<Rightarrow> [])"

definition set_of :: "entry option \<Rightarrow> string list" where
  "set_of x = (case x of Some (SSet z, _) \<Rightarrow> z | _ \<Rightarrow> [])"

definition expiry_of :: "entry option \<Rightarrow> time option" where
  "expiry_of x = (case x of Some (_, e) \<Rightarrow> e | None \<Rightarrow> None)"

locale kv_store =
  fixes ops :: "'s redis_ops"
    and inv :: "'s \<Rightarrow> bool"
    and look :: "'s \<Rightarrow> time \<Rightarrow> string \<Rightarrow> entry option"
  assumes kv_later: "inv s \<Longrightarrow> now \<le> t \<Longrightarrow> look s t k = Option.bind (look s now k) (live t)"
    and kv_set: "inv s \<Longrightarrow> \<exists>s'. r_set_with_ttl ops now k v ttl s = (Inr (), s') \<and> inv s' \<and>
      updates look now s k (Some (SStr v, if ttl > 0 then Some (now + of_int ttl) else None)) s'"
    and kv_get: "inv s \<Longrightarrow> \<exists>s'. r_get_value ops now k s = (Inr (map_option fst (look s now k)), s') \<and>
      inv s' \<and> same_view look now s s'"
    and kv_delete: "inv s \<Longrightarrow> \<exists>b s'. r_delete_key ops now k s = (Inr b, s') \<and> inv s' \<and>
      updates look now s k None s' \<and> (look s now k = None \<or> b)"
    and kv_incr_fresh: "inv s \<Longrightarrow> look s now k = None \<Longrightarrow>
      \<exists>s'. r_increment ops now k n s = (Inr n, s') \<and> inv s' \<and>
           updates look now s k (Some (SStr (show_int n), None)) s'"
    and kv_incr: "inv s \<Longrightarrow> look s now k = Some (SStr v, e) \<Longrightarrow> parse_int v = Some m \<Longrightarrow>
      \<exists>s'. r_increment ops now k n s = (Inr (m + n), s') \<and> inv s' \<and>
           updates look now s k (Some (SStr (show_int (m + n)), e)) s'"
    and kv_expire: "inv s \<Longrightarrow> look s now k = Some (w, e) \<Longrightarrow>
      \<exists>s'. r_expire ops now k ttl s = (Inr True, s') \<and> inv s' \<and>
           updates look now s k (Some (w, Some (now + of_int ttl))) s'"
    and kv_sadd: "inv s \<Longrightarrow> \<exists>n s'. r_set_add ops now k ms s = (Inr n, s') \<and> inv s' \<and>
      updates look now s k (Some (SSet (set_update (set_of (look s now k)) ms), expiry_of (look s now k))) s'"
    and kv_smembers: "inv s \<Longrightarrow> \<exists>s'. r_set_members ops now k s = (Inr (set_of (look s now k)), s') \<and>
      inv s' \<and> same_view look now s s'"
    and kv_srem: "inv s \<Longrightarrow> look s now k = Some (SSet xs, e) \<Longrightarrow>
      \<exists>n s'. r_set_remove ops now k ms s = (Inr n, s') \<and> inv s' \<and>
           updates look now s k (Some (SSet (filter (\<lambda>x. x \<notin> set ms) xs), e)) s'"
    and kv_zadd: "inv s \<Longrightarrow> \<exists>n s'. r_zadd ops now k zm s = (Inr n, s') \<and> inv s' \<and>
      updates look now s k (Some (SZset (zset_update (zset_of (look s now k)) zm), expiry_of (look s now k))) s'"
    and kv_zrange: "inv s \<Longrightarrow> \<exists>s'. r_zrangebyscore ops now k lo ub s = (Inr (zrange lo ub (zset_of (look s now k))), s') \<and>
      inv s' \<and> same_view look now s s'"
    and kv_zrem: "inv s \<Longrightarrow> look s now k = Some (SZset z, e) \<Longrightarrow>
      \<exists>n s'. r_zremrangebyscore ops now k lo ub s = (Inr n, s') \<and> inv s' \<and>
           updates look now s k (Some (SZset (zrem lo ub z), e)) s'"
    and kv_zrem_none: "inv s \<Longrightarrow> look s now k = None \<Longrightarrow>
      \<exists>n s'. r_zremrangebyscore ops now k lo ub s = (Inr n, s') \<and> inv s' \<and> same_view look now s s'"
    and kv_srem_frame: "inv s \<Longrightarrow> \<exists>n s'. r_set_remove ops now k ms s = (Inr n, s') \<and> inv s' \<and> frame_but look now k s s'"
    and kv_zrem_frame: "inv s \<Longrightarrow> \<exists>n s'. r_zremrangebyscore ops now k lo ub s = (Inr n, s') \<and> inv s' \<and> frame_but look now k s s'"

definition mem_look :: "mem_store \<Rightarrow> time \<Rightarrow> string \<Rightarrow> entry option" where
  "mem_look s t k = (case map_of (store_data s) k of None \<Rightarrow> None | Some e \<Rightarrow> live t e)"


lemma mem_look_put: "mem_look (mem_put k e s) t k' = (if k' = k then live t e else mem_look s t k')"
  by (simp add: mem_look_def mem_put_def)

lemma updates_put: "updates mem_look now s k (Some e) (mem_put k e s)"
  by (simp add: updates_def mem_look_put)

lemma updates_put_same_view:
  "same_view mem_look now s s1 \<Longrightarrow> updates mem_look now s k (Some e) (mem_put k e s1)"
  by (simp add: updates_def same_view_def mem_look_put)

lemma same_view_refl [simp]: "same_view look now s s"
  by (simp add: same_view_def)

lemma same_view_trans: "same_view look now s s' \<Longrightarrow> same_view look now s' s'' \<Longrightarrow> same_view look now s s''"
  by (simp add: same_view_def)

lemma mem_is_expired_cases:
  obtains (expired) s1 where "mem_is_expired now k s = (True, s1)" "mem_look s now k = None"
      "map_of (store_data s1) k = None" "same_view mem_look now s s1"
  | (alive) e where "mem_is_expired now k s = (False, s)" "mem_look s now k = Some e"
      "map_of (store_data s) k = Some e"
proof (cases "mem_look s now k")
  case None
  then have "\<exists>s1. mem_is_expired now k s = (True, s1) \<and> map_of (store_data s1) k = None \<and>
      same_view mem_look now s s1"
    by (auto simp: mem_look_def mem_is_expired_def same_view_def live_def entry_expired_def
        split: option.splits if_splits)
  with None show ?thesis by (auto intro: expired)
next
  case (Some e)
  then have "mem_is_expired now k s = (False, s) \<and> map_of (store_data s) k = Some e"
    by (auto simp: mem_look_def mem_is_expired_def live_def entry_expired_def
        split: option.splits if_splits)
  with Some show ?thesis by (auto intro: alive)
qed

lemma mem_look_raw: "mem_look s now k = Some e \<Longrightarrow> map_of (store_data s) k = Some e"
  by (auto simp: mem_look_def live_def split: option.splits if_splits)

lemma mem_look_later: "now \<le> t \<Longrightarrow> mem_look s t k = Option.bind (mem_look s now k) (live t)"
  by (auto simp: mem_look_def live_def split: option.splits intro: entry_expired_mono)

lemma mem_look_None_later: "mem_look s now k = None \<Longrightarrow> t \<ge> now \<Longrightarrow> mem_look s t k = None"
  by (auto simp: mem_look_def live_def split: option.splits if_splits intro: entry_expired_mono)

lemma mem_put_put [simp]: "map_of (store_data (mem_put k e s)) k = Some e"
  by (simp add: mem_put_def)

lemma mem_look_put_shadow: "mem_look (mem_put k e (mem_put k e' s)) = mem_look (mem_put k e s)"
  by (simp add: fun_eq_iff mem_look_put)

lemma updates_put_put:
  "same_view mem_look now s s1 \<Longrightarrow> updates mem_look now s k (Some e) (mem_put k e (mem_put k e' s1))"
  using updates_put_same_view [of now s s1 k e] by (simp add: updates_def mem_look_put_shadow)

lemma mem_zadd_look: "\<exists>n s'. mem_zadd now k m s = (Inr n, s') \<and>
    updates mem_look now s k (Some (SZset (zset_update (zset_of (mem_look s now k)) m), expiry_of (mem_look s now k))) s'"
  by (cases rule: mem_is_expired_cases [of now k s])
     (auto simp: mem_zadd_def zset_of_def expiry_of_def Let_def updates_put updates_put_put split: sval.splits)

lemma mem_set_add_look: "\<exists>n s'. mem_set_add now k ms s = (Inr n, s') \<and>
    updates mem_look now s k (Some (SSet (set_update (set_of (mem_look s now k)) ms), expiry_of (mem_look s now k))) s'"
  by (cases rule: mem_is_expired_cases [of now k s])
     (auto simp: mem_set_add_def set_of_def expiry_of_def Let_def updates_put updates_put_put split: sval.splits)

lemma mem_zrem_none: "mem_look s now k = None \<Longrightarrow>
    \<exists>n s'. mem_zremrangebyscore k lo ub s = (Inr n, s') \<and> same_view mem_look now s s'"
proof (cases "map_of (store_data s) k")
  case (Some e)
  assume a: "mem_look s now k = None"
  obtain v x where e: "e = (v, x)" by (cases e)
  have "entry_expired now (v, x)" using a Some e by (auto simp: mem_look_def live_def split: if_splits)
  then have "entry_expired t (v', x)" if "t \<ge> now" for v' t
    using that by (auto simp: entry_expired_def split: option.splits)
  then show ?thesis using Some e a mem_look_None_later [OF a]
    by (cases v) (auto simp: mem_zremrangebyscore_def same_view_def mem_look_put live_def)
qed (simp add: mem_zremrangebyscore_def)

lemma mem_get_look: "\<exists>s'. mem_get_value now k s = (Inr (map_option fst (mem_look s now k)), s') \<and>
    same_view mem_look now s s'"
  by (cases rule: mem_is_expired_cases [of now k s]) (auto simp: mem_get_value_def)

lemma mem_smembers_look: "\<exists>s'. mem_set_members now k s = (Inr (set_of (mem_look s now k)), s') \<and>
    same_view mem_look now s s'"
  by (cases rule: mem_is_expired_cases [of now k s])
     (auto simp: mem_set_members_def set_of_def split: option.splits sval.splits)

lemma mem_zrange_look:
  "\<exists>s'. mem_zrangebyscore now k lo ub s = (Inr (zrange lo ub (zset_of (mem_look s now k))), s') \<and>
    same_view mem_look now s s'"
proof -
  have [simp]: "zrange lo ub [] = []" by (simp add: zrange_def)
  show ?thesis
    by (cases rule: mem_is_expired_cases [of now k s])
       (auto simp: mem_zrangebyscore_def zset_of_def split: option.splits sval.splits)
qed

lemma mem_delete_look: "\<exists>b s'. mem_delete_key k s = (Inr b, s') \<and> updates mem_look now s k None s' \<and>
    (mem_look s now k = None \<or> b)"
  by (auto simp: mem_delete_key_def updates_def mem_look_def split: option.splits)

lemma mem_incr_fresh_look: "mem_look s now k = None \<Longrightarrow>
    \<exists>s'. mem_increment now k n s = (Inr n, s') \<and> updates mem_look now s k (Some (SStr (show_int n), None)) s'"
  by (cases rule: mem_is_expired_cases [of now k s]) (auto simp: mem_increment_def updates_put_same_view)

lemma mem_incr_look: "mem_look s now k = Some (SStr v, e) \<Longrightarrow> parse_int v = Some m \<Longrightarrow>
    \<exists>s'. mem_increment now k n s = (Inr (m + n), s') \<and>
         updates mem_look now s k (Some (SStr (show_int (m + n)), e)) s'"
  by (cases rule: mem_is_expired_cases [of now k s]) (auto simp: mem_increment_def updates_put)

lemma mem_zrem_look: "mem_look s now k = Some (SZset z, e) \<Longrightarrow>
    \<exists>n s'. mem_zremrangebyscore k lo ub s = (Inr n, s') \<and>
         updates mem_look now s k (Some (SZset (zrem lo ub z), e)) s'"
  by (drule mem_look_raw) (simp add: mem_zremrangebyscore_def updates_put)

lemma mem_srem_look: "mem_look s now k = Some (SSet xs, e) \<Longrightarrow>
    \<exists>n s'. mem_set_remove k ms s = (Inr n, s') \<and>
         updates mem_look now s k (Some (SSet (filter (\<lambda>x. x \<notin> set ms) xs), e)) s'"
  by (drule mem_look_raw) (simp add: mem_set_remove_def updates_put)

lemma mem_expire_look: "mem_look s now k = Some (w, e) \<Longrightarrow>
    \<exists>s'. mem_expire now k ttl s = (Inr True, s') \<and>
         updates mem_look now s k (Some (w, Some (now + of_int ttl))) s'"
  by (drule mem_look_raw) (simp add: mem_expire_def updates_put)

lemma mem_srem_frame: "\<exists>n s'. mem_set_remove k ms s = (Inr n, s') \<and> frame_but mem_look now k s s'"
  by (auto simp: mem_set_remove_def frame_but_def mem_look_put split: option.splits sval.splits prod.splits)

lemma mem_zrem_frame: "\<exists>n s'. mem_zremrangebyscore k lo ub s = (Inr n, s') \<and> frame_but mem_look now k s s'"
  by (auto simp: mem_zremrangebyscore_def frame_but_def mem_look_put split: option.splits sval.splits prod.splits)

lemma mem_set_look: "\<exists>s'. mem_set_with_ttl now k v ttl s = (Inr (), s') \<and>
    updates mem_look now s k (Some (SStr v, if ttl > 0 then Some (now + of_int ttl) else None)) s'"
  by (simp add: mem_set_with_ttl_def updates_put)

lemmas mem_ops_look = mem_zadd_look mem_set_add_look mem_zrem_none mem_get_look mem_smembers_look
  mem_zrange_look mem_delete_look mem_incr_fresh_look mem_incr_look mem_zrem_look mem_srem_look
  mem_expire_look mem_set_look mem_look_later mem_srem_frame mem_zrem_frame

interpretation mem: kv_store mem_ops "\<lambda>_. True" mem_look
  by unfold_locales (simp_all only: mem_ops_def redis_ops.simps mem_ops_look simp_thms)

text \<open>
  The client in fallback mode: no URL is configured, or a connection was tried and failed.
\<close>

definition in_fallback :: "string \<Rightarrow> 'r redis_client \<Rightarrow> bool" where
  "in_fallback url c \<longleftrightarrow> rc_using_fallback c \<and> (rc_connect_attempted c \<or> url = [])"

definition rc_look :: "'r redis_client \<Rightarrow> time \<Rightarrow> string \<Rightarrow> entry option" where
  "rc_look c = mem_look (rc_fallback c)"

lemma dispatch_fallback:
  "in_fallback url c \<Longrightarrow> dispatch lib url r m c =
     (fst (m (rc_fallback c)), c\<lparr>rc_connect_attempted := True, rc_fallback := snd (m (rc_fallback c))\<rparr>)"
  by (cases c) (auto simp: dispatch_def get_redis_def rc_connect_def bnd_def rc_is_connected_def on_fallback_def
        in_fallback_def split: prod.splits)

lemma dispatch_law:
  assumes "in_fallback url c" and "\<exists>s'. m (rc_fallback c) = (Inr a, s') \<and> P s'"
  shows "\<exists>c'. dispatch lib url r m c = (Inr a, c') \<and> in_fallback url c' \<and> P (rc_fallback c')"
  using assms by (auto simp: dispatch_fallback) (auto simp: in_fallback_def)

lemma dispatch_law_ex:
  assumes "in_fallback url c" and "\<exists>n s'. m (rc_fallback c) = (Inr n, s') \<and> P n s'"
  shows "\<exists>n c'. dispatch lib url r m c = (Inr n, c') \<and> in_fallback url c' \<and> P n (rc_fallback c')"
  using assms by (auto simp: dispatch_fallback) (auto simp: in_fallback_def)

lemma updates_rc: "updates rc_look now c k x c' = updates mem_look now (rc_fallback c) k x (rc_fallback c')"
  by (simp add: updates_def rc_look_def)

lemma frame_rc: "frame_but rc_look now k c c' = frame_but mem_look now k (rc_fallback c) (rc_fallback c')"
  by (simp add: frame_but_def rc_look_def)

lemma same_view_rc: "same_view rc_look now c c' = same_view mem_look now (rc_fallback c) (rc_fallback c')"
  by (simp add: same_view_def rc_look_def)

lemmas rc_law_simps = redis_module_def redis_ops.simps updates_rc same_view_rc frame_rc rc_look_def

interpretation rc: kv_store "redis_module lib url" "in_fallback url" rc_look
  for lib :: "'r aioredis" and url :: string
  by unfold_locales
     (simp_all only: rc_law_simps,
      (rule mem_look_later, assumption)?,
      (rule dispatch_law dispatch_law_ex, assumption, rule mem_ops_look, assumption?, assumption?)+)


section \<open>Properties\<close>

text \<open>A value set with a time to live reads back unchanged until the time has passed and as absent
  afterwards, whatever other keys are set in between; without a positive time it stays.\<close>

theorem fallback_set_get:
  fixes lib :: "'r aioredis"
  assumes "in_fallback url c" and "now \<le> t1" and "t1 \<le> t"
    and "r_set_with_ttl (redis_module lib url) now k v ttl c = (r, c1)"
    and "r_set_with_ttl (redis_module lib url) t1 k' v' ttl' c1 = (r', c2)" and "k' \<noteq> k"
  shows "fst (r_get_value (redis_module lib url) t k c2) =
     Inr (if 0 < ttl \<and> now + of_int ttl < t then None else Some (SStr v))"
proof -
  have c1: "in_fallback url c1"
      "updates rc_look now c k (Some (SStr v, if ttl > 0 then Some (now + of_int ttl) else None)) c1"
    using rc.kv_set [OF assms(1), of lib now k v ttl] assms(4) by auto
  have c2: "in_fallback url c2"
      "updates rc_look t1 c1 k' (Some (SStr v', if ttl' > 0 then Some (t1 + of_int ttl') else None)) c2"
    using rc.kv_set [OF c1(1), of lib t1 k' v' ttl'] assms(5) by auto
  have "fst (r_get_value (redis_module lib url) t k c2) = Inr (map_option fst (rc_look c2 t k))"
    using rc.kv_get [OF c2(1), of lib t k] by auto
  also have "rc_look c2 t k = rc_look c1 t k" using c2(2) assms(3,6) by (simp add: updates_def)
  also have "\<dots> = live t (SStr v, if ttl > 0 then Some (now + of_int ttl) else None)"
    using c1(2) assms(2,3) by (simp add: updates_def)
  finally show ?thesis by (simp add: live_Some not_less)
qed

lemma fallback_set_get_witness:
  "fst (r_get_value (redis_module no_redis_lib []) 9 ''k''
     (snd (r_set_with_ttl (redis_module no_redis_lib []) 2 ''j'' ''w'' 5
       (snd (r_set_with_ttl (redis_module no_redis_lib []) 1 ''k'' ''v'' 10 new_redis_client))))) =
   Inr (Some (SStr ''v''))"
proof -
  have "in_fallback [] (new_redis_client :: unit redis_client)" by (simp add: in_fallback_def new_redis_client_def)
  from fallback_set_get [OF this, of 1 2 9 no_redis_lib "''k''" "''v''" 10 _ _ "''j''" "''w''" 5, OF _ _ prod.collapse [symmetric] prod.collapse [symmetric]]
  show ?thesis by simp
qed

end
