(* ===== verification/Config.thy ===== *)
theory Config
  imports Prelude "HOL-Library.Countable"
begin

text \<open>
  \<open>config.py\<close>: the settings with their defaults, the secret resolver, the start-up
  validation and the derived list accessors.  The process environment, the file system and
  the vault library are parameters.
\<close>


section \<open>Standard library functions taken as parameters\<close>

text \<open>
  Text of floating-point numbers, JSON encoding, hashing: the sources call these functions of
  the Python library as black boxes.  A property that needs more than their type names the
  documented law it uses.
\<close>

record pylib =
  float_repr :: "rat \<Rightarrow> string"
  float_parse :: "string \<Rightarrow> rat option"
  json_dumps :: "json \<Rightarrow> string"
  json_loads :: "string \<Rightarrow> json res"
  py_repr :: "json \<Rightarrow> string"
  sha256_hex :: "string \<Rightarrow> string"
  hmac_sha256_hex :: "string \<Rightarrow> string \<Rightarrow> string"

definition to_str :: "pylib \<Rightarrow> json \<Rightarrow> string" where
  "to_str pl v = (case v of JStr s \<Rightarrow> s | _ \<Rightarrow> py_repr pl v)"

text \<open>\<open>float(repr(x))\<close> is \<open>x\<close>, and a number's text has no colon.\<close>

definition float_text_ok :: "pylib \<Rightarrow> bool" where
  "float_text_ok pl \<longleftrightarrow> (\<forall>x. float_parse pl (float_repr pl x) = Some x \<and> CHR '':'' \<notin> set (float_repr pl x))"

text \<open>Decoding an encoded value gives it back.\<close>

definition json_codec_ok :: "pylib \<Rightarrow> bool" where
  "json_codec_ok pl \<longleftrightarrow> (\<forall>j. json_loads pl (json_dumps pl j) = Inr j)"


section \<open>A concrete library\<close>

text \<open>
  An instance of the library parameter under which its laws hold: numbers as quotients,
  JSON values by their code number.
\<close>

instance json :: countable
  by countable_datatype

definition quotient_repr :: "rat \<Rightarrow> string" where
  "quotient_repr x = show_int (fst (quotient_of x)) @ CHR ''/'' # show_int (snd (quotient_of x))"

definition quotient_parse :: "string \<Rightarrow> rat option" where
  "quotient_parse s =
     (case split_on CHR ''/'' s of
        [a, b] \<Rightarrow> (case (parse_int a, parse_int b) of
                    (Some n, Some d) \<Rightarrow> Some (of_int n / of_int d) | _ \<Rightarrow> None)
      | _ \<Rightarrow> None)"

definition plain_lib :: pylib where
  "plain_lib = \<lparr>float_repr = quotient_repr, float_parse = quotient_parse,
     json_dumps = (\<lambda>j. show_nat (to_nat j)),
     json_loads = (\<lambda>s. case parse_int s of None \<Rightarrow> Inl JSONDecodeError | Some n \<Rightarrow> Inr (from_nat (nat n))),
     py_repr = (\<lambda>_. []), sha256_hex = id, hmac_sha256_hex = (\<lambda>_. id)\<rparr>"

lemma show_int_no_sep [simp]: "CHR '':'' \<notin> set (show_int i)" "CHR ''/'' \<notin> set (show_int i)"
  by (simp_all add: show_int_def show_nat_no_char)

lemma plain_lib_floats: "float_text_ok plain_lib"
proof -
  have "x = of_int (fst (quotient_of x)) / of_int (snd (quotient_of x))" for x
    by (metis prod.collapse quotient_of_div)
  then show ?thesis
    by (simp add: float_text_ok_def plain_lib_def quotient_repr_def quotient_parse_def split_on_append
        split_on_no_sep parse_show_int)
qed

lemma plain_lib_json: "json_codec_ok plain_lib"
proof -
  have "parse_int (show_nat n) = Some (int n)" for n
    using parse_show_int [of "int n"] by (simp add: show_int_def)
  then show ?thesis by (simp add: json_codec_ok_def plain_lib_def)
qed


section \<open>Settings\<close>

record settings =
  ENVIRONMENT :: string
  PROXY_HOST :: string
  PROXY_PORT :: int
  PROXY_WORKERS :: int
  PROXY_DOCS_ENABLED :: bool
  PROXY_TLS_ENABLED :: bool
  PROXY_TLS_CERT :: string
  PROXY_TLS_KEY :: string
  PROXY_TLS_CA :: string
  PROXY_MTLS_ENABLED :: bool
  JWT_SECRET :: string
  JWT_SECRET_PREVIOUS :: string
  JWT_EXPIRY_HOURS :: int
  JWT_REFRESH_EXPIRY_DAYS :: int
  JWT_ALGORITHM :: string
  JWT_BIND_IP :: bool
  JWT_MAX_SESSIONS :: int
  LDAP_ENABLED :: bool
  LDAP_SERVER :: string
  LDAP_BASE_DN :: string
  LDAP_BIND_DN :: string
  LDAP_BIND_PASSWORD :: string
  LDAP_USER_FILTER :: string
  LDAP_GROUP_FILTER :: string
  LDAP_ADMIN_GROUP :: string
  LDAP_OPERATOR_GROUP :: string
  LDAP_USE_SSL :: bool
  LDAP_VERIFY_CERT :: bool
  LDAP_CACHE_TTL_SECONDS :: int
  ANTHROPIC_API_KEYS :: string
  OPENAI_API_KEYS :: string
  AZURE_OPENAI_API_KEYS :: string
  AZURE_OPENAI_ENDPOINT :: string
  AZURE_OPENAI_API_VERSION :: string
  GEMINI_API_KEYS :: string
  GROQ_API_KEYS :: string
  MISTRAL_API_KEYS :: string
  OLLAMA_BASE_URLS :: string
  AWS_BEDROCK_REGION :: string
  KEY_ROTATION_STRATEGY :: string
  KEY_ENCRYPTION_SECRET :: string
  KEY_ENCRYPTION_SECRET_PREVIOUS :: string
  GLOBAL_RATE_LIMIT_RPM :: int
  IP_RATE_LIMIT_RPM :: int
  IP_BAN_THRESHOLD :: int
  IP_BAN_DURATION_SECONDS :: int
  GLOBAL_RATE_LIMIT_TPM :: int
  CLIENT_DEFAULT_TPM :: int
  MAX_REQUEST_BODY_KB :: int
  MAX_MESSAGES_PER_REQUEST :: int
  MAX_TOKENS_PER_REQUEST :: int
  MAX_CONCURRENT_GLOBAL :: int
  MAX_CONTEXT_TOKENS_DEFAULT :: int
  CONTEXT_TRUNCATION_ENABLED :: bool
  CB_FAILURE_THRESHOLD :: int
  CB_RECOVERY_TIMEOUT_SECONDS :: int
  MAX_RETRIES :: int
  ANTHROPIC_TIMEOUT_SECONDS :: int
  OPENAI_TIMEOUT_SECONDS :: int
  GEMINI_TIMEOUT_SECONDS :: int
  OLLAMA_TIMEOUT_SECONDS :: int
  FALLBACK_CHAIN :: string
  REDIS_URL :: string
  DATABASE_URL :: string
  STREAMING_ENABLED :: bool
  PROXY_LOG_LEVEL :: string
  PROXY_LOG_FILE :: string
  LOG_FORMAT :: string
  RETENTION_DAYS :: int
  LOG_REQUEST_BODY :: bool
  LOG_REQUEST_MAX_BODY_CHARS :: int
  ADMIN_SESSION_TIMEOUT_MINUTES :: int
  METRICS_TOKEN :: string
  CORS_ALLOWED_ORIGINS :: string
  AUDIT_DEPS :: bool
  PASSWORD_MIN_LENGTH :: int
  REQUIRE_REQUEST_SIGNING :: bool
  REQUEST_SIGNING_MAX_AGE_SECONDS :: int
  VAULT_ADDR :: string
  VAULT_TOKEN :: string
  WEBHOOK_SECRET :: string
  BACKUP_ENABLED :: bool
  BACKUP_DIR :: string
  BACKUP_KEEP_DAYS :: int
  CACHE_ENABLED :: bool
  CACHE_TTL_SECONDS :: int
  CACHE_MAX_TOKENS :: int
  CACHE_STRATEGY :: string
  GUARD_PROVIDER :: string
  GUARD_MODEL :: string
  GUARD_BASE_URL :: string
  QUEUE_TIMEOUT_SECONDS :: int

definition default_settings :: settings where
  "default_settings = \<lparr>
     ENVIRONMENT = ''development'',
     PROXY_HOST = ''0.0.0.0'',
     PROXY_PORT = 8765,
     PROXY_WORKERS = 1,
     PROXY_DOCS_ENABLED = True,
     PROXY_TLS_ENABLED = False,
     PROXY_TLS_CERT = ''certs/server.crt'',
     PROXY_TLS_KEY = ''certs/server.key'',
     PROXY_TLS_CA = '''',
     PROXY_MTLS_ENABLED = False,
     JWT_SECRET = '''',
     JWT_SECRET_PREVIOUS = '''',
     JWT_EXPIRY_HOURS = 1,
     JWT_REFRESH_EXPIRY_DAYS = 7,
     JWT_ALGORITHM = ''HS256'',
     JWT_BIND_IP = True,
     JWT_MAX_SESSIONS = 3,
     LDAP_ENABLED = False,
     LDAP_SERVER = ''ldap://dc.example.com:389'',
     LDAP_BASE_DN = ''DC=example,DC=com'',
     LDAP_BIND_DN = ''CN=svc-llmsentinel,OU=ServiceAccounts,DC=example,DC=com'',
     LDAP_BIND_PASSWORD = '''',
     LDAP_USER_FILTER = ''(sAMAccountName={username})'',
     LDAP_GROUP_FILTER = ''(member={dn})'',
     LDAP_ADMIN_GROUP = ''CN=LLM-Sentinel-Admins,OU=Groups,DC=example,DC=com'',
     LDAP_OPERATOR_GROUP = ''CN=LLM-Sentinel-Operators,OU=Groups,DC=example,DC=com'',
     LDAP_USE_SSL = False,
     LDAP_VERIFY_CERT = True,
     LDAP_CACHE_TTL_SECONDS = 300,
     ANTHROPIC_API_KEYS = '''',
     OPENAI_API_KEYS = '''',
     AZURE_OPENAI_API_KEYS = '''',
     AZURE_OPENAI_ENDPOINT = '''',
     AZURE_OPENAI_API_VERSION = ''2024-02-01'',
     GEMINI_API_KEYS = '''',
     GROQ_API_KEYS = '''',
     MISTRAL_API_KEYS = '''',
     OLLAMA_BASE_URLS = '''',
     AWS_BEDROCK_REGION = ''us-east-1'',
     KEY_ROTATION_STRATEGY = ''round_robin'',
     KEY_ENCRYPTION_SECRET = '''',
     KEY_ENCRYPTION_SECRET_PREVIOUS = '''',
     GLOBAL_RATE_LIMIT_RPM = 1000,
     IP_RATE_LIMIT_RPM = 60,
     IP_BAN_THRESHOLD = 10,
     IP_BAN_DURATION_SECONDS = 900,
     GLOBAL_RATE_LIMIT_TPM = 500000,
     CLIENT_DEFAULT_TPM = 50000,
     MAX_REQUEST_BODY_KB = 512,
     MAX_MESSAGES_PER_REQUEST = 50,
     MAX_TOKENS_PER_REQUEST = 100000,
     MAX_CONCURRENT_GLOBAL = 100,
     MAX_CONTEXT_TOKENS_DEFAULT = 128000,
     CONTEXT_TRUNCATION_ENABLED = True,
     CB_FAILURE_THRESHOLD = 5,
     CB_RECOVERY_TIMEOUT_SECONDS = 60,
     MAX_RETRIES = 3,
     ANTHROPIC_TIMEOUT_SECONDS = 120,
     OPENAI_TIMEOUT_SECONDS = 120,
     GEMINI_TIMEOUT_SECONDS = 120,
     OLLAMA_TIMEOUT_SECONDS = 300,
     FALLBACK_CHAIN = ''anthropic'',
     REDIS_URL = '''',
     DATABASE_URL = ''sqlite+aiosqlite:///./data/proxy.db'',
     STREAMING_ENABLED = True,
     PROXY_LOG_LEVEL = ''INFO'',
     PROXY_LOG_FILE = ''data/proxy.log'',
     LOG_FORMAT = ''text'',
     RETENTION_DAYS = 90,
     LOG_REQUEST_BODY = False,
     LOG_REQUEST_MAX_BODY_CHARS = 500,
     ADMIN_SESSION_TIMEOUT_MINUTES = 60,
     METRICS_TOKEN = '''',
     CORS_ALLOWED_ORIGINS = ''http://localhost:3000'',
     AUDIT_DEPS = False,
     PASSWORD_MIN_LENGTH = 12,
     REQUIRE_REQUEST_SIGNING = False,
     REQUEST_SIGNING_MAX_AGE_SECONDS = 300,
     VAULT_ADDR = '''',
     VAULT_TOKEN = '''',
     WEBHOOK_SECRET = '''',
     BACKUP_ENABLED = False,
     BACKUP_DIR = ''data/backups'',
     BACKUP_KEEP_DAYS = 7,
     CACHE_ENABLED = True,
     CACHE_TTL_SECONDS = 3600,
     CACHE_MAX_TOKENS = 100000,
     CACHE_STRATEGY = ''exact'',
     GUARD_PROVIDER = '''',
     GUARD_MODEL = '''',
     GUARD_BASE_URL = '''',
     QUEUE_TIMEOUT_SECONDS = 30 \<rparr>"

text \<open>\<open>Settings._split\<close>: the stripped, non-empty items of a comma-separated string.\<close>

definition settings_split :: "string \<Rightarrow> string list" where
  "settings_split val =
     (if val = [] \<or> str_strip val = [] then []
      else map str_strip (filter (\<lambda>item. str_strip item \<noteq> []) (split_on CHR '','' val)))"

definition is_testing :: "settings \<Rightarrow> bool" where
  "is_testing st \<longleftrightarrow> ENVIRONMENT st = ''testing''"

definition is_production :: "settings \<Rightarrow> bool" where
  "is_production st \<longleftrightarrow> ENVIRONMENT st = ''production''"

definition effective_database_url :: "settings \<Rightarrow> string" where
  "effective_database_url st =
     (if is_testing st then ''sqlite+aiosqlite:///:memory:'' else DATABASE_URL st)"

definition has_any_api_keys :: "settings \<Rightarrow> bool" where
  "has_any_api_keys st \<longleftrightarrow>
     list_ex (\<lambda>v. settings_split v \<noteq> [])
       [ANTHROPIC_API_KEYS st, OPENAI_API_KEYS st, AZURE_OPENAI_API_KEYS st, GEMINI_API_KEYS st,
        GROQ_API_KEYS st, MISTRAL_API_KEYS st, OLLAMA_BASE_URLS st]"

definition anthropic_api_keys_list :: "settings \<Rightarrow> string list" where
  "anthropic_api_keys_list st = settings_split (ANTHROPIC_API_KEYS st)"

definition openai_api_keys_list :: "settings \<Rightarrow> string list" where
  "openai_api_keys_list st = settings_split (OPENAI_API_KEYS st)"

definition azure_openai_api_keys_list :: "settings \<Rightarrow> string list" where
  "azure_openai_api_keys_list st = settings_split (AZURE_OPENAI_API_KEYS st)"

definition gemini_api_keys_list :: "settings \<Rightarrow> string list" where
  "gemini_api_keys_list st = settings_split (GEMINI_API_KEYS st)"

definition groq_api_keys_list :: "settings \<Rightarrow> string list" where
  "groq_api_keys_list st = settings_split (GROQ_API_KEYS st)"

definition mistral_api_keys_list :: "settings \<Rightarrow> string list" where
  "mistral_api_keys_list st = settings_split (MISTRAL_API_KEYS st)"

definition fallback_chain_list :: "settings \<Rightarrow> string list" where
  "fallback_chain_list st = settings_split (FALLBACK_CHAIN st)"

definition ollama_base_urls_list :: "settings \<Rightarrow> string list" where
  "ollama_base_urls_list st = settings_split (OLLAMA_BASE_URLS st)"

definition cors_allowed_origins_list :: "settings \<Rightarrow> string list" where
  "cors_allowed_origins_list st = settings_split (CORS_ALLOWED_ORIGINS st)"


section \<open>SecretResolver\<close>

text \<open>
  The host: environment variables, readable files, and the vault client
  (\<^const>\<open>None\<close> when the package is not installed), which is given the address, the token,
  the mount point and the path.
\<close>

record host =
  environ :: "string \<Rightarrow> string option"
  file_text :: "string \<Rightarrow> string option"
  hvac :: "(string \<Rightarrow> string \<Rightarrow> string \<Rightarrow> string \<Rightarrow> jdict res) option"

definition environ_get :: "host \<Rightarrow> string \<Rightarrow> string" where
  "environ_get h k = (case environ h k of None \<Rightarrow> [] | Some v \<Rightarrow> v)"

definition get_env_file :: "host \<Rightarrow> string" where
  "get_env_file h =
     (let env = (case environ h ''ENVIRONMENT'' of None \<Rightarrow> ''development'' | Some v \<Rightarrow> v)
      in if env = ''testing'' then ''.env.test''
         else if env = ''production'' then ''.env.production'' else ''.env'')"

definition resolve_vault :: "pylib \<Rightarrow> host \<Rightarrow> string \<Rightarrow> string res" where
  "resolve_vault pl h path =
     (case hvac h of
        None \<Rightarrow> Inl (OtherError ''ImportError'')
      | Some read_secret \<Rightarrow>
          (let vault_addr = environ_get h ''VAULT_ADDR'';
               vault_token = environ_get h ''VAULT_TOKEN''
           in if vault_addr = [] \<or> vault_token = []
              then Inl (ValueError ''VAULT_ADDR and VAULT_TOKEN must be set for vault:// secrets'')
              else (let parts = split_on CHR ''/'' path in
                    rbind (read_secret vault_addr vault_token (hd parts) (str_join ''/'' (tl parts)))
                      (\<lambda>data. case data of
                         [(_, v)] \<Rightarrow> Inr (to_str pl v)
                       | _ \<Rightarrow> Inr (json_dumps pl (JObj data))))))"

definition secret_resolve :: "pylib \<Rightarrow> host \<Rightarrow> string option \<Rightarrow> string option res" where
  "secret_resolve pl h value =
     (case value of
        None \<Rightarrow> Inr value
      | Some v \<Rightarrow>
          if v = [] then Inr value
          else if prefix ''vault://'' v
            then rbind (resolve_vault pl h (drop 8 v)) (\<lambda>s. Inr (Some s))
          else if prefix ''env://'' v
            then (case environ h (drop 6 v) of
                    None \<Rightarrow> Inl (ValueError (''Environment variable '' @ drop 6 v @ '' not found for env:// secret''))
                  | Some r \<Rightarrow> Inr (Some r))
          else if prefix ''file://'' v
            then (case file_text h (drop 7 v) of
                    None \<Rightarrow> Inl (OtherError ''FileNotFoundError'')
                  | Some t \<Rightarrow> Inr (Some (str_strip t)))
          else Inr value)"


section \<open>Start-up validation\<close>

definition secret_fields :: "((settings \<Rightarrow> string) \<times> (string \<Rightarrow> settings \<Rightarrow> settings)) list" where
  "secret_fields =
     [(JWT_SECRET, \<lambda>v. JWT_SECRET_update (\<lambda>_. v)),
      (JWT_SECRET_PREVIOUS, \<lambda>v. JWT_SECRET_PREVIOUS_update (\<lambda>_. v)),
      (KEY_ENCRYPTION_SECRET, \<lambda>v. KEY_ENCRYPTION_SECRET_update (\<lambda>_. v)),
      (KEY_ENCRYPTION_SECRET_PREVIOUS, \<lambda>v. KEY_ENCRYPTION_SECRET_PREVIOUS_update (\<lambda>_. v)),
      (LDAP_BIND_PASSWORD, \<lambda>v. LDAP_BIND_PASSWORD_update (\<lambda>_. v)),
      (WEBHOOK_SECRET, \<lambda>v. WEBHOOK_SECRET_update (\<lambda>_. v))]"

fun resolve_fields :: "pylib \<Rightarrow> host \<Rightarrow> ((settings \<Rightarrow> string) \<times> (string \<Rightarrow> settings \<Rightarrow> settings)) list
    \<Rightarrow> settings \<Rightarrow> settings res" where
  "resolve_fields pl h [] st = Inr st"
| "resolve_fields pl h ((get_f, set_f) # fs) st =
     (let val = get_f st in
      if val = [] then resolve_fields pl h fs st
      else (case secret_resolve pl h (Some val) of
              Inr resolved \<Rightarrow>
                resolve_fields pl h fs (set_f (case resolved of None \<Rightarrow> [] | Some r \<Rightarrow> r) st)
            | Inl e \<Rightarrow> if is_testing st then resolve_fields pl h fs st else Inl e))"

definition resolve_and_validate :: "pylib \<Rightarrow> host \<Rightarrow> settings \<Rightarrow> settings res" where
  "resolve_and_validate pl h st0 =
     rbind (resolve_fields pl h secret_fields st0) (\<lambda>st.
       if is_testing st then Inr st
       else if JWT_SECRET st = [] \<or> length (JWT_SECRET st) < 32
         then Inl (ValueError ''JWT_SECRET is required and must be at least 32 characters.'')
       else if is_production st \<and> KEY_ENCRYPTION_SECRET st = []
         then Inl (ValueError ''KEY_ENCRYPTION_SECRET is required in production.'')
       else if PROXY_WORKERS st > 1 \<and> KEY_ENCRYPTION_SECRET st = []
         then Inl (ValueError ''KEY_ENCRYPTION_SECRET is required when PROXY_WORKERS > 1'')
       else Inr st)"


section \<open>Properties\<close>

lemma settings_split_items: "w \<in> set (settings_split v) \<Longrightarrow> w \<noteq> []"
  by (auto simp: settings_split_def split: if_splits)

text \<open>Resolving the secrets changes no other field.\<close>

lemma resolve_fields_keeps:
  assumes "\<forall>(g, f) \<in> set fs. \<forall>v st. p (f v st) = p st"
  shows "resolve_fields pl h fs st = Inr st' \<Longrightarrow> p st' = p st"
  using assms
proof (induction pl h fs st rule: resolve_fields.induct)
  case (2 pl h get_f set_f fs st)
  show ?case
  proof (cases "get_f st = []")
    case True
    with 2 show ?thesis by simp
  next
    case False
    with 2 show ?thesis by (auto simp: Let_def split: sum.splits if_splits)
  qed
qed simp

lemma resolve_fields_frame:
  assumes "resolve_fields pl h secret_fields st = Inr st'"
  shows "ENVIRONMENT st' = ENVIRONMENT st" "PROXY_WORKERS st' = PROXY_WORKERS st"
  by (rule resolve_fields_keeps [OF _ assms], simp add: secret_fields_def)+

text \<open>Settings that pass validation outside testing have a JWT secret of at least 32
  characters, and an encryption secret in production and with more than one worker.\<close>

theorem validated_settings_have_secrets:
  assumes "resolve_and_validate pl h st0 = Inr st" and "\<not> is_testing st0"
  shows "32 \<le> length (JWT_SECRET st) \<and>
     (is_production st0 \<longrightarrow> KEY_ENCRYPTION_SECRET st \<noteq> []) \<and>
     (PROXY_WORKERS st0 > 1 \<longrightarrow> KEY_ENCRYPTION_SECRET st \<noteq> [])"
proof -
  from assms(1) obtain st1 where r: "resolve_fields pl h secret_fields st0 = Inr st1"
    by (auto simp: resolve_and_validate_def rbind_Inr_iff)
  have f: "is_testing st1 = is_testing st0" "is_production st1 = is_production st0"
    "PROXY_WORKERS st1 = PROXY_WORKERS st0"
    using resolve_fields_frame [OF r] by (simp_all add: is_testing_def is_production_def)
  from assms(1) have "resolve_and_validate pl h st0 = Inr st" .
  with assms(2) f show ?thesis
    unfolding resolve_and_validate_def r rbind_simps
    by (simp split: if_split_asm)
qed

lemma validated_settings_have_secrets_witness:
  "32 \<le> length (JWT_SECRET (default_settings\<lparr>JWT_SECRET := replicate 32 CHR ''k''\<rparr>))"
proof -
  let ?st = "default_settings\<lparr>JWT_SECRET := replicate 32 CHR ''k''\<rparr>"
  let ?h = "\<lparr>environ = (\<lambda>_. None), file_text = (\<lambda>_. None), hvac = None\<rparr>"
  have "resolve_and_validate plain_lib ?h ?st = Inr ?st" and "\<not> is_testing ?st"
    by (simp_all add: resolve_and_validate_def secret_fields_def secret_resolve_def default_settings_def
        is_testing_def is_production_def numeral_eq_Suc)
  from validated_settings_have_secrets [OF this] show ?thesis by blast
qed

end
