(* ===== verification/RateLimiter.thy ===== *)
theory RateLimiter
  imports RedisClient Config
begin

text \<open>
  \<open>rate_limiter.py\<close>: sliding windows for requests and tokens over the key-value store, the
  concurrency slots, the registry of active requests and the queue statistics.

  Section \<open>Refinement\<close> relates the request window to an abstract list of admission times
  and bounds the admissions of every window.
\<close>


section \<open>Sliding windows\<close>

definition window_seconds :: int where
  "window_seconds = 60"

text \<open>
  \<open>task\<close> is the text of \<open>id(asyncio.current_task())\<close>.
\<close>

definition oldest_ts_of :: "pylib \<Rightarrow> time \<Rightarrow> string \<Rightarrow> time" where
  "oldest_ts_of pl window_start m =
     (case float_parse pl (if CHR '':'' \<in> set m then hd (split_on CHR '':'' m) else m) of
        Some t \<Rightarrow> t | None \<Rightarrow> window_start)"

definition retry_after_of :: "time \<Rightarrow> int \<Rightarrow> time \<Rightarrow> int" where
  "retry_after_of oldest_ts window now = max (py_trunc ((oldest_ts + of_int window) - now) + 1) 1"

definition sliding_window_check ::
    "'s redis_ops \<Rightarrow> pylib \<Rightarrow> time \<Rightarrow> string \<Rightarrow> string \<Rightarrow> int \<Rightarrow> int \<Rightarrow> ('s, bool \<times> int) io" where
  "sliding_window_check rc pl now task key limit window =
     (let window_start = now - of_int window in
      bnd (r_zremrangebyscore rc now key 0 (Some window_start)) (\<lambda>_.
      bnd (r_zrangebyscore rc now key window_start (Some now)) (\<lambda>members.
      if int (length members) \<ge> limit
      then (case members of
              [] \<Rightarrow> ret (False, 1)
            | m # _ \<Rightarrow> ret (False, retry_after_of (oldest_ts_of pl window_start m) window now))
      else
        bnd (r_zadd rc now key [(float_repr pl now @ '':'' @ task, now)]) (\<lambda>_.
        bnd (r_expire rc now key (window + 10)) (\<lambda>_.
        ret (True, 0))))))"

definition check_client_rate ::
    "'s redis_ops \<Rightarrow> pylib \<Rightarrow> settings \<Rightarrow> time \<Rightarrow> string \<Rightarrow> string \<Rightarrow> int \<Rightarrow> ('s, bool \<times> int) io" where
  "check_client_rate rc pl st now task client_id limit_rpm =
     (if is_testing st then ret (True, 0)
      else sliding_window_check rc pl now task (''rl:client:'' @ client_id) limit_rpm window_seconds)"

definition check_global_rate ::
    "'s redis_ops \<Rightarrow> pylib \<Rightarrow> settings \<Rightarrow> time \<Rightarrow> string \<Rightarrow> ('s, bool \<times> int) io" where
  "check_global_rate rc pl st now task =
     (if is_testing st then ret (True, 0)
      else sliding_window_check rc pl now task ''rl:global'' (GLOBAL_RATE_LIMIT_RPM st) window_seconds)"

definition check_ip_rate ::
    "'s redis_ops \<Rightarrow> pylib \<Rightarrow> settings \<Rightarrow> time \<Rightarrow> string \<Rightarrow> string \<Rightarrow> ('s, bool \<times> int) io" where
  "check_ip_rate rc pl st now task ip =
     (if is_testing st then ret (True, 0)
      else sliding_window_check rc pl now task (''rl:ip:'' @ ip) (IP_RATE_LIMIT_RPM st) window_seconds)"

text \<open>The tokens a member records: the second field, 0 when it is missing or not a number.\<close>

definition member_tokens :: "string \<Rightarrow> int" where
  "member_tokens m =
     (case split_on CHR '':'' m of
        _ # p # _ \<Rightarrow> (case parse_int p of Some n \<Rightarrow> n | None \<Rightarrow> 0)
      | _ \<Rightarrow> 0)"

definition token_window_check ::
    "'s redis_ops \<Rightarrow> pylib \<Rightarrow> time \<Rightarrow> string \<Rightarrow> int \<Rightarrow> int \<Rightarrow> int \<Rightarrow> ('s, bool \<times> int) io" where
  "token_window_check rc pl now key tokens_used limit_tpm window =
     (let window_start = now - of_int window in
      bnd (r_zremrangebyscore rc now key 0 (Some window_start)) (\<lambda>_.
      bnd (r_zrangebyscore rc now key window_start (Some now)) (\<lambda>members.
      let total = sum_list (map member_tokens members) in
      if total + tokens_used > limit_tpm
      then (case members of
              [] \<Rightarrow> ret (False, 1)
            | m # _ \<Rightarrow> ret (False, retry_after_of (oldest_ts_of pl window_start m) window now))
      else
        bnd (r_zadd rc now key [(float_repr pl now @ '':'' @ show_int tokens_used, now)]) (\<lambda>_.
        bnd (r_expire rc now key (window + 10)) (\<lambda>_.
        ret (True, 0))))))"

definition check_client_token_rate ::
    "'s redis_ops \<Rightarrow> pylib \<Rightarrow> settings \<Rightarrow> time \<Rightarrow> string \<Rightarrow> int \<Rightarrow> int \<Rightarrow> ('s, bool \<times> int) io" where
  "check_client_token_rate rc pl st now client_id tokens_used tpm_limit =
     (if is_testing st then ret (True, 0)
      else token_window_check rc pl now (''trl:client:'' @ client_id) tokens_used tpm_limit window_seconds)"

definition check_global_token_rate ::
    "'s redis_ops \<Rightarrow> pylib \<Rightarrow> settings \<Rightarrow> time \<Rightarrow> int \<Rightarrow> ('s, bool \<times> int) io" where
  "check_global_token_rate rc pl st now tokens_used =
     (if is_testing st then ret (True, 0)
      else token_window_check rc pl now ''trl:global'' tokens_used (GLOBAL_RATE_LIMIT_TPM st) window_seconds)"


section \<open>Concurrency slots\<close>

text \<open>
  The global semaphore: its counter of free slots, created on first use.  Acquiring with no
  free slot suspends the caller, modelled as \<^const>\<open>None\<close> (the step is not enabled).
\<close>

record limiter =
  global_semaphore :: "int option"
  client_counters :: "(string, int) pydict"
  active_requests :: "(string, jdict) pydict"
  queue_wait_times :: "rat list"

definition new_limiter :: limiter where
  "new_limiter = \<lparr>global_semaphore = None, client_counters = [], active_requests = [],
     queue_wait_times = []\<rparr>"

definition get_global_semaphore :: "settings \<Rightarrow> limiter \<Rightarrow> int" where
  "get_global_semaphore st l =
     (case global_semaphore l of None \<Rightarrow> MAX_CONCURRENT_GLOBAL st | Some v \<Rightarrow> v)"

definition acquire_global_slot :: "settings \<Rightarrow> limiter \<Rightarrow> limiter option" where
  "acquire_global_slot st l =
     (let v = get_global_semaphore st l
      in if v > 0 then Some (l\<lparr>global_semaphore := Some (v - 1)\<rparr>) else None)"

definition release_global_slot :: "settings \<Rightarrow> limiter \<Rightarrow> limiter" where
  "release_global_slot st l = l\<lparr>global_semaphore := Some (get_global_semaphore st l + 1)\<rparr>"

text \<open>The two halves of the context manager \<open>acquire_client_slot\<close>.\<close>

definition enter_client_slot :: "string \<Rightarrow> int \<Rightarrow> (limiter, unit) io" where
  "enter_client_slot client_id max_concurrent l =
     (let current = dict_get 0 client_id (client_counters l)
      in if current \<ge> max_concurrent
         then (Inl (RateLimitExceeded
                 (''Max concurrent requests ('' @ show_int max_concurrent @ '') reached for client'') 0), l)
         else (Inr (), l\<lparr>client_counters := dict_set client_id (current + 1) (client_counters l)\<rparr>))"

definition exit_client_slot :: "string \<Rightarrow> limiter \<Rightarrow> limiter" where
  "exit_client_slot client_id l =
     l\<lparr>client_counters :=
         dict_set client_id (max (dict_get 1 client_id (client_counters l) - 1) 0) (client_counters l)\<rparr>"


section \<open>Active requests and queue statistics\<close>

definition register_active_request :: "time \<Rightarrow> string \<Rightarrow> jdict \<Rightarrow> limiter \<Rightarrow> limiter" where
  "register_active_request now request_id info l =
     l\<lparr>active_requests := dict_set request_id (dict_set ''started_at'' (JFloat now) info) (active_requests l)\<rparr>"

definition unregister_active_request :: "string \<Rightarrow> limiter \<Rightarrow> limiter" where
  "unregister_active_request request_id l = l\<lparr>active_requests := dict_pop request_id (active_requests l)\<rparr>"

definition get_active_requests :: "time \<Rightarrow> limiter \<Rightarrow> jdict list" where
  "get_active_requests now l =
     map (\<lambda>(_, info). dict_set ''elapsed_ms''
            (JInt (py_trunc ((now - (case jget ''started_at'' info of JFloat t \<Rightarrow> t | _ \<Rightarrow> 0)) * 1000))) info)
         (active_requests l)"

definition get_active_count :: "limiter \<Rightarrow> nat" where
  "get_active_count l = length (active_requests l)"

definition record_queue_wait :: "rat \<Rightarrow> limiter \<Rightarrow> limiter" where
  "record_queue_wait wait_ms l =
     (let ws = queue_wait_times l @ [wait_ms]
      in l\<lparr>queue_wait_times := (if length ws > 1000 then tl ws else ws)\<rparr>)"

record queue_status =
  qs_queued :: int
  qs_processing :: int
  qs_max_concurrent :: int
  qs_avg_wait_ms :: rat

definition get_queue_status :: "settings \<Rightarrow> limiter \<Rightarrow> queue_status" where
  "get_queue_status st l =
     (let processing = MAX_CONCURRENT_GLOBAL st - get_global_semaphore st l;
          ws = queue_wait_times l;
          avg_wait = (if ws \<noteq> [] then sum_list ws / of_nat (length ws) else 0)
      in \<lparr>qs_queued = 0, qs_processing = max processing 0,
          qs_max_concurrent = MAX_CONCURRENT_GLOBAL st, qs_avg_wait_ms = py_round avg_wait 2\<rparr>)"


section \<open>Refinement\<close>

text \<open>
  The abstract limiter keeps the list of admission times; a call is admitted when fewer than
  \<open>limit\<close> of them lie in the window before it.
\<close>

definition in_window :: "int \<Rightarrow> time \<Rightarrow> time list \<Rightarrow> nat" where
  "in_window w now A = length (filter (\<lambda>a. now - of_int w < a) A)"

fun abs_window :: "int \<Rightarrow> int \<Rightarrow> time list \<Rightarrow> (time \<times> string) list \<Rightarrow> (time \<times> string) list" where
  "abs_window limit w A [] = []"
| "abs_window limit w A ((now, task) # cs) =
     (if int (in_window w now A) < limit then (now, task) # abs_window limit w (now # A) cs
      else abs_window limit w A cs)"

text \<open>The calls admitted by the store-backed limiter, and the store they leave.\<close>

fun run_window :: "'s redis_ops \<Rightarrow> pylib \<Rightarrow> string \<Rightarrow> int \<Rightarrow> int \<Rightarrow> (time \<times> string) list \<Rightarrow> 's
    \<Rightarrow> (time \<times> string) list \<times> 's" where
  "run_window rc pl key limit w [] s = ([], s)"
| "run_window rc pl key limit w ((now, task) # cs) s =
     (case sliding_window_check rc pl now task key limit w s of
        (Inr (True, _), s') \<Rightarrow>
          (let (adm, s'') = run_window rc pl key limit w cs s' in ((now, task) # adm, s''))
      | (_, s') \<Rightarrow> run_window rc pl key limit w cs s')"

definition member_name :: "pylib \<Rightarrow> time \<times> string \<Rightarrow> string" where
  "member_name pl c = float_repr pl (fst c) @ '':'' @ snd c"

lemma float_repr_inject: "float_text_ok pl \<Longrightarrow> float_repr pl x = float_repr pl y \<Longrightarrow> x = y"
  by (metis float_text_ok_def option.inject)

lemma member_name_inject:
  assumes "float_text_ok pl" and "member_name pl c = member_name pl c'"
  shows "c = c'"
proof -
  have *: "hd (split_on CHR '':'' (member_name pl x)) = float_repr pl (fst x)" for x
    using assms(1) by (simp add: member_name_def float_text_ok_def split_on_append)
  have f: "fst c = fst c'" using * assms float_repr_inject by metis
  with assms(2) show ?thesis by (simp add: member_name_def prod_eq_iff)
qed

text \<open>
  The representation: the live sorted set at \<open>key\<close> holds only admitted calls, and every
  admitted call that may still matter.
\<close>

definition zset_rep :: "pylib \<Rightarrow> int \<Rightarrow> time \<Rightarrow> (time \<times> string) list \<Rightarrow> (string, rat) pydict \<Rightarrow> bool" where
  "zset_rep pl w t adm z \<longleftrightarrow>
     dict_wf z \<and> (\<forall>(m, a) \<in> set z. \<exists>c \<in> set adm. m = member_name pl c \<and> a = fst c) \<and>
     (\<forall>c \<in> set adm. t - of_int w < fst c \<longrightarrow> (member_name pl c, fst c) \<in> set z)"

definition window_rep ::
    "'s view \<Rightarrow> pylib \<Rightarrow> string \<Rightarrow> int \<Rightarrow> time \<Rightarrow> (time \<times> string) list \<Rightarrow> 's \<Rightarrow> bool" where
  "window_rep look pl key w t0 adm s \<longleftrightarrow>
     (\<forall>t\<ge>t0. (look s t key = None \<or> (\<exists>z e. look s t key = Some (SZset z, e))) \<and>
              zset_rep pl w t adm (zset_of (look s t key)))"

lemma zset_rep_trim:
  "zset_rep pl w u adm z \<Longrightarrow> now \<le> u \<Longrightarrow> zset_rep pl w u adm (zrem 0 (Some (now - of_int w)) z)"
  by (fastforce simp: zset_rep_def zrem_def score_le_def distinct_map_filter)

lemma zset_rep_mono: "zset_rep pl w t adm z \<Longrightarrow> t \<le> t' \<Longrightarrow> zset_rep pl w t' adm z"
  by (auto simp: zset_rep_def)

lemma zrange_filter: "length (zrange lo ub z) = length (filter (\<lambda>p. lo \<le> snd p \<and> score_le (snd p) ub) z)"
  by (simp add: zrange_def filter_sort)

text \<open>Entries left after trimming are as many as the abstract window counts.\<close>

lemma window_count:
  assumes pl: "float_text_ok pl" and d: "distinct adm" and z: "zset_rep pl w now adm z"
    and t: "\<forall>c \<in> set adm. 0 \<le> fst c \<and> fst c \<le> now"
  shows "length (zrange (now - of_int w) (Some now) (zrem 0 (Some (now - of_int w)) z))
           = in_window w now (map fst adm)"
proof -
  let ?ws = "now - of_int w :: rat"
  let ?z = "filter (\<lambda>p. ?ws < snd p) z"
  let ?adm = "filter (\<lambda>c. ?ws < fst c) adm"
  have b: "\<forall>p \<in> set z. 0 \<le> snd p \<and> snd p \<le> now"
    using z t by (fastforce simp: zset_rep_def)
  have "filter (\<lambda>p. ?ws \<le> snd p \<and> score_le (snd p) (Some now)) (zrem 0 (Some ?ws) z) = ?z"
    using b by (auto simp: zrem_def score_le_def intro!: filter_cong)
  then have "length (zrange ?ws (Some now) (zrem 0 (Some ?ws) z)) = length ?z"
    by (simp add: zrange_filter)
  also have "\<dots> = card (set ?z)"
    using z by (intro distinct_card [symmetric] distinct_filter) (simp add: zset_rep_def distinct_map)
  also have "set ?z = (\<lambda>c. (member_name pl c, fst c)) ` set ?adm"
    using z by (fastforce simp: zset_rep_def)
  also have "card \<dots> = card (set ?adm)"
    by (rule card_image) (auto simp: inj_on_def dest: member_name_inject [OF pl])
  also have "\<dots> = in_window w now (map fst adm)"
    using d distinct_card [OF distinct_filter [OF d]] by (simp add: in_window_def filter_map comp_def)
  finally show ?thesis .
qed

lemma live_value: "live u (v, e) = (if entry_expired u (SStr [], e) then None else Some (v, e))"
  by (simp add: live_def entry_expired_def)

text \<open>The first member of a range has the least score, and its text gives the score back.\<close>

lemma zrange_Cons:
  assumes "zrange lo ub z = m # ms"
  shows "\<exists>sc. (m, sc) \<in> set z \<and> lo \<le> sc \<and> score_le sc ub \<and>
           (\<forall>p \<in> set z. lo \<le> snd p \<and> score_le (snd p) ub \<longrightarrow> sc \<le> snd p)"
proof -
  let ?P = "\<lambda>p :: string \<times> rat. lo \<le> snd p \<and> score_le (snd p) ub"
  obtain q qs where q: "sort_key snd (filter ?P z) = q # qs" "fst q = m"
    using assms by (auto simp: zrange_def filter_sort)
  have e: "set (filter ?P z) = set (q # qs)" by (metis q(1) set_sort)
  have "sorted (map snd (q # qs))" by (metis q(1) sorted_sort_key)
  then have "\<forall>p \<in> set (filter ?P z). snd q \<le> snd p" unfolding e by auto
  moreover have "q \<in> set (filter ?P z)" unfolding e by simp
  ultimately show ?thesis using q(2) by (intro exI [of _ "snd q"]) auto
qed

lemma oldest_ts_member:
  "float_text_ok pl \<Longrightarrow> oldest_ts_of pl ws (member_name pl c) = fst c"
  by (simp add: oldest_ts_of_def member_name_def float_text_ok_def split_on_append)

definition oldest_in_window :: "int \<Rightarrow> time \<Rightarrow> time list \<Rightarrow> time \<Rightarrow> bool" where
  "oldest_in_window w now A a \<longleftrightarrow> a \<in> set A \<and> now - of_int w < a \<and> (\<forall>b \<in> set A. now - of_int w < b \<longrightarrow> a \<le> b)"

lemma zset_rep_oldest:
  assumes pl: "float_text_ok pl" and z: "zset_rep pl w now adm z" and t: "\<forall>c \<in> set adm. 0 \<le> fst c \<and> fst c \<le> now"
    and m: "zrange (now - of_int w) (Some now) (zrem 0 (Some (now - of_int w)) z) = m # ms"
  shows "oldest_in_window w now (map fst adm) (oldest_ts_of pl (now - of_int w) m)"
proof -
  obtain sc where sc: "(m, sc) \<in> set (zrem 0 (Some (now - of_int w)) z)"
      "\<forall>p \<in> set (zrem 0 (Some (now - of_int w)) z).
         now - of_int w \<le> snd p \<and> score_le (snd p) (Some now) \<longrightarrow> sc \<le> snd p"
    using zrange_Cons [OF m] by blast
  then obtain c where c: "c \<in> set adm" "m = member_name pl c" "sc = fst c"
    using z by (fastforce simp: zset_rep_def zrem_def)
  have "now - of_int w < sc" using sc(1) c t by (auto simp: zrem_def score_le_def)
  moreover have "sc \<le> b" if "b \<in> fst ` set adm" "now - of_int w < b" for b
    using sc(2) z that t by (fastforce simp: zset_rep_def zrem_def score_le_def)
  ultimately show ?thesis using c by (simp add: oldest_in_window_def oldest_ts_member [OF pl])
qed

context kv_store
begin

text \<open>The three effects of a check, over the live view: trimming, counting, recording.\<close>

lemma window_rep_trim:
  assumes I: "inv s" and R: "window_rep look pl key w t0 adm s" and t: "t0 \<le> now"
  shows "\<exists>s1 n. r_zremrangebyscore ops now key 0 (Some (now - of_int w)) s = (Inr n, s1) \<and> inv s1 \<and>
           window_rep look pl key w now adm s1 \<and>
           zset_of (look s1 now key) = zrem 0 (Some (now - of_int w)) (zset_of (look s now key))"
proof -
  let ?ws = "now - of_int w :: rat"
  consider "look s now key = None" | z e where "look s now key = Some (SZset z, e)"
    using R t by (auto simp: window_rep_def)
  then show ?thesis
  proof cases
    case 1
    with I kv_zrem_none obtain n s1 where s1: "r_zremrangebyscore ops now key 0 (Some ?ws) s = (Inr n, s1)"
      "inv s1" "same_view look now s s1" by blast
    then have "window_rep look pl key w now adm s1"
      using R t by (simp add: window_rep_def same_view_def)
    with s1 1 show ?thesis by (auto simp: same_view_def zset_of_def zrem_def)
  next
    case 2
    with I kv_zrem obtain n s1 where s1: "r_zremrangebyscore ops now key 0 (Some ?ws) s = (Inr n, s1)"
      "inv s1" "updates look now s key (Some (SZset (zrem 0 (Some ?ws) z), e)) s1" by blast
    have l: "look s u key = live u (SZset z, e)" "look s1 u key = live u (SZset (zrem 0 (Some ?ws) z), e)"
      if "u \<ge> now" for u
      using kv_later [OF I that, of key] 2 s1(3) that by (simp_all add: updates_def)
    have "zset_of (look s1 now key) = zrem 0 (Some ?ws) (zset_of (look s now key))"
      using l [of now] 2 by (auto simp: live_value zset_of_def split: if_splits)
    moreover have "window_rep look pl key w now adm s1"
      unfolding window_rep_def
    proof (intro allI impI)
      fix u assume u: "u \<ge> now"
      with R t have "zset_rep pl w u adm (zset_of (live u (SZset z, e)))"
        by (auto simp: window_rep_def l(1) [symmetric])
      then show "(look s1 u key = None \<or> (\<exists>z e. look s1 u key = Some (SZset z, e))) \<and>
          zset_rep pl w u adm (zset_of (look s1 u key))"
        by (cases "entry_expired u (SStr [], e)")
           (simp_all add: l(2) [OF u] live_value zset_of_def zset_rep_trim [OF _ u])
    qed
    ultimately show ?thesis using s1 by blast
  qed
qed

lemma window_rep_same_view:
  "window_rep look pl key w now adm s \<Longrightarrow> same_view look now s s' \<Longrightarrow> window_rep look pl key w now adm s'"
  by (simp add: window_rep_def same_view_def)

lemma zset_rep_record:
  assumes pl: "float_text_ok pl" and z: "zset_rep pl w now adm z" and c: "c \<notin> set adm" "fst c = now"
  shows "zset_rep pl w now (c # adm) (zset_update z [(member_name pl c, now)])"
proof -
  let ?m = "member_name pl c"
  have f: "?m \<notin> fst ` set z"
  proof
    assume "?m \<in> fst ` set z"
    then obtain c' where "c' \<in> set adm" "?m = member_name pl c'"
      using z by (fastforce simp: zset_rep_def)
    with c(1) member_name_inject [OF pl] show False by metis
  qed
  have "zset_update z [(?m, now)] = z @ [(?m, now)]" by (simp add: dict_set_fresh [OF f])
  with z c f show ?thesis by (auto simp: zset_rep_def)
qed

lemma window_rep_record:
  assumes pl: "float_text_ok pl" and I: "inv s" and R: "window_rep look pl key w now adm s"
    and c: "c \<notin> set adm" "fst c = now" and w: "0 < w" and t: "\<forall>c \<in> set adm. fst c \<le> now"
  shows "\<exists>n s1 b s2. r_zadd ops now key [(member_name pl c, now)] s = (Inr n, s1) \<and>
            r_expire ops now key (w + 10) s1 = (Inr b, s2) \<and> inv s2 \<and>
            window_rep look pl key w now (c # adm) s2"
proof -
  let ?z = "zset_update (zset_of (look s now key)) [(member_name pl c, now)]"
  let ?e = "expiry_of (look s now key)"
  obtain n s1 where s1: "r_zadd ops now key [(member_name pl c, now)] s = (Inr n, s1)" "inv s1"
      "updates look now s key (Some (SZset ?z, ?e)) s1"
    using kv_zadd [OF I] by blast
  have "\<not> entry_expired now (SStr [], ?e)"
    using kv_later [OF I order_refl, of now key]
    by (cases "look s now key") (auto simp: expiry_of_def live_value entry_expired_def split: if_splits)
  then have l1: "look s1 now key = Some (SZset ?z, ?e)"
    using s1(3) by (simp add: updates_def live_value)
  obtain s2 where s2: "r_expire ops now key (w + 10) s1 = (Inr True, s2)" "inv s2"
      "updates look now s1 key (Some (SZset ?z, Some (now + of_int (w + 10)))) s2"
    using kv_expire [OF s1(2) l1] by blast
  have z: "zset_rep pl w now (c # adm) ?z"
    using R by (intro zset_rep_record [OF pl _ c]) (simp add: window_rep_def)
  have "window_rep look pl key w now (c # adm) s2"
    unfolding window_rep_def
  proof (intro allI impI)
    fix u assume u: "u \<ge> now"
    then have l2: "look s2 u key = live u (SZset ?z, Some (now + of_int (w + 10)))"
      using s2(3) by (simp add: updates_def)
    show "(look s2 u key = None \<or> (\<exists>z e. look s2 u key = Some (SZset z, e))) \<and>
        zset_rep pl w u (c # adm) (zset_of (look s2 u key))"
    proof (cases "u > now + of_int (w + 10)")
      case True
      then have "\<forall>c' \<in> set (c # adm). \<not> u - of_int w < fst c'" using t c by auto
      with True show ?thesis by (auto simp: l2 live_Some zset_of_def zset_rep_def)
    next
      case False
      with z u show ?thesis by (auto simp: l2 live_Some zset_of_def intro: zset_rep_mono)
    qed
  qed
  with s1 s2 show ?thesis by blast
qed

text \<open>One call agrees with the abstract window.\<close>

lemma sliding_window_step:
  fixes limit :: int
  assumes pl: "float_text_ok pl" and I: "inv s" and R: "window_rep look pl key w t0 adm s"
    and t: "t0 \<le> now" "0 \<le> now" and d: "distinct adm" and c: "(now, task) \<notin> set adm" and w: "0 < w"
    and a: "\<forall>c \<in> set adm. 0 \<le> fst c \<and> fst c \<le> t0"
  defines "ok \<equiv> int (in_window w now (map fst adm)) < limit"
  shows "\<exists>r s'. sliding_window_check ops pl now task key limit w s = (Inr (ok, r), s') \<and> inv s' \<and>
           window_rep look pl key w now (if ok then (now, task) # adm else adm) s' \<and>
           (\<not> ok \<longrightarrow> 0 < limit \<longrightarrow>
             (\<exists>a. oldest_in_window w now (map fst adm) a \<and> r = retry_after_of a w now))"
proof -
  let ?ws = "now - of_int w :: rat"
  obtain s1 n where s1: "r_zremrangebyscore ops now key 0 (Some ?ws) s = (Inr n, s1)" "inv s1"
      "window_rep look pl key w now adm s1"
      "zset_of (look s1 now key) = zrem 0 (Some ?ws) (zset_of (look s now key))"
    using window_rep_trim [OF I R t(1)] by blast
  obtain s2 where s2: "r_zrangebyscore ops now key ?ws (Some now) s1 =
        (Inr (zrange ?ws (Some now) (zset_of (look s1 now key))), s2)" "inv s2" "same_view look now s1 s2"
    using kv_zrange [OF s1(2)] by blast
  have R2: "window_rep look pl key w now adm s2" by (rule window_rep_same_view [OF s1(3) s2(3)])
  have z: "zset_rep pl w now adm (zset_of (look s now key))" using R t by (simp add: window_rep_def)
  have a': "\<forall>c \<in> set adm. 0 \<le> fst c \<and> fst c \<le> now" using a t by auto
  have len: "length (zrange ?ws (Some now) (zset_of (look s1 now key))) = in_window w now (map fst adm)"
    unfolding s1(4) by (rule window_count [OF pl d z a'])
  show ?thesis
  proof (cases ok)
    case True
    obtain n s3 b s4 where s4: "r_zadd ops now key [(member_name pl (now, task), now)] s2 = (Inr n, s3)"
        "r_expire ops now key (w + 10) s3 = (Inr b, s4)" "inv s4"
        "window_rep look pl key w now ((now, task) # adm) s4"
      using window_rep_record [OF pl s2(2) R2 c _ w] a t by fastforce
    have "sliding_window_check ops pl now task key limit w s = (Inr (True, 0), s4)"
      using True s4(1,2) by (simp add: sliding_window_check_def s1(1) s2(1) bnd_def len ok_def member_name_def Let_def)
    with True s4 show ?thesis by auto
  next
    case False
    show ?thesis
    proof (cases "zrange ?ws (Some now) (zset_of (look s1 now key))")
      case Nil
      with False len have "\<not> 0 < limit" by (simp add: ok_def)
      moreover have "sliding_window_check ops pl now task key limit w s = (Inr (False, 1), s2)"
        using Nil \<open>\<not> 0 < limit\<close> by (simp add: sliding_window_check_def s1(1) s2(1) bnd_def Let_def)
      ultimately show ?thesis using False R2 s2(2) by auto
    next
      case (Cons m ms)
      have "oldest_in_window w now (map fst adm) (oldest_ts_of pl ?ws m)"
        by (rule zset_rep_oldest [OF pl z a' Cons [unfolded s1(4)]])
      moreover have "sliding_window_check ops pl now task key limit w s =
          (Inr (False, retry_after_of (oldest_ts_of pl ?ws m) w now), s2)"
        using False Cons len by (simp add: sliding_window_check_def s1(1) s2(1) bnd_def ok_def Let_def)
      ultimately show ?thesis using False R2 s2(2) by auto
    qed
  qed
qed

lemma run_window_refines:
  assumes pl: "float_text_ok pl" and w: "0 < w"
  shows "inv s \<Longrightarrow> window_rep look pl key w t0 adm s \<Longrightarrow> distinct (adm @ cs) \<Longrightarrow>
     sorted (map fst cs) \<Longrightarrow> \<forall>c \<in> set cs. t0 \<le> fst c \<Longrightarrow> 0 \<le> t0 \<Longrightarrow>
     \<forall>c \<in> set adm. 0 \<le> fst c \<and> fst c \<le> t0 \<Longrightarrow>
     \<exists>t1 s'. run_window ops pl key limit w cs s = (abs_window limit w (map fst adm) cs, s') \<and> inv s' \<and>
       window_rep look pl key w t1 (rev (abs_window limit w (map fst adm) cs) @ adm) s' \<and>
       t1 = (if cs = [] then t0 else fst (last cs))"
proof (induction cs arbitrary: s adm t0)
  case (Cons c cs)
  obtain now task where c: "c = (now, task)" by (cases c)
  define ok where "ok = (int (in_window w now (map fst adm)) < limit)"
  let ?adm = "if ok then (now, task) # adm else adm"
  have "(now, task) \<notin> set adm" using Cons.prems(3) c by auto
  then obtain r s1 where s1: "sliding_window_check ops pl now task key limit w s = (Inr (ok, r), s1)"
      "inv s1" "window_rep look pl key w now ?adm s1"
    using sliding_window_step [OF pl Cons.prems(1,2), of now task limit] w Cons.prems c
    unfolding ok_def by auto
  have "\<exists>t1 s'. run_window ops pl key limit w cs s1 = (abs_window limit w (map fst ?adm) cs, s') \<and> inv s' \<and>
      window_rep look pl key w t1 (rev (abs_window limit w (map fst ?adm) cs) @ ?adm) s' \<and>
      t1 = (if cs = [] then now else fst (last cs))"
    using Cons.prems c by (intro Cons.IH [OF s1(2,3)]) (auto intro: order_trans)
  with s1(1) show ?case by (auto simp: c ok_def [symmetric] split: if_splits)
qed simp

text \<open>A check touches no key but its own, whatever the store holds there.\<close>

lemma look_alive: "inv s \<Longrightarrow> look s now k = Some (v, e) \<Longrightarrow> live now (v, e) = Some (v, e)"
  using kv_later [of s now now k] by simp

lemma zset_alive: "inv s \<Longrightarrow> live now (SZset z, expiry_of (look s now k)) = Some (SZset z, expiry_of (look s now k))"
  by (cases "look s now k") (auto simp: expiry_of_def live_def entry_expired_def split: option.splits dest!: look_alive)

lemma sliding_window_frame:
  assumes "inv s" and "sliding_window_check ops pl now task key limit w s = (x, s')"
  shows "inv s' \<and> frame_but look now key s s'"
proof -
  let ?ws = "now - of_int w :: rat"
  obtain n s1 where 1: "r_zremrangebyscore ops now key 0 (Some ?ws) s = (Inr n, s1)" "inv s1" "frame_but look now key s s1"
    using kv_zrem_frame [OF assms(1), of now key 0 "Some ?ws"] by blast
  obtain ms s2 where 2: "r_zrangebyscore ops now key ?ws (Some now) s1 = (Inr ms, s2)" "inv s2" "same_view look now s1 s2"
    using kv_zrange [OF 1(2), of now key ?ws "Some now"] by blast
  obtain n3 s3 where 3: "r_zadd ops now key [(float_repr pl now @ '':'' @ task, now)] s2 = (Inr n3, s3)" "inv s3"
      "updates look now s2 key (Some (SZset (zset_update (zset_of (look s2 now key)) [(float_repr pl now @ '':'' @ task, now)]),
         expiry_of (look s2 now key))) s3"
    using kv_zadd [OF 2(2), of now key "[(float_repr pl now @ '':'' @ task, now)]"] by blast
  have "look s3 now key \<noteq> None" using 3(3) zset_alive [OF 2(2)] by (simp add: updates_def)
  then obtain v e where "look s3 now key = Some (v, e)" by auto
  from kv_expire [OF 3(2) this, of "w + 10"] obtain s4 where
    4: "r_expire ops now key (w + 10) s3 = (Inr True, s4)" "inv s4" "frame_but look now key s3 s4"
    by (auto simp: updates_def frame_but_def)
  have "frame_but look now key s s2" "frame_but look now key s s4"
    using 1(3) 2(3) 3(3) 4(3) by (auto simp: frame_but_def same_view_def updates_def)
  then show ?thesis using assms(2) 2(2) 4(2)
    by (auto simp: sliding_window_check_def bnd_def 1(1) 2(1) 3(1) [simplified] 4(1) Let_def split: if_splits list.splits)
qed

lemma window_rep_empty: "\<forall>t\<ge>t0. look s t key = None \<Longrightarrow> window_rep look pl key w t0 [] s"
  by (simp add: window_rep_def zset_rep_def zset_of_def)

end

text \<open>The abstract limiter bounds the admissions of every window, wherever it ends.\<close>

lemma abs_window_subseq: "set (abs_window limit w A cs) \<subseteq> set cs"
  by (induction limit w A cs rule: abs_window.induct) auto

lemma in_window_antimono: "t \<le> t' \<Longrightarrow> in_window w t' A \<le> in_window w t A"
  unfolding in_window_def by (rule length_filter_mono_le) auto

lemma abs_window_bound:
  "sorted (map fst cs) \<Longrightarrow> \<forall>a \<in> set A. \<forall>c \<in> set cs. a \<le> fst c \<Longrightarrow>
   length (filter (\<lambda>a. t - of_int w < a \<and> a \<le> t) A) \<le> B \<Longrightarrow> nat limit \<le> B \<Longrightarrow>
   length (filter (\<lambda>a. t - of_int w < a \<and> a \<le> t) (map fst (abs_window limit w A cs) @ A)) \<le> B"
proof (induction limit w A cs rule: abs_window.induct)
  case (2 limit w A now task cs)
  let ?P = "\<lambda>a. t - of_int w < a \<and> a \<le> t"
  show ?case
  proof (cases "int (in_window w now A) < limit")
    case True
    have "length (filter ?P (now # A)) \<le> B"
    proof (cases "?P now")
      case p: True
      then have "length (filter ?P A) \<le> in_window w now A"
        unfolding in_window_def by (intro length_filter_mono_le) auto
      with True p "2.prems"(4) show ?thesis by simp
    qed (use "2.prems"(3) in auto)
    moreover have "\<forall>a \<in> set (now # A). \<forall>c \<in> set cs. a \<le> fst c" using "2.prems"(1,2) by auto
    ultimately have "length (filter ?P (map fst (abs_window limit w (now # A) cs) @ now # A)) \<le> B"
      using "2.prems" True by (intro "2.IH"(1)) auto
    with True show ?thesis by (auto split: if_splits)
  next
    case False
    with "2.prems" show ?thesis by (auto intro!: "2.IH"(2) [simplified])
  qed
qed simp

lemma abs_window_subset: "set (map fst (abs_window limit w A cs)) \<subseteq> set (map fst cs)"
  using abs_window_subseq by fastforce

lemma abs_window_sorted: "sorted (map fst cs) \<Longrightarrow> sorted (map fst (abs_window limit w A cs))"
proof (induction limit w A cs rule: abs_window.induct)
  case (2 limit w A now task cs)
  then show ?case using abs_window_subseq [of limit w "now # A" cs] by (auto simp: Ball_def)
qed simp

lemma abs_window_distinct: "distinct cs \<Longrightarrow> distinct (abs_window limit w A cs)"
  using abs_window_subseq by (induction limit w A cs rule: abs_window.induct) fastforce+

text \<open>After the hinted delay the oldest admission has left the window.\<close>

lemma retry_after_leaves:
  "oldest_ts + of_int w < now + of_int (retry_after_of oldest_ts w now)"
proof -
  have "x < of_int (max (py_trunc x + 1) 1)" for x :: rat
    by (simp add: py_trunc_def max_def) linarith
  from this [of "oldest_ts + of_int w - now"] show ?thesis by (simp add: retry_after_of_def)
qed

lemma retry_after_pos: "1 \<le> retry_after_of a w now"
  by (simp add: retry_after_of_def)

lemma in_window_after_oldest:
  assumes "oldest_in_window w now A a" and "a + of_int w < t" and "now \<le> t"
  shows "in_window w t A < in_window w now A"
  using assms unfolding in_window_def oldest_in_window_def
  by (intro length_filter_strict [of _ _ _ a]) auto

lemma abs_window_count:
  assumes "sorted (map fst cs)" and "\<forall>c \<in> set cs. fst c \<le> now" and "0 \<le> limit"
  shows "int (in_window w now (map fst (abs_window limit w [] cs))) \<le> limit"
proof -
  have "in_window w now (map fst (abs_window limit w [] cs)) =
      length (filter (\<lambda>a. now - of_int w < a \<and> a \<le> now) (map fst (abs_window limit w [] cs)))"
    unfolding in_window_def using abs_window_subset [of limit w "[]" cs] assms(2)
    by (intro arg_cong [of _ _ length] filter_cong) fastforce+
  also have "\<dots> \<le> nat limit"
    using abs_window_bound [OF assms(1), of "[]" now w "nat limit" limit] by simp
  finally show ?thesis using assms(3) by linarith
qed

lemma in_window_rev_map: "in_window w t (map fst (rev A)) = in_window w t (map fst A)"
  by (simp add: in_window_def rev_map [symmetric] rev_filter [symmetric])

context kv_store
begin

lemma retry_after_admits:
  assumes pl: "float_text_ok pl" and w: "0 < w" "0 < limit" and I: "inv s" and e: "\<forall>t\<ge>0. look s t key = None"
    and cs: "distinct cs" "sorted (map fst cs)" "\<forall>c \<in> set cs. 0 \<le> fst c \<and> fst c \<le> now" "(now, task) \<notin> set cs"
    and now: "0 \<le> now" and run: "run_window ops pl key limit w cs s = (adm, s1)"
    and no: "sliding_window_check ops pl now task key limit w s1 = (Inr (False, r), s2)"
    and t: "now + of_int r \<le> t"
  shows "\<exists>s3 r'. sliding_window_check ops pl t task' key limit w s2 = (Inr (True, r'), s3)"
proof -
  have adm: "adm = abs_window limit w [] cs"
    and s1: "inv s1" "window_rep look pl key w (if cs = [] then 0 else fst (last cs)) (rev adm) s1"
    using run_window_refines [OF pl w(1) I window_rep_empty [OF e], of cs limit] run cs by auto
  let ?t0 = "if cs = [] then 0 else fst (last cs)"
  have last: "\<forall>c \<in> set cs. fst c \<le> ?t0"
    using cs(2) by (cases cs rule: rev_cases) (auto simp: sorted_append)
  have sub: "set adm \<subseteq> set cs" unfolding adm by (rule abs_window_subseq)
  have t0: "?t0 \<le> now" using cs(3) now by simp
  have d: "distinct (rev adm)" using abs_window_distinct [OF cs(1)] adm by simp
  have A: "\<forall>c \<in> set (rev adm). 0 \<le> fst c \<and> fst c \<le> ?t0" using sub last cs(3) by fastforce
  have "(now, task) \<notin> set (rev adm)" using sub cs(4) by auto
  from sliding_window_step [OF pl s1 t0 now d this w(1) A, of limit] no w(2)
  obtain a where s2: "inv s2" "window_rep look pl key w now (rev adm) s2"
    "oldest_in_window w now (map fst (rev adm)) a" "r = retry_after_of a w now"
    by (auto split: if_splits)
  have r: "1 \<le> r" using s2(4) retry_after_pos by simp
  then have "(1 :: rat) \<le> of_int r" by simp
  then have tn: "now < t" using t by linarith
  have "a + of_int w < t" using retry_after_leaves [of a w now] s2(4) t by simp
  with s2(3) tn have "in_window w t (map fst (rev adm)) < in_window w now (map fst (rev adm))"
    by (intro in_window_after_oldest) auto
  moreover have "int (in_window w now (map fst (rev adm))) \<le> limit"
    using abs_window_count [OF cs(2), of now limit w] cs(3) w(2) adm by (auto simp: in_window_rev_map)
  ultimately have ok: "int (in_window w t (map fst (rev adm))) < limit" by linarith
  have A': "\<forall>c \<in> set (rev adm). 0 \<le> fst c \<and> fst c \<le> now" using sub cs(3) by auto
  then have "(t, task') \<notin> set (rev adm)" using tn by auto
  from sliding_window_step [OF pl s2(1,2) less_imp_le [OF tn] _ d this w(1) A', of limit] ok tn now
  show ?thesis by auto
qed

end


section \<open>Properties of the windows\<close>

text \<open>C20.  In fallback mode the store-backed limiter admits exactly the calls the abstract sliding
  window admits: a call passes when fewer than \<open>limit\<close> calls were admitted in the
  \<open>w\<close> seconds before it, whatever keys of the store expire meanwhile.\<close>

theorem fallback_limiter_refines:
  fixes lib :: "'r aioredis"
  assumes "float_text_ok pl" and "0 < w" and "in_fallback url c" and "\<forall>t\<ge>0. rc_look c t key = None"
    and "distinct cs" and "sorted (map fst cs)" and "\<forall>c \<in> set cs. 0 \<le> fst c"
  shows "fst (run_window (redis_module lib url) pl key limit w cs c) = abs_window limit w [] cs"
  using rc.run_window_refines [OF assms(1,2,3) rc.window_rep_empty [OF assms(4)], where cs = cs and limit = limit and lib = lib] assms by auto

text \<open>C17.  No window of \<open>w\<close> seconds, wherever it ends, holds more admitted calls than the limit.\<close>

theorem window_admissions_bounded:
  fixes lib :: "'r aioredis"
  assumes "float_text_ok pl" and "0 < w" and "in_fallback url c" and "\<forall>t\<ge>0. rc_look c t key = None"
    and "distinct cs" and "sorted (map fst cs)" and "\<forall>c \<in> set cs. 0 \<le> fst c" and "0 \<le> limit"
  shows "int (length (filter (\<lambda>p. t - of_int w < fst p \<and> fst p \<le> t)
           (fst (run_window (redis_module lib url) pl key limit w cs c)))) \<le> limit"
proof -
  have "fst (run_window (redis_module lib url) pl key limit w cs c) = abs_window limit w [] cs"
    using rc.run_window_refines [OF assms(1,2,3) rc.window_rep_empty [OF assms(4)], where cs = cs and limit = limit and lib = lib] assms by auto
  moreover have "length (filter (\<lambda>a. t - of_int w < a \<and> a \<le> t) (map fst (abs_window limit w [] cs) @ [])) \<le> nat limit"
    using abs_window_bound [OF assms(6), of "[]" t w "nat limit" limit] by simp
  ultimately show ?thesis using assms(8) by (simp add: filter_map comp_def)
qed

text \<open>C26.  The Retry-After hint suffices: a refused caller that waits the hinted seconds, while
  nobody else calls, is admitted.\<close>

theorem retry_after_suffices:
  fixes lib :: "'r aioredis"
  assumes "float_text_ok pl" and "0 < w" and "0 < limit" and "in_fallback url c"
    and "\<forall>t\<ge>0. rc_look c t key = None"
    and "distinct cs" and "sorted (map fst cs)" and "\<forall>c \<in> set cs. 0 \<le> fst c \<and> fst c \<le> now"
    and "(now, task) \<notin> set cs" and "0 \<le> now"
    and "run_window (redis_module lib url) pl key limit w cs c = (adm, c1)"
    and "sliding_window_check (redis_module lib url) pl now task key limit w c1 = (Inr (False, r), c2)"
    and "now + of_int r \<le> t"
  shows "\<exists>c3 r'. sliding_window_check (redis_module lib url) pl t task' key limit w c2 = (Inr (True, r'), c3)"
  by (rule rc.retry_after_admits [OF assms])

lemma no_redis_fallback: "in_fallback [] new_redis_client" "\<forall>t\<ge>0. rc_look new_redis_client t key = None"
  by (simp_all add: in_fallback_def new_redis_client_def rc_look_def mem_look_def)

lemma fallback_limiter_refines_witness:
  "fst (run_window (redis_module no_redis_lib []) plain_lib ''rl:global'' 2 60
       [(0, ''a''), (1, ''b''), (2, ''c''), (61, ''d'')] new_redis_client) =
     [(0, ''a''), (1, ''b''), (61, ''d'')]"
  by (subst fallback_limiter_refines [OF plain_lib_floats _ no_redis_fallback])
     (simp_all add: in_window_def)

lemma window_admissions_bounded_witness:
  "int (length (filter (\<lambda>p. 61 - of_int 60 < fst p \<and> fst p \<le> 61)
     (fst (run_window (redis_module no_redis_lib []) plain_lib ''rl:global'' 2 60
       [(0, ''a''), (1, ''b''), (2, ''c''), (61, ''d'')] new_redis_client)))) \<le> 2"
  by (rule window_admissions_bounded [OF plain_lib_floats _ no_redis_fallback]) simp_all

lemma retry_after_suffices_witness:
  "\<exists>c3 r'. sliding_window_check (redis_module no_redis_lib []) plain_lib 62 ''z'' ''rl:global'' 1 60
     (snd (sliding_window_check (redis_module no_redis_lib []) plain_lib 1 ''b'' ''rl:global'' 1 60
       (snd (run_window (redis_module no_redis_lib []) plain_lib ''rl:global'' 1 60 [(0, ''a'')] new_redis_client))))
     = (Inr (True, r'), c3)"
proof -
  let ?m = "redis_module no_redis_lib []"
  let ?c1 = "snd (run_window ?m plain_lib ''rl:global'' 1 60 [(0, ''a'')] new_redis_client)"
  have m: "float_parse plain_lib (float_repr plain_lib 0) = Some 0" "CHR '':'' \<notin> set (float_repr plain_lib 0)"
    using plain_lib_floats by (simp_all add: float_text_ok_def)
  have "sliding_window_check ?m plain_lib 0 ''a'' ''rl:global'' 1 60 new_redis_client =
      (Inr (True, 0), \<lparr>rc_redis = None,
         rc_fallback = \<lparr>store_data = [(''rl:global'', (SZset [(float_repr plain_lib 0 @ '':a'', 0)], Some 70))]\<rparr>,
         rc_using_fallback = True, rc_connect_attempted = True\<rparr>)"
    by (simp add: sliding_window_check_def Let_def bnd_def redis_module_def dispatch_fallback new_redis_client_def
        in_fallback_def mem_zremrangebyscore_def mem_zrangebyscore_def mem_is_expired_def mem_zadd_def
        mem_put_def mem_expire_def)
  then have c1: "run_window ?m plain_lib ''rl:global'' 1 60 [(0, ''a'')] new_redis_client = ([(0, ''a'')],
      \<lparr>rc_redis = None,
         rc_fallback = \<lparr>store_data = [(''rl:global'', (SZset [(float_repr plain_lib 0 @ '':a'', 0)], Some 70))]\<rparr>,
         rc_using_fallback = True, rc_connect_attempted = True\<rparr>)"
    by simp
  then have c1': "run_window ?m plain_lib ''rl:global'' 1 60 [(0, ''a'')] new_redis_client = ([(0, ''a'')], ?c1)"
    by simp
  have "\<exists>c2. sliding_window_check ?m plain_lib 1 ''b'' ''rl:global'' 1 60 ?c1 = (Inr (False, 60), c2)"
    unfolding c1 snd_conv using m
    by (simp add: sliding_window_check_def Let_def bnd_def redis_module_def dispatch_fallback new_redis_client_def
        in_fallback_def mem_zremrangebyscore_def mem_zrangebyscore_def mem_is_expired_def entry_expired_def
        zrem_def zrange_def score_le_def mem_put_def oldest_ts_of_def split_on_append retry_after_of_def py_trunc_def)
  then have no: "sliding_window_check ?m plain_lib 1 ''b'' ''rl:global'' 1 60 ?c1 =
      (Inr (False, 60), snd (sliding_window_check ?m plain_lib 1 ''b'' ''rl:global'' 1 60 ?c1))"
    by auto
  show ?thesis
    by (rule retry_after_suffices [OF plain_lib_floats _ _ no_redis_fallback _ _ _ _ _ c1' no])
      simp_all
qed


section \<open>Concurrency slots\<close>

text \<open>
  The coroutines that hold slots: the number that hold a global slot and, for every client,
  the requests inside \<open>acquire_client_slot\<close>.  Steps are the calls of the module; only a
  holder releases.
\<close>

type_synonym slot_state = "limiter \<times> nat \<times> string list"

inductive slot_step :: "settings \<Rightarrow> (string \<Rightarrow> int) \<Rightarrow> slot_state \<Rightarrow> slot_state \<Rightarrow> bool"
    for st mx where
  take_global: "acquire_global_slot st l = Some l' \<Longrightarrow> slot_step st mx (l, n, hs) (l', Suc n, hs)"
| give_global: "slot_step st mx (l, Suc n, hs) (release_global_slot st l, n, hs)"
| enter: "enter_client_slot cid (mx cid) l = (Inr (), l') \<Longrightarrow> slot_step st mx (l, n, hs) (l', n, cid # hs)"
| refuse: "enter_client_slot cid (mx cid) l = (Inl e, l') \<Longrightarrow> slot_step st mx (l, n, hs) (l', n, hs)"
| leave: "cid \<in> set hs \<Longrightarrow> slot_step st mx (l, n, hs) (exit_client_slot cid l, n, remove1 cid hs)"

inductive_cases slot_stepE: "slot_step st mx s s'"

definition slots_ok :: "settings \<Rightarrow> (string \<Rightarrow> int) \<Rightarrow> slot_state \<Rightarrow> bool" where
  "slots_ok st mx = (\<lambda>(l, n, hs).
     get_global_semaphore st l + int n = MAX_CONCURRENT_GLOBAL st \<and> int n \<le> max 0 (MAX_CONCURRENT_GLOBAL st) \<and>
     (\<forall>cid. dict_get 0 cid (client_counters l) = int (count_list hs cid) \<and>
            int (count_list hs cid) \<le> max 0 (mx cid)))"

lemma count_list_remove1: "count_list (remove1 x xs) y =
    (if x = y \<and> x \<in> set xs then count_list xs y - 1 else count_list xs y)"
  by (induction xs) (auto simp: Suc_pred count_list_0_iff gr0_conv_Suc dest!: iffD1 [OF count_list_0_iff])

lemma dict_get_set [simp]: "dict_get dflt k (dict_set k' v d) = (if k = k' then v else dict_get dflt k d)"
  by (simp add: dict_get_def)

lemma slot_step_ok: "slot_step st mx s s' \<Longrightarrow> slots_ok st mx s \<Longrightarrow> slots_ok st mx s'"
proof (induction rule: slot_step.induct)
  case (take_global l l' n hs)
  then show ?case
    by (auto simp: slots_ok_def acquire_global_slot_def get_global_semaphore_def Let_def split: if_splits)
next
  case (give_global l n hs)
  then show ?case by (auto simp: slots_ok_def release_global_slot_def get_global_semaphore_def)
next
  case (enter cid l l' n hs)
  then show ?case
    by (auto simp: slots_ok_def enter_client_slot_def get_global_semaphore_def Let_def split: if_splits)
next
  case (refuse cid l e l' n hs)
  then show ?case by (auto simp: enter_client_slot_def Let_def split: if_splits)
next
  case (leave cid hs l n)
  then have pos: "1 \<le> count_list hs cid" by (simp add: count_list_0_iff Suc_le_eq flip: neq0_conv)
  have c: "dict_get 0 x (client_counters l) = int (count_list hs x) \<and> int (count_list hs x) \<le> max 0 (mx x)" for x
    using leave.prems by (simp add: slots_ok_def)
  have one: "dict_get 1 cid (client_counters l) = int (count_list hs cid)"
    using c [of cid] pos by (cases "map_of (client_counters l) cid") (simp_all add: dict_get_def)
  have "dict_get 0 x (client_counters (exit_client_slot cid l)) = int (count_list (remove1 cid hs) x) \<and>
      int (count_list (remove1 cid hs) x) \<le> max 0 (mx x)" for x
    using c [of x] pos leave.hyps by (cases "x = cid") (simp_all add: exit_client_slot_def one count_list_remove1 of_nat_diff le_max_iff_disj)
  then show ?case using leave.prems
    by (simp add: slots_ok_def exit_client_slot_def get_global_semaphore_def)
qed

text \<open>C24.  Whatever calls interleave, the semaphore counts the requests that hold a global slot, the
  counter of a client counts its requests in flight, and neither exceeds its maximum.\<close>

theorem slots_never_exceeded:
  assumes "(slot_step st mx)\<^sup>*\<^sup>* (new_limiter, 0, []) (l, n, hs)"
  shows "get_global_semaphore st l + int n = MAX_CONCURRENT_GLOBAL st \<and>
     int n \<le> max 0 (MAX_CONCURRENT_GLOBAL st) \<and>
     dict_get 0 cid (client_counters l) = int (count_list hs cid) \<and>
     int (count_list hs cid) \<le> max 0 (mx cid)"
proof -
  have "slots_ok st mx (new_limiter, 0, [])"
    by (simp add: slots_ok_def new_limiter_def get_global_semaphore_def dict_get_def)
  with assms have "slots_ok st mx (l, n, hs)"
    by (induction rule: rtranclp_induct) (auto intro: slot_step_ok)
  then show ?thesis by (simp add: slots_ok_def)
qed

lemma slots_never_exceeded_witness:
  "dict_get 0 ''c'' (client_counters (snd (enter_client_slot ''c'' 2 new_limiter))) = 1"
proof -
  let ?l = "new_limiter\<lparr>client_counters := [(''c'', 1)]\<rparr>"
  have l: "enter_client_slot ''c'' 2 new_limiter = (Inr (), ?l)"
    by (simp add: enter_client_slot_def new_limiter_def dict_get_def)
  then have "slot_step default_settings (\<lambda>_. 2) (new_limiter, 0, []) (?l, 0, [''c''])"
    by (rule slot_step.enter)
  then have "(slot_step default_settings (\<lambda>_. 2))\<^sup>*\<^sup>* (new_limiter, 0, []) (?l, 0, [''c''])" ..
  from slots_never_exceeded [OF this, of "''c''"] show ?thesis unfolding l by simp
qed

end
