(* ===== verification/CircuitBreaker.thy ===== *)
theory CircuitBreaker
  imports RedisClient Config
begin

text \<open>
  \<open>circuit_breaker.py\<close>: one breaker per (provider, key index), the manager that holds them and
  their exchange with other workers over the key-value store.  The step relation is over the
  calls on one breaker; the manager refines a function from pairs to breakers.
\<close>


section \<open>CircuitBreaker\<close>

datatype CBState = CLOSED | OPEN | HALF_OPEN

fun cb_value :: "CBState \<Rightarrow> string" where
  "cb_value CLOSED = ''closed''"
| "cb_value OPEN = ''open''"
| "cb_value HALF_OPEN = ''half_open''"

text \<open>\<open>CBState(s)\<close>\<close>

definition cb_parse :: "string \<Rightarrow> CBState option" where
  "cb_parse s = (if s = ''closed'' then Some CLOSED else if s = ''open'' then Some OPEN
                 else if s = ''half_open'' then Some HALF_OPEN else None)"

record breaker =
  cb_provider :: string
  cb_key_index :: int
  cb_threshold :: int
  cb_timeout :: int
  cb_state :: CBState
  cb_failures :: int
  cb_last_failure :: time
  cb_opened_at :: time

definition new_breaker :: "string \<Rightarrow> int \<Rightarrow> int \<Rightarrow> int \<Rightarrow> breaker" where
  "new_breaker provider key_index threshold timeout =
     \<lparr>cb_provider = provider, cb_key_index = key_index, cb_threshold = threshold, cb_timeout = timeout,
      cb_state = CLOSED, cb_failures = 0, cb_last_failure = 0, cb_opened_at = 0\<rparr>"

text \<open>The property \<open>state\<close> moves an open breaker to half-open when its time has passed.\<close>

definition read_state :: "time \<Rightarrow> breaker \<Rightarrow> CBState \<times> breaker" where
  "read_state now b =
     (let b' = (if cb_state b = OPEN \<and> now - cb_opened_at b \<ge> of_int (cb_timeout b)
                then b\<lparr>cb_state := HALF_OPEN\<rparr> else b)
      in (cb_state b', b'))"

definition cb_is_available :: "time \<Rightarrow> breaker \<Rightarrow> bool \<times> breaker" where
  "cb_is_available now b = (let (s, b') = read_state now b in (s \<noteq> OPEN, b'))"

definition cb_record_success :: "breaker \<Rightarrow> breaker" where
  "cb_record_success b =
     (if cb_state b = HALF_OPEN \<or> cb_state b = CLOSED
      then b\<lparr>cb_state := CLOSED, cb_failures := 0\<rparr> else b)"

definition cb_record_failure :: "time \<Rightarrow> breaker \<Rightarrow> breaker" where
  "cb_record_failure now b =
     (let b1 = b\<lparr>cb_failures := cb_failures b + 1, cb_last_failure := now\<rparr>
      in if cb_state b1 = HALF_OPEN then b1\<lparr>cb_state := OPEN, cb_opened_at := now\<rparr>
         else if cb_failures b1 \<ge> cb_threshold b1 then b1\<lparr>cb_state := OPEN, cb_opened_at := now\<rparr>
         else b1)"

definition cb_reset :: "breaker \<Rightarrow> breaker" where
  "cb_reset b = b\<lparr>cb_state := CLOSED, cb_failures := 0, cb_opened_at := 0\<rparr>"

definition cb_to_dict :: "time \<Rightarrow> breaker \<Rightarrow> jdict \<times> breaker" where
  "cb_to_dict now b =
     (let (s, b') = read_state now b
      in ([(''provider'', JStr (cb_provider b')), (''key_index'', JInt (cb_key_index b')),
           (''state'', JStr (cb_value s)), (''failure_count'', JInt (cb_failures b')),
           (''failure_threshold'', JInt (cb_threshold b')), (''recovery_timeout'', JInt (cb_timeout b'))], b'))"


section \<open>CircuitBreakerManager\<close>

record cb_manager =
  cm_threshold :: int
  cm_timeout :: int
  cm_breakers :: "(string, breaker) pydict"

definition new_manager :: "settings \<Rightarrow> cb_manager" where
  "new_manager st = \<lparr>cm_threshold = CB_FAILURE_THRESHOLD st,
     cm_timeout = CB_RECOVERY_TIMEOUT_SECONDS st, cm_breakers = []\<rparr>"

definition cb_key :: "string \<Rightarrow> int \<Rightarrow> string" where
  "cb_key provider key_index = provider @ CHR '':'' # show_int key_index"

text \<open>The breaker object, created when it is missing.\<close>

definition get_breaker :: "string \<Rightarrow> int \<Rightarrow> cb_manager \<Rightarrow> breaker" where
  "get_breaker provider key_index m =
     (case map_of (cm_breakers m) (cb_key provider key_index) of
        Some b \<Rightarrow> b
      | None \<Rightarrow> new_breaker provider key_index (cm_threshold m) (cm_timeout m))"

definition put_breaker :: "string \<Rightarrow> int \<Rightarrow> breaker \<Rightarrow> cb_manager \<Rightarrow> cb_manager" where
  "put_breaker provider key_index b m =
     m\<lparr>cm_breakers := dict_set (cb_key provider key_index) b (cm_breakers m)\<rparr>"

definition cm_is_available :: "time \<Rightarrow> string \<Rightarrow> int \<Rightarrow> cb_manager \<Rightarrow> bool \<times> cb_manager" where
  "cm_is_available now provider key_index m =
     (let (a, b) = cb_is_available now (get_breaker provider key_index m)
      in (a, put_breaker provider key_index b m))"

definition cm_record_success :: "string \<Rightarrow> int \<Rightarrow> cb_manager \<Rightarrow> cb_manager" where
  "cm_record_success provider key_index m =
     put_breaker provider key_index (cb_record_success (get_breaker provider key_index m)) m"

definition cm_record_failure :: "time \<Rightarrow> string \<Rightarrow> int \<Rightarrow> cb_manager \<Rightarrow> cb_manager" where
  "cm_record_failure now provider key_index m =
     put_breaker provider key_index (cb_record_failure now (get_breaker provider key_index m)) m"

definition cm_reset :: "string \<Rightarrow> int option \<Rightarrow> cb_manager \<Rightarrow> cb_manager" where
  "cm_reset provider key_index m =
     (case key_index of
        Some i \<Rightarrow> put_breaker provider i (cb_reset (get_breaker provider i m)) m
      | None \<Rightarrow> m\<lparr>cm_breakers :=
          map (\<lambda>(k, b). (k, if cb_provider b = provider then cb_reset b else b)) (cm_breakers m)\<rparr>)"

definition get_all_states :: "time \<Rightarrow> cb_manager \<Rightarrow> (string, string) pydict \<times> cb_manager" where
  "get_all_states now m =
     (map (\<lambda>(k, b). (k, cb_value (fst (read_state now b)))) (cm_breakers m),
      m\<lparr>cm_breakers := map (\<lambda>(k, b). (k, snd (read_state now b))) (cm_breakers m)\<rparr>)"

definition get_provider_states :: "time \<Rightarrow> string \<Rightarrow> cb_manager \<Rightarrow> jdict list \<times> cb_manager" where
  "get_provider_states now provider m =
     (map (\<lambda>(k, b). fst (cb_to_dict now b)) (filter (\<lambda>(k, b). cb_provider b = provider) (cm_breakers m)),
      m\<lparr>cm_breakers := map (\<lambda>(k, b). (k, if cb_provider b = provider then snd (cb_to_dict now b) else b))
                            (cm_breakers m)\<rparr>)"

text \<open>The exchange with other workers; the manager is paired with the store.\<close>

fun sync_to_loop :: "'s redis_ops \<Rightarrow> pylib \<Rightarrow> time \<Rightarrow> string list \<Rightarrow> (cb_manager \<times> 's, unit) io" where
  "sync_to_loop rc pl now [] (m, s) = (Inr (), (m, s))"
| "sync_to_loop rc pl now (k # ks) (m, s) =
     (case map_of (cm_breakers m) k of
        None \<Rightarrow> sync_to_loop rc pl now ks (m, s)
      | Some b \<Rightarrow>
          (let (d, b') = cb_to_dict now b;
               m' = m\<lparr>cm_breakers := dict_set k b' (cm_breakers m)\<rparr>
           in case r_set_with_ttl rc now (''cb:'' @ k) (json_dumps pl (JObj d)) (cm_timeout m * 2) s of
                (Inl e, s') \<Rightarrow> (Inl e, (m', s'))
              | (Inr (), s') \<Rightarrow> sync_to_loop rc pl now ks (m', s')))"

definition sync_to_redis :: "'s redis_ops \<Rightarrow> pylib \<Rightarrow> time \<Rightarrow> (cb_manager \<times> 's, unit) io" where
  "sync_to_redis rc pl now = (\<lambda>(m, s). sync_to_loop rc pl now (map fst (cm_breakers m)) (m, s))"

text \<open>
  One decoded entry.  Entries are those \<open>sync_to_redis\<close> writes: a provider name, an integer
  index and an integer count; an entry of another shape is skipped here.  The breaker is
  created before the state text is converted, and kept when the conversion raises.
\<close>

definition load_entry :: "jdict \<Rightarrow> cb_manager \<Rightarrow> cb_manager" where
  "load_entry d m =
     (case (map_of d ''provider'', map_of d ''key_index'') of
        (Some (JStr provider), Some (JInt key_index)) \<Rightarrow>
          (let b = get_breaker provider key_index m in
           case (jget_or (JStr ''closed'') ''state'' d, jget_or (JInt 0) ''failure_count'' d) of
             (JStr st, JInt n) \<Rightarrow>
               (case cb_parse st of
                  Some cs \<Rightarrow> put_breaker provider key_index (b\<lparr>cb_state := cs, cb_failures := n\<rparr>) m
                | None \<Rightarrow> put_breaker provider key_index b m)
           | _ \<Rightarrow> put_breaker provider key_index b m)
      | _ \<Rightarrow> m)"

fun sync_from_loop :: "'s redis_ops \<Rightarrow> pylib \<Rightarrow> time \<Rightarrow> string list \<Rightarrow> (cb_manager \<times> 's, unit) io" where
  "sync_from_loop rc pl now [] (m, s) = (Inr (), (m, s))"
| "sync_from_loop rc pl now (rk # rks) (m, s) =
     (case r_get_value rc now rk s of
        (Inl e, s') \<Rightarrow> (Inl e, (m, s'))
      | (Inr (Some (SStr data_raw)), s') \<Rightarrow>
          (if data_raw = [] then sync_from_loop rc pl now rks (m, s')
           else (case json_loads pl data_raw of
                   Inr (JObj d) \<Rightarrow> sync_from_loop rc pl now rks (load_entry d m, s')
                 | _ \<Rightarrow> sync_from_loop rc pl now rks (m, s')))
      | (Inr _, s') \<Rightarrow> sync_from_loop rc pl now rks (m, s'))"

definition sync_from_redis :: "'s redis_ops \<Rightarrow> pylib \<Rightarrow> time \<Rightarrow> (cb_manager \<times> 's, unit) io" where
  "sync_from_redis rc pl now = (\<lambda>(m, s).
     (case r_get_all_keys rc now ''cb:*'' s of
        (Inl e, s') \<Rightarrow> (Inl e, (m, s'))
      | (Inr keys, s') \<Rightarrow> sync_from_loop rc pl now keys (m, s')))"


section \<open>Steps of one breaker\<close>

lemmas cb_op_defs = read_state_def cb_is_available_def cb_record_success_def cb_record_failure_def
  cb_reset_def Let_def

text \<open>A call at a clock reading not before the previous one.\<close>

inductive cb_step :: "time \<times> breaker \<Rightarrow> time \<times> breaker \<Rightarrow> bool" where
  check: "t \<le> t' \<Longrightarrow> cb_is_available t' b = (a, b') \<Longrightarrow> cb_step (t, b) (t', b')"
| success: "t \<le> t' \<Longrightarrow> cb_step (t, b) (t', cb_record_success b)"
| failure: "t \<le> t' \<Longrightarrow> cb_step (t, b) (t', cb_record_failure t' b)"
| reset: "t \<le> t' \<Longrightarrow> cb_step (t, b) (t', cb_reset b)"

inductive_cases cb_stepE: "cb_step (t, b) (t', b')"

definition cb_reachable :: "string \<Rightarrow> int \<Rightarrow> int \<Rightarrow> int \<Rightarrow> time \<Rightarrow> time \<times> breaker \<Rightarrow> bool" where
  "cb_reachable p i thr tmo t0 = cb_step\<^sup>*\<^sup>* (t0, new_breaker p i thr tmo)"

definition cb_inv :: "string \<Rightarrow> int \<Rightarrow> int \<Rightarrow> int \<Rightarrow> time \<times> breaker \<Rightarrow> bool" where
  "cb_inv p i thr tmo = (\<lambda>(t, b).
     cb_provider b = p \<and> cb_key_index b = i \<and> cb_threshold b = thr \<and> cb_timeout b = tmo \<and>
     0 \<le> cb_failures b \<and>
     (cb_state b = CLOSED \<longrightarrow> cb_failures b < thr) \<and>
     (cb_state b \<noteq> CLOSED \<longrightarrow> thr \<le> cb_failures b) \<and>
     (cb_state b = OPEN \<longrightarrow> cb_opened_at b = cb_last_failure b \<and> cb_opened_at b \<le> t))"

lemma cb_step_inv:
  assumes "cb_step x y" and "cb_inv p i thr tmo x" and "0 < thr"
  shows "cb_inv p i thr tmo y"
  using assms
proof (cases rule: cb_step.cases)
  case (check t t' b a b')
  with assms(2) show ?thesis by (auto simp: cb_inv_def cb_op_defs split: if_splits)
next
  case (success t t' b)
  with assms(2,3) show ?thesis by (cases "cb_state b") (auto simp: cb_inv_def cb_op_defs)
next
  case (failure t t' b)
  with assms(2,3) show ?thesis by (cases "cb_state b") (auto simp: cb_inv_def cb_op_defs)
next
  case (reset t t' b)
  with assms(2,3) show ?thesis by (auto simp: cb_inv_def cb_op_defs)
qed

lemma cb_reachable_inv:
  assumes "cb_reachable p i thr tmo t0 x" and "0 < thr"
  shows "cb_inv p i thr tmo x"
proof -
  have "cb_inv p i thr tmo (t0, new_breaker p i thr tmo)"
    using assms(2) by (simp add: cb_inv_def new_breaker_def)
  with assms(1) show ?thesis unfolding cb_reachable_def
    by (induction rule: rtranclp_induct) (auto intro: cb_step_inv assms(2))
qed

text \<open>C27.  The states of a breaker, as documented.  A reachable breaker that is closed lets requests through; one is open
  only after at least the threshold of failures since the last success, refuses every request until the recovery
  time after the last failure has passed, and then lets the next one through as a probe, in the state half-open; a
  failure of the probe opens it for a whole recovery time again, and a success closes it and forgets the failures.\<close>

theorem breaker_follows_states:
  assumes "cb_reachable p i thr tmo t0 (t, b)" and "0 < thr" and "t \<le> now"
  shows "(cb_state b = CLOSED \<longrightarrow> cb_failures b < thr \<and> cb_is_available now b = (True, b)) \<and>
     (cb_state b = OPEN \<longrightarrow> thr \<le> cb_failures b \<and>
        (now < cb_last_failure b + of_int tmo \<longrightarrow> cb_is_available now b = (False, b)) \<and>
        (cb_last_failure b + of_int tmo \<le> now \<longrightarrow> cb_is_available now b = (True, b\<lparr>cb_state := HALF_OPEN\<rparr>))) \<and>
     (cb_state b = HALF_OPEN \<longrightarrow>
        (\<forall>t'. fst (cb_is_available t' (cb_record_failure now b)) \<longleftrightarrow> now + of_int tmo \<le> t') \<and>
        cb_state (cb_record_success b) = CLOSED \<and> cb_failures (cb_record_success b) = 0)"
proof -
  have "cb_inv p i thr tmo (t, b)" using assms(1,2) by (rule cb_reachable_inv)
  then show ?thesis by (cases "cb_state b") (auto simp: cb_inv_def cb_op_defs)
qed

lemma breaker_follows_states_witness:
  "cb_is_available 10 (cb_record_failure 5 (new_breaker ''openai'' 0 1 60)) = (False, cb_record_failure 5 (new_breaker ''openai'' 0 1 60))"
proof -
  let ?b = "cb_record_failure 5 (new_breaker ''openai'' 0 1 60)"
  have "cb_step (0, new_breaker ''openai'' 0 1 60) (5, ?b)" by (rule cb_step.failure) simp
  then have "cb_reachable ''openai'' 0 1 60 0 (5, ?b)" unfolding cb_reachable_def ..
  from breaker_follows_states [OF this, of 10] show ?thesis
    by (simp add: cb_record_failure_def new_breaker_def)
qed

text \<open>The documentation (\<open>docs/admin-guide.md\<close>) lets one request through while a breaker is half-open.  The code lets all
  of them through until the first result is recorded.\<close>

theorem half_open_admits_all:
  assumes "cb_state b = HALF_OPEN"
  shows "cb_is_available now b = (True, b)"
  using assms by (simp add: cb_op_defs)

text \<open>\<open>n\<close> failures in a row, at the given clock readings.\<close>

fun fail_at :: "time list \<Rightarrow> breaker \<Rightarrow> breaker" where
  "fail_at [] b = b"
| "fail_at (t # ts) b = fail_at ts (cb_record_failure t b)"

lemma fail_at_closed:
  "cb_state b = CLOSED \<Longrightarrow> cb_failures b + int (length ts) < cb_threshold b \<Longrightarrow>
   cb_state (fail_at ts b) = CLOSED \<and> cb_failures (fail_at ts b) = cb_failures b + int (length ts) \<and>
   cb_threshold (fail_at ts b) = cb_threshold b \<and> cb_timeout (fail_at ts b) = cb_timeout b"
  by (induction ts arbitrary: b) (auto simp: cb_op_defs)

text \<open>Any failure from the threshold on leaves the breaker open, since its last clock reading.\<close>

lemma fail_at_opens:
  "cb_threshold b \<le> cb_failures b + int (length ts) \<Longrightarrow> ts \<noteq> [] \<Longrightarrow>
   cb_state (fail_at ts b) = OPEN \<and> cb_opened_at (fail_at ts b) = last ts \<and> cb_timeout (fail_at ts b) = cb_timeout b"
  by (induction ts arbitrary: b) (auto simp: cb_op_defs split: list.splits if_splits)

text \<open>C18.  After a success, fewer failures in a row than the threshold leave the breaker closed; the
  threshold-th opens it, and it lets requests through again, as half-open, exactly when the
  recovery timeout after the last failure has passed.\<close>

theorem breaker_trips_at_threshold:
  assumes "cb_state b \<noteq> OPEN" and "0 < cb_threshold b"
  shows "(cb_state (fail_at ts (cb_record_success b)) = CLOSED \<longleftrightarrow> int (length ts) < cb_threshold b) \<and>
     (cb_threshold b \<le> int (length ts) \<longrightarrow>
       (let b' = fail_at ts (cb_record_success b); (a, b'') = cb_is_available now b' in
        cb_state b' = OPEN \<and> (a \<longleftrightarrow> last ts + of_int (cb_timeout b) \<le> now) \<and> (a \<longrightarrow> cb_state b'' = HALF_OPEN)))"
proof -
  let ?b = "cb_record_success b"
  have b: "cb_state ?b = CLOSED" "cb_failures ?b = 0" "cb_threshold ?b = cb_threshold b" "cb_timeout ?b = cb_timeout b"
    using assms(1) by (cases "cb_state b"; simp add: cb_record_success_def)+
  show ?thesis
  proof (cases "int (length ts) < cb_threshold b")
    case True
    with fail_at_closed [of ?b ts] b show ?thesis by simp
  next
    case False
    with assms(2) have "ts \<noteq> []" by auto
    with fail_at_opens [of ?b ts] b False show ?thesis
      by (auto simp: cb_is_available_def read_state_def Let_def)
  qed
qed

lemma breaker_trips_at_threshold_witness:
  "cb_state (fail_at [1, 2] (cb_record_success (new_breaker ''openai'' 0 2 60))) \<noteq> CLOSED"
  using breaker_trips_at_threshold [of "new_breaker ''openai'' 0 2 60" "[1, 2]" 0] by (simp add: new_breaker_def)

text \<open>Half-open is a probe: one failure opens the breaker again for a full timeout, one success
  closes it and forgets the failures.\<close>

theorem half_open_probe:
  assumes "cb_state b = HALF_OPEN"
  shows "(fst (cb_is_available t' (cb_record_failure t b)) \<longleftrightarrow> t + of_int (cb_timeout b) \<le> t') \<and>
     fst (cb_is_available t' (cb_record_success b)) \<and> cb_failures (cb_record_success b) = 0 \<and>
     cb_state (cb_record_success b) = CLOSED"
  using assms by (auto simp: cb_op_defs)

lemma half_open_probe_witness:
  "\<not> fst (cb_is_available 69 (cb_record_failure 10 ((new_breaker ''openai'' 0 2 60)\<lparr>cb_state := HALF_OPEN\<rparr>)))"
  using half_open_probe [of "(new_breaker ''openai'' 0 2 60)\<lparr>cb_state := HALF_OPEN\<rparr>" 69 10]
  by (simp add: new_breaker_def)


section \<open>The manager\<close>

lemma append_sep_inject: "x \<notin> set b \<Longrightarrow> x \<notin> set b' \<Longrightarrow> a @ x # b = a' @ x # b' \<Longrightarrow> a = a' \<and> b = b'"
proof -
  assume n: "x \<notin> set b" "x \<notin> set b'" and e: "a @ x # b = a' @ x # b'"
  from e have "rev b @ x # rev a = rev b' @ x # rev a'" by (metis append.assoc append_Cons append_Nil rev.simps(2) rev_append)
  then have "takeWhile (\<lambda>y. y \<noteq> x) (rev b @ x # rev a) = takeWhile (\<lambda>y. y \<noteq> x) (rev b' @ x # rev a')" by simp
  moreover have "takeWhile (\<lambda>y. y \<noteq> x) (rev c @ x # d) = rev c" if "x \<notin> set c" for c d
    using that by (subst takeWhile_append2) auto
  ultimately have "b = b'" using n by simp
  with e show ?thesis by simp
qed

lemma cb_key_inject [simp]: "cb_key p i = cb_key p' i' \<longleftrightarrow> p = p' \<and> i = i'"
  using append_sep_inject [of "CHR '':''" "show_int i" "show_int i'" p p'] by (auto simp: cb_key_def)

lemma get_put_breaker [simp]:
  "get_breaker p i (put_breaker p' i' b m) = (if p = p' \<and> i = i' then b else get_breaker p i m)"
  by (auto simp: get_breaker_def put_breaker_def split: option.splits)

definition cm_ok :: "cb_manager \<Rightarrow> bool" where
  "cm_ok m \<longleftrightarrow> dict_wf (cm_breakers m) \<and>
     (\<forall>(k, b) \<in> set (cm_breakers m). k = cb_key (cb_provider b) (cb_key_index b))"

text \<open>A view of the manager as a function from pairs to breakers.\<close>

definition cm_abs :: "cb_manager \<Rightarrow> string \<times> int \<Rightarrow> breaker" where
  "cm_abs m = (\<lambda>(p, i). get_breaker p i m)"

lemma cm_abs_put: "cm_abs (put_breaker p i b m) = (cm_abs m)((p, i) := b)"
  by (auto simp: cm_abs_def fun_eq_iff)

lemma map_of_map_val: "map_of (map (\<lambda>(k, b). (k, f b)) d) k = map_option f (map_of d k)"
  by (induction d) auto

lemma map_of_ok: "cm_ok m \<Longrightarrow> map_of (cm_breakers m) (cb_key p i) = Some b \<Longrightarrow> cb_provider b = p \<and> cb_key_index b = i"
  by (auto simp: cm_ok_def dest!: map_of_SomeD)

text \<open>The manager implements a function from (provider, index) pairs to breakers: each call
  acts on the breaker of its own pair and on no other, whatever the provider names contain,
  and a reset without an index resets exactly the breakers of the provider.\<close>

theorem manager_refines:
  assumes "cm_ok m"
  shows "cm_abs (cm_record_success p i m) = (cm_abs m)((p, i) := cb_record_success (cm_abs m (p, i))) \<and>
     cm_abs (cm_record_failure now p i m) = (cm_abs m)((p, i) := cb_record_failure now (cm_abs m (p, i))) \<and>
     cm_abs (snd (cm_is_available now p i m)) = (cm_abs m)((p, i) := snd (cb_is_available now (cm_abs m (p, i)))) \<and>
     fst (cm_is_available now p i m) = fst (cb_is_available now (cm_abs m (p, i))) \<and>
     cm_abs (cm_reset p (Some i) m) = (cm_abs m)((p, i) := cb_reset (cm_abs m (p, i))) \<and>
     cm_abs (cm_reset p None m) = (\<lambda>(q, j). if q = p then cb_reset (cm_abs m (q, j)) else cm_abs m (q, j))"
proof -
  have g: "get_breaker q j m = cm_abs m (q, j)" for q j by (simp add: cm_abs_def)
  let ?f = "\<lambda>b. if cb_provider b = p then cb_reset b else b"
  have mp: "map_of (cm_breakers (cm_reset p None m)) k = map_option ?f (map_of (cm_breakers m) k)" for k
    by (simp add: cm_reset_def map_of_map_val)
  have th: "cm_threshold (cm_reset p None m) = cm_threshold m" "cm_timeout (cm_reset p None m) = cm_timeout m"
    by (simp_all add: cm_reset_def)
  have nb: "cb_reset (new_breaker q j x y) = new_breaker q j x y" for q j x y
    by (simp add: cb_reset_def new_breaker_def)
  have "cm_abs (cm_reset p None m) (q, j) = (if q = p then cb_reset (cm_abs m (q, j)) else cm_abs m (q, j))" for q j
    using map_of_ok [OF assms, of q j]
    by (cases "map_of (cm_breakers m) (cb_key q j)") (auto simp add: cm_abs_def get_breaker_def mp th nb)
  then have "cm_abs (cm_reset p None m) = (\<lambda>(q, j). if q = p then cb_reset (cm_abs m (q, j)) else cm_abs m (q, j))"
    by auto
  moreover have "cm_abs (cm_reset p (Some i) m) = (cm_abs m)((p, i) := cb_reset (cm_abs m (p, i)))"
    by (simp add: cm_reset_def cm_abs_put g)
  ultimately show ?thesis
    by (simp add: cm_record_success_def cm_record_failure_def cm_is_available_def cm_abs_put g split: prod.split)
qed

lemma manager_refines_witness:
  "cm_abs (cm_reset ''a'' None (new_manager default_settings)) (''b'', 0) =
   cm_abs (new_manager default_settings) (''b'', 0)"
proof -
  have "cm_ok (new_manager default_settings)" by (simp add: cm_ok_def new_manager_def)
  from manager_refines [OF this, of "''a''"] show ?thesis by simp
qed

lemma cm_ok_put:
  "cm_ok m \<Longrightarrow> cb_provider b = p \<Longrightarrow> cb_key_index b = i \<Longrightarrow> cm_ok (put_breaker p i b m)"
  by (auto simp: cm_ok_def put_breaker_def dest!: set_dict_set_subset [THEN subsetD])

lemma get_breaker_id: "cm_ok m \<Longrightarrow> cb_provider (get_breaker p i m) = p \<and> cb_key_index (get_breaker p i m) = i"
  using map_of_ok [of m p i] by (auto simp: get_breaker_def new_breaker_def split: option.splits)

lemma cm_ok_ops [intro, simp]:
  assumes "cm_ok m"
  shows "cm_ok (cm_record_success p i m)" "cm_ok (cm_record_failure now p i m)"
    "cm_ok (snd (cm_is_available now p i m))"
  using get_breaker_id [OF assms, of p i]
  by (auto simp: cm_record_success_def cm_record_failure_def cm_is_available_def cb_op_defs
      intro!: cm_ok_put assms split: prod.splits)


section \<open>Exchange with other workers\<close>

text \<open>A breaker another worker has opened is taken over without the time it was opened at: on a
  worker that has not seen the key before it shows half-open, not open, as soon as it is read,
  although it was published as open.\<close>

theorem synced_open_breaker_admits:
  assumes "cb_state b = OPEN" and "now - cb_opened_at b < of_int (cb_timeout b)"
    and "map_of (cm_breakers m) (cb_key (cb_provider b) (cb_key_index b)) = None"
    and "of_int (cm_timeout m) \<le> now"
  shows "\<not> fst (cb_is_available now b) \<and>
     (let m' = load_entry (fst (cb_to_dict now b)) m in
      cb_state (get_breaker (cb_provider b) (cb_key_index b) m') = OPEN \<and>
      fst (cm_is_available now (cb_provider b) (cb_key_index b) m'))"
proof -
  have "load_entry (fst (cb_to_dict now b)) m =
     put_breaker (cb_provider b) (cb_key_index b)
       ((new_breaker (cb_provider b) (cb_key_index b) (cm_threshold m) (cm_timeout m))
          \<lparr>cb_state := OPEN, cb_failures := cb_failures b\<rparr>) m"
    using assms by (simp add: load_entry_def cb_to_dict_def read_state_def jget_or_def dict_get_def cb_parse_def
        get_breaker_def)
  with assms show ?thesis
    by (simp add: cm_is_available_def cb_op_defs new_breaker_def)
qed

lemma synced_open_breaker_admits_witness:
  "fst (cm_is_available 1000 ''openai'' 0
     (load_entry (fst (cb_to_dict 1000 (cb_record_failure 999 (new_breaker ''openai'' 0 1 60))))
       (new_manager default_settings)))"
proof -
  let ?b = "cb_record_failure 999 (new_breaker ''openai'' 0 1 60)"
  let ?m = "new_manager default_settings"
  have b: "cb_provider ?b = ''openai''" "cb_key_index ?b = 0" "cb_state ?b = OPEN" "cb_opened_at ?b = 999"
    "cb_timeout ?b = 60"
    by (simp_all add: cb_record_failure_def new_breaker_def)
  have m: "cm_breakers ?m = []" "cm_timeout ?m = 60" by (simp_all add: new_manager_def default_settings_def)
  from synced_open_breaker_admits [of ?b 1000 ?m] show ?thesis by (simp add: b m Let_def)
qed

end
