(* ===== verification/Db.thy ===== *)
theory Db
  imports Config
begin

text \<open>
  \<open>db.py\<close>: the AES helpers, the encrypted column type, the tables as lists of rows in insertion
  order, and the session that commits or rolls back.  The cipher and base64 are parameters;
  identifiers of new rows (\<open>uuid4\<close>) are arguments of the operations that insert.
\<close>


section \<open>Text as bytes\<close>

text \<open>UTF-8 for the code points below 256; a byte is a \<^typ>\<open>char\<close>.\<close>

fun utf8_encode :: "string \<Rightarrow> string" where
  "utf8_encode [] = []"
| "utf8_encode (c # s) =
     (let n = (of_char c :: nat) in
      if n < 128 then c # utf8_encode s
      else char_of (192 + n div 64) # char_of (128 + n mod 64) # utf8_encode s)"

fun utf8_decode :: "string \<Rightarrow> string res" where
  "utf8_decode [] = Inr []"
| "utf8_decode (c # s) =
     (let n = (of_char c :: nat) in
      if n < 128 then rbind (utf8_decode s) (\<lambda>t. Inr (c # t))
      else if n = 194 \<or> n = 195
      then (case s of
              [] \<Rightarrow> Inl (ValueError ''unexpected end of data'')
            | d # s' \<Rightarrow>
                (let m = (of_char d :: nat) in
                 if 128 \<le> m \<and> m < 192
                 then rbind (utf8_decode s') (\<lambda>t. Inr (char_of (64 * (n - 192) + (m - 128)) # t))
                 else Inl (ValueError ''invalid continuation byte'')))
      else Inl (ValueError ''invalid start byte''))"

lemma utf8_round_trip: "utf8_decode (utf8_encode s) = Inr s"
proof (induction s)
  case (Cons c s)
  define n where "n = (of_char c :: nat)"
  have n: "n < 256" unfolding n_def by (metis nat_of_char_less_256)
  have c: "c = char_of n" by (simp add: n_def)
  show ?case
  proof (cases "n < 128")
    case True
    with Cons show ?thesis by (simp add: n_def)
  next
    case False
    define q r where "q = n div 64" and "r = n mod 64"
    have qr: "n = 64 * q + r" "r < 64" "q = 2 \<or> q = 3"
      using n False by (auto simp: q_def r_def)
    have e: "utf8_encode (c # s) = char_of (192 + q) # char_of (128 + r) # utf8_encode s"
      using False by (simp add: n_def [symmetric] q_def r_def Let_def)
    have "(of_char (char_of (192 + q)) :: nat) = 192 + q" "(of_char (char_of (128 + r)) :: nat) = 128 + r"
      using qr by (auto simp: of_char_of)
    with qr Cons show ?thesis unfolding e by (auto simp: c)
  qed
qed simp


section \<open>AES-256-GCM helpers\<close>

record crypto =
  b64_encode :: "string \<Rightarrow> string"
  b64_decode :: "string \<Rightarrow> string res"
  aesgcm_encrypt :: "string \<Rightarrow> string \<Rightarrow> string \<Rightarrow> string res"   \<comment> \<open>key, nonce, data\<close>
  aesgcm_decrypt :: "string \<Rightarrow> string \<Rightarrow> string \<Rightarrow> string res"

text \<open>
  The documented behaviour the properties rely on: base64 decodes what it encodes; for a key
  of 32 bytes and a nonce of 12 encryption succeeds and decryption inverts it; decryption
  with another key raises \<open>InvalidTag\<close>.
\<close>

definition crypto_ok :: "crypto \<Rightarrow> bool" where
  "crypto_ok cr \<longleftrightarrow> (\<forall>s. b64_decode cr (b64_encode cr s) = Inr s) \<and>
     (\<forall>k n p. length k = 32 \<longrightarrow> length n = 12 \<longrightarrow>
        (\<exists>c. aesgcm_encrypt cr k n p = Inr c \<and> aesgcm_decrypt cr k n c = Inr p))"

definition keys_separated :: "crypto \<Rightarrow> bool" where
  "keys_separated cr \<longleftrightarrow> (\<forall>k k' n p c. length k = 32 \<longrightarrow> length k' = 32 \<longrightarrow> k \<noteq> k' \<longrightarrow> aesgcm_encrypt cr k n p = Inr c \<longrightarrow>
     (\<exists>e. aesgcm_decrypt cr k' n c = Inl e))"

definition pad_key :: "string \<Rightarrow> string" where
  "pad_key key =
     (let key_bytes = utf8_encode key;
          padded = (if length key_bytes < 32 then key_bytes @ replicate (32 - length key_bytes) (char_of (0 :: nat))
                    else key_bytes)
      in take 32 padded)"

definition get_encryption_key :: "settings \<Rightarrow> string option" where
  "get_encryption_key st =
     (let key = KEY_ENCRYPTION_SECRET st in if key = [] then None else Some (pad_key key))"

definition get_previous_encryption_key :: "settings \<Rightarrow> string option" where
  "get_previous_encryption_key st =
     (let key = KEY_ENCRYPTION_SECRET_PREVIOUS st in if key = [] then None else Some (pad_key key))"

definition encrypt_aes_gcm :: "crypto \<Rightarrow> string \<Rightarrow> string \<Rightarrow> string \<Rightarrow> string res" where
  "encrypt_aes_gcm cr nonce plaintext key_bytes =
     rbind (aesgcm_encrypt cr key_bytes nonce (utf8_encode plaintext)) (\<lambda>ct.
     Inr (b64_encode cr (nonce @ ct)))"

definition decrypt_aes_gcm :: "crypto \<Rightarrow> string \<Rightarrow> string \<Rightarrow> string res" where
  "decrypt_aes_gcm cr ciphertext_b64 key_bytes =
     rbind (b64_decode cr ciphertext_b64) (\<lambda>raw.
     rbind (aesgcm_decrypt cr key_bytes (take 12 raw) (drop 12 raw)) (\<lambda>plaintext.
     utf8_decode plaintext))"

text \<open>The column type: what is stored, and what a stored value reads as.\<close>

definition process_bind_param :: "crypto \<Rightarrow> settings \<Rightarrow> string \<Rightarrow> string option \<Rightarrow> string option" where
  "process_bind_param cr st nonce value =
     (case value of
        None \<Rightarrow> None
      | Some v \<Rightarrow>
          (case get_encryption_key st of
             None \<Rightarrow> Some v
           | Some key \<Rightarrow> (case encrypt_aes_gcm cr nonce v key of Inr c \<Rightarrow> Some c | Inl _ \<Rightarrow> Some v)))"

definition process_result_value :: "crypto \<Rightarrow> settings \<Rightarrow> string option \<Rightarrow> string option" where
  "process_result_value cr st value =
     (case value of
        None \<Rightarrow> None
      | Some v \<Rightarrow>
          (case get_encryption_key st of
             None \<Rightarrow> Some v
           | Some key \<Rightarrow>
               (case decrypt_aes_gcm cr v key of
                  Inr p \<Rightarrow> Some p
                | Inl _ \<Rightarrow>
                    (case get_previous_encryption_key st of
                       None \<Rightarrow> Some v
                     | Some prev_key \<Rightarrow>
                         (case decrypt_aes_gcm cr v prev_key of Inr p \<Rightarrow> Some p | Inl _ \<Rightarrow> Some v)))))"


section \<open>Tables\<close>

record client_row =
  cl_id :: string
  cl_name :: string
  cl_api_key_hash :: string
  cl_roles :: json
  cl_permissions :: json
  cl_allowed_providers :: json
  cl_allowed_models :: json
  cl_rate_limit_per_minute :: int
  cl_token_limit_per_minute :: int
  cl_daily_token_quota :: int
  cl_max_concurrent_requests :: int
  cl_require_signing :: bool
  cl_priority :: int
  cl_cache_enabled :: bool
  cl_ldap_group :: "string option"
  cl_is_active :: bool
  cl_created_at :: time
  cl_last_used_at :: "time option"
  cl_metadata :: "json option"
  cl_description :: "string option"

record token_usage_row =
  tu_id :: string
  tu_client_id :: string
  tu_date :: string
  tu_provider :: string
  tu_model :: string
  tu_input_tokens :: int
  tu_output_tokens :: int
  tu_cost_usd :: "rat option"

record audit_log_row =
  al_id :: string
  al_timestamp :: time
  al_event_type :: string
  al_actor :: "string option"
  al_target :: "string option"
  al_detail :: "string option"
  al_ip :: "string option"
  al_success :: bool

record api_key_row =
  ak_id :: string
  ak_provider :: string
  ak_key_encrypted :: string
  ak_usage_count :: int
  ak_error_count :: int
  ak_is_healthy :: bool
  ak_last_used_at :: "time option"
  ak_added_at :: time

record filter_pattern_row =
  fp_id :: string
  fp_name :: string
  fp_pattern :: string
  fp_replacement :: string
  fp_flags :: string
  fp_is_active :: bool
  fp_is_builtin :: bool
  fp_created_at :: time

record refresh_token_row =
  rt_id :: string
  rt_client_id :: string
  rt_token_hash :: string
  rt_expires_at :: time
  rt_revoked_at :: "time option"
  rt_ip :: "string option"
  rt_user_agent :: "string option"

record local_user_row =
  lu_id :: string
  lu_username :: string
  lu_password_hash :: string
  lu_roles :: json
  lu_is_active :: bool
  lu_created_at :: time
  lu_last_login_at :: "time option"

record password_history_row =
  ph_id :: string
  ph_user_id :: string
  ph_password_hash :: string
  ph_created_at :: time

record request_log_row =
  rl_id :: string
  rl_request_id :: string
  rl_client_id :: "string option"
  rl_timestamp :: time
  rl_provider :: "string option"
  rl_model :: "string option"
  rl_alias_used :: "string option"
  rl_input_preview :: "string option"
  rl_output_preview :: "string option"
  rl_input_tokens :: int
  rl_output_tokens :: int
  rl_cost_usd :: "rat option"
  rl_duration_ms :: int
  rl_status_code :: int
  rl_was_truncated :: bool
  rl_masked_count :: int
  rl_cache_hit :: bool

record model_alias_row =
  ma_id :: string
  ma_alias :: string
  ma_provider :: string
  ma_model :: string
  ma_description :: "string option"
  ma_is_active :: bool
  ma_created_at :: time
  ma_usage_count :: int

record cost_rate_row =
  cr_id :: string
  cr_provider :: string
  cr_model :: string
  cr_input_cost_per_1k :: rat
  cr_output_cost_per_1k :: rat
  cr_currency :: string
  cr_effective_from :: time
  cr_is_active :: bool

record alert_config_row =
  ac_id :: string
  ac_event_type :: string
  ac_webhook_url :: string
  ac_description :: "string option"
  ac_is_active :: bool
  ac_min_severity :: string
  ac_created_at :: time

record alert_history_row =
  ah_id :: string
  ah_config_id :: string
  ah_event_type :: string
  ah_severity :: string
  ah_message :: string
  ah_sent_at :: time
  ah_success :: bool
  ah_error_message :: "string option"

record provider_config_row =
  pc_id :: string
  pc_name :: string
  pc_provider_type :: string
  pc_base_url :: "string option"
  pc_api_key_header_name :: string
  pc_default_model :: string
  pc_max_context_tokens :: int
  pc_is_active :: bool
  pc_config_json :: json
  pc_created_at :: time

record content_policy_row =
  cp_id :: string
  cp_name :: string
  cp_policy_type :: string
  cp_config_json :: jdict
  cp_is_active :: bool
  cp_applies_to_clients :: "json option"
  cp_priority :: int
  cp_created_at :: time

record database =
  t_clients :: "client_row list"
  t_token_usage :: "token_usage_row list"
  t_audit_logs :: "audit_log_row list"
  t_api_key_pool :: "api_key_row list"
  t_filter_patterns :: "filter_pattern_row list"
  t_refresh_tokens :: "refresh_token_row list"
  t_local_users :: "local_user_row list"
  t_password_history :: "password_history_row list"
  t_request_logs :: "request_log_row list"
  t_model_aliases :: "model_alias_row list"
  t_cost_rates :: "cost_rate_row list"
  t_alert_configs :: "alert_config_row list"
  t_alert_history :: "alert_history_row list"
  t_provider_configs :: "provider_config_row list"
  t_content_policies :: "content_policy_row list"

definition empty_db :: database where
  "empty_db = \<lparr>t_clients = [], t_token_usage = [], t_audit_logs = [], t_api_key_pool = [],
     t_filter_patterns = [], t_refresh_tokens = [], t_local_users = [], t_password_history = [],
     t_request_logs = [], t_model_aliases = [], t_cost_rates = [], t_alert_configs = [],
     t_alert_history = [], t_provider_configs = [], t_content_policies = []\<rparr>"


section \<open>Sessions\<close>

text \<open>\<open>get_db\<close>: the body's changes are kept when it returns and undone when it raises.\<close>

definition with_db :: "(database, 'a) io \<Rightarrow> (database, 'a) io" where
  "with_db body db =
     (case body db of (Inr a, db') \<Rightarrow> (Inr a, db') | (Inl e, _) \<Rightarrow> (Inl e, db))"

lemma with_db_Inr: "body db = (Inr a, db') \<Longrightarrow> with_db body db = (Inr a, db')"
  by (simp add: with_db_def)

lemma with_db_Inl: "body db = (Inl e, db') \<Longrightarrow> with_db body db = (Inl e, db)"
  by (simp add: with_db_def)

text \<open>Replacing the rows that match, and the first of them.\<close>

definition update_rows :: "('r \<Rightarrow> bool) \<Rightarrow> ('r \<Rightarrow> 'r) \<Rightarrow> 'r list \<Rightarrow> 'r list" where
  "update_rows P f rows = map (\<lambda>r. if P r then f r else r) rows"

fun update_first :: "('r \<Rightarrow> bool) \<Rightarrow> ('r \<Rightarrow> 'r) \<Rightarrow> 'r list \<Rightarrow> 'r list" where
  "update_first P f [] = []"
| "update_first P f (r # rs) = (if P r then f r # rs else r # update_first P f rs)"

fun delete_first :: "('r \<Rightarrow> bool) \<Rightarrow> 'r list \<Rightarrow> 'r list" where
  "delete_first P [] = []"
| "delete_first P (r # rs) = (if P r then rs else r # delete_first P rs)"

lemma delete_first_none: "\<not> list_ex P rows \<Longrightarrow> delete_first P rows = rows"
  by (induction rows) auto

lemma delete_first_append: "\<not> list_ex P rows \<Longrightarrow> delete_first P (rows @ rs) = rows @ delete_first P rs"
  by (induction rows) auto

lemma length_update_first [simp]: "length (update_first P f rows) = length rows"
  by (induction rows) auto


section \<open>Properties of the encryption helpers\<close>

lemma pad_key_length: "length (pad_key k) = 32"
  by (simp add: pad_key_def Let_def)

lemma encryption_key_length:
  "get_encryption_key st = Some k \<Longrightarrow> length k = 32"
  "get_previous_encryption_key st = Some k \<Longrightarrow> length k = 32"
  by (auto simp: get_encryption_key_def get_previous_encryption_key_def pad_key_length Let_def split: if_splits)

lemma aes_round_trip:
  assumes "crypto_ok cr" and "length nonce = 12" and "length k = 32"
  shows "\<exists>c. encrypt_aes_gcm cr nonce p k = Inr c \<and> decrypt_aes_gcm cr c k = Inr p"
proof -
  obtain ct where "aesgcm_encrypt cr k nonce (utf8_encode p) = Inr ct"
      "aesgcm_decrypt cr k nonce ct = Inr (utf8_encode p)"
    using assms unfolding crypto_ok_def by metis
  then show ?thesis using assms
    by (simp add: encrypt_aes_gcm_def decrypt_aes_gcm_def crypto_ok_def utf8_round_trip)
qed

lemma aes_other_key:
  assumes "crypto_ok cr" and "keys_separated cr" and "length nonce = 12" and "length k = 32" and "length k' = 32"
    and "k \<noteq> k'" and "encrypt_aes_gcm cr nonce p k = Inr c"
  shows "\<exists>e. decrypt_aes_gcm cr c k' = Inl e"
proof -
  obtain ct where ct: "aesgcm_encrypt cr k nonce (utf8_encode p) = Inr ct" "c = b64_encode cr (nonce @ ct)"
    using assms(7) by (auto simp: encrypt_aes_gcm_def rbind_Inr_iff)
  with assms(2,4,5,6) obtain e where "aesgcm_decrypt cr k' nonce ct = Inl e"
    unfolding keys_separated_def by metis
  with ct assms(1,3) show ?thesis by (simp add: decrypt_aes_gcm_def crypto_ok_def)
qed

text \<open>A cipher for which the laws hold: the key is prefixed to the data.\<close>

definition prefix_cipher :: crypto where
  "prefix_cipher = \<lparr>b64_encode = id, b64_decode = Inr,
     aesgcm_encrypt = (\<lambda>k n p. Inr (k @ p)),
     aesgcm_decrypt = (\<lambda>k n c. if take 32 c = k then Inr (drop 32 c) else Inl (ValueError ''InvalidTag''))\<rparr>"

lemma prefix_cipher_ok: "crypto_ok prefix_cipher" "keys_separated prefix_cipher"
  by (auto simp: crypto_ok_def keys_separated_def prefix_cipher_def)

text \<open>C28.  A value written to an encrypted column reads back as it was, with the key it was written
  with and also after the key was rotated, when the old key is configured as the previous
  one.\<close>

theorem encrypted_column_round_trip:
  assumes "crypto_ok cr" and "keys_separated cr" and "length nonce = 12"
    and "st' = st \<or> (KEY_ENCRYPTION_SECRET_PREVIOUS st' = KEY_ENCRYPTION_SECRET st \<and> KEY_ENCRYPTION_SECRET st \<noteq> [] \<and>
           KEY_ENCRYPTION_SECRET st' \<noteq> [])"
  shows "process_result_value cr st' (process_bind_param cr st nonce v) = v"
proof (cases v)
  case (Some p)
  show ?thesis
  proof (cases "get_encryption_key st")
    case None
    then have "KEY_ENCRYPTION_SECRET st = []" by (auto simp: get_encryption_key_def Let_def split: if_splits)
    with assms(4) None Some show ?thesis by (auto simp: process_bind_param_def process_result_value_def)
  next
    case k: (Some k)
    have len: "length k = 32" using k by (rule encryption_key_length)
    obtain c where c: "encrypt_aes_gcm cr nonce p k = Inr c" "decrypt_aes_gcm cr c k = Inr p"
      using aes_round_trip [OF assms(1,3) len] by blast
    have b: "process_bind_param cr st nonce v = Some c" by (simp add: process_bind_param_def Some k c(1))
    have prev: "get_encryption_key st' = Some k \<or> (get_previous_encryption_key st' = Some k \<and> get_encryption_key st' \<noteq> None)"
      using assms(4) k by (auto simp: get_encryption_key_def get_previous_encryption_key_def Let_def)
    then obtain k' where k': "get_encryption_key st' = Some k'" by auto
    show ?thesis
    proof (cases "k' = k")
      case True
      with k' c(2) show ?thesis unfolding b by (simp add: process_result_value_def Some)
    next
      case False
      then obtain e where "decrypt_aes_gcm cr c k' = Inl e"
        using aes_other_key [OF assms(1,2,3) len encryption_key_length(1) [OF k'] _ c(1)] by blast
      with prev k' False c(2) show ?thesis unfolding b by (simp add: process_result_value_def Some)
    qed
  qed
qed (simp add: process_bind_param_def process_result_value_def)

lemma encrypted_column_round_trip_witness:
  "process_result_value prefix_cipher
      (default_settings\<lparr>KEY_ENCRYPTION_SECRET := ''new'', KEY_ENCRYPTION_SECRET_PREVIOUS := ''old''\<rparr>)
      (process_bind_param prefix_cipher (default_settings\<lparr>KEY_ENCRYPTION_SECRET := ''old''\<rparr>)
         (replicate 12 CHR ''n'') (Some ''text'')) = Some ''text''"
  by (rule encrypted_column_round_trip [OF prefix_cipher_ok]) (simp_all add: numeral_eq_Suc)

end
