(* ===== verification/KeyPool.thy ===== *)
theory KeyPool
  imports Db
begin

text \<open>
  \<open>key_pool.py\<close>: the pool of keys of one provider (rotation, health, backoff), the manager of the
  pools and its table, the re-encryption of keys after a rotation of the secret.
\<close>


section \<open>ApiKeyPool\<close>

record key_entry =
  ke_plaintext :: string
  ke_db_id :: "string option"
  ke_usage :: int
  ke_errors :: int
  ke_healthy :: bool
  ke_last_used :: "time option"

record key_pool =
  kp_provider :: string
  kp_keys :: "key_entry list"
  kp_counter :: int
  kp_backoff :: "(int, time) pydict"

definition new_pool :: "string \<Rightarrow> key_pool" where
  "new_pool provider = \<lparr>kp_provider = provider, kp_keys = [], kp_counter = 0, kp_backoff = []\<rparr>"

definition kp_count :: "key_pool \<Rightarrow> nat" where
  "kp_count p = length (kp_keys p)"

definition is_backed_off :: "time \<Rightarrow> int \<Rightarrow> key_pool \<Rightarrow> bool \<times> key_pool" where
  "is_backed_off now index p =
     (case map_of (kp_backoff p) index of
        None \<Rightarrow> (False, p)
      | Some u \<Rightarrow> if now \<ge> u then (False, p\<lparr>kp_backoff := dict_pop index (kp_backoff p)\<rparr>) else (True, p))"

text \<open>The comprehension over \<open>enumerate(self._keys)\<close>, from index \<open>i\<close> on.\<close>

fun collect_healthy :: "time \<Rightarrow> int \<Rightarrow> key_entry list \<Rightarrow> key_pool \<Rightarrow> (int \<times> key_entry) list \<times> key_pool" where
  "collect_healthy now i [] p = ([], p)"
| "collect_healthy now i (k # ks) p =
     (if ke_healthy k
      then (let (off, p1) = is_backed_off now i p;
                (rest, p2) = collect_healthy now (i + 1) ks p1
            in (if off then rest else (i, k) # rest, p2))
      else collect_healthy now (i + 1) ks p)"

text \<open>\<open>min\<close> with a key: the first of the least.\<close>

fun least_used :: "(int \<times> key_entry) \<Rightarrow> (int \<times> key_entry) list \<Rightarrow> int \<times> key_entry" where
  "least_used best [] = best"
| "least_used best (x # xs) = least_used (if ke_usage (snd x) < ke_usage (snd best) then x else best) xs"

text \<open>\<open>rnd\<close> stands for the choice of \<open>random.choice\<close>.\<close>

definition get_next_key :: "nat \<Rightarrow> time \<Rightarrow> string \<Rightarrow> key_pool \<Rightarrow> (string \<times> int) option \<times> key_pool" where
  "get_next_key rnd now strategy p =
     (if kp_keys p = [] then (None, p)
      else (case collect_healthy now 0 (kp_keys p) p of
              ([], p1) \<Rightarrow> (None, p1)
            | (h # hs, p1) \<Rightarrow>
                if strategy = ''random''
                then (let (idx, entry) = (h # hs) ! (rnd mod length (h # hs)) in (Some (ke_plaintext entry, idx), p1))
                else if strategy = ''least_used''
                then (let (idx, entry) = least_used h hs in (Some (ke_plaintext entry, idx), p1))
                else (let (idx, entry) = (h # hs) ! nat (kp_counter p1 mod int (length (h # hs)))
                      in (Some (ke_plaintext entry, idx), p1\<lparr>kp_counter := kp_counter p1 + 1\<rparr>))))"

definition in_range :: "int \<Rightarrow> 'a list \<Rightarrow> bool" where
  "in_range index xs \<longleftrightarrow> 0 \<le> index \<and> index < int (length xs)"

definition update_key :: "int \<Rightarrow> (key_entry \<Rightarrow> key_entry) \<Rightarrow> key_pool \<Rightarrow> key_pool" where
  "update_key index f p =
     (if in_range index (kp_keys p)
      then p\<lparr>kp_keys := (kp_keys p)[nat index := f (kp_keys p ! nat index)]\<rparr> else p)"

definition mark_error :: "int \<Rightarrow> int \<Rightarrow> key_pool \<Rightarrow> key_pool" where
  "mark_error index threshold =
     update_key index (\<lambda>k. let k1 = k\<lparr>ke_errors := ke_errors k + 1\<rparr>
                           in if ke_errors k1 \<ge> threshold then k1\<lparr>ke_healthy := False\<rparr> else k1)"

definition mark_success :: "time \<Rightarrow> int \<Rightarrow> key_pool \<Rightarrow> key_pool" where
  "mark_success now index =
     update_key index (\<lambda>k. k\<lparr>ke_usage := ke_usage k + 1, ke_healthy := True, ke_last_used := Some now\<rparr>)"

definition mark_rate_limited :: "time \<Rightarrow> int \<Rightarrow> int \<Rightarrow> key_pool \<Rightarrow> key_pool" where
  "mark_rate_limited now index retry_after_seconds p =
     p\<lparr>kp_backoff := dict_set index (now + of_int retry_after_seconds) (kp_backoff p)\<rparr>"

definition mask_key :: "string \<Rightarrow> string" where
  "mask_key key = (if length key > 12 then take 8 key @ ''...'' @ drop (length key - 4) key else ''***'')"

record api_key_entry =
  ae_provider :: string
  ae_key_masked :: string
  ae_usage_count :: int
  ae_error_count :: int
  ae_is_healthy :: bool
  ae_last_used_at :: "time option"

definition get_health :: "key_pool \<Rightarrow> api_key_entry list" where
  "get_health p = map (\<lambda>e. \<lparr>ae_provider = kp_provider p, ae_key_masked = mask_key (ke_plaintext e),
     ae_usage_count = ke_usage e, ae_error_count = ke_errors e, ae_is_healthy = ke_healthy e,
     ae_last_used_at = ke_last_used e\<rparr>) (kp_keys p)"

definition add_key :: "string \<Rightarrow> string option \<Rightarrow> key_pool \<Rightarrow> key_pool" where
  "add_key key_plaintext db_id p =
     p\<lparr>kp_keys := kp_keys p @ [\<lparr>ke_plaintext = key_plaintext, ke_db_id = db_id, ke_usage = 0, ke_errors = 0,
                                 ke_healthy = True, ke_last_used = None\<rparr>]\<rparr>"

definition remove_key :: "int \<Rightarrow> key_pool \<Rightarrow> string option \<times> key_pool" where
  "remove_key index p =
     (if in_range index (kp_keys p)
      then (ke_db_id (kp_keys p ! nat index),
            p\<lparr>kp_keys := take (nat index) (kp_keys p) @ drop (Suc (nat index)) (kp_keys p),
              kp_backoff := dict_pop index (kp_backoff p)\<rparr>)
      else (None, p))"


section \<open>KeyPoolManager\<close>

type_synonym key_manager = "(string, key_pool) pydict"

definition get_pool :: "string \<Rightarrow> key_manager \<Rightarrow> key_pool" where
  "get_pool provider m = (case map_of m provider of Some p \<Rightarrow> p | None \<Rightarrow> new_pool provider)"

definition on_pool :: "string \<Rightarrow> (key_pool \<Rightarrow> key_pool) \<Rightarrow> key_manager \<Rightarrow> key_manager" where
  "on_pool provider f m = dict_set provider (f (get_pool provider m)) m"

definition encrypt_key :: "crypto \<Rightarrow> string \<Rightarrow> string \<Rightarrow> string option \<Rightarrow> string res" where
  "encrypt_key cr nonce plaintext enc_key =
     (case enc_key of None \<Rightarrow> Inr plaintext | Some k \<Rightarrow> encrypt_aes_gcm cr nonce plaintext k)"

definition decrypt_key :: "crypto \<Rightarrow> string \<Rightarrow> string option \<Rightarrow> string option \<Rightarrow> string option" where
  "decrypt_key cr ciphertext enc_key prev_key =
     (case enc_key of
        None \<Rightarrow> Some ciphertext
      | Some k \<Rightarrow>
          (case decrypt_aes_gcm cr ciphertext k of
             Inr p \<Rightarrow> Some p
           | Inl _ \<Rightarrow>
               (case prev_key of
                  None \<Rightarrow> Some ciphertext
                | Some k' \<Rightarrow> (case decrypt_aes_gcm cr ciphertext k' of Inr p \<Rightarrow> Some p | Inl _ \<Rightarrow> Some ciphertext))))"

fun load_rows :: "crypto \<Rightarrow> settings \<Rightarrow> api_key_row list \<Rightarrow> key_manager \<Rightarrow> key_manager" where
  "load_rows cr st [] m = m"
| "load_rows cr st (row # rows) m =
     (case decrypt_key cr (ak_key_encrypted row) (get_encryption_key st) (get_previous_encryption_key st) of
        None \<Rightarrow> load_rows cr st rows m
      | Some plaintext \<Rightarrow>
          load_rows cr st rows (on_pool (ak_provider row) (add_key plaintext (Some (ak_id row))) m))"

definition load_from_db :: "crypto \<Rightarrow> settings \<Rightarrow> key_manager \<times> database \<Rightarrow> key_manager \<times> database" where
  "load_from_db cr st = (\<lambda>(m, db). (load_rows cr st (t_api_key_pool db) m, db))"

definition new_key_row :: "string \<Rightarrow> time \<Rightarrow> string \<Rightarrow> string \<Rightarrow> api_key_row" where
  "new_key_row uid now provider encrypted =
     \<lparr>ak_id = uid, ak_provider = provider, ak_key_encrypted = encrypted, ak_usage_count = 0, ak_error_count = 0,
      ak_is_healthy = True, ak_last_used_at = None, ak_added_at = now\<rparr>"

text \<open>The identifier and the nonce of the \<open>n\<close>-th new row are \<open>uid n\<close> and \<open>nonce n\<close>.\<close>

fun seed_keys :: "crypto \<Rightarrow> settings \<Rightarrow> (nat \<Rightarrow> string) \<Rightarrow> (nat \<Rightarrow> string) \<Rightarrow> time \<Rightarrow> string \<Rightarrow> string list
    \<Rightarrow> nat \<Rightarrow> (database, nat) io" where
  "seed_keys cr st uid nonce now provider [] n db = (Inr n, db)"
| "seed_keys cr st uid nonce now provider (key_val # keys) n db =
     (if str_strip key_val = [] then seed_keys cr st uid nonce now provider keys n db
      else (case encrypt_key cr (nonce n) (str_strip key_val) (get_encryption_key st) of
              Inl e \<Rightarrow> (Inl e, db)
            | Inr encrypted \<Rightarrow>
                seed_keys cr st uid nonce now provider keys (Suc n)
                  (db\<lparr>t_api_key_pool := t_api_key_pool db @ [new_key_row (uid n) now provider encrypted]\<rparr>)))"

fun seed_providers :: "crypto \<Rightarrow> settings \<Rightarrow> (nat \<Rightarrow> string) \<Rightarrow> (nat \<Rightarrow> string) \<Rightarrow> time
    \<Rightarrow> (string \<times> string list) list \<Rightarrow> nat \<Rightarrow> (database, nat) io" where
  "seed_providers cr st uid nonce now [] n db = (Inr n, db)"
| "seed_providers cr st uid nonce now ((provider, keys) # ps) n db =
     (if keys = [] \<or> list_ex (\<lambda>r. ak_provider r = provider) (t_api_key_pool db)
      then seed_providers cr st uid nonce now ps n db
      else bnd (seed_keys cr st uid nonce now provider keys n) (\<lambda>n'. seed_providers cr st uid nonce now ps n') db)"

definition provider_keys :: "settings \<Rightarrow> (string \<times> string list) list" where
  "provider_keys st =
     [(''anthropic'', anthropic_api_keys_list st), (''openai'', openai_api_keys_list st),
      (''azure_openai'', azure_openai_api_keys_list st), (''gemini'', gemini_api_keys_list st),
      (''groq'', groq_api_keys_list st), (''mistral'', mistral_api_keys_list st)]"

definition seed_from_config :: "crypto \<Rightarrow> settings \<Rightarrow> (nat \<Rightarrow> string) \<Rightarrow> (nat \<Rightarrow> string) \<Rightarrow> time
    \<Rightarrow> (key_manager \<times> database, unit) io" where
  "seed_from_config cr st uid nonce now = (\<lambda>(m, db).
     (case with_db (seed_providers cr st uid nonce now (provider_keys st) 0) db of
        (Inl e, db') \<Rightarrow> (Inl e, (m, db'))
      | (Inr _, db') \<Rightarrow> (Inr (), load_from_db cr st (m, db'))))"

definition add_key_to_db :: "crypto \<Rightarrow> settings \<Rightarrow> string \<Rightarrow> string \<Rightarrow> time \<Rightarrow> string \<Rightarrow> string
    \<Rightarrow> (key_manager \<times> database, api_key_entry) io" where
  "add_key_to_db cr st uid nonce now provider key_plaintext = (\<lambda>(m, db).
     (case encrypt_key cr nonce key_plaintext (get_encryption_key st) of
        Inl e \<Rightarrow> (Inl e, (m, db))
      | Inr encrypted \<Rightarrow>
          (Inr \<lparr>ae_provider = provider, ae_key_masked = mask_key key_plaintext, ae_usage_count = 0,
                ae_error_count = 0, ae_is_healthy = True, ae_last_used_at = None\<rparr>,
           (on_pool provider (add_key key_plaintext (Some uid)) m,
            db\<lparr>t_api_key_pool := t_api_key_pool db @ [new_key_row uid now provider encrypted]\<rparr>))))"

definition remove_key_from_db :: "string \<Rightarrow> int \<Rightarrow> (key_manager \<times> database, bool) io" where
  "remove_key_from_db provider index = (\<lambda>(m, db).
     (let (db_id, pool) = remove_key index (get_pool provider m);
          m' = dict_set provider pool m
      in case db_id of
           None \<Rightarrow> (Inr False, (m', db))
         | Some i \<Rightarrow> (Inr True, (m', db\<lparr>t_api_key_pool := delete_first (\<lambda>r. ak_id r = i) (t_api_key_pool db)\<rparr>))))"

definition sync_entry :: "key_entry \<Rightarrow> api_key_row list \<Rightarrow> api_key_row list" where
  "sync_entry e rows =
     (case ke_db_id e of
        None \<Rightarrow> rows
      | Some i \<Rightarrow>
          if i = [] then rows
          else update_first (\<lambda>r. ak_id r = i)
                 (\<lambda>r. r\<lparr>ak_usage_count := ke_usage e, ak_error_count := ke_errors e,
                       ak_is_healthy := ke_healthy e, ak_last_used_at := ke_last_used e\<rparr>) rows)"

definition sync_health_to_db :: "key_manager \<times> database \<Rightarrow> key_manager \<times> database" where
  "sync_health_to_db = (\<lambda>(m, db).
     (m, db\<lparr>t_api_key_pool := fold sync_entry (concat (map (\<lambda>(_, p). kp_keys p) m)) (t_api_key_pool db)\<rparr>))"

fun re_encrypt_rows :: "crypto \<Rightarrow> (nat \<Rightarrow> string) \<Rightarrow> string \<Rightarrow> string \<Rightarrow> nat \<Rightarrow> api_key_row list
    \<Rightarrow> (nat \<times> api_key_row list) res" where
  "re_encrypt_rows cr nonce enc_key prev_key n [] = Inr (n, [])"
| "re_encrypt_rows cr nonce enc_key prev_key n (row # rows) =
     (case decrypt_aes_gcm cr (ak_key_encrypted row) enc_key of
        Inr _ \<Rightarrow> rbind (re_encrypt_rows cr nonce enc_key prev_key n rows) (\<lambda>(c, rs). Inr (c, row # rs))
      | Inl _ \<Rightarrow>
          (case decrypt_aes_gcm cr (ak_key_encrypted row) prev_key of
             Inl _ \<Rightarrow> rbind (re_encrypt_rows cr nonce enc_key prev_key n rows) (\<lambda>(c, rs). Inr (c, row # rs))
           | Inr plaintext \<Rightarrow>
               rbind (encrypt_aes_gcm cr (nonce n) plaintext enc_key) (\<lambda>encrypted.
               rbind (re_encrypt_rows cr nonce enc_key prev_key (Suc n) rows) (\<lambda>(c, rs).
               Inr (c, row\<lparr>ak_key_encrypted := encrypted\<rparr> # rs)))))"

text \<open>The count is the number of rows written, here the next free nonce.\<close>

definition re_encrypt_stale_keys :: "crypto \<Rightarrow> settings \<Rightarrow> (nat \<Rightarrow> string) \<Rightarrow> (database, nat) io" where
  "re_encrypt_stale_keys cr st nonce db =
     (case (get_encryption_key st, get_previous_encryption_key st) of
        (Some enc_key, Some prev_key) \<Rightarrow>
          (case re_encrypt_rows cr nonce enc_key prev_key 0 (t_api_key_pool db) of
             Inl e \<Rightarrow> (Inl e, db)
           | Inr (c, rows) \<Rightarrow> (Inr c, db\<lparr>t_api_key_pool := rows\<rparr>))
      | _ \<Rightarrow> (Inr 0, db))"

record secret_rotation_status =
  srs_total_keys :: nat
  srs_re_encrypted :: nat
  srs_pending :: nat
  srs_current_key_hash :: string

definition get_rotation_status :: "crypto \<Rightarrow> pylib \<Rightarrow> settings \<Rightarrow> database \<Rightarrow> secret_rotation_status" where
  "get_rotation_status cr pl st db =
     (let rows = t_api_key_pool db in
      case get_encryption_key st of
        None \<Rightarrow> \<lparr>srs_total_keys = length rows, srs_re_encrypted = 0, srs_pending = 0, srs_current_key_hash = []\<rparr>
      | Some k \<Rightarrow>
          (let ok = (\<lambda>r. case decrypt_aes_gcm cr (ak_key_encrypted r) k of Inr _ \<Rightarrow> True | Inl _ \<Rightarrow> False)
           in \<lparr>srs_total_keys = length rows, srs_re_encrypted = length (filter ok rows),
               srs_pending = length (filter (\<lambda>r. \<not> ok r) rows),
               srs_current_key_hash = take 8 (sha256_hex pl k)\<rparr>))"


section \<open>Selection\<close>

text \<open>Keys with their indices, and the keys a call may hand out.\<close>

fun enum_from :: "int \<Rightarrow> 'a list \<Rightarrow> (int \<times> 'a) list" where
  "enum_from i [] = []"
| "enum_from i (x # xs) = (i, x) # enum_from (i + 1) xs"

definition blocked :: "time \<Rightarrow> key_pool \<Rightarrow> int \<Rightarrow> bool" where
  "blocked now p i = (case map_of (kp_backoff p) i of None \<Rightarrow> False | Some u \<Rightarrow> now < u)"

definition available_keys :: "time \<Rightarrow> key_pool \<Rightarrow> (int \<times> key_entry) list" where
  "available_keys now p = filter (\<lambda>(i, k). ke_healthy k \<and> \<not> blocked now p i) (enum_from 0 (kp_keys p))"

lemma enum_from_fst: "map fst (enum_from i xs) = map (\<lambda>n. i + int n) [0..<length xs]"
proof (induction xs arbitrary: i)
  case (Cons x xs)
  have "[0..<length (x # xs)] = 0 # map Suc [0..<length xs]"
    by (simp add: map_Suc_upt upt_conv_Cons del: upt_Suc)
  with Cons show ?case by (simp add: algebra_simps del: upt_Suc)
qed simp

lemma enum_from_distinct [simp]: "distinct (map fst (enum_from i xs))"
  by (simp add: enum_from_fst distinct_map inj_on_def)

lemma enum_from_mem: "(j, k) \<in> set (enum_from i xs) \<longleftrightarrow> (\<exists>n<length xs. j = i + int n \<and> k = xs ! n)"
proof (induction xs arbitrary: i)
  case (Cons x xs)
  have "(\<exists>n<length (x # xs). j = i + int n \<and> k = (x # xs) ! n) \<longleftrightarrow>
      (j = i \<and> k = x) \<or> (\<exists>n<length xs. j = i + 1 + int n \<and> k = xs ! n)"
    unfolding length_Cons Ex_less_Suc2 by (simp add: add_ac)
  then show ?case by (simp only: enum_from.simps list.set insert_iff prod.inject Cons.IH)
qed simp

lemma enum_from_0: "(j, k) \<in> set (enum_from 0 xs) \<longleftrightarrow> in_range j xs \<and> k = xs ! nat j"
  by (auto simp: enum_from_mem in_range_def intro!: exI [of _ "nat j"])

text \<open>Dropping an elapsed backoff changes no later answer.\<close>

definition pool_same :: "time \<Rightarrow> key_pool \<Rightarrow> key_pool \<Rightarrow> bool" where
  "pool_same now p p' \<longleftrightarrow> kp_provider p' = kp_provider p \<and> kp_keys p' = kp_keys p \<and> kp_counter p' = kp_counter p \<and>
     (\<forall>t\<ge>now. blocked t p' = blocked t p) \<and>
     (\<forall>i u. map_of (kp_backoff p) i = Some u \<longrightarrow> now < u \<longrightarrow> map_of (kp_backoff p') i = Some u)"

lemma pool_same_refl [simp]: "pool_same now p p"
  by (simp add: pool_same_def)

lemma pool_same_trans: "pool_same now p q \<Longrightarrow> pool_same now q r \<Longrightarrow> pool_same now p r"
  by (simp add: pool_same_def)

lemma is_backed_off_same: "is_backed_off now i p = (off, p') \<Longrightarrow> off = blocked now p i \<and> pool_same now p p'"
  by (auto simp: is_backed_off_def blocked_def pool_same_def fun_eq_iff split: option.splits if_splits)

lemma collect_healthy_eq:
  "collect_healthy now i ks p = (hs, p') \<Longrightarrow>
   hs = filter (\<lambda>(i, k). ke_healthy k \<and> \<not> blocked now p i) (enum_from i ks) \<and> pool_same now p p'"
proof (induction now i ks p arbitrary: hs p' rule: collect_healthy.induct)
  case (2 now i k ks p)
  show ?case
  proof (cases "ke_healthy k")
    case True
    obtain off p1 rest where p1: "is_backed_off now i p = (off, p1)" "collect_healthy now (i + 1) ks p1 = (rest, p')"
        "hs = (if off then rest else (i, k) # rest)"
      using "2.prems" True by (auto split: prod.splits)
    have s: "off = blocked now p i" "pool_same now p p1" using is_backed_off_same [OF p1(1)] by simp_all
    then have "blocked now p1 = blocked now p" by (simp add: pool_same_def)
    with "2.IH"(1) [OF True p1(1) [symmetric] refl p1(2)] s p1(3) show ?thesis
      by (auto intro: pool_same_trans simp: True)
  next
    case False
    with "2.IH"(2) "2.prems" show ?thesis by simp
  qed
qed simp

lemma least_used_mem: "least_used b xs \<in> insert b (set xs)"
  by (induction b xs rule: least_used.induct) auto

lemma least_used_le: "ke_usage (snd (least_used b xs)) \<le> ke_usage (snd b)"
proof (induction b xs rule: least_used.induct)
  case (2 b x xs)
  then show ?case by (cases "ke_usage (snd x) < ke_usage (snd b)") simp_all
qed simp

lemma least_used_min: "x \<in> insert b (set xs) \<Longrightarrow> ke_usage (snd (least_used b xs)) \<le> ke_usage (snd x)"
proof (induction b xs rule: least_used.induct)
  case (2 b y xs)
  then show ?case
    using least_used_le [of "if ke_usage (snd y) < ke_usage (snd b) then y else b" xs] by (auto split: if_splits)
qed simp

lemma get_next_key_cases:
  obtains (none) p1 where "available_keys now p = []" "get_next_key rnd now strategy p = (None, p1)" "pool_same now p p1"
  | (some) idx e p1 p2 where "(idx, e) \<in> set (available_keys now p)"
      "get_next_key rnd now strategy p = (Some (ke_plaintext e, idx), p2)" "pool_same now p p1"
      "p2 = (if strategy = ''random'' \<or> strategy = ''least_used'' then p1 else p1\<lparr>kp_counter := kp_counter p + 1\<rparr>)"
      "strategy = ''least_used'' \<Longrightarrow> \<forall>(j, e') \<in> set (available_keys now p). ke_usage e \<le> ke_usage e'"
      "strategy \<noteq> ''random'' \<Longrightarrow> strategy \<noteq> ''least_used'' \<Longrightarrow>
         (idx, e) = available_keys now p ! nat (kp_counter p mod int (length (available_keys now p)))"
proof (cases "kp_keys p = []")
  case True
  then show ?thesis by (intro none [of p]) (simp_all add: available_keys_def get_next_key_def)
next
  case False
  obtain hs p1 where c: "collect_healthy now 0 (kp_keys p) p = (hs, p1)" by fastforce
  have h: "hs = available_keys now p" "pool_same now p p1"
    using collect_healthy_eq [OF c] by (simp_all add: available_keys_def)
  have cnt: "kp_counter p1 = kp_counter p" using h(2) by (simp add: pool_same_def)
  show ?thesis
  proof (cases hs)
    case Nil
    with False c h show ?thesis by (intro none [of p1]) (simp_all add: get_next_key_def)
  next
    case (Cons x xs)
    define pos where "pos = (if strategy = ''random'' then (x # xs) ! (rnd mod length (x # xs))
      else if strategy = ''least_used'' then least_used x xs
      else (x # xs) ! nat (kp_counter p1 mod int (length (x # xs))))"
    obtain idx e where pe: "pos = (idx, e)" by (cases pos)
    have "nat (kp_counter p1 mod int (length (x # xs))) < length (x # xs)" "rnd mod length (x # xs) < length (x # xs)"
      by (simp_all add: nat_less_iff)
    then have "(x # xs) ! nat (kp_counter p1 mod int (length (x # xs))) \<in> set (x # xs)"
        "(x # xs) ! (rnd mod length (x # xs)) \<in> set (x # xs)"
      by (blast intro: nth_mem)+
    moreover have "least_used x xs \<in> set (x # xs)" using least_used_mem [of x xs] by simp
    ultimately have "pos \<in> set (x # xs)" unfolding pos_def by presburger
    moreover have av: "available_keys now p = x # xs" using h(1) Cons by simp
    ultimately have mem: "(idx, e) \<in> set (available_keys now p)" using pe by simp
    have "get_next_key rnd now strategy p = (Some (ke_plaintext e, idx),
       if strategy = ''random'' \<or> strategy = ''least_used'' then p1 else p1\<lparr>kp_counter := kp_counter p + 1\<rparr>)"
      using False c Cons pe by (auto simp: get_next_key_def pos_def cnt split: if_splits)
    moreover have "\<forall>(j, e') \<in> set (x # xs). ke_usage e \<le> ke_usage e'" if "strategy = ''least_used''"
      using least_used_min [of _ x xs] that pe unfolding pos_def by fastforce
    moreover have "(idx, e) = available_keys now p ! nat (kp_counter p mod int (length (available_keys now p)))"
      if "strategy \<noteq> ''random''" "strategy \<noteq> ''least_used''"
      using pe that by (simp add: pos_def cnt av)
    ultimately show ?thesis
      using av by (intro some [OF mem _ h(2)]) simp_all
qed
qed

text \<open>C14.  Every strategy hands out only a key that is healthy and not backed off, with its own
  index, finds one whenever there is one, and \<open>least_used\<close> hands out one used least.\<close>

theorem next_key_available:
  "case fst (get_next_key rnd now strategy p) of
     None \<Rightarrow> available_keys now p = []
   | Some (key, i) \<Rightarrow> in_range i (kp_keys p) \<and> key = ke_plaintext (kp_keys p ! nat i) \<and>
       ke_healthy (kp_keys p ! nat i) \<and> \<not> blocked now p i \<and>
       (strategy = ''least_used'' \<longrightarrow>
         list_all (\<lambda>(j, e). ke_usage (kp_keys p ! nat i) \<le> ke_usage e) (available_keys now p))"
proof (cases rule: get_next_key_cases [of now p rnd strategy])
  case (some idx e p1 p2)
  then have m: "in_range idx (kp_keys p)" "e = kp_keys p ! nat idx" "ke_healthy e" "\<not> blocked now p idx"
    by (auto simp: available_keys_def enum_from_0)
  with some(5) show ?thesis by (auto simp: some(2) list_all_iff)
qed simp

lemma next_key_available_witness:
  "fst (get_next_key 0 5 ''least_used'' (add_key ''k'' None (new_pool ''openai''))) \<noteq> None"
proof -
  let ?p = "add_key ''k'' None (new_pool ''openai'')"
  have "available_keys 5 ?p \<noteq> []" by (simp add: available_keys_def add_key_def new_pool_def blocked_def)
  with next_key_available [where p = ?p and now = 5 and rnd = 0 and strategy = "''least_used''"] show ?thesis by (auto split: option.splits)
qed

text \<open>The keys handed out by \<open>n\<close> calls in a row.\<close>

fun serve :: "nat \<Rightarrow> time \<Rightarrow> key_pool \<Rightarrow> (string \<times> int) option list" where
  "serve 0 now p = []"
| "serve (Suc n) now p = (let (r, p') = get_next_key 0 now ''round_robin'' p in r # serve n now p')"

lemma available_keys_same: "pool_same now p p' \<Longrightarrow> available_keys now (p'\<lparr>kp_counter := c\<rparr>) = available_keys now p"
  by (simp add: available_keys_def pool_same_def blocked_def fun_eq_iff)

lemma serve_rotation:
  assumes "available_keys now p = H" and "H \<noteq> []"
  shows "serve n now p =
    map (\<lambda>k. Some (let (i, e) = H ! nat ((kp_counter p + int k) mod int (length H)) in (ke_plaintext e, i))) [0..<n]"
  using assms
proof (induction n arbitrary: p)
  case (Suc n)
  show ?case
  proof (cases rule: get_next_key_cases [of now p 0 "''round_robin''"])
    case (some idx e p1 p2)
    then have p2: "p2 = p1\<lparr>kp_counter := kp_counter p + 1\<rparr>"
      and ie: "(idx, e) = H ! nat (kp_counter p mod int (length H))" using Suc.prems by simp_all
    have "available_keys now p2 = H" using available_keys_same [OF some(3)] Suc.prems p2 by simp
    moreover have "[0..<Suc n] = 0 # map Suc [0..<n]" by (simp add: map_Suc_upt upt_conv_Cons del: upt_Suc)
    ultimately show ?thesis
      using Suc.IH [of p2] Suc.prems(2) p2 some(2) ie [symmetric] by (simp add: comp_def add_ac del: upt_Suc)
  qed (use Suc.prems in simp)
qed simp

text \<open>C29.  Round robin is fair: in as many calls as there are available keys every one of them is
  handed out exactly once.\<close>

theorem round_robin_fair:
  assumes "available_keys now p \<noteq> []"
  shows "distinct (serve (length (available_keys now p)) now p) \<and>
     set (serve (length (available_keys now p)) now p) =
       (\<lambda>(i, e). Some (ke_plaintext e, i)) ` set (available_keys now p)"
proof -
  let ?H = "available_keys now p" and ?c = "nat (kp_counter p mod int (length (available_keys now p)))"
  let ?f = "\<lambda>(i :: int, e). Some (ke_plaintext e, i)"
  have "nat ((kp_counter p + int k) mod int (length ?H)) = (?c + k) mod length ?H" for k
  proof -
    have "int ((?c + k) mod length ?H) = (kp_counter p + int k) mod int (length ?H)"
      using assms by (simp add: zmod_int mod_add_left_eq)
    then show ?thesis by (metis nat_int)
  qed
  then have "serve (length ?H) now p = map ?f (map (\<lambda>k. ?H ! ((?c + k) mod length ?H)) [0..<length ?H])"
    unfolding serve_rotation [OF refl assms] by (auto simp: split_beta)
  also have "map (\<lambda>k. ?H ! ((?c + k) mod length ?H)) [0..<length ?H] = rotate ?c ?H"
    by (rule nth_equalityI) (simp_all add: nth_rotate)
  finally have s: "serve (length ?H) now p = map ?f (rotate ?c ?H)" .
  have "distinct (map fst ?H)"
    unfolding available_keys_def by (rule distinct_map_filter) simp
  then have d: "distinct ?H" and f: "inj_on fst (set ?H)" unfolding distinct_map by blast+
  have "inj_on ?f (set ?H)"
  proof (rule inj_onI)
    fix x y assume xy: "x \<in> set ?H" "y \<in> set ?H" "?f x = ?f y"
    then have "fst x = fst y" by (simp add: split_beta)
    from inj_onD [OF f this xy(1,2)] show "x = y" .
  qed
  with d show ?thesis unfolding s by (simp add: distinct_map)
qed

lemma round_robin_fair_witness:
  "distinct (serve 2 0 (add_key ''b'' None (add_key ''a'' None (new_pool ''openai''))))"
proof -
  let ?p = "add_key ''b'' None (add_key ''a'' None (new_pool ''openai''))"
  have "length (available_keys 0 ?p) = 2"
    by (simp add: available_keys_def add_key_def new_pool_def blocked_def)
  with round_robin_fair [of 0 ?p] show ?thesis by fastforce
qed


section \<open>Backoff\<close>

text \<open>
  Calls on a pool while the key \<open>i\<close> rests until \<open>u\<close>: all operations, but for the removal of this key or of one before it,
  which shifts the keys and not their backoffs, and another rate limit of this key that ends earlier.
\<close>

inductive pool_step :: "int \<Rightarrow> time \<Rightarrow> time \<times> key_pool \<Rightarrow> time \<times> key_pool \<Rightarrow> bool" for i u where
  next_key: "t \<le> t' \<Longrightarrow> get_next_key rnd t' strategy p = (r, p') \<Longrightarrow> pool_step i u (t, p) (t', p')"
| error: "t \<le> t' \<Longrightarrow> pool_step i u (t, p) (t', mark_error j threshold p)"
| success: "t \<le> t' \<Longrightarrow> pool_step i u (t, p) (t', mark_success t' j p)"
| add: "t \<le> t' \<Longrightarrow> pool_step i u (t, p) (t', add_key key db_id p)"
| limited: "t \<le> t' \<Longrightarrow> j \<noteq> i \<or> u \<le> t' + of_int s \<Longrightarrow> pool_step i u (t, p) (t', mark_rate_limited t' j s p)"
| remove: "t \<le> t' \<Longrightarrow> i < j \<Longrightarrow> remove_key j p = (db_id, p') \<Longrightarrow> pool_step i u (t, p) (t', p')"

definition rests_until :: "int \<Rightarrow> time \<Rightarrow> key_pool \<Rightarrow> bool" where
  "rests_until i u p \<longleftrightarrow> (\<exists>u'. map_of (kp_backoff p) i = Some u' \<and> u \<le> u')"

lemma pool_step_keeps:
  assumes "pool_step i u x y" and "rests_until i u (snd x)" and "fst y < u"
  shows "rests_until i u (snd y)"
  using assms
proof (cases rule: pool_step.cases)
  case (next_key t t' rnd strategy p r p')
  obtain u' where u': "map_of (kp_backoff p) i = Some u'" "u \<le> u'" using assms(2) next_key by (auto simp: rests_until_def)
  have "map_of (kp_backoff p') i = Some u'"
    by (cases rule: get_next_key_cases [of t' p rnd strategy])
       (use next_key assms(3) u' in \<open>auto simp: pool_same_def split: if_splits\<close>)
  with u' next_key show ?thesis by (auto simp: rests_until_def)
qed (auto simp: rests_until_def mark_error_def mark_success_def update_key_def add_key_def mark_rate_limited_def remove_key_def
    dict_set_lookup dict_pop_lookup split: if_splits)

lemma pool_steps_keep:
  "(pool_step i u)\<^sup>*\<^sup>* x y \<Longrightarrow> rests_until i u (snd x) \<Longrightarrow> fst y < u \<Longrightarrow> rests_until i u (snd y)"
proof (induction rule: rtranclp_induct)
  case (step y z)
  then have "fst y \<le> fst z" by (auto elim: pool_step.cases)
  with step show ?case by (auto intro: pool_step_keeps)
qed simp

text \<open>C19.  A key that was rate limited is not handed out before its time has passed, whatever calls run in
  between: choosing keys, counting errors and successes, adding keys, limiting others or this one for longer, and
  removing keys behind it.  (Removing a key before it loses the backoff, see \<open>removal_forgets_backoff\<close>.)\<close>

theorem rate_limited_key_rests:
  assumes "(pool_step i (t + of_int s))\<^sup>*\<^sup>* (t, mark_rate_limited t i s p) (t', p')" and "now < t + of_int s" and "t' \<le> now"
    and "get_next_key rnd now strategy p' = (Some (key, j), p'')"
  shows "j \<noteq> i"
proof -
  have "rests_until i (t + of_int s) p'"
    using pool_steps_keep [OF assms(1)] assms(2,3) by (simp add: mark_rate_limited_def rests_until_def)
  then have "blocked now p' i" using assms(2) by (auto simp: blocked_def rests_until_def)
  with assms(4) show ?thesis
    by (cases rule: get_next_key_cases [of now p' rnd strategy]) (auto simp: available_keys_def)
qed

lemma rate_limited_key_rests_witness:
  "\<exists>p''. get_next_key 0 10 ''round_robin'' (snd (remove_key 2
      (add_key ''c'' None (mark_rate_limited 5 0 60 (add_key ''b'' None (add_key ''a'' None (new_pool ''openai'')))))) ) =
    (Some (''b'', 1), p'')"
proof -
  let ?p = "add_key ''b'' None (add_key ''a'' None (new_pool ''openai''))"
  let ?q = "snd (remove_key 2 (add_key ''c'' None (mark_rate_limited 5 0 60 ?p)))"
  have "pool_step 0 (5 + of_int 60) (5, mark_rate_limited 5 0 60 ?p) (6, add_key ''c'' None (mark_rate_limited 5 0 60 ?p))"
    by (rule pool_step.add) simp
  moreover have "pool_step 0 (5 + of_int 60) (6, add_key ''c'' None (mark_rate_limited 5 0 60 ?p)) (7, ?q)"
    by (rule pool_step.remove [where j = 2, OF _ _ prod.collapse [symmetric]]) simp_all
  ultimately have run: "(pool_step 0 (5 + of_int 60))\<^sup>*\<^sup>* (5, mark_rate_limited 5 0 60 ?p) (7, ?q)" by (rule rtranclp.rtrancl_into_rtrancl [OF r_into_rtranclp])
  obtain key j p'' where g: "get_next_key 0 10 ''round_robin'' ?q = (Some (key, j), p'')" "(key, j) = (''a'', 0) \<or> (key, j) = (''b'', 1)"
    by (cases rule: get_next_key_cases [of 10 ?q 0 "''round_robin''"])
       (auto simp: available_keys_def add_key_def new_pool_def blocked_def mark_rate_limited_def remove_key_def in_range_def split: if_splits)
  have "j \<noteq> 0" by (rule rate_limited_key_rests [OF run _ _ g(1)]) simp_all
  with g show ?thesis by auto
qed

text \<open>Removing a key leaves the backoffs of the keys behind it at their old indices: after the
  first of two keys is removed, the second, still backed off, is handed out at once.\<close>

theorem removal_forgets_backoff:
  assumes "kp_keys p = [a, b]" and "ke_healthy b" and "kp_backoff p = [(1, u)]" and "now < u"
  shows "blocked now p 1 \<and> fst (get_next_key rnd now strategy (snd (remove_key 0 p))) = Some (ke_plaintext b, 0)"
proof -
  have av: "available_keys now (snd (remove_key 0 p)) = [(0, b)]"
    using assms by (simp add: remove_key_def in_range_def available_keys_def blocked_def)
  have "fst (get_next_key rnd now strategy (snd (remove_key 0 p))) = Some (ke_plaintext b, 0)"
    by (cases rule: get_next_key_cases [of now "snd (remove_key 0 p)" rnd strategy]) (auto simp: av)
  with assms show ?thesis by (simp add: blocked_def)
qed

lemma removal_forgets_backoff_witness:
  "fst (get_next_key 0 10 ''round_robin'' (snd (remove_key 0
     (mark_rate_limited 5 1 60 (add_key ''b'' None (add_key ''a'' None (new_pool ''openai''))))))) = Some (''b'', 0)"
proof -
  let ?p = "mark_rate_limited 5 1 60 (add_key ''b'' None (add_key ''a'' None (new_pool ''openai'')))"
  have "kp_keys ?p = [kp_keys ?p ! 0, kp_keys ?p ! 1]" "ke_healthy (kp_keys ?p ! 1)"
    "ke_plaintext (kp_keys ?p ! 1) = ''b''" "kp_backoff ?p = [(1, 65)]"
    by (simp_all add: add_key_def new_pool_def mark_rate_limited_def)
  with removal_forgets_backoff [of ?p "kp_keys ?p ! 0" "kp_keys ?p ! 1" 65 10 0 "''round_robin''"]
  show ?thesis by simp
qed


section \<open>Loading and rotation of the secret\<close>

lemma decrypt_key_Some: "\<exists>s. decrypt_key cr c k k' = Some s"
  by (simp add: decrypt_key_def split: option.split sum.split)

lemma get_pool_on_pool [simp]:
  "get_pool q (on_pool r f m) = (if q = r then f (get_pool r m) else get_pool q m)"
  by (simp add: get_pool_def on_pool_def)

lemma load_rows_count:
  "kp_count (get_pool q (load_rows cr st rows m)) =
   kp_count (get_pool q m) + length (filter (\<lambda>r. ak_provider r = q) rows)"
proof (induction cr st rows m rule: load_rows.induct)
  case (2 cr st row rows m)
  obtain s where "decrypt_key cr (ak_key_encrypted row) (get_encryption_key st) (get_previous_encryption_key st) = Some s"
    using decrypt_key_Some by metis
  with 2 show ?case by (simp add: kp_count_def add_key_def)
qed simp

text \<open>Start-up loads every stored key twice: seeding ends with a load, and the start-up code loads
  again into the same pools.\<close>

theorem startup_loads_twice:
  assumes "seed_from_config cr st uid nonce now ([], db) = (Inr (), (m1, db1))"
  shows "kp_count (get_pool q (fst (load_from_db cr st (m1, db1)))) =
     2 * length (filter (\<lambda>r. ak_provider r = q) (t_api_key_pool db1))"
proof -
  have "m1 = load_rows cr st (t_api_key_pool db1) []"
    using assms by (auto simp: seed_from_config_def load_from_db_def split: prod.splits sum.splits)
  moreover have "kp_count (get_pool q []) = 0" by (simp add: get_pool_def new_pool_def kp_count_def)
  ultimately show ?thesis by (simp add: load_from_db_def load_rows_count)
qed

lemma startup_loads_twice_witness:
  "kp_count (get_pool ''openai'' (fst (load_from_db prefix_cipher default_settings
     (snd (seed_from_config prefix_cipher (default_settings\<lparr>OPENAI_API_KEYS := ''sk-1''\<rparr>)
        (\<lambda>n. ''id'') (\<lambda>n. []) 0 ([], empty_db)))))) = 2"
proof -
  let ?st = "default_settings\<lparr>OPENAI_API_KEYS := ''sk-1''\<rparr>"
  let ?db = "empty_db\<lparr>t_api_key_pool := [new_key_row ''id'' 0 ''openai'' ''sk-1'']\<rparr>"
  have enc: "get_encryption_key ?st = None" "get_encryption_key default_settings = None"
    by (simp_all add: get_encryption_key_def default_settings_def)
  have "provider_keys ?st = [(''anthropic'', []), (''openai'', [''sk-1'']), (''azure_openai'', []), (''gemini'', []),
      (''groq'', []), (''mistral'', [])]"
    by (simp add: provider_keys_def anthropic_api_keys_list_def openai_api_keys_list_def
        azure_openai_api_keys_list_def gemini_api_keys_list_def groq_api_keys_list_def mistral_api_keys_list_def
        settings_split_def default_settings_def str_strip_def is_space_def)
  then have s: "seed_from_config prefix_cipher ?st (\<lambda>n. ''id'') (\<lambda>n. []) 0 ([], empty_db) =
      (Inr (), load_from_db prefix_cipher ?st ([], ?db))"
    by (simp add: seed_from_config_def with_db_def bnd_def str_strip_def is_space_def encrypt_key_def enc empty_db_def)
  then have "seed_from_config prefix_cipher ?st (\<lambda>n. ''id'') (\<lambda>n. []) 0 ([], empty_db) =
      (Inr (), (fst (load_from_db prefix_cipher ?st ([], ?db)), ?db))"
    by (simp add: load_from_db_def)
  from startup_loads_twice [OF this, of "''openai''"]
  show ?thesis unfolding s by (simp add: load_from_db_def new_key_row_def decrypt_key_def enc)
qed


text \<open>What a row's text decrypts to, with the current key or else the previous one.\<close>

definition row_secret :: "crypto \<Rightarrow> string \<Rightarrow> string \<Rightarrow> api_key_row \<Rightarrow> string option" where
  "row_secret cr k k' r =
     (case decrypt_aes_gcm cr (ak_key_encrypted r) k of
        Inr p \<Rightarrow> Some p
      | Inl _ \<Rightarrow> (case decrypt_aes_gcm cr (ak_key_encrypted r) k' of Inr p \<Rightarrow> Some p | Inl _ \<Rightarrow> None))"

text \<open>A row after the run: still the same secret, under the current key; an unreadable row is as it was.\<close>

definition re_encrypted :: "crypto \<Rightarrow> string \<Rightarrow> string \<Rightarrow> api_key_row \<Rightarrow> api_key_row \<Rightarrow> bool" where
  "re_encrypted cr k k' r r' \<longleftrightarrow> ak_id r' = ak_id r \<and> ak_provider r' = ak_provider r \<and>
     (case row_secret cr k k' r of
        None \<Rightarrow> r' = r
      | Some p \<Rightarrow> decrypt_aes_gcm cr (ak_key_encrypted r') k = Inr p)"

lemma re_encrypt_rows_ok:
  assumes "crypto_ok cr" and "\<forall>i. length (nonce i) = 12" and "length k = 32"
  shows "\<exists>c rows'. re_encrypt_rows cr nonce k k' n rows = Inr (c, rows') \<and>
     list_all2 (re_encrypted cr k k') rows rows' \<and>
     c = n + length (filter (\<lambda>r. row_secret cr k k' r \<noteq> None \<and> (\<exists>e. decrypt_aes_gcm cr (ak_key_encrypted r) k = Inl e)) rows)"
proof (induction rows arbitrary: n)
  case (Cons r rows)
  show ?case
  proof (cases "decrypt_aes_gcm cr (ak_key_encrypted r) k")
    case (Inr p)
    with Cons [of n] show ?thesis by (fastforce simp: re_encrypted_def row_secret_def)
  next
    case e: (Inl e)
    show ?thesis
    proof (cases "decrypt_aes_gcm cr (ak_key_encrypted r) k'")
      case (Inl e')
      with e Cons [of n] show ?thesis by (fastforce simp: re_encrypted_def row_secret_def)
    next
      case (Inr p)
      obtain c where "encrypt_aes_gcm cr (nonce n) p k = Inr c" "decrypt_aes_gcm cr c k = Inr p"
        using aes_round_trip [OF assms(1) _ assms(3)] assms(2) by blast
      with e Inr Cons [of "Suc n"] show ?thesis by (fastforce simp: re_encrypted_def row_secret_def)
    qed
  qed
qed simp

lemma re_encrypt_rows_again:
  assumes "list_all2 (re_encrypted cr k k') rows rows'"
  shows "re_encrypt_rows cr nonce k k' n rows' = Inr (n, rows')"
  using assms
proof (induction rows rows' rule: list_all2_induct)
  case (Cons r rows r' rows')
  then show ?case by (auto simp: re_encrypted_def row_secret_def split: option.splits sum.splits)
qed simp

text \<open>Re-encryption always completes: every key readable with the current or the previous secret
  ends readable with the current one, as the same key, unreadable rows stay as they are, and a
  second run changes nothing and counts nothing.\<close>

theorem re_encryption_complete:
  assumes "crypto_ok cr" and "\<forall>i. length (nonce i) = 12"
    and "get_encryption_key st = Some k" and "get_previous_encryption_key st = Some k'"
  shows "\<exists>c db'. re_encrypt_stale_keys cr st nonce db = (Inr c, db') \<and>
     list_all2 (re_encrypted cr k k') (t_api_key_pool db) (t_api_key_pool db') \<and>
     re_encrypt_stale_keys cr st nonce' db' = (Inr 0, db')"
proof -
  obtain c rows' where r: "re_encrypt_rows cr nonce k k' 0 (t_api_key_pool db) = Inr (c, rows')"
      "list_all2 (re_encrypted cr k k') (t_api_key_pool db) rows'"
    using re_encrypt_rows_ok [OF assms(1,2) encryption_key_length(1) [OF assms(3)], of k' 0 "t_api_key_pool db"]
    by blast
  have first: "re_encrypt_stale_keys cr st nonce db = (Inr c, db\<lparr>t_api_key_pool := rows'\<rparr>)"
    by (simp add: re_encrypt_stale_keys_def assms(3,4) r(1))
  have again: "re_encrypt_stale_keys cr st nonce' (db\<lparr>t_api_key_pool := rows'\<rparr>) = (Inr 0, db\<lparr>t_api_key_pool := rows'\<rparr>)"
    by (simp add: re_encrypt_stale_keys_def assms(3,4) re_encrypt_rows_again [OF r(2)])
  show ?thesis
    by (rule exI [of _ c], rule exI [of _ "db\<lparr>t_api_key_pool := rows'\<rparr>"]) (simp add: first again r(2))
qed

lemma re_encryption_complete_witness:
  "\<exists>c db'. re_encrypt_stale_keys prefix_cipher
      (default_settings\<lparr>KEY_ENCRYPTION_SECRET := ''new'', KEY_ENCRYPTION_SECRET_PREVIOUS := ''old''\<rparr>)
      (\<lambda>_. replicate 12 CHR ''n'') empty_db = (Inr c, db')"
proof -
  let ?st = "default_settings\<lparr>KEY_ENCRYPTION_SECRET := ''new'', KEY_ENCRYPTION_SECRET_PREVIOUS := ''old''\<rparr>"
  have "get_encryption_key ?st = Some (pad_key ''new'')" "get_previous_encryption_key ?st = Some (pad_key ''old'')"
    by (simp_all add: get_encryption_key_def get_previous_encryption_key_def)
  from re_encryption_complete [OF prefix_cipher_ok(1) _ this, of "\<lambda>_. replicate 12 CHR ''n''" empty_db "\<lambda>_. []"]
  show ?thesis by auto
qed

lemma load_rows_append: "load_rows cr st (rows @ rows') m = load_rows cr st rows' (load_rows cr st rows m)"
  by (induction cr st rows m rule: load_rows.induct) (auto split: option.splits)

text \<open>A key added through the manager survives a restart: a fresh load of the table gives it back
  in clear, as the last key of its provider, and removing it again restores the table.\<close>

theorem added_key_survives_restart:
  assumes "crypto_ok cr" and "length nonce = 12"
    and "add_key_to_db cr st uid nonce now provider key (m, db) = (Inr e, (m', db'))"
    and "\<forall>r \<in> set (t_api_key_pool db). ak_id r \<noteq> uid"
  shows "ke_plaintext (last (kp_keys (get_pool provider (fst (load_from_db cr st ([], db')))))) = key \<and>
     snd (snd (remove_key_from_db provider (int (kp_count (get_pool provider m))) (m', db'))) = db"
proof -
  obtain c where c: "encrypt_key cr nonce key (get_encryption_key st) = Inr c"
      "m' = on_pool provider (add_key key (Some uid)) m"
      "db' = db\<lparr>t_api_key_pool := t_api_key_pool db @ [new_key_row uid now provider c]\<rparr>"
    using assms(3) by (auto simp: add_key_to_db_def split: sum.splits)
  have "decrypt_key cr c (get_encryption_key st) (get_previous_encryption_key st) = Some key"
  proof (cases "get_encryption_key st")
    case None
    with c(1) show ?thesis by (simp add: encrypt_key_def decrypt_key_def)
  next
    case (Some k)
    with aes_round_trip [OF assms(1,2) encryption_key_length(1) [OF Some], of key] c(1)
    show ?thesis by (auto simp: encrypt_key_def decrypt_key_def)
  qed
  then have "ke_plaintext (last (kp_keys (get_pool provider (fst (load_from_db cr st ([], db')))))) = key"
    by (simp add: load_from_db_def c(3) load_rows_append new_key_row_def add_key_def)
  moreover have "\<not> list_ex (\<lambda>r. ak_id r = uid) (t_api_key_pool db)" using assms(4) by (simp add: list_ex_iff)
  ultimately show ?thesis
    by (simp add: c(2,3) remove_key_from_db_def remove_key_def in_range_def add_key_def kp_count_def nth_append
        delete_first_append new_key_row_def)
qed

lemma added_key_survives_restart_witness:
  "ke_plaintext (last (kp_keys (get_pool ''openai'' (fst (load_from_db prefix_cipher default_settings
     ([], snd (snd (add_key_to_db prefix_cipher default_settings ''id'' (replicate 12 CHR ''n'') 0 ''openai'' ''sk-1''
       ([], empty_db))))))))) = ''sk-1''"
proof -
  let ?a = "add_key_to_db prefix_cipher default_settings ''id'' (replicate 12 CHR ''n'') 0 ''openai'' ''sk-1'' ([], empty_db)"
  have "\<exists>e. fst ?a = Inr e" by (simp add: add_key_to_db_def encrypt_key_def get_encryption_key_def default_settings_def)
  then obtain e where "?a = (Inr e, (fst (snd ?a), snd (snd ?a)))" by (metis prod.collapse)
  from added_key_survives_restart [OF prefix_cipher_ok(1) _ this] show ?thesis by (simp add: empty_db_def)
qed

end
