(* ===== verification/Catalog.thy ===== *)
theory Catalog
  imports Db
begin

text \<open>
  \<open>cost_tracker.py\<close> and \<open>model_alias.py\<close>: the rates with their wildcard lookup, the cost of a
  request, the usage summary; the aliases of models with their slugs.  A response model with
  the fields of its row is the row.
\<close>


section \<open>Order of text\<close>

fun str_le :: "string \<Rightarrow> string \<Rightarrow> bool" where
  "str_le [] t = True"
| "str_le (c # s) [] = False"
| "str_le (c # s) (d # t) = ((of_char c :: nat) < of_char d \<or> (c = d \<and> str_le s t))"

text \<open>\<open>ORDER BY\<close>: insertion sort, stable.\<close>

fun insert_by :: "('a \<Rightarrow> 'a \<Rightarrow> bool) \<Rightarrow> 'a \<Rightarrow> 'a list \<Rightarrow> 'a list" where
  "insert_by le x [] = [x]"
| "insert_by le x (y # ys) = (if le x y then x # y # ys else y # insert_by le x ys)"

definition order_by :: "('a \<Rightarrow> 'a \<Rightarrow> bool) \<Rightarrow> 'a list \<Rightarrow> 'a list" where
  "order_by le xs = foldr (insert_by le) xs []"

lemma set_insert_by [simp]: "set (insert_by le x ys) = insert x (set ys)"
  by (induction ys) auto

lemma set_order_by [simp]: "set (order_by le xs) = set xs"
  by (induction xs) (simp_all add: order_by_def)


section \<open>Cost rates\<close>

definition builtin_rates :: "(string \<times> string \<times> rat \<times> rat) list" where
  "builtin_rates =
     [(''anthropic'', ''claude-opus-4-6'', 15/1000, 75/1000),
      (''anthropic'', ''claude-sonnet-4-6'', 3/1000, 15/1000),
      (''anthropic'', ''claude-haiku-4-5-20251001'', 25/100000, 125/100000),
      (''openai'', ''gpt-4o'', 25/10000, 1/100),
      (''openai'', ''gpt-4o-mini'', 15/100000, 6/10000),
      (''openai'', ''gpt-4-turbo'', 1/100, 3/100),
      (''openai'', ''gpt-3.5-turbo'', 5/10000, 15/10000),
      (''gemini'', ''gemini-1.5-pro'', 125/100000, 5/1000),
      (''gemini'', ''gemini-1.5-flash'', 75/1000000, 3/10000),
      (''ollama'', ''*'', 0, 0)]"

definition new_rate :: "string \<Rightarrow> time \<Rightarrow> string \<Rightarrow> string \<Rightarrow> rat \<Rightarrow> rat \<Rightarrow> cost_rate_row" where
  "new_rate uid now provider model inp outp =
     \<lparr>cr_id = uid, cr_provider = provider, cr_model = model, cr_input_cost_per_1k = inp,
      cr_output_cost_per_1k = outp, cr_currency = ''USD'', cr_effective_from = now, cr_is_active = True\<rparr>"

text \<open>The table's unique constraint is checked when the row is written.\<close>

definition insert_rate :: "cost_rate_row \<Rightarrow> (database, cost_rate_row) io" where
  "insert_rate r db =
     (if list_ex (\<lambda>r'. cr_provider r' = cr_provider r \<and> cr_model r' = cr_model r \<and>
                       cr_effective_from r' = cr_effective_from r) (t_cost_rates db)
      then (Inl IntegrityError, db)
      else (Inr r, db\<lparr>t_cost_rates := t_cost_rates db @ [r]\<rparr>))"

fun seed_rates :: "(nat \<Rightarrow> string) \<Rightarrow> time \<Rightarrow> (string \<times> string \<times> rat \<times> rat) list \<Rightarrow> nat \<Rightarrow> (database, nat) io" where
  "seed_rates uid now [] n db = (Inr n, db)"
| "seed_rates uid now ((provider, model, inp, outp) # rs) n db =
     (if list_ex (\<lambda>r. cr_provider r = provider \<and> cr_model r = model) (t_cost_rates db)
      then seed_rates uid now rs n db
      else bnd (insert_rate (new_rate (uid n) now provider model inp outp)) (\<lambda>_. seed_rates uid now rs (Suc n)) db)"

definition seed_cost_rates :: "(nat \<Rightarrow> string) \<Rightarrow> time \<Rightarrow> (database, nat) io" where
  "seed_cost_rates uid now = with_db (seed_rates uid now builtin_rates 0)"

definition find_rate :: "string \<Rightarrow> string \<Rightarrow> database \<Rightarrow> cost_rate_row option" where
  "find_rate provider model db =
     find (\<lambda>r. cr_provider r = provider \<and> cr_model r = model \<and> cr_is_active r) (t_cost_rates db)"

definition get_cost_rate :: "string \<Rightarrow> string \<Rightarrow> database \<Rightarrow> cost_rate_row option" where
  "get_cost_rate provider model db =
     (case find_rate provider model db of
        Some r \<Rightarrow> Some r
      | None \<Rightarrow> find_rate provider ''*'' db)"

definition calculate_cost :: "int \<Rightarrow> int \<Rightarrow> cost_rate_row option \<Rightarrow> rat option" where
  "calculate_cost input_tokens output_tokens rate =
     (case rate of
        None \<Rightarrow> None
      | Some r \<Rightarrow>
          (let input_cost = (of_int input_tokens / 1000) * cr_input_cost_per_1k r;
               output_cost = (of_int output_tokens / 1000) * cr_output_cost_per_1k r
           in Some (py_round (input_cost + output_cost) 8)))"

definition update_token_usage_cost :: "string \<Rightarrow> rat \<Rightarrow> database \<Rightarrow> database" where
  "update_token_usage_cost usage_id cost_usd db =
     db\<lparr>t_token_usage := update_first (\<lambda>r. tu_id r = usage_id) (\<lambda>r. r\<lparr>tu_cost_usd := Some cost_usd\<rparr>) (t_token_usage db)\<rparr>"

record cost_summary =
  cs_total_input_tokens :: int
  cs_total_output_tokens :: int
  cs_total_cost_usd :: rat
  cs_request_count :: nat

text \<open>A filter applies when it is given and not empty; the dates are given as day texts.\<close>

definition opt_filter :: "('a \<Rightarrow> bool) \<Rightarrow> 'a option \<Rightarrow> ('a \<Rightarrow> bool) \<Rightarrow> bool" where
  "opt_filter given x P = (case x of None \<Rightarrow> True | Some v \<Rightarrow> given v \<longrightarrow> P v)"

definition usage_selected :: "string option \<Rightarrow> string option \<Rightarrow> string option \<Rightarrow> string option \<Rightarrow> string option
    \<Rightarrow> token_usage_row \<Rightarrow> bool" where
  "usage_selected client_id provider model date_from date_to r \<longleftrightarrow>
     opt_filter (\<lambda>v. v \<noteq> []) client_id (\<lambda>v. tu_client_id r = v) \<and>
     opt_filter (\<lambda>v. v \<noteq> []) provider (\<lambda>v. tu_provider r = v) \<and>
     opt_filter (\<lambda>v. v \<noteq> []) model (\<lambda>v. tu_model r = v) \<and>
     opt_filter (\<lambda>_. True) date_from (\<lambda>v. str_le v (tu_date r)) \<and>
     opt_filter (\<lambda>_. True) date_to (\<lambda>v. str_le (tu_date r) v)"

definition get_cost_summary :: "string option \<Rightarrow> string option \<Rightarrow> string option \<Rightarrow> string option \<Rightarrow> string option
    \<Rightarrow> database \<Rightarrow> cost_summary" where
  "get_cost_summary client_id provider model date_from date_to db =
     (let rows = filter (usage_selected client_id provider model date_from date_to) (t_token_usage db)
      in \<lparr>cs_total_input_tokens = sum_list (map tu_input_tokens rows),
          cs_total_output_tokens = sum_list (map tu_output_tokens rows),
          cs_total_cost_usd = py_round (sum_list (map (\<lambda>r. case tu_cost_usd r of None \<Rightarrow> 0 | Some c \<Rightarrow> c) rows)) 6,
          cs_request_count = length rows\<rparr>)"

definition rate_before :: "cost_rate_row \<Rightarrow> cost_rate_row \<Rightarrow> bool" where
  "rate_before r r' \<longleftrightarrow>
     (if cr_provider r = cr_provider r' then str_le (cr_model r) (cr_model r')
      else str_le (cr_provider r) (cr_provider r'))"

definition get_all_rates :: "database \<Rightarrow> cost_rate_row list" where
  "get_all_rates db = order_by rate_before (filter cr_is_active (t_cost_rates db))"

definition create_rate :: "string \<Rightarrow> time \<Rightarrow> string \<Rightarrow> string \<Rightarrow> rat \<Rightarrow> rat \<Rightarrow> (database, cost_rate_row) io" where
  "create_rate uid now provider model inp outp = with_db (insert_rate (new_rate uid now provider model inp outp))"

definition deactivate_rate :: "string \<Rightarrow> database \<Rightarrow> bool \<times> database" where
  "deactivate_rate rate_id db =
     (if list_ex (\<lambda>r. cr_id r = rate_id) (t_cost_rates db)
      then (True, db\<lparr>t_cost_rates := update_first (\<lambda>r. cr_id r = rate_id) (\<lambda>r. r\<lparr>cr_is_active := False\<rparr>) (t_cost_rates db)\<rparr>)
      else (False, db))"


section \<open>Model aliases\<close>

definition builtin_aliases :: "(string \<times> string \<times> string \<times> string) list" where
  "builtin_aliases =
     [(''fast'', ''anthropic'', ''claude-haiku-4-5-20251001'', ''Fast Anthropic model''),
      (''smart'', ''anthropic'', ''claude-sonnet-4-6'', ''Smart Anthropic model''),
      (''powerful'', ''anthropic'', ''claude-opus-4-6'', ''Most powerful Anthropic model''),
      (''gpt-fast'', ''openai'', ''gpt-4o-mini'', ''Fast OpenAI model''),
      (''gpt-smart'', ''openai'', ''gpt-4o'', ''Smart OpenAI model''),
      (''gemini-fast'', ''gemini'', ''gemini-1.5-flash'', ''Fast Gemini model''),
      (''gemini-smart'', ''gemini'', ''gemini-1.5-pro'', ''Smart Gemini model'')]"

definition new_alias :: "string \<Rightarrow> time \<Rightarrow> string \<Rightarrow> string \<Rightarrow> string \<Rightarrow> string option \<Rightarrow> model_alias_row" where
  "new_alias uid now alias provider model description =
     \<lparr>ma_id = uid, ma_alias = alias, ma_provider = provider, ma_model = model, ma_description = description,
      ma_is_active = True, ma_created_at = now, ma_usage_count = 0\<rparr>"

definition alias_exists :: "string \<Rightarrow> database \<Rightarrow> bool" where
  "alias_exists alias db \<longleftrightarrow> list_ex (\<lambda>r. ma_alias r = alias) (t_model_aliases db)"

definition insert_alias :: "model_alias_row \<Rightarrow> (database, model_alias_row) io" where
  "insert_alias r db =
     (if alias_exists (ma_alias r) db then (Inl IntegrityError, db)
      else (Inr r, db\<lparr>t_model_aliases := t_model_aliases db @ [r]\<rparr>))"

fun seed_aliases :: "(nat \<Rightarrow> string) \<Rightarrow> time \<Rightarrow> (string \<times> string \<times> string \<times> string) list \<Rightarrow> nat \<Rightarrow> (database, nat) io" where
  "seed_aliases uid now [] n db = (Inr n, db)"
| "seed_aliases uid now ((alias, provider, model, description) # als) n db =
     (if alias_exists alias db then seed_aliases uid now als n db
      else bnd (insert_alias (new_alias (uid n) now alias provider model (Some description)))
             (\<lambda>_. seed_aliases uid now als (Suc n)) db)"

definition seed_builtin_aliases :: "(nat \<Rightarrow> string) \<Rightarrow> time \<Rightarrow> (database, nat) io" where
  "seed_builtin_aliases uid now = with_db (seed_aliases uid now builtin_aliases 0)"

definition is_lower_alnum :: "char \<Rightarrow> bool" where
  "is_lower_alnum c \<longleftrightarrow> (let n = (of_char c :: nat) in (97 \<le> n \<and> n \<le> 122) \<or> (48 \<le> n \<and> n \<le> 57))"

fun is_slug :: "string \<Rightarrow> bool" where
  "is_slug [] = False"
| "is_slug (c # s) = (is_lower_alnum c \<and> list_all (\<lambda>d. is_lower_alnum d \<or> d = CHR ''-'') s)"

text \<open>
  The match of the slug pattern; its dollar sign also matches before a final line break.
\<close>

definition validate_slug :: "string \<Rightarrow> unit res" where
  "validate_slug alias =
     (if is_slug alias \<or> (alias \<noteq> [] \<and> last alias = CHR 0x0A \<and> is_slug (butlast alias)) then Inr ()
      else Inl (ValueError (''Alias must be a URL-safe slug (a-z, 0-9, hyphens): '' @ alias)))"

definition alias_before :: "model_alias_row \<Rightarrow> model_alias_row \<Rightarrow> bool" where
  "alias_before r r' \<longleftrightarrow> str_le (ma_alias r) (ma_alias r')"

definition get_all_aliases :: "bool \<Rightarrow> database \<Rightarrow> model_alias_row list" where
  "get_all_aliases include_inactive db =
     filter (\<lambda>r. include_inactive \<or> ma_is_active r) (order_by alias_before (t_model_aliases db))"

definition get_alias :: "string \<Rightarrow> database \<Rightarrow> model_alias_row option" where
  "get_alias alias db = find (\<lambda>r. ma_alias r = alias \<and> ma_is_active r) (t_model_aliases db)"

definition create_alias :: "string \<Rightarrow> time \<Rightarrow> string \<Rightarrow> string \<Rightarrow> string \<Rightarrow> string option
    \<Rightarrow> (database, model_alias_row) io" where
  "create_alias uid now alias provider model description db =
     (case validate_slug alias of
        Inl e \<Rightarrow> (Inl e, db)
      | Inr _ \<Rightarrow>
          with_db (\<lambda>db. if alias_exists alias db then (Inl (ValueError (''Alias '' @ alias @ '' already exists'')), db)
                        else insert_alias (new_alias uid now alias provider model description) db) db)"

record alias_update =
  mau_provider :: "string option"
  mau_model :: "string option"
  mau_description :: "string option"
  mau_is_active :: "bool option"

definition set_if :: "'a option \<Rightarrow> ('a \<Rightarrow> 'r \<Rightarrow> 'r) \<Rightarrow> 'r \<Rightarrow> 'r" where
  "set_if x f r = (case x of None \<Rightarrow> r | Some v \<Rightarrow> f v r)"

definition apply_alias_update :: "alias_update \<Rightarrow> model_alias_row \<Rightarrow> model_alias_row" where
  "apply_alias_update u r =
     set_if (mau_is_active u) (\<lambda>v. ma_is_active_update (\<lambda>_. v))
       (set_if (mau_description u) (\<lambda>v. ma_description_update (\<lambda>_. Some v))
         (set_if (mau_model u) (\<lambda>v. ma_model_update (\<lambda>_. v))
           (set_if (mau_provider u) (\<lambda>v. ma_provider_update (\<lambda>_. v)) r)))"

definition update_alias :: "string \<Rightarrow> alias_update \<Rightarrow> database \<Rightarrow> model_alias_row option \<times> database" where
  "update_alias alias_id u db =
     (case find (\<lambda>r. ma_id r = alias_id) (t_model_aliases db) of
        None \<Rightarrow> (None, db)
      | Some r \<Rightarrow> (Some (apply_alias_update u r),
          db\<lparr>t_model_aliases := update_first (\<lambda>r. ma_id r = alias_id) (apply_alias_update u) (t_model_aliases db)\<rparr>))"

definition delete_alias :: "string \<Rightarrow> database \<Rightarrow> bool \<times> database" where
  "delete_alias alias_id db =
     (if list_ex (\<lambda>r. ma_id r = alias_id) (t_model_aliases db)
      then (True, db\<lparr>t_model_aliases := delete_first (\<lambda>r. ma_id r = alias_id) (t_model_aliases db)\<rparr>)
      else (False, db))"

definition increment_usage :: "string \<Rightarrow> database \<Rightarrow> database" where
  "increment_usage alias_id db =
     db\<lparr>t_model_aliases := update_first (\<lambda>r. ma_id r = alias_id)
          (\<lambda>r. r\<lparr>ma_usage_count := ma_usage_count r + 1\<rparr>) (t_model_aliases db)\<rparr>"


section \<open>Properties\<close>

text \<open>The aliases of the table are distinct, which every operation keeps.\<close>

definition aliases_unique :: "database \<Rightarrow> bool" where
  "aliases_unique db \<longleftrightarrow> distinct (map ma_alias (t_model_aliases db))"

lemma aliases_unique_insert:
  "insert_alias r db = (x, db') \<Longrightarrow> aliases_unique db \<Longrightarrow> aliases_unique db'"
  by (fastforce simp: insert_alias_def aliases_unique_def alias_exists_def list_ex_iff image_iff split: if_splits)

lemma map_update_first_same: "\<forall>r. f (g r) = f r \<Longrightarrow> map f (update_first P g rows) = map f rows"
  by (induction rows) auto

lemma set_delete_first: "r \<in> set (delete_first P rows) \<Longrightarrow> r \<in> set rows"
  by (induction rows) (auto split: if_splits)

lemma distinct_delete_first: "distinct (map f rows) \<Longrightarrow> distinct (map f (delete_first P rows))"
  by (induction rows) (auto dest: set_delete_first)

lemma apply_alias_update_alias [simp]: "ma_alias (apply_alias_update u r) = ma_alias r"
  by (simp add: apply_alias_update_def set_if_def split: option.split)

lemma aliases_unique_seed:
  "seed_aliases uid now als n db = (x, db') \<Longrightarrow> aliases_unique db \<Longrightarrow> aliases_unique db'"
proof (induction uid now als n db rule: seed_aliases.induct)
  case (2 uid now a p m d als n db)
  then show ?case
    by (auto simp: bnd_def split: if_splits prod.splits sum.splits dest!: aliases_unique_insert)
qed simp

lemma aliases_unique_create:
  "create_alias uid now alias provider model description db = (x, db') \<Longrightarrow> aliases_unique db \<Longrightarrow> aliases_unique db'"
  by (auto simp: create_alias_def with_db_def split: sum.splits unit.splits prod.splits if_splits dest!: aliases_unique_insert)

lemma find_append: "find P (xs @ ys) = (case find P xs of None \<Rightarrow> find P ys | Some x \<Rightarrow> Some x)"
  by (induction xs) auto

lemma find_distinct:
  "distinct (map f rows) \<Longrightarrow> r \<in> set rows \<Longrightarrow> P r \<Longrightarrow> \<forall>r'. P r' \<longrightarrow> f r' = f r \<Longrightarrow> find P rows = Some r"
proof (induction rows)
  case (Cons a rows)
  show ?case
  proof (cases "P a")
    case True
    then have "f a = f r" using Cons.prems(4) by blast
    then have "r \<notin> set rows" using Cons.prems(1) by (metis distinct.simps(2) image_eqI list.set_map list.simps(9))
    with Cons.prems(2) True show ?thesis by simp
  next
    case False
    with Cons.prems(3) have "r \<noteq> a" by blast
    then have "r \<in> set rows" using Cons.prems(2) by simp
    moreover have "distinct (map f rows)" using Cons.prems(1) by simp
    ultimately have "find P rows = Some r" using Cons.prems(3,4) by (intro Cons.IH)
    with False show ?thesis by simp
  qed
qed simp

text \<open>Aliases stay unique under every operation of the module, so a lookup has at most one
  answer: an active alias is found, whatever its position in the table.\<close>

theorem aliases_stay_unique:
  assumes "aliases_unique db"
  shows "aliases_unique (snd (seed_builtin_aliases uid now db)) \<and>
     aliases_unique (snd (create_alias uid' now alias provider model description db)) \<and>
     aliases_unique (snd (update_alias i u db)) \<and> aliases_unique (snd (delete_alias i db)) \<and>
     aliases_unique (increment_usage i db) \<and>
     (r \<in> set (t_model_aliases db) \<longrightarrow> ma_is_active r \<longrightarrow> get_alias (ma_alias r) db = Some r)"
proof -
  have "aliases_unique (snd (seed_builtin_aliases uid now db))"
    using aliases_unique_seed [OF _ assms] assms
    by (cases "seed_aliases uid now builtin_aliases 0 db") (auto simp: seed_builtin_aliases_def with_db_def split: sum.splits)
  moreover have "aliases_unique (snd (create_alias uid' now alias provider model description db))"
    using aliases_unique_create [OF prod.collapse [symmetric] assms] .
  moreover have "get_alias (ma_alias r) db = Some r" if "r \<in> set (t_model_aliases db)" "ma_is_active r"
    using assms that unfolding get_alias_def aliases_unique_def by (intro find_distinct) auto
  ultimately show ?thesis using assms
    by (auto simp: update_alias_def delete_alias_def increment_usage_def aliases_unique_def map_update_first_same
        distinct_delete_first split: option.splits)
qed

lemma aliases_stay_unique_witness: "aliases_unique (snd (seed_builtin_aliases (\<lambda>_. []) 0 empty_db))"
proof -
  have "aliases_unique empty_db" by (simp add: aliases_unique_def empty_db_def)
  from aliases_stay_unique [OF this] show ?thesis by blast
qed

text \<open>A created alias is a slug, possibly with a final line break, resolves to its provider and model
  at once, and cannot be created a second time.\<close>

theorem created_alias_resolves:
  assumes "create_alias uid now alias provider model description db = (Inr r, db')"
  shows "get_alias alias db' = Some r \<and> ma_provider r = provider \<and> ma_model r = model \<and>
     (is_slug alias \<or> is_slug (butlast alias)) \<and>
     (\<exists>e. create_alias uid2 now2 alias p2 m2 d2 db' = (Inl e, db'))"
proof -
  have v: "validate_slug alias = Inr ()" and n: "\<not> alias_exists alias db"
    and r: "r = new_alias uid now alias provider model description"
    and db': "db' = db\<lparr>t_model_aliases := t_model_aliases db @ [r]\<rparr>"
    using assms by (auto simp: create_alias_def with_db_def insert_alias_def new_alias_def
        split: sum.splits unit.splits prod.splits if_splits)
  have "find (\<lambda>r. ma_alias r = alias \<and> ma_is_active r) (t_model_aliases db) = None"
    using n by (auto simp: find_None_iff alias_exists_def list_ex_iff)
  then have "find (\<lambda>r. ma_alias r = alias \<and> ma_is_active r) (t_model_aliases db @ [r]) = Some r"
    by (simp add: find_append r new_alias_def)
  moreover have "alias_exists alias db'" by (simp add: db' r new_alias_def alias_exists_def)
  ultimately show ?thesis using v
    by (auto simp: get_alias_def db' r new_alias_def create_alias_def with_db_def validate_slug_def alias_exists_def
        split: if_splits)
qed

lemma created_alias_resolves_witness:
  "get_alias ''quick'' (snd (create_alias ''id'' 0 ''quick'' ''openai'' ''gpt-4o'' None empty_db)) \<noteq> None"
proof -
  have "\<exists>r. fst (create_alias ''id'' 0 ''quick'' ''openai'' ''gpt-4o'' None empty_db) = Inr r"
    by (simp add: create_alias_def validate_slug_def is_lower_alnum_def with_db_def insert_alias_def alias_exists_def
        empty_db_def)
  then obtain r where "create_alias ''id'' 0 ''quick'' ''openai'' ''gpt-4o'' None empty_db =
      (Inr r, snd (create_alias ''id'' 0 ''quick'' ''openai'' ''gpt-4o'' None empty_db))"
    by (metis prod.collapse)
  from created_alias_resolves [OF this] show ?thesis by simp
qed

lemma find_rate_active: "find_rate p m db = Some r \<Longrightarrow> cr_provider r = p \<and> cr_model r = m \<and> cr_is_active r"
  by (auto simp: find_rate_def find_Some_iff)

text \<open>Costs: a rate is an active one of the provider, of the model itself whenever there is one and
  otherwise the wildcard; the cost lies within half of the eighth decimal of the exact amount
  and is not negative for usage and rates that are not.\<close>

theorem cost_of_request:
  assumes "get_cost_rate provider model db = Some r" and "calculate_cost i j (Some r) = Some c"
  shows "cr_is_active r \<and> cr_provider r = provider \<and>
     (cr_model r = model \<or> (cr_model r = ''*'' \<and> find_rate provider model db = None)) \<and>
     \<bar>c - (of_int i * cr_input_cost_per_1k r + of_int j * cr_output_cost_per_1k r) / 1000\<bar> \<le> 1 / (2 * 10 ^ 8) \<and>
     (0 \<le> i \<and> 0 \<le> j \<and> 0 \<le> cr_input_cost_per_1k r \<and> 0 \<le> cr_output_cost_per_1k r \<longrightarrow> 0 \<le> c)"
proof -
  let ?x = "(of_int i / 1000) * cr_input_cost_per_1k r + (of_int j / 1000) * cr_output_cost_per_1k r"
  have c: "c = py_round ?x 8" using assms(2) by (simp add: calculate_cost_def)
  have x: "?x = (of_int i * cr_input_cost_per_1k r + of_int j * cr_output_cost_per_1k r) / 1000"
    by (simp add: add_divide_distrib)
  have "\<bar>c - ?x\<bar> \<le> 1 / (2 * 10 ^ 8)" unfolding c by (rule py_round_error)
  moreover have "0 \<le> i \<and> 0 \<le> j \<and> 0 \<le> cr_input_cost_per_1k r \<and> 0 \<le> cr_output_cost_per_1k r \<longrightarrow> 0 \<le> c"
    unfolding c by (auto intro!: py_round_nonneg)
  moreover have "cr_is_active r \<and> cr_provider r = provider \<and>
     (cr_model r = model \<or> (cr_model r = ''*'' \<and> find_rate provider model db = None))"
    using assms(1) by (auto simp: get_cost_rate_def dest: find_rate_active split: option.splits)
  ultimately show ?thesis unfolding x by blast
qed

lemma cost_of_request_witness:
  "\<exists>c. calculate_cost 1000 10 (Some (new_rate ''id'' 0 ''openai'' ''gpt-4o'' (25/10000) (1/100))) = Some c \<and> 0 \<le> c"
proof -
  let ?r = "new_rate ''id'' 0 ''openai'' ''gpt-4o'' (25/10000) (1/100)"
  have "get_cost_rate ''openai'' ''gpt-4o'' (empty_db\<lparr>t_cost_rates := [?r]\<rparr>) = Some ?r"
    by (simp add: get_cost_rate_def find_rate_def new_rate_def)
  moreover have "\<exists>c. calculate_cost 1000 10 (Some ?r) = Some c" by (simp add: calculate_cost_def)
  then obtain c where c: "calculate_cost 1000 10 (Some ?r) = Some c" by blast
  ultimately have "0 \<le> c" using cost_of_request [of "''openai''" "''gpt-4o''" _ ?r 1000 10 c] by (simp add: new_rate_def)
  with c show ?thesis by blast
qed

end
