(* ===== verification/Routing.thy ===== *)
theory Routing
  imports Catalog
begin

text \<open>
  \<open>llm_proxy.py\<close>, first part: token estimates, the truncation of a conversation to the context
  window, and the resolution of provider and model.  The tokenizer is a parameter,
  \<^const>\<open>None\<close> when the package is not installed.
\<close>


section \<open>Token estimates\<close>

type_synonym tokenizer = "(string \<Rightarrow> nat res) option"
type_synonym message = jdict

text \<open>\<open>len(x)\<close>\<close>

fun py_len :: "json \<Rightarrow> nat res" where
  "py_len (JStr s) = Inr (length s)"
| "py_len (JList xs) = Inr (length xs)"
| "py_len (JObj d) = Inr (length d)"
| "py_len _ = Inl TypeError"

text \<open>An encoder failure, also on a value that is no string, falls back to the length.\<close>

definition estimate_tokens :: "tokenizer \<Rightarrow> json \<Rightarrow> nat res" where
  "estimate_tokens enc text =
     (if \<not> truthy text then Inr 0
      else (case (enc, text) of
              (Some encode, JStr s) \<Rightarrow>
                (case encode s of
                   Inr n \<Rightarrow> Inr n
                 | Inl _ \<Rightarrow> rbind (py_len text) (\<lambda>n. Inr (max (n div 4) 1)))
            | _ \<Rightarrow> rbind (py_len text) (\<lambda>n. Inr (max (n div 4) 1))))"

fun estimate_parts :: "tokenizer \<Rightarrow> json list \<Rightarrow> nat res" where
  "estimate_parts enc [] = Inr 0"
| "estimate_parts enc (p # ps) =
     rbind (case p of
              JObj d \<Rightarrow> (case map_of d ''text'' of None \<Rightarrow> Inr 0 | Some t \<Rightarrow> estimate_tokens enc t)
            | _ \<Rightarrow> Inr 0)
       (\<lambda>n. rbind (estimate_parts enc ps) (\<lambda>m. Inr (n + m)))"

text \<open>The estimate of one message, with its overhead of four tokens.\<close>

definition message_tokens :: "tokenizer \<Rightarrow> message \<Rightarrow> nat res" where
  "message_tokens enc m =
     (case jget_or (JStr []) ''content'' m of
        JStr s \<Rightarrow> rbind (estimate_tokens enc (JStr s)) (\<lambda>n. Inr (n + 4))
      | JList parts \<Rightarrow> rbind (estimate_parts enc parts) (\<lambda>n. Inr (n + 4))
      | _ \<Rightarrow> Inr 4)"

fun estimate_messages_tokens :: "tokenizer \<Rightarrow> message list \<Rightarrow> nat res" where
  "estimate_messages_tokens enc [] = Inr 0"
| "estimate_messages_tokens enc (m # ms) =
     rbind (message_tokens enc m) (\<lambda>n. rbind (estimate_messages_tokens enc ms) (\<lambda>k. Inr (n + k)))"


section \<open>Context window\<close>

definition is_system :: "message \<Rightarrow> bool" where
  "is_system m \<longleftrightarrow> jget ''role'' m = JStr ''system''"

text \<open>
  The loop over the messages from the newest on; the part sum of the source, where a missing
  text counts as an empty one, is \<^const>\<open>message_tokens\<close> again.
\<close>

fun keep_newest :: "tokenizer \<Rightarrow> int \<Rightarrow> message list \<Rightarrow> int \<Rightarrow> message list \<Rightarrow> message list res" where
  "keep_newest enc budget [] used kept = Inr kept"
| "keep_newest enc budget (m # ms) used kept =
     rbind (message_tokens enc m) (\<lambda>n.
       if used + int n > budget then Inr kept
       else keep_newest enc budget ms (used + int n) (m # kept))"

definition truncate_messages :: "tokenizer \<Rightarrow> message list \<Rightarrow> int \<Rightarrow> (message list \<times> bool) res" where
  "truncate_messages enc messages max_tokens =
     rbind (estimate_messages_tokens enc messages) (\<lambda>current.
       if int current \<le> max_tokens then Inr (messages, False)
       else
         (let system_msgs = filter is_system messages;
              other_msgs = filter (\<lambda>m. \<not> is_system m) messages
          in rbind (estimate_messages_tokens enc system_msgs) (\<lambda>system_tokens.
             let budget = max_tokens - int system_tokens
             in if budget \<le> 0 then Inr (system_msgs, True)
                else rbind (keep_newest enc budget (rev other_msgs) 0 []) (\<lambda>kept.
                     Inr (system_msgs @ kept, length (system_msgs @ kept) < length messages)))))"


section \<open>Provider and model\<close>

definition infer_provider :: "settings \<Rightarrow> string \<Rightarrow> string" where
  "infer_provider st model =
     (let m = str_lower model in
      if str_in ''claude'' m \<or> prefix ''anthropic'' m then ''anthropic''
      else if prefix ''gpt-'' m \<or> prefix ''o1'' m \<or> prefix ''o3'' m then ''openai''
      else if str_in ''gemini'' m then ''gemini''
      else if str_in ''llama'' m \<or> str_in ''mixtral'' m then ''groq''
      else if str_in ''mistral'' m \<or> str_in ''codestral'' m then ''mistral''
      else if str_in ''bedrock'' m \<or> prefix ''anthropic.'' m then ''bedrock''
      else (case fallback_chain_list st of p # _ \<Rightarrow> p | [] \<Rightarrow> ''anthropic''))"

definition default_model :: "string \<Rightarrow> string" where
  "default_model provider = dict_get ''default'' provider
     [(''anthropic'', ''claude-sonnet-4-6''), (''openai'', ''gpt-4o''), (''azure_openai'', ''gpt-4o''),
      (''gemini'', ''gemini-1.5-pro''), (''groq'', ''llama-3.3-70b-versatile''), (''mistral'', ''mistral-large-latest''),
      (''ollama'', ''llama3''), (''bedrock'', ''anthropic.claude-3-5-sonnet-20241022-v2:0''),
      (''openai_compatible'', ''default'')]"

definition get_timeout :: "settings \<Rightarrow> string \<Rightarrow> int" where
  "get_timeout st provider = dict_get 120 provider
     [(''anthropic'', ANTHROPIC_TIMEOUT_SECONDS st), (''openai'', OPENAI_TIMEOUT_SECONDS st),
      (''azure_openai'', OPENAI_TIMEOUT_SECONDS st), (''gemini'', GEMINI_TIMEOUT_SECONDS st),
      (''ollama'', OLLAMA_TIMEOUT_SECONDS st)]"

definition given :: "string option \<Rightarrow> bool" where
  "given x \<longleftrightarrow> x \<noteq> None \<and> x \<noteq> Some []"

text \<open>
  \<open>lookup\<close> is the query of the alias table, which may raise.  The conditional expression that
  picks the provider tests the fallback chain before anything else.
\<close>

definition resolve_model ::
    "settings \<Rightarrow> (string \<Rightarrow> model_alias_row option res) \<Rightarrow> string option \<Rightarrow> string option
     \<Rightarrow> string \<times> string \<times> string option" where
  "resolve_model st lookup provider_hint model_hint =
     (let (provider_hint, model_hint, alias_used) =
        (case model_hint of
           Some h \<Rightarrow>
             if h = [] then (provider_hint, model_hint, None)
             else (case lookup h of
                     Inr (Some row) \<Rightarrow> (Some (ma_provider row), Some (ma_model row), Some h)
                   | _ \<Rightarrow> (provider_hint, model_hint, None))
         | None \<Rightarrow> (provider_hint, model_hint, None));
        provider_hint = (if \<not> given provider_hint \<and> given model_hint
                         then Some (infer_provider st (the model_hint)) else provider_hint);
        provider = (case fallback_chain_list st of
                      [] \<Rightarrow> ''anthropic''
                    | first # _ \<Rightarrow> if given provider_hint then the provider_hint else first);
        model = (if given model_hint then the model_hint else default_model provider)
      in (provider, model, alias_used))"


section \<open>Properties of the truncation\<close>

text \<open>The estimates of a list that could be taken.\<close>

fun total_tokens :: "tokenizer \<Rightarrow> message list \<Rightarrow> int" where
  "total_tokens enc [] = 0"
| "total_tokens enc (m # ms) = (case message_tokens enc m of Inr n \<Rightarrow> int n | Inl _ \<Rightarrow> 0) + total_tokens enc ms"

lemma total_tokens_append [simp]: "total_tokens enc (xs @ ys) = total_tokens enc xs + total_tokens enc ys"
  by (induction xs) auto

lemma total_tokens_rev [simp]: "total_tokens enc (rev xs) = total_tokens enc xs"
  by (induction xs) auto

lemma total_tokens_nonneg [simp]: "0 \<le> total_tokens enc xs"
  by (induction xs) (auto split: sum.split)

lemma total_tokens_partition:
  "total_tokens enc xs = total_tokens enc (filter P xs) + total_tokens enc (filter (\<lambda>m. \<not> P m) xs)"
  by (induction xs) auto

lemma estimate_total: "estimate_messages_tokens enc ms = Inr n \<Longrightarrow> int n = total_tokens enc ms"
  by (induction ms arbitrary: n) (auto simp: rbind_Inr_iff)

text \<open>What the loop keeps is the longest run of newest messages within the budget.\<close>

lemma keep_newest_spec:
  "keep_newest enc budget ms used kept = Inr res \<Longrightarrow> used \<le> budget \<Longrightarrow>
   \<exists>xs ys. ms = xs @ ys \<and> res = rev xs @ kept \<and> used + total_tokens enc xs \<le> budget \<and>
     (ys \<noteq> [] \<longrightarrow> used + total_tokens enc xs + total_tokens enc [hd ys] > budget)"
proof (induction enc budget ms used kept rule: keep_newest.induct)
  case (2 enc budget m ms used kept)
  then obtain n where n: "message_tokens enc m = Inr n" by (auto simp: rbind_Inr_iff)
  show ?case
  proof (cases "used + int n > budget")
    case True
    with 2 n show ?thesis by (intro exI [of _ "[]"] exI [of _ "m # ms"]) auto
  next
    case False
    then obtain xs ys where "ms = xs @ ys" "res = rev xs @ m # kept"
        "used + int n + total_tokens enc xs \<le> budget"
        "ys \<noteq> [] \<longrightarrow> used + int n + total_tokens enc xs + total_tokens enc [hd ys] > budget"
      using "2.IH" [of n] "2.prems" n by auto
    with n show ?thesis by (intro exI [of _ "m # xs"] exI [of _ ys]) (auto simp: add_ac)
  qed
qed simp

text \<open>C23.  Truncation happens exactly when the estimate exceeds the window.  It keeps every system
  message, followed by the newest other messages in their order; the result fits the window,
  unless the system messages alone fill it, and one more message would not fit.\<close>

theorem truncation_fits:
  assumes "truncate_messages enc msgs w = Inr (res, truncated)"
  shows "(truncated \<longleftrightarrow> w < total_tokens enc msgs) \<and> (\<not> truncated \<longrightarrow> res = msgs) \<and>
     (truncated \<longrightarrow>
       (\<exists>dropped kept. filter (\<lambda>m. \<not> is_system m) msgs = dropped @ kept \<and> res = filter is_system msgs @ kept \<and>
          (if w \<le> total_tokens enc (filter is_system msgs) then kept = []
           else dropped \<noteq> [] \<and> total_tokens enc res \<le> w \<and> w < total_tokens enc (last dropped # res))))"
proof -
  obtain n where n: "estimate_messages_tokens enc msgs = Inr n" "int n = total_tokens enc msgs"
    using assms estimate_total by (auto simp: truncate_messages_def rbind_Inr_iff)
  let ?sys = "filter is_system msgs" and ?oth = "filter (\<lambda>m. \<not> is_system m) msgs"
  show ?thesis
  proof (cases "int n \<le> w")
    case True
    with assms n show ?thesis by (auto simp: truncate_messages_def)
  next
    case False
    then obtain k where k: "estimate_messages_tokens enc ?sys = Inr k" "int k = total_tokens enc ?sys"
      using assms n estimate_total by (auto simp: truncate_messages_def rbind_Inr_iff Let_def)
    show ?thesis
    proof (cases "w - int k \<le> 0")
      case True
      with assms n k False show ?thesis by (auto simp: truncate_messages_def Let_def)
    next
      case budget: False
      obtain kept where kept: "keep_newest enc (w - int k) (rev ?oth) 0 [] = Inr kept" "res = ?sys @ kept"
          "truncated = (length (?sys @ kept) < length msgs)"
        using assms n k False budget by (auto simp: truncate_messages_def Let_def rbind_Inr_iff)
      obtain xs ys where xy: "rev ?oth = xs @ ys" "kept = rev xs" "total_tokens enc xs \<le> w - int k"
          "ys \<noteq> [] \<longrightarrow> total_tokens enc xs + total_tokens enc [hd ys] > w - int k"
        using keep_newest_spec [OF kept(1)] budget by auto
      have o: "?oth = rev ys @ kept" using xy(1,2) by (metis rev_append rev_rev_ident)
      have sum: "int n = int k + total_tokens enc ys + total_tokens enc xs"
        using n(2) k(2) total_tokens_partition [of enc msgs is_system] by (simp add: o xy(2))
      then have y: "ys \<noteq> []" using False xy(3) by auto
      have len: "length msgs = length ?sys + length ?oth"
        using sum_length_filter_compl [of is_system msgs] by simp
      have t: truncated unfolding kept(3) len o using y by simp
      have "total_tokens enc res \<le> w" "w < total_tokens enc (last (rev ys) # res)"
        using xy y k by (auto simp: kept(2) last_rev)
      then have "\<exists>dropped kept. ?oth = dropped @ kept \<and> res = ?sys @ kept \<and>
          (if w \<le> total_tokens enc ?sys then kept = []
           else dropped \<noteq> [] \<and> total_tokens enc res \<le> w \<and> w < total_tokens enc (last dropped # res))"
        using o y kept(2) budget k(2) by (intro exI [of _ "rev ys"] exI [of _ kept]) simp
      moreover have "w < total_tokens enc msgs" using False n by simp
      ultimately show ?thesis using t by blast
    qed
  qed
qed

lemma truncation_fits_witness:
  "truncate_messages None [[(''role'', JStr ''system''), (''content'', JStr ''be brief'')],
      [(''role'', JStr ''user''), (''content'', JStr ''first question'')],
      [(''role'', JStr ''user''), (''content'', JStr ''second'')]] 11 =
    Inr ([[(''role'', JStr ''system''), (''content'', JStr ''be brief'')],
      [(''role'', JStr ''user''), (''content'', JStr ''second'')]], True) \<and> (11 :: int) < 18"
proof -
  let ?ms = "[[(''role'', JStr ''system''), (''content'', JStr ''be brief'')],
      [(''role'', JStr ''user''), (''content'', JStr ''first question'')],
      [(''role'', JStr ''user''), (''content'', JStr ''second'')]]"
  have t: "truncate_messages None ?ms 11 = Inr ([hd ?ms, last ?ms], True)"
    by (simp add: truncate_messages_def message_tokens_def jget_or_def jget_def dict_get_def estimate_tokens_def
        is_system_def)
  have "total_tokens None ?ms = 18"
    by (simp add: message_tokens_def jget_or_def dict_get_def estimate_tokens_def)
  with truncation_fits [OF t] t show ?thesis by simp
qed


section \<open>Properties of the resolution\<close>

text \<open>With a fallback chain configured, an alias decides provider and model; otherwise an explicit
  provider and model are respected, a missing provider is inferred from the model, and a
  missing model is the default of the provider.\<close>

theorem resolution_respects_hints:
  assumes "fallback_chain_list st = first # rest"
    and "resolve_model st lookup p m = (provider, model, alias_used)"
  shows "(case m of
       Some h \<Rightarrow> (case lookup h of
          Inr (Some row) \<Rightarrow> h \<noteq> [] \<and> ma_provider row \<noteq> [] \<and> ma_model row \<noteq> [] \<longrightarrow>
             provider = ma_provider row \<and> model = ma_model row \<and> alias_used = Some h
        | _ \<Rightarrow> alias_used = None \<and> (given p \<longrightarrow> Some provider = p) \<and> (h \<noteq> [] \<longrightarrow> model = h) \<and>
             (\<not> given p \<and> h \<noteq> [] \<longrightarrow> provider = infer_provider st h \<or> infer_provider st h = []))
     | None \<Rightarrow> alias_used = None \<and> provider = (if given p then the p else first) \<and> model = default_model provider)"
  using assms
  by (auto simp: resolve_model_def given_def Let_def split: option.splits sum.splits if_splits)

lemma resolution_respects_hints_witness:
  "resolve_model default_settings (\<lambda>_. Inr None) (Some ''groq'') None = (''groq'', ''llama-3.3-70b-versatile'', None)"
proof -
  have f: "fallback_chain_list default_settings = [''anthropic'']"
    by (simp add: fallback_chain_list_def settings_split_def default_settings_def str_strip_def is_space_def)
  obtain p m a where r: "resolve_model default_settings (\<lambda>_. Inr None) (Some ''groq'') None = (p, m, a)"
    by (metis prod_cases3)
  from resolution_respects_hints [OF f r] r show ?thesis by (simp add: given_def default_model_def dict_get_def)
qed

text \<open>With an empty fallback chain the provider is always \<open>anthropic\<close>: an explicit provider, the
  provider of an alias and the one inferred from the model name are all ignored, while the
  model is kept.\<close>

theorem empty_chain_ignores_provider:
  assumes "fallback_chain_list st = []" and "h \<noteq> []" and "lookup h = Inr None"
  shows "resolve_model st lookup (Some p) (Some h) = (''anthropic'', h, None)"
  using assms by (simp add: resolve_model_def given_def)

lemma empty_chain_ignores_provider_witness:
  "resolve_model (default_settings\<lparr>FALLBACK_CHAIN := []\<rparr>) (\<lambda>_. Inr None) (Some ''openai'') (Some ''gpt-4o'') =
   (''anthropic'', ''gpt-4o'', None)"
  by (rule empty_chain_ignores_provider) (simp_all add: fallback_chain_list_def settings_split_def)

end
