(* ===== verification/LlmProxy.thy ===== *)
theory LlmProxy
  imports Routing KeyPool CircuitBreaker
begin

text \<open>
  \<open>llm_proxy.py\<close>, second part: the retry and fallback loops over the key pools and the circuit
  breakers, the streaming variant, embeddings, the model list and the native format.

  One request runs at a time here.  Its environment gives the outcome of the \<open>n\<close>-th step's
  provider call, the clock before and after it and the random choice of a key; a delay
  between attempts only moves the clock.  The state keeps a log of the calls.
\<close>


section \<open>Messages\<close>

record oai_message =
  om_role :: string
  om_content :: "string option"
  om_tool_calls :: "jdict list option"
  om_name :: "string option"

record oai_choice =
  oc_index :: int
  oc_message :: oai_message
  oc_finish_reason :: "string option"

record oai_usage =
  ou_prompt_tokens :: int
  ou_completion_tokens :: int
  ou_total_tokens :: int

record oai_response =
  or_id :: string
  or_object :: string
  or_created :: int
  or_model :: string
  or_choices :: "oai_choice list"
  or_usage :: oai_usage
  or_system_fingerprint :: "string option"

text \<open>
  An exception of an adapter call: its text, and its status code and retry-after attributes
  (0 and absent when it has none).
\<close>

record call_error =
  ce_text :: string
  ce_status :: int
  ce_retry_after :: "int option"

datatype 'a outcome = Reply 'a | Failed call_error


section \<open>Provider registry\<close>

definition provider_map :: "(string \<times> string) list" where
  "provider_map =
     [(''anthropic'', ''providers.anthropic_provider.AnthropicProvider''),
      (''openai'', ''providers.openai_provider.OpenAIProvider''),
      (''azure_openai'', ''providers.azure_openai_provider.AzureOpenAIProvider''),
      (''gemini'', ''providers.gemini_provider.GeminiProvider''),
      (''bedrock'', ''providers.bedrock_provider.BedrockProvider''),
      (''groq'', ''providers.groq_provider.GroqProvider''),
      (''mistral'', ''providers.mistral_provider.MistralProvider''),
      (''ollama'', ''providers.ollama_provider.OllamaProvider''),
      (''openai_compatible'', ''providers.openai_compatible_provider.OpenAICompatibleProvider'')]"

definition list_provider_types :: "string list" where
  "list_provider_types = map fst provider_map"

text \<open>The class that is instantiated.\<close>

definition get_provider :: "string \<Rightarrow> string res" where
  "get_provider provider_type =
     (case map_of provider_map provider_type of
        None \<Rightarrow> Inl (ValueError (''Unknown provider type: '' @ provider_type))
      | Some dotted \<Rightarrow> Inr dotted)"


section \<open>State and environment\<close>

record 'a env =
  env_call :: "nat \<Rightarrow> string \<Rightarrow> string \<Rightarrow> 'a outcome"   \<comment> \<open>step, provider, key\<close>
  env_before :: "nat \<Rightarrow> time"
  env_after :: "nat \<Rightarrow> time"
  env_pick :: "nat \<Rightarrow> nat"

record 'a call_log =
  cl_provider :: string
  cl_key :: string
  cl_index :: int
  cl_time :: time
  cl_pool :: key_pool          \<comment> \<open>the pool and the breaker the call was made with\<close>
  cl_breaker :: breaker
  cl_outcome :: "'a outcome"

record 'a proxy =
  px_pools :: key_manager
  px_breakers :: cb_manager
  px_step :: nat
  px_log :: "'a call_log list"   \<comment> \<open>newest first\<close>

definition set_pool :: "string \<Rightarrow> key_pool \<Rightarrow> 'a proxy \<Rightarrow> 'a proxy" where
  "set_pool prov p s = s\<lparr>px_pools := dict_set prov p (px_pools s)\<rparr>"

text \<open>Selection of a key and the breaker's answer for it, common to both loops.\<close>

definition next_key :: "'a env \<Rightarrow> settings \<Rightarrow> string \<Rightarrow> 'a proxy \<Rightarrow> (string \<times> int) option \<times> 'a proxy" where
  "next_key env st prov s =
     (let n = px_step s;
          (r, pool) = get_next_key (env_pick env n) (env_before env n) (KEY_ROTATION_STRATEGY st)
                        (get_pool prov (px_pools s))
      in (r, (set_pool prov pool s)\<lparr>px_step := Suc n\<rparr>))"

definition breaker_allows :: "time \<Rightarrow> string \<Rightarrow> int \<Rightarrow> 'a proxy \<Rightarrow> bool \<times> 'a proxy" where
  "breaker_allows now prov idx s =
     (let (a, m) = cm_is_available now prov idx (px_breakers s) in (a, s\<lparr>px_breakers := m\<rparr>))"

definition log_call :: "string \<Rightarrow> string \<Rightarrow> int \<Rightarrow> time \<Rightarrow> 'a outcome \<Rightarrow> 'a proxy \<Rightarrow> 'a proxy" where
  "log_call prov key idx now out s =
     s\<lparr>px_log := \<lparr>cl_provider = prov, cl_key = key, cl_index = idx, cl_time = now,
          cl_pool = get_pool prov (px_pools s), cl_breaker = get_breaker prov idx (px_breakers s),
          cl_outcome = out\<rparr> # px_log s\<rparr>"

definition note_success :: "time \<Rightarrow> string \<Rightarrow> int \<Rightarrow> 'a proxy \<Rightarrow> 'a proxy" where
  "note_success now prov idx s =
     s\<lparr>px_pools := on_pool prov (mark_success now idx) (px_pools s),
       px_breakers := cm_record_success prov idx (px_breakers s)\<rparr>"

text \<open>\<open>mark_error\<close> is called with its default threshold.\<close>

definition note_failure :: "time \<Rightarrow> string \<Rightarrow> int \<Rightarrow> 'a proxy \<Rightarrow> 'a proxy" where
  "note_failure now prov idx s =
     s\<lparr>px_pools := on_pool prov (mark_error idx 10) (px_pools s),
       px_breakers := cm_record_failure now prov idx (px_breakers s)\<rparr>"

definition note_rate_limited :: "time \<Rightarrow> string \<Rightarrow> int \<Rightarrow> call_error \<Rightarrow> 'a proxy \<Rightarrow> 'a proxy" where
  "note_rate_limited now prov idx e s =
     s\<lparr>px_pools := on_pool prov (mark_rate_limited now idx
          (case ce_retry_after e of None \<Rightarrow> 60 | Some r \<Rightarrow> if r \<noteq> 0 then r else 60)) (px_pools s)\<rparr>"

definition is_client_error :: "call_error \<Rightarrow> bool" where
  "is_client_error e \<longleftrightarrow> ce_status e \<noteq> 0 \<and> 400 \<le> ce_status e \<and> ce_status e < 500 \<and> ce_status e \<noteq> 429"


section \<open>Retry and fallback\<close>

fun add_fallbacks :: "string \<Rightarrow> string list \<Rightarrow> string list \<Rightarrow> string list" where
  "add_fallbacks provider [] ps = ps"
| "add_fallbacks provider (fb # fbs) ps =
     add_fallbacks provider fbs (if fb \<noteq> provider \<and> fb \<notin> set ps then ps @ [fb] else ps)"

definition providers_to_try :: "settings \<Rightarrow> string \<Rightarrow> string list" where
  "providers_to_try st provider = add_fallbacks provider (fallback_chain_list st) [provider]"

text \<open>
  The attempts with one provider; the first argument counts the attempts left.  The result is
  \<^const>\<open>None\<close> when the provider is exhausted, and the last error is passed along.
\<close>

fun attempts :: "'a env \<Rightarrow> settings \<Rightarrow> string \<Rightarrow> nat \<Rightarrow> call_error option \<Rightarrow> 'a proxy
    \<Rightarrow> ('a res option \<times> call_error option) \<times> 'a proxy" where
  "attempts env st prov 0 err0 s = ((None, err0), s)"
| "attempts env st prov (Suc k) err0 s =
     (let n = px_step s; (r, s1) = next_key env st prov s in
      case r of
        None \<Rightarrow> ((None, err0), s1)
      | Some (api_key, key_idx) \<Rightarrow>
          (let (a, s2) = breaker_allows (env_before env n) prov key_idx s1 in
           if \<not> a then attempts env st prov k err0 s2
           else
             (case get_provider prov of
                Inl e \<Rightarrow> ((Some (Inl e), err0), s2)
              | Inr _ \<Rightarrow>
                  (let out = env_call env n prov api_key; now = env_after env n;
                       s3 = log_call prov api_key key_idx (env_before env n) out s2
                   in case out of
                        Reply resp \<Rightarrow> ((Some (Inr resp), err0), note_success now prov key_idx s3)
                      | Failed e \<Rightarrow>
                          if ce_status e = 429
                          then attempts env st prov k (Some e) (note_rate_limited now prov key_idx e s3)
                          else if is_client_error e
                          then ((Some (Inl (ProviderError (ce_text e) prov (ce_status e))), Some e),
                                note_failure now prov key_idx s3)
                          else attempts env st prov k (Some e) (note_failure now prov key_idx s3)))))"

fun try_providers :: "'a env \<Rightarrow> settings \<Rightarrow> string list \<Rightarrow> call_error option \<Rightarrow> 'a proxy
    \<Rightarrow> ('a res option \<times> call_error option) \<times> 'a proxy" where
  "try_providers env st [] err0 s = ((None, err0), s)"
| "try_providers env st (prov # ps) err0 s =
     (case attempts env st prov (nat (MAX_RETRIES st)) err0 s of
        ((Some r, err1), s') \<Rightarrow> ((Some r, err1), s')
      | ((None, err1), s') \<Rightarrow> try_providers env st ps err1 s')"

definition error_text :: "call_error option \<Rightarrow> string" where
  "error_text e = (case e of None \<Rightarrow> ''None'' | Some e \<Rightarrow> ce_text e)"

definition chat_with_retry :: "'a env \<Rightarrow> settings \<Rightarrow> string \<Rightarrow> ('a proxy, 'a) io" where
  "chat_with_retry env st provider s =
     (case try_providers env st (providers_to_try st provider) None s of
        ((Some r, _), s') \<Rightarrow> (r, s')
      | ((None, err0), s') \<Rightarrow>
          (Inl (ProviderError (''All providers exhausted. Last error: '' @ error_text err0) provider 503), s'))"

text \<open>
  Streaming.  A call yields chunks and then ends or raises; the chunks are already with the
  caller when the next provider is tried.
\<close>

type_synonym 'c stream = "'c list \<times> call_error option"

text \<open>
  The caller reads chunk by chunk; at the first one that it cannot read, for which \<open>fits\<close> is false, it gives up, and
  the call is recorded neither as a success nor as a failure.
\<close>

definition read_chunks :: "('c \<Rightarrow> bool) \<Rightarrow> 'c list \<Rightarrow> 'c list" where
  "read_chunks fits cs = takeWhile fits cs @ take 1 (dropWhile fits cs)"

fun stream_providers :: "('c \<Rightarrow> bool) \<Rightarrow> 'c stream env \<Rightarrow> settings \<Rightarrow> string list \<Rightarrow> call_error option \<Rightarrow> 'c stream proxy
    \<Rightarrow> ('c list \<times> unit res option \<times> call_error option) \<times> 'c stream proxy" where
  "stream_providers fits env st [] err0 s = (([], None, err0), s)"
| "stream_providers fits env st (prov # ps) err0 s =
     (let n = px_step s; (r, s1) = next_key env st prov s in
      case r of
        None \<Rightarrow> stream_providers fits env st ps err0 s1
      | Some (api_key, key_idx) \<Rightarrow>
          (let (a, s2) = breaker_allows (env_before env n) prov key_idx s1 in
           if \<not> a then stream_providers fits env st ps err0 s2
           else
             (case get_provider prov of
                Inl e \<Rightarrow> (([], Some (Inl e), err0), s2)
              | Inr _ \<Rightarrow>
                  (let out = env_call env n prov api_key; now = env_after env n;
                       s3 = log_call prov api_key key_idx (env_before env n) out s2;
                       (chunks, err) = (case out of Reply (cs, e) \<Rightarrow> (cs, e) | Failed e \<Rightarrow> ([], Some e))
                   in if \<not> list_all fits chunks then ((read_chunks fits chunks, Some (Inr ()), err0), s3)
                      else case err of
                        None \<Rightarrow> ((chunks, Some (Inr ()), err0), note_success now prov key_idx s3)
                      | Some e \<Rightarrow>
                          (let ((more, r), s4) = stream_providers fits env st ps (Some e) (note_failure now prov key_idx s3)
                           in ((chunks @ more, r), s4))))))"

definition stream_with_retry :: "('c \<Rightarrow> bool) \<Rightarrow> 'c stream env \<Rightarrow> settings \<Rightarrow> string \<Rightarrow> 'c stream proxy
    \<Rightarrow> ('c list \<times> unit res) \<times> 'c stream proxy" where
  "stream_with_retry fits env st provider s =
     (case stream_providers fits env st (providers_to_try st provider) None s of
        ((chunks, Some r, _), s') \<Rightarrow> ((chunks, r), s')
      | ((chunks, None, err0), s') \<Rightarrow>
          ((chunks, Inl (ProviderError (''All providers exhausted for streaming. Last error: '' @ error_text err0)
              provider 503)), s'))"

definition create_embeddings :: "'a env \<Rightarrow> settings \<Rightarrow> string \<Rightarrow> ('a proxy, 'a) io" where
  "create_embeddings env st provider s =
     (let n = px_step s; (r, s1) = next_key env st provider s in
      case r of
        None \<Rightarrow> (Inl (ProviderError (''No healthy API keys for '' @ provider) provider 502), s1)
      | Some (api_key, key_idx) \<Rightarrow>
          (case get_provider provider of
             Inl e \<Rightarrow> (Inl e, s1)
           | Inr _ \<Rightarrow>
               (case env_call env n provider api_key of
                  Reply resp \<Rightarrow>
                    (Inr resp, s1\<lparr>px_pools := on_pool provider (mark_success (env_after env n) key_idx) (px_pools s1)\<rparr>)
                | Failed e \<Rightarrow>
                    (Inl (ProviderError (ce_text e) provider 502),
                     s1\<lparr>px_pools := on_pool provider (mark_error key_idx 10) (px_pools s1)\<rparr>))))"

record model_info =
  mi_id :: string
  mi_owned_by :: string

text \<open>The names an adapter lists; a failure of any kind skips the provider.\<close>

fun provider_models :: "string list env \<Rightarrow> settings \<Rightarrow> string list \<Rightarrow> string list proxy
    \<Rightarrow> model_info list \<times> string list proxy" where
  "provider_models env st [] s = ([], s)"
| "provider_models env st (prov # ps) s =
     (if kp_count (get_pool prov (px_pools s)) = 0 then provider_models env st ps s
      else
        (let n = px_step s; (r, s1) = next_key env st prov s;
             names = (case r of
                None \<Rightarrow> []
              | Some (api_key, _) \<Rightarrow>
                  (case get_provider prov of
                     Inl e \<Rightarrow> []
                   | Inr _ \<Rightarrow> (case env_call env n prov api_key of Reply ns \<Rightarrow> ns | Failed e \<Rightarrow> [])));
             (rest, s2) = provider_models env st ps s1
         in (map (\<lambda>name. \<lparr>mi_id = name, mi_owned_by = prov\<rparr>) names @ rest, s2)))"

definition list_all_models :: "string list env \<Rightarrow> settings \<Rightarrow> database \<Rightarrow> string list proxy
    \<Rightarrow> model_info list \<times> string list proxy" where
  "list_all_models env st db s =
     (let (ms, s') = provider_models env st (map fst (px_pools s)) s
      in (ms @ map (\<lambda>a. \<lparr>mi_id = ma_alias a, mi_owned_by = ''alias:'' @ ma_provider a\<rparr>)
                   (filter ma_is_active (t_model_aliases db)), s'))"


section \<open>Native format\<close>

record content_block =
  blk_type :: string
  blk_text :: "string option"
  blk_id :: json
  blk_name :: json
  blk_input :: json

record chat_response =
  chr_stop_reason :: "string option"
  chr_content :: "content_block list"
  chr_input_tokens :: int
  chr_output_tokens :: int
  chr_model :: string
  chr_provider :: string
  chr_alias_used :: "string option"

definition tool_block :: "pylib \<Rightarrow> jdict \<Rightarrow> content_block res" where
  "tool_block pl tc =
     (case jget_or (JObj []) ''function'' tc of
        JObj f \<Rightarrow>
          (case jget_or (JStr ''{}'') ''arguments'' f of
             JStr a \<Rightarrow> rbind (json_loads pl a) (\<lambda>inp.
               Inr \<lparr>blk_type = ''tool_use'', blk_text = None, blk_id = jget ''id'' tc, blk_name = jget ''name'' f, blk_input = inp\<rparr>)
           | _ \<Rightarrow> Inl TypeError)
      | _ \<Rightarrow> Inl AttributeError)"

fun tool_blocks :: "pylib \<Rightarrow> jdict list \<Rightarrow> content_block list res" where
  "tool_blocks pl [] = Inr []"
| "tool_blocks pl (tc # tcs) = rbind (tool_block pl tc) (\<lambda>b. rbind (tool_blocks pl tcs) (\<lambda>bs. Inr (b # bs)))"

definition to_native :: "pylib \<Rightarrow> string \<Rightarrow> string option \<Rightarrow> oai_response \<Rightarrow> chat_response res" where
  "to_native pl prov alias_used r =
     rbind (case or_choices r of
              [] \<Rightarrow> Inr (Some ''stop'', [])
            | c # _ \<Rightarrow>
                rbind (tool_blocks pl (case om_tool_calls (oc_message c) of None \<Rightarrow> [] | Some tcs \<Rightarrow> tcs)) (\<lambda>tools.
                Inr (oc_finish_reason c,
                     (case om_content (oc_message c) of
                        Some t \<Rightarrow> if t \<noteq> [] then [\<lparr>blk_type = ''text'', blk_text = Some t, blk_id = JNull, blk_name = JNull,
                                                   blk_input = JNull\<rparr>] else []
                      | None \<Rightarrow> []) @ tools)))
       (\<lambda>(stop, blocks). Inr \<lparr>chr_stop_reason = stop, chr_content = blocks,
          chr_input_tokens = ou_prompt_tokens (or_usage r), chr_output_tokens = ou_completion_tokens (or_usage r),
          chr_model = or_model r, chr_provider = prov, chr_alias_used = alias_used\<rparr>)"

definition with_system :: "string option \<Rightarrow> message list \<Rightarrow> message list" where
  "with_system system msgs =
     (case system of
        Some s \<Rightarrow> if s \<noteq> [] then [(''role'', JStr ''system''), (''content'', JStr s)] # msgs else msgs
      | None \<Rightarrow> msgs)"

text \<open>\<open>env\<close> is given the messages and the model, which no retry changes.\<close>

definition chat :: "pylib \<Rightarrow> (message list \<Rightarrow> string \<Rightarrow> oai_response env) \<Rightarrow> settings
    \<Rightarrow> (string \<Rightarrow> model_alias_row option res) \<Rightarrow> message list \<Rightarrow> string option \<Rightarrow> string option \<Rightarrow> string option
    \<Rightarrow> (oai_response proxy, chat_response) io" where
  "chat pl env st lookup messages provider model system =
     (let (prov, mdl, alias_used) = resolve_model st lookup provider model
      in bnd (chat_with_retry (env (with_system system messages) mdl) st prov) (\<lambda>r s.
           (to_native pl prov alias_used r, s)))"

text \<open>The text pieces of the chunks of a stream.\<close>

definition chunk_text :: "jdict \<Rightarrow> json list res" where
  "chunk_text chunk =
     (let choices = jget_or (JList []) ''choices'' chunk in
      if \<not> truthy choices then Inr []
      else (case choices of
              JList (JObj c # _) \<Rightarrow>
                (case jget_or (JObj []) ''delta'' c of
                   JObj delta \<Rightarrow> Inr (if truthy (jget ''content'' delta) then [jget ''content'' delta] else [])
                 | _ \<Rightarrow> Inl AttributeError)
            | JList _ \<Rightarrow> Inl AttributeError
            | JStr _ \<Rightarrow> Inl AttributeError
            | JObj _ \<Rightarrow> Inl KeyError
            | _ \<Rightarrow> Inl TypeError))"

text \<open>
  The native stream yields the texts of the chunks up to the first malformed one.
\<close>

fun chunk_texts :: "jdict list \<Rightarrow> json list \<times> unit res" where
  "chunk_texts [] = ([], Inr ())"
| "chunk_texts (c # cs) =
     (case chunk_text c of
        Inl e \<Rightarrow> ([], Inl e)
      | Inr ts \<Rightarrow> (let (rest, r) = chunk_texts cs in (ts @ rest, r)))"

definition stream_chat :: "(message list \<Rightarrow> string \<Rightarrow> jdict stream env) \<Rightarrow> settings
    \<Rightarrow> (string \<Rightarrow> model_alias_row option res) \<Rightarrow> message list \<Rightarrow> string option \<Rightarrow> string option \<Rightarrow> string option
    \<Rightarrow> jdict stream proxy \<Rightarrow> (json list \<times> unit res) \<times> jdict stream proxy" where
  "stream_chat env st lookup messages provider model system s =
     (let (prov, mdl, _) = resolve_model st lookup provider model;
          ((chunks, r), s') = stream_with_retry (\<lambda>c. \<not> isl (chunk_text c)) (env (with_system system messages) mdl) st prov s;
          (texts, r') = chunk_texts chunks
      in case r' of Inl e \<Rightarrow> ((texts, Inl e), s') | Inr _ \<Rightarrow> ((texts, r), s'))"


section \<open>The calls a request makes\<close>

text \<open>A call with a key and a breaker that allowed it.\<close>

definition call_ok :: "'a call_log \<Rightarrow> bool" where
  "call_ok c \<longleftrightarrow> in_range (cl_index c) (kp_keys (cl_pool c)) \<and>
     cl_key c = ke_plaintext (kp_keys (cl_pool c) ! nat (cl_index c)) \<and>
     ke_healthy (kp_keys (cl_pool c) ! nat (cl_index c)) \<and> \<not> blocked (cl_time c) (cl_pool c) (cl_index c) \<and>
     cb_state (cl_breaker c) \<noteq> OPEN"

text \<open>An outcome after which the request goes on.\<close>

definition retriable :: "'a outcome \<Rightarrow> bool" where
  "retriable out \<longleftrightarrow> (case out of Reply _ \<Rightarrow> False | Failed e \<Rightarrow> \<not> is_client_error e)"

lemma get_pool_set_pool [simp]:
  "get_pool q (px_pools (set_pool prov p s)) = (if q = prov then p else get_pool q (px_pools s))"
  by (simp add: set_pool_def get_pool_def)

lemma set_pool_frame [simp]: "px_log (set_pool prov p s) = px_log s" "px_breakers (set_pool prov p s) = px_breakers s"
  by (simp_all add: set_pool_def)

lemma next_key_frame:
  assumes "next_key env st prov s = (r, s1)"
  shows "px_log s1 = px_log s" "px_breakers s1 = px_breakers s"
    "q \<noteq> prov \<Longrightarrow> get_pool q (px_pools s1) = get_pool q (px_pools s)"
  using assms by (auto simp: next_key_def Let_def split: prod.splits)

lemma next_key_None:
  assumes "next_key env st prov s = (None, s1)"
  shows "available_keys (env_before env (px_step s)) (get_pool prov (px_pools s)) = []"
  using assms get_next_key_cases [of "env_before env (px_step s)" "get_pool prov (px_pools s)"
      "env_pick env (px_step s)" "KEY_ROTATION_STRATEGY st"]
  by (auto simp: next_key_def Let_def split: prod.splits)

lemma next_key_Some:
  assumes "next_key env st prov s = (Some (key, idx), s1)"
  shows "in_range idx (kp_keys (get_pool prov (px_pools s1)))"
    "key = ke_plaintext (kp_keys (get_pool prov (px_pools s1)) ! nat idx)"
    "ke_healthy (kp_keys (get_pool prov (px_pools s1)) ! nat idx)"
    "\<not> blocked (env_before env (px_step s)) (get_pool prov (px_pools s1)) idx"
proof -
  let ?t = "env_before env (px_step s)" and ?p = "get_pool prov (px_pools s)"
  obtain p' where p': "get_next_key (env_pick env (px_step s)) ?t (KEY_ROTATION_STRATEGY st) ?p = (Some (key, idx), p')"
      "get_pool prov (px_pools s1) = p'"
    using assms by (auto simp: next_key_def Let_def split: prod.splits)
  have "in_range idx (kp_keys p') \<and> key = ke_plaintext (kp_keys p' ! nat idx) \<and>
      ke_healthy (kp_keys p' ! nat idx) \<and> \<not> blocked ?t p' idx"
    by (cases rule: get_next_key_cases [of ?t ?p "env_pick env (px_step s)" "KEY_ROTATION_STRATEGY st"])
       (use p'(1) in \<open>auto simp: available_keys_def enum_from_0 pool_same_def blocked_def fun_eq_iff split: if_splits\<close>)
  then show "in_range idx (kp_keys (get_pool prov (px_pools s1)))"
    "key = ke_plaintext (kp_keys (get_pool prov (px_pools s1)) ! nat idx)"
    "ke_healthy (kp_keys (get_pool prov (px_pools s1)) ! nat idx)"
    "\<not> blocked ?t (get_pool prov (px_pools s1)) idx"
    by (simp_all add: p'(2))
qed

lemma breaker_allows_frame:
  assumes "breaker_allows now prov idx s = (a, s2)"
  shows "px_log s2 = px_log s" "px_pools s2 = px_pools s"
    "q \<noteq> prov \<Longrightarrow> get_breaker q i (px_breakers s2) = get_breaker q i (px_breakers s)"
    "a \<longleftrightarrow> cb_state (get_breaker prov idx (px_breakers s2)) \<noteq> OPEN"
    "a = fst (cb_is_available now (get_breaker prov idx (px_breakers s)))"
  using assms by (auto simp: breaker_allows_def cm_is_available_def cb_is_available_def read_state_def Let_def split: if_splits)

lemma note_frame [simp]:
  "px_log (note_success now prov idx s) = px_log s"
  "px_log (note_failure now prov idx s) = px_log s"
  "px_log (note_rate_limited now prov idx e s) = px_log s"
  by (simp_all add: note_success_def note_failure_def note_rate_limited_def)

lemma note_other [simp]:
  "q \<noteq> prov \<Longrightarrow> get_pool q (px_pools (note_success now prov idx s)) = get_pool q (px_pools s)"
  "q \<noteq> prov \<Longrightarrow> get_pool q (px_pools (note_failure now prov idx s)) = get_pool q (px_pools s)"
  "q \<noteq> prov \<Longrightarrow> get_pool q (px_pools (note_rate_limited now prov idx e s)) = get_pool q (px_pools s)"
  "q \<noteq> prov \<Longrightarrow> get_breaker q i (px_breakers (note_success now prov idx s)) = get_breaker q i (px_breakers s)"
  "q \<noteq> prov \<Longrightarrow> get_breaker q i (px_breakers (note_failure now prov idx s)) = get_breaker q i (px_breakers s)"
  "get_breaker q i (px_breakers (note_rate_limited now prov idx e s)) = get_breaker q i (px_breakers s)"
  by (simp_all add: note_success_def note_failure_def note_rate_limited_def cm_record_success_def cm_record_failure_def)

lemma log_call_frame [simp]:
  "px_pools (log_call prov key idx now out s) = px_pools s"
  "px_breakers (log_call prov key idx now out s) = px_breakers s"
  by (simp_all add: log_call_def)

text \<open>How the calls of a run decide its result.\<close>

definition decides :: "'a call_log list \<Rightarrow> 'a res option \<Rightarrow> bool" where
  "decides new r \<longleftrightarrow>
     (case r of
        None \<Rightarrow> \<forall>c \<in> set new. retriable (cl_outcome c)
      | Some (Inr resp) \<Rightarrow> \<exists>c cs. new = c # cs \<and> cl_outcome c = Reply resp \<and> (\<forall>c \<in> set cs. retriable (cl_outcome c))
      | Some (Inl x) \<Rightarrow>
          (\<exists>p. get_provider p = Inl x \<and> (\<forall>c \<in> set new. retriable (cl_outcome c))) \<or>
          (\<exists>c cs e. new = c # cs \<and> cl_outcome c = Failed e \<and> is_client_error e \<and>
             x = ProviderError (ce_text e) (cl_provider c) (ce_status e) \<and> (\<forall>c \<in> set cs. retriable (cl_outcome c))))"

lemma decides_append:
  "decides new r \<Longrightarrow> \<forall>c \<in> set old. retriable (cl_outcome c) \<Longrightarrow> decides (new @ old) r"
  by (auto simp: decides_def split: option.splits sum.splits)

definition run_ok :: "string set \<Rightarrow> nat \<Rightarrow> 'a proxy \<Rightarrow> 'a proxy \<Rightarrow> 'a res option \<Rightarrow> bool" where
  "run_ok provs n s s' r \<longleftrightarrow>
     (\<exists>new. px_log s' = new @ px_log s \<and> length new \<le> n \<and> (\<forall>c \<in> set new. cl_provider c \<in> provs \<and> call_ok c) \<and>
            decides new r)"

lemma run_ok_refl: "run_ok P n s s None"
  by (auto simp: run_ok_def decides_def)

lemma run_ok_log: "px_log s1 = px_log s \<Longrightarrow> run_ok P n s1 s' r \<Longrightarrow> run_ok P n s s' r"
  by (simp add: run_ok_def)

lemma run_ok_weaken: "run_ok P n s s' r \<Longrightarrow> n \<le> m \<Longrightarrow> P \<subseteq> Q \<Longrightarrow> run_ok Q m s s' r"
  by (fastforce simp: run_ok_def)

lemma run_ok_trans:
  assumes "run_ok P n s s1 None" and "run_ok Q m s1 s2 r"
  shows "run_ok (P \<union> Q) (n + m) s s2 r"
proof -
  obtain new1 new2 where n1: "px_log s1 = new1 @ px_log s" "length new1 \<le> n"
      "\<forall>c \<in> set new1. cl_provider c \<in> P \<and> call_ok c" "decides new1 None"
    and n2: "px_log s2 = new2 @ px_log s1" "length new2 \<le> m"
      "\<forall>c \<in> set new2. cl_provider c \<in> Q \<and> call_ok c" "decides new2 r"
    using assms by (auto simp: run_ok_def)
  have "decides (new2 @ new1) r" using n1(4) n2(4) by (intro decides_append) (auto simp: decides_def)
  with n1 n2 show ?thesis unfolding run_ok_def by (intro exI [of _ "new2 @ new1"]) auto
qed

lemma one_call_ok:
  assumes "call_ok c" and "cl_provider c = prov" and "px_log s' = c # px_log s" and "decides [c] r"
  shows "run_ok {prov} 1 s s' r"
  using assms by (auto simp: run_ok_def)

lemma attempts_ok: "attempts env st prov k e0 s = ((r, e1), s') \<Longrightarrow> run_ok {prov} k s s' r"
proof (induction k arbitrary: e0 s)
  case (Suc k)
  obtain kr s1 where s1: "next_key env st prov s = (kr, s1)" by fastforce
  note log1 = next_key_frame(1) [OF s1]
  show ?case
  proof (cases kr)
    case None
    with Suc.prems s1 log1 show ?thesis by (auto intro: run_ok_log [OF log1] simp: run_ok_refl Let_def)
  next
    case (Some ki)
    obtain key idx where ki: "ki = (key, idx)" by fastforce
    let ?now = "env_before env (px_step s)"
    obtain a s2 where s2: "breaker_allows ?now prov idx s1 = (a, s2)" by fastforce
    have log2: "px_log s2 = px_log s" using breaker_allows_frame(1) [OF s2] log1 by simp
    show ?thesis
    proof (cases "a \<and> (\<exists>d. get_provider prov = Inr d)")
      case False
      then consider "\<not> a" | x where a "get_provider prov = Inl x" by (cases "get_provider prov") auto
      then show ?thesis
      proof cases
        case 1
        with Suc.prems s1 s2 Some ki have "attempts env st prov k e0 s2 = ((r, e1), s')" by (simp add: Let_def)
        from run_ok_log [OF log2 Suc.IH [OF this]] show ?thesis by (rule run_ok_weaken) auto
      next
        case 2
        with Suc.prems s1 s2 Some ki have "r = Some (Inl x)" "s' = s2" by (auto simp: Let_def)
        with 2 log2 show ?thesis by (auto simp: run_ok_def decides_def)
      qed
    next
      case True
      then obtain d where a: a and d: "get_provider prov = Inr d" by blast
      let ?out = "env_call env (px_step s) prov key" and ?then = "env_after env (px_step s)"
      define s3 where "s3 = log_call prov key idx ?now ?out s2"
      define c where "c = hd (px_log s3)"
      have c: "px_log s3 = c # px_log s" "cl_provider c = prov" "cl_outcome c = ?out"
        by (simp_all add: s3_def c_def log_call_def log2)
      have ok: "call_ok c"
        using next_key_Some [OF s1 [unfolded Some ki]] breaker_allows_frame(2,4) [OF s2] a
        by (simp add: c_def s3_def log_call_def call_ok_def)
      have run: "attempts env st prov (Suc k) e0 s = (case ?out of
            Reply resp \<Rightarrow> ((Some (Inr resp), e0), note_success ?then prov idx s3)
          | Failed e \<Rightarrow>
              if ce_status e = 429 then attempts env st prov k (Some e) (note_rate_limited ?then prov idx e s3)
              else if is_client_error e
              then ((Some (Inl (ProviderError (ce_text e) prov (ce_status e))), Some e), note_failure ?then prov idx s3)
              else attempts env st prov k (Some e) (note_failure ?then prov idx s3))"
        unfolding s3_def using s1 s2 Some ki a d by (simp add: Let_def)
      note res = trans [OF run [symmetric] Suc.prems]
      have goes_on: ?thesis if "attempts env st prov k (Some e) s4 = ((r, e1), s')" "px_log s4 = px_log s3"
          "?out = Failed e" "\<not> is_client_error e" for e s4
      proof -
        have "run_ok {prov} 1 s s4 None"
          using ok c that by (intro one_call_ok [of c]) (auto simp: decides_def retriable_def)
        from run_ok_trans [OF this Suc.IH [OF that(1)]] show ?thesis by simp
      qed
      show ?thesis
      proof (cases ?out)
        case (Reply resp)
        with Suc.prems run have "r = Some (Inr resp)" "s' = note_success ?then prov idx s3" by auto
        with ok c Reply have "run_ok {prov} 1 s s' r" by (intro one_call_ok [of c]) (auto simp: decides_def)
        then show ?thesis by (rule run_ok_weaken) auto
      next
        case (Failed e)
        show ?thesis
        proof (cases "is_client_error e")
          case True
          then have "ce_status e \<noteq> 429" by (auto simp: is_client_error_def)
          with res Failed True have "r = Some (Inl (ProviderError (ce_text e) prov (ce_status e)))"
              "s' = note_failure ?then prov idx s3" by auto
          with ok c Failed True have "run_ok {prov} 1 s s' r" by (intro one_call_ok [of c]) (auto simp: decides_def)
          then show ?thesis by (rule run_ok_weaken) auto
        next
          case False
          with res Failed have "\<exists>s4. attempts env st prov k (Some e) s4 = ((r, e1), s') \<and> px_log s4 = px_log s3"
            by (auto split: if_splits)
          with goes_on Failed False show ?thesis by blast
        qed
      qed
    qed
  qed
qed (simp add: run_ok_refl)

lemma try_providers_ok:
  "try_providers env st ps e0 s = ((r, e1), s') \<Longrightarrow> run_ok (set ps) (length ps * nat (MAX_RETRIES st)) s s' r"
proof (induction ps arbitrary: e0 s)
  case (Cons prov ps)
  obtain r1 e2 s1 where a: "attempts env st prov (nat (MAX_RETRIES st)) e0 s = ((r1, e2), s1)" by (metis prod_cases3 prod.collapse)
  show ?case
  proof (cases r1)
    case None
    with Cons.prems a have "try_providers env st ps e2 s1 = ((r, e1), s')" by simp
    from run_ok_trans [OF attempts_ok [OF a, unfolded None] Cons.IH [OF this]] show ?thesis by simp
  next
    case (Some x)
    with Cons.prems a have "r = r1" "s' = s1" by auto
    with attempts_ok [OF a] show ?thesis by (auto elim: run_ok_weaken)
  qed
qed (simp add: run_ok_refl)

lemma add_fallbacks_props:
  "distinct ps \<Longrightarrow> distinct (add_fallbacks provider fbs ps) \<and>
   set (add_fallbacks provider fbs ps) \<subseteq> set ps \<union> set fbs \<and>
   set ps \<union> (set fbs - {provider}) \<subseteq> set (add_fallbacks provider fbs ps) \<and>
   length (add_fallbacks provider fbs ps) \<le> length ps + length fbs \<and>
   (\<exists>qs. add_fallbacks provider fbs ps = ps @ qs)"
proof (induction fbs arbitrary: ps)
  case (Cons fb fbs)
  let ?ps = "if fb \<noteq> provider \<and> fb \<notin> set ps then ps @ [fb] else ps"
  have "distinct ?ps" using Cons.prems by simp
  from Cons.IH [OF this] show ?case by (auto split: if_splits)
qed simp

lemma providers_to_try_props:
  "distinct (providers_to_try st p)" "set (providers_to_try st p) = insert p (set (fallback_chain_list st))"
  "length (providers_to_try st p) \<le> 1 + length (fallback_chain_list st)"
  "\<exists>qs. providers_to_try st p = p # qs"
  using add_fallbacks_props [of "[p]" p "fallback_chain_list st"] unfolding providers_to_try_def by auto

text \<open>C6.  A request makes at most \<open>MAX_RETRIES\<close> calls per provider, only to the requested provider and
  the fallback chain, each with a healthy key that is not backed off and whose breaker is not
  open at that moment.\<close>

theorem calls_bounded_and_allowed:
  assumes "chat_with_retry env st provider s = (r, s')"
  shows "\<exists>new. px_log s' = new @ px_log s \<and>
     length new \<le> (1 + length (fallback_chain_list st)) * nat (MAX_RETRIES st) \<and>
     list_all (\<lambda>c. cl_provider c \<in> insert provider (set (fallback_chain_list st)) \<and> call_ok c) new"
proof -
  obtain r1 e1 s1 where t: "try_providers env st (providers_to_try st provider) None s = ((r1, e1), s1)"
    by (metis prod_cases3 prod.collapse)
  then have "s' = s1" using assms by (auto simp: chat_with_retry_def split: option.splits)
  moreover obtain new where "px_log s1 = new @ px_log s"
      "length new \<le> length (providers_to_try st provider) * nat (MAX_RETRIES st)"
      "\<forall>c \<in> set new. cl_provider c \<in> set (providers_to_try st provider) \<and> call_ok c"
    using try_providers_ok [OF t] by (auto simp: run_ok_def)
  moreover have "length (providers_to_try st provider) * nat (MAX_RETRIES st) \<le>
      (1 + length (fallback_chain_list st)) * nat (MAX_RETRIES st)"
    using providers_to_try_props(3) by (rule mult_le_mono1)
  ultimately show ?thesis
    by (intro exI [of _ new]) (auto simp: list_all_iff providers_to_try_props(2))
qed

text \<open>C7.  The result of a request is decided by its last call: a reply is returned, a client error other
  than 429 is reported with its status and ends the request, and every call before the last
  one failed with a rate limit or a server error; without such a last call the request ends
  with status 503, or with the unknown-provider error.\<close>

theorem result_decided_by_calls:
  assumes "chat_with_retry env st provider s = (r, s')"
  shows "\<exists>new. px_log s' = new @ px_log s \<and>
     (decides new (Some r) \<or>
      (list_all (\<lambda>c. retriable (cl_outcome c)) new \<and>
       (\<exists>msg. r = Inl (ProviderError (''All providers exhausted. Last error: '' @ msg) provider 503))))"
proof -
  obtain r1 e1 s1 where t: "try_providers env st (providers_to_try st provider) None s = ((r1, e1), s1)"
    by (metis prod_cases3 prod.collapse)
  obtain new where new: "px_log s1 = new @ px_log s" "decides new r1"
    using try_providers_ok [OF t] by (auto simp: run_ok_def)
  show ?thesis
  proof (cases r1)
    case None
    with t assms have "s' = s1" "\<exists>msg. r = Inl (ProviderError (''All providers exhausted. Last error: '' @ msg) provider 503)"
      by (auto simp: chat_with_retry_def)
    with new None show ?thesis by (auto simp: decides_def list_all_iff)
  next
    case (Some x)
    with t assms have "s' = s1" "r = x" by (auto simp: chat_with_retry_def)
    with new Some show ?thesis by auto
  qed
qed


section \<open>Fallback\<close>

text \<open>The attempts with one provider leave the keys and breakers of the others as they are.\<close>

lemma attempts_other:
  "attempts env st prov k e0 s = (x, s') \<Longrightarrow> q \<noteq> prov \<Longrightarrow>
   get_pool q (px_pools s') = get_pool q (px_pools s) \<and>
   get_breaker q i (px_breakers s') = get_breaker q i (px_breakers s)"
proof (induction k arbitrary: e0 s)
  case (Suc k)
  obtain kr s1 where s1: "next_key env st prov s = (kr, s1)" by fastforce
  note f1 = next_key_frame(2) [OF s1] next_key_frame(3) [OF s1 Suc.prems(2)]
  show ?case
  proof (cases kr)
    case None
    with Suc.prems s1 f1 show ?thesis by (simp add: Let_def)
  next
    case (Some ki)
    obtain key idx where ki: "ki = (key, idx)" by fastforce
    obtain a s2 where s2: "breaker_allows (env_before env (px_step s)) prov idx s1 = (a, s2)" by fastforce
    have f2: "get_pool q (px_pools s2) = get_pool q (px_pools s)"
        "get_breaker q i (px_breakers s2) = get_breaker q i (px_breakers s)"
      using breaker_allows_frame(2) [OF s2] breaker_allows_frame(3) [OF s2 Suc.prems(2)] f1 by simp_all
    show ?thesis
      using Suc.prems s1 s2 Some ki f2
      by (auto simp: Let_def dest!: Suc.IH split: if_splits sum.splits outcome.splits)
  qed
qed simp

text \<open>A key is found whenever one is available, at every step of the clock.\<close>

definition provider_up :: "'a env \<Rightarrow> string \<Rightarrow> 'a proxy \<Rightarrow> bool" where
  "provider_up env q s \<longleftrightarrow> (\<exists>d. get_provider q = Inr d) \<and>
     (\<forall>n. available_keys (env_before env n) (get_pool q (px_pools s)) \<noteq> []) \<and>
     (\<forall>i. cb_state (get_breaker q i (px_breakers s)) \<noteq> OPEN)"

lemma provider_up_key: "provider_up env q s \<Longrightarrow> next_key env st q s = (r, s1) \<Longrightarrow> r \<noteq> None"
  using next_key_None [of env st q s] by (cases r) (auto simp: provider_up_def)

lemma provider_up_replies:
  assumes up: "provider_up env q s" and ok: "\<forall>n key. \<exists>resp. env_call env n q key = Reply resp"
    and k: "0 < k"
  shows "\<exists>resp s'. attempts env st q k e0 s = ((Some (Inr resp), e0), s')"
proof -
  obtain k' where k': "k = Suc k'" using k gr0_conv_Suc by auto
  obtain kr s1 where s1: "next_key env st q s = (kr, s1)" by fastforce
  have "kr \<noteq> None" by (rule provider_up_key [OF up s1])
  then obtain key idx where kr: "kr = Some (key, idx)" by auto
  obtain a s2 where s2: "breaker_allows (env_before env (px_step s)) q idx s1 = (a, s2)" by fastforce
  have a: a
    using breaker_allows_frame(5) [OF s2] up next_key_frame(2) [OF s1]
    by (simp add: provider_up_def cb_is_available_def read_state_def Let_def)
  obtain d where d: "get_provider q = Inr d" using up by (auto simp: provider_up_def)
  obtain resp where "env_call env (px_step s) q key = Reply resp" using ok by blast
  with s1 kr s2 a d show ?thesis by (simp add: k' Let_def)
qed

lemma attempts_no_error:
  "attempts env st prov k e0 s = ((Some x, e1), s') \<Longrightarrow> get_provider prov = Inr d \<Longrightarrow>
   \<forall>n key e. env_call env n prov key = Failed e \<longrightarrow> \<not> is_client_error e \<Longrightarrow> \<exists>resp. x = Inr resp"
proof (induction k arbitrary: e0 s)
  case (Suc k)
  obtain kr s1 where s1: "next_key env st prov s = (kr, s1)" by fastforce
  show ?case
  proof (cases kr)
    case None
    with Suc.prems s1 show ?thesis by (simp add: Let_def)
  next
    case (Some ki)
    obtain key idx where ki: "ki = (key, idx)" by fastforce
    obtain a s2 where s2: "breaker_allows (env_before env (px_step s)) prov idx s1 = (a, s2)" by fastforce
    show ?thesis
      using Suc.prems(1,2) Suc.prems(3) [rule_format, of "px_step s" key] s1 s2 Some ki
      by (auto simp: Let_def dest!: Suc.IH [OF _ Suc.prems(2,3)] split: if_splits outcome.splits)
  qed
qed simp

lemma attempts_replied:
  assumes "attempts env st prov k e0 s = ((Some (Inr resp), e1), s')"
  shows "\<exists>n key. env_call env n prov key = Reply resp"
  using assms
proof (induction k arbitrary: e0 s)
  case (Suc k)
  obtain kr s1 where s1: "next_key env st prov s = (kr, s1)" by fastforce
  show ?case
  proof (cases kr)
    case None
    with Suc.prems s1 show ?thesis by (simp add: Let_def)
  next
    case (Some ki)
    obtain key idx where ki: "ki = (key, idx)" by fastforce
    obtain a s2 where s2: "breaker_allows (env_before env (px_step s)) prov idx s1 = (a, s2)" by fastforce
    show ?thesis
      using Suc.prems s1 s2 Some ki
      by (auto simp: Let_def dest!: Suc.IH split: if_splits outcome.splits sum.splits)
  qed
qed simp

lemma fallback_reaches:
  assumes "q \<in> set ps" and "provider_up env q s" and "\<forall>n key. \<exists>resp. env_call env n q key = Reply resp"
    and "\<forall>p \<in> set (takeWhile (\<lambda>p. p \<noteq> q) ps). \<exists>d. get_provider p = Inr d"
    and "\<forall>p \<in> set (takeWhile (\<lambda>p. p \<noteq> q) ps). \<forall>n key e. env_call env n p key = Failed e \<longrightarrow> \<not> is_client_error e"
    and "0 < nat (MAX_RETRIES st)"
  shows "\<exists>resp e1 s'. try_providers env st ps e0 s = ((Some (Inr resp), e1), s')"
  using assms
proof (induction ps arbitrary: e0 s)
  case (Cons p ps)
  obtain r e2 s1 where a: "attempts env st p (nat (MAX_RETRIES st)) e0 s = ((r, e2), s1)" by (metis prod_cases3 prod.collapse)
  show ?case
  proof (cases "p = q")
    case True
    with provider_up_replies [OF Cons.prems(2,3,6), of st e0] show ?thesis by auto
  next
    case False
    have "run_ok {p} (nat (MAX_RETRIES st)) s s1 r" by (rule attempts_ok [OF a])
    have up: "provider_up env q s1" using attempts_other [OF a] False Cons.prems(2) by (simp add: provider_up_def)
    show ?thesis
    proof (cases r)
      case None
      have "\<exists>resp e1 s'. try_providers env st ps e2 s1 = ((Some (Inr resp), e1), s')"
        using Cons.prems False by (intro Cons.IH [OF _ up]) auto
      with a None show ?thesis by simp
    next
      case (Some x)
      have "\<exists>resp. x = Inr resp" using attempts_no_error [OF a [unfolded Some]] Cons.prems(4,5) False by auto
      with a Some show ?thesis by auto
    qed
  qed
qed simp

lemma add_fallbacks_append: "\<exists>qs. add_fallbacks provider fbs ps = ps @ qs"
  by (induction fbs arbitrary: ps) (auto, metis append.assoc)

lemma add_fallbacks_before:
  assumes "q \<notin> set ps" and "q \<noteq> provider"
  shows "set (takeWhile (\<lambda>p. p \<noteq> q) (add_fallbacks provider fbs ps)) \<subseteq> set ps \<union> set (takeWhile (\<lambda>p. p \<noteq> q) fbs)"
  using assms
proof (induction fbs arbitrary: ps)
  case (Cons fb fbs)
  show ?case
  proof (cases "fb = q")
    case True
    with Cons.prems obtain qs where "add_fallbacks provider (fb # fbs) ps = ps @ q # qs"
      using add_fallbacks_append [of provider fbs "ps @ [q]"] by auto
    moreover have "takeWhile (\<lambda>p. p \<noteq> q) (ps @ q # qs) = ps"
      using Cons.prems(1) by (subst takeWhile_append2) auto
    ultimately show ?thesis by simp
  next
    case False
    then show ?thesis using Cons.IH [of ps] Cons.IH [of "ps @ [fb]"] Cons.prems by (auto split: if_splits)
  qed
qed (auto dest: set_takeWhileD)

text \<open>C8.  Fallback works: when some provider of the chain has an available key at every moment, closed
  breakers and answers every call, the request succeeds, whatever else happens, if the
  providers that come before it in the chain are registered and report no client error.  (A provider before it that is not
  registered ends the request with the error of the registry, see \<open>unknown_fallback_escapes\<close>.)\<close>

theorem fallback_succeeds:
  assumes "q \<in> set (provider # fallback_chain_list st)" and "provider_up env q s"
    and "\<forall>n key. \<exists>resp. env_call env n q key = Reply resp"
    and "\<forall>p \<in> set (takeWhile (\<lambda>p. p \<noteq> q) (provider # fallback_chain_list st)).
           (\<exists>d. get_provider p = Inr d) \<and> (\<forall>n key e. env_call env n p key = Failed e \<longrightarrow> \<not> is_client_error e)"
    and "0 < MAX_RETRIES st"
  shows "\<exists>resp. fst (chat_with_retry env st provider s) = Inr resp"
proof -
  have q: "q \<in> set (providers_to_try st provider)" using assms(1) unfolding providers_to_try_props(2) by auto
  have "set (takeWhile (\<lambda>p. p \<noteq> q) (providers_to_try st provider)) \<subseteq>
      set (takeWhile (\<lambda>p. p \<noteq> q) (provider # fallback_chain_list st))"
  proof (cases "q = provider")
    case True
    then show ?thesis using providers_to_try_props(4) [of st provider] by auto
  next
    case False
    with add_fallbacks_before [of q "[provider]" provider "fallback_chain_list st"] show ?thesis
      by (auto simp: providers_to_try_def)
  qed
  with assms(4) have before: "\<forall>p \<in> set (takeWhile (\<lambda>p. p \<noteq> q) (providers_to_try st provider)). \<exists>d. get_provider p = Inr d"
    "\<forall>p \<in> set (takeWhile (\<lambda>p. p \<noteq> q) (providers_to_try st provider)). \<forall>n key e.
       env_call env n p key = Failed e \<longrightarrow> \<not> is_client_error e" by blast+
  from fallback_reaches [OF q assms(2,3) before, of st None] assms(5)
  show ?thesis by (auto simp: chat_with_retry_def)
qed

lemma one_key_available:
  "available_keys t (get_pool q [(q, add_key k None (new_pool q))]) = [(0, hd (kp_keys (add_key k None (new_pool q))))]"
  by (simp add: available_keys_def get_pool_def add_key_def new_pool_def blocked_def)

text \<open>A state with one key for each of the given providers.\<close>

definition one_key_each :: "string list \<Rightarrow> 'a proxy" where
  "one_key_each ps = \<lparr>px_pools = map (\<lambda>p. (p, add_key ''sk'' None (new_pool p))) ps,
     px_breakers = new_manager default_settings, px_step = 0, px_log = []\<rparr>"

lemma one_key_each_pool: "p \<in> set ps \<Longrightarrow> get_pool p (px_pools (one_key_each ps)) = add_key ''sk'' None (new_pool p)"
  by (induction ps) (auto simp: one_key_each_def get_pool_def)

lemma one_key_each_up:
  "p \<in> set ps \<Longrightarrow> get_provider p = Inr d \<Longrightarrow> provider_up env p (one_key_each ps)"
  using one_key_each_pool [of p ps]
  by (auto simp: provider_up_def available_keys_def add_key_def new_pool_def blocked_def)
     (simp_all add: one_key_each_def get_breaker_def new_manager_def new_breaker_def)

definition down_but :: "string \<Rightarrow> 'a \<Rightarrow> 'a env" where
  "down_but q resp = \<lparr>env_call = (\<lambda>n p key. if p = q then Reply resp else
       Failed \<lparr>ce_text = ''bad gateway'', ce_status = 502, ce_retry_after = None\<rparr>),
     env_before = (\<lambda>n. of_nat n), env_after = (\<lambda>n. of_nat n), env_pick = (\<lambda>n. 0)\<rparr>"

lemma default_chain: "fallback_chain_list default_settings = [''anthropic'']"
  by (simp add: fallback_chain_list_def settings_split_def default_settings_def str_strip_def is_space_def)

lemma fallback_succeeds_witness:
  "\<exists>resp. fst (chat_with_retry (down_but ''anthropic'' True) default_settings ''openai''
     (one_key_each [''openai'', ''anthropic''])) = Inr resp"
proof -
  have "get_provider ''anthropic'' = Inr ''providers.anthropic_provider.AnthropicProvider''"
    by (simp add: get_provider_def provider_map_def)
  from one_key_each_up [OF _ this, of "[''openai'', ''anthropic'']" "down_but ''anthropic'' True"]
  have up: "provider_up (down_but ''anthropic'' True) ''anthropic'' (one_key_each [''openai'', ''anthropic''])" by simp
  show ?thesis
    by (rule fallback_succeeds [OF _ up])
       (auto simp: default_chain down_but_def get_provider_def provider_map_def is_client_error_def
          default_settings_def [THEN arg_cong, of MAX_RETRIES] split: if_splits)
qed

text \<open>When every call fails with a rate limit or a server error, the request ends with status 503
  and never with another error, as long as all providers of the chain are registered.\<close>

theorem exhaustion_reported:
  assumes "\<forall>p \<in> insert provider (set (fallback_chain_list st)). \<exists>d. get_provider p = Inr d"
    and "\<forall>p \<in> insert provider (set (fallback_chain_list st)). \<forall>n key.
           \<exists>e. env_call env n p key = Failed e \<and> \<not> is_client_error e"
  shows "\<exists>msg. fst (chat_with_retry env st provider s) =
     Inl (ProviderError (''All providers exhausted. Last error: '' @ msg) provider 503)"
proof -
  have "\<exists>e1 s'. try_providers env st ps e0 s = ((None, e1), s')"
    if "\<forall>p \<in> set ps. (\<exists>d. get_provider p = Inr d) \<and>
        (\<forall>n key. \<exists>e. env_call env n p key = Failed e \<and> \<not> is_client_error e)" for ps e0 s
    using that
  proof (induction ps arbitrary: e0 s)
    case (Cons p ps)
    obtain r e2 s1 where a: "attempts env st p (nat (MAX_RETRIES st)) e0 s = ((r, e2), s1)" by (metis prod_cases3 prod.collapse)
    obtain d where d: "get_provider p = Inr d" using Cons.prems by auto
    have "r = None"
    proof (cases r)
      case (Some x)
      have f: "\<forall>n key. \<exists>e. env_call env n p key = Failed e \<and> \<not> is_client_error e" using Cons.prems by auto
      then have "\<forall>n key e. env_call env n p key = Failed e \<longrightarrow> \<not> is_client_error e" by (metis outcome.inject(2))
      then obtain resp where "x = Inr resp" using attempts_no_error [OF a [unfolded Some] d] by blast
      with attempts_replied [OF a [unfolded Some this]] f show ?thesis by (metis outcome.distinct(1))
    qed simp
    with a Cons show ?case by simp
  qed simp
  from this [of "providers_to_try st provider" None s] assms show ?thesis
    by (auto simp: chat_with_retry_def providers_to_try_props(2))
qed

lemma exhaustion_reported_witness:
  "\<exists>msg. fst (chat_with_retry (down_but ''none'' True) default_settings ''openai''
     (one_key_each [''openai'', ''anthropic''])) =
   Inl (ProviderError (''All providers exhausted. Last error: '' @ msg) ''openai'' 503)"
  by (rule exhaustion_reported)
     (auto simp: default_chain down_but_def get_provider_def provider_map_def is_client_error_def)

text \<open>A fallback provider that is not registered ends the request with the lookup error instead of
  being skipped, whenever it has a key whose breaker is closed.\<close>

theorem unknown_fallback_escapes:
  assumes "fallback_chain_list st = [fb]" and "fb \<noteq> provider" and "get_provider fb = Inl x" and "0 < MAX_RETRIES st"
    and "\<forall>n. available_keys (env_before env n) (get_pool provider (px_pools s)) = []"
    and "\<forall>n. available_keys (env_before env n) (get_pool fb (px_pools s)) \<noteq> []"
    and "\<forall>i. cb_state (get_breaker fb i (px_breakers s)) = CLOSED"
  shows "fst (chat_with_retry env st provider s) = Inl x"
proof -
  obtain k where k: "nat (MAX_RETRIES st) = Suc k" using assms(4) by (metis gr0_conv_Suc zero_less_nat_eq)
  obtain r s1 where s1: "next_key env st provider s = (r, s1)" by fastforce
  have "r = None"
  proof (cases r)
    case (Some ki)
    then show ?thesis
      using s1 assms(5) get_next_key_cases [of "env_before env (px_step s)" "get_pool provider (px_pools s)"
          "env_pick env (px_step s)" "KEY_ROTATION_STRATEGY st"]
      by (auto simp: next_key_def Let_def split: prod.splits)
  qed simp
  with s1 have a1: "attempts env st provider (nat (MAX_RETRIES st)) None s = ((None, None), s1)" by (simp add: k Let_def)
  have f1: "get_pool fb (px_pools s1) = get_pool fb (px_pools s)" "px_breakers s1 = px_breakers s"
    using next_key_frame(2) [OF s1] next_key_frame(3) [OF s1 assms(2)] by simp_all
  obtain r2 s2 where s2: "next_key env st fb s1 = (r2, s2)" by fastforce
  have "r2 \<noteq> None" using next_key_None s2 assms(6) f1 by metis
  then obtain key idx where r2: "r2 = Some (key, idx)" by auto
  obtain a s3 where s3: "breaker_allows (env_before env (px_step s1)) fb idx s2 = (a, s3)" by fastforce
  have a using breaker_allows_frame(5) [OF s3] next_key_frame(2) [OF s2] f1(2) assms(7)
    by (simp add: cb_is_available_def read_state_def Let_def)
  with s2 r2 s3 assms(3) have "\<exists>e s'. attempts env st fb (nat (MAX_RETRIES st)) None s1 = ((Some (Inl x), e), s')"
    by (simp add: k Let_def)
  then show ?thesis using a1 assms(1,2)
    by (auto simp: chat_with_retry_def providers_to_try_def)
qed

lemma unknown_fallback_escapes_witness:
  "\<exists>x. get_provider ''cohere'' = Inl x \<and>
     fst (chat_with_retry (down_but ''openai'' True) (default_settings\<lparr>FALLBACK_CHAIN := ''cohere''\<rparr>) ''openai''
       (one_key_each [''cohere''])) = Inl x"
proof -
  let ?st = "default_settings\<lparr>FALLBACK_CHAIN := ''cohere''\<rparr>"
  have f: "fallback_chain_list ?st = [''cohere'']" "0 < MAX_RETRIES ?st"
    by (simp_all add: fallback_chain_list_def settings_split_def default_settings_def str_strip_def is_space_def)
  obtain x where x: "get_provider ''cohere'' = Inl x" by (simp add: get_provider_def provider_map_def)
  have "fst (chat_with_retry (down_but ''openai'' True) ?st ''openai'' (one_key_each [''cohere''])) = Inl x"
    by (rule unknown_fallback_escapes [OF f(1) _ x f(2)])
       (simp_all add: one_key_each_def get_pool_def available_keys_def new_pool_def add_key_def blocked_def
          get_breaker_def new_manager_def new_breaker_def)
  with x show ?thesis by blast
qed


section \<open>Streaming\<close>

text \<open>A stream that breaks off is not undone: its chunks stay with the caller and the complete
  answer of the next provider follows them.\<close>

theorem broken_stream_repeats:
  assumes "fallback_chain_list st = [fb]" and "fb \<noteq> provider"
    and "provider_up env provider s" and "provider_up env fb s"
    and "\<forall>n key. env_call env n provider key = Reply (part, Some e)"
    and "\<forall>n key. env_call env n fb key = Reply (full, None)" and "list_all fits part" and "list_all fits full"
  shows "fst (stream_with_retry fits env st provider s) = (part @ full, Inr ())"
proof -
  obtain r s1 where s1: "next_key env st provider s = (r, s1)" by fastforce
  have "r \<noteq> None" by (rule provider_up_key [OF assms(3) s1])
  then obtain key idx where r: "r = Some (key, idx)" by auto
  obtain a s2 where s2: "breaker_allows (env_before env (px_step s)) provider idx s1 = (a, s2)" by fastforce
  have a: a using breaker_allows_frame(5) [OF s2] next_key_frame(2) [OF s1] assms(3)
    by (simp add: cb_is_available_def read_state_def provider_up_def Let_def)
  define s3 where "s3 = note_failure (env_after env (px_step s)) provider idx
     (log_call provider key idx (env_before env (px_step s)) (Reply (part, Some e)) s2)"
  have up: "provider_up env fb s3"
    using assms(4) next_key_frame(2) [OF s1] next_key_frame(3) [OF s1 assms(2)] breaker_allows_frame(2) [OF s2]
      breaker_allows_frame(3) [OF s2 assms(2)]
    by (simp add: provider_up_def s3_def assms(2))
  obtain r' t1 where t1: "next_key env st fb s3 = (r', t1)" by fastforce
  have "r' \<noteq> None" by (rule provider_up_key [OF up t1])
  then obtain key' idx' where r': "r' = Some (key', idx')" by auto
  obtain a' t2 where t2: "breaker_allows (env_before env (px_step s3)) fb idx' t1 = (a', t2)" by fastforce
  have a': a' using breaker_allows_frame(5) [OF t2] next_key_frame(2) [OF t1] up
    by (simp add: cb_is_available_def read_state_def provider_up_def Let_def)
  obtain d d' where d: "get_provider provider = Inr d" "get_provider fb = Inr d'"
    using assms(3,4) by (auto simp: provider_up_def)
  have "\<exists>e s'. stream_providers fits env st [fb] (Some e0) s3 = ((full, Some (Inr ()), e), s')" for e0
    using t1 r' t2 a' d assms(6,8) by (simp add: Let_def)
  then obtain e' s' where "stream_providers fits env st [fb] (Some e) s3 = ((full, Some (Inr ()), e'), s')" by blast
  then have "stream_providers fits env st [provider, fb] None s = ((part @ full, Some (Inr ()), e'), s')"
    using s1 r s2 a d assms(5,7) by (simp add: Let_def s3_def del: stream_providers.simps(2) add: stream_providers.simps(2) [of _ _ _ provider])
  then show ?thesis using assms(1,2) by (simp add: stream_with_retry_def providers_to_try_def)
qed

lemma calls_bounded_and_allowed_witness:
  "length (px_log (snd (chat_with_retry (down_but ''none'' True) default_settings ''openai''
     (one_key_each [''openai'', ''anthropic''])))) \<le> 6"
proof -
  have l: "px_log (one_key_each ps) = []" for ps by (simp add: one_key_each_def)
  from calls_bounded_and_allowed [OF prod.collapse [symmetric], of "down_but ''none'' True" default_settings "''openai''"
      "one_key_each [''openai'', ''anthropic'']"]
  show ?thesis by (auto simp: l default_chain default_settings_def [THEN arg_cong, of MAX_RETRIES])
qed

lemma result_decided_by_calls_witness:
  "\<exists>new. px_log (snd (chat_with_retry (down_but ''openai'' True) default_settings ''openai''
      (one_key_each [''openai'']))) = new \<and>
     (decides new (Some (fst (chat_with_retry (down_but ''openai'' True) default_settings ''openai''
      (one_key_each [''openai''])))) \<or> list_all (\<lambda>c. retriable (cl_outcome c)) new)"
proof -
  have l: "px_log (one_key_each ps) = []" for ps by (simp add: one_key_each_def)
  from result_decided_by_calls [OF prod.collapse [symmetric], of "down_but ''openai'' True" default_settings "''openai''"
      "one_key_each [''openai'']"]
  show ?thesis by (auto simp: l)
qed

lemma broken_stream_repeats_witness:
  "fst (stream_with_retry (\<lambda>_. True) \<lparr>env_call = (\<lambda>n p key. if p = ''openai''
        then Reply ([''par''], Some \<lparr>ce_text = ''reset'', ce_status = 0, ce_retry_after = None\<rparr>)
        else Reply ([''whole''], None)), env_before = (\<lambda>n. of_nat n), env_after = (\<lambda>n. of_nat n), env_pick = (\<lambda>n. 0)\<rparr>
      default_settings ''openai'' (one_key_each [''openai'', ''anthropic''])) = ([''par'', ''whole''], Inr ())"
proof -
  have g: "get_provider ''openai'' = Inr ''providers.openai_provider.OpenAIProvider''"
    "get_provider ''anthropic'' = Inr ''providers.anthropic_provider.AnthropicProvider''"
    by (simp_all add: get_provider_def provider_map_def)
  let ?e = "\<lparr>ce_text = ''reset'', ce_status = 0, ce_retry_after = None\<rparr>"
  let ?env = "\<lparr>env_call = (\<lambda>n p key. if p = ''openai'' then Reply ([''par''], Some ?e) else Reply ([''whole''], None)),
     env_before = (\<lambda>n. of_nat n), env_after = (\<lambda>n. of_nat n), env_pick = (\<lambda>n. 0)\<rparr>"
  have "fst (stream_with_retry (\<lambda>_. True) ?env default_settings ''openai'' (one_key_each [''openai'', ''anthropic''])) =
      ([''par''] @ [''whole''], Inr ())"
    by (rule broken_stream_repeats [OF default_chain _ one_key_each_up [OF _ g(1)] one_key_each_up [OF _ g(2)], where e = ?e])
       simp_all
  then show ?thesis by simp
qed

end
