(* ===== verification/Regex.thy ===== *)
theory Regex
  imports Prelude
begin

text \<open>
  Regular expressions as Python's \<open>re\<close> module reads and matches them, for the constructs the
  patterns of the program use: literals, classes, escapes, groups, alternation, greedy and
  lazy repetition, anchors and word boundaries, and the flags for case, lines and the dot.
  Matching backtracks; the positions where a match may end are listed in the order in which
  they are tried.  Back references, look-around and named groups are outside this model.
\<close>


section \<open>Expressions and flags\<close>

datatype rx =
    REps
  | RSet bool "(int \<times> int) list"   \<comment> \<open>negated, code point ranges\<close>
  | RAny
  | RSeq rx rx
  | RAlt rx rx
  | RRep rx nat "nat option" bool   \<comment> \<open>least, most, greedy\<close>
  | RWordB bool
  | RBol
  | REol
  | RStart
  | REnd

record re_flags =
  fl_ignorecase :: bool
  fl_multiline :: bool
  fl_dotall :: bool

definition no_flags :: re_flags where
  "no_flags = \<lparr>fl_ignorecase = False, fl_multiline = False, fl_dotall = False\<rparr>"

definition re_ignorecase :: re_flags where
  "re_ignorecase = no_flags\<lparr>fl_ignorecase := True\<rparr>"

abbreviation code :: "char \<Rightarrow> int" where
  "code c \<equiv> of_char c"

definition in_ranges :: "int \<Rightarrow> (int \<times> int) list \<Rightarrow> bool" where
  "in_ranges n rs = list_ex (\<lambda>(a, b). a \<le> n \<and> n \<le> b) rs"

definition digit_ranges :: "(int \<times> int) list" where
  "digit_ranges = [(48, 57)]"

definition word_ranges :: "(int \<times> int) list" where
  "word_ranges = [(48, 57), (65, 90), (95, 95), (97, 122), (170, 170), (178, 179), (181, 181), (185, 186),
                  (188, 190), (192, 214), (216, 246), (248, 255)]"

definition space_ranges :: "(int \<times> int) list" where
  "space_ranges = [(9, 13), (28, 32), (133, 133), (160, 160)]"

definition complement :: "(int \<times> int) list \<Rightarrow> (int \<times> int) list" where
  "complement rs = map (\<lambda>n. (n, n)) (filter (\<lambda>n. \<not> in_ranges n rs) [0..255])"

definition is_word :: "char \<Rightarrow> bool" where
  "is_word c = in_ranges (code c) word_ranges"

definition set_matches :: "re_flags \<Rightarrow> bool \<Rightarrow> (int \<times> int) list \<Rightarrow> char \<Rightarrow> bool" where
  "set_matches fl neg rs c =
     (neg \<noteq> (in_ranges (code c) rs \<or>
              (fl_ignorecase fl \<and> (in_ranges (code (lower_char c)) rs \<or> in_ranges (code (upper_char c)) rs))))"


section \<open>Matching\<close>

definition one_char :: "string \<Rightarrow> (char \<Rightarrow> bool) \<Rightarrow> nat \<Rightarrow> nat list" where
  "one_char s P i = (if i < length s \<and> P (s ! i) then [Suc i] else [])"

definition at_word_boundary :: "string \<Rightarrow> nat \<Rightarrow> bool" where
  "at_word_boundary s i =
     ((0 < i \<and> i \<le> length s \<and> is_word (s ! (i - 1))) \<noteq> (i < length s \<and> is_word (s ! i)))"

definition guard_pos :: "bool \<Rightarrow> nat \<Rightarrow> nat list" where
  "guard_pos b i = (if b then [i] else [])"

text \<open>
  Repetition of a step: an iteration beyond the least number must move on.  The fuel bounds
  the iterations.
\<close>

fun rep_ends :: "(nat \<Rightarrow> nat list) \<Rightarrow> nat \<Rightarrow> nat \<Rightarrow> nat option \<Rightarrow> bool \<Rightarrow> nat \<Rightarrow> nat list" where
  "rep_ends m 0 lo hi greedy i = []"
| "rep_ends m (Suc f) lo hi greedy i =
     (let more = (if hi = Some 0 then []
                  else concat (map (\<lambda>j. if lo = 0 \<and> j \<le> i then []
                                        else rep_ends m f (lo - 1) (map_option (\<lambda>h. h - 1) hi) greedy j) (m i)));
          stop = guard_pos (lo = 0) i
      in if greedy then more @ stop else stop @ more)"

fun ends :: "re_flags \<Rightarrow> string \<Rightarrow> rx \<Rightarrow> nat \<Rightarrow> nat list" where
  "ends fl s REps i = [i]"
| "ends fl s (RSet neg rs) i = one_char s (set_matches fl neg rs) i"
| "ends fl s RAny i = one_char s (\<lambda>c. fl_dotall fl \<or> c \<noteq> CHR 0x0A) i"
| "ends fl s (RSeq a b) i = concat (map (ends fl s b) (ends fl s a i))"
| "ends fl s (RAlt a b) i = ends fl s a i @ ends fl s b i"
| "ends fl s (RRep r lo hi greedy) i = rep_ends (ends fl s r) (lo + length s + 1) lo hi greedy i"
| "ends fl s (RWordB b) i = guard_pos (at_word_boundary s i = b) i"
| "ends fl s RBol i = guard_pos (i = 0 \<or> (fl_multiline fl \<and> i \<le> length s \<and> s ! (i - 1) = CHR 0x0A)) i"
| "ends fl s REol i = guard_pos (i = length s \<or> (i < length s \<and> s ! i = CHR 0x0A \<and> (fl_multiline fl \<or> Suc i = length s))) i"
| "ends fl s RStart i = guard_pos (i = 0) i"
| "ends fl s REnd i = guard_pos (i = length s) i"

text \<open>
  The first match at or after a position; \<open>adv\<close> refuses an empty match at the start position,
  as the substitution does after an empty match.  \<open>k\<close> is the number of positions left.
\<close>

fun find_match :: "re_flags \<Rightarrow> string \<Rightarrow> rx \<Rightarrow> bool \<Rightarrow> nat \<Rightarrow> nat \<Rightarrow> (nat \<times> nat) option" where
  "find_match fl s r adv 0 i = None"
| "find_match fl s r adv (Suc k) i =
     (case filter (\<lambda>j. \<not> adv \<or> j \<noteq> i) (ends fl s r i) of
        j # _ \<Rightarrow> Some (i, j)
      | [] \<Rightarrow> find_match fl s r False k (Suc i))"

definition search_from :: "re_flags \<Rightarrow> string \<Rightarrow> rx \<Rightarrow> bool \<Rightarrow> nat \<Rightarrow> (nat \<times> nat) option" where
  "search_from fl s r adv i = find_match fl s r adv (Suc (length s) - i) i"

definition slice :: "nat \<Rightarrow> nat \<Rightarrow> 'a list \<Rightarrow> 'a list" where
  "slice i j s = take (j - i) (drop i s)"

text \<open>The matches of a substitution, at most as many as the fuel.\<close>

fun all_matches :: "re_flags \<Rightarrow> string \<Rightarrow> rx \<Rightarrow> nat \<Rightarrow> bool \<Rightarrow> nat \<Rightarrow> (nat \<times> nat) list" where
  "all_matches fl s r 0 adv i = []"
| "all_matches fl s r (Suc k) adv i =
     (case search_from fl s r adv i of
        None \<Rightarrow> []
      | Some (a, b) \<Rightarrow> (a, b) # all_matches fl s r k (b = a) b)"

definition rx_matches :: "re_flags \<Rightarrow> string \<Rightarrow> rx \<Rightarrow> (nat \<times> nat) list" where
  "rx_matches fl s r = all_matches fl s r (2 * length s + 2) False 0"

fun splice :: "string \<Rightarrow> string \<Rightarrow> nat \<Rightarrow> (nat \<times> nat) list \<Rightarrow> string" where
  "splice s repl i [] = drop i s"
| "splice s repl i ((a, b) # ms) = slice i a s @ repl @ splice s repl b ms"


section \<open>Parsing\<close>

definition lit :: "char \<Rightarrow> rx" where
  "lit c = RSet False [(code c, code c)]"

definition unsupported :: "'a res" where
  "unsupported = Inl (OtherError ''regular expression outside the model'')"

definition is_alpha :: "char \<Rightarrow> bool" where
  "is_alpha c \<longleftrightarrow> (65 \<le> code c \<and> code c \<le> 90) \<or> (97 \<le> code c \<and> code c \<le> 122)"

text \<open>Control characters and class escapes shared by both positions.\<close>

definition control_escape :: "char \<Rightarrow> char option" where
  "control_escape c = map_of [(CHR ''n'', CHR 0x0A), (CHR ''t'', CHR 0x09), (CHR ''r'', CHR 0x0D),
      (CHR ''f'', CHR 0x0C), (CHR ''v'', CHR 0x0B), (CHR ''a'', CHR 0x07)] c"

definition class_escape :: "char \<Rightarrow> (int \<times> int) list option" where
  "class_escape c =
     (if c = CHR ''d'' then Some digit_ranges else if c = CHR ''D'' then Some (complement digit_ranges)
      else if c = CHR ''w'' then Some word_ranges else if c = CHR ''W'' then Some (complement word_ranges)
      else if c = CHR ''s'' then Some space_ranges else if c = CHR ''S'' then Some (complement space_ranges)
      else None)"

definition parse_escape :: "char \<Rightarrow> rx res" where
  "parse_escape c =
     (if c = CHR ''b'' then Inr (RWordB True)
      else if c = CHR ''B'' then Inr (RWordB False)
      else if c = CHR ''A'' then Inr RStart
      else if c = CHR ''Z'' then Inr REnd
      else case class_escape c of
        Some rs \<Rightarrow> Inr (RSet False rs)
      | None \<Rightarrow>
          (case control_escape c of
             Some d \<Rightarrow> Inr (lit d)
           | None \<Rightarrow> if digit_val c \<noteq> None \<or> c = CHR ''x'' \<or> c = CHR ''u'' then unsupported
                     else if is_alpha c then Inl ReError else Inr (lit c)))"

text \<open>One item of a class: a character, or a set that cannot start a range.\<close>

fun class_item :: "string \<Rightarrow> ((int \<times> int) list \<times> char option \<times> string) res" where
  "class_item [] = Inl ReError"
| "class_item (c # cs) =
     (if c \<noteq> CHR 0x5C then Inr ([(code c, code c)], Some c, cs)
      else (case cs of
              [] \<Rightarrow> Inl ReError
            | d # ds \<Rightarrow>
                (case class_escape d of
                   Some rs \<Rightarrow> Inr (rs, None, ds)
                 | None \<Rightarrow>
                     (case (if d = CHR ''b'' then Some (CHR 0x08) else control_escape d) of
                        Some e \<Rightarrow> Inr ([(code e, code e)], Some e, ds)
                      | None \<Rightarrow> if digit_val d \<noteq> None \<or> d = CHR ''x'' \<or> d = CHR ''u'' then unsupported
                                else if is_alpha d then Inl ReError
                                else Inr ([(code d, code d)], Some d, ds)))))"

fun parse_class :: "nat \<Rightarrow> bool \<Rightarrow> (int \<times> int) list \<Rightarrow> string \<Rightarrow> ((int \<times> int) list \<times> string) res" where
  "parse_class 0 first acc cs = Inl ReError"
| "parse_class (Suc f) first acc cs =
     (case cs of
        [] \<Rightarrow> Inl ReError
      | c # ds \<Rightarrow>
          if c = CHR '']'' \<and> \<not> first then Inr (acc, ds)
          else rbind (class_item cs) (\<lambda>(rs, lo, rest).
            (case rest of
               a # b # rest' \<Rightarrow>
                 if a = CHR ''-'' \<and> b \<noteq> CHR '']''
                 then rbind (class_item (b # rest')) (\<lambda>(rs', hi, rest'').
                        (case (lo, hi) of
                           (Some l, Some h) \<Rightarrow>
                             if code l \<le> code h then parse_class f False (acc @ [(code l, code h)]) rest''
                             else Inl ReError
                         | _ \<Rightarrow> Inl ReError))
                 else parse_class f False (acc @ rs) rest
             | _ \<Rightarrow> parse_class f False (acc @ rs) rest)))"

definition span_digits :: "string \<Rightarrow> string \<times> string" where
  "span_digits cs = (takeWhile (\<lambda>c. digit_val c \<noteq> None) cs, dropWhile (\<lambda>c. digit_val c \<noteq> None) cs)"

text \<open>The bounds in braces; \<^const>\<open>None\<close> when the brace stands for itself.\<close>

definition parse_braces :: "string \<Rightarrow> (nat \<times> nat option \<times> string) option" where
  "parse_braces cs =
     (let (lo, r1) = span_digits cs; num = (\<lambda>d. parse_digits 0 d) in
      case r1 of
        c # r2 \<Rightarrow>
          if c = CHR ''}'' then (if lo = [] then None else map_option (\<lambda>n. (n, Some n, r2)) (num lo))
          else if c = CHR '',''
          then (let (hi, r3) = span_digits r2 in
                case r3 of
                  d # r4 \<Rightarrow>
                    if d = CHR ''}''
                    then Some (if lo = [] then 0 else the (num lo), if hi = [] then None else num hi, r4)
                    else None
                | [] \<Rightarrow> None)
          else None
      | [] \<Rightarrow> None)"

definition quantifier :: "string \<Rightarrow> (nat \<times> nat option \<times> string) option" where
  "quantifier cs =
     (case cs of
        [] \<Rightarrow> None
      | c # r \<Rightarrow>
          if c = CHR ''*'' then Some (0, None, r)
          else if c = CHR ''+'' then Some (1, None, r)
          else if c = CHR ''?'' then Some (0, Some 1, r)
          else if c = CHR ''{'' then parse_braces r
          else None)"

definition is_assertion :: "rx \<Rightarrow> bool" where
  "is_assertion r = (case r of RWordB _ \<Rightarrow> True | RBol \<Rightarrow> True | REol \<Rightarrow> True | RStart \<Rightarrow> True | REnd \<Rightarrow> True | _ \<Rightarrow> False)"

definition parse_quantifier :: "rx \<Rightarrow> string \<Rightarrow> (rx \<times> string) res" where
  "parse_quantifier a cs =
     (case quantifier cs of
        None \<Rightarrow> Inr (a, cs)
      | Some (lo, hi, rest) \<Rightarrow>
          if is_assertion a \<or> (case hi of None \<Rightarrow> False | Some h \<Rightarrow> h < lo) then Inl ReError
          else (case rest of
                  c # r \<Rightarrow>
                    if c = CHR ''?'' then (if quantifier r \<noteq> None then Inl ReError else Inr (RRep a lo hi False, r))
                    else if c = CHR ''+'' then unsupported
                    else if quantifier rest \<noteq> None then Inl ReError
                    else Inr (RRep a lo hi True, rest)
                | [] \<Rightarrow> Inr (RRep a lo hi True, rest)))"

fun parse_alt :: "nat \<Rightarrow> string \<Rightarrow> (rx \<times> string) res"
  and parse_seq :: "nat \<Rightarrow> string \<Rightarrow> (rx \<times> string) res"
  and parse_atom :: "nat \<Rightarrow> string \<Rightarrow> (rx \<times> string) res" where
  "parse_alt 0 cs = Inl ReError"
| "parse_alt (Suc f) cs = rbind (parse_seq f cs) (\<lambda>(r, rest).
     (case rest of
        c # rest' \<Rightarrow> if c = CHR ''|'' then rbind (parse_alt f rest') (\<lambda>(r', rest''). Inr (RAlt r r', rest''))
                     else Inr (r, rest)
      | [] \<Rightarrow> Inr (r, rest)))"
| "parse_seq 0 cs = Inl ReError"
| "parse_seq (Suc f) cs =
     (case cs of
        [] \<Rightarrow> Inr (REps, [])
      | c # _ \<Rightarrow>
          if c = CHR ''|'' \<or> c = CHR '')'' then Inr (REps, cs)
          else rbind (parse_atom f cs) (\<lambda>(a, rest).
               rbind (parse_quantifier a rest) (\<lambda>(q, rest').
               rbind (parse_seq f rest') (\<lambda>(r, rest''). Inr (RSeq q r, rest'')))))"
| "parse_atom 0 cs = Inl ReError"
| "parse_atom (Suc f) cs =
     (case cs of
        [] \<Rightarrow> Inl ReError
      | c # ds \<Rightarrow>
          if c = CHR ''('' then
            (let body = (if prefix ''?:'' ds then Some (drop 2 ds) else if prefix ''?'' ds then None else Some ds)
             in case body of
                  None \<Rightarrow> unsupported
                | Some b \<Rightarrow> rbind (parse_alt f b) (\<lambda>(r, rest).
                    (case rest of e # rest' \<Rightarrow> if e = CHR '')'' then Inr (r, rest') else Inl ReError | [] \<Rightarrow> Inl ReError)))
          else if c = CHR ''['' then
            (let neg = prefix ''^'' ds
             in rbind (parse_class (Suc (length ds)) True [] (if neg then tl ds else ds)) (\<lambda>(rs, rest). Inr (RSet neg rs, rest)))
          else if c = CHR ''.'' then Inr (RAny, ds)
          else if c = CHR ''^'' then Inr (RBol, ds)
          else if c = CHR ''$'' then Inr (REol, ds)
          else if c = CHR 0x5C then
            (case ds of [] \<Rightarrow> Inl ReError | e # rest \<Rightarrow> rbind (parse_escape e) (\<lambda>r. Inr (r, rest)))
          else if c = CHR ''*'' \<or> c = CHR ''+'' \<or> c = CHR ''?'' then Inl ReError
          else Inr (lit c, ds))"

text \<open>\<open>re.compile\<close>: an inline flag for case may open the pattern.\<close>

definition re_compile :: "re_flags \<Rightarrow> string \<Rightarrow> (re_flags \<times> rx) res" where
  "re_compile fl pat =
     (let (fl', p) = (if prefix ''(?i)'' pat then (fl\<lparr>fl_ignorecase := True\<rparr>, drop 4 pat) else (fl, pat))
      in rbind (parse_alt (3 * length p + 3) p) (\<lambda>(r, rest).
           if rest = [] then Inr (fl', r) else Inl ReError))"


section \<open>Functions of the module\<close>

text \<open>\<open>re.search\<close> and \<open>re.match\<close>, giving the text of the match.\<close>

definition re_search :: "re_flags \<Rightarrow> string \<Rightarrow> string \<Rightarrow> string option res" where
  "re_search fl pat s =
     rbind (re_compile fl pat) (\<lambda>(fl', r). Inr (map_option (\<lambda>(a, b). slice a b s) (search_from fl' s r False 0)))"

definition re_match :: "re_flags \<Rightarrow> string \<Rightarrow> string \<Rightarrow> string option res" where
  "re_match fl pat s =
     rbind (re_compile fl pat) (\<lambda>(fl', r). Inr (case ends fl' s r 0 of [] \<Rightarrow> None | j # _ \<Rightarrow> Some (slice 0 j s)))"

text \<open>\<open>re.subn\<close> for a replacement text without backslashes; one with a backslash is outside the model.\<close>

definition re_subn :: "re_flags \<Rightarrow> string \<Rightarrow> string \<Rightarrow> string \<Rightarrow> (string \<times> nat) res" where
  "re_subn fl pat repl s =
     (if CHR 0x5C \<in> set repl then unsupported
      else rbind (re_compile fl pat) (\<lambda>(fl', r).
             let ms = rx_matches fl' s r in Inr (splice s repl 0 ms, length ms)))"

text \<open>\<open>re.findall\<close> for a pattern without capturing groups.\<close>

definition re_findall :: "re_flags \<Rightarrow> string \<Rightarrow> string \<Rightarrow> string list res" where
  "re_findall fl pat s =
     rbind (re_compile fl pat) (\<lambda>(fl', r). Inr (map (\<lambda>(a, b). slice a b s) (rx_matches fl' s r)))"

text \<open>\<open>re.escape\<close>\<close>

definition re_escape :: "string \<Rightarrow> string" where
  "re_escape s = concat (map (\<lambda>c. if c \<in> set ''()[]{}?*+-|^$.&~# '' \<or> c = CHR 0x5C \<or> c \<in> {CHR 0x09, CHR 0x0A, CHR 0x0D, CHR 0x0B, CHR 0x0C}
                                  then [CHR 0x5C, c] else [c]) s)"


section \<open>What a pattern matches\<close>

text \<open>
  The declarative meaning of an expression: which stretches of the text it matches, without
  an order of search and without fuel.
\<close>

fun stretch :: "re_flags \<Rightarrow> string \<Rightarrow> rx \<Rightarrow> nat \<Rightarrow> nat \<Rightarrow> bool" where
  "stretch fl s REps = (\<lambda>i j. j = i)"
| "stretch fl s (RSet neg rs) = (\<lambda>i j. i < length s \<and> set_matches fl neg rs (s ! i) \<and> j = Suc i)"
| "stretch fl s RAny = (\<lambda>i j. i < length s \<and> (fl_dotall fl \<or> s ! i \<noteq> CHR 0x0A) \<and> j = Suc i)"
| "stretch fl s (RSeq a b) = (\<lambda>i j. \<exists>k. stretch fl s a i k \<and> stretch fl s b k j)"
| "stretch fl s (RAlt a b) = (\<lambda>i j. stretch fl s a i j \<or> stretch fl s b i j)"
| "stretch fl s (RRep r lo hi greedy) =
     (\<lambda>i j. \<exists>n. lo \<le> n \<and> (\<forall>h. hi = Some h \<longrightarrow> n \<le> h) \<and> (stretch fl s r ^^ n) i j)"
| "stretch fl s (RWordB b) = (\<lambda>i j. at_word_boundary s i = b \<and> j = i)"
| "stretch fl s RBol = (\<lambda>i j. (i = 0 \<or> (fl_multiline fl \<and> s ! (i - 1) = CHR 0x0A)) \<and> j = i)"
| "stretch fl s REol = (\<lambda>i j. (i = length s \<or> (s ! i = CHR 0x0A \<and> (fl_multiline fl \<or> Suc i = length s))) \<and> j = i)"
| "stretch fl s RStart = (\<lambda>i j. i = 0 \<and> j = i)"
| "stretch fl s REnd = (\<lambda>i j. i = length s \<and> j = i)"

text \<open>A relation that moves forward inside the text.\<close>

definition forward :: "nat \<Rightarrow> (nat \<Rightarrow> nat \<Rightarrow> bool) \<Rightarrow> bool" where
  "forward L R \<longleftrightarrow> (\<forall>i j. i \<le> L \<longrightarrow> R i j \<longrightarrow> i \<le> j \<and> j \<le> L)"

lemma forwardI: "(\<And>i j. i \<le> L \<Longrightarrow> R i j \<Longrightarrow> i \<le> j \<and> j \<le> L) \<Longrightarrow> forward L R"
  unfolding forward_def by blast

lemma forwardD: "forward L R \<Longrightarrow> R i j \<Longrightarrow> i \<le> L \<Longrightarrow> i \<le> j \<and> j \<le> L"
  unfolding forward_def by blast

lemma forward_relpow: "forward L R \<Longrightarrow> forward L (R ^^ n)"
proof (induction n)
  case (Suc n)
  show ?case
  proof (rule forwardI)
    fix i j
    assume "i \<le> L" "(R ^^ Suc n) i j"
    then obtain k where "(R ^^ n) i k" "R k j" by (auto elim: relpowp_Suc_E)
    with Suc \<open>i \<le> L\<close> show "i \<le> j \<and> j \<le> L" by (meson forwardD le_trans)
  qed
qed (rule forwardI, simp)

lemma forward_stretch: "forward (length s) (stretch fl s r)"
proof (induction r)
  case (RSeq a b)
  show ?case
  proof (rule forwardI)
    fix i j
    assume "i \<le> length s" "stretch fl s (RSeq a b) i j"
    moreover then obtain k where "stretch fl s a i k" "stretch fl s b k j" by auto
    ultimately show "i \<le> j \<and> j \<le> length s" using RSeq by (meson forwardD le_trans)
  qed
next
  case (RRep r lo hi greedy)
  then have f: "forward (length s) (stretch fl s r ^^ n)" for n by (rule forward_relpow)
  show ?case by (rule forwardI) (auto dest: forwardD [OF f])
next
  case (RAlt a b)
  show ?case by (rule forwardI) (auto dest: forwardD [OF RAlt(1)] forwardD [OF RAlt(2)])
qed (rule forwardI, force)+

text \<open>The repetition explores every number of iterations; the fuel lasts for the text.\<close>

lemma rep_ends_sound:
  assumes "forward L R" and "\<And>i j. i \<le> L \<Longrightarrow> j \<in> set (m i) \<Longrightarrow> R i j"
  shows "i \<le> L \<Longrightarrow> j \<in> set (rep_ends m f lo hi greedy i) \<Longrightarrow>
    \<exists>n. lo \<le> n \<and> (\<forall>h. hi = Some h \<longrightarrow> n \<le> h) \<and> (R ^^ n) i j"
proof (induction f arbitrary: lo hi i)
  case (Suc f)
  consider "lo = 0" "j = i"
    | k where "hi \<noteq> Some 0" "k \<in> set (m i)" "j \<in> set (rep_ends m f (lo - 1) (map_option (\<lambda>h. h - 1) hi) greedy k)"
    using Suc.prems(2) by (auto simp: Let_def guard_pos_def split: if_splits)
  then show ?case
  proof cases
    case 1
    then show ?thesis by (intro exI [of _ 0]) simp
  next
    case 2
    have r: "R i k" using assms(2) Suc.prems(1) 2(2) .
    with assms(1) Suc.prems(1) have "k \<le> L" by (auto dest: forwardD)
    from Suc.IH [OF this 2(3)] obtain n where "lo - 1 \<le> n" "\<forall>h. map_option (\<lambda>h. h - 1) hi = Some h \<longrightarrow> n \<le> h" "(R ^^ n) k j"
      by blast
    moreover have "(R ^^ Suc n) i j" by (rule relpowp_Suc_I2 [OF r \<open>(R ^^ n) k j\<close>])
    ultimately show ?thesis
      using 2(1) by (intro exI [of _ "Suc n"]) (fastforce simp del: relpowp.simps)
  qed
qed simp

lemma rep_ends_step:
  "k \<in> set (m i) \<Longrightarrow> hi \<noteq> Some 0 \<Longrightarrow> 0 < lo \<or> i < k \<Longrightarrow>
   j \<in> set (rep_ends m f (lo - 1) (map_option (\<lambda>h. h - 1) hi) greedy k) \<Longrightarrow> j \<in> set (rep_ends m (Suc f) lo hi greedy i)"
  by (auto simp: Let_def intro!: bexI [of _ k])

lemma rep_ends_complete:
  assumes "forward L R" and m: "\<And>i j. i \<le> L \<Longrightarrow> R i j \<Longrightarrow> j \<in> set (m i)"
  shows "i \<le> L \<Longrightarrow> lo + (L - i) < f \<Longrightarrow> lo \<le> n \<Longrightarrow> \<forall>h. hi = Some h \<longrightarrow> n \<le> h \<Longrightarrow> (R ^^ n) i j \<Longrightarrow>
    j \<in> set (rep_ends m f lo hi greedy i)"
proof (induction f arbitrary: lo hi i n)
  case (Suc f)
  have step: ?case if k: "R i k" "(R ^^ n') k j" "0 < lo \<or> i < k" "lo \<le> Suc n'" "\<forall>h. hi = Some h \<longrightarrow> Suc n' \<le> h" for k n'
  proof (rule rep_ends_step)
    have kL: "i \<le> k" "k \<le> L" using forwardD [OF assms(1) k(1) Suc.prems(1)] by auto
    show "k \<in> set (m i)" by (rule m [OF Suc.prems(1) k(1)])
    show "hi \<noteq> Some 0" using k(5) by auto
    show "0 < lo \<or> i < k" by (rule k(3))
    show "j \<in> set (rep_ends m f (lo - 1) (map_option (\<lambda>h. h - 1) hi) greedy k)"
      by (rule Suc.IH [of _ _ n']) (use kL k Suc.prems in auto)
  qed
  show ?case
  proof (cases "0 < lo")
    case True
    with Suc.prems(3) obtain n' where n': "n = Suc n'" by (cases n) auto
    with Suc.prems(5) obtain k where "R i k" "(R ^^ n') k j" by (metis relpowp_Suc_D2)
    with step True Suc.prems(3,4) n' show ?thesis by blast
  next
    case False
    define l where "l = (LEAST n. (R ^^ n) i j)"
    have l: "(R ^^ l) i j" "l \<le> n" unfolding l_def using Suc.prems(5) by (auto intro: LeastI Least_le)
    show ?thesis
    proof (cases l)
      case 0
      with l False show ?thesis by (auto simp: Let_def guard_pos_def)
    next
      case (Suc l')
      with l obtain k where k: "R i k" "(R ^^ l') k j" by (metis relpowp_Suc_D2)
      have "k \<noteq> i"
      proof
        assume "k = i"
        with k have "l \<le> l'" unfolding l_def by (simp add: Least_le)
        with Suc show False by simp
      qed
      with forwardD [OF assms(1) k(1) Suc.prems(1)] have "i < k" by simp
      with step [OF k] False l Suc Suc.prems(4) show ?thesis by fastforce
    qed
  qed
qed simp

theorem ends_iff_stretch:
  "i \<le> length s \<Longrightarrow> j \<in> set (ends fl s r i) \<longleftrightarrow> stretch fl s r i j"
proof (induction r arbitrary: i j)
  case (RSeq a b)
  have "stretch fl s a i k \<Longrightarrow> k \<le> length s" for k
    using forwardD [OF forward_stretch] RSeq.prems by blast
  with RSeq show ?case by auto
next
  case (RRep r lo hi greedy)
  have f: "forward (length s) (stretch fl s r)" by (rule forward_stretch)
  have "j \<in> set (rep_ends (ends fl s r) (lo + length s + 1) lo hi greedy i)"
    if "lo \<le> n" "\<forall>h. hi = Some h \<longrightarrow> n \<le> h" "(stretch fl s r ^^ n) i j" for n
    by (rule rep_ends_complete [OF f _ RRep.prems _ that]) (simp_all add: RRep)
  with rep_ends_sound [OF f _ RRep.prems, of "ends fl s r"] RRep.IH show ?case
    unfolding ends.simps stretch.simps by blast
qed (auto simp: one_char_def guard_pos_def)

lemma find_match_iff:
  "i + k = Suc (length s) \<Longrightarrow>
   find_match fl s r False k i = None \<longleftrightarrow> (\<forall>a b. i \<le> a \<longrightarrow> a \<le> length s \<longrightarrow> \<not> stretch fl s r a b)"
proof (induction k arbitrary: i)
  case (Suc k)
  have "ends fl s r i = [] \<longleftrightarrow> (\<forall>b. \<not> stretch fl s r i b)"
    using ends_iff_stretch [of i s _ fl r] Suc.prems by (cases "ends fl s r i") (auto simp del: ends.simps stretch.simps)
  moreover have "(\<forall>a b. i \<le> a \<longrightarrow> a \<le> length s \<longrightarrow> \<not> stretch fl s r a b) \<longleftrightarrow>
      (\<forall>b. \<not> stretch fl s r i b) \<and> (\<forall>a b. Suc i \<le> a \<longrightarrow> a \<le> length s \<longrightarrow> \<not> stretch fl s r a b)"
    if "i \<le> length s"
    using that by (metis Suc_leD Suc_leI le_neq_implies_less order_refl)
  moreover have "find_match fl s r False (Suc k) i = None \<longleftrightarrow> ends fl s r i = [] \<and> find_match fl s r False k (Suc i) = None"
    by (simp split: list.splits)
  ultimately show ?case
    using Suc.IH [of "Suc i"] Suc.prems by (simp del: find_match.simps)
qed auto

text \<open>\<open>re.search\<close> reports a match exactly when the pattern matches some stretch of the text.\<close>

theorem re_search_None_iff:
  "re_compile fl pat = Inr (fl', r) \<Longrightarrow>
   re_search fl pat s = Inr None \<longleftrightarrow> (\<forall>a b. a \<le> length s \<longrightarrow> \<not> stretch fl' s r a b)"
  using find_match_iff [of 0 "Suc (length s)" s fl' r] by (simp add: re_search_def search_from_def)

end
