(* ===== verification/DataFilter.thy ===== *)
theory DataFilter
  imports Regex Catalog
begin

text \<open>
  \<open>data_filter.py\<close> and \<open>filter_db.py\<close>: masking of messages and text by the active patterns, and
  the table of patterns with its built-in rows.  The functions take the regular expression
  functions as a record; \<open>python_re\<close> is the one of theory \<open>Regex\<close>.
\<close>


section \<open>The regular expression functions\<close>

record re_lib =
  rl_valid :: "re_flags \<Rightarrow> string \<Rightarrow> unit res"   \<comment> \<open>\<open>re.compile\<close>\<close>
  rl_search :: "re_flags \<Rightarrow> string \<Rightarrow> string \<Rightarrow> string option res"
  rl_match :: "re_flags \<Rightarrow> string \<Rightarrow> string \<Rightarrow> string option res"
  rl_subn :: "re_flags \<Rightarrow> string \<Rightarrow> string \<Rightarrow> string \<Rightarrow> (string \<times> nat) res"
  rl_findall :: "re_flags \<Rightarrow> string \<Rightarrow> string \<Rightarrow> string list res"

definition python_re :: re_lib where
  "python_re = \<lparr>rl_valid = (\<lambda>fl p. rbind (re_compile fl p) (\<lambda>_. Inr ())), rl_search = re_search, rl_match = re_match,
     rl_subn = re_subn, rl_findall = re_findall\<rparr>"

text \<open>What the clients rely on: no substitution without a match, and none changes nothing.\<close>

locale regex_engine =
  fixes re :: re_lib
  assumes subn_search: "rl_subn re fl p repl s = Inr (s', n) \<Longrightarrow>
      \<exists>x. rl_search re fl p s = Inr x \<and> (n = 0 \<longleftrightarrow> x = None)"
    and subn_none: "rl_subn re fl p repl s = Inr (s', 0) \<Longrightarrow> s' = s"
    and findall_search: "rl_findall re fl p s = (case rl_search re fl p s of Inl e \<Rightarrow> Inl e | Inr x \<Rightarrow> rl_findall re fl p s)"
    and findall_Inr: "rl_search re fl p s = Inr x \<Longrightarrow> \<exists>ms. rl_findall re fl p s = Inr ms \<and> (ms = [] \<longleftrightarrow> x = None)"

interpretation python: regex_engine python_re
proof unfold_locales
  fix fl p repl s s' n
  assume "rl_subn python_re fl p repl s = Inr (s', n)"
  then obtain fl' r where c: "re_compile fl p = Inr (fl', r)" "n = length (rx_matches fl' s r)"
    by (auto simp: python_re_def re_subn_def unsupported_def rbind_Inr_iff Let_def split: if_splits)
  then show "\<exists>x. rl_search python_re fl p s = Inr x \<and> (n = 0 \<longleftrightarrow> x = None)"
    by (auto simp: python_re_def re_search_def rx_matches_def numeral_2_eq_2 split: option.splits)
next
  fix fl p repl s s'
  assume "rl_subn python_re fl p repl s = Inr (s', 0)"
  then show "s' = s"
    by (auto simp: python_re_def re_subn_def unsupported_def rbind_Inr_iff Let_def split: if_splits)
next
  fix fl p s
  show "rl_findall python_re fl p s = (case rl_search python_re fl p s of Inl e \<Rightarrow> Inl e | Inr x \<Rightarrow> rl_findall python_re fl p s)"
    by (auto simp: python_re_def re_search_def re_findall_def rbind_def split: sum.splits)
next
  fix fl p s x
  assume "rl_search python_re fl p s = Inr x"
  then show "\<exists>ms. rl_findall python_re fl p s = Inr ms \<and> (ms = [] \<longleftrightarrow> x = None)"
    by (cases "re_compile fl p")
      (auto simp: python_re_def re_search_def re_findall_def rx_matches_def numeral_2_eq_2 split: option.splits)
qed


section \<open>Patterns\<close>

text \<open>A backquote in a pattern below stands for a backslash.\<close>

definition rxp :: "string \<Rightarrow> string" where
  "rxp s = map (\<lambda>c. if c = CHR 0x60 then CHR 0x5C else c) s"

definition builtin_patterns :: "(string \<times> string \<times> string) list" where
  \<open>builtin_patterns =
     [(''Password (key=value)'', rxp ''(?i)(password|passwd|pwd)`s*[:=]`s*`S+'', ''[PASSWORD]''),
      (''Password (quoted)'', rxp ''(?i)(password|passwd|pwd)`s*[:=]`s*["`'][^"`']+["`']'', ''[PASSWORD]''),
      (''Bearer Token'', rxp ''Bearer`s+[A-Za-z0-9`-._~+/]+=*'', ''Bearer [TOKEN]''),
      (''Anthropic API Key'', rxp ''sk-ant-[a-zA-Z0-9`-]{20,}'', ''[ANTHROPIC_KEY]''),
      (''OpenAI API Key'', ''sk-[a-zA-Z0-9]{20,}'', ''[OPENAI_KEY]''),
      (''AWS Access Key'', ''AKIA[0-9A-Z]{16}'', ''[AWS_KEY]''),
      (''AWS Secret Key'', rxp ''(?i)aws_secret_access_key`s*[:=]`s*`S+'', ''[AWS_SECRET]''),
      (''GitHub Token'', ''gh[pousr]_[A-Za-z0-9_]{36,}'', ''[GITHUB_TOKEN]''),
      (''Slack Token'', rxp ''xox[baprs]-[A-Za-z0-9`-]+'', ''[SLACK_TOKEN]''),
      (''Generic API Key Header'', rxp ''(?i)(api[_-]?key|apikey|x-api-key)`s*[:=]`s*`S+'', ''[API_KEY]''),
      (''JWT Token'', rxp ''eyJ[A-Za-z0-9`-_]+`.eyJ[A-Za-z0-9`-_]+`.[A-Za-z0-9`-_.+/=]+'', ''[JWT]''),
      (''Credit Card (Visa/MC/Amex)'', rxp ''`b(?:4[0-9]{12}(?:[0-9]{3})?|5[1-5][0-9]{14}|3[47][0-9]{13})`b'', ''[CREDIT_CARD]''),
      (''SSN (US)'', rxp ''`b`d{3}-`d{2}-`d{4}`b'', ''[SSN]''),
      (''Private Key Block'', rxp ''-----BEGIN`s+(RSA`s+)?PRIVATE KEY-----[`s`S]*?-----END`s+(RSA`s+)?PRIVATE KEY-----'', ''[PRIVATE_KEY]''),
      (''Connection String'', rxp ''(?i)(mongodb|postgresql|mysql|redis|amqp)://[^`s`"']+'', ''[CONNECTION_STRING]''),
      (''Email Address'', rxp ''`b[A-Za-z0-9._%+-]+@[A-Za-z0-9.-]+`.[A-Za-z]{2,}`b'', ''[EMAIL]''),
      (''IP Address (Private)'', rxp ''`b(?:10`.`d{1,3}`.`d{1,3}`.`d{1,3}|172`.(?:1[6-9]|2`d|3[01])`.`d{1,3}`.`d{1,3}|192`.168`.`d{1,3}`.`d{1,3})`b'', ''[PRIVATE_IP]''),
      (''Google API Key'', rxp ''AIza[0-9A-Za-z`-_]{35}'', ''[GOOGLE_KEY]''),
      (''Heroku API Key'', ''(?i)heroku.*[0-9a-f]{8}-[0-9a-f]{4}-[0-9a-f]{4}-[0-9a-f]{4}-[0-9a-f]{12}'', ''[HEROKU_KEY]''),
      (''Generic Secret'', rxp ''(?i)(secret|token|auth)`s*[:=]`s*["`']?[A-Za-z0-9`-._]{16,}["`']?'', ''[SECRET]'')]\<close>

definition new_pattern :: "string \<Rightarrow> time \<Rightarrow> string \<Rightarrow> string \<Rightarrow> string \<Rightarrow> string \<Rightarrow> bool \<Rightarrow> filter_pattern_row" where
  "new_pattern uid now name pattern replacement flags builtin =
     \<lparr>fp_id = uid, fp_name = name, fp_pattern = pattern, fp_replacement = replacement, fp_flags = flags,
      fp_is_active = True, fp_is_builtin = builtin, fp_created_at = now\<rparr>"

fun seed_patterns :: "(nat \<Rightarrow> string) \<Rightarrow> time \<Rightarrow> (string \<times> string \<times> string) list \<Rightarrow> nat \<Rightarrow> database \<Rightarrow> nat \<times> database" where
  "seed_patterns uid now [] n db = (n, db)"
| "seed_patterns uid now ((name, pattern, replacement) # ps) n db =
     (if list_ex (\<lambda>r. fp_name r = name) (t_filter_patterns db) then seed_patterns uid now ps n db
      else seed_patterns uid now ps (Suc n)
             (db\<lparr>t_filter_patterns := t_filter_patterns db @
                  [new_pattern (uid n) now name pattern replacement ''IGNORECASE'' True]\<rparr>))"

definition seed_builtin_patterns :: "(nat \<Rightarrow> string) \<Rightarrow> time \<Rightarrow> database \<Rightarrow> nat \<times> database" where
  "seed_builtin_patterns uid now db = seed_patterns uid now builtin_patterns 0 db"

definition get_all_patterns :: "database \<Rightarrow> filter_pattern_row list" where
  "get_all_patterns db = order_by (\<lambda>r r'. str_le (fp_name r) (fp_name r')) (t_filter_patterns db)"

definition get_pattern_by_id :: "string \<Rightarrow> database \<Rightarrow> filter_pattern_row option" where
  "get_pattern_by_id i db = find (\<lambda>r. fp_id r = i) (t_filter_patterns db)"

definition create_pattern :: "string \<Rightarrow> time \<Rightarrow> string \<Rightarrow> string \<Rightarrow> string \<Rightarrow> string \<Rightarrow> database
    \<Rightarrow> filter_pattern_row \<times> database" where
  "create_pattern uid now name pattern replacement flags db =
     (let r = new_pattern uid now name pattern replacement flags False
      in (r, db\<lparr>t_filter_patterns := t_filter_patterns db @ [r]\<rparr>))"

definition toggle_pattern :: "string \<Rightarrow> bool \<Rightarrow> database \<Rightarrow> bool \<times> database" where
  "toggle_pattern i active db =
     (if list_ex (\<lambda>r. fp_id r = i) (t_filter_patterns db)
      then (True, db\<lparr>t_filter_patterns :=
              update_first (\<lambda>r. fp_id r = i) (\<lambda>r. r\<lparr>fp_is_active := active\<rparr>) (t_filter_patterns db)\<rparr>)
      else (False, db))"

definition delete_pattern :: "string \<Rightarrow> database \<Rightarrow> bool \<times> database" where
  "delete_pattern i db =
     (case find (\<lambda>r. fp_id r = i) (t_filter_patterns db) of
        None \<Rightarrow> (False, db)
      | Some r \<Rightarrow>
          if fp_is_builtin r then (False, db)
          else (True, db\<lparr>t_filter_patterns := delete_first (\<lambda>r. fp_id r = i) (t_filter_patterns db)\<rparr>))"


section \<open>Masking\<close>

text \<open>The cache holds the active patterns; its entries are rows of \<open>get_all_patterns\<close>.\<close>

definition reload_patterns :: "filter_pattern_row list \<Rightarrow> filter_pattern_row list" where
  "reload_patterns ps = filter fp_is_active ps"

definition compile_flags :: "string \<Rightarrow> re_flags" where
  "compile_flags flags_str =
     (let fs = map str_strip (split_on CHR ''|'' (str_upper flags_str))
      in \<lparr>fl_ignorecase = (''IGNORECASE'' \<in> set fs), fl_multiline = (''MULTILINE'' \<in> set fs),
          fl_dotall = (''DOTALL'' \<in> set fs)\<rparr>)"

text \<open>
  An invalid pattern is reported with \<open>log.warning(..., extra={"name": ...})\<close>.  The standard
  library's \<open>Logger.makeRecord\<close> refuses an extra field called \<open>name\<close> with \<^const>\<open>KeyError\<close>,
  so with warnings enabled (\<open>warn\<close>, every level but \<open>ERROR\<close> and \<open>CRITICAL\<close>) the report raises;
  with warnings disabled the pattern is skipped.
\<close>

fun apply_patterns :: "re_lib \<Rightarrow> bool \<Rightarrow> filter_pattern_row list \<Rightarrow> string \<Rightarrow> (string \<times> nat) res" where
  "apply_patterns re warn [] text = Inr (text, 0)"
| "apply_patterns re warn (p # ps) text =
     (case rl_subn re (compile_flags (fp_flags p)) (fp_pattern p) (fp_replacement p) text of
        Inl e \<Rightarrow> if e = ReError then (if warn then Inl KeyError else apply_patterns re warn ps text) else Inl e
      | Inr (new_text, count) \<Rightarrow>
          rbind (apply_patterns re warn ps (if count > 0 then new_text else text)) (\<lambda>(t, n). Inr (t, count + n)))"

text \<open>A value that is no string: \<open>subn\<close> of a valid pattern raises \<^const>\<open>TypeError\<close>.\<close>

fun apply_patterns_other :: "re_lib \<Rightarrow> bool \<Rightarrow> filter_pattern_row list \<Rightarrow> unit res" where
  "apply_patterns_other re warn [] = Inr ()"
| "apply_patterns_other re warn (p # ps) =
     (if rl_valid re (compile_flags (fp_flags p)) (fp_pattern p) = Inl ReError
      then (if warn then Inl KeyError else apply_patterns_other re warn ps)
      else Inl TypeError)"

definition apply_patterns_part :: "re_lib \<Rightarrow> bool \<Rightarrow> filter_pattern_row list \<Rightarrow> json \<Rightarrow> (json \<times> nat) res" where
  "apply_patterns_part re warn ps v =
     (case v of
        JStr s \<Rightarrow> rbind (apply_patterns re warn ps s) (\<lambda>(t, n). Inr (JStr t, n))
      | _ \<Rightarrow> rbind (apply_patterns_other re warn ps) (\<lambda>_. Inr (v, 0)))"

fun sanitize_parts :: "re_lib \<Rightarrow> bool \<Rightarrow> filter_pattern_row list \<Rightarrow> json list \<Rightarrow> (json list \<times> nat) res" where
  "sanitize_parts re warn ps [] = Inr ([], 0)"
| "sanitize_parts re warn ps (part # parts) =
     rbind (case part of
              JObj d \<Rightarrow>
                (case map_of d ''text'' of
                   Some t \<Rightarrow> rbind (apply_patterns_part re warn ps t) (\<lambda>(t', n). Inr (JObj (dict_set ''text'' t' d), n))
                 | None \<Rightarrow> Inr (part, 0))
            | _ \<Rightarrow> Inr (part, 0))
       (\<lambda>(part', n). rbind (sanitize_parts re warn ps parts) (\<lambda>(parts', m). Inr (part' # parts', n + m)))"

definition sanitize_message :: "re_lib \<Rightarrow> bool \<Rightarrow> filter_pattern_row list \<Rightarrow> jdict \<Rightarrow> (jdict \<times> nat) res" where
  "sanitize_message re warn ps msg =
     (case jget_or (JStr []) ''content'' msg of
        JStr s \<Rightarrow>
          if s \<noteq> [] then rbind (apply_patterns re warn ps s) (\<lambda>(t, n). Inr (dict_set ''content'' (JStr t) msg, n))
          else Inr (msg, 0)
      | JList parts \<Rightarrow> rbind (sanitize_parts re warn ps parts) (\<lambda>(parts', n). Inr (dict_set ''content'' (JList parts') msg, n))
      | _ \<Rightarrow> Inr (msg, 0))"

fun sanitize_messages :: "re_lib \<Rightarrow> bool \<Rightarrow> filter_pattern_row list \<Rightarrow> jdict list \<Rightarrow> (jdict list \<times> nat) res" where
  "sanitize_messages re warn ps [] = Inr ([], 0)"
| "sanitize_messages re warn ps (m # ms) =
     rbind (sanitize_message re warn ps m) (\<lambda>(m', n).
     rbind (sanitize_messages re warn ps ms) (\<lambda>(ms', k). Inr (m' # ms', n + k)))"

fun sanitize_ssh_output :: "re_lib \<Rightarrow> filter_pattern_row list \<Rightarrow> string \<Rightarrow> (string \<times> string list) res" where
  "sanitize_ssh_output re [] text = Inr (text, [])"
| "sanitize_ssh_output re (p # ps) text =
     (let fl = compile_flags (fp_flags p) in
      case rl_search re fl (fp_pattern p) text of
        Inl ReError \<Rightarrow> sanitize_ssh_output re ps text
      | Inl e \<Rightarrow> Inl e
      | Inr m \<Rightarrow>
          (let named = (if m \<noteq> None then [fp_name p] else []) in
           case rl_subn re fl (fp_pattern p) (fp_replacement p) text of
             Inl ReError \<Rightarrow> rbind (sanitize_ssh_output re ps text) (\<lambda>(t, ns). Inr (t, named @ ns))
           | Inl e \<Rightarrow> Inl e
           | Inr (t, _) \<Rightarrow> rbind (sanitize_ssh_output re ps t) (\<lambda>(t', ns). Inr (t', named @ ns))))"

record filter_test =
  ft_original :: string
  ft_filtered :: string
  ft_masked_count :: nat
  ft_matches :: "(string \<times> string) list"

fun matching_patterns :: "re_lib \<Rightarrow> filter_pattern_row list \<Rightarrow> string \<Rightarrow> (string \<times> string) list res" where
  "matching_patterns re [] text = Inr []"
| "matching_patterns re (p # ps) text =
     (case rl_search re (compile_flags (fp_flags p)) (fp_pattern p) text of
        Inl ReError \<Rightarrow> matching_patterns re ps text
      | Inl e \<Rightarrow> Inl e
      | Inr None \<Rightarrow> matching_patterns re ps text
      | Inr (Some _) \<Rightarrow> rbind (matching_patterns re ps text) (\<lambda>ms. Inr ((fp_name p, fp_pattern p) # ms)))"

definition test_text :: "re_lib \<Rightarrow> bool \<Rightarrow> filter_pattern_row list \<Rightarrow> string \<Rightarrow> filter_test res" where
  "test_text re warn ps text =
     rbind (matching_patterns re ps text) (\<lambda>ms.
     rbind (apply_patterns re warn ps text) (\<lambda>(t, n).
     Inr \<lparr>ft_original = text, ft_filtered = t, ft_masked_count = n, ft_matches = ms\<rparr>))"


section \<open>Properties\<close>

lemma dict_set_same: "map_of d k = Some v \<Longrightarrow> dict_set k v d = d"
  by (induction d) (auto split: if_splits)

context regex_engine
begin

text \<open>A tx is changed only by a pattern that matches it.\<close>

lemma apply_patterns_unchanged:
  "apply_patterns re warn qs tx = Inr (t, n) \<Longrightarrow> n = 0 \<Longrightarrow> t = tx"
  by (induction qs arbitrary: tx t n) (auto simp: rbind_Inr_iff split: sum.splits prod.splits if_splits)

text \<open>Nothing is masked exactly when no pattern that can be applied matches.\<close>

lemma apply_patterns_zero:
  "apply_patterns re warn qs tx = Inr (t, n) \<Longrightarrow>
   n = 0 \<longleftrightarrow> (\<forall>p \<in> set qs. \<forall>m. rl_search re (compile_flags (fp_flags p)) (fp_pattern p) tx = Inr m \<longrightarrow>
     rl_subn re (compile_flags (fp_flags p)) (fp_pattern p) (fp_replacement p) tx = Inl ReError \<or> m = None)"
proof (induction qs arbitrary: t n tx)
  case (Cons p qs)
  let ?r = "rl_subn re (compile_flags (fp_flags p)) (fp_pattern p) (fp_replacement p) tx"
  show ?case
  proof (cases ?r)
    case (Inl e)
    with Cons.prems have "e = ReError" "apply_patterns re warn qs tx = Inr (t, n)"
      by (auto split: if_splits)
    with Cons.IH [of tx t n] Inl show ?thesis by auto
  next
    case (Inr q)
    obtain s' k where q: "q = (s', k)" by fastforce
    obtain x where x: "rl_search re (compile_flags (fp_flags p)) (fp_pattern p) tx = Inr x" "k = 0 \<longleftrightarrow> x = None"
      using subn_search Inr q by blast
    obtain n' where n': "apply_patterns re warn qs (if k > 0 then s' else tx) = Inr (t, n')" "n = k + n'"
      using Cons.prems Inr q by (auto simp: rbind_Inr_iff)
    show ?thesis
    proof (cases "k = 0")
      case True
      with n' have "apply_patterns re warn qs tx = Inr (t, n)" by simp
      with Cons.IH [of tx t n] x True show ?thesis by auto
    next
      case False
      with n' x Inr q show ?thesis by auto
    qed
  qed
qed simp

end

lemma sanitize_message_keys:
  "sanitize_message python_re warn ps m = Inr (m', a) \<Longrightarrow> k \<noteq> ''content'' \<Longrightarrow> map_of m' k = map_of m k"
  by (auto simp: sanitize_message_def rbind_Inr_iff split: json.splits if_splits)

lemma sanitize_message_str:
  "map_of m ''content'' = Some (JStr t) \<Longrightarrow> t \<noteq> [] \<Longrightarrow>
   sanitize_message re warn ps m = rbind (apply_patterns re warn ps t) (\<lambda>(u, n). Inr (dict_set ''content'' (JStr u) m, n))"
  by (simp add: sanitize_message_def jget_or_def dict_get_def)

lemma is_str_content: "is_str (jget k m) \<Longrightarrow> \<exists>t. map_of m k = Some (JStr t)"
  by (cases "jget k m") (auto simp: jget_def dict_get_def split: option.splits)

lemma sanitize_message_zero:
  assumes "sanitize_message python_re warn ps m = Inr (m', 0)" and "is_str (jget ''content'' m)"
  shows "m' = m"
proof -
  obtain t where t: "map_of m ''content'' = Some (JStr t)" using is_str_content [OF assms(2)] by blast
  show ?thesis
  proof (cases "t = []")
    case True
    with assms(1) t show ?thesis by (simp add: sanitize_message_def jget_or_def dict_get_def)
  next
    case False
    with assms(1) t obtain u where "apply_patterns python_re warn ps t = Inr (u, 0)" "m' = dict_set ''content'' (JStr u) m"
      by (auto simp: sanitize_message_str rbind_Inr_iff)
    with python.apply_patterns_unchanged [of warn ps t u 0] t show ?thesis by (simp add: dict_set_same)
  qed
qed

text \<open>Masking keeps the conversation's shape: as many messages and every key but the content
  untouched; when nothing was masked, conversations of string contents come back unchanged.\<close>

theorem masking_keeps_shape:
  assumes "sanitize_messages python_re warn ps msgs = Inr (msgs', n)"
  shows "length msgs' = length msgs \<and>
     list_all2 (\<lambda>m m'. \<forall>k. k \<noteq> ''content'' \<longrightarrow> map_of m' k = map_of m k) msgs msgs' \<and>
     (list_all (\<lambda>m. is_str (jget ''content'' m)) msgs \<longrightarrow> n = 0 \<longrightarrow> msgs' = msgs)"
  using assms
proof (induction msgs arbitrary: msgs' n)
  case (Cons m ms)
  then obtain m' a ms' b where s: "sanitize_message python_re warn ps m = Inr (m', a)"
      "sanitize_messages python_re warn ps ms = Inr (ms', b)" "msgs' = m' # ms'" "n = a + b"
    by (auto simp: rbind_Inr_iff)
  have "m' = m" if "is_str (jget ''content'' m)" "a = 0"
    using sanitize_message_zero [of warn ps m m'] s(1) that by simp
  with Cons.IH [OF s(2)] sanitize_message_keys [OF s(1)] show ?case unfolding s(3,4) by simp
qed simp

text \<open>A tx is reported as clean exactly when no valid active pattern matches it, and a
  clean tx is returned as it came.\<close>

theorem clean_iff_no_match:
  assumes "apply_patterns python_re warn ps tx = Inr (t, n)"
    and "\<forall>p \<in> set ps. CHR 0x5C \<notin> set (fp_replacement p)"
  shows "(n = 0 \<longleftrightarrow> (\<forall>p \<in> set ps. \<forall>m. re_search (compile_flags (fp_flags p)) (fp_pattern p) tx \<noteq> Inr (Some m))) \<and>
     (n = 0 \<longrightarrow> t = tx)"
proof -
  have "re_subn fl p r tx \<noteq> Inl ReError" if "re_search fl p tx = Inr m" "CHR 0x5C \<notin> set r" for fl p r m
    using that by (auto simp: re_search_def re_subn_def rbind_Inr_iff Let_def)
  with assms(2) show ?thesis
    using python.apply_patterns_zero [OF assms(1)] python.apply_patterns_unchanged [OF assms(1)]
    by (simp add: python_re_def) (metis not_None_eq option.distinct(1))
qed


lemma invalid_pattern_raises:
  "p \<in> set ps \<Longrightarrow> re_compile (compile_flags (fp_flags p)) (fp_pattern p) = Inl ReError \<Longrightarrow>
   \<exists>e. apply_patterns python_re True ps tx = Inl e"
proof (induction ps arbitrary: tx)
  case (Cons q ps)
  show ?case
  proof (cases "q = p")
    case True
    with Cons.prems show ?thesis by (auto simp: python_re_def re_subn_def unsupported_def)
  next
    case False
    with Cons have "\<exists>e. apply_patterns python_re True ps u = Inl e" for u by auto
    then obtain e where e: "\<And>u. apply_patterns python_re True ps u = Inl (e u)" by metis
    show ?thesis by (cases "rl_subn python_re (compile_flags (fp_flags q)) (fp_pattern q) (fp_replacement q) tx")
      (auto simp: e split: prod.splits)
  qed
qed simp

lemma invalid_pattern_skipped:
  assumes "re_compile (compile_flags (fp_flags p)) (fp_pattern p) = Inl ReError" "CHR 0x5C \<notin> set (fp_replacement p)"
  shows "apply_patterns python_re False ps tx = apply_patterns python_re False (removeAll p ps) tx"
proof (induction ps arbitrary: tx)
  case (Cons q ps)
  have "apply_patterns python_re False (p # ps) tx = apply_patterns python_re False ps tx"
    using assms by (simp add: python_re_def re_subn_def)
  then show ?case by (cases "p = q") (simp_all add: Cons cong: sum.case_cong prod.case_cong if_cong)
qed simp

lemma sanitize_messages_raises:
  "m \<in> set msgs \<Longrightarrow> sanitize_message re warn ps m = Inl e \<Longrightarrow> \<exists>e'. sanitize_messages re warn ps msgs = Inl e'"
proof (induction msgs)
  case (Cons x xs)
  then show ?case by (cases "sanitize_message re warn ps x") auto
qed simp

text \<open>One active pattern with invalid syntax makes masking of every conversation with a text
  message raise while warnings are logged (the report's field \<open>name\<close> is refused by the logging
  module); with warnings off it is as if the pattern were not there.\<close>

theorem invalid_pattern_effect:
  assumes "p \<in> set ps" and "re_compile (compile_flags (fp_flags p)) (fp_pattern p) = Inl ReError"
    and "CHR 0x5C \<notin> set (fp_replacement p)"
    and "m \<in> set msgs" and "map_of m ''content'' = Some (JStr tx)" and "tx \<noteq> []"
  shows "(\<exists>e. sanitize_messages python_re True ps msgs = Inl e) \<and>
     apply_patterns python_re False ps tx = apply_patterns python_re False (removeAll p ps) tx"
proof -
  obtain e where "apply_patterns python_re True ps tx = Inl e"
    using invalid_pattern_raises [OF assms(1,2)] by blast
  with sanitize_message_str [OF assms(5,6), of python_re True ps] have "sanitize_message python_re True ps m = Inl e"
    by simp
  with sanitize_messages_raises [OF assms(4)] invalid_pattern_skipped [OF assms(2,3)] show ?thesis by blast
qed


section \<open>Seeding\<close>

lemma seed_patterns_names:
  "seed_patterns uid now ps n db = (k, db') \<Longrightarrow>
   set (t_filter_patterns db) \<subseteq> set (t_filter_patterns db') \<and>
   (\<forall>p \<in> set ps. \<exists>r \<in> set (t_filter_patterns db'). fp_name r = fst p)"
proof (induction uid now ps n db rule: seed_patterns.induct)
  case (2 uid now name pattern replacement ps n db)
  show ?case
  proof (cases "list_ex (\<lambda>r. fp_name r = name) (t_filter_patterns db)")
    case True
    with 2 show ?thesis by (force simp: list_ex_iff)
  next
    case False
    let ?r = "new_pattern (uid n) now name pattern replacement ''IGNORECASE'' True"
    have "set (t_filter_patterns db @ [?r]) \<subseteq> set (t_filter_patterns db')"
        "\<forall>p \<in> set ps. \<exists>r \<in> set (t_filter_patterns db'). fp_name r = fst p"
      using 2 False by simp_all
    moreover have "fp_name ?r = name" by (simp add: new_pattern_def)
    ultimately show ?thesis by force
  qed
qed simp

lemma seed_patterns_present:
  "\<forall>p \<in> set ps. \<exists>r \<in> set (t_filter_patterns db). fp_name r = fst p \<Longrightarrow> seed_patterns uid now ps n db = (n, db)"
  by (induction uid now ps n db rule: seed_patterns.induct) (auto simp: list_ex_iff)

text \<open>Seeding again inserts nothing: the second start finds every built-in pattern, also after the
  administrator has switched some of them off.\<close>

theorem seeding_idempotent:
  assumes "seed_builtin_patterns uid now db = (k, db1)" and "toggle_pattern i active db1 = (b, db2)"
  shows "seed_builtin_patterns uid' now' db2 = (0, db2)"
proof -
  have "map fp_name (t_filter_patterns db2) = map fp_name (t_filter_patterns db1)"
    using assms(2) by (auto simp: toggle_pattern_def map_update_first_same split: if_splits simp del: map_eq_conv)
  then have names: "set (map fp_name (t_filter_patterns db2)) = set (map fp_name (t_filter_patterns db1))" by metis
  have "\<forall>p \<in> set builtin_patterns. fst p \<in> set (map fp_name (t_filter_patterns db2))"
    using seed_patterns_names [OF assms(1) [unfolded seed_builtin_patterns_def]] unfolding names by force
  then show ?thesis
    unfolding seed_builtin_patterns_def by (intro seed_patterns_present) force
qed


section \<open>Witnesses\<close>

definition pin_row :: filter_pattern_row where
  "pin_row = new_pattern ''p1'' 0 ''PIN'' ''[0-9]{2}'' ''[PIN]'' ''DOTALL'' False"

definition broken_row :: filter_pattern_row where
  "broken_row = new_pattern ''p2'' 0 ''broken'' ''('' ''x'' ''DOTALL'' False"

lemma masking_keeps_shape_witness:
  "let msgs = [[(''role'', JStr ''user''), (''content'', JStr ''id 42'')]]
   in sanitize_messages python_re True [pin_row] msgs = Inr ([[(''role'', JStr ''user''), (''content'', JStr ''id [PIN]'')]], 1) \<and>
      length msgs = 1"
proof -
  let ?m = "[[(''role'', JStr ''user''), (''content'', JStr ''id 42'')]]"
  have e: "sanitize_messages python_re True [pin_row] ?m = Inr ([[(''role'', JStr ''user''), (''content'', JStr ''id [PIN]'')]], 1)"
    by code_simp
  from masking_keeps_shape [OF e] e show ?thesis by (simp add: Let_def)
qed

lemma clean_iff_no_match_witness:
  "re_search (compile_flags (fp_flags pin_row)) (fp_pattern pin_row) ''a1'' = Inr None"
proof -
  have e: "apply_patterns python_re True [pin_row] ''a1'' = Inr (''a1'', 0)" by code_simp
  have r: "\<forall>p \<in> set [pin_row]. CHR 0x5C \<notin> set (fp_replacement p)" by code_simp
  obtain x where "re_search (compile_flags (fp_flags pin_row)) (fp_pattern pin_row) ''a1'' = Inr x"
  proof
    show "re_search (compile_flags (fp_flags pin_row)) (fp_pattern pin_row) ''a1'' = Inr None" by code_simp
  qed
  with clean_iff_no_match [OF e r] show ?thesis by (cases x) auto
qed

lemma invalid_pattern_effect_witness:
  "\<exists>e. sanitize_messages python_re True [pin_row, broken_row] [[(''role'', JStr ''user''), (''content'', JStr ''hello'')]] = Inl e"
proof -
  have e: "re_compile (compile_flags (fp_flags broken_row)) (fp_pattern broken_row) = Inl ReError" by code_simp
  show ?thesis
    using invalid_pattern_effect [OF _ e, of "[pin_row, broken_row]" "[(''role'', JStr ''user''), (''content'', JStr ''hello'')]"
        "[[(''role'', JStr ''user''), (''content'', JStr ''hello'')]]" "''hello''"]
    by (simp add: broken_row_def new_pattern_def)
qed

lemma seeding_idempotent_witness:
  "seed_builtin_patterns show_nat 5 (snd (toggle_pattern ''0'' False (snd (seed_builtin_patterns show_nat 1 empty_db)))) =
   (0, snd (toggle_pattern ''0'' False (snd (seed_builtin_patterns show_nat 1 empty_db))))"
  by (rule seeding_idempotent [OF prod.collapse [symmetric] prod.collapse [symmetric]])

end
