(* ===== verification/Threats.thy ===== *)
theory Threats
  imports DataFilter
begin

text \<open>
  The detectors of \<open>guardrails.py\<close>: the built-in pattern lists and the three checks that run
  over them.
\<close>


section \<open>Built-in patterns\<close>

text \<open>A backquote stands for a backslash.\<close>

definition prompt_injection_patterns :: "(string \<times> string) list" where
  \<open>prompt_injection_patterns =
     [(rxp ''(?i)ignore`s+(all`s+)?(previous|prior|above|earlier)`s+(instructions?|prompts?|rules?|directions?)'', ''instruction_override''),
      (rxp ''(?i)disregard`s+(all`s+)?(previous|prior|your)`s+(instructions?|prompts?|rules?|programming)'', ''instruction_override''),
      (rxp ''(?i)forget`s+(all`s+)?(previous|prior|your)`s+(instructions?|context|rules?)'', ''instruction_override''),
      (rxp ''(?i)override`s+(your|all|the)`s+(instructions?|rules?|programming|directives?)'', ''instruction_override''),
      (rxp ''(?i)do`s+not`s+follow`s+(your|the|any)`s+(previous|original|initial)`s+(instructions?|rules?)'', ''instruction_override''),
      (rxp ''(?i)you`s+are`s+now`s+(a|an|the)`s+'', ''role_hijack''),
      (rxp ''(?i)act`s+as`s+(if`s+you`s+are`s+|a`s+|an`s+)?(?:unrestricted|unfiltered|uncensored|evil|malicious)'', ''role_hijack''),
      (rxp ''(?i)pretend`s+(you`s+are|to`s+be)`s+(a|an)?`s*(?:unrestricted|different|new)`s*(AI|assistant|model)?'', ''role_hijack''),
      (rxp ''(?i)from`s+now`s+on`s+you`s+(will|must|should|are)'', ''role_hijack''),
      (rxp ''(?i)switch`s+to`s+(`w+`s+)?mode'', ''role_hijack''),
      (rxp ''(?i)enter`s+(developer|debug|admin|god|sudo|root|unrestricted)`s+mode'', ''role_hijack''),
      (rxp ''(?i)(show|reveal|print|display|output|repeat|tell`s+me)`s+(your|the)`s+(system`s+)?(prompt|instructions?|rules?|programming|directives?)'', ''prompt_extraction''),
      (rxp ''(?i)what`s+(are|is)`s+your`s+(system`s+)?(prompt|instructions?|rules?|initial`s+prompt)'', ''prompt_extraction''),
      (rxp ''(?i)(give|share|leak|expose)`s+(me`s+)?(your|the)`s+(system|original|initial)`s+(prompt|instructions?)'', ''prompt_extraction''),
      (rxp ''(?i)---+`s*(new|real|actual|true)`s+(instructions?|prompt|system)'', ''delimiter_attack''),
      (rxp ''(?i)<`|?(system|im_start|endoftext|INST)`|?>'', ''delimiter_attack''),
      (rxp ''(?i)`[INST`]|`[`/INST`]|`[SYSTEM`]'', ''delimiter_attack''),
      (rxp ''(?i)<<`s*SYS`s*>>|<<`s*/SYS`s*>>'', ''delimiter_attack''),
      (rxp ''(?i)AI,?`s+(please`s+)?(ignore|disregard|forget|override)'', ''indirect_injection''),
      (rxp ''(?i)attention`s+(AI|model|assistant|language`s+model)'', ''indirect_injection''),
      (rxp ''(?i)IMPORTANT:`s*(ignore|override|disregard|new`s+instructions?)'', ''indirect_injection'')]\<close>

definition jailbreak_patterns :: "(string \<times> string) list" where
  \<open>jailbreak_patterns =
     [(rxp ''(?i)`bDAN`b.*`b(prompt|mode|jailbreak|do`s+anything)'', ''dan_jailbreak''),
      (rxp ''(?i)`b(DAN|STAN|DUDE|AIM|KEVIN|MONGO)`s*(mode|prompt|version|[0-9])'', ''named_jailbreak''),
      (''(?i)jailbr[ea]+k(ed|ing)?'', ''jailbreak_mention''),
      (rxp ''(?i)do`s+anything`s+now'', ''dan_jailbreak''),
      (rxp ''(?i)(bypass|circumvent|evade|disable|turn`s+off|remove)`s+(your`s+)?(safety|content|ethical)`s*(filter|guard|check|restriction|limit)'', ''safety_bypass''),
      (rxp ''(?i)(bypass|circumvent|evade|ignore)`s+(your`s+)?(restrictions?|limitations?|guidelines?|guardrails?|policies)'', ''safety_bypass''),
      (rxp ''(?i)without`s+(any`s+)?(moral|ethical|safety|content)`s*(restrictions?|filters?|guidelines?|limitations?)'', ''safety_bypass''),
      (rxp ''(?i)(respond|answer|reply|write)`s+in`s+(base64|hex|binary|rot13|morse|pig`s*latin|reverse)'', ''encoding_bypass''),
      (rxp ''(?i)(encode|encrypt|obfuscate)`s+(your`s+)?(response|answer|output)'', ''encoding_bypass''),
      (rxp ''(?i)translate`s+(this|your`s+response)`s+(to|into)`s+(base64|hex|binary)'', ''encoding_bypass''),
      (rxp ''(?i)(hypothetically|theoretically|in`s+theory|for`s+(educational|research|academic)`s+purposes?)`s*,?`s*(how`s+(would|could|can|do)`s+(one|you|someone|I))'', ''hypothetical_bypass''),
      (rxp ''(?i)imagine`s+you`s+(are|have)`s+no`s+(restrictions?|rules?|filters?|limitations?)'', ''hypothetical_bypass''),
      (rxp ''(?i)in`s+a`s+fictional`s+(world|scenario|story)`s+where`s+(there`s+are`s+)?no`s+rules?'', ''hypothetical_bypass''),
      (rxp ''(?i)s`.p`.l`.i`.t|s`s+p`s+l`s+i`s+t|b`.o`.m`.b|h`.a`.c`.k'', ''token_manipulation'')]\<close>

definition data_leakage_patterns :: "(string \<times> string \<times> string) list" where
  \<open>data_leakage_patterns =
     [(rxp ''sk-ant-[a-zA-Z0-9`-]{20,}'', ''[LEAKED_ANTHROPIC_KEY]'', ''api_key''),
      (''sk-[a-zA-Z0-9]{20,}'', ''[LEAKED_OPENAI_KEY]'', ''api_key''),
      (''AKIA[0-9A-Z]{16}'', ''[LEAKED_AWS_KEY]'', ''api_key''),
      (''gh[pousr]_[A-Za-z0-9_]{36,}'', ''[LEAKED_GITHUB_TOKEN]'', ''api_key''),
      (rxp ''xox[baprs]-[A-Za-z0-9`-]+'', ''[LEAKED_SLACK_TOKEN]'', ''api_key''),
      (rxp ''AIza[0-9A-Za-z`-_]{35}'', ''[LEAKED_GOOGLE_KEY]'', ''api_key''),
      (rxp ''(?i)(?:(?:/home/|/var/|/etc/|/opt/|C:````|D:````)[^`s`"'<>]{5,})'', ''[INTERNAL_PATH]'', ''internal_path''),
      (rxp ''(?i)(?:https?://(?:10`.|172`.(?:1[6-9]|2`d|3[01])`.|192`.168`.|localhost|127`.0`.0`.1)[^`s`"'<>]*)'', ''[INTERNAL_URL]'', ''internal_url''),
      (rxp ''(?i)(?:mongodb|postgresql|mysql|redis|amqp)://[^`s`"'<>]+'', ''[LEAKED_CONNECTION_STRING]'', ''connection_string''),
      (rxp ''(?i)(?:password|passwd|pwd|secret|token)`s*[:=]`s*['`"][^'`"]{8,}['`"]'', ''[LEAKED_SECRET]'', ''secret''),
      (rxp ''-----BEGIN`s+(?:RSA`s+)?PRIVATE`s+KEY-----'', ''[LEAKED_PRIVATE_KEY]'', ''private_key''),
      (rxp ''`b(?:10`.`d{1,3}`.`d{1,3}`.`d{1,3}|172`.(?:1[6-9]|2`d|3[01])`.`d{1,3}`.`d{1,3}|192`.168`.`d{1,3}`.`d{1,3})`b'', ''[INTERNAL_IP]'', ''internal_ip'')]\<close>


section \<open>Bytes read as text\<close>

text \<open>
  \<open>decode("utf-8", errors="ignore")\<close>: bytes that are not part of a well-formed sequence are
  dropped.  A code point beyond 255 becomes the placeholder character 255.
\<close>

definition byte_in :: "int \<Rightarrow> int \<Rightarrow> char \<Rightarrow> bool" where
  "byte_in a b c \<longleftrightarrow> a \<le> code c \<and> code c \<le> b"

definition wide :: char where
  "wide = char_of (255 :: nat)"

definition utf8_step :: "string \<Rightarrow> string \<times> nat" where
  "utf8_step s =
     (case s of
        [] \<Rightarrow> ([], 1)
      | c # r \<Rightarrow>
          (let n = code c; cont = byte_in 128 191 in
           if n < 128 then ([c], 1)
           else if 194 \<le> n \<and> n \<le> 223 then
             (case r of d # _ \<Rightarrow> if cont d then ([if n \<le> 195 then char_of (64 * (n - 192) + (code d - 128)) else wide], 2) else ([], 1)
              | _ \<Rightarrow> ([], 1))
           else if 224 \<le> n \<and> n \<le> 239 then
             (case r of d # e # _ \<Rightarrow>
                  if byte_in (if n = 224 then 160 else 128) (if n = 237 then 159 else 191) d \<and> cont e then ([wide], 3) else ([], 1)
              | _ \<Rightarrow> ([], 1))
           else if 240 \<le> n \<and> n \<le> 244 then
             (case r of d # e # f # _ \<Rightarrow>
                  if byte_in (if n = 240 then 144 else 128) (if n = 244 then 143 else 191) d \<and> cont e \<and> cont f then ([wide], 4)
                  else ([], 1)
              | _ \<Rightarrow> ([], 1))
           else ([], 1)))"

text \<open>Every step consumes at least one byte, so the length of the input is enough fuel.\<close>

fun utf8_ignore :: "nat \<Rightarrow> string \<Rightarrow> string" where
  "utf8_ignore 0 s = []"
| "utf8_ignore (Suc f) s = (case s of [] \<Rightarrow> [] | _ \<Rightarrow> (let (out, n) = utf8_step s in out @ utf8_ignore f (drop n s)))"

definition decode_utf8_ignore :: "string \<Rightarrow> string" where
  "decode_utf8_ignore s = utf8_ignore (length s) s"


section \<open>Checks\<close>

record detection =
  det_category :: string
  det_matched :: string
  det_type :: string

text \<open>One list of patterns; the patterns that do not compile are skipped.\<close>

fun detect :: "re_lib \<Rightarrow> string \<Rightarrow> (string \<times> string) list \<Rightarrow> string \<Rightarrow> detection list res" where
  "detect re typ [] tx = Inr []"
| "detect re typ ((pattern, category) # ps) tx =
     (case rl_search re no_flags pattern tx of
        Inl e \<Rightarrow> if e = ReError then detect re typ ps tx else Inl e
      | Inr None \<Rightarrow> detect re typ ps tx
      | Inr (Some m) \<Rightarrow>
          rbind (detect re typ ps tx) (\<lambda>ds.
            Inr (\<lparr>det_category = category, det_matched = take 80 m, det_type = typ\<rparr> # ds)))"

definition check_prompt_injection :: "re_lib \<Rightarrow> string \<Rightarrow> detection list res" where
  "check_prompt_injection re tx = detect re ''prompt_injection'' prompt_injection_patterns tx"

definition base64_keywords :: "string list" where
  "base64_keywords = [''ignore'', ''override'', ''system'', ''instruction'', ''jailbreak'', ''bypass'']"

text \<open>A word that decodes to something suspicious; undecodable words are passed over.\<close>

definition base64_word :: "crypto \<Rightarrow> string \<Rightarrow> detection option" where
  "base64_word cr word =
     (case b64_decode cr word of
        Inl _ \<Rightarrow> None
      | Inr raw \<Rightarrow>
          if list_ex (\<lambda>kw. str_in kw (str_lower (decode_utf8_ignore raw))) base64_keywords
          then Some \<lparr>det_category = ''base64_encoded_injection'', det_matched = ''base64:'' @ take 30 word @ ''...'',
                     det_type = ''jailbreak''\<rparr>
          else None)"

text \<open>The loop over the words; an exception ends it and keeps what was found.\<close>

fun base64_words :: "re_lib \<Rightarrow> crypto \<Rightarrow> string list \<Rightarrow> detection list" where
  "base64_words re cr [] = []"
| "base64_words re cr (word # ws) =
     (if length word > 20
      then (case rl_match re no_flags ''^[A-Za-z0-9+/=]{20,}$'' word of
              Inl _ \<Rightarrow> []
            | Inr None \<Rightarrow> base64_words re cr ws
            | Inr (Some _) \<Rightarrow>
                (case base64_word cr word of None \<Rightarrow> base64_words re cr ws | Some d \<Rightarrow> d # base64_words re cr ws))
      else base64_words re cr ws)"

definition check_jailbreak :: "re_lib \<Rightarrow> crypto \<Rightarrow> string \<Rightarrow> detection list res" where
  "check_jailbreak re cr tx =
     rbind (detect re ''jailbreak'' jailbreak_patterns tx) (\<lambda>ds. Inr (ds @ base64_words re cr (split_ws tx)))"

definition leak_detection :: "string \<Rightarrow> string \<Rightarrow> detection" where
  "leak_detection category m =
     \<lparr>det_category = category, det_matched = (if length m > 40 then take 40 m @ ''...'' else m), det_type = ''data_leakage''\<rparr>"

fun leaks :: "re_lib \<Rightarrow> (string \<times> string \<times> string) list \<Rightarrow> string \<Rightarrow> (string \<times> detection list) res" where
  "leaks re [] tx = Inr (tx, [])"
| "leaks re ((pattern, replacement, category) # ps) tx =
     (case rl_findall re no_flags pattern tx of
        Inl e \<Rightarrow> if e = ReError then leaks re ps tx else Inl e
      | Inr [] \<Rightarrow> leaks re ps tx
      | Inr (m # ms) \<Rightarrow>
          (let ds = map (leak_detection category) (m # ms) in
           case rl_subn re no_flags pattern replacement tx of
             Inl e \<Rightarrow> if e = ReError then rbind (leaks re ps tx) (\<lambda>(t, es). Inr (t, ds @ es)) else Inl e
           | Inr (t, _) \<Rightarrow> rbind (leaks re ps t) (\<lambda>(t', es). Inr (t', ds @ es))))"

definition check_data_leakage :: "re_lib \<Rightarrow> string \<Rightarrow> (string \<times> detection list) res" where
  "check_data_leakage re tx = leaks re data_leakage_patterns tx"


section \<open>The built-in patterns compile\<close>

definition compiles :: "string \<Rightarrow> bool" where
  "compiles p = (case re_compile no_flags p of Inl _ \<Rightarrow> False | Inr _ \<Rightarrow> True)"

lemma injection_patterns_compile: "list_all compiles (map fst prompt_injection_patterns)"
  by code_simp

lemma jailbreak_patterns_compile: "list_all compiles (map fst jailbreak_patterns)"
  by code_simp

lemma leakage_patterns_compile: "list_all compiles (map fst data_leakage_patterns)"
  by code_simp


section \<open>What the checks detect\<close>

text \<open>The pattern matches some stretch of the text, in the declarative sense.\<close>

definition pattern_occurs :: "string \<Rightarrow> string \<Rightarrow> bool" where
  "pattern_occurs p s \<longleftrightarrow> (\<exists>fl r a b. re_compile no_flags p = Inr (fl, r) \<and> a \<le> length s \<and> stretch fl s r a b)"

lemma compiles_search:
  "compiles p \<Longrightarrow> \<exists>x. re_search no_flags p s = Inr x \<and> (x = None \<longleftrightarrow> \<not> pattern_occurs p s)"
proof -
  assume "compiles p"
  then obtain fl r where c: "re_compile no_flags p = Inr (fl, r)" by (auto simp: compiles_def split: sum.splits)
  then obtain x where x: "re_search no_flags p s = Inr x" by (simp add: re_search_def)
  with re_search_None_iff [OF c, of s] c show ?thesis by (auto simp: pattern_occurs_def)
qed

lemma detect_spec:
  "list_all compiles (map fst ps) \<Longrightarrow>
   \<exists>ds. detect python_re typ ps s = Inr ds \<and> map det_category ds = map snd (filter (\<lambda>p. pattern_occurs (fst p) s) ps)"
proof (induction ps)
  case (Cons p ps)
  obtain x where x: "re_search no_flags (fst p) s = Inr x" "x = None \<longleftrightarrow> \<not> pattern_occurs (fst p) s"
    using compiles_search Cons.prems by fastforce
  then have "rl_search python_re no_flags (fst p) s = Inr x" by (simp add: python_re_def)
  with Cons x(2) show ?case by (cases p; cases x) auto
qed simp

text \<open>The injection check never raises, and its detections are, in order, the categories of
  the built-in patterns that match some stretch of the text: the backtracking search misses
  no match and reports none that is not there.\<close>

theorem injection_detections:
  "\<exists>ds. check_prompt_injection python_re s = Inr ds \<and>
     map det_category ds = map snd (filter (\<lambda>p. pattern_occurs (fst p) s) prompt_injection_patterns)"
  unfolding check_prompt_injection_def by (rule detect_spec [OF injection_patterns_compile])

lemma jailbreak_detections:
  "\<exists>ds. check_jailbreak python_re cr s = Inr ds \<and>
     (ds = [] \<longleftrightarrow> (\<forall>p \<in> set jailbreak_patterns. \<not> pattern_occurs (fst p) s) \<and> base64_words python_re cr (split_ws s) = [])"
proof -
  obtain ds where ds: "detect python_re ''jailbreak'' jailbreak_patterns s = Inr ds"
      "map det_category ds = map snd (filter (\<lambda>p. pattern_occurs (fst p) s) jailbreak_patterns)"
    using detect_spec [OF jailbreak_patterns_compile] by blast
  then have "ds = [] \<longleftrightarrow> filter (\<lambda>p. pattern_occurs (fst p) s) jailbreak_patterns = []"
    by (metis map_is_Nil_conv)
  then have "ds = [] \<longleftrightarrow> (\<forall>p \<in> set jailbreak_patterns. \<not> pattern_occurs (fst p) s)"
    by (simp add: filter_empty_conv)
  with ds(1) show ?thesis by (simp add: check_jailbreak_def)
qed

lemma compiles_findall:
  assumes "compiles p"
  shows "\<exists>ms. rl_findall python_re no_flags p s = Inr ms \<and> (ms = [] \<longleftrightarrow> \<not> pattern_occurs p s)"
proof -
  obtain x where "rl_search python_re no_flags p s = Inr x" "x = None \<longleftrightarrow> \<not> pattern_occurs p s"
    using compiles_search [OF assms] by (auto simp: python_re_def)
  with python.findall_Inr show ?thesis by fastforce
qed

lemma compiles_subn: "compiles p \<Longrightarrow> CHR 0x5C \<notin> set r \<Longrightarrow> \<exists>t n. rl_subn python_re no_flags p r s = Inr (t, n)"
  by (auto simp: compiles_def python_re_def re_subn_def Let_def split: sum.splits)

lemma leaks_spec:
  "list_all compiles (map fst ps) \<Longrightarrow> list_all (\<lambda>p. CHR 0x5C \<notin> set (fst (snd p))) ps \<Longrightarrow>
   \<exists>t ds. leaks python_re ps s = Inr (t, ds) \<and> (ds = [] \<longleftrightarrow> (\<forall>p \<in> set ps. \<not> pattern_occurs (fst p) s)) \<and>
     (ds = [] \<longrightarrow> t = s)"
proof (induction ps arbitrary: s)
  case (Cons p ps)
  obtain pat repl cat where p: "p = (pat, repl, cat)" by (cases p) auto
  obtain ms where ms: "rl_findall python_re no_flags pat s = Inr ms" "ms = [] \<longleftrightarrow> \<not> pattern_occurs pat s"
    using compiles_findall Cons.prems(1) p by fastforce
  have IH: "\<exists>t ds. leaks python_re ps s = Inr (t, ds) \<and> (ds = [] \<longleftrightarrow> (\<forall>p \<in> set ps. \<not> pattern_occurs (fst p) s)) \<and>
      (ds = [] \<longrightarrow> t = s)" for s
    using Cons by simp
  show ?case
  proof (cases ms)
    case Nil
    with IH [of s] ms show ?thesis by (simp add: p)
  next
    case (Cons m ms')
    obtain u n where "rl_subn python_re no_flags pat repl s = Inr (u, n)"
      using compiles_subn Cons.prems p by fastforce
    moreover obtain t ds where "leaks python_re ps u = Inr (t, ds)" using IH [of u] by blast
    ultimately show ?thesis using ms Cons by (auto simp: p Let_def)
  qed
qed simp

text \<open>The leakage check never raises; it reports nothing exactly when none of its patterns
  matches the response, and then the response is returned unchanged.\<close>

theorem leakage_detections:
  "\<exists>t ds. check_data_leakage python_re s = Inr (t, ds) \<and>
     (ds = [] \<longleftrightarrow> (\<forall>p \<in> set data_leakage_patterns. \<not> pattern_occurs (fst p) s)) \<and> (ds = [] \<longrightarrow> t = s)"
proof -
  have "list_all (\<lambda>p. CHR 0x5C \<notin> set (fst (snd p))) data_leakage_patterns" by code_simp
  from leaks_spec [OF leakage_patterns_compile this] show ?thesis by (simp add: check_data_leakage_def)
qed


lemma leakage_detections_witness:
  "list_all (\<lambda>q. \<not> pattern_occurs (fst q) ''ok'') data_leakage_patterns"
proof -
  have "check_data_leakage python_re ''ok'' = Inr (''ok'', [])" by code_simp
  with leakage_detections [of "''ok''"] show ?thesis by (simp add: list_all_iff)
qed

end
