(* ===== verification/Guardrails.thy ===== *)
theory Guardrails
  imports Threats LlmProxy
begin

text \<open>
  \<open>guardrails.py\<close>: loading of the content policies, the evaluation of a request and of a
  response, the classification by a guard model, the policies' table and its built-in rows.
\<close>


section \<open>Equality of values\<close>

text \<open>Python's \<open>==\<close> on JSON values: numbers by value, dictionaries without regard to order.\<close>

fun num_of :: "json \<Rightarrow> rat option" where
  "num_of (JBool b) = Some (if b then 1 else 0)"
| "num_of (JInt n) = Some (of_int n)"
| "num_of (JFloat x) = Some x"
| "num_of _ = None"

fun py_eq :: "json \<Rightarrow> json \<Rightarrow> bool"
  and py_eq_list :: "json list \<Rightarrow> json list \<Rightarrow> bool"
  and py_eq_dict :: "jdict \<Rightarrow> jdict \<Rightarrow> bool" where
  "py_eq JNull y = (y = JNull)"
| "py_eq (JStr s) y = (y = JStr s)"
| "py_eq (JList xs) y = (case y of JList ys \<Rightarrow> py_eq_list xs ys | _ \<Rightarrow> False)"
| "py_eq (JObj d) y = (case y of JObj e \<Rightarrow> length d = length e \<and> py_eq_dict d e | _ \<Rightarrow> False)"
| "py_eq x y = (num_of x = num_of y)"
| "py_eq_list [] ys = (ys = [])"
| "py_eq_list (x # xs) ys = (case ys of [] \<Rightarrow> False | y # ys' \<Rightarrow> py_eq x y \<and> py_eq_list xs ys')"
| "py_eq_dict [] e = True"
| "py_eq_dict ((k, v) # d) e = ((case map_of e k of None \<Rightarrow> False | Some w \<Rightarrow> py_eq v w) \<and> py_eq_dict d e)"

definition same_messages :: "jdict list \<Rightarrow> jdict list \<Rightarrow> bool" where
  "same_messages ms ms' = py_eq (JList (map JObj ms)) (JList (map JObj ms'))"


section \<open>Policies\<close>

datatype policy_type =
    SystemPromptInject
  | SystemPromptEnforce
  | TopicBlock
  | OutputFilter
  | MaxOutputTokens
  | ModelRestrict
  | PromptInjectionDetect
  | JailbreakDetect
  | DataLeakagePrevent

definition policy_types :: "(string \<times> policy_type) list" where
  "policy_types =
     [(''system_prompt_inject'', SystemPromptInject), (''system_prompt_enforce'', SystemPromptEnforce),
      (''topic_block'', TopicBlock), (''output_filter'', OutputFilter), (''max_output_tokens'', MaxOutputTokens),
      (''model_restrict'', ModelRestrict), (''prompt_injection_detect'', PromptInjectionDetect),
      (''jailbreak_detect'', JailbreakDetect), (''data_leakage_prevent'', DataLeakagePrevent)]"

record content_policy =
  po_id :: string
  po_name :: string
  po_type :: policy_type
  po_config :: jdict
  po_active :: bool
  po_applies :: "string list option"
  po_priority :: int

record policy_result =
  pr_allowed :: bool
  pr_applied :: "string list"
  pr_modified :: "jdict list option"
  pr_reject_reason :: json

definition allow_result :: policy_result where
  "allow_result = \<lparr>pr_allowed = True, pr_applied = [], pr_modified = None, pr_reject_reason = JNull\<rparr>"

definition add_applied :: "string \<Rightarrow> policy_result \<Rightarrow> policy_result" where
  "add_applied s r = r\<lparr>pr_applied := pr_applied r @ [s]\<rparr>"

text \<open>\<open>result.allowed = False\<close>, with the reason and the policy recorded.\<close>

definition reject :: "string \<Rightarrow> json \<Rightarrow> policy_result \<Rightarrow> policy_result" where
  "reject label reason r = add_applied label (r\<lparr>pr_allowed := False, pr_reject_reason := reason\<rparr>)"


section \<open>The guard model\<close>

text \<open>
  What the evaluation uses besides the policies: the regular expressions, base64, the texts of
  values, the settings, the clock and the guard model's adapter, asked with provider, key, base
  address, model and the first 2000 characters of the text.  Calls are numbered.
\<close>

record guard_env =
  ge_re :: re_lib
  ge_crypto :: crypto
  ge_lib :: pylib
  ge_settings :: settings
  ge_now :: "nat \<Rightarrow> time"
  ge_call :: "nat \<Rightarrow> string \<Rightarrow> string \<Rightarrow> string \<Rightarrow> string \<Rightarrow> string \<Rightarrow> oai_response outcome"

record guard_state =
  gs_pools :: key_manager
  gs_calls :: nat

datatype threat = Safe | Injection | Jailbreak | GuardError

record ai_result =
  ai_threat :: bool
  ai_type :: threat
  ai_reason :: string

text \<open>\<open>x or dflt\<close> for the guard's fields of a policy; a truthy value that is no string is outside the model.\<close>

definition field_or :: "json \<Rightarrow> string \<Rightarrow> string res" where
  "field_or v dflt = (if \<not> truthy v then Inr dflt else case v of JStr s \<Rightarrow> Inr s | _ \<Rightarrow> unsupported)"

definition reason_after_colon :: "string \<Rightarrow> string \<Rightarrow> string" where
  "reason_after_colon reply dflt =
     (if CHR '':'' \<in> set reply then str_strip (str_join '':'' (tl (split_on CHR '':'' reply))) else dflt)"

definition classify_reply :: "oai_response \<Rightarrow> ai_result" where
  "classify_reply response =
     (let reply = (case or_choices response of
                     [] \<Rightarrow> []
                   | c # _ \<Rightarrow> str_upper (str_strip (case om_content (oc_message c) of None \<Rightarrow> [] | Some t \<Rightarrow> t)))
      in if prefix ''PROMPT_INJECTION'' reply
         then \<lparr>ai_threat = True, ai_type = Injection, ai_reason = reason_after_colon reply ''AI detected prompt injection''\<rparr>
         else if prefix ''JAILBREAK'' reply
         then \<lparr>ai_threat = True, ai_type = Jailbreak, ai_reason = reason_after_colon reply ''AI detected jailbreak attempt''\<rparr>
         else \<lparr>ai_threat = False, ai_type = Safe, ai_reason = []\<rparr>)"

definition guard_failed :: "string \<Rightarrow> ai_result" where
  "guard_failed msg = \<lparr>ai_threat = False, ai_type = GuardError, ai_reason = ''AI guard error: '' @ msg\<rparr>"

definition ai_classify_threat :: "guard_env \<Rightarrow> string \<Rightarrow> json \<Rightarrow> json \<Rightarrow> json \<Rightarrow> (guard_state, ai_result) io" where
  "ai_classify_threat env tx guard_provider guard_model guard_base_url s =
     (case (field_or guard_provider (GUARD_PROVIDER (ge_settings env)),
            field_or guard_model (GUARD_MODEL (ge_settings env)),
            field_or guard_base_url (GUARD_BASE_URL (ge_settings env))) of
        (Inr provider, Inr model, Inr base_url) \<Rightarrow>
          if provider = [] \<or> model = []
          then (Inr \<lparr>ai_threat = False, ai_type = Safe, ai_reason = ''AI guard not configured''\<rparr>, s)
          else (let n = gs_calls s;
                    (key_result, pool) = get_next_key 0 (ge_now env n) ''round_robin'' (get_pool provider (gs_pools s));
                    api_key = (case key_result of None \<Rightarrow> [] | Some (k, _) \<Rightarrow> k);
                    s1 = s\<lparr>gs_pools := dict_set provider pool (gs_pools s)\<rparr>
                in case get_provider provider of
                     Inl _ \<Rightarrow> (Inr (guard_failed (''Unknown provider type: '' @ provider)), s1)
                   | Inr _ \<Rightarrow>
                       (case ge_call env n provider api_key base_url model (take 2000 tx) of
                          Failed e \<Rightarrow> (Inr (guard_failed (ce_text e)), s1\<lparr>gs_calls := Suc n\<rparr>)
                        | Reply response \<Rightarrow> (Inr (classify_reply response), s1\<lparr>gs_calls := Suc n\<rparr>)))
      | _ \<Rightarrow> (unsupported, s))"


section \<open>Evaluation of a request\<close>

definition contents :: "jdict list \<Rightarrow> string list" where
  "contents ms = List.map_filter (\<lambda>m. case jget ''content'' m of JStr s \<Rightarrow> Some s | _ \<Rightarrow> None) ms"

definition joined_text :: "jdict list \<Rightarrow> string" where
  "joined_text ms = str_join '' '' (contents ms)"

text \<open>\<open>kw.lower() in all_text\<close> over the keywords, up to the first hit.\<close>

fun keyword_hit :: "json list \<Rightarrow> string \<Rightarrow> bool res" where
  "keyword_hit [] tx = Inr False"
| "keyword_hit (kw # kws) tx =
     (case kw of JStr k \<Rightarrow> if str_in (str_lower k) tx then Inr True else keyword_hit kws tx
               | _ \<Rightarrow> Inl AttributeError)"

fun pattern_hit :: "re_lib \<Rightarrow> json list \<Rightarrow> string \<Rightarrow> bool res" where
  "pattern_hit re [] tx = Inr False"
| "pattern_hit re (pat # pats) tx =
     (case pat of
        JStr p \<Rightarrow>
          (case rl_search re re_ignorecase p tx of
             Inl e \<Rightarrow> if e = ReError then pattern_hit re pats tx else Inl e
           | Inr m \<Rightarrow> if m \<noteq> None then Inr True else pattern_hit re pats tx)
      | _ \<Rightarrow> Inl TypeError)"

fun redact_keywords :: "re_lib \<Rightarrow> json list \<Rightarrow> string \<Rightarrow> string res" where
  "redact_keywords re [] content = Inr content"
| "redact_keywords re (kw # kws) content =
     (case kw of
        JStr k \<Rightarrow> rbind (rl_subn re re_ignorecase (re_escape k) ''[BLOCKED]'' content) (\<lambda>(c, _). redact_keywords re kws c)
      | _ \<Rightarrow> Inl TypeError)"

fun redact_patterns :: "re_lib \<Rightarrow> json list \<Rightarrow> string \<Rightarrow> string res" where
  "redact_patterns re [] content = Inr content"
| "redact_patterns re (pat # pats) content =
     (case pat of
        JStr p \<Rightarrow>
          (case rl_subn re re_ignorecase p ''[BLOCKED]'' content of
             Inl e \<Rightarrow> if e = ReError then redact_patterns re pats content else Inl e
           | Inr (c, _) \<Rightarrow> redact_patterns re pats c)
      | _ \<Rightarrow> Inl TypeError)"

fun redact_messages :: "re_lib \<Rightarrow> json list \<Rightarrow> json list \<Rightarrow> jdict list \<Rightarrow> jdict list res" where
  "redact_messages re kws pats [] = Inr []"
| "redact_messages re kws pats (m # ms) =
     rbind (case jget_or (JStr []) ''content'' m of
              JStr c \<Rightarrow> rbind (redact_keywords re kws c) (\<lambda>c1. rbind (redact_patterns re pats c1) (\<lambda>c2.
                         Inr (dict_set ''content'' (JStr c2) m)))
            | _ \<Rightarrow> Inr m)
       (\<lambda>m'. rbind (redact_messages re kws pats ms) (\<lambda>ms'. Inr (m' # ms')))"

text \<open>What a policy does: end the evaluation with a result, or go on with changed messages.\<close>

datatype verdict = Stop policy_result | Go policy_result "jdict list"

definition system_message :: "json \<Rightarrow> jdict" where
  "system_message prompt = [(''role'', JStr ''system''), (''content'', prompt)]"

definition has_system_role :: "jdict \<Rightarrow> bool" where
  "has_system_role m \<longleftrightarrow> jget ''role'' m = JStr ''system''"

definition eval_inject :: "content_policy \<Rightarrow> policy_result \<Rightarrow> jdict list \<Rightarrow> verdict" where
  "eval_inject p r ms =
     (let prompt = jget_or (JStr []) ''prompt'' (po_config p) in
      if truthy prompt
      then Go (add_applied (''system_prompt_inject:'' @ po_name p) r)
              (system_message prompt # filter (\<lambda>m. \<not> (has_system_role m \<and> py_eq (jget ''content'' m) prompt)) ms)
      else Go r ms)"

definition eval_enforce :: "content_policy \<Rightarrow> policy_result \<Rightarrow> jdict list \<Rightarrow> verdict" where
  "eval_enforce p r ms =
     (let prompt = jget_or (JStr []) ''prompt'' (po_config p);
          allow_client = jget_or (JBool False) ''allow_client_system'' (po_config p);
          ms1 = (if \<not> truthy allow_client then filter (\<lambda>m. \<not> has_system_role m) ms else ms);
          ms2 = (if truthy prompt then system_message prompt # ms1 else ms1)
      in Go (add_applied (''system_prompt_enforce:'' @ po_name p) r) ms2)"

definition eval_topic_block :: "re_lib \<Rightarrow> content_policy \<Rightarrow> policy_result \<Rightarrow> jdict list \<Rightarrow> verdict res" where
  "eval_topic_block re p r ms =
     (let config = po_config p;
          action = jget_or (JStr ''reject'') ''action'' config;
          kws = jget_or (JList []) ''blocked_keywords'' config;
          pats = jget_or (JList []) ''blocked_patterns'' config;
          msg_text = jget_or (JStr ''This topic is blocked by policy.'') ''message'' config;
          all_text = str_lower (joined_text ms)
      in rbind (py_iter kws) (\<lambda>ks.
         rbind (keyword_hit ks all_text) (\<lambda>b1.
         rbind (if b1 then Inr True else rbind (py_iter pats) (\<lambda>qs. pattern_hit re qs all_text)) (\<lambda>blocked.
         if \<not> blocked then Inr (Go r ms)
         else if action = JStr ''reject'' then Inr (Stop (reject (''topic_block:'' @ po_name p) msg_text r))
         else if action = JStr ''redact'' then
           rbind (if \<exists>m \<in> set ms. is_str (jget_or (JStr []) ''content'' m) then py_iter pats else Inr []) (\<lambda>qs.
           rbind (redact_messages re ks qs ms) (\<lambda>ms'. Inr (Go (add_applied (''topic_block_redact:'' @ po_name p) r) ms')))
         else Inr (Go r ms)))))"

text \<open>\<open>any(fnmatch.fnmatch(model, pat) for pat in ...)\<close>\<close>

fun any_fnmatch :: "string \<Rightarrow> json list \<Rightarrow> bool res" where
  "any_fnmatch model [] = Inr False"
| "any_fnmatch model (pat # pats) =
     (case pat of JStr p \<Rightarrow> if fnmatch model p then Inr True else any_fnmatch model pats | _ \<Rightarrow> Inl TypeError)"

definition eval_model_restrict :: "string \<Rightarrow> content_policy \<Rightarrow> policy_result \<Rightarrow> jdict list \<Rightarrow> verdict res" where
  "eval_model_restrict model p r ms =
     (let allowed_models = jget_or (JList []) ''allowed_models'' (po_config p);
          deny_message = jget_or (JStr ''Model not allowed by policy.'') ''deny_message'' (po_config p)
      in if truthy allowed_models
         then rbind (py_iter allowed_models) (\<lambda>pats. rbind (any_fnmatch model pats) (\<lambda>ok.
                Inr (if ok then Go r ms else Stop (reject (''model_restrict:'' @ po_name p) deny_message r))))
         else Inr (Go r ms))"

definition eval_max_tokens :: "pylib \<Rightarrow> content_policy \<Rightarrow> policy_result \<Rightarrow> jdict list \<Rightarrow> verdict" where
  "eval_max_tokens pl p r ms =
     (let max_tokens = jget ''max_tokens'' (po_config p) in
      if truthy max_tokens
      then Go (add_applied (''max_output_tokens:'' @ po_name p @ '':'' @ to_str pl max_tokens) r) ms else Go r ms)"


text \<open>\<open>{"low": 3, "medium": 1, "high": 1}.get(sensitivity, 1)\<close>; lists and dictionaries are no keys.\<close>

definition min_detections :: "json \<Rightarrow> nat res" where
  "min_detections sensitivity =
     (case sensitivity of
        JStr s \<Rightarrow> Inr (if s = ''low'' then 3 else 1)
      | JList _ \<Rightarrow> Inl TypeError
      | JObj _ \<Rightarrow> Inl TypeError
      | _ \<Rightarrow> Inr 1)"

definition regex_mode :: "json \<Rightarrow> bool" where
  "regex_mode mode \<longleftrightarrow> mode = JStr ''regex'' \<or> mode = JStr ''both''"

definition ai_mode :: "json \<Rightarrow> bool" where
  "ai_mode mode \<longleftrightarrow> mode = JStr ''ai'' \<or> mode = JStr ''both''"

text \<open>The second step of both detectors: whether the guard model reports the threat, and the message.\<close>

definition ai_step :: "guard_env \<Rightarrow> jdict \<Rightarrow> threat \<Rightarrow> string \<Rightarrow> json \<Rightarrow> string \<Rightarrow> (guard_state, bool \<times> json) io" where
  "ai_step env config wanted label msg_text tx =
     bnd (ai_classify_threat env tx (jget_or (JStr []) ''guard_provider'' config) (jget_or (JStr []) ''guard_model'' config)
            (jget_or (JStr []) ''guard_base_url'' config))
       (\<lambda>a. if ai_threat a \<and> ai_type a = wanted
            then ret (True, jget_or (JStr (label @ '' blocked: '' @ ai_reason a)) ''message'' config)
            else ret (False, msg_text))"

definition threat_verdict :: "bool \<Rightarrow> json \<Rightarrow> json \<Rightarrow> string \<Rightarrow> string \<Rightarrow> policy_result \<Rightarrow> jdict list \<Rightarrow> verdict" where
  "threat_verdict detected action msg_text reject_label flag_label r ms =
     (if \<not> detected then Go r ms
      else if action = JStr ''reject'' then Stop (reject reject_label msg_text r)
      else if action = JStr ''flag'' then Go (add_applied flag_label r) ms
      else Go r ms)"

definition lift_res :: "'a res \<Rightarrow> ('s, 'a) io" where
  "lift_res x = (\<lambda>s. (x, s))"

definition eval_injection :: "guard_env \<Rightarrow> content_policy \<Rightarrow> policy_result \<Rightarrow> jdict list \<Rightarrow> (guard_state, verdict) io" where
  "eval_injection env p r ms =
     (let config = po_config p;
          action = jget_or (JStr ''reject'') ''action'' config;
          msg_text = jget_or (JStr ''Prompt injection detected and blocked.'') ''message'' config;
          sensitivity = jget_or (JStr ''medium'') ''sensitivity'' config;
          mode = jget_or (JStr ''regex'') ''mode'' config;
          all_text = joined_text ms
      in bnd (lift_res (min_detections sensitivity)) (\<lambda>least.
         bnd (if regex_mode mode then lift_res (check_prompt_injection (ge_re env) all_text) else ret []) (\<lambda>ds.
         let found = regex_mode mode \<and> least \<le> length ds in
         bnd (if \<not> found \<and> ai_mode mode then ai_step env config Injection ''Prompt injection'' msg_text all_text
              else ret (found, msg_text)) (\<lambda>(detected, msg).
         ret (threat_verdict detected action msg (''prompt_injection_detect:'' @ po_name p)
                (''prompt_injection_flagged:'' @ po_name p) r ms)))))"

definition eval_jailbreak :: "guard_env \<Rightarrow> content_policy \<Rightarrow> policy_result \<Rightarrow> jdict list \<Rightarrow> (guard_state, verdict) io" where
  "eval_jailbreak env p r ms =
     (let config = po_config p;
          action = jget_or (JStr ''reject'') ''action'' config;
          msg_text = jget_or (JStr ''Jailbreak attempt detected and blocked.'') ''message'' config;
          mode = jget_or (JStr ''regex'') ''mode'' config;
          all_text = joined_text ms
      in bnd (if regex_mode mode then lift_res (check_jailbreak (ge_re env) (ge_crypto env) all_text) else ret []) (\<lambda>ds.
         let found = (ds \<noteq> []) in
         bnd (if \<not> found \<and> ai_mode mode then ai_step env config Jailbreak ''Jailbreak'' msg_text all_text
              else ret (found, msg_text)) (\<lambda>(detected, msg).
         ret (threat_verdict detected action msg (''jailbreak_detect:'' @ po_name p) (''jailbreak_flagged:'' @ po_name p) r ms))))"

definition eval_policy :: "guard_env \<Rightarrow> string \<Rightarrow> content_policy \<Rightarrow> policy_result \<Rightarrow> jdict list \<Rightarrow> (guard_state, verdict) io" where
  "eval_policy env model p r ms =
     (case po_type p of
        SystemPromptInject \<Rightarrow> ret (eval_inject p r ms)
      | SystemPromptEnforce \<Rightarrow> ret (eval_enforce p r ms)
      | TopicBlock \<Rightarrow> lift_res (eval_topic_block (ge_re env) p r ms)
      | ModelRestrict \<Rightarrow> lift_res (eval_model_restrict model p r ms)
      | MaxOutputTokens \<Rightarrow> ret (eval_max_tokens (ge_lib env) p r ms)
      | PromptInjectionDetect \<Rightarrow> eval_injection env p r ms
      | JailbreakDetect \<Rightarrow> eval_jailbreak env p r ms
      | OutputFilter \<Rightarrow> ret (Go r ms)
      | DataLeakagePrevent \<Rightarrow> ret (Go r ms))"

fun run_policies :: "guard_env \<Rightarrow> string \<Rightarrow> content_policy list \<Rightarrow> policy_result \<Rightarrow> jdict list \<Rightarrow> (guard_state, verdict) io" where
  "run_policies env model [] r ms = ret (Go r ms)"
| "run_policies env model (p # ps) r ms =
     bnd (eval_policy env model p r ms) (\<lambda>v. case v of Stop r' \<Rightarrow> ret (Stop r') | Go r' ms' \<Rightarrow> run_policies env model ps r' ms')"

text \<open>The policies that apply to a client, by priority; a row that is no valid policy raises.\<close>

definition client_listed :: "string \<Rightarrow> json \<Rightarrow> bool res" where
  "client_listed client_id applies =
     (case applies of
        JList xs \<Rightarrow> Inr (JStr client_id \<in> set xs)
      | JStr s \<Rightarrow> Inr (str_in client_id s)
      | JObj d \<Rightarrow> Inr (client_id \<in> set (map fst d))
      | _ \<Rightarrow> Inl TypeError)"

definition str_list :: "json \<Rightarrow> string list res" where
  "str_list v =
     (case v of JList xs \<Rightarrow> if list_all is_str xs then Inr (map str_val xs) else Inl (OtherError ''ValidationError'')
      | _ \<Rightarrow> Inl (OtherError ''ValidationError''))"

definition content_policy_of :: "content_policy_row \<Rightarrow> content_policy res" where
  "content_policy_of r =
     (case map_of policy_types (cp_policy_type r) of
        None \<Rightarrow> Inl (OtherError ''ValidationError'')
      | Some t \<Rightarrow>
          rbind (case cp_applies_to_clients r of None \<Rightarrow> Inr None | Some v \<Rightarrow> rbind (str_list v) (\<lambda>l. Inr (Some l))) (\<lambda>applies.
          Inr \<lparr>po_id = cp_id r, po_name = cp_name r, po_type = t, po_config = cp_config_json r,
               po_active = cp_is_active r, po_applies = applies, po_priority = cp_priority r\<rparr>))"

fun applicable :: "string option \<Rightarrow> content_policy_row list \<Rightarrow> content_policy list res" where
  "applicable client_id [] = Inr []"
| "applicable client_id (r # rs) =
     rbind (case (cp_applies_to_clients r, client_id) of
              (Some v, Some c) \<Rightarrow> if c \<noteq> [] then client_listed c v else Inr True
            | _ \<Rightarrow> Inr True)
       (\<lambda>keep. if keep then rbind (content_policy_of r) (\<lambda>p. rbind (applicable client_id rs) (\<lambda>ps. Inr (p # ps)))
               else applicable client_id rs)"

definition by_priority :: "content_policy_row \<Rightarrow> content_policy_row \<Rightarrow> bool" where
  "by_priority r r' \<longleftrightarrow> cp_priority r \<le> cp_priority r'"

definition load_policies :: "string option \<Rightarrow> database \<Rightarrow> content_policy list res" where
  "load_policies client_id db = applicable client_id (order_by by_priority (filter cp_is_active (t_content_policies db)))"

definition finish :: "jdict list \<Rightarrow> verdict \<Rightarrow> policy_result" where
  "finish ms v =
     (case v of Stop r \<Rightarrow> r
      | Go r ms' \<Rightarrow> if \<not> same_messages ms' ms then r\<lparr>pr_modified := Some ms'\<rparr> else r)"

definition evaluate_request :: "guard_env \<Rightarrow> database \<Rightarrow> jdict list \<Rightarrow> string \<Rightarrow> string option \<Rightarrow> (guard_state, policy_result) io" where
  "evaluate_request env db ms model client_id =
     bnd (lift_res (load_policies client_id db)) (\<lambda>policies.
       if policies = [] then ret allow_result
       else bnd (run_policies env model policies allow_result ms) (\<lambda>v. ret (finish ms v)))"


section \<open>Evaluation of a response\<close>

text \<open>A backquote stands for a backslash.\<close>

definition pii_patterns :: "(string \<times> string) list" where
  "pii_patterns =
     [(rxp ''`b[A-Za-z0-9._%+-]+@[A-Za-z0-9.-]+`.[A-Za-z]{2,}`b'', ''[EMAIL]''),
      (rxp ''`b`d{3}-`d{2}-`d{4}`b'', ''[SSN]''),
      (rxp ''`b(?:4[0-9]{12}(?:[0-9]{3})?|5[1-5][0-9]{14})`b'', ''[CARD]'')]"

fun mask_pii :: "re_lib \<Rightarrow> (string \<times> string) list \<Rightarrow> string \<times> bool \<Rightarrow> (string \<times> bool) res" where
  "mask_pii re [] x = Inr x"
| "mask_pii re ((pat, repl) # ps) (tx, was) =
     rbind (rl_subn re no_flags pat repl tx) (\<lambda>(new_text, count).
       mask_pii re ps (if count > 0 then (new_text, True) else (tx, was)))"

fun mask_words :: "re_lib \<Rightarrow> json list \<Rightarrow> string \<times> bool \<Rightarrow> (string \<times> bool) res" where
  "mask_words re [] x = Inr x"
| "mask_words re (word # ws) (tx, was) =
     (case word of
        JStr w \<Rightarrow>
          if str_in (str_lower w) (str_lower tx)
          then rbind (rl_subn re re_ignorecase (re_escape w) ''[FILTERED]'' tx) (\<lambda>(t, _). mask_words re ws (t, True))
          else mask_words re ws (tx, was)
      | _ \<Rightarrow> Inl AttributeError)"

definition output_filter :: "re_lib \<Rightarrow> jdict \<Rightarrow> string \<times> bool \<Rightarrow> (string \<times> bool) res" where
  "output_filter re config x =
     rbind (if truthy (jget ''check_pii'' config) then mask_pii re pii_patterns x else Inr x) (\<lambda>y.
     if truthy (jget ''check_profanity'' config)
     then rbind (py_iter (jget_or (JList []) ''profanity_list'' config)) (\<lambda>ws. mask_words re ws y)
     else Inr y)"

fun filter_response :: "re_lib \<Rightarrow> content_policy list \<Rightarrow> string \<times> bool \<Rightarrow> (string \<times> bool) res" where
  "filter_response re [] x = Inr x"
| "filter_response re (p # ps) (tx, was) =
     (if po_type p = DataLeakagePrevent then
        rbind (check_data_leakage re tx) (\<lambda>(t, ds).
          if ds = [] then filter_response re ps (tx, was)
          else if jget_or (JStr ''redact'') ''action'' (po_config p) = JStr ''block''
          then Inr (''[Response blocked: sensitive data detected]'', True)
          else filter_response re ps (t, True))
      else if po_type p = OutputFilter then rbind (output_filter re (po_config p) (tx, was)) (filter_response re ps)
      else filter_response re ps (tx, was))"

definition evaluate_response :: "re_lib \<Rightarrow> database \<Rightarrow> string \<Rightarrow> string option \<Rightarrow> (string \<times> bool) res" where
  "evaluate_response re db response_text client_id =
     rbind (load_policies client_id db) (\<lambda>policies. filter_response re policies (response_text, False))"


section \<open>The table\<close>

definition get_all_policies :: "database \<Rightarrow> content_policy list res" where
  "get_all_policies db = applicable None (order_by by_priority (t_content_policies db))"

definition new_policy_row :: "string \<Rightarrow> time \<Rightarrow> string \<Rightarrow> string \<Rightarrow> jdict \<Rightarrow> json option \<Rightarrow> int \<Rightarrow> content_policy_row" where
  "new_policy_row uid now name typ config applies priority =
     \<lparr>cp_id = uid, cp_name = name, cp_policy_type = typ, cp_config_json = config, cp_is_active = True,
      cp_applies_to_clients = applies, cp_priority = priority, cp_created_at = now\<rparr>"

text \<open>The name of a policy is a unique column: a second row with it raises.\<close>

definition policy_name_taken :: "string \<Rightarrow> content_policy_row list \<Rightarrow> bool" where
  "policy_name_taken name rows \<longleftrightarrow> list_ex (\<lambda>r. cp_name r = name) rows"

definition create_policy :: "string \<Rightarrow> time \<Rightarrow> string \<Rightarrow> string \<Rightarrow> jdict \<Rightarrow> string list option \<Rightarrow> int
    \<Rightarrow> (database, content_policy_row) io" where
  "create_policy uid now name typ config applies priority db =
     (if policy_name_taken name (t_content_policies db) then (Inl IntegrityError, db)
      else (let r = new_policy_row uid now name typ config (map_option (\<lambda>l. JList (map JStr l)) applies) priority
            in (Inr r, db\<lparr>t_content_policies := t_content_policies db @ [r]\<rparr>)))"

record policy_update =
  pu_name :: "string option"
  pu_config :: "jdict option"
  pu_active :: "bool option"
  pu_applies :: "string list option"
  pu_priority :: "int option"

definition apply_policy_update :: "policy_update \<Rightarrow> content_policy_row \<Rightarrow> content_policy_row" where
  "apply_policy_update u r =
     (let r1 = set_if (pu_name u) (\<lambda>v r. r\<lparr>cp_name := v\<rparr>) r;
          r2 = set_if (pu_config u) (\<lambda>v r. r\<lparr>cp_config_json := v\<rparr>) r1;
          r3 = set_if (pu_active u) (\<lambda>v r. r\<lparr>cp_is_active := v\<rparr>) r2;
          r4 = set_if (pu_applies u) (\<lambda>v r. r\<lparr>cp_applies_to_clients := Some (JList (map JStr v))\<rparr>) r3
      in set_if (pu_priority u) (\<lambda>v r. r\<lparr>cp_priority := v\<rparr>) r4)"

definition update_policy :: "string \<Rightarrow> policy_update \<Rightarrow> (database, content_policy_row option) io" where
  "update_policy i u db =
     (case find (\<lambda>r. cp_id r = i) (t_content_policies db) of
        None \<Rightarrow> (Inr None, db)
      | Some r \<Rightarrow>
          (let r' = apply_policy_update u r in
           if policy_name_taken (cp_name r') (filter (\<lambda>q. cp_id q \<noteq> i) (t_content_policies db)) then (Inl IntegrityError, db)
           else (Inr (Some r'),
                 db\<lparr>t_content_policies := update_first (\<lambda>r. cp_id r = i) (apply_policy_update u) (t_content_policies db)\<rparr>)))"

definition delete_policy :: "string \<Rightarrow> database \<Rightarrow> bool \<times> database" where
  "delete_policy i db =
     (if list_ex (\<lambda>r. cp_id r = i) (t_content_policies db)
      then (True, db\<lparr>t_content_policies := delete_first (\<lambda>r. cp_id r = i) (t_content_policies db)\<rparr>)
      else (False, db))"

definition evaluate_single :: "content_policy \<Rightarrow> jdict list \<Rightarrow> string \<Rightarrow> policy_result res" where
  "evaluate_single p ms model =
     (let config = po_config p in
      case po_type p of
        TopicBlock \<Rightarrow>
          rbind (py_iter (jget_or (JList []) ''blocked_keywords'' config)) (\<lambda>ks.
          rbind (keyword_hit ks (str_lower (joined_text ms))) (\<lambda>hit.
          Inr (if hit then reject (po_name p) (jget_or (JStr ''Topic blocked'') ''message'' config) allow_result else allow_result)))
      | ModelRestrict \<Rightarrow>
          (let allowed_models = jget_or (JList []) ''allowed_models'' config in
           if truthy allowed_models
           then rbind (py_iter allowed_models) (\<lambda>pats. rbind (any_fnmatch model pats) (\<lambda>ok.
                  Inr (if ok then allow_result
                       else reject (po_name p) (jget_or (JStr ''Model not allowed'') ''deny_message'' config) allow_result)))
           else Inr allow_result)
      | SystemPromptInject \<Rightarrow>
          Inr (add_applied (po_name p)
                (allow_result\<lparr>pr_modified := Some (system_message (jget_or (JStr []) ''prompt'' config) # ms)\<rparr>))
      | _ \<Rightarrow> Inr allow_result)"

definition test_policy :: "string \<Rightarrow> jdict list \<Rightarrow> string \<Rightarrow> database \<Rightarrow> policy_result res" where
  "test_policy i ms model db =
     (case find (\<lambda>r. cp_id r = i) (t_content_policies db) of
        None \<Rightarrow> Inr (allow_result\<lparr>pr_allowed := False, pr_reject_reason := JStr ''Policy not found''\<rparr>)
      | Some r \<Rightarrow> rbind (content_policy_of (r\<lparr>cp_applies_to_clients := None\<rparr>)) (\<lambda>p.
                   evaluate_single (p\<lparr>po_active := True\<rparr>) ms model))"

definition builtin_security_policies :: "(string \<times> string \<times> jdict \<times> int) list" where
  "builtin_security_policies =
     [(''Prompt Injection Protection'', ''prompt_injection_detect'',
       [(''action'', JStr ''reject''), (''message'', JStr ''Request blocked: prompt injection detected.''),
        (''sensitivity'', JStr ''medium'')], 1),
      (''Jailbreak Protection'', ''jailbreak_detect'',
       [(''action'', JStr ''reject''), (''message'', JStr ''Request blocked: jailbreak attempt detected.'')], 2),
      (''Data Leakage Prevention'', ''data_leakage_prevent'', [(''action'', JStr ''redact'')], 90)]"

fun seed_policies :: "(nat \<Rightarrow> string) \<Rightarrow> time \<Rightarrow> (string \<times> string \<times> jdict \<times> int) list \<Rightarrow> nat \<Rightarrow> database \<Rightarrow> nat \<times> database" where
  "seed_policies uid now [] n db = (n, db)"
| "seed_policies uid now ((name, typ, config, priority) # ps) n db =
     (if list_ex (\<lambda>r. cp_name r = name) (t_content_policies db) then seed_policies uid now ps n db
      else seed_policies uid now ps (Suc n)
             (db\<lparr>t_content_policies := t_content_policies db @ [new_policy_row (uid n) now name typ config None priority]\<rparr>))"

definition seed_security_policies :: "(nat \<Rightarrow> string) \<Rightarrow> time \<Rightarrow> database \<Rightarrow> nat \<times> database" where
  "seed_security_policies uid now db = seed_policies uid now builtin_security_policies 0 db"

end
