(* ===== verification/PolicyDecisions.thy ===== *)
theory PolicyDecisions
  imports Guardrails
begin

text \<open>
  What the evaluation of content policies decides: each checking policy stands for a predicate on
  the request (\<open>permits\<close>), and the run over the policies is their conjunction.
\<close>


section \<open>What the policies decide\<close>

lemma lift_res_simp [simp]: "lift_res x s = (x, s)"
  by (simp add: lift_res_def)

lemma bnd_lift: "bnd (lift_res x) f s = (case x of Inl e \<Rightarrow> (Inl e, s) | Inr a \<Rightarrow> f a s)"
  by (simp add: bnd_def split: sum.splits)

text \<open>The members of a configured list.\<close>

definition members :: "json \<Rightarrow> json list" where
  "members v = (case py_iter v of Inr l \<Rightarrow> l | Inl _ \<Rightarrow> [])"

definition occurs_ignorecase :: "string \<Rightarrow> string \<Rightarrow> bool" where
  "occurs_ignorecase p s \<longleftrightarrow>
     (\<exists>fl r a b. re_compile re_ignorecase p = Inr (fl, r) \<and> a \<le> length s \<and> stretch fl s r a b)"

text \<open>A blocked topic: a keyword, or a pattern, occurs in the messages' text.\<close>

definition on_topic :: "jdict \<Rightarrow> jdict list \<Rightarrow> bool" where
  "on_topic config ms \<longleftrightarrow>
     (let tx = str_lower (joined_text ms) in
      (\<exists>k. JStr k \<in> set (members (jget_or (JList []) ''blocked_keywords'' config)) \<and> sublist (str_lower k) tx) \<or>
      (\<exists>q. JStr q \<in> set (members (jget_or (JList []) ''blocked_patterns'' config)) \<and> occurs_ignorecase q tx))"

definition matching :: "(string \<times> string) list \<Rightarrow> string \<Rightarrow> (string \<times> string) list" where
  "matching ps s = filter (\<lambda>p. pattern_occurs (fst p) s) ps"

text \<open>The decision each policy stands for, without an order of evaluation.\<close>

definition permits :: "crypto \<Rightarrow> string \<Rightarrow> jdict list \<Rightarrow> content_policy \<Rightarrow> bool" where
  "permits cr model ms p =
     (let config = po_config p; rejects = (jget_or (JStr ''reject'') ''action'' config = JStr ''reject'');
          regex = regex_mode (jget_or (JStr ''regex'') ''mode'' config)
      in case po_type p of
        TopicBlock \<Rightarrow> rejects \<longrightarrow> \<not> on_topic config ms
      | ModelRestrict \<Rightarrow>
          (let pats = jget_or (JList []) ''allowed_models'' config in
           truthy pats \<longrightarrow> (\<exists>pat. JStr pat \<in> set (members pats) \<and> fnmatch model pat))
      | PromptInjectionDetect \<Rightarrow>
          rejects \<and> regex \<longrightarrow>
            (case min_detections (jget_or (JStr ''medium'') ''sensitivity'' config) of
               Inl _ \<Rightarrow> False | Inr least \<Rightarrow> length (matching prompt_injection_patterns (joined_text ms)) < least)
      | JailbreakDetect \<Rightarrow>
          rejects \<and> regex \<longrightarrow>
            matching jailbreak_patterns (joined_text ms) = [] \<and> base64_words python_re cr (split_ws (joined_text ms)) = []
      | _ \<Rightarrow> True)"

text \<open>Policies that only check: they rewrite no message and ask no model.\<close>

definition only_checks :: "content_policy \<Rightarrow> bool" where
  "only_checks p \<longleftrightarrow>
     (case po_type p of
        SystemPromptInject \<Rightarrow> False
      | SystemPromptEnforce \<Rightarrow> False
      | TopicBlock \<Rightarrow> jget_or (JStr ''reject'') ''action'' (po_config p) \<noteq> JStr ''redact''
      | PromptInjectionDetect \<Rightarrow> \<not> ai_mode (jget_or (JStr ''regex'') ''mode'' (po_config p))
      | JailbreakDetect \<Rightarrow> \<not> ai_mode (jget_or (JStr ''regex'') ''mode'' (po_config p))
      | _ \<Rightarrow> True)"

lemma keyword_hit_iff:
  "keyword_hit ks tx = Inr b \<Longrightarrow> b \<longleftrightarrow> (\<exists>k. JStr k \<in> set ks \<and> sublist (str_lower k) tx)"
  by (induction ks) (auto simp: str_in_iff_sublist split: json.splits if_splits)

lemma any_fnmatch_iff:
  "any_fnmatch model ps = Inr b \<Longrightarrow> b \<longleftrightarrow> (\<exists>p. JStr p \<in> set ps \<and> fnmatch model p)"
  by (induction ps) (auto split: json.splits if_splits)

lemma search_occurs:
  assumes "rl_search python_re re_ignorecase p tx = x" and "\<forall>e'. x = Inl e' \<longrightarrow> e' = ReError"
  shows "occurs_ignorecase p tx \<longleftrightarrow> (\<exists>m. x = Inr (Some m))"
proof (cases "re_compile re_ignorecase p")
  case (Inl e')
  then show ?thesis using assms by (auto simp: occurs_ignorecase_def python_re_def re_search_def)
next
  case (Inr q)
  obtain fl r where c: "re_compile re_ignorecase p = Inr (fl, r)" using Inr by (cases q) auto
  obtain y where y: "re_search re_ignorecase p tx = Inr y" using c by (simp add: re_search_def)
  with re_search_None_iff [OF c, of tx] c assms(1) show ?thesis
    by (cases y) (auto simp: occurs_ignorecase_def python_re_def)
qed

lemma pattern_hit_iff:
  "pattern_hit python_re qs tx = Inr b \<Longrightarrow> b \<longleftrightarrow> (\<exists>q. JStr q \<in> set qs \<and> occurs_ignorecase q tx)"
proof (induction qs)
  case (Cons v qs)
  then obtain q where q: "v = JStr q" by (auto split: json.splits)
  show ?case
  proof (cases "rl_search python_re re_ignorecase q tx")
    case (Inl e)
    with Cons.prems q have "e = ReError" "pattern_hit python_re qs tx = Inr b" by (auto split: if_splits)
    with Cons.IH search_occurs [OF Inl] q show ?thesis by auto
  next
    case (Inr m)
    with Cons search_occurs [OF Inr] q show ?thesis by (cases m) auto
  qed
qed simp

lemma topic_decision:
  assumes "eval_topic_block python_re p r ms = Inr v" and "jget_or (JStr ''reject'') ''action'' (po_config p) \<noteq> JStr ''redact''"
  shows "v = (if jget_or (JStr ''reject'') ''action'' (po_config p) = JStr ''reject'' \<and> on_topic (po_config p) ms
              then Stop (reject (''topic_block:'' @ po_name p)
                (jget_or (JStr ''This topic is blocked by policy.'') ''message'' (po_config p)) r) else Go r ms)"
proof -
  let ?tx = "str_lower (joined_text ms)"
  obtain ks b1 where ks: "py_iter (jget_or (JList []) ''blocked_keywords'' (po_config p)) = Inr ks" "keyword_hit ks ?tx = Inr b1"
    using assms(1) by (auto simp: eval_topic_block_def rbind_Inr_iff Let_def)
  note k = keyword_hit_iff [OF ks(2)]
  show ?thesis
  proof (cases b1)
    case True
    with k ks assms show ?thesis by (auto simp: eval_topic_block_def on_topic_def members_def Let_def)
  next
    case False
    with assms ks obtain qs b where qs: "py_iter (jget_or (JList []) ''blocked_patterns'' (po_config p)) = Inr qs"
        "pattern_hit python_re qs ?tx = Inr b"
      by (auto simp: eval_topic_block_def rbind_Inr_iff Let_def)
    with pattern_hit_iff [OF qs(2)] k ks False assms show ?thesis
      by (auto simp: eval_topic_block_def on_topic_def members_def Let_def split: if_splits)
  qed
qed


lemma restrict_decision:
  assumes "eval_model_restrict model p r ms = Inr v" and "po_type p = ModelRestrict"
  shows "v = (if permits cr model ms p then Go r ms
              else Stop (reject (''model_restrict:'' @ po_name p)
                (jget_or (JStr ''Model not allowed by policy.'') ''deny_message'' (po_config p)) r))"
  using assms
  by (auto simp: eval_model_restrict_def permits_def members_def Let_def rbind_Inr_iff dest!: any_fnmatch_iff split: if_splits)

lemma matching_count:
  "map det_category ds = map snd (filter (\<lambda>p. pattern_occurs (fst p) s) ps) \<Longrightarrow> length ds = length (matching ps s)"
  unfolding matching_def by (metis length_map)

lemma injection_decision:
  assumes "eval_injection env p r ms s = (Inr v, s')" and "ge_re env = python_re" and "po_type p = PromptInjectionDetect"
    and "only_checks p"
  shows "s' = s \<and> (\<exists>r'. v = Go r' ms \<and> pr_allowed r' = pr_allowed r \<and> pr_modified r' = pr_modified r \<or> v = Stop r' \<and> \<not> pr_allowed r' \<and> pr_modified r' = pr_modified r) \<and>
    ((\<exists>r'. v = Stop r') \<longleftrightarrow> \<not> permits cr model ms p)"
proof -
  have na: "\<not> ai_mode (jget_or (JStr ''regex'') ''mode'' (po_config p))"
    using assms(3,4) by (simp add: only_checks_def)
  obtain ds where ds: "check_prompt_injection python_re (joined_text ms) = Inr ds"
      "length ds = length (matching prompt_injection_patterns (joined_text ms))"
    using injection_detections [of "joined_text ms"] matching_count by blast
  show ?thesis
    using assms na ds
    by (auto simp: eval_injection_def bnd_lift threat_verdict_def permits_def reject_def add_applied_def Let_def
        split: sum.splits if_splits)
qed

lemma jailbreak_decision:
  assumes "eval_jailbreak env p r ms s = (Inr v, s')" and "ge_re env = python_re" and "po_type p = JailbreakDetect"
    and "only_checks p"
  shows "s' = s \<and> (\<exists>r'. v = Go r' ms \<and> pr_allowed r' = pr_allowed r \<and> pr_modified r' = pr_modified r \<or> v = Stop r' \<and> \<not> pr_allowed r' \<and> pr_modified r' = pr_modified r) \<and>
    ((\<exists>r'. v = Stop r') \<longleftrightarrow> \<not> permits (ge_crypto env) model ms p)"
proof -
  have na: "\<not> ai_mode (jget_or (JStr ''regex'') ''mode'' (po_config p))"
    using assms(3,4) by (simp add: only_checks_def)
  obtain ds where ds: "check_jailbreak python_re (ge_crypto env) (joined_text ms) = Inr ds"
      "ds = [] \<longleftrightarrow> matching jailbreak_patterns (joined_text ms) = [] \<and>
        base64_words python_re (ge_crypto env) (split_ws (joined_text ms)) = []"
    using jailbreak_detections [of "ge_crypto env" "joined_text ms"] by (auto simp: matching_def filter_empty_conv)
  show ?thesis
    using assms na ds
    by (auto simp: eval_jailbreak_def bnd_lift threat_verdict_def permits_def reject_def add_applied_def Let_def
        split: sum.splits if_splits)
qed

lemma policy_decision:
  assumes "eval_policy env model p r ms s = (Inr v, s')" and "ge_re env = python_re" and "only_checks p"
  shows "s' = s \<and> (\<exists>r'. v = Go r' ms \<and> pr_allowed r' = pr_allowed r \<and> pr_modified r' = pr_modified r \<or> v = Stop r' \<and> \<not> pr_allowed r' \<and> pr_modified r' = pr_modified r) \<and>
    ((\<exists>r'. v = Stop r') \<longleftrightarrow> \<not> permits (ge_crypto env) model ms p)"
proof (cases "po_type p")
  case TopicBlock
  then have "jget_or (JStr ''reject'') ''action'' (po_config p) \<noteq> JStr ''redact''"
    using assms(3) by (simp add: only_checks_def)
  with topic_decision [of p r ms v] assms TopicBlock show ?thesis
    by (auto simp: eval_policy_def permits_def reject_def add_applied_def Let_def split: if_splits)
next
  case ModelRestrict
  with restrict_decision [of model p r ms v "ge_crypto env"] assms show ?thesis
    by (auto simp: eval_policy_def reject_def add_applied_def split: if_splits)
next
  case PromptInjectionDetect
  then have "eval_injection env p r ms s = (Inr v, s')" using assms(1) by (simp add: eval_policy_def)
  from injection_decision [OF this assms(2) PromptInjectionDetect assms(3)] show ?thesis by blast
next
  case JailbreakDetect
  then have "eval_jailbreak env p r ms s = (Inr v, s')" using assms(1) by (simp add: eval_policy_def)
  from jailbreak_decision [OF this assms(2) JailbreakDetect assms(3)] show ?thesis by blast
qed (use assms in \<open>auto simp: eval_policy_def permits_def only_checks_def eval_max_tokens_def add_applied_def Let_def split: if_splits\<close>)

lemma run_decision:
  "run_policies env model ps r ms s = (Inr v, s') \<Longrightarrow> ge_re env = python_re \<Longrightarrow> list_all only_checks ps \<Longrightarrow> pr_allowed r \<Longrightarrow>
   pr_modified r = None \<Longrightarrow>
   s' = s \<and> (if list_all (permits (ge_crypto env) model ms) ps then \<exists>r'. v = Go r' ms \<and> pr_allowed r' \<and> pr_modified r' = None
             else \<exists>r'. v = Stop r' \<and> \<not> pr_allowed r' \<and> pr_modified r' = None)"
proof (induction ps arbitrary: r s)
  case (Cons p ps)
  obtain w s1 where w: "eval_policy env model p r ms s = (Inr w, s1)"
    using Cons.prems(1) by (auto simp: bnd_def split: prod.splits sum.splits)
  have d: "s1 = s \<and> (\<exists>r'. w = Go r' ms \<and> pr_allowed r' = pr_allowed r \<and> pr_modified r' = pr_modified r \<or> w = Stop r' \<and> \<not> pr_allowed r' \<and> pr_modified r' = pr_modified r) \<and>
    ((\<exists>r'. w = Stop r') \<longleftrightarrow> \<not> permits (ge_crypto env) model ms p)"
    using policy_decision [OF w Cons.prems(2)] Cons.prems(3) by simp
  show ?case
  proof (cases "permits (ge_crypto env) model ms p")
    case True
    with d Cons.prems(4,5) obtain r' where r': "w = Go r' ms" "pr_allowed r'" "pr_modified r' = None" "s1 = s" by auto
    with Cons.prems(1) w have "run_policies env model ps r' ms s = (Inr v, s')" by (simp add: bnd_Inr)
    from Cons.IH [OF this Cons.prems(2) _ r'(2,3)] Cons.prems(3) True show ?thesis by simp
  next
    case False
    with d Cons.prems(5) obtain r' where r': "w = Stop r'" "\<not> pr_allowed r'" "pr_modified r' = None" "s1 = s" by auto
    with Cons.prems(1) w False show ?thesis by (auto simp: bnd_Inr)
  qed
qed auto

text \<open>Values whose dictionaries have distinct keys, as every Python value has.\<close>

fun json_wf :: "json \<Rightarrow> bool" where
  "json_wf (JList xs) = list_all json_wf xs"
| "json_wf (JObj d) = (dict_wf d \<and> list_all (\<lambda>(k, v). json_wf v) d)"
| "json_wf _ = True"

lemma py_eq_refl:
  "json_wf x \<Longrightarrow> y = x \<Longrightarrow> py_eq x y"
  "list_all json_wf xs \<Longrightarrow> ys = xs \<Longrightarrow> py_eq_list xs ys"
  "(\<forall>(k, v) \<in> set d. map_of e k = Some v \<and> json_wf v) \<Longrightarrow> py_eq_dict d e"
  by (induction x y and xs ys and d e rule: py_eq_py_eq_list_py_eq_dict.induct) (auto simp: list_all_iff)

definition messages_wf :: "jdict list \<Rightarrow> bool" where
  "messages_wf ms \<longleftrightarrow> list_all (\<lambda>m. json_wf (JObj m)) ms"

lemma same_messages_refl: "messages_wf ms \<Longrightarrow> same_messages ms ms"
  by (auto simp: same_messages_def messages_wf_def list_all_iff intro!: py_eq_refl)


lemma evaluate_run:
  assumes "load_policies cid db = Inr ps" and "evaluate_request env db ms model cid s = (Inr res, s')"
  obtains v where "run_policies env model ps allow_result ms s = (Inr v, s')" "ps \<noteq> [] \<Longrightarrow> res = finish ms v"
    "ps = [] \<Longrightarrow> res = allow_result \<and> v = Go allow_result ms"
  using assms by (cases "ps = []") (auto simp: evaluate_request_def bnd_lift bnd_def split: prod.splits sum.splits)

text \<open>C15.  When every applicable policy only checks, a request is allowed exactly when each of them
  permits it (no blocked keyword or pattern in the text, an allowed model, fewer matching threat
  patterns than the sensitivity asks for); the messages and the key pools stay as they are.\<close>

theorem request_decision:
  assumes "load_policies cid db = Inr ps" and "list_all only_checks ps" and "ge_re env = python_re"
    and "messages_wf ms" and "evaluate_request env db ms model cid s = (Inr res, s')"
  shows "s' = s \<and> pr_modified res = None \<and> (pr_allowed res \<longleftrightarrow> list_all (permits (ge_crypto env) model ms) ps)"
proof -
  obtain v where v: "run_policies env model ps allow_result ms s = (Inr v, s')" "ps \<noteq> [] \<Longrightarrow> res = finish ms v"
      "ps = [] \<Longrightarrow> res = allow_result \<and> v = Go allow_result ms"
    using evaluate_run [OF assms(1,5)] by blast
  from run_decision [OF v(1) assms(3,2)] v(2,3) same_messages_refl [OF assms(4)] show ?thesis
    by (cases "ps = []") (auto simp: allow_result_def finish_def split: if_splits)
qed

text \<open>The text checks read string contents only: two conversations whose messages carry their text
  in lists of parts get the same decision, whatever the parts say.\<close>

theorem parts_are_not_checked:
  assumes "load_policies cid db = Inr ps" and "list_all only_checks ps" and "ge_re env = python_re"
    and "messages_wf ms" and "messages_wf ms'"
    and "list_all (\<lambda>m. \<not> is_str (jget ''content'' m)) (ms @ ms')"
    and "evaluate_request env db ms model cid s = (Inr res, s1)"
    and "evaluate_request env db ms' model cid s = (Inr res', s2)"
  shows "pr_allowed res' = pr_allowed res"
proof -
  have "contents xs = []" if "list_all (\<lambda>m. \<not> is_str (jget ''content'' m)) xs" for xs
    using that by (induction xs) (auto simp: contents_def List.map_filter_def split: json.splits)
  with assms(6) have eq: "joined_text ms' = joined_text ms" by (simp add: joined_text_def)
  have "permits (ge_crypto env) model ms' p = permits (ge_crypto env) model ms p" for p
    unfolding permits_def on_topic_def eq ..
  with request_decision [OF assms(1-4,7)] request_decision [OF assms(1-3,5,8)] show ?thesis
    by (simp add: list_all_iff)
qed

lemma is_system_message [simp]: "has_system_role (system_message prompt)"
  by (simp add: has_system_role_def system_message_def jget_def dict_get_def)

lemma content_system_message [simp]: "jget ''content'' (system_message prompt) = prompt"
  by (simp add: system_message_def jget_def dict_get_def)

text \<open>Injecting the system prompt is idempotent: evaluating the rewritten conversation again finds
  the prompt at its head, once, and changes nothing.\<close>

theorem prompt_injected_once:
  assumes "load_policies cid db = Inr [p]" and "po_type p = SystemPromptInject"
    and "jget_or (JStr []) ''prompt'' (po_config p) = JStr t" and "t \<noteq> []"
    and "evaluate_request env db ms model cid s = (Inr res, s1)"
    and "pr_modified res = Some ms1" and "messages_wf ms1"
    and "evaluate_request env db ms1 model cid s' = (Inr res', s2)"
  shows "hd ms1 = system_message (JStr t) \<and> length (filter (\<lambda>m. has_system_role m \<and> jget ''content'' m = JStr t) ms1) = 1 \<and>
     pr_allowed res' \<and> pr_modified res' = None"
proof -
  let ?ms = "system_message (JStr t) # filter (\<lambda>m. \<not> (has_system_role m \<and> py_eq (jget ''content'' m) (JStr t))) ms"
  have one: "eval_policy env model p r xs s = (Inr (eval_inject p r xs), s)" for r xs s
    using assms(2) by (simp add: eval_policy_def)
  have run: "run_policies env model [p] r xs s = (Inr (eval_inject p r xs), s)" for r xs s
    by (auto simp: bnd_def one split: verdict.splits)
  have "ms1 = ?ms"
    using assms(1,3-6) by (auto simp: evaluate_request_def bnd_lift bnd_Inr [OF run] eval_inject_def Let_def finish_def
        allow_result_def add_applied_def split: if_splits simp del: run_policies.simps)
  moreover have "eval_inject p allow_result ?ms = Go (add_applied (''system_prompt_inject:'' @ po_name p) allow_result) ?ms"
    using assms(3,4) by (simp add: eval_inject_def Let_def filter_filter)
  ultimately have "run_policies env model [p] allow_result ms1 s' =
      (Inr (Go (add_applied (''system_prompt_inject:'' @ po_name p) allow_result) ms1), s')"
    by (simp only: run)
  then have "pr_allowed res' \<and> pr_modified res' = None"
    using assms(1,8) same_messages_refl [OF assms(7)]
    by (simp add: evaluate_request_def bnd_lift bnd_Inr finish_def add_applied_def allow_result_def del: run_policies.simps)
      (auto simp: allow_result_def)
  moreover have "filter (\<lambda>m. has_system_role m \<and> jget ''content'' m = JStr t)
      (filter (\<lambda>m. \<not> (has_system_role m \<and> py_eq (jget ''content'' m) (JStr t))) ms) = []"
    by (auto simp: filter_empty_conv)
  ultimately show ?thesis unfolding \<open>ms1 = ?ms\<close> by simp
qed



section \<open>Responses\<close>

lemma mask_pii_flag:
  "mask_pii re ps (tx, was) = Inr (t, b) \<Longrightarrow> (was \<longrightarrow> b) \<and> (\<not> b \<longrightarrow> t = tx)"
  by (induction ps arbitrary: tx was) (fastforce simp: rbind_Inr_iff split: if_splits)+

lemma mask_words_flag:
  "mask_words re ws (tx, was) = Inr (t, b) \<Longrightarrow> (was \<longrightarrow> b) \<and> (\<not> b \<longrightarrow> t = tx)"
  by (induction ws arbitrary: tx was) (fastforce simp: rbind_Inr_iff split: if_splits json.splits)+

lemma output_filter_flag:
  assumes "output_filter re config (tx, was) = Inr (t, b)"
  shows "(was \<longrightarrow> b) \<and> (\<not> b \<longrightarrow> t = tx)"
proof -
  obtain u c where u: "(u, c) = (tx, was) \<or> mask_pii re pii_patterns (tx, was) = Inr (u, c)"
      "(t, b) = (u, c) \<or> (\<exists>ws. mask_words re ws (u, c) = Inr (t, b))"
    using assms by (auto simp: output_filter_def rbind_Inr_iff split: if_splits)
  then show ?thesis using mask_pii_flag mask_words_flag by (metis prod.inject)
qed

lemma filter_response_flag:
  "filter_response re ps (tx, was) = Inr (t, b) \<Longrightarrow> (was \<longrightarrow> b)"
proof (induction ps arbitrary: tx was)
  case (Cons p ps)
  then show ?case by (auto simp: rbind_Inr_iff split: if_splits dest!: output_filter_flag)
qed simp

lemma filter_response_clean:
  "filter_response python_re ps (tx, False) = Inr (t, False) \<Longrightarrow>
   t = tx \<and> (\<forall>p \<in> set ps. po_type p = DataLeakagePrevent \<longrightarrow> (\<forall>q \<in> set data_leakage_patterns. \<not> pattern_occurs (fst q) tx))"
proof (induction ps)
  case (Cons p ps)
  show ?case
  proof (cases "po_type p = DataLeakagePrevent")
    case True
    obtain u ds where l: "check_data_leakage python_re tx = Inr (u, ds)"
        "ds = [] \<longleftrightarrow> (\<forall>q \<in> set data_leakage_patterns. \<not> pattern_occurs (fst q) tx)"
      using leakage_detections [of tx] by blast
    have "ds = []"
      using Cons.prems True l(1) filter_response_flag [of python_re ps u True t False] by (auto split: if_splits)
    with Cons l True show ?thesis by auto
  next
    case False
    show ?thesis
    proof (cases "po_type p = OutputFilter")
      case True
      then obtain u c where u: "output_filter python_re (po_config p) (tx, False) = Inr (u, c)"
          "filter_response python_re ps (u, c) = Inr (t, False)"
        using Cons.prems by (auto simp: rbind_Inr_iff)
      with filter_response_flag have "\<not> c" by blast
      with u output_filter_flag [OF u(1)] Cons.IH True show ?thesis by auto
    next
      case False
      with Cons \<open>po_type p \<noteq> DataLeakagePrevent\<close> show ?thesis by auto
    qed
  qed
qed simp

text \<open>A response reported as not filtered is delivered as it came, and when a leakage policy applies to
  the client none of the leakage patterns matches any stretch of it.\<close>

theorem unfiltered_response_is_clean:
  assumes "evaluate_response python_re db tx cid = Inr (t, False)" and "load_policies cid db = Inr ps"
  shows "t = tx \<and> ((\<exists>p \<in> set ps. po_type p = DataLeakagePrevent) \<longrightarrow>
     (\<forall>q \<in> set data_leakage_patterns. \<not> pattern_occurs (fst q) tx))"
  using filter_response_clean [of ps tx t] assms by (auto simp: evaluate_response_def)


section \<open>A failing guard model\<close>

text \<open>The guard model fails open: a policy in AI mode whose guard call fails, for whatever reason, or
  has no provider or model configured, lets the request pass unchanged.\<close>

theorem guard_failure_passes:
  assumes "po_type p = PromptInjectionDetect \<or> po_type p = JailbreakDetect"
    and "jget_or (JStr ''regex'') ''mode'' (po_config p) = JStr ''ai''"
    and "\<forall>k prov key url m t. \<exists>e. ge_call env k prov key url m t = Failed e"
    and "eval_policy env model p r ms s = (Inr v, s')"
  shows "v = Go r ms"
proof -
  have fail: "\<not> ai_threat a" if "ai_classify_threat env tx gp gm gu s = (Inr a, s2)" for tx gp gm gu a s s2
  proof -
    obtain e where "\<And>k prov key url m t. ge_call env k prov key url m t = Failed (e k prov key url m t)"
      using assms(3) by metis
    with that show ?thesis
      by (auto simp: ai_classify_threat_def guard_failed_def unsupported_def Let_def split: sum.splits if_splits prod.splits)
  qed
  have step: "x = (False, msg)" if "ai_step env config w label msg tx s = (Inr x, s2)" for config w label msg tx s x s2
    using that fail by (fastforce simp: ai_step_def bnd_def split: sum.splits prod.splits if_splits)
  have "\<not> regex_mode (JStr ''ai'')" by (simp add: regex_mode_def)
  with assms(1,2,4) show ?thesis
    by (auto simp: eval_policy_def eval_injection_def eval_jailbreak_def bnd_def threat_verdict_def Let_def
        split: sum.splits prod.splits if_splits dest: step)
qed



section \<open>Witnesses\<close>

definition silent_guard :: guard_env where
  "silent_guard = \<lparr>ge_re = python_re, ge_crypto = prefix_cipher, ge_lib = plain_lib, ge_settings = default_settings,
     ge_now = (\<lambda>_. 0), ge_call = (\<lambda>_ _ _ _ _ _. Failed \<lparr>ce_text = ''down'', ce_status = 0, ce_retry_after = None\<rparr>)\<rparr>"

definition guard_start :: guard_state where
  "guard_start = \<lparr>gs_pools = [], gs_calls = 0\<rparr>"

definition with_policy :: "string \<Rightarrow> jdict \<Rightarrow> database" where
  "with_policy typ config = snd (create_policy ''p1'' 0 ''P'' typ config None 1 empty_db)"

definition said :: "json \<Rightarrow> jdict list" where
  "said content = [[(''role'', JStr ''user''), (''content'', content)]]"

definition no_ab :: database where
  "no_ab = with_policy ''topic_block'' [(''blocked_keywords'', JList [JStr ''ab''])]"

definition no_ab_policy :: content_policy where
  "no_ab_policy = \<lparr>po_id = ''p1'', po_name = ''P'', po_type = TopicBlock,
     po_config = [(''blocked_keywords'', JList [JStr ''ab''])], po_active = True, po_applies = None, po_priority = 1\<rparr>"

lemma no_ab_loaded: "load_policies None no_ab = Inr [no_ab_policy]" "list_all only_checks [no_ab_policy]"
  by code_simp+

lemma request_decision_witness:
  "\<not> list_all (permits prefix_cipher ''m'' (said (JStr ''xAb''))) [no_ab_policy]"
proof -
  have e: "evaluate_request silent_guard no_ab (said (JStr ''xAb'')) ''m'' None guard_start =
      (Inr (reject ''topic_block:P'' (JStr ''This topic is blocked by policy.'') allow_result), guard_start)"
    by code_simp
  have w: "messages_wf (said (JStr ''xAb''))" "ge_re silent_guard = python_re" "ge_crypto silent_guard = prefix_cipher"
    by (simp_all add: messages_wf_def said_def silent_guard_def)
  from request_decision [OF no_ab_loaded w(2,1) e] show ?thesis by (simp add: reject_def add_applied_def w(3))
qed

lemma parts_are_not_checked_witness:
  "\<exists>res. evaluate_request silent_guard no_ab (said (JList [JObj [(''type'', JStr ''text''), (''text'', JStr ''ab'')]])) ''m'' None guard_start
      = (Inr res, guard_start) \<and> pr_allowed res"
proof -
  let ?a = "said (JList [JObj [(''type'', JStr ''text''), (''text'', JStr ''ab'')]])" and ?b = "said (JList [])"
  have e: "evaluate_request silent_guard no_ab ?a ''m'' None guard_start = (Inr allow_result, guard_start)"
      "evaluate_request silent_guard no_ab ?b ''m'' None guard_start = (Inr allow_result, guard_start)"
    by code_simp+
  have w: "ge_re silent_guard = python_re" "messages_wf ?a" "messages_wf ?b"
      "list_all (\<lambda>m. \<not> is_str (jget ''content'' m)) (?a @ ?b)"
    by (simp_all add: messages_wf_def said_def silent_guard_def jget_def dict_get_def)
  from parts_are_not_checked [OF no_ab_loaded w e] e show ?thesis by (simp add: allow_result_def)
qed

definition inject_hi :: content_policy where
  "inject_hi = \<lparr>po_id = ''p1'', po_name = ''P'', po_type = SystemPromptInject,
     po_config = [(''prompt'', JStr ''hi'')], po_active = True, po_applies = None, po_priority = 1\<rparr>"

lemma prompt_injected_once_witness:
  "\<exists>res. evaluate_request silent_guard (with_policy ''system_prompt_inject'' [(''prompt'', JStr ''hi'')])
      (system_message (JStr ''hi'') # said (JStr ''a'')) ''m'' None guard_start = (Inr res, guard_start) \<and> pr_modified res = None"
proof -
  let ?db = "with_policy ''system_prompt_inject'' [(''prompt'', JStr ''hi'')]" and ?m = "system_message (JStr ''hi'') # said (JStr ''a'')"
  let ?r = "add_applied ''system_prompt_inject:P'' allow_result"
  have l: "load_policies None ?db = Inr [inject_hi]" by code_simp
  have e: "evaluate_request silent_guard ?db (said (JStr ''a'')) ''m'' None guard_start = (Inr (?r\<lparr>pr_modified := Some ?m\<rparr>), guard_start)"
      "evaluate_request silent_guard ?db ?m ''m'' None guard_start = (Inr ?r, guard_start)"
    by code_simp+
  have p: "po_type inject_hi = SystemPromptInject" "jget_or (JStr []) ''prompt'' (po_config inject_hi) = JStr ''hi''" "''hi'' \<noteq> []"
      "messages_wf ?m"
    by (simp_all add: inject_hi_def jget_or_def dict_get_def messages_wf_def said_def system_message_def)
  from prompt_injected_once [OF l p(1-3) e(1) _ p(4) e(2)] e(2) show ?thesis by simp
qed

definition no_leaks :: content_policy where
  "no_leaks = \<lparr>po_id = ''p1'', po_name = ''P'', po_type = DataLeakagePrevent, po_config = [], po_active = True,
     po_applies = None, po_priority = 1\<rparr>"

lemma unfiltered_response_is_clean_witness:
  "list_all (\<lambda>q. \<not> pattern_occurs (fst q) ''ok'') data_leakage_patterns"
proof -
  have l: "load_policies None (with_policy ''data_leakage_prevent'' []) = Inr [no_leaks]" by code_simp
  have e: "evaluate_response python_re (with_policy ''data_leakage_prevent'' []) ''ok'' None = Inr (''ok'', False)" by code_simp
  from unfiltered_response_is_clean [OF e l] show ?thesis by (simp add: no_leaks_def list_all_iff)
qed

definition ai_policy :: content_policy where
  "ai_policy = \<lparr>po_id = ''p1'', po_name = ''P'', po_type = JailbreakDetect,
     po_config = [(''mode'', JStr ''ai''), (''guard_provider'', JStr ''ollama''), (''guard_model'', JStr ''g'')],
     po_active = True, po_applies = None, po_priority = 1\<rparr>"

lemma guard_failure_passes_witness:
  "eval_policy silent_guard ''m'' ai_policy allow_result (said (JStr ''jailbreak'')) guard_start =
     (Inr (Go allow_result (said (JStr ''jailbreak''))), guard_start\<lparr>gs_pools := [(''ollama'', new_pool ''ollama'')], gs_calls := 1\<rparr>)"
proof -
  have e: "\<exists>v. eval_policy silent_guard ''m'' ai_policy allow_result (said (JStr ''jailbreak'')) guard_start =
     (Inr v, guard_start\<lparr>gs_pools := [(''ollama'', new_pool ''ollama'')], gs_calls := 1\<rparr>)"
    by (rule exI [of _ "Go allow_result (said (JStr ''jailbreak''))"]) code_simp
  then obtain v where v: "eval_policy silent_guard ''m'' ai_policy allow_result (said (JStr ''jailbreak'')) guard_start =
     (Inr v, guard_start\<lparr>gs_pools := [(''ollama'', new_pool ''ollama'')], gs_calls := 1\<rparr>)" ..
  have a: "po_type ai_policy = JailbreakDetect" "jget_or (JStr ''regex'') ''mode'' (po_config ai_policy) = JStr ''ai''"
      "\<forall>k prov key url m t. \<exists>e. ge_call silent_guard k prov key url m t = Failed e"
    by (simp_all add: ai_policy_def silent_guard_def jget_or_def dict_get_def)
  from guard_failure_passes [OF disjI2 [OF a(1)] a(2,3) v] v show ?thesis by simp
qed

end
