(* ===== verification/Security.thy ===== *)
theory Security
  imports Catalog
begin

text \<open>
  \<open>security.py\<close> and \<open>password_utils.py\<close>: the password policy, and the middlewares that add headers, limit
  the size of requests, ban addresses after failed logins and check the headers of signed
  requests.  A middleware wraps an endpoint that works on a state of its own; the two phases of
  the ban middleware are separate operations, since other requests run between them.
\<close>


section \<open>Requests\<close>

text \<open>Header names are in lower case.\<close>

record http_request =
  rq_method :: string
  rq_path :: string
  rq_headers :: "(string, string) pydict"
  rq_cookies :: "(string, string) pydict"
  rq_client :: "string option"
  rq_id :: string
  rq_signing :: "(string \<times> string \<times> string) option"

record http_response =
  rs_status :: int
  rs_headers :: "(string, string) pydict"
  rs_body :: json

type_synonym 's endpoint = "http_request \<Rightarrow> ('s, http_response) io"

definition header :: "string \<Rightarrow> http_request \<Rightarrow> string" where
  "header k r = dict_get [] k (rq_headers r)"

definition get_client_ip :: "http_request \<Rightarrow> string" where
  "get_client_ip r =
     (let forwarded = header ''x-forwarded-for'' r in
      if forwarded \<noteq> [] then str_strip (hd (split_on CHR '','' forwarded))
      else case rq_client r of Some h \<Rightarrow> h | None \<Rightarrow> ''unknown'')"

definition json_response :: "int \<Rightarrow> jdict \<Rightarrow> http_response" where
  "json_response status content = \<lparr>rs_status = status, rs_headers = [], rs_body = JObj content\<rparr>"


section \<open>Passwords\<close>

text \<open>The bcrypt library: \<open>hashpw\<close> with a salt and \<open>checkpw\<close>, on bytes.\<close>

record bcrypt =
  bc_hashpw :: "string \<Rightarrow> string \<Rightarrow> string res"   \<comment> \<open>password, salt\<close>
  bc_checkpw :: "string \<Rightarrow> string \<Rightarrow> bool res"

definition hash_password :: "bcrypt \<Rightarrow> string \<Rightarrow> string \<Rightarrow> string res" where
  "hash_password bc salt password = rbind (bc_hashpw bc (utf8_encode password) salt) utf8_decode"

definition verify_password :: "bcrypt \<Rightarrow> string \<Rightarrow> string \<Rightarrow> bool" where
  "verify_password bc password hashed =
     (case bc_checkpw bc (utf8_encode password) (utf8_encode hashed) of Inl _ \<Rightarrow> False | Inr b \<Rightarrow> b)"

definition embedded_passwords :: "string list" where
  "embedded_passwords =
     [''password'', ''123456'', ''12345678'', ''qwerty'', ''abc123'', ''monkey'', ''1234567'', 
      ''letmein'', ''trustno1'', ''dragon'', ''baseball'', ''iloveyou'', ''master'', ''sunshine'', 
      ''ashley'', ''michael'', ''football'', ''shadow'', ''123456789'', ''1234567890'', ''password1'', 
      ''password123'', ''admin'', ''admin123'', ''root'', ''toor'', ''pass'', ''welcome'', 
      ''welcome1'', ''p@ssw0rd'', ''passw0rd'', ''hello'', ''charlie'', ''donald'', ''login'', 
      ''princess'', ''qwerty123'', ''starwars'', ''121212'', ''bailey'', ''access'', ''flower'', 
      ''555555'', ''passpass'', ''hello123'', ''lovely'', ''654321'', ''7777777'', ''123123'', 
      ''888888'', ''000000'', ''passwd'', ''jesus'', ''superman'', ''qazwsx'', ''hunter'', 
      ''hunter2'', ''zaq1zaq1'', ''zaq12wsx'', ''trustme'', ''changeme'', ''changeit'', ''whatever'', 
      ''freedom'', ''nothing'', ''internet'', ''computer'', ''master1'', ''qwert'', ''test'', 
      ''test123'', ''test1234'', ''1q2w3e4r'', ''1q2w3e'', ''1qaz2wsx'', ''qwe123'', ''123qwe'', 
      ''111111'', ''666666'', ''999999'', ''aaaaaa'', ''abcdef'', ''abcabc'', ''1234'', ''12345'', 
      ''123456a'', ''a123456'', ''password1!'', ''letmein1'', ''soccer'', ''hockey'', ''ranger'', 
      ''buster'', ''jordan'', ''harley'', ''pepper'', ''robert'', ''thomas'', ''summer'', ''george'', 
      ''jennifer'', ''ginger'', ''joshua'', ''matrix'', ''silver'', ''thunder'', ''hammer'', 
      ''dallas'', ''yankees'', ''corvette'', ''austin'', ''merlin'', ''maverick'', ''falcon'', 
      ''andrea'', ''daniel'', ''jessica'', ''anthony'', ''william'', ''victoria'', ''michelle'', 
      ''jasmine'', ''brandon'', ''andrew'', ''chicken'', ''elizabeth'', ''mercedes'', ''tigger'', 
      ''asshole'', ''fuckyou'', ''q1w2e3r4'', ''zxcvbn'', ''zxcvbnm'', ''qwertyuiop'', ''asdfgh'', 
      ''asdfghjkl'', ''1234qwer'', ''159753'', ''147258369'', ''abcd1234'', ''abc1234'', ''159357'', 
      ''112233'', ''a1b2c3'', ''kokakola'', ''123321'', ''1111'', ''11111111'', ''696969'', 
      ''131313'', ''admin1'', ''admin12'', ''admin1234'', ''administrator'', ''public'', ''guest'', 
      ''guest123'', ''default'', ''user'', ''user123'']"

text \<open>The lines of the data file, when there is one that can be read.\<close>

definition load_common_passwords :: "string list option \<Rightarrow> string list" where
  "load_common_passwords file =
     (case file of
        None \<Rightarrow> embedded_passwords
      | Some lines \<Rightarrow> map str_lower (filter (\<lambda>l. l \<noteq> [] \<and> \<not> prefix ''#'' l) (map str_strip lines)))"

text \<open>The messages of the policy are in Turkish; here they are constructors.\<close>

datatype password_error = TooShort int | NoUpper | NoLower | NoDigit | NoSpecial | TooCommon

definition char_between :: "char \<Rightarrow> char \<Rightarrow> char \<Rightarrow> bool" where
  "char_between a b c \<longleftrightarrow> (of_char a :: int) \<le> of_char c \<and> (of_char c :: int) \<le> of_char b"

definition is_special :: "char \<Rightarrow> bool" where
  "is_special c \<longleftrightarrow> c \<in> set (''!@#$%^&*()_+-=[]{};:|,.<>/?~'' @ [CHR 0x27, CHR 0x22, CHR 0x5C, CHR 0x60])"

definition validate_password :: "string list option \<Rightarrow> string \<Rightarrow> int \<Rightarrow> bool \<times> password_error list" where
  "validate_password file password min_length =
     (let errors =
        (if int (length password) < min_length then [TooShort min_length] else []) @
        (if \<not> list_ex (char_between CHR ''A'' CHR ''Z'') password then [NoUpper] else []) @
        (if \<not> list_ex (char_between CHR ''a'' CHR ''z'') password then [NoLower] else []) @
        (if \<not> list_ex (char_between CHR ''0'' CHR ''9'') password then [NoDigit] else []) @
        (if \<not> list_ex is_special password then [NoSpecial] else []) @
        (if str_lower password \<in> set (load_common_passwords file) then [TooCommon] else [])
      in (errors = [], errors))"

definition password_history :: "string \<Rightarrow> nat \<Rightarrow> database \<Rightarrow> password_history_row list" where
  "password_history user_id limit db =
     take limit (order_by (\<lambda>r r'. ph_created_at r' \<le> ph_created_at r) (filter (\<lambda>r. ph_user_id r = user_id) (t_password_history db)))"

definition check_password_history :: "bcrypt \<Rightarrow> string \<Rightarrow> string \<Rightarrow> nat \<Rightarrow> database \<Rightarrow> bool" where
  "check_password_history bc user_id new_password limit db =
     list_ex (\<lambda>r. verify_password bc new_password (ph_password_hash r)) (password_history user_id limit db)"


section \<open>Security headers and size limit\<close>

definition security_headers :: "(string \<times> string) list" where
  "security_headers =
     [(''x-content-type-options'', ''nosniff''), (''x-frame-options'', ''DENY''), (''x-xss-protection'', ''1; mode=block''),
      (''referrer-policy'', ''strict-origin-when-cross-origin''),
      (''permissions-policy'', ''camera=(), microphone=(), geolocation=(), payment=()''),
      (''content-security-policy'',
       concat [''default-src '', CHR 0x27 # ''self'', CHR 0x27 # ''; script-src '', CHR 0x27 # ''self'', CHR 0x27 # '' '',
               CHR 0x27 # ''unsafe-inline'', CHR 0x27 # '' '', CHR 0x27 # ''unsafe-eval'', CHR 0x27 # ''; style-src '',
               CHR 0x27 # ''self'', CHR 0x27 # '' '', CHR 0x27 # ''unsafe-inline'', CHR 0x27 # ''; img-src '',
               CHR 0x27 # ''self'', CHR 0x27 # '' data:; font-src '', CHR 0x27 # ''self'', CHR 0x27 # '' data:; connect-src '',
               CHR 0x27 # ''self'', CHR 0x27 # '' ws: wss:;''])]"

definition set_headers :: "(string \<times> string) list \<Rightarrow> http_response \<Rightarrow> http_response" where
  "set_headers hs r = r\<lparr>rs_headers := fold (\<lambda>(k, v). dict_set k v) hs (rs_headers r)\<rparr>"

definition security_headers_dispatch :: "string \<Rightarrow> 's endpoint \<Rightarrow> 's endpoint" where
  "security_headers_dispatch request_id call_next r =
     bnd (call_next (r\<lparr>rq_id := request_id\<rparr>)) (\<lambda>resp.
       ret (set_headers (security_headers @ [(''x-request-id'', request_id)]) resp))"

definition size_limit_dispatch :: "settings \<Rightarrow> 's endpoint \<Rightarrow> 's endpoint" where
  "size_limit_dispatch st call_next r =
     (let content_length = header ''content-length'' r; max_bytes = MAX_REQUEST_BODY_KB st * 1024 in
      if content_length = [] then call_next r
      else (case parse_int content_length of
              None \<Rightarrow> raise (ValueError content_length)
            | Some n \<Rightarrow>
                if n > max_bytes
                then ret (json_response 413 [(''error'', JStr ''Request body too large''),
                       (''detail'', JStr (''Maximum '' @ show_int (MAX_REQUEST_BODY_KB st) @ '' KB allowed''))])
                else call_next r))"


section \<open>Brute-force protection\<close>

record sec_state =
  ss_failures :: "(string, time list) pydict"
  ss_bans :: "(string, time) pydict"
  ss_nonces :: "(string, time) pydict"

definition new_sec_state :: sec_state where
  "new_sec_state = \<lparr>ss_failures = [], ss_bans = [], ss_nonces = []\<rparr>"

text \<open>Before the endpoint: the seconds left of a ban, or the ban forgotten when its time is over.\<close>

definition ban_check :: "time \<Rightarrow> string \<Rightarrow> sec_state \<Rightarrow> int option \<times> sec_state" where
  "ban_check now ip s =
     (case map_of (ss_bans s) ip of
        None \<Rightarrow> (None, s)
      | Some ban_until \<Rightarrow>
          if ban_until = 0 then (None, s)
          else if now < ban_until then (Some (py_trunc (ban_until - now)), s)
          else (None, s\<lparr>ss_bans := dict_pop ip (ss_bans s), ss_failures := dict_pop ip (ss_failures s)\<rparr>))"

definition auth_paths :: "string list" where
  "auth_paths = [''/v1/auth/token'', ''/v1/auth/ldap-login'', ''/admin/login'']"

text \<open>After the endpoint: a refused login is counted and may ban the address.\<close>

definition record_failure :: "settings \<Rightarrow> time \<Rightarrow> string \<Rightarrow> sec_state \<Rightarrow> sec_state" where
  "record_failure st now ip s =
     (let window = of_int (IP_BAN_DURATION_SECONDS st);
          fs = filter (\<lambda>t. now - t < window) (dict_get [] ip (ss_failures s)) @ [now];
          s1 = s\<lparr>ss_failures := dict_set ip fs (ss_failures s)\<rparr>
      in if int (length fs) \<ge> IP_BAN_THRESHOLD st then s1\<lparr>ss_bans := dict_set ip (now + window) (ss_bans s1)\<rparr> else s1)"

definition ban_record :: "settings \<Rightarrow> time \<Rightarrow> string \<Rightarrow> string \<Rightarrow> int \<Rightarrow> sec_state \<Rightarrow> sec_state" where
  "ban_record st now ip path status s =
     (if path \<in> set auth_paths \<and> status = 401 then record_failure st now ip s else s)"

definition brute_force_dispatch :: "settings \<Rightarrow> time \<Rightarrow> time \<Rightarrow> 's endpoint \<Rightarrow> http_request
    \<Rightarrow> (sec_state \<times> 's, http_response) io" where
  "brute_force_dispatch st before after call_next r = (\<lambda>(s, t).
     (let ip = get_client_ip r; (b, s1) = ban_check before ip s in
      case b of
        Some retry_after \<Rightarrow>
          (Inr ((json_response 429 [(''error'', JStr ''Too many failed attempts''), (''detail'', JStr ''IP temporarily banned'')])
             \<lparr>rs_headers := [(''retry-after'', show_int retry_after)]\<rparr>), (s1, t))
      | None \<Rightarrow>
          (case call_next r t of
             (Inl e, t') \<Rightarrow> (Inl e, (s1, t'))
           | (Inr resp, t') \<Rightarrow> (Inr resp, (ban_record st after ip (rq_path r) (rs_status resp) s1, t')))))"

definition get_banned_ips :: "time \<Rightarrow> sec_state \<Rightarrow> (string \<times> time \<times> int) list" where
  "get_banned_ips now s =
     map (\<lambda>(ip, u). (ip, u, py_trunc (u - now))) (filter (\<lambda>(ip, u). u > now) (ss_bans s))"

definition unban_ip :: "string \<Rightarrow> sec_state \<Rightarrow> bool \<times> sec_state" where
  "unban_ip ip s = (map_of (ss_bans s) ip \<noteq> None,
     s\<lparr>ss_bans := dict_pop ip (ss_bans s), ss_failures := dict_pop ip (ss_failures s)\<rparr>)"


section \<open>Signed requests\<close>

definition cleanup_old_nonces :: "int \<Rightarrow> time \<Rightarrow> sec_state \<Rightarrow> sec_state" where
  "cleanup_old_nonces max_age now s = s\<lparr>ss_nonces := filter (\<lambda>(k, v). \<not> now - v > of_int max_age) (ss_nonces s)\<rparr>"

definition signing_skip_paths :: "string list" where
  "signing_skip_paths = [''/v1/auth/token'', ''/v1/auth/ldap-login'', ''/v1/auth/refresh'']"

text \<open>The check of the three headers: an error body, or the request is let through.\<close>

definition check_signing :: "settings \<Rightarrow> time \<Rightarrow> string \<Rightarrow> string \<Rightarrow> string \<Rightarrow> sec_state \<Rightarrow> string option \<times> sec_state" where
  "check_signing st now timestamp_str nonce signature s =
     (if timestamp_str = [] \<or> nonce = [] \<or> signature = []
      then (Some ''Missing signing headers (X-Timestamp, X-Nonce, X-Signature)'', s)
      else case parse_int timestamp_str of
        None \<Rightarrow> (Some ''Invalid X-Timestamp format'', s)
      | Some timestamp \<Rightarrow>
          (let max_age = REQUEST_SIGNING_MAX_AGE_SECONDS st in
           if \<bar>py_trunc now - timestamp\<bar> > max_age then (Some ''Request expired'', s)
           else (let s1 = cleanup_old_nonces max_age now s in
                 if nonce \<in> set (map fst (ss_nonces s1)) then (Some ''Nonce reused'', s1)
                 else (None, s1\<lparr>ss_nonces := dict_set nonce now (ss_nonces s1)\<rparr>))))"

definition signing_dispatch :: "settings \<Rightarrow> time \<Rightarrow> 's endpoint \<Rightarrow> http_request \<Rightarrow> (sec_state \<times> 's, http_response) io" where
  "signing_dispatch st now call_next r = (\<lambda>(s, t).
     (let pass = (\<lambda>r s. let (x, t') = call_next r t in (x, (s, t'))) in
      if \<not> prefix ''/v1/'' (rq_path r) \<or> rq_method r = ''OPTIONS'' \<or> rq_path r \<in> set signing_skip_paths \<or>
         \<not> REQUIRE_REQUEST_SIGNING st
      then pass r s
      else (let ts = header ''x-timestamp'' r; nonce = header ''x-nonce'' r; sig = header ''x-signature'' r;
                (e, s1) = check_signing st now ts nonce sig s
            in case e of
                 Some msg \<Rightarrow> (Inr (json_response 401 [(''error'', JStr msg)]), (s1, t))
               | None \<Rightarrow> pass (r\<lparr>rq_signing := Some (ts, nonce, sig)\<rparr>) s1)))"

definition verify_request_signature :: "pylib \<Rightarrow> string \<Rightarrow> string \<Rightarrow> string \<Rightarrow> string \<Rightarrow> string \<Rightarrow> string \<Rightarrow> string \<Rightarrow> bool" where
  "verify_request_signature pl method path timestamp nonce body api_key provided_signature =
     (let message = method @ path @ timestamp @ nonce @ sha256_hex pl body
      in hmac_sha256_hex pl (utf8_encode api_key) (utf8_encode message) = provided_signature)"


section \<open>Bans hold\<close>

text \<open>What happens to the ban state while other requests run: checks, outcomes of logins.\<close>

datatype ban_event = Checked time string | Finished time string string int

fun event_time :: "ban_event \<Rightarrow> time" where
  "event_time (Checked t ip) = t"
| "event_time (Finished t ip path status) = t"

fun ban_step :: "settings \<Rightarrow> ban_event \<Rightarrow> sec_state \<Rightarrow> sec_state" where
  "ban_step st (Checked t ip) s = snd (ban_check t ip s)"
| "ban_step st (Finished t ip path status) s = ban_record st t ip path status s"

definition ban_run :: "settings \<Rightarrow> ban_event list \<Rightarrow> sec_state \<Rightarrow> sec_state" where
  "ban_run st es s = fold (ban_step st) es s"

text \<open>The ban of an address ends no earlier than \<open>u\<close>.\<close>

definition banned_at_least :: "string \<Rightarrow> time \<Rightarrow> sec_state \<Rightarrow> bool" where
  "banned_at_least ip u s \<longleftrightarrow> (\<exists>v. map_of (ss_bans s) ip = Some v \<and> u \<le> v)"

lemma banned_check: "banned_at_least ip u s \<Longrightarrow> t < u \<Longrightarrow> 0 < u \<Longrightarrow> fst (ban_check t ip s) \<noteq> None"
  by (auto simp: banned_at_least_def ban_check_def)

lemma ban_step_keeps:
  assumes "banned_at_least ip u s" and "0 < u" and "event_time e < u" and "u \<le> event_time e + of_int (IP_BAN_DURATION_SECONDS st)"
  shows "banned_at_least ip u (ban_step st e s)"
  using assms
  by (cases e) (auto simp: banned_at_least_def ban_check_def ban_record_def record_failure_def Let_def split: option.splits)

lemma ban_run_keeps:
  "banned_at_least ip u s \<Longrightarrow> 0 < u \<Longrightarrow>
   \<forall>e \<in> set es. event_time e < u \<and> u \<le> event_time e + of_int (IP_BAN_DURATION_SECONDS st) \<Longrightarrow>
   banned_at_least ip u (ban_run st es s)"
  unfolding ban_run_def by (induction es arbitrary: s) (auto intro: ban_step_keeps)

text \<open>C22.  When the failures of an address within the window reach the threshold, every request of that
  address is refused without reaching the endpoint until the ban's full time has passed,
  whatever checks and logins of any address happen meanwhile.\<close>

theorem ban_holds:
  assumes "IP_BAN_THRESHOLD st \<le>
      1 + int (length (filter (\<lambda>t. t0 - t < of_int (IP_BAN_DURATION_SECONDS st)) (dict_get [] (get_client_ip r) (ss_failures s))))"
    and "0 \<le> t0" and "0 < IP_BAN_DURATION_SECONDS st"
    and "\<forall>e \<in> set es. t0 \<le> event_time e \<and> event_time e \<le> t"
    and "t < t0 + of_int (IP_BAN_DURATION_SECONDS st)"
  shows "\<exists>resp s'. brute_force_dispatch st t after call_next r (ban_run st es (record_failure st t0 (get_client_ip r) s), x) =
    (Inr resp, (s', x)) \<and> rs_status resp = 429"
proof -
  let ?u = "t0 + of_int (IP_BAN_DURATION_SECONDS st)"
  have u: "0 < ?u" using assms(2,3) by (simp add: add_nonneg_pos)
  have "banned_at_least (get_client_ip r) ?u (record_failure st t0 (get_client_ip r) s)"
    using assms(1) by (simp add: banned_at_least_def record_failure_def Let_def)
  from ban_run_keeps [OF this u, of es st] assms(4,5)
  have "banned_at_least (get_client_ip r) ?u (ban_run st es (record_failure st t0 (get_client_ip r) s))" by fastforce
  from banned_check [OF this assms(5) u] show ?thesis
    by (auto simp: brute_force_dispatch_def json_response_def Let_def split: prod.splits)
qed

lemma ban_holds_witness:
  "let st = default_settings\<lparr>IP_BAN_THRESHOLD := 2, IP_BAN_DURATION_SECONDS := 60\<rparr>;
       r = \<lparr>rq_method = ''POST'', rq_path = ''/v1/auth/token'', rq_headers = [], rq_cookies = [], rq_client = Some ''h'',
            rq_id = [], rq_signing = None\<rparr>
   in \<exists>resp s'. brute_force_dispatch st 40 41 (\<lambda>_. ret (json_response 401 [])) r
        (ban_run st [Checked 30 ''h'', Finished 31 ''g'' ''/v1/auth/token'' 401]
          (record_failure st 20 ''h'' (record_failure st 10 ''h'' new_sec_state)), ()) = (Inr resp, (s', ())) \<and> rs_status resp = 429"
proof -
  let ?st = "default_settings\<lparr>IP_BAN_THRESHOLD := 2, IP_BAN_DURATION_SECONDS := 60\<rparr>"
  let ?r = "\<lparr>rq_method = ''POST'', rq_path = ''/v1/auth/token'', rq_headers = [], rq_cookies = [], rq_client = Some ''h'',
            rq_id = [], rq_signing = None\<rparr>"
  have ip: "get_client_ip ?r = ''h''" by (simp add: get_client_ip_def header_def dict_get_def)
  have f: "ss_failures (record_failure ?st 10 ''h'' new_sec_state) = [(''h'', [10])]"
    by (simp add: record_failure_def new_sec_state_def dict_get_def Let_def)
  show ?thesis
    using ban_holds [of ?st 20 ?r "record_failure ?st 10 ''h'' new_sec_state" "[Checked 30 ''h'', Finished 31 ''g'' ''/v1/auth/token'' 401]" 40
        41 "\<lambda>_. ret (json_response 401 [])" "()"]
    by (simp add: Let_def ip f dict_get_def)
qed


section \<open>Nonces\<close>

lemma check_signing_None:
  "check_signing st t ts nonce sig s = (None, s') \<Longrightarrow> map_of (ss_nonces s') nonce = Some t"
  by (auto simp: check_signing_def Let_def split: if_splits option.splits)

lemma map_of_filter_keeps: "map_of d k = Some v \<Longrightarrow> P (k, v) \<Longrightarrow> map_of (filter P d) k = Some v"
  by (induction d) (auto split: if_splits)

lemma cleanup_keeps:
  "map_of (ss_nonces s) nonce = Some t1 \<Longrightarrow> t - t1 \<le> of_int age \<Longrightarrow>
   map_of (ss_nonces (cleanup_old_nonces age t s)) nonce = Some t1"
  by (simp add: cleanup_old_nonces_def map_of_filter_keeps)

text \<open>A stored nonce survives every other check within its age.\<close>

lemma check_signing_keeps:
  assumes "map_of (ss_nonces s) nonce = Some t1" and "t - t1 \<le> of_int (REQUEST_SIGNING_MAX_AGE_SECONDS st)"
  shows "map_of (ss_nonces (snd (check_signing st t ts n sig s))) nonce = Some t1"
proof -
  have c: "map_of (ss_nonces (cleanup_old_nonces (REQUEST_SIGNING_MAX_AGE_SECONDS st) t s)) nonce = Some t1"
    by (rule cleanup_keeps [OF assms])
  then have "n = nonce \<Longrightarrow> n \<in> set (map fst (ss_nonces (cleanup_old_nonces (REQUEST_SIGNING_MAX_AGE_SECONDS st) t s)))"
    by (force dest: map_of_SomeD)
  with c assms show ?thesis by (auto simp: check_signing_def Let_def split: option.splits)
qed

definition signing_run :: "settings \<Rightarrow> (time \<times> string \<times> string \<times> string) list \<Rightarrow> sec_state \<Rightarrow> sec_state" where
  "signing_run st cs s = fold (\<lambda>(t, ts, n, sig) s. snd (check_signing st t ts n sig s)) cs s"

lemma signing_run_keeps:
  "map_of (ss_nonces s) nonce = Some t1 \<Longrightarrow> \<forall>c \<in> set cs. fst c - t1 \<le> of_int (REQUEST_SIGNING_MAX_AGE_SECONDS st) \<Longrightarrow>
   map_of (ss_nonces (signing_run st cs s)) nonce = Some t1"
  unfolding signing_run_def by (induction cs arbitrary: s) (auto simp: check_signing_keeps)

text \<open>A signed request cannot be replayed within the maximum age of its first acceptance, whatever
  other requests are checked meanwhile.  Afterwards it can: with a time stamp as far in the
  future as is accepted, the same headers pass again after twice the maximum age.\<close>

theorem nonce_window:
  assumes "check_signing st t1 ts nonce sig s = (None, s1)"
    and "\<forall>c \<in> set cs. fst c \<le> t2" and "t2 - t1 \<le> of_int (REQUEST_SIGNING_MAX_AGE_SECONDS st)"
    and "0 < REQUEST_SIGNING_MAX_AGE_SECONDS st" and "0 \<le> k"
  shows "fst (check_signing st t2 ts' nonce sig' (signing_run st cs s1)) \<noteq> None \<and>
    (let age = REQUEST_SIGNING_MAX_AGE_SECONDS st; stamp = show_int (k + age);
         (e1, u1) = check_signing st (of_int k) stamp ''n'' ''sig'' new_sec_state
     in e1 = None \<and> fst (check_signing st (of_int (k + 2 * age)) stamp ''n'' ''sig'' u1) = None)"
proof
  have n: "map_of (ss_nonces (signing_run st cs s1)) nonce = Some t1"
    by (rule signing_run_keeps [OF check_signing_None [OF assms(1)]]) (use assms(2,3) in fastforce)
  show "fst (check_signing st t2 ts' nonce sig' (signing_run st cs s1)) \<noteq> None"
  proof
    assume "fst (check_signing st t2 ts' nonce sig' (signing_run st cs s1)) = None"
    then obtain s2 where s2: "check_signing st t2 ts' nonce sig' (signing_run st cs s1) = (None, s2)"
      by (cases "check_signing st t2 ts' nonce sig' (signing_run st cs s1)") auto
    let ?c = "cleanup_old_nonces (REQUEST_SIGNING_MAX_AGE_SECONDS st) t2 (signing_run st cs s1)"
    have "map_of (ss_nonces ?c) nonce = Some t1"
      by (rule cleanup_keeps [OF n assms(3)])
    then have "nonce \<in> set (map fst (ss_nonces ?c))" by (force dest: map_of_SomeD)
    with s2 show False by (auto simp: check_signing_def Let_def split: if_splits option.splits)
  qed
next
  have [simp]: "show_int i \<noteq> []" for i by (simp add: show_int_def)
  have [simp]: "py_trunc (of_int i) = i" for i by (simp add: py_trunc_def)
  have "(of_int (k + 2 * REQUEST_SIGNING_MAX_AGE_SECONDS st) :: rat) - of_int k > of_int (REQUEST_SIGNING_MAX_AGE_SECONDS st)"
    using assms(4) by simp
  then show "let age = REQUEST_SIGNING_MAX_AGE_SECONDS st; stamp = show_int (k + age);
         (e1, u1) = check_signing st (of_int k) stamp ''n'' ''sig'' new_sec_state
     in e1 = None \<and> fst (check_signing st (of_int (k + 2 * age)) stamp ''n'' ''sig'' u1) = None"
    using assms(4,5)
    by (auto simp: check_signing_def parse_show_int cleanup_old_nonces_def new_sec_state_def Let_def simp del: of_int_add of_int_mult)
qed

lemma nonce_window_witness:
  "fst (check_signing default_settings 9 ''5'' ''n'' ''x'' (snd (check_signing default_settings 8 ''8'' ''m'' ''x''
     (snd (check_signing default_settings 5 ''5'' ''n'' ''x'' new_sec_state))))) \<noteq> None"
proof -
  have age: "REQUEST_SIGNING_MAX_AGE_SECONDS default_settings = 300"
    by (simp add: default_settings_def)
  have "check_signing default_settings 5 ''5'' ''n'' ''x'' new_sec_state =
      (None, new_sec_state\<lparr>ss_nonces := [(''n'', 5)]\<rparr>)"
    by (simp add: check_signing_def age new_sec_state_def cleanup_old_nonces_def Let_def py_trunc_def parse_int_def
        str_strip_def is_space_def digit_val_def)
  from nonce_window [OF this, of "[(8, ''8'', ''m'', ''x'')]" 9 0 "''5''" "''x''"] show ?thesis
    by (simp add: age signing_run_def check_signing_def new_sec_state_def cleanup_old_nonces_def Let_def py_trunc_def parse_int_def
        str_strip_def is_space_def digit_val_def)
qed

end
