(* ===== verification/Auth.thy ===== *)
theory Auth
  imports Security RedisClient
begin

text \<open>
  \<open>auth.py\<close>: API keys, access and refresh tokens with the list of active sessions, local and LDAP
  login with lockout, the dependencies that authenticate and authorise a request, and the
  endpoints.  The state is the key-value store and the database.  Libraries are parameters:
  JWT signing, bcrypt, LDAP, the ISO text of a date.  Random values (token and row
  identifiers, refresh tokens) are arguments.
\<close>


section \<open>Libraries\<close>

record jwt_claims =
  jc_sub :: string
  jc_roles :: "string list"
  jc_exp :: int
  jc_iat :: int
  jc_jti :: string
  jc_ip :: string
  jc_fp :: string

datatype jwt_error = ExpiredSignatureError | InvalidTokenError string

record jwt_lib =
  jwt_encode :: "jwt_claims \<Rightarrow> string \<Rightarrow> string \<Rightarrow> string"   \<comment> \<open>claims, secret, algorithm\<close>
  jwt_decode :: "time \<Rightarrow> bool \<Rightarrow> string \<Rightarrow> string \<Rightarrow> string \<Rightarrow> jwt_error + jwt_claims"
    \<comment> \<open>clock, verify expiry, token, secret, algorithm\<close>

text \<open>
  The documented behaviour the properties rely on: a token decodes with the secret it was signed
  with until its expiry, and with no other secret.
\<close>

definition jwt_ok :: "jwt_lib \<Rightarrow> bool" where
  "jwt_ok jl \<longleftrightarrow>
     (\<forall>c k a now v. of_int (jc_iat c) \<le> now \<longrightarrow>
        jwt_decode jl now v (jwt_encode jl c k a) k a = (if v \<and> of_int (jc_exp c) \<le> now then Inl ExpiredSignatureError else Inr c)) \<and>
     (\<forall>c k a. jwt_encode jl c k a \<noteq> []) \<and>
     (\<forall>c k a k' now v. k' \<noteq> k \<longrightarrow> (\<exists>m. jwt_decode jl now v (jwt_encode jl c k a) k' a = Inl (InvalidTokenError m)))"

text \<open>LDAP: the search with the service account gives entries (name, groups); a bind checks a password.\<close>

record ldap_lib =
  ld_search :: "string \<Rightarrow> (string \<times> string list) list res"
  ld_bind :: "string \<Rightarrow> string \<Rightarrow> bool res"

record 's auth_env =
  ae_ops :: "'s redis_ops"
  ae_settings :: settings
  ae_jwt :: jwt_lib
  ae_lib :: pylib
  ae_bcrypt :: bcrypt
  ae_ldap :: "ldap_lib option"
  ae_iso :: "time \<Rightarrow> string"
  ae_iso_parse :: "string \<Rightarrow> time option"
  ae_common :: "string list option"

type_synonym 's auth_state = "'s \<times> database"

definition on_store :: "('s, 'a) io \<Rightarrow> ('s auth_state, 'a) io" where
  "on_store m = (\<lambda>(s, db). let (x, s') = m s in (x, (s', db)))"

definition sv_truthy :: "sval option \<Rightarrow> bool" where
  "sv_truthy x = (case x of None \<Rightarrow> False | Some (SStr s) \<Rightarrow> s \<noteq> [] | Some _ \<Rightarrow> True)"

definition sv_text :: "sval option \<Rightarrow> string" where
  "sv_text x = (case x of Some (SStr s) \<Rightarrow> s | _ \<Rightarrow> [])"


section \<open>API keys and tokens\<close>

definition generate_api_key :: "string \<Rightarrow> string" where
  "generate_api_key hex = ''sk-proxy-'' @ hex"

definition hash_api_key :: "pylib \<Rightarrow> string \<Rightarrow> string" where
  "hash_api_key pl key = sha256_hex pl (utf8_encode key)"

definition verify_api_key :: "pylib \<Rightarrow> string \<Rightarrow> string \<Rightarrow> bool" where
  "verify_api_key pl provided stored_hash \<longleftrightarrow> hash_api_key pl provided = stored_hash"

definition fingerprint :: "pylib \<Rightarrow> string \<Rightarrow> string option \<Rightarrow> string" where
  "fingerprint pl ip user_agent =
     take 16 (sha256_hex pl (utf8_encode (ip @ '':'' @ (case user_agent of None \<Rightarrow> [] | Some u \<Rightarrow> u))))"

definition token_ttl :: "settings \<Rightarrow> int" where
  "token_ttl st = JWT_EXPIRY_HOURS st * 3600"

text \<open>Dates in a token are whole seconds.\<close>

definition create_access_token :: "'s auth_env \<Rightarrow> time \<Rightarrow> string \<Rightarrow> string \<Rightarrow> string list \<Rightarrow> string \<Rightarrow> string option
    \<Rightarrow> string \<times> string \<times> time" where
  "create_access_token env now jti subject roles ip user_agent =
     (let st = ae_settings env;
          expires_at = now + of_int (token_ttl st);
          payload = \<lparr>jc_sub = subject, jc_roles = roles, jc_exp = \<lfloor>expires_at\<rfloor>, jc_iat = \<lfloor>now\<rfloor>, jc_jti = jti, jc_ip = ip,
                     jc_fp = fingerprint (ae_lib env) ip user_agent\<rparr>
      in (jwt_encode (ae_jwt env) payload (JWT_SECRET st) (JWT_ALGORITHM st), jti, expires_at))"

record token_response =
  tr_access_token :: string
  tr_refresh_token :: string
  tr_expires_in :: int

definition sessions_key :: "string \<Rightarrow> string" where
  "sessions_key subject = ''sessions:'' @ subject"

definition detail_key :: "string \<Rightarrow> string" where
  "detail_key subject = ''sessions_detail:'' @ subject"

definition revoked_key :: "string \<Rightarrow> string" where
  "revoked_key jti = ''revoked:'' @ jti"

definition info_key :: "string \<Rightarrow> string" where
  "info_key jti = ''session_info:'' @ jti"

text \<open>The revocation of one of the oldest sessions, and of as many as are in excess.\<close>

definition evict :: "'s auth_env \<Rightarrow> time \<Rightarrow> string \<Rightarrow> string \<Rightarrow> ('s, unit) io" where
  "evict env now subject old_jti =
     (let ops = ae_ops env in
      bnd (r_set_with_ttl ops now (revoked_key old_jti) ''1'' (token_ttl (ae_settings env))) (\<lambda>_.
      bnd (r_set_remove ops now (sessions_key subject) [old_jti]) (\<lambda>_.
      bnd (r_zremrangebyscore ops now (detail_key subject) 0 (Some 0)) (\<lambda>_. ret ()))))"

definition enforce_max_sessions :: "'s auth_env \<Rightarrow> time \<Rightarrow> string \<Rightarrow> ('s, unit) io" where
  "enforce_max_sessions env now subject =
     (let ops = ae_ops env; most = JWT_MAX_SESSIONS (ae_settings env) in
      bnd (r_set_members ops now (sessions_key subject)) (\<lambda>active.
        if int (length active) \<ge> most
        then bnd (r_zrangebyscore ops now (detail_key subject) 0 None) (\<lambda>all_sessions.
               for_each (take (nat (int (length active) - most + 1)) all_sessions) (evict env now subject))
        else ret ()))"

definition session_info :: "'s auth_env \<Rightarrow> time \<Rightarrow> string \<Rightarrow> string \<Rightarrow> string \<Rightarrow> string option \<Rightarrow> time \<Rightarrow> json" where
  "session_info env now jti subject ip user_agent expires_at =
     JObj [(''jti'', JStr jti), (''subject'', JStr subject), (''ip'', JStr ip),
           (''user_agent'', JStr (case user_agent of None \<Rightarrow> [] | Some u \<Rightarrow> u)),
           (''created_at'', JStr (ae_iso env now)), (''expires_at'', JStr (ae_iso env expires_at))]"

definition track_session :: "'s auth_env \<Rightarrow> time \<Rightarrow> string \<Rightarrow> string \<Rightarrow> string \<Rightarrow> string option \<Rightarrow> time \<Rightarrow> ('s, unit) io" where
  "track_session env now jti subject ip user_agent expires_at =
     (let ops = ae_ops env; ttl = token_ttl (ae_settings env) in
      bnd (r_set_add ops now (sessions_key subject) [jti]) (\<lambda>_.
      bnd (r_expire ops now (sessions_key subject) (ttl + 300)) (\<lambda>_.
      bnd (r_zadd ops now (detail_key subject) [(jti, now)]) (\<lambda>_.
      bnd (r_expire ops now (detail_key subject) (ttl + 300)) (\<lambda>_.
      r_set_with_ttl ops now (info_key jti)
        (json_dumps (ae_lib env) (session_info env now jti subject ip user_agent expires_at)) ttl)))))"

definition token_digest :: "pylib \<Rightarrow> string \<Rightarrow> string" where
  "token_digest pl v = sha256_hex pl (utf8_encode v)"

text \<open>The digest of a refresh token is a unique column.\<close>

definition store_refresh_token :: "'s auth_env \<Rightarrow> time \<Rightarrow> string \<Rightarrow> string \<Rightarrow> string \<Rightarrow> string \<Rightarrow> string option \<Rightarrow> (database, unit) io" where
  "store_refresh_token env now row_id value subject ip user_agent db =
     (let digest = token_digest (ae_lib env) value;
          row = \<lparr>rt_id = row_id, rt_client_id = subject, rt_token_hash = digest,
                 rt_expires_at = now + of_int (JWT_REFRESH_EXPIRY_DAYS (ae_settings env) * 86400), rt_revoked_at = None,
                 rt_ip = Some ip, rt_user_agent = user_agent\<rparr>
      in if list_ex (\<lambda>r. rt_token_hash r = digest) (t_refresh_tokens db) then (Inl IntegrityError, db)
         else (Inr (), db\<lparr>t_refresh_tokens := t_refresh_tokens db @ [row]\<rparr>))"

definition on_db :: "(database, 'a) io \<Rightarrow> ('s auth_state, 'a) io" where
  "on_db m = (\<lambda>(s, db). let (x, db') = with_db m db in (x, (s, db')))"

text \<open>The random values of a token pair: token identifier, refresh token, row identifier.\<close>

type_synonym token_ids = "string \<times> string \<times> string"

definition create_token_pair :: "'s auth_env \<Rightarrow> time \<Rightarrow> token_ids \<Rightarrow> string \<Rightarrow> string list \<Rightarrow> string \<Rightarrow> string option
    \<Rightarrow> ('s auth_state, token_response) io" where
  "create_token_pair env now ids subject roles ip user_agent =
     (case ids of (jti0, refresh_value, row_id) \<Rightarrow>
      bnd (on_store (enforce_max_sessions env now subject)) (\<lambda>_.
      (case create_access_token env now jti0 subject roles ip user_agent of (access_token, jti, expires_at) \<Rightarrow>
      bnd (on_store (track_session env now jti subject ip user_agent expires_at)) (\<lambda>_.
      bnd (on_db (store_refresh_token env now row_id refresh_value subject ip user_agent)) (\<lambda>_.
      ret \<lparr>tr_access_token = access_token, tr_refresh_token = refresh_value, tr_expires_in = token_ttl (ae_settings env)\<rparr>)))))"

text \<open>The first secret that verifies the token; an expired token ends the search.\<close>

fun try_secrets :: "'s auth_env \<Rightarrow> time \<Rightarrow> string \<Rightarrow> string list \<Rightarrow> string \<Rightarrow> jwt_claims res" where
  "try_secrets env now token [] last_error = Inl (HTTPException 401 (''Invalid token: '' @ last_error))"
| "try_secrets env now token (secret # ss) last_error =
     (if secret = [] then try_secrets env now token ss last_error
      else case jwt_decode (ae_jwt env) now True token secret (JWT_ALGORITHM (ae_settings env)) of
             Inr payload \<Rightarrow> Inr payload
           | Inl ExpiredSignatureError \<Rightarrow> Inl (HTTPException 401 ''Token expired'')
           | Inl (InvalidTokenError e) \<Rightarrow> try_secrets env now token ss e)"

definition decode_token :: "'s auth_env \<Rightarrow> time \<Rightarrow> string \<Rightarrow> string \<Rightarrow> ('s, jwt_claims) io" where
  "decode_token env now token request_ip s =
     (let st = ae_settings env in
      case try_secrets env now token [JWT_SECRET st, JWT_SECRET_PREVIOUS st] ''None'' of
        Inl e \<Rightarrow> (Inl e, s)
      | Inr payload \<Rightarrow>
          if JWT_BIND_IP st \<and> request_ip \<noteq> [] \<and> jc_ip payload \<noteq> [] \<and> jc_ip payload \<noteq> request_ip
          then (Inl (HTTPException 401 ''Token IP mismatch''), s)
          else if jc_jti payload = [] then (Inr payload, s)
          else bnd (r_get_value (ae_ops env) now (revoked_key (jc_jti payload))) (\<lambda>revoked.
                 if sv_truthy revoked then raise (HTTPException 401 ''Token has been revoked'') else ret payload) s)"


section \<open>Login\<close>

definition lockout_key :: "string \<Rightarrow> string" where
  "lockout_key username = ''auth_lockout:'' @ username"

definition failures_key :: "string \<Rightarrow> string" where
  "failures_key username = ''auth_failures:'' @ username"

definition record_auth_failure :: "'s redis_ops \<Rightarrow> time \<Rightarrow> string \<Rightarrow> ('s, unit) io" where
  "record_auth_failure ops now username =
     bnd (r_increment ops now (failures_key username) 1) (\<lambda>count.
     bnd (r_expire ops now (failures_key username) 900) (\<lambda>_.
     if count \<ge> 5 then r_set_with_ttl ops now (lockout_key username) ''1'' 900 else ret ()))"

text \<open>Role lists hold strings.\<close>

definition roles_of :: "json \<Rightarrow> string list \<Rightarrow> string list" where
  "roles_of v dflt = (case v of JList xs \<Rightarrow> map str_val xs | _ \<Rightarrow> dflt)"

definition local_authenticate :: "'s auth_env \<Rightarrow> time \<Rightarrow> string \<Rightarrow> string \<Rightarrow> ('s auth_state, bool \<times> string list) io" where
  "local_authenticate env now username password =
     (let ops = ae_ops env; fail = bnd (on_store (record_auth_failure ops now username)) (\<lambda>_. ret (False, [])) in
      bnd (on_store (r_get_value ops now (lockout_key username))) (\<lambda>locked.
        if sv_truthy locked then ret (False, [])
        else (\<lambda>(s, db).
          case find (\<lambda>u. lu_username u = username \<and> lu_is_active u) (t_local_users db) of
            None \<Rightarrow> fail (s, db)
          | Some user \<Rightarrow>
              if \<not> verify_password (ae_bcrypt env) password (lu_password_hash user) then try_except fail (\<lambda>_. fail) (s, db)
              else bnd (on_store (r_delete_key ops now (failures_key username))) (\<lambda>_ (s, db).
                     (Inr (True, roles_of (lu_roles user) []),
                      (s, db\<lparr>t_local_users := update_first (\<lambda>u. lu_username u = username \<and> lu_is_active u)
                               (\<lambda>u. u\<lparr>lu_last_login_at := Some now\<rparr>) (t_local_users db)\<rparr>))) (s, db))))"

fun replace_all :: "nat \<Rightarrow> string \<Rightarrow> string \<Rightarrow> string \<Rightarrow> string" where
  "replace_all 0 old new s = s"
| "replace_all (Suc f) old new s =
     (if s = [] then []
      else if prefix old s \<and> old \<noteq> [] then new @ replace_all f old new (drop (length old) s)
      else hd s # replace_all f old new (tl s))"

text \<open>\<open>s.replace(old, new)\<close> for a text to be replaced that is not empty.\<close>

definition str_replace :: "string \<Rightarrow> string \<Rightarrow> string \<Rightarrow> string" where
  "str_replace old new s = replace_all (length s) old new s"

definition ldap_roles :: "settings \<Rightarrow> string list \<Rightarrow> string list" where
  "ldap_roles st member_of =
     (if LDAP_ADMIN_GROUP st \<in> set member_of then [''admin'']
      else if LDAP_OPERATOR_GROUP st \<in> set member_of then [''operator''] else [''viewer''])"

definition ldap_key :: "string \<Rightarrow> string" where
  "ldap_key username = ''ldap_cache:'' @ username"

text \<open>Any exception of the directory, or of storing the result, is a refusal.\<close>

definition ldap_authenticate :: "'s auth_env \<Rightarrow> time \<Rightarrow> string \<Rightarrow> string \<Rightarrow> ('s, bool \<times> string list \<times> string) io" where
  "ldap_authenticate env now username password =
     (let st = ae_settings env; refused = ret (False, [], []) in
      if \<not> LDAP_ENABLED st then refused
      else bnd (r_get_value (ae_ops env) now (ldap_key username)) (\<lambda>_.
        case ae_ldap env of
          None \<Rightarrow> refused
        | Some ld \<Rightarrow>
            (case ld_search ld (str_replace ''{username}'' username (LDAP_USER_FILTER st)) of
               Inr ((user_dn, member_of) # _) \<Rightarrow>
                 (case ld_bind ld user_dn password of
                    Inr True \<Rightarrow>
                      try_except
                        (bnd (r_set_with_ttl (ae_ops env) now (ldap_key username)
                               (json_dumps (ae_lib env) (JObj [(''roles'', JList (map JStr (ldap_roles st member_of))), (''dn'', JStr user_dn)]))
                               (LDAP_CACHE_TTL_SECONDS st))
                           (\<lambda>_. ret (True, ldap_roles st member_of, user_dn)))
                        (\<lambda>_. refused)
                  | _ \<Rightarrow> refused)
             | _ \<Rightarrow> refused)))"

definition log_audit :: "string \<Rightarrow> time \<Rightarrow> string \<Rightarrow> string option \<Rightarrow> string option \<Rightarrow> string option \<Rightarrow> string option \<Rightarrow> bool
    \<Rightarrow> ('s auth_state, unit) io" where
  "log_audit uid now event_type actor target detail ip success = (\<lambda>(s, db).
     (Inr (), (s, db\<lparr>t_audit_logs := t_audit_logs db @
        [\<lparr>al_id = uid, al_timestamp = now, al_event_type = event_type, al_actor = actor, al_target = target, al_detail = detail,
          al_ip = ip, al_success = success\<rparr>]\<rparr>)))"



section \<open>The user of a request\<close>

record auth_user =
  au_name :: string
  au_roles :: "string list"
  au_permissions :: "string list"
  au_client_id :: "string option"
  au_is_api_client :: bool

definition token_user :: "jwt_claims \<Rightarrow> auth_user" where
  "token_user payload = \<lparr>au_name = jc_sub payload, au_roles = jc_roles payload, au_permissions = [''*''],
     au_client_id = None, au_is_api_client = False\<rparr>"

definition client_user :: "client_row \<Rightarrow> auth_user" where
  "client_user c = \<lparr>au_name = cl_name c, au_roles = roles_of (cl_roles c) [''api_client''],
     au_permissions = roles_of (cl_permissions c) [''*''], au_client_id = Some (cl_id c), au_is_api_client = True\<rparr>"

definition request_api_key :: "http_request \<Rightarrow> string" where
  "request_api_key r =
     (let api_key = header ''x-api-key'' r; auth = header ''authorization'' r in
      if api_key \<noteq> [] then api_key else if prefix ''Bearer sk-proxy-'' auth then drop 7 auth else [])"

text \<open>\<open>credentials\<close> is what FastAPI's bearer scheme takes from the header.\<close>

definition get_current_user :: "'s auth_env \<Rightarrow> time \<Rightarrow> http_request \<Rightarrow> string option \<Rightarrow> ('s auth_state, auth_user) io" where
  "get_current_user env now r credentials =
     (let ip = get_client_ip r; api_key = request_api_key r; jwt_cookie = dict_get [] ''access_token'' (rq_cookies r) in
      if api_key \<noteq> [] then
        (\<lambda>(s, db).
          case find (\<lambda>c. cl_api_key_hash c = hash_api_key (ae_lib env) api_key \<and> cl_is_active c) (t_clients db) of
            None \<Rightarrow> (Inl (HTTPException 401 ''Invalid API key''), (s, db))
          | Some c \<Rightarrow> (Inr (client_user c), (s, db)))
      else case credentials of
        Some (ch # cs) \<Rightarrow> bnd (on_store (decode_token env now (ch # cs) ip)) (\<lambda>p. ret (token_user p))
      | _ \<Rightarrow>
          if jwt_cookie \<noteq> [] then bnd (on_store (decode_token env now jwt_cookie ip)) (\<lambda>p. ret (token_user p))
          else raise (HTTPException 401 ''Authentication required''))"

definition verify_admin :: "auth_user \<Rightarrow> auth_user res" where
  "verify_admin user = (if ''admin'' \<in> set (au_roles user) then Inr user else Inl (HTTPException 403 ''Admin role required''))"

definition verify_admin_or_client :: "auth_user \<Rightarrow> auth_user res" where
  "verify_admin_or_client user =
     (if list_ex (\<lambda>r. r \<in> {''admin'', ''operator'', ''api_client''}) (au_roles user) then Inr user
      else Inl (HTTPException 403 ''Insufficient role''))"

definition verify_role :: "string \<Rightarrow> auth_user \<Rightarrow> auth_user res" where
  "verify_role required user =
     (if required \<in> set (au_roles user) then Inr user
      else Inl (HTTPException 403 (''Role '' @ [CHR 0x27] @ required @ [CHR 0x27] @ '' required'')))"

definition verify_permission :: "string \<Rightarrow> auth_user \<Rightarrow> auth_user res" where
  "verify_permission required user =
     (if ''*'' \<in> set (au_permissions user) \<or> required \<in> set (au_permissions user) then Inr user
      else Inl (HTTPException 403 (''Permission '' @ [CHR 0x27] @ required @ [CHR 0x27] @ '' required'')))"


section \<open>Endpoints\<close>

definition user_agent :: "http_request \<Rightarrow> string option" where
  "user_agent r = map_of (rq_headers r) ''user-agent''"

definition login :: "'s auth_env \<Rightarrow> time \<Rightarrow> string \<Rightarrow> token_ids \<Rightarrow> string \<Rightarrow> string \<Rightarrow> http_request
    \<Rightarrow> ('s auth_state, token_response) io" where
  "login env now uid ids username password r =
     (let ip = get_client_ip r in
      bnd (local_authenticate env now username password) (\<lambda>(success, roles).
        if \<not> success
        then bnd (log_audit uid now ''AUTH_FAILURE'' (Some username) None (Some ''Local login failed'') (Some ip) False)
               (\<lambda>_. raise (HTTPException 401 ''Invalid username or password''))
        else bnd (create_token_pair env now ids username roles ip (user_agent r)) (\<lambda>tokens.
             bnd (log_audit uid now ''AUTH_SUCCESS'' (Some username) None (Some ''Local login'') (Some ip) True)
               (\<lambda>_. ret tokens))))"

definition ldap_login :: "'s auth_env \<Rightarrow> time \<Rightarrow> string \<Rightarrow> token_ids \<Rightarrow> string \<Rightarrow> string \<Rightarrow> http_request
    \<Rightarrow> ('s auth_state, token_response) io" where
  "ldap_login env now uid ids username password r =
     (let ip = get_client_ip r in
      if \<not> LDAP_ENABLED (ae_settings env) then raise (HTTPException 400 ''LDAP authentication is not enabled'')
      else bnd (on_store (ldap_authenticate env now username password)) (\<lambda>(success, roles, dn).
        if \<not> success
        then bnd (log_audit uid now ''AUTH_FAILURE'' (Some username) None (Some ''LDAP login failed'') (Some ip) False)
               (\<lambda>_. raise (HTTPException 401 ''LDAP authentication failed''))
        else bnd (create_token_pair env now ids username roles ip (user_agent r)) (\<lambda>tokens.
             bnd (log_audit uid now ''AUTH_SUCCESS'' (Some username) None (Some (''LDAP login (dn='' @ dn @ '')'')) (Some ip) True)
               (\<lambda>_. ret tokens))))"

text \<open>
  Dates with and without a time zone, which cannot be compared with each other.  The columns of \<open>db.py\<close> are plain
  \<open>DateTime\<close>, so what is read from them has none.
\<close>

datatype py_date = Naive time | Zoned time

fun date_less :: "py_date \<Rightarrow> py_date \<Rightarrow> bool res" where
  "date_less (Naive a) (Naive b) = Inr (a < b)"
| "date_less (Zoned a) (Zoned b) = Inr (a < b)"
| "date_less _ _ = Inl TypeError"

text \<open>The first part of a refresh: the token is looked up, checked and revoked.\<close>

definition use_refresh_token :: "'s auth_env \<Rightarrow> time \<Rightarrow> string \<Rightarrow> string \<Rightarrow> (database, string) io" where
  "use_refresh_token env now value ip db =
     (let live_row = (\<lambda>t. rt_token_hash t = token_digest (ae_lib env) value \<and> rt_revoked_at t = None) in
      case find live_row (t_refresh_tokens db) of
        None \<Rightarrow> (Inl (HTTPException 401 ''Invalid or revoked refresh token''), db)
      | Some rt \<Rightarrow>
          (case date_less (Naive (rt_expires_at rt)) (Zoned now) of
             Inl e \<Rightarrow> (Inl e, db)
           | Inr expired \<Rightarrow>
               if expired then (Inl (HTTPException 401 ''Refresh token expired''), db)
               else if JWT_BIND_IP (ae_settings env) \<and> (case rt_ip rt of None \<Rightarrow> False | Some i \<Rightarrow> i \<noteq> [] \<and> i \<noteq> ip)
               then (Inl (HTTPException 401 ''Refresh token IP mismatch''), db)
               else (Inr (rt_client_id rt), db\<lparr>t_refresh_tokens :=
                       update_first live_row (\<lambda>t. t\<lparr>rt_revoked_at := Some now\<rparr>) (t_refresh_tokens db)\<rparr>)))"

definition refresh_token_endpoint :: "'s auth_env \<Rightarrow> time \<Rightarrow> token_ids \<Rightarrow> string \<Rightarrow> http_request
    \<Rightarrow> ('s auth_state, token_response) io" where
  "refresh_token_endpoint env now ids value r =
     (let ip = get_client_ip r in
      bnd (on_db (use_refresh_token env now value ip)) (\<lambda>subject (s, db).
        let roles = (case find (\<lambda>u. lu_username u = subject) (t_local_users db) of
                       None \<Rightarrow> [''viewer''] | Some u \<Rightarrow> roles_of (lu_roles u) [])
        in create_token_pair env now ids subject roles ip (user_agent r) (s, db)))"

definition revoke_refresh :: "'s auth_env \<Rightarrow> time \<Rightarrow> string \<Rightarrow> database \<Rightarrow> database" where
  "revoke_refresh env now value db =
     db\<lparr>t_refresh_tokens := update_first (\<lambda>t. rt_token_hash t = token_digest (ae_lib env) value)
          (\<lambda>t. t\<lparr>rt_revoked_at := Some now\<rparr>) (t_refresh_tokens db)\<rparr>"

definition revoke_access :: "'s auth_env \<Rightarrow> time \<Rightarrow> jwt_claims \<Rightarrow> ('s, unit) io" where
  "revoke_access env now payload =
     (let ops = ae_ops env; jti = jc_jti payload in
      if jti = [] then ret ()
      else bnd (r_set_with_ttl ops now (revoked_key jti) ''1'' (token_ttl (ae_settings env))) (\<lambda>_.
           bnd (r_set_remove ops now (sessions_key (jc_sub payload)) [jti]) (\<lambda>_.
           bnd (r_delete_key ops now (info_key jti)) (\<lambda>_. ret ()))))"

fun logout_secrets :: "'s auth_env \<Rightarrow> time \<Rightarrow> string \<Rightarrow> string list \<Rightarrow> ('s, unit) io" where
  "logout_secrets env now token [] = ret ()"
| "logout_secrets env now token (secret # ss) =
     (if secret = [] then logout_secrets env now token ss
      else case jwt_decode (ae_jwt env) now False token secret (JWT_ALGORITHM (ae_settings env)) of
             Inr payload \<Rightarrow> revoke_access env now payload
           | Inl _ \<Rightarrow> logout_secrets env now token ss)"

definition request_token :: "http_request \<Rightarrow> string" where
  "request_token r =
     (let auth = header ''authorization'' r in
      if prefix ''Bearer '' auth \<and> \<not> prefix ''Bearer sk-proxy-'' auth then drop 7 auth
      else dict_get [] ''access_token'' (rq_cookies r))"

definition logout :: "'s auth_env \<Rightarrow> time \<Rightarrow> string \<Rightarrow> string option \<Rightarrow> http_request \<Rightarrow> ('s auth_state, unit) io" where
  "logout env now uid refresh_token r =
     (let st = ae_settings env; token = request_token r;
          value = (case refresh_token of None \<Rightarrow> [] | Some v \<Rightarrow> v) in
      bnd (\<lambda>(s, db). (Inr (), (s, if value = [] then db else revoke_refresh env now value db))) (\<lambda>_.
      bnd (if token = [] then ret ()
           else on_store (try_except (logout_secrets env now token [JWT_SECRET st, JWT_SECRET_PREVIOUS st]) (\<lambda>_. ret ()))) (\<lambda>_.
      log_audit uid now ''AUTH_LOGOUT'' None None (Some ''User logged out'') (Some (get_client_ip r)) True)))"

datatype password_change = Changed | Refused "password_error list" | Reused

definition history_row :: "string \<Rightarrow> time \<Rightarrow> string \<Rightarrow> string \<Rightarrow> password_history_row" where
  "history_row row_id now user_id h = \<lparr>ph_id = row_id, ph_user_id = user_id, ph_password_hash = h, ph_created_at = now\<rparr>"

text \<open>The sessions of a user that are tracked, revoked one by one.\<close>

definition revoke_tracked :: "'s auth_env \<Rightarrow> time \<Rightarrow> string \<Rightarrow> ('s, unit) io" where
  "revoke_tracked env now jti =
     bnd (r_set_with_ttl (ae_ops env) now (revoked_key jti) ''1'' (token_ttl (ae_settings env))) (\<lambda>_.
     bnd (r_delete_key (ae_ops env) now (info_key jti)) (\<lambda>_. ret ()))"

definition revoke_all :: "'s auth_env \<Rightarrow> time \<Rightarrow> string \<Rightarrow> ('s, unit) io" where
  "revoke_all env now name =
     (let ops = ae_ops env in
      bnd (r_set_members ops now (sessions_key name)) (\<lambda>jtis.
      bnd (for_each jtis (revoke_tracked env now)) (\<lambda>_.
      bnd (r_delete_key ops now (sessions_key name)) (\<lambda>_.
      bnd (r_delete_key ops now (detail_key name)) (\<lambda>_. ret ())))))"

definition change_password :: "'s auth_env \<Rightarrow> time \<Rightarrow> string \<Rightarrow> string \<Rightarrow> string \<Rightarrow> string \<Rightarrow> string \<Rightarrow> http_request \<Rightarrow> auth_user
    \<Rightarrow> ('s auth_state, password_change) io" where
  "change_password env now uid row_id salt current new r user = (\<lambda>(s, db).
     (let ip = get_client_ip r; bc = ae_bcrypt env; name = au_name user in
      case find (\<lambda>u. lu_username u = name) (t_local_users db) of
        None \<Rightarrow> (Inl (HTTPException 404 ''User not found''), (s, db))
      | Some u \<Rightarrow>
          if \<not> verify_password bc current (lu_password_hash u)
          then bnd (log_audit uid now ''AUTH_FAILURE'' (Some name) (Some name)
                     (Some ''Password change failed: wrong current password'') (Some ip) False)
                 (\<lambda>_. raise (HTTPException 401 ''Current password is incorrect'')) (s, db)
          else (case validate_password (ae_common env) new (PASSWORD_MIN_LENGTH (ae_settings env)) of
                  (False, errors) \<Rightarrow> (Inr (Refused errors), (s, db))
                | (True, _) \<Rightarrow>
                    if check_password_history bc (lu_id u) new 5 db then (Inr Reused, (s, db))
                    else (case hash_password bc salt new of
                            Inl e \<Rightarrow> (Inl e, (s, db))
                          | Inr h \<Rightarrow>
                              bnd (on_store (revoke_all env now name)) (\<lambda>_.
                              bnd (log_audit uid now ''CONFIG_CHANGE'' (Some name) (Some name) (Some ''Password changed'') (Some ip) True)
                                (\<lambda>_. ret Changed))
                                (s, db\<lparr>t_local_users := update_first (\<lambda>u. lu_username u = name) (\<lambda>u. u\<lparr>lu_password_hash := h\<rparr>) (t_local_users db),
                                       t_password_history := t_password_history db @ [history_row row_id now (lu_id u) h]\<rparr>)))))"

text \<open>One session of the listing: its stored description, or only its identifier when that cannot be read.\<close>

datatype listed_session =
    Described string string string time time json   \<comment> \<open>identifier, subject, address, created, expires, user agent\<close>
  | Bare string string

definition session_entry :: "'s auth_env \<Rightarrow> string \<Rightarrow> string \<Rightarrow> string \<Rightarrow> listed_session" where
  "session_entry env name jti raw =
     (case json_loads (ae_lib env) raw of
        Inr (JObj d) \<Rightarrow>
          (case (jget ''jti'' d, jget ''subject'' d, jget_or (JStr []) ''ip'' d, jget ''created_at'' d, jget ''expires_at'' d) of
             (JStr j, JStr subject, JStr ip, JStr c, JStr x) \<Rightarrow>
               (case (ae_iso_parse env c, ae_iso_parse env x) of
                  (Some created, Some expires) \<Rightarrow>
                    if is_str (jget ''user_agent'' d) \<or> jget ''user_agent'' d = JNull
                    then Described j subject ip created expires (jget ''user_agent'' d) else Bare jti name
                | _ \<Rightarrow> Bare jti name)
           | _ \<Rightarrow> Bare jti name)
      | _ \<Rightarrow> Bare jti name)"

fun session_entries :: "'s auth_env \<Rightarrow> time \<Rightarrow> string \<Rightarrow> string list \<Rightarrow> ('s, listed_session list) io" where
  "session_entries env now name [] = ret []"
| "session_entries env now name (jti # jtis) =
     bnd (r_get_value (ae_ops env) now (info_key jti)) (\<lambda>raw.
     bnd (session_entries env now name jtis) (\<lambda>rest.
     ret (if sv_truthy raw then session_entry env name jti (sv_text raw) # rest else rest)))"

definition list_sessions :: "'s auth_env \<Rightarrow> time \<Rightarrow> auth_user \<Rightarrow> ('s, listed_session list) io" where
  "list_sessions env now user =
     bnd (r_set_members (ae_ops env) now (sessions_key (au_name user))) (session_entries env now (au_name user))"

definition foreign_session :: "pylib \<Rightarrow> auth_user \<Rightarrow> sval option \<Rightarrow> bool" where
  "foreign_session pl user raw \<longleftrightarrow> sv_truthy raw \<and>
     (case json_loads pl (sv_text raw) of
        Inr (JObj d) \<Rightarrow> jget_or (JStr []) ''subject'' d \<noteq> JStr (au_name user) \<and> ''admin'' \<notin> set (au_roles user)
      | _ \<Rightarrow> False)"

definition revoke_session :: "'s auth_env \<Rightarrow> time \<Rightarrow> string \<Rightarrow> string \<Rightarrow> http_request \<Rightarrow> auth_user \<Rightarrow> ('s auth_state, unit) io" where
  "revoke_session env now uid jti r user =
     (let ops = ae_ops env in
      bnd (on_store (r_get_value ops now (info_key jti))) (\<lambda>raw.
        if foreign_session (ae_lib env) user raw then raise (HTTPException 403 ''Cannot revoke another user's session'')
        else bnd (on_store (r_set_with_ttl ops now (revoked_key jti) ''1'' (token_ttl (ae_settings env)))) (\<lambda>_.
             bnd (on_store (r_delete_key ops now (info_key jti))) (\<lambda>_.
             bnd (on_store (r_set_remove ops now (sessions_key (au_name user)) [jti])) (\<lambda>_.
             log_audit uid now ''AUTH_LOGOUT'' (Some (au_name user)) (Some jti) (Some ''Session revoked'') (Some (get_client_ip r)) True)))))"

end
