(* ===== verification/AuthProofs.thy ===== *)
theory AuthProofs
  imports Auth
begin

text \<open>
  Properties of authentication: tokens round trip and stay rejected once revoked, accounts lock
  after five failures, refresh tokens are used once, and what the limit on sessions and a
  change of password do not achieve.
\<close>


section \<open>Keys\<close>

lemma keys_differ [simp]:
  "revoked_key j \<noteq> sessions_key x" "sessions_key x \<noteq> revoked_key j" "revoked_key j \<noteq> detail_key x" "detail_key x \<noteq> revoked_key j"
  "revoked_key j \<noteq> info_key i" "info_key i \<noteq> revoked_key j" "sessions_key x \<noteq> detail_key y" "detail_key y \<noteq> sessions_key x"
  "sessions_key x \<noteq> info_key i" "info_key i \<noteq> sessions_key x" "detail_key x \<noteq> info_key i" "info_key i \<noteq> detail_key x"
  "lockout_key u \<noteq> failures_key v" "failures_key v \<noteq> lockout_key u"
  by (simp_all add: revoked_key_def sessions_key_def detail_key_def info_key_def lockout_key_def failures_key_def)

lemma revoked_key_inject [simp]: "revoked_key i = revoked_key j \<longleftrightarrow> i = j"
  by (simp add: revoked_key_def)

lemma on_store_apply: "on_store m (s, db) = (fst (m s), (snd (m s), db))"
  by (simp add: on_store_def split: prod.splits)


section \<open>Tokens\<close>

definition issued :: "'s auth_env \<Rightarrow> time \<Rightarrow> string \<Rightarrow> string \<Rightarrow> string list \<Rightarrow> string \<Rightarrow> string option \<Rightarrow> jwt_claims" where
  "issued env now jti subject roles ip ua =
     \<lparr>jc_sub = subject, jc_roles = roles, jc_exp = \<lfloor>now + of_int (token_ttl (ae_settings env))\<rfloor>, jc_iat = \<lfloor>now\<rfloor>, jc_jti = jti,
      jc_ip = ip, jc_fp = fingerprint (ae_lib env) ip ua\<rparr>"

lemma create_access_token_issued:
  "create_access_token env now jti subject roles ip ua =
     (jwt_encode (ae_jwt env) (issued env now jti subject roles ip ua) (JWT_SECRET (ae_settings env)) (JWT_ALGORITHM (ae_settings env)),
      jti, now + of_int (token_ttl (ae_settings env)))"
  by (simp add: create_access_token_def issued_def Let_def)

lemma jwt_decodes:
  "jwt_ok jl \<Longrightarrow> of_int (jc_iat c) \<le> now \<Longrightarrow>
   jwt_decode jl now v (jwt_encode jl c k a) k a = (if v \<and> of_int (jc_exp c) \<le> now then Inl ExpiredSignatureError else Inr c)"
  unfolding jwt_ok_def by blast

lemma jwt_other_secret:
  "jwt_ok jl \<Longrightarrow> k' \<noteq> k \<Longrightarrow> \<exists>m. jwt_decode jl now v (jwt_encode jl c k a) k' a = Inl (InvalidTokenError m)"
  unfolding jwt_ok_def by blast

text \<open>The secret of the token is the current one, or the previous one after a rotation.\<close>

definition secret_known :: "settings \<Rightarrow> string \<Rightarrow> bool" where
  "secret_known st k \<longleftrightarrow> k \<noteq> [] \<and> (JWT_SECRET st = k \<or> JWT_SECRET_PREVIOUS st = k)"

lemma try_secrets_known:
  assumes "jwt_ok (ae_jwt env)" and "secret_known (ae_settings env) k" and "of_int (jc_iat c) \<le> now"
  shows "try_secrets env now (jwt_encode (ae_jwt env) c k (JWT_ALGORITHM (ae_settings env)))
      [JWT_SECRET (ae_settings env), JWT_SECRET_PREVIOUS (ae_settings env)] e =
    (if of_int (jc_exp c) \<le> now then Inl (HTTPException 401 ''Token expired'') else Inr c)"
proof (cases "JWT_SECRET (ae_settings env) = k")
  case True
  with assms show ?thesis by (simp add: secret_known_def jwt_decodes)
next
  case False
  with assms(2) have "JWT_SECRET_PREVIOUS (ae_settings env) = k" "k \<noteq> []" by (auto simp: secret_known_def)
  moreover obtain m where "jwt_decode (ae_jwt env) now True (jwt_encode (ae_jwt env) c k (JWT_ALGORITHM (ae_settings env)))
      (JWT_SECRET (ae_settings env)) (JWT_ALGORITHM (ae_settings env)) = Inl (InvalidTokenError m)"
    using jwt_other_secret [OF assms(1) False] by blast
  ultimately show ?thesis using assms by (simp add: jwt_decodes)
qed

lemma logout_secrets_known:
  assumes "jwt_ok (ae_jwt env)" and "secret_known (ae_settings env) k" and "of_int (jc_iat c) \<le> now"
  shows "logout_secrets env now (jwt_encode (ae_jwt env) c k (JWT_ALGORITHM (ae_settings env)))
      [JWT_SECRET (ae_settings env), JWT_SECRET_PREVIOUS (ae_settings env)] = revoke_access env now c"
proof (cases "JWT_SECRET (ae_settings env) = k")
  case True
  with assms show ?thesis by (simp add: secret_known_def jwt_decodes)
next
  case False
  with assms(2) have "JWT_SECRET_PREVIOUS (ae_settings env) = k" "k \<noteq> []" by (auto simp: secret_known_def)
  moreover obtain m where "jwt_decode (ae_jwt env) now False (jwt_encode (ae_jwt env) c k (JWT_ALGORITHM (ae_settings env)))
      (JWT_SECRET (ae_settings env)) (JWT_ALGORITHM (ae_settings env)) = Inl (InvalidTokenError m)"
    using jwt_other_secret [OF assms(1) False] by blast
  ultimately show ?thesis using assms by (simp add: jwt_decodes)
qed


section \<open>Revocation\<close>

text \<open>The identifier is marked as revoked until the time given.\<close>

definition revoked_until :: "'s view \<Rightarrow> time \<Rightarrow> 's \<Rightarrow> string \<Rightarrow> time \<Rightarrow> bool" where
  "revoked_until look now s jti u \<longleftrightarrow> (\<forall>t. now \<le> t \<longrightarrow> t \<le> u \<longrightarrow> look s t (revoked_key jti) = Some (SStr ''1'', Some u))"

lemma revoked_updates:
  "updates look now s (revoked_key jti) (Some (SStr ''1'', if 0 < ttl then Some (now + of_int ttl) else None)) s' \<Longrightarrow> 0 < ttl \<Longrightarrow>
   revoked_until look now s' jti (now + of_int ttl)"
  by (auto simp: updates_def revoked_until_def live_Some)

lemma revoked_until_frame:
  "revoked_until look now s jti u \<Longrightarrow> frame_but look now k s s' \<Longrightarrow> k \<noteq> revoked_key jti \<Longrightarrow> revoked_until look now s' jti u"
  by (simp add: revoked_until_def frame_but_def)

lemma revoked_until_updates:
  "revoked_until look now s jti u \<Longrightarrow> updates look now s k x s' \<Longrightarrow> k \<noteq> revoked_key jti \<Longrightarrow> revoked_until look now s' jti u"
  by (simp add: revoked_until_def updates_def)

lemma revoked_until_same:
  "revoked_until look now s jti u \<Longrightarrow> same_view look now s s' \<Longrightarrow> revoked_until look now s' jti u"
  by (simp add: revoked_until_def same_view_def)

context kv_store
begin

lemma decode_token_known:
  assumes "ae_ops env = ops" and "inv s" and "jwt_ok (ae_jwt env)" and "secret_known (ae_settings env) k"
    and "of_int (jc_iat c) \<le> now" and "jc_jti c \<noteq> []"
  shows "fst (decode_token env now (jwt_encode (ae_jwt env) c k (JWT_ALGORITHM (ae_settings env))) ip s) =
    (if of_int (jc_exp c) \<le> now then Inl (HTTPException 401 ''Token expired'')
     else if JWT_BIND_IP (ae_settings env) \<and> ip \<noteq> [] \<and> jc_ip c \<noteq> [] \<and> jc_ip c \<noteq> ip then Inl (HTTPException 401 ''Token IP mismatch'')
     else if sv_truthy (map_option fst (look s now (revoked_key (jc_jti c)))) then Inl (HTTPException 401 ''Token has been revoked'')
     else Inr c)"
proof -
  obtain s' where "r_get_value ops now (revoked_key (jc_jti c)) s = (Inr (map_option fst (look s now (revoked_key (jc_jti c)))), s')"
    using kv_get [OF assms(2)] by blast
  then show ?thesis
    using try_secrets_known [OF assms(3-5)] assms(1,6)
    by (simp add: decode_token_def Let_def bnd_Inr del: try_secrets.simps)
qed

lemma set_revokes:
  assumes "inv s" and "0 < ttl"
  shows "\<exists>s'. r_set_with_ttl ops now (revoked_key jti) ''1'' ttl s = (Inr (), s') \<and> inv s' \<and>
    revoked_until look now s' jti (now + of_int ttl)"
proof -
  obtain s' where "r_set_with_ttl ops now (revoked_key jti) ''1'' ttl s = (Inr (), s')" "inv s'"
      "updates look now s (revoked_key jti) (Some (SStr ''1'', if 0 < ttl then Some (now + of_int ttl) else None)) s'"
    using kv_set [OF assms(1)] by metis
  with revoked_updates [OF this(3) assms(2)] show ?thesis by blast
qed

lemma revoke_access_revokes:
  assumes "ae_ops env = ops" and "inv s" and "jc_jti c \<noteq> []" and "0 < token_ttl (ae_settings env)"
  shows "\<exists>s'. revoke_access env now c s = (Inr (), s') \<and> inv s' \<and>
    revoked_until look now s' (jc_jti c) (now + of_int (token_ttl (ae_settings env)))"
proof -
  obtain s1 where s1: "r_set_with_ttl ops now (revoked_key (jc_jti c)) ''1'' (token_ttl (ae_settings env)) s = (Inr (), s1)" "inv s1"
      "revoked_until look now s1 (jc_jti c) (now + of_int (token_ttl (ae_settings env)))"
    using set_revokes [OF assms(2,4)] by blast
  obtain n s2 where s2: "r_set_remove ops now (sessions_key (jc_sub c)) [jc_jti c] s1 = (Inr n, s2)" "inv s2"
      "frame_but look now (sessions_key (jc_sub c)) s1 s2"
    using kv_srem_frame [OF s1(2)] by blast
  obtain b s3 where s3: "r_delete_key ops now (info_key (jc_jti c)) s2 = (Inr b, s3)" "inv s3"
      "updates look now s2 (info_key (jc_jti c)) None s3"
    using kv_delete [OF s2(2)] by blast
  have "revoke_access env now c s = (Inr (), s3)"
    using assms(1,3) s1(1) s2(1) s3(1) by (simp add: revoke_access_def Let_def bnd_Inr)
  moreover have "revoked_until look now s3 (jc_jti c) (now + of_int (token_ttl (ae_settings env)))"
    by (rule revoked_until_updates [OF revoked_until_frame [OF s1(3) s2(3)] s3(3)]) simp_all
  ultimately show ?thesis using s3(2) by blast
qed

text \<open>A token whose identifier is revoked at least until it expires is never accepted again.\<close>

lemma revoked_rejected:
  assumes "ae_ops env = ops" and "inv s" and "jwt_ok (ae_jwt env)" and "secret_known (ae_settings env) k"
    and "of_int (jc_iat c) \<le> now" and "jc_jti c \<noteq> []"
    and "revoked_until look t1 s (jc_jti c) u" and "t1 \<le> now" and "of_int (jc_exp c) \<le> u"
  shows "\<exists>msg. fst (decode_token env now (jwt_encode (ae_jwt env) c k (JWT_ALGORITHM (ae_settings env))) ip s) = Inl (HTTPException 401 msg)"
proof (cases "of_int (jc_exp c) \<le> now")
  case True
  with decode_token_known [OF assms(1-6)] show ?thesis by simp
next
  case False
  with assms(7-9) have "look s now (revoked_key (jc_jti c)) = Some (SStr ''1'', Some u)"
    by (simp add: revoked_until_def)
  with decode_token_known [OF assms(1-6)] show ?thesis by (simp add: sv_truthy_def)
qed

end

lemma issued_simps [simp]:
  "jc_jti (issued env t jti sub roles ip ua) = jti" "jc_iat (issued env t jti sub roles ip ua) = \<lfloor>t\<rfloor>"
  "jc_exp (issued env t jti sub roles ip ua) = \<lfloor>t + of_int (token_ttl (ae_settings env))\<rfloor>"
  "jc_ip (issued env t jti sub roles ip ua) = ip" "jc_sub (issued env t jti sub roles ip ua) = sub"
  "jc_roles (issued env t jti sub roles ip ua) = roles"
  by (simp_all add: issued_def)

context kv_store
begin

lemma logout_revokes:
  assumes "ae_ops env = ops" and "inv s" and "jwt_ok (ae_jwt env)" and "secret_known (ae_settings env) k" and "0 < token_ttl (ae_settings env)"
    and "of_int (jc_iat c) \<le> now" and "jc_jti c \<noteq> []"
    and "request_token r = jwt_encode (ae_jwt env) c k (JWT_ALGORITHM (ae_settings env))"
    and "logout env now uid refresh r (s, db) = (x, (s1, db1))"
  shows "inv s1 \<and> revoked_until look now s1 (jc_jti c) (now + of_int (token_ttl (ae_settings env)))"
proof -
  obtain s' where s': "revoke_access env now c s = (Inr (), s')" "inv s'"
      "revoked_until look now s' (jc_jti c) (now + of_int (token_ttl (ae_settings env)))"
    using revoke_access_revokes [OF assms(1,2,7,5)] by blast
  have "request_token r \<noteq> []" using assms(3) unfolding assms(8) jwt_ok_def by blast
  then have "s1 = s'"
    using assms(8,9) s'(1) logout_secrets_known [OF assms(3,4,6)]
    by (auto simp: logout_def log_audit_def bnd_def try_except_def on_store_apply Let_def split: prod.splits)
  with s'(2,3) show ?thesis by simp
qed

end

lemma issued_expiry: "t0 \<le> t \<Longrightarrow> of_int (jc_exp (issued env t0 jti sub roles ip ua)) \<le> t + of_int (token_ttl (ae_settings env))"
  by simp linarith

lemma issued_before: "t0 \<le> t \<Longrightarrow> of_int (jc_iat (issued env t0 jti sub roles ip ua)) \<le> t"
  by simp linarith

text \<open>C16.  A token that was logged out is refused from then on, however the store is used in between as long
  as the revocation entry is left alone: the entry lives until the token has expired.\<close>

theorem logged_out_token_rejected:
  fixes lib :: "'r aioredis" and env :: "'r redis_client auth_env"
  assumes "ae_ops env = redis_module lib url" and "in_fallback url s" and "jwt_ok (ae_jwt env)"
    and "JWT_SECRET (ae_settings env) \<noteq> []" and "0 < JWT_EXPIRY_HOURS (ae_settings env)" and "jti \<noteq> []"
    and "create_access_token env t0 jti sub roles ip ua = (token, j, expiry)" and "t0 \<le> t1" and "t1 \<le> t2"
    and "request_token r = token" and "logout env t1 uid refresh r (s, db) = (x, (s1, db1))"
    and "in_fallback url s2" and "\<forall>t. t1 \<le> t \<longrightarrow> rc_look s2 t (revoked_key jti) = rc_look s1 t (revoked_key jti)"
  shows "\<exists>msg. fst (decode_token env t2 token ip' s2) = Inl (HTTPException 401 msg)"
proof -
  let ?c = "issued env t0 jti sub roles ip ua" and ?k = "JWT_SECRET (ae_settings env)"
  let ?ttl = "token_ttl (ae_settings env)"
  have token: "token = jwt_encode (ae_jwt env) ?c ?k (JWT_ALGORITHM (ae_settings env))"
    using assms(7) unfolding create_access_token_issued by blast
  have k: "secret_known (ae_settings env) ?k" using assms(4) by (simp add: secret_known_def)
  have ttl: "0 < ?ttl" using assms(5) by (simp add: token_ttl_def)
  have "revoked_until rc_look t1 s1 jti (t1 + of_int ?ttl)"
    using rc.logout_revokes [OF assms(1-3) k ttl issued_before [OF assms(8)] _ assms(10) [unfolded token] assms(11)] assms(6) by simp
  with assms(13) have "revoked_until rc_look t1 s2 (jc_jti ?c) (t1 + of_int ?ttl)"
    by (simp add: revoked_until_def)
  moreover have "of_int (jc_iat ?c) \<le> t2" using issued_before assms(8,9) by (meson order_trans)
  ultimately show ?thesis
    unfolding token
    using rc.revoked_rejected [OF assms(1,12,3) k] issued_expiry [OF assms(8)] assms(6,9) by (metis issued_simps(1))
qed


section \<open>Issued tokens authenticate\<close>

lemma create_token_pair_access:
  assumes "create_token_pair env now (jti, value, row) sub roles ip ua st = (Inr tokens, st')"
  shows "tr_access_token tokens =
    jwt_encode (ae_jwt env) (issued env now jti sub roles ip ua) (JWT_SECRET (ae_settings env)) (JWT_ALGORITHM (ae_settings env))"
  using assms by (auto simp: create_token_pair_def bnd_def create_access_token_issued split: prod.splits sum.splits)

text \<open>C30.  The access token of a token pair authenticates its subject, with the roles it was issued with, until it
  expires and while it is not revoked; also after the signing secret was rotated.\<close>

theorem issued_token_authenticates:
  fixes lib :: "'r aioredis" and env env' :: "'r redis_client auth_env"
  assumes "jwt_ok (ae_jwt env)" and "JWT_SECRET (ae_settings env) \<noteq> []" and "jti \<noteq> []"
    and "env' = env \<or> (ae_ops env' = ae_ops env \<and> ae_jwt env' = ae_jwt env \<and>
           JWT_ALGORITHM (ae_settings env') = JWT_ALGORITHM (ae_settings env) \<and>
           JWT_SECRET_PREVIOUS (ae_settings env') = JWT_SECRET (ae_settings env))"
    and "create_token_pair env t0 (jti, value, row) sub roles (get_client_ip r) ua st = (Inr tokens, st1)"
    and "ae_ops env = redis_module lib url" and "in_fallback url s"
    and "t0 \<le> t" and "t < of_int \<lfloor>t0 + of_int (token_ttl (ae_settings env))\<rfloor>"
    and "rc_look s t (revoked_key jti) = None" and "request_api_key r = []"
  shows "fst (get_current_user env' t r (Some (tr_access_token tokens)) (s, db)) =
    Inr \<lparr>au_name = sub, au_roles = roles, au_permissions = [''*''], au_client_id = None, au_is_api_client = False\<rparr>"
proof -
  let ?c = "issued env t0 jti sub roles (get_client_ip r) ua" and ?k = "JWT_SECRET (ae_settings env)"
  have e: "ae_ops env' = redis_module lib url" "jwt_ok (ae_jwt env')" "secret_known (ae_settings env') ?k"
      "ae_jwt env' = ae_jwt env" "JWT_ALGORITHM (ae_settings env') = JWT_ALGORITHM (ae_settings env)"
    using assms(1,2,4,6) by (auto simp: secret_known_def)
  have tok: "tr_access_token tokens = jwt_encode (ae_jwt env') ?c ?k (JWT_ALGORITHM (ae_settings env'))"
    using create_token_pair_access [OF assms(5)] e(4,5) by simp
  have iat: "of_int (jc_iat ?c) \<le> t" using assms(8) by simp linarith
  have "fst (decode_token env' t (tr_access_token tokens) (get_client_ip r) s) = Inr ?c"
    unfolding tok using rc.decode_token_known [OF e(1) assms(7) e(2,3) iat, of "get_client_ip r"] assms(3,9,10)
    by (simp add: sv_truthy_def)
  moreover have "tr_access_token tokens \<noteq> []" using e(2) unfolding tok jwt_ok_def by blast
  ultimately show ?thesis
    using assms(11)
    by (cases "tr_access_token tokens"; cases "decode_token env' t (tr_access_token tokens) (get_client_ip r) s")
      (auto simp: get_current_user_def Let_def bnd_def on_store_apply token_user_def)
qed


section \<open>Lockout\<close>

fun login_attempts :: "'s auth_env \<Rightarrow> string \<Rightarrow> (time \<times> string) list \<Rightarrow> 's auth_state \<Rightarrow> 's auth_state" where
  "login_attempts env username [] st = st"
| "login_attempts env username ((t, pw) # as) st = login_attempts env username as (snd (local_authenticate env t username pw st))"

text \<open>Attempts in order of time, each within the window of the previous one; the time of the last.\<close>

fun within_window :: "time \<Rightarrow> (time \<times> string) list \<Rightarrow> bool" where
  "within_window t [] = True"
| "within_window t ((u, pw) # as) = (t \<le> u \<and> u \<le> t + 900 \<and> within_window u as)"

fun final_time :: "time \<Rightarrow> (time \<times> string) list \<Rightarrow> time" where
  "final_time t [] = t"
| "final_time t ((u, pw) # as) = final_time u as"

definition wrong_password :: "'s auth_env \<Rightarrow> database \<Rightarrow> string \<Rightarrow> string \<Rightarrow> bool" where
  "wrong_password env db username pw \<longleftrightarrow>
     (\<forall>u \<in> set (t_local_users db). lu_username u = username \<longrightarrow> \<not> verify_password (ae_bcrypt env) pw (lu_password_hash u))"

text \<open>The state of an account from time \<open>a\<close> on after \<open>n\<close> failures, the last at time \<open>t\<close>.\<close>

definition failed :: "'s view \<Rightarrow> time \<Rightarrow> time \<Rightarrow> 's \<Rightarrow> string \<Rightarrow> nat \<Rightarrow> bool" where
  "failed look a t s username n \<longleftrightarrow>
     (\<forall>u. a \<le> u \<longrightarrow> u \<le> t + 900 \<longrightarrow>
        look s u (failures_key username) = (if n = 0 then None else Some (SStr (show_int (int n)), Some (t + 900))) \<and>
        look s u (lockout_key username) = (if n < 5 then None else Some (SStr ''1'', Some (t + 900))))"

lemma failedD:
  "failed look a t s username n \<Longrightarrow> a \<le> u \<Longrightarrow> u \<le> t + 900 \<Longrightarrow>
   look s u (failures_key username) = (if n = 0 then None else Some (SStr (show_int (int n)), Some (t + 900))) \<and>
   look s u (lockout_key username) = (if n < 5 then None else Some (SStr ''1'', Some (t + 900)))"
  by (simp add: failed_def)

lemma failed_same: "failed look a t s username n \<Longrightarrow> same_view look u s s' \<Longrightarrow> a \<le> u \<Longrightarrow> failed look u t s' username n"
  by (simp add: failed_def same_view_def)

context kv_store
begin

lemma record_failure_step:
  assumes "inv s" and "failed look u t s username n" and "u \<le> t + 900" and "n < 5"
  shows "\<exists>s'. record_auth_failure ops u username s = (Inr (), s') \<and> inv s' \<and> failed look u u s' username (Suc n)"
proof -
  let ?fk = "failures_key username" and ?lk = "lockout_key username"
  note now = failedD [OF assms(2) order.refl assms(3)]
  have later: "look s v ?lk = None" if "u \<le> v" for v
    using now kv_later [OF assms(1) that, of ?lk] assms(4) by simp
  obtain e s1 where s1: "r_increment ops u ?fk 1 s = (Inr (int (Suc n)), s1)" "inv s1"
      "updates look u s ?fk (Some (SStr (show_int (int (Suc n))), e)) s1" "look s1 u ?fk = Some (SStr (show_int (int (Suc n))), e)"
  proof (cases "n = 0")
    case True
    then obtain s1 where "r_increment ops u ?fk 1 s = (Inr 1, s1)" "inv s1" "updates look u s ?fk (Some (SStr (show_int 1), None)) s1"
      using kv_incr_fresh [OF assms(1), of u ?fk 1] now by auto
    with that [of s1 None] True show ?thesis by (simp add: updates_def)
  next
    case False
    with now have "look s u ?fk = Some (SStr (show_int (int n)), Some (t + 900))" by simp
    from kv_incr [OF assms(1) this parse_show_int, of 1] obtain s1 where "r_increment ops u ?fk 1 s = (Inr (int n + 1), s1)" "inv s1"
        "updates look u s ?fk (Some (SStr (show_int (int n + 1)), Some (t + 900))) s1" by blast
    with that [of s1 "Some (t + 900)"] assms(3) show ?thesis by (simp add: updates_def live_Some add.commute)
  qed
  obtain s2 where s2: "r_expire ops u ?fk 900 s1 = (Inr True, s2)" "inv s2"
      "updates look u s1 ?fk (Some (SStr (show_int (int (Suc n))), Some (u + of_int 900))) s2"
    using kv_expire [OF s1(2,4), of 900] by blast
  have f2: "look s2 v ?fk = Some (SStr (show_int (int (Suc n))), Some (u + 900))" "look s2 w ?lk = None"
    if "u \<le> v" "v \<le> u + 900" "u \<le> w" for v w
    using s1(3) s2(3) later that by (simp_all add: updates_def live_Some)
  show ?thesis
  proof (cases "Suc n < 5")
    case True
    then have "record_auth_failure ops u username s = (Inr (), s2)"
      using s1(1) s2(1) by (simp add: record_auth_failure_def bnd_Inr)
    with s2(2) f2 True show ?thesis by (auto simp: failed_def)
  next
    case False
    obtain s3 where s3: "r_set_with_ttl ops u ?lk ''1'' 900 s2 = (Inr (), s3)" "inv s3"
        "updates look u s2 ?lk (Some (SStr ''1'', Some (u + 900))) s3"
      using kv_set [OF s2(2), of u ?lk "''1''" 900] by auto
    have "record_auth_failure ops u username s = (Inr (), s3)"
      using s1(1) s2(1) s3(1) False by (simp add: record_auth_failure_def bnd_Inr)
    with s3(2,3) f2 False show ?thesis by (auto simp: failed_def updates_def live_Some)
  qed
qed

lemma local_authenticate_reads:
  assumes "ae_ops env = ops" and "inv s"
  obtains s1 where "r_get_value ops u (lockout_key username) s = (Inr (map_option fst (look s u (lockout_key username))), s1)"
    and "inv s1" and "same_view look u s s1"
  using kv_get [OF assms(2), of u "lockout_key username"] by blast

lemma wrong_attempt:
  assumes "ae_ops env = ops" and "inv s" and "failed look a t s username n" and "a \<le> u" and "u \<le> t + 900" and "n < 5"
    and "wrong_password env db username pw"
  shows "\<exists>s'. local_authenticate env u username pw (s, db) = (Inr (False, []), (s', db)) \<and> inv s' \<and> failed look u u s' username (Suc n)"
proof -
  obtain s1 where s1: "r_get_value ops u (lockout_key username) s = (Inr None, s1)" "inv s1" "same_view look u s s1"
    using local_authenticate_reads [OF assms(1,2), of u username] failedD [OF assms(3-5)] assms(6) by auto
  obtain s2 where s2: "record_auth_failure ops u username s1 = (Inr (), s2)" "inv s2" "failed look u u s2 username (Suc n)"
    using record_failure_step [OF s1(2) failed_same [OF assms(3) s1(3) assms(4)] assms(5,6)] by blast
  have "local_authenticate env u username pw (s, db) = (Inr (False, []), (s2, db))"
    using assms(1,7) s1(1) s2(1)
    by (auto simp: local_authenticate_def Let_def bnd_def try_except_def on_store_apply sv_truthy_def wrong_password_def find_Some_iff
        split: option.splits)
  with s2(2,3) show ?thesis by blast
qed

lemma wrong_attempts:
  assumes "ae_ops env = ops"
  shows "inv s \<Longrightarrow> failed look a t s username n \<Longrightarrow> within_window t as \<Longrightarrow> a \<le> t \<Longrightarrow> n + length as \<le> 5 \<Longrightarrow>
    \<forall>(u, pw) \<in> set as. wrong_password env db username pw \<Longrightarrow>
    \<exists>s'. login_attempts env username as (s, db) = (s', db) \<and> inv s' \<and>
      failed look (if as = [] then a else final_time t as) (final_time t as) s' username (n + length as)"
proof (induction as arbitrary: s n t a)
  case (Cons x as)
  obtain u pw where x: "x = (u, pw)" by (cases x)
  have u: "a \<le> u" "u \<le> t + 900" "n < 5" "wrong_password env db username pw" using Cons.prems x by auto
  obtain s1 where s1: "local_authenticate env u username pw (s, db) = (Inr (False, []), (s1, db))" "inv s1"
      "failed look u u s1 username (Suc n)"
    using wrong_attempt [OF assms Cons.prems(1,2) u] by blast
  from Cons.IH [OF s1(2,3)] Cons.prems x obtain s' where
    "login_attempts env username as (s1, db) = (s', db)" "inv s'"
    "failed look (if as = [] then u else final_time u as) (final_time u as) s' username (Suc n + length as)" by auto
  with s1(1) x show ?case by (cases as) auto
qed simp

lemma locked_out:
  assumes "ae_ops env = ops" and "inv s" and "failed look a t s username 5" and "a \<le> u" and "u \<le> t + 900"
  shows "fst (local_authenticate env u username pw (s, db)) = Inr (False, [])"
proof -
  obtain s1 where "r_get_value ops u (lockout_key username) s = (Inr (Some (SStr ''1'')), s1)"
    using local_authenticate_reads [OF assms(1,2), of u username] failedD [OF assms(3-5)] by auto
  then show ?thesis
    using assms(1) by (simp add: local_authenticate_def Let_def bnd_def on_store_apply sv_truthy_def)
qed

lemma right_attempt:
  assumes "ae_ops env = ops" and "inv s" and "failed look a t s username n" and "n < 5" and "a \<le> u" and "u \<le> t + 900"
    and "find (\<lambda>x. lu_username x = username \<and> lu_is_active x) (t_local_users db) = Some usr"
    and "verify_password (ae_bcrypt env) pw (lu_password_hash usr)"
  shows "fst (local_authenticate env u username pw (s, db)) = Inr (True, roles_of (lu_roles usr) [])"
proof -
  obtain s1 where s1: "r_get_value ops u (lockout_key username) s = (Inr None, s1)" "inv s1"
    using local_authenticate_reads [OF assms(1,2), of u username] failedD [OF assms(3,5,6)] assms(4) by auto
  obtain b s2 where "r_delete_key ops u (failures_key username) s1 = (Inr b, s2)"
    using kv_delete [OF s1(2)] by blast
  with s1(1) show ?thesis
    using assms(1,7,8) by (simp add: local_authenticate_def Let_def bnd_def on_store_apply sv_truthy_def)
qed

end

text \<open>C21.  Five wrong passwords, each within fifteen minutes of the one before, lock the account: for fifteen
  minutes after the fifth no password is accepted.  After fewer failures the right one is.\<close>

theorem lockout_after_five:
  fixes lib :: "'r aioredis" and env :: "'r redis_client auth_env"
  assumes "ae_ops env = redis_module lib url" and "in_fallback url s"
    and "\<forall>t. t0 \<le> t \<longrightarrow> rc_look s t (failures_key username) = None \<and> rc_look s t (lockout_key username) = None"
    and "within_window t0 as" and "length as \<le> 5" and "\<forall>(t, pw) \<in> set as. wrong_password env db username pw"
    and "find (\<lambda>x. lu_username x = username \<and> lu_is_active x) (t_local_users db) = Some usr"
    and "verify_password (ae_bcrypt env) pw (lu_password_hash usr)"
    and "final_time t0 as \<le> t" and "t \<le> final_time t0 as + 900"
  shows "fst (local_authenticate env t username pw (login_attempts env username as (s, db))) =
    Inr (if length as = 5 then (False, []) else (True, roles_of (lu_roles usr) []))"
proof -
  have "failed rc_look t0 t0 s username 0" using assms(3) by (simp add: failed_def)
  from rc.wrong_attempts [OF assms(1,2) this assms(4) order.refl _ assms(6)] assms(5) obtain s' where
    s': "login_attempts env username as (s, db) = (s', db)" "in_fallback url s'"
    "failed rc_look (if as = [] then t0 else final_time t0 as) (final_time t0 as) s' username (length as)"
    by auto
  have a: "(if as = [] then t0 else final_time t0 as) \<le> t" using assms(9) by auto
  show ?thesis
  proof (cases "length as = 5")
    case True
    with rc.locked_out [OF assms(1) s'(2) _ a assms(10)] s'(1,3) show ?thesis by simp
  next
    case False
    with rc.right_attempt [OF assms(1) s'(2,3) _ a assms(10,7,8)] assms(5) s'(1) show ?thesis by simp
  qed
qed



section \<open>Refresh tokens\<close>

lemma find_SomeD: "find P xs = Some x \<Longrightarrow> P x \<and> x \<in> set xs"
  by (auto simp: find_Some_iff)

text \<open>
  No refresh succeeds: with a token that is stored and not revoked the comparison of its expiry raises TypeError, with
  any other the answer is 401, and nothing changes.
\<close>

theorem refresh_never_succeeds:
  "refresh_token_endpoint env now ids value r (s, db) =
    (Inl (if \<exists>t \<in> set (t_refresh_tokens db). rt_token_hash t = token_digest (ae_lib env) value \<and> rt_revoked_at t = None
          then TypeError else HTTPException 401 ''Invalid or revoked refresh token''), (s, db))"
proof -
  let ?P = "\<lambda>t. rt_token_hash t = token_digest (ae_lib env) value \<and> rt_revoked_at t = None"
  have "find ?P (t_refresh_tokens db) = None \<longleftrightarrow> \<not> (\<exists>t \<in> set (t_refresh_tokens db). ?P t)" by (auto simp: find_None_iff)
  then show ?thesis
    by (cases "find ?P (t_refresh_tokens db)")
      (simp_all add: refresh_token_endpoint_def use_refresh_token_def bnd_def on_db_def with_db_def Let_def)
qed


section \<open>The limit on sessions\<close>

definition login_session :: "'s auth_env \<Rightarrow> time \<Rightarrow> string \<Rightarrow> string \<Rightarrow> string \<Rightarrow> string option \<Rightarrow> ('s, unit) io" where
  "login_session env now jti subject ip ua =
     bnd (enforce_max_sessions env now subject)
       (\<lambda>_. track_session env now jti subject ip ua (now + of_int (token_ttl (ae_settings env))))"

lemma create_token_pair_store:
  "login_session env now jti sub ip ua s = (Inr (), s') \<Longrightarrow>
   fst (snd (create_token_pair env now (jti, value, row) sub roles ip ua (s, db))) = s'"
  by (auto simp: login_session_def create_token_pair_def bnd_def create_access_token_issued on_store_def on_db_def
      split: prod.splits sum.splits)

context kv_store
begin

lemma live_at: "inv s \<Longrightarrow> look s now k = Some (v, e) \<Longrightarrow> live now (w, e) = Some (w, e)"
  using kv_later [of s now now k] by (simp add: live_def entry_expired_def split: if_splits option.splits)

definition tracked :: "time \<Rightarrow> 's \<Rightarrow> string \<Rightarrow> string list \<Rightarrow> (string, rat) pydict \<Rightarrow> bool" where
  "tracked now s sub xs z \<longleftrightarrow>
     (\<exists>e. look s now (sessions_key sub) = Some (SSet xs, e)) \<and> (\<exists>e. look s now (detail_key sub) = Some (SZset z, e))"

lemma evict_one:
  assumes "ae_ops env = ops" and "inv s" and "tracked now s sub xs z" and "\<forall>p \<in> set z. 0 < snd p"
  shows "\<exists>s'. evict env now sub j s = (Inr (), s') \<and> inv s' \<and> tracked now s' sub (filter (\<lambda>x. x \<noteq> j) xs) z"
proof -
  obtain e1 e2 where l: "look s now (sessions_key sub) = Some (SSet xs, e1)" "look s now (detail_key sub) = Some (SZset z, e2)"
    using assms(3) by (auto simp: tracked_def)
  obtain s1 where s1: "r_set_with_ttl ops now (revoked_key j) ''1'' (token_ttl (ae_settings env)) s = (Inr (), s1)" "inv s1"
      "\<And>k. k \<noteq> revoked_key j \<Longrightarrow> look s1 now k = look s now k"
    using kv_set [OF assms(2), of now "revoked_key j" "''1''" "token_ttl (ae_settings env)"] by (auto simp: updates_def)
  have l1: "look s1 now (sessions_key sub) = Some (SSet xs, e1)" using s1(3) l by simp
  obtain n s2 where s2: "r_set_remove ops now (sessions_key sub) [j] s1 = (Inr n, s2)" "inv s2"
      "updates look now s1 (sessions_key sub) (Some (SSet (filter (\<lambda>x. x \<notin> set [j]) xs), e1)) s2"
    using kv_srem [OF s1(2) l1] by blast
  have l2: "look s2 now (sessions_key sub) = Some (SSet (filter (\<lambda>x. x \<noteq> j) xs), e1)" "look s2 now (detail_key sub) = Some (SZset z, e2)"
    using s2(3) l(2) s1(3) live_at [OF s1(2) l1] by (simp_all add: updates_def)
  obtain m s3 where s3: "r_zremrangebyscore ops now (detail_key sub) 0 (Some 0) s2 = (Inr m, s3)" "inv s3"
      "updates look now s2 (detail_key sub) (Some (SZset (zrem 0 (Some 0) z), e2)) s3"
    using kv_zrem [OF s2(2) l2(2)] by blast
  have "zrem 0 (Some 0) z = z" using assms(4) by (auto simp: zrem_def score_le_def intro!: filter_True)
  then have "tracked now s3 sub (filter (\<lambda>x. x \<noteq> j) xs) z"
    using s3(3) l2 live_at [OF s2(2) l2(2)] by (simp add: updates_def tracked_def)
  with s3(2) s1(1) s2(1) s3(1) assms(1) show ?thesis by (simp add: evict_def Let_def bnd_Inr)
qed

lemma evict_loop:
  assumes "ae_ops env = ops" and "\<forall>p \<in> set z. 0 < snd p"
  shows "inv s \<Longrightarrow> tracked now s sub xs z \<Longrightarrow>
    \<exists>s'. for_each js (evict env now sub) s = (Inr (), s') \<and> inv s' \<and> tracked now s' sub (filter (\<lambda>x. x \<notin> set js) xs) z"
proof (induction js arbitrary: s xs)
  case (Cons j js)
  obtain s1 where s1: "evict env now sub j s = (Inr (), s1)" "inv s1" "tracked now s1 sub (filter (\<lambda>x. x \<noteq> j) xs) z"
    using evict_one [OF assms(1) Cons.prems assms(2)] by blast
  have eq: "filter (\<lambda>x. x \<notin> set (j # js)) xs = filter (\<lambda>x. x \<notin> set js) (filter (\<lambda>x. x \<noteq> j) xs)"
    by (simp add: filter_filter conj_commute)
  from Cons.IH [OF s1(2,3)] s1(1) show ?case unfolding eq by (auto simp: bnd_Inr)
qed simp

lemma set_update_fresh: "j \<notin> set xs \<Longrightarrow> set_update xs [j] = xs @ [j]"
  by simp

text \<open>One login: the oldest sessions of the sorted set are removed as far as there is an excess, the new one is added.\<close>

lemma login_session_step:
  assumes "ae_ops env = ops" and "inv s" and "0 < token_ttl (ae_settings env)"
    and "set_of (look s now (sessions_key sub)) = map fst ys" and "zset_of (look s now (detail_key sub)) = z"
    and "ys = [] \<longrightarrow> z = []" and "sorted (map snd z)" and "\<forall>p \<in> set z. 0 < snd p" and "jti \<notin> fst ` set z" and "jti \<notin> fst ` set ys"
  defines "k \<equiv> (if JWT_MAX_SESSIONS (ae_settings env) \<le> int (length ys) then nat (int (length ys) - JWT_MAX_SESSIONS (ae_settings env) + 1) else 0)"
  shows "\<exists>s'. login_session env now jti sub ip ua s = (Inr (), s') \<and> inv s' \<and>
    look s' now (sessions_key sub) = Some (SSet (filter (\<lambda>x. x \<notin> fst ` set (take k z)) (map fst ys) @ [jti]),
      Some (now + of_int (token_ttl (ae_settings env) + 300))) \<and>
    look s' now (detail_key sub) = Some (SZset (z @ [(jti, now)]), Some (now + of_int (token_ttl (ae_settings env) + 300)))"
proof -
  let ?ttl = "token_ttl (ae_settings env)" and ?sk = "sessions_key sub" and ?dk = "detail_key sub"
  let ?xs = "filter (\<lambda>x. x \<notin> fst ` set (take k z)) (map fst ys)"
  obtain s1 where s1: "enforce_max_sessions env now sub s = (Inr (), s1)" "inv s1" "set_of (look s1 now ?sk) = ?xs" "zset_of (look s1 now ?dk) = z"
  proof -
    obtain sa where sa: "r_set_members ops now ?sk s = (Inr (map fst ys), sa)" "inv sa" "same_view look now s sa"
      using kv_smembers [OF assms(2), of now ?sk] assms(4) by auto
    show ?thesis
    proof (cases "JWT_MAX_SESSIONS (ae_settings env) \<le> int (length ys)")
      case False
      then have "enforce_max_sessions env now sub s = (Inr (), sa)"
        using sa(1) assms(1) by (simp add: enforce_max_sessions_def Let_def bnd_Inr)
      with that sa(2,3) assms(4,5) False show ?thesis by (simp add: k_def same_view_def)
    next
      case True
      obtain sb where sb: "r_zrangebyscore ops now ?dk 0 None sa = (Inr (zrange 0 None z), sb)" "inv sb" "same_view look now sa sb"
        using kv_zrange [OF sa(2), of now ?dk 0 None] sa(3) assms(5) by (auto simp: same_view_def)
      have zr: "zrange 0 None z = map fst z"
        using assms(7,8) by (auto simp: zrange_def score_le_def sort_key_id_if_sorted intro!: filter_True arg_cong [where f = "map fst"])
      have eb: "enforce_max_sessions env now sub s = for_each (map fst (take k z)) (evict env now sub) sb"
        using sa(1) sb(1) assms(1) True by (simp add: enforce_max_sessions_def Let_def bnd_Inr zr k_def take_map)
      have vb: "set_of (look sb now ?sk) = map fst ys" "zset_of (look sb now ?dk) = z"
        using sa(3) sb(3) assms(4,5) by (simp_all add: same_view_def)
      show ?thesis
      proof (cases "take k z")
        case Nil
        with eb vb sb(2) that show ?thesis by simp
      next
        case (Cons v vs)
        then have "z \<noteq> []" by auto
        then have "ys \<noteq> []" using assms(6) by blast
        have "tracked now sb sub (map fst ys) z"
          using vb \<open>z \<noteq> []\<close> \<open>ys \<noteq> []\<close> by (auto simp: tracked_def set_of_def zset_of_def split: option.splits prod.splits sval.splits)
        from evict_loop [OF assms(1,8) sb(2) this, of "map fst (take k z)"] that eb show ?thesis
          by (auto simp: tracked_def set_of_def zset_of_def)
      qed
    qed
  qed
  obtain n2 s2 where s2: "r_set_add ops now ?sk [jti] s1 = (Inr n2, s2)" "inv s2"
      "updates look now s1 ?sk (Some (SSet (set_update ?xs [jti]), expiry_of (look s1 now ?sk))) s2"
    using kv_sadd [OF s1(2), of now ?sk "[jti]"] s1(3) by auto
  have jx: "set_update ?xs [jti] = ?xs @ [jti]" using assms(10) by auto
  have "expiry_of (look s1 now k) = e \<Longrightarrow> live now (w, e) = Some (w, e)" for k e w
    using live_at [OF s1(2)] by (auto simp: expiry_of_def split: option.splits)
  then have l2: "look s2 now ?sk = Some (SSet (?xs @ [jti]), expiry_of (look s1 now ?sk))" "look s2 now ?dk = look s1 now ?dk"
    using s2(3) unfolding jx by (auto simp: updates_def)
  obtain s3 where s3: "r_expire ops now ?sk (?ttl + 300) s2 = (Inr True, s3)" "inv s3"
      "updates look now s2 ?sk (Some (SSet (?xs @ [jti]), Some (now + of_int (?ttl + 300)))) s3"
    using kv_expire [OF s2(2) l2(1)] by blast
  have alive: "live now (w, Some (now + of_int (?ttl + 300))) = Some (w, Some (now + of_int (?ttl + 300)))" for w
  proof -
    have "(0 :: rat) \<le> of_int (?ttl + 300)" using assms(3) by simp
    then show ?thesis unfolding live_Some by simp
  qed
  have l3: "look s3 now ?sk = Some (SSet (?xs @ [jti]), Some (now + of_int (?ttl + 300)))" "look s3 now ?dk = look s1 now ?dk"
    using s3(3) l2 alive by (auto simp: updates_def)
  obtain n4 s4 where s4: "r_zadd ops now ?dk [(jti, now)] s3 = (Inr n4, s4)" "inv s4"
      "updates look now s3 ?dk (Some (SZset (zset_update z [(jti, now)]), expiry_of (look s1 now ?dk))) s4"
    using kv_zadd [OF s3(2), of now ?dk "[(jti, now)]"] l3(2) s1(4) by auto
  have zx: "zset_update z [(jti, now)] = z @ [(jti, now)]" using assms(9) by (simp add: dict_set_fresh)
  have "expiry_of (look s1 now k) = e \<Longrightarrow> live now (w, e) = Some (w, e)" for k e w
    using live_at [OF s1(2)] by (auto simp: expiry_of_def split: option.splits)
  then have l4: "look s4 now ?dk = Some (SZset (z @ [(jti, now)]), expiry_of (look s1 now ?dk))" "look s4 now ?sk = look s3 now ?sk"
    using s4(3) unfolding zx by (auto simp: updates_def)
  obtain s5 where s5: "r_expire ops now ?dk (?ttl + 300) s4 = (Inr True, s5)" "inv s5"
      "updates look now s4 ?dk (Some (SZset (z @ [(jti, now)]), Some (now + of_int (?ttl + 300)))) s5"
    using kv_expire [OF s4(2) l4(1)] by blast
  let ?info = "json_dumps (ae_lib env) (session_info env now jti sub ip ua (now + of_int ?ttl))"
  obtain s6 where s6: "r_set_with_ttl ops now (info_key jti) ?info ?ttl s5 = (Inr (), s6)" "inv s6"
      "updates look now s5 (info_key jti) (Some (SStr ?info, if 0 < ?ttl then Some (now + of_int ?ttl) else None)) s6"
    using kv_set [OF s5(2), of now "info_key jti" ?info ?ttl] by blast
  have "look s6 now ?sk = look s3 now ?sk" "look s6 now ?dk = Some (SZset (z @ [(jti, now)]), Some (now + of_int (?ttl + 300)))"
    using s6(3) s5(3) l4(2) alive by (auto simp: updates_def)
  moreover have "login_session env now jti sub ip ua s = (Inr (), s6)"
    using s1(1) s2(1) s3(1) s4(1) s5(1) s6(1) assms(1) by (simp add: login_session_def track_session_def Let_def bnd_Inr)
  ultimately show ?thesis using s6(2) l3(1) by simp
qed

end



text \<open>Logins of one subject at given times, with the random values of each.\<close>

fun token_logins :: "'s auth_env \<Rightarrow> string \<Rightarrow> string list \<Rightarrow> string \<Rightarrow> string option \<Rightarrow> (time \<times> token_ids) list \<Rightarrow>
    's auth_state \<Rightarrow> 's auth_state" where
  "token_logins env sub roles ip ua [] st = st"
| "token_logins env sub roles ip ua ((t, ids) # xs) st =
     token_logins env sub roles ip ua xs (snd (create_token_pair env t ids sub roles ip ua st))"

fun spaced :: "rat \<Rightarrow> time \<Rightarrow> (time \<times> token_ids) list \<Rightarrow> bool" where
  "spaced gap t [] = True"
| "spaced gap t ((u, ids) # xs) = (t \<le> u \<and> u \<le> t + gap \<and> spaced gap u xs)"

fun end_time :: "time \<Rightarrow> (time \<times> token_ids) list \<Rightarrow> time" where
  "end_time t [] = t"
| "end_time t ((u, ids) # xs) = end_time u xs"

definition stamps :: "(time \<times> token_ids) list \<Rightarrow> (string \<times> time) list" where
  "stamps xs = map (\<lambda>(t, jti, v, row). (jti, t)) xs"

text \<open>The sessions that count as active after the logins \<open>z\<close>: only the very first is ever removed.\<close>

definition active_after :: "nat \<Rightarrow> (string \<times> time) list \<Rightarrow> (string \<times> time) list" where
  "active_after m z = (if length z \<le> m then z else tl z)"

definition sessions_at :: "'s view \<Rightarrow> rat \<Rightarrow> time \<Rightarrow> 's \<Rightarrow> string \<Rightarrow> (string \<times> time) list \<Rightarrow> (string \<times> time) list \<Rightarrow> bool" where
  "sessions_at look gap now s sub ys z \<longleftrightarrow> (\<forall>t. now \<le> t \<longrightarrow> t \<le> now + gap \<longrightarrow>
     set_of (look s t (sessions_key sub)) = map fst ys \<and> zset_of (look s t (detail_key sub)) = z)"

lemma active_after_step:
  assumes "1 \<le> m" and "length z < m + 2" and "distinct (map fst z)"
  defines "ys \<equiv> active_after m z"
  shows "filter (\<lambda>x. x \<notin> fst ` set (take (if m \<le> length ys then length ys - m + 1 else 0) z)) (map fst ys) @ [j] =
    map fst (active_after m (z @ [(j, t)]))"
proof (cases z)
  case (Cons p z')
  have p: "fst p \<notin> fst ` set z'" using assms(3) Cons by auto
  then have "filter (\<lambda>x. x \<noteq> fst p) (map fst z') = map fst z'" by (auto intro: filter_True)
  with Cons assms(1,2) show ?thesis by (auto simp: ys_def active_after_def)
qed (use assms in \<open>simp add: ys_def active_after_def\<close>)

context kv_store
begin

lemma one_more_login:
  assumes "ae_ops env = ops" and "inv s" and "0 < token_ttl (ae_settings env)" and "JWT_MAX_SESSIONS (ae_settings env) = int m" and "1 \<le> m"
    and "length z < m + 2" and "distinct (map fst (z @ [(jti, u)]))" and "sorted (map snd (z @ [(jti, u)]))" and "\<forall>p \<in> set z. 0 < snd p"
    and "sessions_at look (of_int (token_ttl (ae_settings env))) t s sub (active_after m z) z"
    and "t \<le> u" and "u \<le> t + of_int (token_ttl (ae_settings env))"
  shows "\<exists>s' db'. snd (create_token_pair env u (jti, v, row) sub roles ip ua (s, db)) = (s', db') \<and> inv s' \<and>
    sessions_at look (of_int (token_ttl (ae_settings env))) u s' sub (active_after m (z @ [(jti, u)])) (z @ [(jti, u)])"
proof -
  let ?ttl = "token_ttl (ae_settings env)" and ?ys = "active_after m z" and ?z = "z @ [(jti, u)]"
  have now: "set_of (look s u (sessions_key sub)) = map fst ?ys" "zset_of (look s u (detail_key sub)) = z"
    using assms(10-12) by (auto simp: sessions_at_def)
  have ys: "?ys = [] \<longrightarrow> z = []" "jti \<notin> fst ` set ?ys" "jti \<notin> fst ` set z"
    using assms(5,7) by (cases z; auto simp: active_after_def)+
  have k: "(if int m \<le> int (length ?ys) then nat (int (length ?ys) - int m + 1) else 0) = (if m \<le> length ?ys then length ?ys - m + 1 else 0)"
    by auto
  have sz: "sorted (map snd z)" "distinct (map fst z)" using assms(7,8) by (simp_all add: sorted_append)
  obtain s' where s': "login_session env u jti sub ip ua s = (Inr (), s')" "inv s'"
      "look s' u (sessions_key sub) = Some (SSet (map fst (active_after m ?z)), Some (u + of_int (?ttl + 300)))"
      "look s' u (detail_key sub) = Some (SZset ?z, Some (u + of_int (?ttl + 300)))"
    using login_session_step [OF assms(1-3) now ys(1) sz(1) assms(9) ys(3,2), of ip ua]
    unfolding assms(4) k active_after_step [OF assms(5,6) sz(2), where t = u] by (elim exE conjE) (rule that)
  have "sessions_at look (of_int ?ttl) u s' sub (active_after m ?z) ?z"
    unfolding sessions_at_def
  proof (intro allI impI)
    fix x assume x: "u \<le> x" "x \<le> u + of_int ?ttl"
    then have "x \<le> u + of_int (?ttl + 300)" by simp
    then show "set_of (look s' x (sessions_key sub)) = map fst (active_after m ?z) \<and> zset_of (look s' x (detail_key sub)) = ?z"
      using s'(3,4) kv_later [OF s'(2) x(1)] by (simp add: live_Some set_of_def zset_of_def)
  qed
  moreover obtain db' where "snd (create_token_pair env u (jti, v, row) sub roles ip ua (s, db)) = (s', db')"
    using create_token_pair_store [OF s'(1), of v row roles db] by (metis prod.collapse)
  ultimately show ?thesis using s'(2) by blast
qed

lemma more_logins:
  assumes "ae_ops env = ops" and "0 < token_ttl (ae_settings env)" and "JWT_MAX_SESSIONS (ae_settings env) = int m" and "1 \<le> m"
  shows "inv s \<Longrightarrow> length (z @ stamps xs) \<le> m + 2 \<Longrightarrow> distinct (map fst (z @ stamps xs)) \<Longrightarrow>
    sorted (map snd z) \<Longrightarrow> \<forall>p \<in> set z. 0 < snd p \<and> snd p \<le> t \<Longrightarrow> 0 < t \<Longrightarrow>
    sessions_at look (of_int (token_ttl (ae_settings env))) t s sub (active_after m z) z \<Longrightarrow>
    spaced (of_int (token_ttl (ae_settings env))) t xs \<Longrightarrow>
    \<exists>s' db'. token_logins env sub roles ip ua xs (s, db) = (s', db') \<and> inv s' \<and>
      sessions_at look (of_int (token_ttl (ae_settings env))) (end_time t xs) s' sub (active_after m (z @ stamps xs)) (z @ stamps xs)"
proof (induction xs arbitrary: s db z t)
  case (Cons x xs)
  obtain u jti v row where x: "x = (u, jti, v, row)" by (cases x) auto
  have tu: "t \<le> u" "u \<le> t + of_int (token_ttl (ae_settings env))" "spaced (of_int (token_ttl (ae_settings env))) u xs"
    using Cons.prems x by auto
  have z: "z @ stamps (x # xs) = (z @ [(jti, u)]) @ stamps xs" by (simp add: x stamps_def)
  have zz: "length z < m + 2" "distinct (map fst (z @ [(jti, u)]))" "sorted (map snd (z @ [(jti, u)]))" "\<forall>p \<in> set z. 0 < snd p"
      "\<forall>p \<in> set (z @ [(jti, u)]). 0 < snd p \<and> snd p \<le> u"
    using Cons.prems tu unfolding z by (auto simp: sorted_append)
  obtain s1 db1 where s1: "snd (create_token_pair env u (jti, v, row) sub roles ip ua (s, db)) = (s1, db1)" "inv s1"
      "sessions_at look (of_int (token_ttl (ae_settings env))) u s1 sub (active_after m (z @ [(jti, u)])) (z @ [(jti, u)])"
    using one_more_login [OF assms(1) Cons.prems(1) assms(2-4) zz(1-4) Cons.prems(7) tu(1,2)] by blast
  have "0 < u" using Cons.prems(6) tu(1) by simp
  from Cons.IH [OF s1(2) _ _ zz(3,5) this s1(3) tu(3)] Cons.prems(2,3) show ?case
    unfolding z by (simp add: x s1(1) del: append_assoc)
qed (auto simp: stamps_def)

end

text \<open>The limit on the sessions of a subject holds for one login too many and fails for two: the first
  login over the limit removes the oldest session, the next one finds the removed session still in the
  list of details, revokes it again and leaves one session more than the limit.\<close>

theorem session_limit_exceeded:
  fixes lib :: "'r aioredis" and env :: "'r redis_client auth_env"
  assumes "ae_ops env = redis_module lib url" and "in_fallback url s" and "0 < JWT_EXPIRY_HOURS (ae_settings env)"
    and "JWT_MAX_SESSIONS (ae_settings env) = int m" and "1 \<le> m" and "length xs \<le> m + 2"
    and "distinct (map fst (stamps xs))" and "0 < t0" and "spaced (of_int (token_ttl (ae_settings env))) t0 xs"
    and "\<forall>t. t0 \<le> t \<longrightarrow> rc_look s t (sessions_key sub) = None \<and> rc_look s t (detail_key sub) = None"
  shows "fst (r_set_members (ae_ops env) (end_time t0 xs) (sessions_key sub) (fst (token_logins env sub roles ip ua xs (s, db)))) =
    Inr (map fst (if length xs \<le> m then stamps xs else tl (stamps xs)))"
proof -
  have ttl: "0 < token_ttl (ae_settings env)" using assms(3) by (simp add: token_ttl_def)
  have "sessions_at rc_look (of_int (token_ttl (ae_settings env))) t0 s sub (active_after m []) []"
    using assms(10) by (simp add: sessions_at_def active_after_def set_of_def zset_of_def)
  have pre: "length ([] @ stamps xs) \<le> m + 2" "distinct (map fst ([] @ stamps xs))" "sorted (map snd ([] :: (string \<times> time) list))"
      "\<forall>p \<in> set ([] :: (string \<times> time) list). 0 < snd p \<and> snd p \<le> t0"
    using assms(6,7) by (simp_all add: stamps_def)
  obtain s' db' where s': "token_logins env sub roles ip ua xs (s, db) = (s', db')" "in_fallback url s'"
      "sessions_at rc_look (of_int (token_ttl (ae_settings env))) (end_time t0 xs) s' sub (active_after m (stamps xs)) (stamps xs)"
    using rc.more_logins [OF assms(1) ttl assms(4,5,2) pre assms(8) \<open>sessions_at _ _ _ _ _ _ _\<close> assms(9), of roles ip ua db] by auto
  from rc.kv_smembers [OF s'(2), of lib "end_time t0 xs" "sessions_key sub"] s' ttl assms(1) show ?thesis
    by (auto simp: sessions_at_def active_after_def stamps_def)
qed



section \<open>Change of password\<close>

context kv_store
begin

lemma revoke_step:
  fixes now :: time
  assumes "ae_ops env = ops" and "inv s" and "0 < token_ttl (ae_settings env)"
  defines "u \<equiv> now + of_int (token_ttl (ae_settings env))"
  assumes "\<forall>i \<in> D. revoked_until look now s i u"
  shows "\<exists>s'. revoke_tracked env now jti s = (Inr (), s') \<and> inv s' \<and>
    (\<forall>i \<in> insert jti D. revoked_until look now s' i u)"
proof -
  obtain s1 where s1: "r_set_with_ttl ops now (revoked_key jti) ''1'' (token_ttl (ae_settings env)) s = (Inr (), s1)" "inv s1"
      "updates look now s (revoked_key jti) (Some (SStr ''1'', if 0 < token_ttl (ae_settings env) then Some u else None)) s1"
    using kv_set [OF assms(2)] unfolding u_def by blast
  obtain b s2 where s2: "r_delete_key ops now (info_key jti) s1 = (Inr b, s2)" "inv s2" "updates look now s1 (info_key jti) None s2"
    using kv_delete [OF s1(2)] by blast
  have "revoked_until look now s1 i u" if "i \<in> insert jti D" for i
    using that assms(5) revoked_until_updates [OF _ s1(3)] revoked_updates [OF s1(3) [unfolded u_def] assms(3)]
    by (cases "i = jti") (auto simp: u_def)
  then have "revoked_until look now s2 i u" if "i \<in> insert jti D" for i
    using that revoked_until_updates [OF _ s2(3)] by simp
  with s1(1) s2(1,2) assms(1) show ?thesis by (simp add: revoke_tracked_def bnd_Inr)
qed

lemma revoke_loop:
  fixes now :: time
  assumes "ae_ops env = ops" and "0 < token_ttl (ae_settings env)"
  defines "u \<equiv> now + of_int (token_ttl (ae_settings env))"
  shows "inv s \<Longrightarrow> \<forall>i \<in> D. revoked_until look now s i u \<Longrightarrow>
    \<exists>s'. for_each jtis (revoke_tracked env now) s = (Inr (), s') \<and> inv s' \<and>
    (\<forall>i \<in> D \<union> set jtis. revoked_until look now s' i u)"
proof (induction jtis arbitrary: s D)
  case (Cons j js)
  obtain s1 where s1: "revoke_tracked env now j s = (Inr (), s1)" "inv s1"
      "\<forall>i \<in> insert j D. revoked_until look now s1 i u"
    using revoke_step [OF assms(1) Cons.prems(1) assms(2)] Cons.prems(2) unfolding u_def by blast
  from Cons.IH [OF s1(2,3)] s1(1) show ?case by (auto simp: bnd_Inr)
qed simp

lemma revoke_all_revokes:
  assumes "ae_ops env = ops" and "inv s" and "0 < token_ttl (ae_settings env)"
  shows "\<exists>s'. revoke_all env now name s = (Inr (), s') \<and> inv s' \<and> look s' now (sessions_key name) = None \<and>
    (\<forall>i \<in> set (set_of (look s now (sessions_key name))). revoked_until look now s' i (now + of_int (token_ttl (ae_settings env))))"
proof -
  let ?J = "set_of (look s now (sessions_key name))" and ?u = "now + of_int (token_ttl (ae_settings env))"
  obtain s1 where s1: "r_set_members ops now (sessions_key name) s = (Inr ?J, s1)" "inv s1"
    using kv_smembers [OF assms(2)] by blast
  obtain s2 where s2: "for_each ?J (revoke_tracked env now) s1 = (Inr (), s2)" "inv s2"
      "\<forall>i \<in> set ?J. revoked_until look now s2 i ?u"
    using revoke_loop [OF assms(1,3) s1(2), of "{}" now ?J] by auto
  obtain b s3 where s3: "r_delete_key ops now (sessions_key name) s2 = (Inr b, s3)" "inv s3" "updates look now s2 (sessions_key name) None s3"
    using kv_delete [OF s2(2)] by blast
  obtain c s4 where s4: "r_delete_key ops now (detail_key name) s3 = (Inr c, s4)" "inv s4" "updates look now s3 (detail_key name) None s4"
    using kv_delete [OF s3(2)] by blast
  have "revoke_all env now name s = (Inr (), s4)"
    using assms(1) s1(1) s2(1) s3(1) s4(1) by (simp add: revoke_all_def Let_def bnd_Inr)
  moreover have "\<forall>i \<in> set ?J. revoked_until look now s4 i ?u"
    using s2(3) revoked_until_updates [OF _ s3(3)] revoked_until_updates [OF _ s4(3)] by simp
  moreover have "look s4 now (sessions_key name) = None"
    using s3(3) s4(3) by (simp add: updates_def)
  ultimately show ?thesis using s4(2) by blast
qed

end

text \<open>A change of password rejects every access token of the tracked sessions from then on, but leaves the
  refresh tokens as they were.\<close>

theorem password_change_effect:
  fixes lib :: "'r aioredis" and env :: "'r redis_client auth_env"
  assumes "ae_ops env = redis_module lib url" and "in_fallback url s" and "jwt_ok (ae_jwt env)"
    and "JWT_SECRET (ae_settings env) \<noteq> []" and "0 < JWT_EXPIRY_HOURS (ae_settings env)" and "jti \<noteq> []"
    and "change_password env now uid row_id salt current new r user (s, db) = (Inr Changed, (s1, db1))"
    and "jti \<in> set (set_of (rc_look s now (sessions_key (au_name user))))" and "t0 \<le> now" and "now \<le> t"
    and "create_access_token env t0 jti sub roles ip ua = (token, j, expiry)"
  shows "(\<exists>msg. fst (decode_token env t token ip' s1) = Inl (HTTPException 401 msg)) \<and>
    t_refresh_tokens db1 = t_refresh_tokens db"
proof -
  let ?c = "issued env t0 jti sub roles ip ua" and ?k = "JWT_SECRET (ae_settings env)"
  let ?ttl = "token_ttl (ae_settings env)"
  have token: "token = jwt_encode (ae_jwt env) ?c ?k (JWT_ALGORITHM (ae_settings env))"
    using assms(11) unfolding create_access_token_issued by blast
  have k: "secret_known (ae_settings env) ?k" using assms(4) by (simp add: secret_known_def)
  have ttl: "0 < ?ttl" using assms(5) by (simp add: token_ttl_def)
  have iat: "of_int (jc_iat ?c) \<le> t" using assms(9,10) by simp linarith
  obtain s' where s': "revoke_all env now (au_name user) s = (Inr (), s')" "in_fallback url s'"
      "revoked_until rc_look now s' jti (now + of_int ?ttl)"
    using rc.revoke_all_revokes [OF assms(1,2) ttl, of now "au_name user"] assms(8) by blast
  have "s1 = s'" "t_refresh_tokens db1 = t_refresh_tokens db"
    using assms(7) s'(1)
    by (auto simp: change_password_def bnd_def on_store_apply log_audit_def Let_def split: option.splits if_splits prod.splits sum.splits bool.splits)
  moreover have "of_int (jc_exp ?c) \<le> now + of_int ?ttl" using assms(9) by simp linarith
  ultimately show ?thesis
    unfolding token using rc.revoked_rejected [OF assms(1) s'(2) assms(3) k iat, of now "now + of_int ?ttl"] s'(3) assms(6,10)
    by simp
qed



section \<open>Concrete instances\<close>

text \<open>A signature library that satisfies the contract: the fields of the claims and the secret, each character
  marked and each field closed by a dot.\<close>

definition pack :: "string list \<Rightarrow> string" where
  "pack fs = concat (map (\<lambda>f. concat (map (\<lambda>c. [CHR ''x'', c]) f) @ ''.'') fs)"

fun unpack :: "string \<Rightarrow> string \<Rightarrow> string list" where
  "unpack acc (x # c # cs) = (if x = CHR ''x'' then unpack (acc @ [c]) cs else acc # unpack [] (c # cs))"
| "unpack acc [x] = [acc]"
| "unpack acc [] = []"

lemma unpack_field: "unpack acc (concat (map (\<lambda>c. [CHR ''x'', c]) f) @ CHR ''.'' # rest) = (acc @ f) # unpack [] rest"
proof (induction f arbitrary: acc)
  case Nil
  then show ?case by (cases rest) auto
qed simp

lemma unpack_pack: "unpack [] (pack fs) = fs"
proof (induction fs)
  case (Cons f fs)
  then show ?case by (simp add: pack_def unpack_field)
qed (simp add: pack_def)

definition sample_fields :: "jwt_claims \<Rightarrow> string list" where
  "sample_fields c = [jc_sub c, show_int (jc_exp c), show_int (jc_iat c), jc_jti c, jc_ip c, jc_fp c] @ jc_roles c"

definition sample_claims :: "string list \<Rightarrow> jwt_claims" where
  "sample_claims fs = \<lparr>jc_sub = fs ! 0, jc_roles = drop 6 fs, jc_exp = the (parse_int (fs ! 1)), jc_iat = the (parse_int (fs ! 2)),
     jc_jti = fs ! 3, jc_ip = fs ! 4, jc_fp = fs ! 5\<rparr>"

lemma sample_claims_fields: "sample_claims (sample_fields c) = c"
  by (simp add: sample_claims_def sample_fields_def parse_show_int)

definition sample_jwt :: jwt_lib where
  "sample_jwt = \<lparr>jwt_encode = (\<lambda>c k a. pack (k # a # sample_fields c)),
     jwt_decode = (\<lambda>now v token k a.
       case unpack [] token of
         k' # a' # fs \<Rightarrow>
           if k' \<noteq> k \<or> a' \<noteq> a then Inl (InvalidTokenError ''Signature verification failed'')
           else if v \<and> of_int (jc_exp (sample_claims fs)) \<le> now then Inl ExpiredSignatureError else Inr (sample_claims fs)
       | _ \<Rightarrow> Inl (InvalidTokenError ''Not enough segments''))\<rparr>"

lemma sample_jwt_ok: "jwt_ok sample_jwt"
  by (simp add: jwt_ok_def sample_jwt_def unpack_pack sample_claims_fields) (simp add: pack_def)

definition sample_env :: "unit redis_client auth_env" where
  "sample_env = \<lparr>ae_ops = redis_module no_redis_lib [],
     ae_settings = default_settings\<lparr>JWT_SECRET := ''k'', JWT_MAX_SESSIONS := 1\<rparr>,
     ae_jwt = sample_jwt, ae_lib = plain_lib, ae_bcrypt = \<lparr>bc_hashpw = (\<lambda>p salt. Inr p), bc_checkpw = (\<lambda>p h. Inr (p = h))\<rparr>,
     ae_ldap = None, ae_iso = (\<lambda>_. []), ae_iso_parse = (\<lambda>_. None), ae_common = None\<rparr>"

definition sample_request :: "string \<Rightarrow> http_request" where
  "sample_request token = \<lparr>rq_method = ''POST'', rq_path = ''/v1/auth/logout'', rq_headers = [], rq_cookies = [(''access_token'', token)],
     rq_client = Some ''h'', rq_id = [], rq_signing = None\<rparr>"

lemma sample_env_simps [simp]:
  "ae_ops sample_env = redis_module no_redis_lib []" "ae_jwt sample_env = sample_jwt" "ae_lib sample_env = plain_lib"
  "JWT_SECRET (ae_settings sample_env) = ''k''" "JWT_EXPIRY_HOURS (ae_settings sample_env) = 1"
  "JWT_MAX_SESSIONS (ae_settings sample_env) = 1" "token_ttl (ae_settings sample_env) = 3600"
  "ae_bcrypt sample_env = \<lparr>bc_hashpw = (\<lambda>p salt. Inr p), bc_checkpw = (\<lambda>p h. Inr (p = h))\<rparr>"
  by (simp_all add: sample_env_def default_settings_def token_ttl_def)

lemma sample_env_common: "ae_common sample_env = None"
  by (simp add: sample_env_def)

lemma sample_request_token [simp]: "request_token (sample_request token) = token"
  by (simp add: request_token_def sample_request_def header_def dict_get_def)

lemma no_redis_new: "in_fallback [] new_redis_client" "rc_look new_redis_client t key = None"
  by (simp_all add: in_fallback_def new_redis_client_def rc_look_def mem_look_def)


definition sample_user :: local_user_row where
  "sample_user = \<lparr>lu_id = ''1'', lu_username = ''u'', lu_password_hash = ''Old'', lu_roles = JList [JStr ''viewer''], lu_is_active = True,
     lu_created_at = 0, lu_last_login_at = None\<rparr>"

lemma logged_out_token_rejected_witness:
  "let token = fst (create_access_token sample_env 0 ''j'' ''u'' [''viewer''] ''h'' None);
       s1 = fst (snd (logout sample_env 10 ''a'' None (sample_request token) (new_redis_client, empty_db)))
   in \<exists>msg. fst (decode_token sample_env 20 token ''h'' s1) = Inl (HTTPException 401 msg)"
proof -
  let ?token = "fst (create_access_token sample_env 0 ''j'' ''u'' [''viewer''] ''h'' None)"
  let ?m = "logout sample_env 10 ''a'' None (sample_request ?token)"
  obtain x s1 db1 where l: "?m (new_redis_client, empty_db) = (x, (s1, db1))" by (metis prod.collapse)
  have "in_fallback [] s1"
    using rc.logout_revokes [OF sample_env_simps(1) no_redis_new(1), of "''k''" "issued sample_env 0 ''j'' ''u'' [''viewer''] ''h'' None" 10,
        OF _ _ _ _ _ _ l] sample_jwt_ok
    by (simp add: create_access_token_issued secret_known_def)
  obtain j expiry where c: "create_access_token sample_env 0 ''j'' ''u'' [''viewer''] ''h'' None = (?token, j, expiry)"
    by (metis prod.collapse)
  from logged_out_token_rejected [OF sample_env_simps(1) no_redis_new(1) _ _ _ _ c _ _ sample_request_token l \<open>in_fallback [] s1\<close>, of 20 "''h''"]
  show ?thesis by (simp add: sample_jwt_ok l)
qed

lemma sample_login:
  assumes "in_fallback [] s" and "\<forall>t. rc_look s t (sessions_key sub) = None \<and> rc_look s t (detail_key sub) = None"
    and "token_digest plain_lib value \<notin> rt_token_hash ` set (t_refresh_tokens db)"
  shows "\<exists>s' db' tokens. create_token_pair sample_env now (jti, value, row) sub roles ip ua (s, db) = (Inr tokens, (s', db')) \<and>
    in_fallback [] s' \<and> set_of (rc_look s' now (sessions_key sub)) = [jti] \<and> tr_refresh_token tokens = value \<and>
    t_refresh_tokens db' = t_refresh_tokens db @ [\<lparr>rt_id = row, rt_client_id = sub, rt_token_hash = token_digest plain_lib value,
      rt_expires_at = now + of_int (JWT_REFRESH_EXPIRY_DAYS (ae_settings sample_env) * 86400), rt_revoked_at = None,
      rt_ip = Some ip, rt_user_agent = ua\<rparr>] \<and> t_local_users db' = t_local_users db"
proof -
  obtain s' where s': "login_session sample_env now jti sub ip ua s = (Inr (), s')" "in_fallback [] s'"
      "rc_look s' now (sessions_key sub) = Some (SSet [jti], Some (now + 3900))"
    using rc.login_session_step [OF sample_env_simps(1) assms(1), of now sub "[]" "[]" jti ip ua] assms(2) by (auto simp: set_of_def zset_of_def)
  have fresh: "\<not> list_ex (\<lambda>r. rt_token_hash r = token_digest plain_lib value) (t_refresh_tokens db)"
    using assms(3) by (auto simp: list_ex_iff image_iff)
  have "create_token_pair sample_env now (jti, value, row) sub roles ip ua (s, db) =
      (Inr \<lparr>tr_access_token = fst (create_access_token sample_env now jti sub roles ip ua), tr_refresh_token = value, tr_expires_in = 3600\<rparr>,
       (s', snd (store_refresh_token sample_env now row value sub ip ua db)))"
    using s'(1) fresh by (auto simp: login_session_def create_token_pair_def bnd_def create_access_token_issued on_store_def on_db_def with_db_def
        store_refresh_token_def Let_def split: prod.splits sum.splits)
  with s'(2,3) fresh show ?thesis
    by (auto simp: store_refresh_token_def Let_def set_of_def)
qed

lemma issued_token_authenticates_witness:
  "\<exists>tokens s db. create_token_pair sample_env 0 (''j'', ''v'', ''r'') ''u'' [''viewer''] ''h'' None (new_redis_client, empty_db) =
       (Inr tokens, (s, db)) \<and>
     fst (get_current_user sample_env 60 (sample_request []) (Some (tr_access_token tokens)) (new_redis_client, db)) =
       Inr \<lparr>au_name = ''u'', au_roles = [''viewer''], au_permissions = [''*''], au_client_id = None, au_is_api_client = False\<rparr>"
proof -
  have ip: "get_client_ip (sample_request []) = ''h''" by (simp add: get_client_ip_def sample_request_def header_def dict_get_def)
  have key: "request_api_key (sample_request []) = []" by (simp add: request_api_key_def sample_request_def header_def dict_get_def)
  obtain tokens s db where c: "create_token_pair sample_env 0 (''j'', ''v'', ''r'') ''u'' [''viewer''] ''h'' None (new_redis_client, empty_db) =
      (Inr tokens, (s, db))"
    using sample_login [OF no_redis_new(1), of "''u''" "''v''" empty_db 0 "''j''" "''r''" "[''viewer'']" "''h''" None]
    by (auto simp: no_redis_new(2) empty_db_def)
  with issued_token_authenticates [OF _ _ _ _ c [folded ip] sample_env_simps(1) no_redis_new(1) _ _ _ key, of sample_env 60 db] show ?thesis
    by (simp add: sample_jwt_ok no_redis_new(2))
qed

lemma lockout_after_five_witness:
  "fst (local_authenticate sample_env 100 ''u'' ''Old'' (login_attempts sample_env ''u''
     [(1, ''a''), (2, ''b''), (2, ''c''), (50, ''d''), (90, ''e'')] (new_redis_client, empty_db\<lparr>t_local_users := [sample_user]\<rparr>))) = Inr (False, []) \<and>
   fst (local_authenticate sample_env 100 ''u'' ''Old'' (login_attempts sample_env ''u''
     [(1, ''a''), (2, ''b''), (2, ''c''), (50, ''d'')] (new_redis_client, empty_db\<lparr>t_local_users := [sample_user]\<rparr>))) = Inr (True, [''viewer''])"
proof (rule conjI)
  have w: "wrong_password sample_env (empty_db\<lparr>t_local_users := [sample_user]\<rparr>) ''u'' [c]" for c
    by (simp add: wrong_password_def sample_user_def verify_password_def Let_def)
  note use = lockout_after_five [OF sample_env_simps(1) no_redis_new(1), of 0 "''u''" _ "empty_db\<lparr>t_local_users := [sample_user]\<rparr>" sample_user "''Old''" 100]
  show "fst (local_authenticate sample_env 100 ''u'' ''Old'' (login_attempts sample_env ''u''
     [(1, ''a''), (2, ''b''), (2, ''c''), (50, ''d''), (90, ''e'')] (new_redis_client, empty_db\<lparr>t_local_users := [sample_user]\<rparr>))) = Inr (False, [])"
    by (subst use) (simp_all add: w no_redis_new(2), simp_all add: sample_user_def verify_password_def)
  show "fst (local_authenticate sample_env 100 ''u'' ''Old'' (login_attempts sample_env ''u''
     [(1, ''a''), (2, ''b''), (2, ''c''), (50, ''d'')] (new_redis_client, empty_db\<lparr>t_local_users := [sample_user]\<rparr>))) = Inr (True, [''viewer''])"
    by (subst use) (simp_all add: w no_redis_new(2), simp_all add: sample_user_def verify_password_def roles_of_def)
qed

lemma session_limit_exceeded_witness:
  "fst (r_set_members (redis_module no_redis_lib []) 9 (sessions_key ''u'') (fst (token_logins sample_env ''u'' [''viewer''] ''h'' None
     [(2, ''a'', ''x'', ''p''), (5, ''b'', ''y'', ''q''), (9, ''c'', ''z'', ''r'')] (new_redis_client, empty_db)))) = Inr [''b'', ''c'']"
  using session_limit_exceeded [OF sample_env_simps(1) no_redis_new(1), of 1 "[(2, ''a'', ''x'', ''p''), (5, ''b'', ''y'', ''q''), (9, ''c'', ''z'', ''r'')]"
      1 "''u''" "[''viewer'']" "''h''" None empty_db]
  by (simp add: stamps_def no_redis_new(2))



definition sample_refresh :: refresh_token_row where
  "sample_refresh = \<lparr>rt_id = ''r'', rt_client_id = ''u'', rt_token_hash = token_digest plain_lib ''v'', rt_expires_at = 100,
     rt_revoked_at = None, rt_ip = Some ''h'', rt_user_agent = None\<rparr>"

lemma password_change_effect_witness:
  "\<exists>s. set_of (rc_look s 5 (sessions_key ''u'')) = [''j''] \<and>
     (\<exists>s1 db1. change_password sample_env 6 ''a'' ''b'' ''c'' ''Old'' ''Correct-Horse-7'' (sample_request [])
         \<lparr>au_name = ''u'', au_roles = [''viewer''], au_permissions = [''*''], au_client_id = None, au_is_api_client = False\<rparr>
         (s, empty_db\<lparr>t_local_users := [sample_user], t_refresh_tokens := [sample_refresh]\<rparr>) = (Inr Changed, (s1, db1)) \<and>
       (\<exists>msg. fst (decode_token sample_env 7 (fst (create_access_token sample_env 5 ''j'' ''u'' [''viewer''] ''h'' None)) ''h'' s1) =
         Inl (HTTPException 401 msg)) \<and>
       t_refresh_tokens db1 = [sample_refresh])"
proof -
  let ?user = "\<lparr>au_name = ''u'', au_roles = [''viewer''], au_permissions = [''*''], au_client_id = None, au_is_api_client = False\<rparr>"
  let ?db = "empty_db\<lparr>t_local_users := [sample_user], t_refresh_tokens := [sample_refresh]\<rparr>"
  obtain s where s: "login_session sample_env 5 ''j'' ''u'' ''h'' None new_redis_client = (Inr (), s)" "in_fallback [] s"
      "rc_look s 5 (sessions_key ''u'') = Some (SSet [''j''], Some 3905)"
    using rc.login_session_step [OF sample_env_simps(1) no_redis_new(1), of 5 "''u''" "[]" "[]" "''j''" "''h''" None]
    by (auto simp: set_of_def zset_of_def no_redis_new(2))
  then have j: "''j'' \<in> set (set_of (rc_look s 6 (sessions_key ''u'')))"
    using rc.kv_later [OF s(2), of 5 6] by (simp add: set_of_def live_Some)
  obtain s1 where "revoke_all sample_env 6 ''u'' s = (Inr (), s1)"
    using rc.revoke_all_revokes [OF sample_env_simps(1) s(2), of 6 "''u''"] by auto
  moreover have "validate_password None ''Correct-Horse-7'' (PASSWORD_MIN_LENGTH (ae_settings sample_env)) = (True, [])"
    by (simp add: validate_password_def sample_env_def default_settings_def char_between_def is_special_def load_common_passwords_def
        embedded_passwords_def str_lower_def)
  moreover have h: "hash_password \<lparr>bc_hashpw = (\<lambda>p salt. Inr p), bc_checkpw = (\<lambda>p h. Inr (p = h))\<rparr> ''c'' ''Correct-Horse-7'' = Inr ''Correct-Horse-7''"
    by (simp add: hash_password_def)
  ultimately obtain db1 where c: "change_password sample_env 6 ''a'' ''b'' ''c'' ''Old'' ''Correct-Horse-7'' (sample_request []) ?user (s, ?db) =
      (Inr Changed, (s1, db1))"
    by (simp add: change_password_def sample_user_def verify_password_def check_password_history_def password_history_def
        bnd_def on_store_apply log_audit_def empty_db_def sample_env_common Let_def h order_by_def)
  obtain t x where t: "create_access_token sample_env 5 ''j'' ''u'' [''viewer''] ''h'' None =
      (fst (create_access_token sample_env 5 ''j'' ''u'' [''viewer''] ''h'' None), t, x)"
    by (metis prod.collapse)
  from password_change_effect [OF sample_env_simps(1) s(2) _ _ _ _ c _ _ _ t, of 7 "''h''"] j sample_jwt_ok
  have e: "(\<exists>msg. fst (decode_token sample_env 7 (fst (create_access_token sample_env 5 ''j'' ''u'' [''viewer''] ''h'' None)) ''h'' s1) =
        Inl (HTTPException 401 msg)) \<and> t_refresh_tokens db1 = [sample_refresh]"
    by auto
  have "set_of (rc_look s 5 (sessions_key ''u'')) = [''j'']" by (simp add: s(3) set_of_def)
  with c e show ?thesis by blast
qed

end
