(* ===== verification/Caching.thy ===== *)
theory Caching
  imports LlmProxy "HOL-Library.Multiset"
begin

text \<open>
  \<open>caching.py\<close>: responses kept in the key-value store under a digest of the messages, the
  model and the temperature, and the hit counters of the process.
\<close>


section \<open>Responses as JSON\<close>

text \<open>
  \<open>model_dump\<close> of a response and its inverse \<open>model_validate\<close>.  Validation is the strict
  one: a value of another type than the field's is refused (the coercions of the validation library are
  not modelled); a field that is absent has its default.
\<close>

definition opt_json :: "('a \<Rightarrow> json) \<Rightarrow> 'a option \<Rightarrow> json" where
  "opt_json f x = (case x of None \<Rightarrow> JNull | Some a \<Rightarrow> f a)"

definition message_to_json :: "oai_message \<Rightarrow> json" where
  "message_to_json m =
     JObj [(''role'', JStr (om_role m)), (''content'', opt_json JStr (om_content m)),
           (''tool_calls'', opt_json (\<lambda>ds. JList (map JObj ds)) (om_tool_calls m)), (''name'', opt_json JStr (om_name m))]"

definition choice_to_json :: "oai_choice \<Rightarrow> json" where
  "choice_to_json c =
     JObj [(''index'', JInt (oc_index c)), (''message'', message_to_json (oc_message c)),
           (''finish_reason'', opt_json JStr (oc_finish_reason c))]"

definition response_to_json :: "oai_response \<Rightarrow> json" where
  "response_to_json r =
     JObj [(''id'', JStr (or_id r)), (''object'', JStr (or_object r)), (''created'', JInt (or_created r)), (''model'', JStr (or_model r)),
           (''choices'', JList (map choice_to_json (or_choices r))),
           (''usage'', JObj [(''prompt_tokens'', JInt (ou_prompt_tokens (or_usage r))),
              (''completion_tokens'', JInt (ou_completion_tokens (or_usage r))), (''total_tokens'', JInt (ou_total_tokens (or_usage r)))]),
           (''system_fingerprint'', opt_json JStr (or_system_fingerprint r))]"

definition invalid :: "'a res" where
  "invalid = Inl (OtherError ''ValidationError'')"

fun as_str :: "json \<Rightarrow> string res" where
  "as_str (JStr s) = Inr s"
| "as_str _ = invalid"

fun as_int :: "json \<Rightarrow> int res" where
  "as_int (JInt i) = Inr i"
| "as_int _ = invalid"

fun as_dict :: "json \<Rightarrow> jdict res" where
  "as_dict (JObj d) = Inr d"
| "as_dict _ = invalid"

fun as_list :: "json \<Rightarrow> json list res" where
  "as_list (JList xs) = Inr xs"
| "as_list _ = invalid"

definition as_opt :: "(json \<Rightarrow> 'a res) \<Rightarrow> json \<Rightarrow> 'a option res" where
  "as_opt f v = (if v = JNull then Inr None else rbind (f v) (\<lambda>a. Inr (Some a)))"

definition field_req :: "string \<Rightarrow> jdict \<Rightarrow> json res" where
  "field_req k d = (case map_of d k of None \<Rightarrow> invalid | Some v \<Rightarrow> Inr v)"

definition message_of_json :: "json \<Rightarrow> oai_message res" where
  "message_of_json v =
     rbind (as_dict v) (\<lambda>d.
     rbind (rbind (field_req ''role'' d) as_str) (\<lambda>role.
     rbind (as_opt as_str (jget ''content'' d)) (\<lambda>content.
     rbind (as_opt (\<lambda>v. rbind (as_list v) (all_res as_dict)) (jget ''tool_calls'' d)) (\<lambda>tool_calls.
     rbind (as_opt as_str (jget ''name'' d)) (\<lambda>name.
     Inr \<lparr>om_role = role, om_content = content, om_tool_calls = tool_calls, om_name = name\<rparr>)))))"

definition choice_of_json :: "json \<Rightarrow> oai_choice res" where
  "choice_of_json v =
     rbind (as_dict v) (\<lambda>d.
     rbind (as_int (jget_or (JInt 0) ''index'' d)) (\<lambda>index.
     rbind (rbind (field_req ''message'' d) message_of_json) (\<lambda>msg.
     rbind (as_opt as_str (jget ''finish_reason'' d)) (\<lambda>finish_reason.
     Inr \<lparr>oc_index = index, oc_message = msg, oc_finish_reason = finish_reason\<rparr>))))"

definition usage_of_json :: "json \<Rightarrow> oai_usage res" where
  "usage_of_json v =
     rbind (as_dict v) (\<lambda>d.
     rbind (as_int (jget_or (JInt 0) ''prompt_tokens'' d)) (\<lambda>p.
     rbind (as_int (jget_or (JInt 0) ''completion_tokens'' d)) (\<lambda>c.
     rbind (as_int (jget_or (JInt 0) ''total_tokens'' d)) (\<lambda>t.
     Inr \<lparr>ou_prompt_tokens = p, ou_completion_tokens = c, ou_total_tokens = t\<rparr>))))"

definition response_of_json :: "json \<Rightarrow> oai_response res" where
  "response_of_json v =
     rbind (as_dict v) (\<lambda>d.
     rbind (as_str (jget_or (JStr []) ''id'' d)) (\<lambda>i.
     rbind (as_str (jget_or (JStr ''chat.completion'') ''object'' d)) (\<lambda>object.
     rbind (as_int (jget_or (JInt 0) ''created'' d)) (\<lambda>created.
     rbind (as_str (jget_or (JStr []) ''model'' d)) (\<lambda>model.
     rbind (rbind (as_list (jget_or (JList []) ''choices'' d)) (all_res choice_of_json)) (\<lambda>choices.
     rbind (usage_of_json (jget_or (JObj []) ''usage'' d)) (\<lambda>usage.
     rbind (as_opt as_str (jget ''system_fingerprint'' d)) (\<lambda>fp.
     Inr \<lparr>or_id = i, or_object = object, or_created = created, or_model = model, or_choices = choices, or_usage = usage,
          or_system_fingerprint = fp\<rparr>))))))))"


section \<open>The cache key\<close>

text \<open>\<open>sort_keys=True\<close>: dictionaries are written in the order of their keys, at every depth.\<close>

fun sort_keys :: "json \<Rightarrow> json" where
  "sort_keys (JList xs) = JList (map sort_keys xs)"
| "sort_keys (JObj d) = JObj (order_by (\<lambda>p q. str_le (fst p) (fst q)) (map (\<lambda>(k, v). (k, sort_keys v)) d))"
| "sort_keys v = v"

definition compute_cache_key :: "pylib \<Rightarrow> message list \<Rightarrow> string \<Rightarrow> json \<Rightarrow> string" where
  "compute_cache_key pl messages model temperature =
     sha256_hex pl (utf8_encode (json_dumps pl (sort_keys (JObj
       [(''messages'', JList (map JObj messages)), (''model'', JStr model), (''temperature'', temperature)]))))"


section \<open>Operations\<close>

record cache_counters =
  hit_count :: nat
  miss_count :: nat

type_synonym 's cache_state = "'s \<times> cache_counters"

definition on_first :: "('s, 'a) io \<Rightarrow> ('s \<times> 't, 'a) io" where
  "on_first m = (\<lambda>(s, t). let (x, s') = m s in (x, (s', t)))"

definition count_hit :: "('s cache_state, unit) io" where
  "count_hit = (\<lambda>(s, c). (Inr (), (s, c\<lparr>hit_count := hit_count c + 1\<rparr>)))"

definition count_miss :: "('s cache_state, unit) io" where
  "count_miss = (\<lambda>(s, c). (Inr (), (s, c\<lparr>miss_count := miss_count c + 1\<rparr>)))"

definition cache_entry_key :: "string \<Rightarrow> string" where
  "cache_entry_key k = ''cache:'' @ k"

text \<open>The counter of hits is advanced as soon as the entry has been parsed, before it is validated.\<close>

definition get_cached_response :: "'s redis_ops \<Rightarrow> pylib \<Rightarrow> settings \<Rightarrow> time \<Rightarrow> string \<Rightarrow> ('s cache_state, oai_response option) io" where
  "get_cached_response ops pl st now cache_key =
     (let miss = bnd count_miss (\<lambda>_. ret None) in
      if \<not> CACHE_ENABLED st then ret None
      else bnd (on_first (r_get_value ops now (cache_entry_key cache_key))) (\<lambda>raw.
        case raw of
          None \<Rightarrow> miss
        | Some (SStr s) \<Rightarrow>
            (case json_loads pl s of
               Inl _ \<Rightarrow> miss
             | Inr data \<Rightarrow>
                 bnd count_hit (\<lambda>_.
                 (case response_of_json data of Inl _ \<Rightarrow> miss | Inr r \<Rightarrow> ret (Some r))))
        | Some _ \<Rightarrow> miss))"

definition set_cached_response :: "'s redis_ops \<Rightarrow> pylib \<Rightarrow> settings \<Rightarrow> time \<Rightarrow> string \<Rightarrow> oai_response \<Rightarrow> int \<Rightarrow> ('s, unit) io" where
  "set_cached_response ops pl st now cache_key response usage_tokens =
     (if \<not> CACHE_ENABLED st then ret ()
      else if usage_tokens > CACHE_MAX_TOKENS st then ret ()
      else try_except
             (r_set_with_ttl ops now (cache_entry_key cache_key) (json_dumps pl (response_to_json response)) (CACHE_TTL_SECONDS st))
             (\<lambda>_. ret ()))"

fun delete_keys :: "'s redis_ops \<Rightarrow> time \<Rightarrow> string list \<Rightarrow> int \<Rightarrow> ('s, int) io" where
  "delete_keys ops now [] deleted = ret deleted"
| "delete_keys ops now (k # ks) deleted =
     bnd (r_delete_key ops now k) (\<lambda>b. delete_keys ops now ks (if b then deleted + 1 else deleted))"

definition invalidate_cache :: "'s redis_ops \<Rightarrow> time \<Rightarrow> string \<Rightarrow> ('s, int) io" where
  "invalidate_cache ops now pattern =
     bnd (r_get_all_keys ops now (cache_entry_key pattern)) (\<lambda>keys. delete_keys ops now keys 0)"

record cache_stats =
  ks_enabled :: bool
  ks_strategy :: string
  ks_hit_count :: nat
  ks_miss_count :: nat
  ks_hit_rate_percent :: rat
  ks_entries_count :: nat
  ks_ttl_seconds :: int

definition get_cache_stats :: "'s redis_ops \<Rightarrow> settings \<Rightarrow> time \<Rightarrow> ('s cache_state, cache_stats) io" where
  "get_cache_stats ops st now =
     bnd (try_except (bnd (on_first (r_get_all_keys ops now (cache_entry_key ''*''))) (\<lambda>keys. ret (length keys))) (\<lambda>_. ret 0))
       (\<lambda>entries (s, c).
         (let total = hit_count c + miss_count c;
              hit_rate = (if total > 0 then of_nat (hit_count c) / of_nat total * 100 else 0)
          in (Inr \<lparr>ks_enabled = CACHE_ENABLED st, ks_strategy = CACHE_STRATEGY st, ks_hit_count = hit_count c,
                   ks_miss_count = miss_count c, ks_hit_rate_percent = py_round hit_rate 2, ks_entries_count = entries,
                   ks_ttl_seconds = CACHE_TTL_SECONDS st\<rparr>, (s, c))))"

definition reset_cache_counters :: "'s cache_state \<Rightarrow> 's cache_state" where
  "reset_cache_counters = (\<lambda>(s, c). (s, \<lparr>hit_count = 0, miss_count = 0\<rparr>))"



section \<open>Round trip\<close>

lemma dict_lookup [simp]: "jget k ((k', v) # d) = (if k = k' then v else jget k d)" "jget_or w k ((k', v) # d) = (if k = k' then v else jget_or w k d)"
  by (auto simp: jget_def jget_or_def dict_get_def)

lemma all_res_map: "(\<And>x. x \<in> set xs \<Longrightarrow> f (g x) = Inr x) \<Longrightarrow> all_res f (map g xs) = Inr xs"
  by (induction xs) auto

lemma as_opt_json: "(\<And>a. f (g a) = Inr a) \<Longrightarrow> (\<And>a. g a \<noteq> JNull) \<Longrightarrow> as_opt f (opt_json g x) = Inr x"
  by (cases x) (simp_all add: as_opt_def opt_json_def)

lemma message_round_trip: "message_of_json (message_to_json m) = Inr m"
  by (simp add: message_of_json_def message_to_json_def field_req_def as_opt_json all_res_map)

lemma choice_round_trip: "choice_of_json (choice_to_json c) = Inr c"
  by (simp add: choice_of_json_def choice_to_json_def field_req_def message_round_trip as_opt_json)

lemma response_round_trip: "response_of_json (response_to_json r) = Inr r"
  by (simp add: response_of_json_def response_to_json_def usage_of_json_def choice_round_trip all_res_map as_opt_json)

context kv_store
begin

lemma set_cached:
  assumes "inv s" and "CACHE_ENABLED st" and "n \<le> CACHE_MAX_TOKENS st" and "0 < CACHE_TTL_SECONDS st"
  shows "\<exists>s'. set_cached_response ops pl st now k r n s = (Inr (), s') \<and> inv s' \<and>
    updates look now s (cache_entry_key k) (Some (SStr (json_dumps pl (response_to_json r)), Some (now + of_int (CACHE_TTL_SECONDS st)))) s'"
proof -
  obtain s' where "r_set_with_ttl ops now (cache_entry_key k) (json_dumps pl (response_to_json r)) (CACHE_TTL_SECONDS st) s = (Inr (), s')"
      "inv s'" "updates look now s (cache_entry_key k)
        (Some (SStr (json_dumps pl (response_to_json r)), if CACHE_TTL_SECONDS st > 0 then Some (now + of_int (CACHE_TTL_SECONDS st)) else None)) s'"
    using kv_set [OF assms(1)] by blast
  with assms(2-4) show ?thesis by (simp add: set_cached_response_def try_Inr)
qed

lemma get_cached:
  assumes "inv s" and "CACHE_ENABLED st" and "json_codec_ok pl"
    and "look s t (cache_entry_key k) = (if alive then Some (SStr (json_dumps pl (response_to_json r)), e) else None)"
  shows "\<exists>s'. get_cached_response ops pl st t k (s, c) =
    (Inr (if alive then Some r else None),
     (s', if alive then c\<lparr>hit_count := hit_count c + 1\<rparr> else c\<lparr>miss_count := miss_count c + 1\<rparr>)) \<and> inv s' \<and> same_view look t s s'"
proof -
  obtain s' where s': "r_get_value ops t (cache_entry_key k) s = (Inr (map_option fst (look s t (cache_entry_key k))), s')" "inv s'" "same_view look t s s'"
    using kv_get [OF assms(1)] by blast
  have "json_loads pl (json_dumps pl j) = Inr j" for j using assms(3) unfolding json_codec_ok_def by blast
  with s' assms(2,4) show ?thesis
    by (simp add: get_cached_response_def Let_def bnd_def on_first_def count_hit_def count_miss_def response_round_trip)
qed

end

text \<open>C34.  A response stored in the cache is returned unchanged, and counted as a hit, until its time to live has
  passed, whatever else is stored in between under other keys; afterwards the lookup is a miss.\<close>

theorem cached_response_returned:
  fixes lib :: "'r aioredis"
  assumes "in_fallback url s" and "json_codec_ok pl" and "CACHE_ENABLED st" and "n \<le> CACHE_MAX_TOKENS st" and "0 < CACHE_TTL_SECONDS st"
    and "set_cached_response (redis_module lib url) pl st t0 k r n s = (x, s1)"
    and "set_cached_response (redis_module lib url) pl st t1 k' r' n' s1 = (x', s2)" and "t0 \<le> t1" and "t1 \<le> t" and "k' \<noteq> k"
    and "n' \<le> CACHE_MAX_TOKENS st"
  defines "alive \<equiv> t \<le> t0 + of_int (CACHE_TTL_SECONDS st)"
  shows "\<exists>s3. get_cached_response (redis_module lib url) pl st t k (s2, c) =
    (Inr (if alive then Some r else None),
     (s3, if alive then c\<lparr>hit_count := hit_count c + 1\<rparr> else c\<lparr>miss_count := miss_count c + 1\<rparr>))"
proof -
  let ?raw = "SStr (json_dumps pl (response_to_json r))" and ?e = "Some (t0 + of_int (CACHE_TTL_SECONDS st))"
  have s1: "in_fallback url s1" "updates rc_look t0 s (cache_entry_key k) (Some (?raw, ?e)) s1"
    using rc.set_cached [OF assms(1,3,4,5), of lib pl t0 k r] assms(6) by auto
  have s2: "in_fallback url s2" "\<exists>y. updates rc_look t1 s1 (cache_entry_key k') (Some y) s2"
    using rc.set_cached [OF s1(1) assms(3,11,5), of lib pl t1 k' r'] assms(7) by auto
  have "rc_look s2 t (cache_entry_key k) = rc_look s1 t (cache_entry_key k)"
    using s2(2) assms(9,10) by (auto simp: updates_def cache_entry_key_def)
  also have "\<dots> = (if alive then Some (?raw, ?e) else None)"
    using s1(2) assms(8,9) by (simp add: updates_def live_Some alive_def)
  finally show ?thesis using rc.get_cached [OF s2(1) assms(3,2)] by blast
qed



section \<open>The key does not depend on the order of keys\<close>

lemma str_le_refl: "str_le s s"
  by (induction s) auto

lemma str_le_total: "str_le s t \<or> str_le t s"
proof (induction s t rule: str_le.induct)
  case (3 c s d t)
  have "(of_char c :: nat) < of_char d \<or> (of_char d :: nat) < of_char c \<or> c = d"
    by (metis linorder_neqE_nat of_char_eq_iff)
  with 3 show ?case by auto
qed auto

lemma str_le_antisym: "str_le s t \<Longrightarrow> str_le t s \<Longrightarrow> s = t"
proof (induction s t rule: str_le.induct)
  case (2 c s)
  then show ?case by simp
next
  case (1 t)
  then show ?case by (cases t) auto
qed auto

lemma str_le_trans: "str_le s t \<Longrightarrow> str_le t u \<Longrightarrow> str_le s u"
proof (induction s t arbitrary: u rule: str_le.induct)
  case (3 c s d t)
  then show ?case by (cases u) auto
qed auto

abbreviation key_le :: "(string \<times> 'a) \<Rightarrow> (string \<times> 'a) \<Rightarrow> bool" where
  "key_le p q \<equiv> str_le (fst p) (fst q)"

lemma mset_order_by: "mset (order_by le xs) = mset xs"
proof -
  have "mset (insert_by le x ys) = add_mset x (mset ys)" for x ys by (induction ys) auto
  then show ?thesis by (induction xs) (simp_all add: order_by_def)
qed

lemma sorted_insert_by: "sorted_wrt key_le ys \<Longrightarrow> sorted_wrt key_le (insert_by key_le x ys)"
proof (induction ys)
  case (Cons y ys)
  then show ?case using str_le_total [of "fst x" "fst y"] by (auto intro: str_le_trans)
qed simp

lemma sorted_order_by: "sorted_wrt key_le (order_by key_le xs)"
  by (induction xs) (simp_all add: order_by_def sorted_insert_by)

lemma sorted_key_unique:
  "sorted_wrt key_le xs \<Longrightarrow> sorted_wrt key_le ys \<Longrightarrow> distinct (map fst xs) \<Longrightarrow> mset xs = mset ys \<Longrightarrow> xs = ys"
proof (induction xs arbitrary: ys)
  case (Cons x xs)
  then obtain y ys' where y: "ys = y # ys'" by (cases ys) auto
  have s: "set (x # xs) = set ys" using Cons.prems(4) by (metis set_mset_mset)
  have "x = y"
  proof (rule ccontr)
    assume "x \<noteq> y"
    then have "x \<in> set ys'" "y \<in> set xs" using s y by auto
    then have "fst x = fst y" using Cons.prems(1,2) y by (auto intro: str_le_antisym)
    with \<open>y \<in> set xs\<close> Cons.prems(3) show False by (auto simp: image_iff)
  qed
  with Cons y show ?case by simp
qed simp

text \<open>The cache key does not depend on the order in which a client writes the keys of its messages.\<close>

theorem cache_key_canonical:
  assumes "list_all2 (\<lambda>m m'. dict_wf m \<and> mset m = mset m') ms ms'"
  shows "compute_cache_key pl ms model temperature = compute_cache_key pl ms' model temperature"
proof -
  have "sort_keys (JObj m) = sort_keys (JObj m')" if "dict_wf m" and "mset m = mset m'" for m m'
  proof -
    let ?f = "\<lambda>(k, v). (k, sort_keys v)"
    have "map fst (map ?f m) = map fst m" by (simp add: case_prod_beta comp_def)
    then have "distinct (map fst (order_by key_le (map ?f m)))"
      using that(1) mset_eq_imp_distinct_iff [of "map fst (order_by key_le (map ?f m))" "map fst m"]
      by (metis mset_map mset_order_by)
    moreover have "mset (order_by key_le (map ?f m)) = mset (order_by key_le (map ?f m'))"
      using that(2) by (simp add: mset_order_by)
    ultimately have "order_by key_le (map ?f m) = order_by key_le (map ?f m')"
      by (intro sorted_key_unique sorted_order_by)
    then show ?thesis by simp
  qed
  then have "list_all2 (\<lambda>m m'. (sort_keys \<circ> JObj) m = (sort_keys \<circ> JObj) m') ms ms'"
    using list_all2_mono [OF assms] by simp
  then have "map (sort_keys \<circ> JObj) ms = map (sort_keys \<circ> JObj) ms'"
    by (induction rule: list_all2_induct) (auto simp del: sort_keys.simps)
  then show ?thesis by (simp add: compute_cache_key_def)
qed



section \<open>Concrete instances\<close>

definition sample_response :: oai_response where
  "sample_response = \<lparr>or_id = ''r'', or_object = ''chat.completion'', or_created = 1, or_model = ''m'',
     or_choices = [\<lparr>oc_index = 0, oc_message = \<lparr>om_role = ''assistant'', om_content = Some ''hi'', om_tool_calls = None, om_name = None\<rparr>,
                     oc_finish_reason = Some ''stop''\<rparr>],
     or_usage = \<lparr>ou_prompt_tokens = 1, ou_completion_tokens = 1, ou_total_tokens = 2\<rparr>, or_system_fingerprint = None\<rparr>"

lemma cached_response_returned_witness:
  "\<exists>s3. get_cached_response (redis_module no_redis_lib []) plain_lib default_settings 99 ''k''
     (snd (set_cached_response (redis_module no_redis_lib []) plain_lib default_settings 9 ''j'' sample_response 2
        (snd (set_cached_response (redis_module no_redis_lib []) plain_lib default_settings 5 ''k'' sample_response 2 new_redis_client))),
      \<lparr>hit_count = 0, miss_count = 0\<rparr>) = (Inr (Some sample_response), (s3, \<lparr>hit_count = 1, miss_count = 0\<rparr>))"
proof -
  have "in_fallback [] (new_redis_client :: unit redis_client)" by (simp add: in_fallback_def new_redis_client_def)
  from cached_response_returned [OF this plain_lib_json _ _ _ prod.collapse [symmetric] prod.collapse [symmetric],
      where st = default_settings and n = 2 and lib = no_redis_lib and ?t0.0 = 5 and k = "''k''" and r = sample_response and ?t1.0 = 9 and k' = "''j''" and
      r' = sample_response and n' = 2 and t = 99 and c = "\<lparr>hit_count = 0, miss_count = 0\<rparr>"]
  show ?thesis by (simp add: default_settings_def)
qed

lemma cache_key_canonical_witness:
  "compute_cache_key plain_lib [[(''role'', JStr ''user''), (''content'', JStr ''a'')]] ''m'' JNull =
   compute_cache_key plain_lib [[(''content'', JStr ''a''), (''role'', JStr ''user'')]] ''m'' JNull"
  by (rule cache_key_canonical) simp

end
