(* ===== verification/Clients.thy ===== *)
theory Clients
  imports AuthProofs
begin

text \<open>
  \<open>clients.py\<close>: the clients of the proxy, their API keys, and the accounting of tokens
  against the daily quota.  New row identifiers and the random part of API keys are
  arguments, and so is the current day as text.  New row identifiers (version 4 UUIDs) are taken to be unused, so that an
  insertion meets no other row with its key, and the integers of the columns are not bounded here.
\<close>


section \<open>Requests and responses\<close>

text \<open>\<open>ClientCreate\<close> and \<open>ClientUpdate\<close>; the priority is checked by the request models.\<close>

record client_create =
  cc_name :: string
  cc_roles :: "string list"
  cc_permissions :: "string list"
  cc_allowed_providers :: "string list"
  cc_allowed_models :: "string list"
  cc_rate_limit_per_minute :: int
  cc_token_limit_per_minute :: int
  cc_daily_token_quota :: int
  cc_max_concurrent_requests :: int
  cc_require_signing :: bool
  cc_priority :: int
  cc_cache_enabled :: bool
  cc_ldap_group :: "string option"
  cc_description :: "string option"

definition default_client_create :: "string \<Rightarrow> client_create" where
  "default_client_create name =
     \<lparr>cc_name = name, cc_roles = [''api_client''], cc_permissions = [''*''], cc_allowed_providers = [], cc_allowed_models = [],
      cc_rate_limit_per_minute = 60, cc_token_limit_per_minute = 50000, cc_daily_token_quota = 0, cc_max_concurrent_requests = 10,
      cc_require_signing = False, cc_priority = 5, cc_cache_enabled = False, cc_ldap_group = None, cc_description = None\<rparr>"

definition client_create_ok :: "client_create \<Rightarrow> bool" where
  "client_create_ok c \<longleftrightarrow> 1 \<le> cc_priority c \<and> cc_priority c \<le> 10"

record client_update =
  cu_name :: "string option"
  cu_roles :: "string list option"
  cu_permissions :: "string list option"
  cu_allowed_providers :: "string list option"
  cu_allowed_models :: "string list option"
  cu_rate_limit_per_minute :: "int option"
  cu_token_limit_per_minute :: "int option"
  cu_daily_token_quota :: "int option"
  cu_max_concurrent_requests :: "int option"
  cu_require_signing :: "bool option"
  cu_priority :: "int option"
  cu_cache_enabled :: "bool option"
  cu_ldap_group :: "string option"
  cu_is_active :: "bool option"
  cu_description :: "string option"

definition client_update_ok :: "client_update \<Rightarrow> bool" where
  "client_update_ok u \<longleftrightarrow> (case cu_priority u of None \<Rightarrow> True | Some p \<Rightarrow> 1 \<le> p \<and> p \<le> 10)"

record client_response =
  clr_id :: string
  clr_name :: string
  clr_roles :: "string list"
  clr_permissions :: "string list"
  clr_allowed_providers :: "string list"
  clr_allowed_models :: "string list"
  clr_rate_limit_per_minute :: int
  clr_token_limit_per_minute :: int
  clr_daily_token_quota :: int
  clr_max_concurrent_requests :: int
  clr_require_signing :: bool
  clr_priority :: int
  clr_cache_enabled :: bool
  clr_ldap_group :: "string option"
  clr_is_active :: bool
  clr_created_at :: time
  clr_last_used_at :: "time option"
  clr_description :: "string option"

text \<open>A column with a list of strings; other lists are refused by the response model, other values replaced.\<close>

definition list_column :: "string list \<Rightarrow> json \<Rightarrow> string list res" where
  "list_column dflt v =
     (case v of
        JList xs \<Rightarrow> if list_all is_str xs then Inr (map str_val xs) else Inl (OtherError ''ValidationError'')
      | _ \<Rightarrow> Inr dflt)"

definition client_to_response :: "client_row \<Rightarrow> client_response res" where
  "client_to_response c =
     rbind (list_column [] (cl_roles c)) (\<lambda>roles.
     rbind (list_column [''*''] (cl_permissions c)) (\<lambda>permissions.
     rbind (list_column [] (cl_allowed_providers c)) (\<lambda>allowed_providers.
     rbind (list_column [] (cl_allowed_models c)) (\<lambda>allowed_models.
     Inr \<lparr>clr_id = cl_id c, clr_name = cl_name c, clr_roles = roles, clr_permissions = permissions,
          clr_allowed_providers = allowed_providers, clr_allowed_models = allowed_models,
          clr_rate_limit_per_minute = cl_rate_limit_per_minute c, clr_token_limit_per_minute = cl_token_limit_per_minute c,
          clr_daily_token_quota = cl_daily_token_quota c, clr_max_concurrent_requests = cl_max_concurrent_requests c,
          clr_require_signing = cl_require_signing c, clr_priority = cl_priority c, clr_cache_enabled = cl_cache_enabled c,
          clr_ldap_group = cl_ldap_group c, clr_is_active = cl_is_active c, clr_created_at = cl_created_at c,
          clr_last_used_at = cl_last_used_at c, clr_description = cl_description c\<rparr>))))"


section \<open>Operations on the table\<close>

definition find_client :: "string \<Rightarrow> database \<Rightarrow> client_row option" where
  "find_client client_id db = find (\<lambda>c. cl_id c = client_id) (t_clients db)"

definition get_all_clients :: "database \<Rightarrow> client_response list res" where
  "get_all_clients db =
     all_res client_to_response (order_by (\<lambda>c c'. cl_created_at c' \<le> cl_created_at c) (t_clients db))"

definition get_client_by_id :: "string \<Rightarrow> database \<Rightarrow> client_response option res" where
  "get_client_by_id client_id db =
     (case find_client client_id db of None \<Rightarrow> Inr None | Some c \<Rightarrow> rbind (client_to_response c) (\<lambda>r. Inr (Some r)))"

definition get_client_by_key_hash :: "string \<Rightarrow> database \<Rightarrow> client_row option" where
  "get_client_by_key_hash key_hash db = find (\<lambda>c. cl_api_key_hash c = key_hash) (t_clients db)"

definition string_list :: "string list \<Rightarrow> json" where
  "string_list xs = JList (map JStr xs)"

definition new_client_row :: "string \<Rightarrow> time \<Rightarrow> string \<Rightarrow> client_create \<Rightarrow> client_row" where
  "new_client_row uid now key_hash d =
     \<lparr>cl_id = uid, cl_name = cc_name d, cl_api_key_hash = key_hash, cl_roles = string_list (cc_roles d),
      cl_permissions = string_list (cc_permissions d), cl_allowed_providers = string_list (cc_allowed_providers d),
      cl_allowed_models = string_list (cc_allowed_models d), cl_rate_limit_per_minute = cc_rate_limit_per_minute d,
      cl_token_limit_per_minute = cc_token_limit_per_minute d, cl_daily_token_quota = cc_daily_token_quota d,
      cl_max_concurrent_requests = cc_max_concurrent_requests d, cl_require_signing = cc_require_signing d,
      cl_priority = cc_priority d, cl_cache_enabled = cc_cache_enabled d, cl_ldap_group = cc_ldap_group d,
      cl_is_active = True, cl_created_at = now, cl_last_used_at = None, cl_metadata = None, cl_description = cc_description d\<rparr>"

definition create_client :: "pylib \<Rightarrow> string \<Rightarrow> time \<Rightarrow> string \<Rightarrow> client_create \<Rightarrow> (database, client_response \<times> string) io" where
  "create_client pl uid now hex d =
     (let plaintext = generate_api_key hex; c = new_client_row uid now (hash_api_key pl plaintext) d
      in with_db (\<lambda>db. (rbind (client_to_response c) (\<lambda>resp. Inr (resp, plaintext)), db\<lparr>t_clients := t_clients db @ [c]\<rparr>)))"

text \<open>A field of the request that is absent or null is left as it is.\<close>

definition apply_client_update :: "client_update \<Rightarrow> client_row \<Rightarrow> client_row" where
  "apply_client_update u c =
     set_if (cu_description u) (\<lambda>v c. c\<lparr>cl_description := Some v\<rparr>)
     (set_if (cu_is_active u) (\<lambda>v c. c\<lparr>cl_is_active := v\<rparr>)
     (set_if (cu_ldap_group u) (\<lambda>v c. c\<lparr>cl_ldap_group := Some v\<rparr>)
     (set_if (cu_cache_enabled u) (\<lambda>v c. c\<lparr>cl_cache_enabled := v\<rparr>)
     (set_if (cu_priority u) (\<lambda>v c. c\<lparr>cl_priority := v\<rparr>)
     (set_if (cu_require_signing u) (\<lambda>v c. c\<lparr>cl_require_signing := v\<rparr>)
     (set_if (cu_max_concurrent_requests u) (\<lambda>v c. c\<lparr>cl_max_concurrent_requests := v\<rparr>)
     (set_if (cu_daily_token_quota u) (\<lambda>v c. c\<lparr>cl_daily_token_quota := v\<rparr>)
     (set_if (cu_token_limit_per_minute u) (\<lambda>v c. c\<lparr>cl_token_limit_per_minute := v\<rparr>)
     (set_if (cu_rate_limit_per_minute u) (\<lambda>v c. c\<lparr>cl_rate_limit_per_minute := v\<rparr>)
     (set_if (cu_allowed_models u) (\<lambda>v c. c\<lparr>cl_allowed_models := string_list v\<rparr>)
     (set_if (cu_allowed_providers u) (\<lambda>v c. c\<lparr>cl_allowed_providers := string_list v\<rparr>)
     (set_if (cu_permissions u) (\<lambda>v c. c\<lparr>cl_permissions := string_list v\<rparr>)
     (set_if (cu_roles u) (\<lambda>v c. c\<lparr>cl_roles := string_list v\<rparr>)
     (set_if (cu_name u) (\<lambda>v c. c\<lparr>cl_name := v\<rparr>) c))))))))))))))"

text \<open>A change of one client and the response for it; \<^const>\<open>None\<close> when there is no such client.\<close>

definition change_client :: "string \<Rightarrow> (client_row \<Rightarrow> client_row) \<Rightarrow> (database, client_response option) io" where
  "change_client client_id f db =
     (case find_client client_id db of
        None \<Rightarrow> (Inr None, db)
      | Some c \<Rightarrow> (rbind (client_to_response (f c)) (\<lambda>r. Inr (Some r)),
                   db\<lparr>t_clients := update_first (\<lambda>c. cl_id c = client_id) f (t_clients db)\<rparr>))"

definition update_client :: "string \<Rightarrow> client_update \<Rightarrow> (database, client_response option) io" where
  "update_client client_id u = with_db (change_client client_id (apply_client_update u))"

text \<open>The rows of the client in the tables that refer to it are deleted with it.\<close>

definition delete_client :: "string \<Rightarrow> (database, bool) io" where
  "delete_client client_id db =
     (if find_client client_id db = None then (Inr False, db)
      else (Inr True, db\<lparr>t_clients := delete_first (\<lambda>c. cl_id c = client_id) (t_clients db),
                         t_token_usage := filter (\<lambda>r. tu_client_id r \<noteq> client_id) (t_token_usage db),
                         t_request_logs := filter (\<lambda>r. rl_client_id r \<noteq> Some client_id) (t_request_logs db)\<rparr>))"

definition regenerate_api_key :: "pylib \<Rightarrow> string \<Rightarrow> string \<Rightarrow> (database, (client_response \<times> string) option) io" where
  "regenerate_api_key pl hex client_id =
     (let plaintext = generate_api_key hex
      in bnd (with_db (change_client client_id (\<lambda>c. c\<lparr>cl_api_key_hash := hash_api_key pl plaintext\<rparr>)))
           (\<lambda>r. ret (map_option (\<lambda>resp. (resp, plaintext)) r)))"


section \<open>Quota\<close>

record quota_response =
  qr_client_id :: string
  qr_date :: string
  qr_input_tokens :: int
  qr_output_tokens :: int
  qr_daily_quota :: int
  qr_percent_used :: rat

definition usage_of :: "string \<Rightarrow> string \<Rightarrow> database \<Rightarrow> token_usage_row list" where
  "usage_of client_id date db = filter (\<lambda>r. tu_client_id r = client_id \<and> tu_date r = date) (t_token_usage db)"

definition get_quota_usage :: "string \<Rightarrow> string option \<Rightarrow> string \<Rightarrow> database \<Rightarrow> quota_response" where
  "get_quota_usage today date client_id db =
     (let d = (case date of None \<Rightarrow> today | Some x \<Rightarrow> x);
          inp = sum_list (map tu_input_tokens (usage_of client_id d db));
          outp = sum_list (map tu_output_tokens (usage_of client_id d db));
          quota = (case find_client client_id db of None \<Rightarrow> 0 | Some c \<Rightarrow> cl_daily_token_quota c);
          percent = (if quota > 0 then of_int (inp + outp) / of_int quota * 100 else 0)
      in \<lparr>qr_client_id = client_id, qr_date = d, qr_input_tokens = inp, qr_output_tokens = outp, qr_daily_quota = quota,
          qr_percent_used = py_round percent 2\<rparr>)"

definition reset_quota :: "string \<Rightarrow> string option \<Rightarrow> string \<Rightarrow> database \<Rightarrow> database" where
  "reset_quota today date client_id db =
     (let d = (case date of None \<Rightarrow> today | Some x \<Rightarrow> x)
      in db\<lparr>t_token_usage := filter (\<lambda>r. \<not> (tu_client_id r = client_id \<and> tu_date r = d)) (t_token_usage db)\<rparr>)"

definition record_token_usage :: "string \<Rightarrow> string \<Rightarrow> string \<Rightarrow> string \<Rightarrow> string \<Rightarrow> int \<Rightarrow> int \<Rightarrow> database \<Rightarrow> string \<times> database" where
  "record_token_usage uid today client_id provider model input_tokens output_tokens db =
     (let cost = calculate_cost input_tokens output_tokens (get_cost_rate provider model db)
      in (uid, db\<lparr>t_token_usage := t_token_usage db @
           [\<lparr>tu_id = uid, tu_client_id = client_id, tu_date = today, tu_provider = provider, tu_model = model,
             tu_input_tokens = input_tokens, tu_output_tokens = output_tokens, tu_cost_usd = cost\<rparr>]\<rparr>))"

definition touch_client :: "time \<Rightarrow> string \<Rightarrow> database \<Rightarrow> database" where
  "touch_client now client_id db =
     db\<lparr>t_clients := update_first (\<lambda>c. cl_id c = client_id) (\<lambda>c. c\<lparr>cl_last_used_at := Some now\<rparr>) (t_clients db)\<rparr>"



section \<open>Typing of the table\<close>

definition is_string_list :: "json \<Rightarrow> bool" where
  "is_string_list v \<longleftrightarrow> (\<exists>xs. v = string_list xs)"

definition client_typed :: "client_row \<Rightarrow> bool" where
  "client_typed c \<longleftrightarrow> is_string_list (cl_roles c) \<and> is_string_list (cl_permissions c) \<and> is_string_list (cl_allowed_providers c) \<and>
     is_string_list (cl_allowed_models c) \<and> 1 \<le> cl_priority c \<and> cl_priority c \<le> 10"

text \<open>The operations of the module and what they ask of their arguments.\<close>

datatype client_op =
    Create string time string client_create
  | Update string client_update
  | Delete string
  | Regenerate string string
  | Touch time string

fun op_ok :: "client_op \<Rightarrow> bool" where
  "op_ok (Create uid now hex d) = client_create_ok d"
| "op_ok (Update cid u) = client_update_ok u"
| "op_ok (Delete cid) = True"
| "op_ok (Regenerate hex cid) = True"
| "op_ok (Touch now cid) = True"

fun run_client_op :: "pylib \<Rightarrow> client_op \<Rightarrow> database \<Rightarrow> unit res \<times> database" where
  "run_client_op pl (Create uid now hex d) db = (case create_client pl uid now hex d db of (r, db') \<Rightarrow> (map_sum id (\<lambda>_. ()) r, db'))"
| "run_client_op pl (Update cid u) db = (case update_client cid u db of (r, db') \<Rightarrow> (map_sum id (\<lambda>_. ()) r, db'))"
| "run_client_op pl (Delete cid) db = (case delete_client cid db of (r, db') \<Rightarrow> (map_sum id (\<lambda>_. ()) r, db'))"
| "run_client_op pl (Regenerate hex cid) db = (case regenerate_api_key pl hex cid db of (r, db') \<Rightarrow> (map_sum id (\<lambda>_. ()) r, db'))"
| "run_client_op pl (Touch now cid) db = (Inr (), touch_client now cid db)"

fun run_client_ops :: "pylib \<Rightarrow> client_op list \<Rightarrow> database \<Rightarrow> unit res \<times> database" where
  "run_client_ops pl [] db = (Inr (), db)"
| "run_client_ops pl (op # ops) db =
     (case run_client_op pl op db of (Inl e, db') \<Rightarrow> (Inl e, db') | (Inr _, db') \<Rightarrow> run_client_ops pl ops db')"

lemma is_string_list_column [simp]: "is_string_list v \<Longrightarrow> \<exists>xs. list_column dflt v = Inr xs"
  by (auto simp: is_string_list_def list_column_def string_list_def list_all_iff)

lemma is_string_list_string_list [simp]: "is_string_list (string_list xs)"
  by (auto simp: is_string_list_def)

lemma client_typed_response: "client_typed c \<Longrightarrow> \<exists>r. client_to_response c = Inr r"
  unfolding client_typed_def client_to_response_def using is_string_list_column by (metis (no_types, lifting) rbind_simps(2))

lemma set_if_typed: "client_typed c \<Longrightarrow> (\<And>v c. x = Some v \<Longrightarrow> client_typed c \<Longrightarrow> client_typed (f v c)) \<Longrightarrow> client_typed (set_if x f c)"
  by (simp add: set_if_def split: option.splits)

lemma apply_client_update_typed: "client_update_ok u \<Longrightarrow> client_typed c \<Longrightarrow> client_typed (apply_client_update u c)"
  unfolding apply_client_update_def
  by (intro set_if_typed) (auto simp: client_typed_def client_update_ok_def)

lemma set_update_first: "set (update_first P f xs) \<subseteq> set xs \<union> f ` {x \<in> set xs. P x}"
  by (induction xs) auto

lemma update_first_typed:
  "\<forall>c \<in> set cs. client_typed c \<Longrightarrow> (\<And>c. client_typed c \<Longrightarrow> client_typed (f c)) \<Longrightarrow> \<forall>c \<in> set (update_first P f cs). client_typed c"
  using set_update_first by fastforce

lemma change_client_typed:
  assumes "\<forall>c \<in> set (t_clients db). client_typed c" and "\<And>c. client_typed c \<Longrightarrow> client_typed (f c)"
  shows "\<exists>r db'. with_db (change_client cid f) db = (Inr r, db') \<and> (\<forall>c \<in> set (t_clients db'). client_typed c)"
proof (cases "find_client cid db")
  case None
  with assms(1) show ?thesis by (simp add: change_client_def with_db_def)
next
  case (Some c)
  then have "client_typed (f c)" using assms by (auto simp: find_client_def find_Some_iff)
  then obtain r where "client_to_response (f c) = Inr r" using client_typed_response by blast
  with Some update_first_typed [OF assms] show ?thesis by (simp add: change_client_def with_db_def)
qed

lemma client_op_typed:
  assumes "op_ok op" and "\<forall>c \<in> set (t_clients db). client_typed c"
  shows "\<exists>db'. run_client_op pl op db = (Inr (), db') \<and> (\<forall>c \<in> set (t_clients db'). client_typed c)"
proof (cases op)
  case (Create uid now hex d)
  have t: "client_typed (new_client_row uid now h d)" for h
    using assms(1) Create by (simp add: client_typed_def new_client_row_def client_create_ok_def)
  then obtain r where "client_to_response (new_client_row uid now (hash_api_key pl (generate_api_key hex)) d) = Inr r"
    using client_typed_response by blast
  with assms(2) t show ?thesis by (simp add: Create create_client_def with_db_def Let_def)
next
  case (Update cid u)
  then show ?thesis
    using change_client_typed [OF assms(2), of "apply_client_update u" cid] apply_client_update_typed assms(1)
    by (auto simp: update_client_def)
next
  case (Delete cid)
  with assms(2) show ?thesis by (auto simp: delete_client_def dest: set_delete_first)
next
  case (Regenerate hex cid)
  have "client_typed (c\<lparr>cl_api_key_hash := h\<rparr>) = client_typed c" for c h by (simp add: client_typed_def)
  then show ?thesis
    using change_client_typed [OF assms(2), of "\<lambda>c. c\<lparr>cl_api_key_hash := hash_api_key pl (generate_api_key hex)\<rparr>" cid]
    by (auto simp: Regenerate regenerate_api_key_def bnd_def Let_def)
next
  case (Touch now cid)
  then show ?thesis
    using update_first_typed [OF assms(2), of "\<lambda>c. c\<lparr>cl_last_used_at := Some now\<rparr>"] by (auto simp: touch_client_def client_typed_def)
qed

lemma client_ops_typed:
  "list_all op_ok ops \<Longrightarrow> \<forall>c \<in> set (t_clients db). client_typed c \<Longrightarrow>
   \<exists>db'. run_client_ops pl ops db = (Inr (), db') \<and> (\<forall>c \<in> set (t_clients db'). client_typed c)"
proof (induction ops arbitrary: db)
  case (Cons op ops)
  obtain db1 where db1: "run_client_op pl op db = (Inr (), db1)" "\<forall>c \<in> set (t_clients db1). client_typed c"
    using client_op_typed Cons.prems by fastforce
  with Cons show ?case by simp
qed simp

lemma all_res_Inr: "(\<And>x. x \<in> set xs \<Longrightarrow> \<exists>y. f x = Inr y) \<Longrightarrow> \<exists>ys. all_res f xs = Inr ys"
proof (induction xs)
  case (Cons x xs)
  then obtain y ys where "f x = Inr y" "all_res f xs = Inr ys" by fastforce
  then show ?case by simp
qed simp

text \<open>C31.  The client table is well typed at all times: starting from the empty table, any sequence of operations with
  checked requests runs without an exception, every row keeps lists of strings and a priority from
  one to ten, and listing the clients or showing one never raises.\<close>

theorem client_table_typed:
  assumes "t_clients db = []" and "list_all op_ok ops"
  shows "\<exists>db'. run_client_ops pl ops db = (Inr (), db') \<and> list_all client_typed (t_clients db') \<and>
    (\<exists>rs. get_all_clients db' = Inr rs) \<and> (\<exists>r. get_client_by_id cid db' = Inr r)"
proof -
  obtain db' where db': "run_client_ops pl ops db = (Inr (), db')" "\<forall>c \<in> set (t_clients db'). client_typed c"
    using client_ops_typed [OF assms(2), of db pl] assms(1) by auto
  have "\<exists>rs. get_all_clients db' = Inr rs"
    unfolding get_all_clients_def using db'(2) client_typed_response by (intro all_res_Inr) simp
  moreover have "\<exists>r. get_client_by_id cid db' = Inr r"
  proof (cases "find_client cid db'")
    case (Some c)
    then have "client_typed c" using db'(2) by (auto simp: find_client_def find_Some_iff)
    then obtain r where "client_to_response c = Inr r" using client_typed_response by blast
    with Some show ?thesis by (simp add: get_client_by_id_def)
  qed (simp add: get_client_by_id_def)
  ultimately show ?thesis using db' by (simp add: list_all_iff)
qed



section \<open>API keys\<close>

text \<open>
  What the holder of an API key may expect of it, as the operations on the clients go by: whether the client still has this
  key and is active, and what it is called and allowed.  \<^const>\<open>None\<close> stands for a client that was deleted.
\<close>

record key_holder =
  kh_key :: bool
  kh_active :: bool
  kh_name :: string
  kh_roles :: "string list"
  kh_permissions :: "string list"

definition updated :: "'a option \<Rightarrow> 'a \<Rightarrow> 'a" where
  "updated x old = (case x of Some v \<Rightarrow> v | None \<Rightarrow> old)"

fun holder_step :: "pylib \<Rightarrow> string \<Rightarrow> string \<Rightarrow> client_op \<Rightarrow> key_holder option \<Rightarrow> key_holder option" where
  "holder_step pl key cid (Delete i) x = (if i = cid then None else x)"
| "holder_step pl key cid (Update i u) (Some k) = Some (if i = cid then
     k\<lparr>kh_active := updated (cu_is_active u) (kh_active k), kh_name := updated (cu_name u) (kh_name k),
       kh_roles := updated (cu_roles u) (kh_roles k), kh_permissions := updated (cu_permissions u) (kh_permissions k)\<rparr> else k)"
| "holder_step pl key cid (Regenerate hex i) (Some k) = Some (if i = cid then
     k\<lparr>kh_key := hash_api_key pl (generate_api_key hex) = hash_api_key pl key\<rparr> else k)"
| "holder_step pl key cid op x = x"

definition holder_answer :: "string \<Rightarrow> key_holder option \<Rightarrow> auth_user res" where
  "holder_answer cid x =
     (case x of
        Some k \<Rightarrow>
          if kh_key k \<and> kh_active k
          then Inr \<lparr>au_name = kh_name k, au_roles = kh_roles k, au_permissions = kh_permissions k, au_client_id = Some cid,
                    au_is_api_client = True\<rparr>
          else Inl (HTTPException 401 ''Invalid API key'')
      | None \<Rightarrow> Inl (HTTPException 401 ''Invalid API key''))"

text \<open>New identifiers and new keys of other clients are fresh.\<close>

fun op_fresh :: "pylib \<Rightarrow> string \<Rightarrow> string \<Rightarrow> client_op \<Rightarrow> bool" where
  "op_fresh pl key cid (Create i now hex d) \<longleftrightarrow> i \<noteq> cid \<and> hash_api_key pl (generate_api_key hex) \<noteq> hash_api_key pl key"
| "op_fresh pl key cid (Regenerate hex i) \<longleftrightarrow> i \<noteq> cid \<longrightarrow> hash_api_key pl (generate_api_key hex) \<noteq> hash_api_key pl key"
| "op_fresh pl key cid _ \<longleftrightarrow> True"

lemma str_val_list [simp]: "map str_val (map JStr xs) = xs"
  by (induction xs) auto

lemma roles_of_string_list [simp]: "roles_of (string_list xs) dflt = xs"
  by (simp add: roles_of_def string_list_def del: map_map)

lemma api_key_user:
  assumes "header ''x-api-key'' r = key" and "key \<noteq> []"
  shows "fst (get_current_user env now r cred (s, db)) =
    (case find (\<lambda>c. cl_api_key_hash c = hash_api_key (ae_lib env) key \<and> cl_is_active c) (t_clients db) of
       None \<Rightarrow> Inl (HTTPException 401 ''Invalid API key'') | Some c \<Rightarrow> Inr (client_user c))"
  using assms by (auto simp: get_current_user_def request_api_key_def Let_def split: option.splits)

lemma map_sum_Inr [simp]: "map_sum id g x = Inr u \<longleftrightarrow> (\<exists>y. x = Inr y \<and> g y = u)"
  by (cases x) auto

lemma set_if_field: "(\<And>v c. g (f v c) = g c) \<Longrightarrow> g (set_if x f c) = g c"
  by (simp add: set_if_def split: option.splits)

lemma apply_client_update_fields [simp]:
  "cl_id (apply_client_update u c) = cl_id c" "cl_api_key_hash (apply_client_update u c) = cl_api_key_hash c"
  "cl_is_active (apply_client_update u c) = updated (cu_is_active u) (cl_is_active c)"
  "cl_name (apply_client_update u c) = updated (cu_name u) (cl_name c)"
  "cl_roles (apply_client_update u c) = updated (map_option string_list (cu_roles u)) (cl_roles c)"
  "cl_permissions (apply_client_update u c) = updated (map_option string_list (cu_permissions u)) (cl_permissions c)"
  by (simp_all add: apply_client_update_def set_if_field [where g = cl_id] set_if_field [where g = cl_api_key_hash]
      set_if_field [where g = cl_is_active] set_if_field [where g = cl_name] set_if_field [where g = cl_roles]
      set_if_field [where g = cl_permissions])
    (simp_all add: set_if_def updated_def set_if_field [where g = cl_is_active] set_if_field [where g = cl_name]
      set_if_field [where g = cl_roles] set_if_field [where g = cl_permissions] split: option.split)

text \<open>The rows that have the identifier or the key: the client alone.\<close>

lemma filter_update_first_in:
  "(\<And>x. R x \<Longrightarrow> Q x \<and> Q (f x)) \<Longrightarrow> filter Q (update_first R f xs) = update_first R f (filter Q xs)"
  by (induction xs) auto

lemma filter_update_first_out:
  "(\<And>x. x \<in> set xs \<Longrightarrow> R x \<Longrightarrow> \<not> Q x \<and> \<not> Q (f x)) \<Longrightarrow> filter Q (update_first R f xs) = filter Q xs"
  by (induction xs) auto

lemma filter_delete_first_in: "(\<And>x. R x \<Longrightarrow> Q x) \<Longrightarrow> filter Q (delete_first R xs) = delete_first R (filter Q xs)"
  by (induction xs) auto

lemma filter_delete_first_out: "(\<And>x. x \<in> set xs \<Longrightarrow> R x \<Longrightarrow> \<not> Q x) \<Longrightarrow> filter Q (delete_first R xs) = filter Q xs"
  by (induction xs) auto

lemma find_filter: "(\<And>x. P x \<Longrightarrow> Q x) \<Longrightarrow> find P (filter Q xs) = find P xs"
  by (induction xs) auto

lemma update_first_none: "find R xs = None \<Longrightarrow> update_first R f xs = xs"
  by (induction xs) (auto split: if_splits)

lemma delete_first_absent: "find R xs = None \<Longrightarrow> delete_first R xs = xs"
  by (induction xs) (auto split: if_splits)

lemma change_client_rows:
  "with_db (change_client i f) db = (Inr x, db') \<Longrightarrow> t_clients db' = update_first (\<lambda>c. cl_id c = i) f (t_clients db)"
  by (auto simp: change_client_def with_db_def find_client_def update_first_none split: option.splits sum.splits prod.splits)

definition concerns :: "pylib \<Rightarrow> string \<Rightarrow> string \<Rightarrow> client_row \<Rightarrow> bool" where
  "concerns pl key cid c \<longleftrightarrow> cl_id c = cid \<or> cl_api_key_hash c = hash_api_key pl key"

definition is_holder :: "pylib \<Rightarrow> string \<Rightarrow> string \<Rightarrow> key_holder \<Rightarrow> client_row \<Rightarrow> bool" where
  "is_holder pl key cid k c \<longleftrightarrow> cl_id c = cid \<and> (cl_api_key_hash c = hash_api_key pl key \<longleftrightarrow> kh_key k) \<and> cl_is_active c = kh_active k \<and>
     cl_name c = kh_name k \<and> cl_roles c = string_list (kh_roles k) \<and> cl_permissions c = string_list (kh_permissions k)"

definition tracks :: "pylib \<Rightarrow> string \<Rightarrow> string \<Rightarrow> key_holder option \<Rightarrow> database \<Rightarrow> bool" where
  "tracks pl key cid x db \<longleftrightarrow>
     (case x of
        None \<Rightarrow> filter (concerns pl key cid) (t_clients db) = []
      | Some k \<Rightarrow> (\<exists>c. filter (concerns pl key cid) (t_clients db) = [c] \<and> is_holder pl key cid k c))"

lemma tracked_id: "tracks pl key cid x db \<Longrightarrow> c \<in> set (t_clients db) \<Longrightarrow> concerns pl key cid c \<Longrightarrow> cl_id c = cid"
proof -
  assume a: "tracks pl key cid x db" "c \<in> set (t_clients db)" "concerns pl key cid c"
  then have "c \<in> set (filter (concerns pl key cid) (t_clients db))" by simp
  with a(1) show ?thesis by (auto simp: tracks_def is_holder_def split: option.splits simp del: set_filter)
qed

text \<open>A change of the rows with one identifier, seen from the rows that concern the key.\<close>

lemma changed_concerned:
  assumes "tracks pl key cid x db" and "\<And>c. cl_id (f c) = cl_id c"
    and "\<And>c. cl_id c \<noteq> cid \<Longrightarrow> cl_id c = i \<Longrightarrow> \<not> concerns pl key cid c \<Longrightarrow> \<not> concerns pl key cid (f c)"
  shows "filter (concerns pl key cid) (update_first (\<lambda>c. cl_id c = i) f (t_clients db)) =
    (if i = cid then update_first (\<lambda>c. cl_id c = i) f (filter (concerns pl key cid) (t_clients db))
     else filter (concerns pl key cid) (t_clients db))"
proof (cases "i = cid")
  case True
  then show ?thesis using assms(2) by (simp add: filter_update_first_in concerns_def)
next
  case False
  then show ?thesis using tracked_id [OF assms(1)] assms(3) by (auto intro!: filter_update_first_out)
qed

lemma op_tracked:
  assumes "tracks pl key cid x db" and "op_fresh pl key cid op" and "run_client_op pl op db = (Inr (), db')"
  shows "tracks pl key cid (holder_step pl key cid op x) db'"
proof (cases op)
  case (Create i now hex d)
  then have "t_clients db' = t_clients db @ [new_client_row i now (hash_api_key pl (generate_api_key hex)) d]"
    using assms(3) by (auto simp: create_client_def with_db_def Let_def split: sum.splits prod.splits)
  with assms(1,2) Create show ?thesis by (cases x) (auto simp: tracks_def concerns_def new_client_row_def)
next
  case (Update i u)
  then obtain r where "with_db (change_client i (apply_client_update u)) db = (Inr r, db')"
    using assms(3) by (auto simp: update_client_def split: prod.splits sum.splits)
  with changed_concerned [OF assms(1), of "apply_client_update u" i] assms(1) Update show ?thesis
    by (cases x) (auto simp: tracks_def change_client_rows concerns_def is_holder_def updated_def split: option.splits)
next
  case (Delete i)
  then have "t_clients db' = delete_first (\<lambda>c. cl_id c = i) (t_clients db)"
    using assms(3) by (auto simp: delete_client_def find_client_def delete_first_absent split: if_splits)
  moreover have "filter (concerns pl key cid) (delete_first (\<lambda>c. cl_id c = i) (t_clients db)) =
    (if i = cid then delete_first (\<lambda>c. cl_id c = i) (filter (concerns pl key cid) (t_clients db))
     else filter (concerns pl key cid) (t_clients db))"
    using tracked_id [OF assms(1)] by (auto simp: concerns_def intro!: filter_delete_first_in filter_delete_first_out)
  ultimately show ?thesis using assms(1) Delete by (auto simp: tracks_def is_holder_def split: option.splits)
next
  case (Regenerate hex i)
  let ?f = "\<lambda>c. c\<lparr>cl_api_key_hash := hash_api_key pl (generate_api_key hex)\<rparr>"
  obtain r where "with_db (change_client i ?f) db = (Inr r, db')"
    using assms(3) Regenerate by (auto simp: regenerate_api_key_def bnd_def Let_def split: prod.splits sum.splits)
  with changed_concerned [OF assms(1), of ?f i] assms(1,2) Regenerate show ?thesis
    by (cases x) (auto simp: tracks_def change_client_rows concerns_def is_holder_def split: option.splits)
next
  case (Touch now i)
  let ?f = "\<lambda>c. c\<lparr>cl_last_used_at := Some now\<rparr>"
  have "t_clients db' = update_first (\<lambda>c. cl_id c = i) ?f (t_clients db)" using assms(3) Touch by (auto simp: touch_client_def)
  with changed_concerned [OF assms(1), of ?f i] assms(1) Touch show ?thesis
    by (cases x) (auto simp: tracks_def concerns_def is_holder_def split: option.splits)
qed

lemma ops_tracked:
  "tracks pl key cid x db \<Longrightarrow> list_all (op_fresh pl key cid) ops \<Longrightarrow> run_client_ops pl ops db = (Inr (), db') \<Longrightarrow>
   tracks pl key cid (fold (holder_step pl key cid) ops x) db'"
proof (induction ops arbitrary: db x)
  case (Cons op ops)
  then obtain db1 where "run_client_op pl op db = (Inr (), db1)" "run_client_ops pl ops db1 = (Inr (), db')"
    by (auto split: prod.splits sum.splits)
  with Cons op_tracked [of pl key cid x db op db1] show ?case by simp
qed simp

lemma tracked_answer:
  assumes "tracks (ae_lib env) key cid x db" and "header ''x-api-key'' r = key" and "key \<noteq> []"
  shows "fst (get_current_user env now r cred (s, db)) = holder_answer cid x"
proof -
  let ?P = "\<lambda>c. cl_api_key_hash c = hash_api_key (ae_lib env) key \<and> cl_is_active c"
  have "find ?P (t_clients db) = find ?P (filter (concerns (ae_lib env) key cid) (t_clients db))"
    by (rule find_filter [symmetric]) (simp add: concerns_def)
  with assms(1) show ?thesis
    by (auto simp: api_key_user [OF assms(2,3)] tracks_def holder_answer_def is_holder_def client_user_def split: option.splits)
qed

text \<open>C32.  The API key returned for a new client stands for it from then on: after any sequence of operations on the
  clients, it authenticates the client, with the name, roles and permissions of the latest updates, exactly when the
  client was not deleted, has not been given another key since, and is active; otherwise it is refused with status 401.\<close>

theorem created_key_authenticates:
  assumes "create_client (ae_lib env) uid t0 hex d db = (Inr (resp, key), db1)"
    and "\<forall>c \<in> set (t_clients db). cl_id c \<noteq> uid \<and> cl_api_key_hash c \<noteq> hash_api_key (ae_lib env) key"
    and "list_all (op_fresh (ae_lib env) key uid) ops" and "run_client_ops (ae_lib env) ops db1 = (Inr (), db2)"
    and "header ''x-api-key'' r = key"
  shows "fst (get_current_user env now r cred (s, db2)) = holder_answer uid (fold (holder_step (ae_lib env) key uid) ops
    (Some \<lparr>kh_key = True, kh_active = True, kh_name = cc_name d, kh_roles = cc_roles d, kh_permissions = cc_permissions d\<rparr>))"
proof -
  have key: "key = generate_api_key hex"
    using assms(1) by (auto simp: create_client_def with_db_def Let_def rbind_Inr_iff split: sum.splits prod.splits)
  then have "db1 = db\<lparr>t_clients := t_clients db @ [new_client_row uid t0 (hash_api_key (ae_lib env) key) d]\<rparr>"
    using assms(1) by (auto simp: create_client_def with_db_def Let_def split: sum.splits prod.splits)
  moreover have "filter (concerns (ae_lib env) key uid) (t_clients db) = []"
    using assms(2) by (auto simp: filter_empty_conv concerns_def)
  ultimately have "tracks (ae_lib env) key uid
      (Some \<lparr>kh_key = True, kh_active = True, kh_name = cc_name d, kh_roles = cc_roles d, kh_permissions = cc_permissions d\<rparr>) db1"
    by (simp add: tracks_def is_holder_def concerns_def new_client_row_def)
  from tracked_answer [OF ops_tracked [OF this assms(3,4)] assms(5)] show ?thesis by (simp add: key generate_api_key_def)
qed



section \<open>Accounting\<close>

record usage_event =
  ue_uid :: string
  ue_client :: string
  ue_provider :: string
  ue_model :: string
  ue_input :: int
  ue_output :: int

fun record_all :: "string \<Rightarrow> usage_event list \<Rightarrow> database \<Rightarrow> database" where
  "record_all today [] db = db"
| "record_all today (e # es) db =
     record_all today es (snd (record_token_usage (ue_uid e) today (ue_client e) (ue_provider e) (ue_model e) (ue_input e) (ue_output e) db))"

text \<open>The test of the chat endpoint.\<close>

definition quota_used_up :: "quota_response \<Rightarrow> bool" where
  "quota_used_up q \<longleftrightarrow> qr_daily_quota q > 0 \<and> qr_percent_used q \<ge> 100"

definition spent :: "string \<Rightarrow> usage_event list \<Rightarrow> int" where
  "spent cid es = sum_list (map (\<lambda>e. if ue_client e = cid then ue_input e + ue_output e else 0) es)"

definition used_before :: "string \<Rightarrow> string \<Rightarrow> database \<Rightarrow> int" where
  "used_before today cid db = qr_input_tokens (get_quota_usage today None cid db) + qr_output_tokens (get_quota_usage today None cid db)"

lemma record_all_clients [simp]: "t_clients (record_all today es db) = t_clients db"
  by (induction es arbitrary: db) (simp_all add: record_token_usage_def Let_def)

lemma used_after: "used_before today cid (record_all today es db) = used_before today cid db + spent cid es"
  by (induction es arbitrary: db)
    (simp_all add: record_token_usage_def used_before_def get_quota_usage_def usage_of_def spent_def Let_def)

lemma percent_used:
  "qr_percent_used (get_quota_usage today None cid db) =
     py_round (if qr_daily_quota (get_quota_usage today None cid db) > 0
       then of_int (used_before today cid db) / of_int (qr_daily_quota (get_quota_usage today None cid db)) * 100 else 0) 2"
  by (simp add: get_quota_usage_def used_before_def Let_def)

lemma py_round_ge: "of_int k \<le> x \<Longrightarrow> of_int k \<le> py_round x n"
proof -
  assume "of_int k \<le> x"
  then have "of_int (k * 10 ^ n) \<le> x * 10 ^ n" by (simp add: mult_right_mono)
  then have "k * 10 ^ n \<le> \<lfloor>x * 10 ^ n\<rfloor>" by (simp add: le_floor_iff)
  then have "k * 10 ^ n \<le> round_half_even (x * 10 ^ n)" by (auto simp: round_half_even_def Let_def)
  then have "(of_int (k * 10 ^ n) :: rat) \<le> of_int (round_half_even (x * 10 ^ n))" by (simp only: of_int_le_iff)
  then show ?thesis by (simp add: py_round_def field_simps)
qed

text \<open>C33.  The daily quota counts every recorded token of the client, and only those: whatever requests of whatever
  clients were recorded, a client that reached its quota is refused, and one that is refused has used at
  least 99.995 percent of it (the percentage is rounded to two digits).\<close>

theorem quota_is_enforced:
  fixes today :: string and es :: "usage_event list"
  assumes "find_client cid db = Some c" and "0 < cl_daily_token_quota c"
  defines "tokens \<equiv> used_before today cid db + spent cid es"
  shows "(cl_daily_token_quota c \<le> tokens \<longrightarrow> quota_used_up (get_quota_usage today None cid (record_all today es db))) \<and>
    (quota_used_up (get_quota_usage today None cid (record_all today es db)) \<longrightarrow> 99995 * cl_daily_token_quota c \<le> 100000 * tokens)"
proof -
  let ?q = "get_quota_usage today None cid (record_all today es db)"
  have q: "qr_daily_quota ?q = cl_daily_token_quota c"
    using assms(1) by (simp add: get_quota_usage_def find_client_def Let_def)
  let ?x = "of_int tokens / of_int (cl_daily_token_quota c) * 100 :: rat"
  have p: "qr_percent_used ?q = py_round ?x 2"
    unfolding percent_used q used_after tokens_def using assms(2) by simp
  have "100 \<le> py_round ?x 2" if "cl_daily_token_quota c \<le> tokens"
  proof -
    have "(of_int (cl_daily_token_quota c) :: rat) \<le> of_int tokens" using that by simp
    with assms(2) have "of_int 100 \<le> ?x" by (simp add: field_simps)
    from py_round_ge [OF this, of 2] show ?thesis by simp
  qed
  moreover have "99995 * cl_daily_token_quota c \<le> 100000 * tokens" if "100 \<le> py_round ?x 2"
  proof -
    have "\<bar>py_round ?x 2 - ?x\<bar> \<le> 1 / 200" using py_round_error [of ?x 2] by simp
    with that have "99995 / 1000 \<le> ?x" by linarith
    with assms(2) have "99995 * of_int (cl_daily_token_quota c) \<le> 100000 * (of_int tokens :: rat)" by (simp add: field_simps)
    then show ?thesis by (metis of_int_le_iff of_int_mult of_int_numeral)
  qed
  ultimately show ?thesis using assms(2) by (simp add: quota_used_up_def q p)
qed



section \<open>Concrete instances\<close>

lemma client_table_typed_witness:
  "\<exists>db'. run_client_ops plain_lib [Create ''1'' 5 ''ab'' (default_client_create ''a''), Create ''2'' 6 ''cd'' (default_client_create ''b''),
       Update ''1'' \<lparr>cu_name = None, cu_roles = Some [''admin''], cu_permissions = None, cu_allowed_providers = None, cu_allowed_models = None,
         cu_rate_limit_per_minute = None, cu_token_limit_per_minute = None, cu_daily_token_quota = Some 10, cu_max_concurrent_requests = None,
         cu_require_signing = None, cu_priority = Some 10, cu_cache_enabled = None, cu_ldap_group = None, cu_is_active = None, cu_description = None\<rparr>,
       Delete ''2''] empty_db = (Inr (), db') \<and> list_all client_typed (t_clients db') \<and> length (t_clients db') = 1"
proof -
  let ?ops = "[Create ''1'' 5 ''ab'' (default_client_create ''a''), Create ''2'' 6 ''cd'' (default_client_create ''b''),
       Update ''1'' \<lparr>cu_name = None, cu_roles = Some [''admin''], cu_permissions = None, cu_allowed_providers = None, cu_allowed_models = None,
         cu_rate_limit_per_minute = None, cu_token_limit_per_minute = None, cu_daily_token_quota = Some 10, cu_max_concurrent_requests = None,
         cu_require_signing = None, cu_priority = Some 10, cu_cache_enabled = None, cu_ldap_group = None, cu_is_active = None, cu_description = None\<rparr>,
       Delete ''2'']"
  have "t_clients empty_db = []" by (simp add: empty_db_def)
  moreover have "list_all op_ok ?ops" by (simp add: client_create_ok_def client_update_ok_def default_client_create_def)
  ultimately obtain db' where db': "run_client_ops plain_lib ?ops empty_db = (Inr (), db')" "list_all client_typed (t_clients db')"
    using client_table_typed [of empty_db ?ops plain_lib] by blast
  moreover have "length (t_clients db') = 1"
    using db'(1) by (auto simp: create_client_def update_client_def change_client_def delete_client_def find_client_def with_db_def Let_def
        empty_db_def new_client_row_def default_client_create_def apply_client_update_def set_if_def rbind_def split: sum.splits prod.splits)
  ultimately show ?thesis by blast
qed

lemma created_key_authenticates_witness:
  "\<exists>resp db1 db2 db3. create_client plain_lib ''1'' 5 ''ab'' (default_client_create ''a'') empty_db = (Inr (resp, ''sk-proxy-ab''), db1) \<and>
     run_client_ops plain_lib [Touch 6 ''1''] db1 = (Inr (), db2) \<and>
     fst (get_current_user sample_env 7 (sample_request []\<lparr>rq_headers := [(''x-api-key'', ''sk-proxy-ab'')]\<rparr>) None (new_redis_client, db2)) =
       Inr \<lparr>au_name = ''a'', au_roles = [''api_client''], au_permissions = [''*''], au_client_id = Some ''1'', au_is_api_client = True\<rparr> \<and>
     run_client_ops plain_lib [Touch 6 ''1'', Delete ''1''] db1 = (Inr (), db3) \<and>
     fst (get_current_user sample_env 7 (sample_request []\<lparr>rq_headers := [(''x-api-key'', ''sk-proxy-ab'')]\<rparr>) None (new_redis_client, db3)) =
       Inl (HTTPException 401 ''Invalid API key'')"
proof -
  let ?d = "default_client_create ''a''" and ?r = "sample_request []\<lparr>rq_headers := [(''x-api-key'', ''sk-proxy-ab'')]\<rparr>"
  let ?db1 = "empty_db\<lparr>t_clients := [new_client_row ''1'' 5 (hash_api_key plain_lib ''sk-proxy-ab'') ?d]\<rparr>"
  have "client_typed (new_client_row ''1'' 5 h ?d)" for h
    by (simp add: client_typed_def new_client_row_def default_client_create_def)
  then obtain resp where "client_to_response (new_client_row ''1'' 5 (hash_api_key plain_lib ''sk-proxy-ab'') ?d) = Inr resp"
    using client_typed_response by blast
  then have c: "create_client (ae_lib sample_env) ''1'' 5 ''ab'' ?d empty_db = (Inr (resp, ''sk-proxy-ab''), ?db1)"
    by (simp add: create_client_def with_db_def generate_api_key_def empty_db_def Let_def)
  have fresh: "\<forall>c \<in> set (t_clients empty_db). cl_id c \<noteq> ''1'' \<and> cl_api_key_hash c \<noteq> hash_api_key (ae_lib sample_env) ''sk-proxy-ab''"
    by (simp add: empty_db_def)
  have k: "header ''x-api-key'' ?r = ''sk-proxy-ab''" by (simp add: header_def dict_get_def)
  have f: "list_all (op_fresh (ae_lib sample_env) ''sk-proxy-ab'' ''1'') ops" if "ops = [Touch 6 ''1''] \<or> ops = [Touch 6 ''1'', Delete ''1'']" for ops
    using that by auto
  obtain db2 where t: "run_client_ops (ae_lib sample_env) [Touch 6 ''1''] ?db1 = (Inr (), db2)"
    by simp
  obtain db3 where e: "run_client_ops (ae_lib sample_env) [Touch 6 ''1'', Delete ''1''] ?db1 = (Inr (), db3)"
    by (simp add: delete_client_def find_client_def new_client_row_def touch_client_def)
  from created_key_authenticates [OF c fresh f t k, of 7 None new_redis_client]
    created_key_authenticates [OF c fresh f e k, of 7 None new_redis_client] c t e
  show ?thesis by (auto simp: default_client_create_def holder_answer_def)
qed

lemma quota_is_enforced_witness:
  "quota_used_up (get_quota_usage ''d'' None ''1'' (record_all ''d'' [\<lparr>ue_uid = ''x'', ue_client = ''1'', ue_provider = ''p'', ue_model = ''m'',
     ue_input = 60, ue_output = 40\<rparr>] (empty_db\<lparr>t_clients := [(new_client_row ''1'' 5 [] (default_client_create ''a''))\<lparr>cl_daily_token_quota := 100\<rparr>]\<rparr>)))"
proof -
  let ?c = "(new_client_row ''1'' 5 [] (default_client_create ''a''))\<lparr>cl_daily_token_quota := 100\<rparr>"
  have "find_client ''1'' (empty_db\<lparr>t_clients := [?c]\<rparr>) = Some ?c" by (simp add: find_client_def new_client_row_def)
  from quota_is_enforced [OF this, of "''d''" "[\<lparr>ue_uid = ''x'', ue_client = ''1'', ue_provider = ''p'', ue_model = ''m'', ue_input = 60, ue_output = 40\<rparr>]"]
  show ?thesis by (simp add: spent_def used_before_def get_quota_usage_def usage_of_def empty_db_def Let_def)
qed

end
