(* ===== verification/Sessions.thy ===== *)
theory Sessions
  imports RedisClient Catalog
begin

text \<open>
  \<open>session_manager.py\<close>: the sessions of chat requests in flight, kept in the process and copied to the
  key-value store, and the web sockets that are told about every change.  The state is the
  store and the manager; messages delivered to sockets are recorded in it.
\<close>


section \<open>State\<close>

datatype session_status = Queued | Running | Streaming | Done | Failure

record live_session =
  ls_session_id :: string
  ls_client_id :: "string option"
  ls_client_name :: string
  ls_provider :: string
  ls_model :: string
  ls_alias_used :: "string option"
  ls_started_at :: "time option"
  ls_elapsed_ms :: int
  ls_status :: session_status
  ls_input_tokens_estimated :: int
  ls_output_tokens_so_far :: int
  ls_was_truncated :: bool
  ls_ip :: string

datatype session_update =
    SessionStart live_session time
  | SessionUpdated live_session time
  | SessionEnd live_session time
  | Snapshot "live_session list" time

text \<open>
  \<open>sm_pending\<close> are the removals scheduled by \<open>close\<close> with the times they are due.  Sockets
  are kept in a set; a list without repetition stands for it.
\<close>

record 'w session_manager =
  sm_sessions :: "(string, live_session) pydict"
  sm_ws_clients :: "'w list"
  sm_pending :: "(string \<times> time) list"
  sm_delivered :: "('w \<times> session_update) list"

definition new_session_manager :: "'w session_manager" where
  "new_session_manager = \<lparr>sm_sessions = [], sm_ws_clients = [], sm_pending = [], sm_delivered = []\<rparr>"

type_synonym ('s, 'w) sessions = "'s \<times> 'w session_manager"

text \<open>The store, the text of a session as JSON and back, and which sockets take a message.\<close>

record ('s, 'w) session_env =
  se_ops :: "'s redis_ops"
  se_dump :: "live_session \<Rightarrow> string"
  se_load :: "string \<Rightarrow> live_session res"
  se_send :: "'w \<Rightarrow> session_update \<Rightarrow> bool"

definition on_kv :: "('s, 'a) io \<Rightarrow> (('s, 'w) sessions, 'a) io" where
  "on_kv m = (\<lambda>(s, sm). let (x, s') = m s in (x, (s', sm)))"

definition on_manager :: "('w session_manager \<Rightarrow> 'w session_manager) \<Rightarrow> (('s, 'w) sessions, unit) io" where
  "on_manager f = (\<lambda>(s, sm). (Inr (), (s, f sm)))"

definition session_key :: "string \<Rightarrow> string" where
  "session_key sid = ''session:'' @ sid"


section \<open>Sockets\<close>

text \<open>The sockets that fail are dropped; the others have the message.\<close>

definition broadcast :: "('s, 'w) session_env \<Rightarrow> session_update \<Rightarrow> 'w session_manager \<Rightarrow> 'w session_manager" where
  "broadcast env u sm =
     sm\<lparr>sm_ws_clients := filter (\<lambda>w. se_send env w u) (sm_ws_clients sm),
        sm_delivered := sm_delivered sm @ map (\<lambda>w. (w, u)) (filter (\<lambda>w. se_send env w u) (sm_ws_clients sm))\<rparr>"

definition unsubscribe :: "'w \<Rightarrow> 'w session_manager \<Rightarrow> 'w session_manager" where
  "unsubscribe ws sm = sm\<lparr>sm_ws_clients := filter (\<lambda>w. w \<noteq> ws) (sm_ws_clients sm)\<rparr>"


section \<open>Life of a session\<close>

text \<open>The copy in the store; failures are ignored.\<close>

definition store_session :: "('s, 'w) session_env \<Rightarrow> time \<Rightarrow> string \<Rightarrow> live_session \<Rightarrow> (('s, 'w) sessions, unit) io" where
  "store_session env now sid session =
     on_kv (try_except (r_set_with_ttl (se_ops env) now (session_key sid) (se_dump env session) 600) (\<lambda>_. ret ()))"

definition new_session :: "time \<Rightarrow> string \<Rightarrow> string option \<Rightarrow> string \<Rightarrow> string \<Rightarrow> string \<Rightarrow> string option \<Rightarrow> int \<Rightarrow> string \<Rightarrow> live_session" where
  "new_session now sid client_id client_name provider model alias_used tokens ip =
     \<lparr>ls_session_id = sid, ls_client_id = client_id, ls_client_name = client_name, ls_provider = provider, ls_model = model,
      ls_alias_used = alias_used, ls_started_at = Some now, ls_elapsed_ms = 0, ls_status = Queued,
      ls_input_tokens_estimated = tokens, ls_output_tokens_so_far = 0, ls_was_truncated = False, ls_ip = ip\<rparr>"

definition register_session :: "('s, 'w) session_env \<Rightarrow> time \<Rightarrow> string \<Rightarrow> string option \<Rightarrow> string \<Rightarrow> string \<Rightarrow> string
    \<Rightarrow> string option \<Rightarrow> int \<Rightarrow> string \<Rightarrow> (('s, 'w) sessions, unit) io" where
  "register_session env now sid client_id client_name provider model alias_used tokens ip =
     (let session = new_session now sid client_id client_name provider model alias_used tokens ip in
      bnd (on_manager (\<lambda>sm. sm\<lparr>sm_sessions := dict_set sid session (sm_sessions sm)\<rparr>)) (\<lambda>_.
      bnd (store_session env now sid session) (\<lambda>_.
      on_manager (broadcast env (SessionStart session now)))))"

definition set_opt :: "'a option \<Rightarrow> ('a \<Rightarrow> 'r \<Rightarrow> 'r) \<Rightarrow> 'r \<Rightarrow> 'r" where
  "set_opt x f r = (case x of None \<Rightarrow> r | Some v \<Rightarrow> f v r)"

definition update_session :: "('s, 'w) session_env \<Rightarrow> time \<Rightarrow> string \<Rightarrow> session_status option \<Rightarrow> int option \<Rightarrow> int option
    \<Rightarrow> (('s, 'w) sessions, unit) io" where
  "update_session env now sid status output_tokens elapsed = (\<lambda>(s, sm).
     case map_of (sm_sessions sm) sid of
       None \<Rightarrow> (Inr (), (s, sm))
     | Some session0 \<Rightarrow>
         (let session =
            set_opt elapsed (\<lambda>v x. x\<lparr>ls_elapsed_ms := v\<rparr>)
             (set_opt output_tokens (\<lambda>v x. x\<lparr>ls_output_tokens_so_far := v\<rparr>)
               (set_opt status (\<lambda>v x. x\<lparr>ls_status := v\<rparr>) session0))
          in bnd (on_manager (\<lambda>sm. sm\<lparr>sm_sessions := dict_set sid session (sm_sessions sm)\<rparr>)) (\<lambda>_.
             bnd (store_session env now sid session) (\<lambda>_.
             on_manager (broadcast env (SessionUpdated session now)))) (s, sm)))"

text \<open>Closing changes the session in the process, not the copy in the store.\<close>

definition close_session :: "('s, 'w) session_env \<Rightarrow> time \<Rightarrow> string \<Rightarrow> session_status \<Rightarrow> 'w session_manager \<Rightarrow> 'w session_manager" where
  "close_session env now sid final_status sm =
     (case map_of (sm_sessions sm) sid of
        None \<Rightarrow> sm
      | Some session0 \<Rightarrow>
          (let session = (case ls_started_at session0 of
                            None \<Rightarrow> session0\<lparr>ls_status := final_status\<rparr>
                          | Some t \<Rightarrow> session0\<lparr>ls_status := final_status, ls_elapsed_ms := py_trunc ((now - t) * 1000)\<rparr>);
               sm1 = broadcast env (SessionEnd session now) (sm\<lparr>sm_sessions := dict_set sid session (sm_sessions sm)\<rparr>)
           in sm1\<lparr>sm_pending := sm_pending sm1 @ [(sid, now + 30)]\<rparr>))"

text \<open>A session taken out of the process and the store.\<close>

definition remove_session :: "('s, 'w) session_env \<Rightarrow> time \<Rightarrow> string \<Rightarrow> (('s, 'w) sessions, unit) io" where
  "remove_session env now sid =
     bnd (on_manager (\<lambda>sm. sm\<lparr>sm_sessions := dict_pop sid (sm_sessions sm)\<rparr>)) (\<lambda>_.
     on_kv (try_except (bnd (r_delete_key (se_ops env) now (session_key sid)) (\<lambda>_. ret ())) (\<lambda>_. ret ())))"

text \<open>The scheduled removals that are due run, in the order they were scheduled.\<close>

definition run_pending :: "('s, 'w) session_env \<Rightarrow> time \<Rightarrow> (('s, 'w) sessions, unit) io" where
  "run_pending env now = (\<lambda>(s, sm).
     bnd (on_manager (\<lambda>sm. sm\<lparr>sm_pending := filter (\<lambda>(_, t). now < t) (sm_pending sm)\<rparr>)) (\<lambda>_.
     for_each (filter (\<lambda>(_, t). t \<le> now) (sm_pending sm)) (\<lambda>(sid, _). remove_session env now sid)) (s, sm))"

definition is_stale :: "time \<Rightarrow> int \<Rightarrow> live_session \<Rightarrow> bool" where
  "is_stale now max_age session \<longleftrightarrow>
     (case ls_started_at session of
        None \<Rightarrow> False
      | Some t \<Rightarrow> now - t > of_int max_age \<and> ls_status session \<noteq> Running \<and> ls_status session \<noteq> Streaming)"

definition cleanup_stale :: "('s, 'w) session_env \<Rightarrow> time \<Rightarrow> int \<Rightarrow> (('s, 'w) sessions, nat) io" where
  "cleanup_stale env now max_age = (\<lambda>(s, sm).
     (let stale = map fst (filter (\<lambda>(_, session). is_stale now max_age session) (sm_sessions sm))
      in bnd (for_each stale (remove_session env now)) (\<lambda>_. ret (length stale)) (s, sm)))"


section \<open>Listing\<close>

text \<open>The sessions of other workers, read from the store until something raises.\<close>

definition id_of_key :: "string \<Rightarrow> string" where
  "id_of_key key = (if CHR '':'' \<in> set key then tl (dropWhile (\<lambda>c. c \<noteq> CHR '':'') key) else key)"

fun merge_remote :: "('s, 'w) session_env \<Rightarrow> time \<Rightarrow> string list \<Rightarrow> (string, live_session) pydict
    \<Rightarrow> ('s, (string, live_session) pydict) io" where
  "merge_remote env now [] sessions = ret sessions"
| "merge_remote env now (key # keys) sessions =
     (if id_of_key key \<in> fst ` set sessions then merge_remote env now keys sessions
      else (\<lambda>s. case r_get_value (se_ops env) now key s of
              (Inl _, s') \<Rightarrow> (Inr sessions, s')
            | (Inr raw, s') \<Rightarrow>
                merge_remote env now keys
                  (case raw of
                     Some (SStr t) \<Rightarrow>
                       if t = [] then sessions
                       else (case se_load env t of Inl _ \<Rightarrow> sessions | Inr x \<Rightarrow> dict_set (id_of_key key) x sessions)
                   | _ \<Rightarrow> sessions) s'))"

definition started_before :: "live_session \<Rightarrow> live_session \<Rightarrow> bool" where
  "started_before x y \<longleftrightarrow>
     (case (ls_started_at x, ls_started_at y) of (None, _) \<Rightarrow> True | (Some _, None) \<Rightarrow> False | (Some t, Some u) \<Rightarrow> t \<le> u)"

definition get_all :: "('s, 'w) session_env \<Rightarrow> time \<Rightarrow> (('s, 'w) sessions, live_session list) io" where
  "get_all env now = (\<lambda>(s, sm).
     (let (merged, s') = (case r_get_all_keys (se_ops env) now (session_key ''*'') s of
                            (Inl _, s') \<Rightarrow> (Inr (sm_sessions sm), s')
                          | (Inr keys, s') \<Rightarrow> merge_remote env now keys (sm_sessions sm) s')
      in (case merged of
            Inl e \<Rightarrow> (Inl e, (s', sm))
          | Inr d \<Rightarrow> (Inr (order_by (\<lambda>x y. started_before y x) (map snd d)), (s', sm)))))"

definition subscribe :: "('s, 'w) session_env \<Rightarrow> time \<Rightarrow> 'w \<Rightarrow> (('s, 'w) sessions, unit) io" where
  "subscribe env now ws =
     bnd (on_manager (\<lambda>sm. sm\<lparr>sm_ws_clients := List.insert ws (sm_ws_clients sm)\<rparr>)) (\<lambda>_.
     bnd (get_all env now) (\<lambda>xs.
     on_manager (\<lambda>sm.
       if se_send env ws (Snapshot xs now) then sm\<lparr>sm_delivered := sm_delivered sm @ [(ws, Snapshot xs now)]\<rparr>
       else unsubscribe ws sm)))"



section \<open>Runs\<close>

datatype session_op =
    Register time string "string option" string string string "string option" int string
  | Update time string "session_status option" "int option" "int option"
  | Close time string session_status
  | Tick time
  | Sweep time int

fun session_step :: "('s, 'w) session_env \<Rightarrow> session_op \<Rightarrow> (('s, 'w) sessions, unit) io" where
  "session_step env (Register now sid cid name prov model al tokens ip) = register_session env now sid cid name prov model al tokens ip"
| "session_step env (Update now sid status out elapsed) = update_session env now sid status out elapsed"
| "session_step env (Close now sid status) = on_manager (close_session env now sid status)"
| "session_step env (Tick now) = run_pending env now"
| "session_step env (Sweep now age) = bnd (cleanup_stale env now age) (\<lambda>_. ret ())"

definition run_session_ops :: "('s, 'w) session_env \<Rightarrow> session_op list \<Rightarrow> (('s, 'w) sessions, unit) io" where
  "run_session_ops env ops = for_each ops (session_step env)"

fun op_time :: "session_op \<Rightarrow> time" where
  "op_time (Register now _ _ _ _ _ _ _ _) = now"
| "op_time (Update now _ _ _ _) = now"
| "op_time (Close now _ _) = now"
| "op_time (Tick now) = now"
| "op_time (Sweep now _) = now"

fun registers :: "session_op \<Rightarrow> string \<Rightarrow> bool" where
  "registers (Register _ sid _ _ _ _ _ _ _) i = (i = sid)"
| "registers _ i = False"

lemma on_kv_apply: "on_kv m (s, sm) = (fst (m s), (snd (m s), sm))"
  by (simp add: on_kv_def split: prod.splits)

lemma store_session_ok: "\<exists>s'. store_session env now sid x (s, sm) = (Inr (), (s', sm))"
  by (auto simp: store_session_def on_kv_apply try_except_def split: prod.splits sum.splits)

lemma remove_session_ok: "\<exists>s'. remove_session env now sid (s, sm) = (Inr (), (s', sm\<lparr>sm_sessions := dict_pop sid (sm_sessions sm)\<rparr>))"
  by (auto simp: remove_session_def on_manager_def bnd_def on_kv_apply try_except_def split: prod.splits sum.splits)

definition pop_all :: "string list \<Rightarrow> (string, live_session) pydict \<Rightarrow> (string, live_session) pydict" where
  "pop_all sids d = filter (\<lambda>p. fst p \<notin> set sids) d"

lemma pop_all_lookup: "map_of (pop_all sids d) k = (if k \<in> set sids then None else map_of d k)"
  unfolding pop_all_def by (induction d) auto

lemma pop_all_Cons: "pop_all (sid # sids) d = pop_all sids (dict_pop sid d)"
  by (auto simp: pop_all_def AList.delete_eq case_prod_beta intro!: filter_cong)

lemma remove_all_ok:
  "\<exists>s'. for_each sids (remove_session env now) (s, sm) = (Inr (), (s', sm\<lparr>sm_sessions := pop_all sids (sm_sessions sm)\<rparr>))"
proof (induction sids arbitrary: s sm)
  case (Cons sid sids)
  obtain s1 where s1: "remove_session env now sid (s, sm) = (Inr (), (s1, sm\<lparr>sm_sessions := dict_pop sid (sm_sessions sm)\<rparr>))"
    using remove_session_ok [of env now sid s sm] by (elim exE) (rule that)
  from Cons [of s1 "sm\<lparr>sm_sessions := dict_pop sid (sm_sessions sm)\<rparr>"] show ?case
    by (auto simp: bnd_def s1 pop_all_Cons)
qed (simp add: pop_all_def)

text \<open>What a step does to the manager; it never raises.\<close>

definition changed_session :: "session_status option \<Rightarrow> int option \<Rightarrow> int option \<Rightarrow> live_session \<Rightarrow> live_session" where
  "changed_session status out elapsed x =
     set_opt elapsed (\<lambda>v x. x\<lparr>ls_elapsed_ms := v\<rparr>) (set_opt out (\<lambda>v x. x\<lparr>ls_output_tokens_so_far := v\<rparr>)
       (set_opt status (\<lambda>v x. x\<lparr>ls_status := v\<rparr>) x))"

fun manager_step :: "('s, 'w) session_env \<Rightarrow> session_op \<Rightarrow> 'w session_manager \<Rightarrow> 'w session_manager" where
  "manager_step env (Register now sid cid name prov model al tokens ip) sm =
     (let x = new_session now sid cid name prov model al tokens ip
      in broadcast env (SessionStart x now) (sm\<lparr>sm_sessions := dict_set sid x (sm_sessions sm)\<rparr>))"
| "manager_step env (Update now sid status out elapsed) sm =
     (case map_of (sm_sessions sm) sid of None \<Rightarrow> sm
      | Some x0 \<Rightarrow> (let x = changed_session status out elapsed x0
                    in broadcast env (SessionUpdated x now) (sm\<lparr>sm_sessions := dict_set sid x (sm_sessions sm)\<rparr>)))"
| "manager_step env (Close now sid status) sm = close_session env now sid status sm"
| "manager_step env (Tick now) sm =
     sm\<lparr>sm_pending := filter (\<lambda>(_, t). now < t) (sm_pending sm),
        sm_sessions := pop_all (map fst (filter (\<lambda>(_, t). t \<le> now) (sm_pending sm))) (sm_sessions sm)\<rparr>"
| "manager_step env (Sweep now age) sm =
     sm\<lparr>sm_sessions := pop_all (map fst (filter (\<lambda>(_, x). is_stale now age x) (sm_sessions sm))) (sm_sessions sm)\<rparr>"

lemma for_each_fst: "for_each ps (\<lambda>(x, _). f x) = for_each (map fst ps) f"
  by (induction ps) auto

lemma session_step_manager: "\<exists>s'. session_step env op (s, sm) = (Inr (), (s', manager_step env op sm))"
proof (cases op)
  case (Register now sid cid name prov model al tokens ip)
  obtain s' where "store_session env now sid (new_session now sid cid name prov model al tokens ip)
      (s, sm\<lparr>sm_sessions := dict_set sid (new_session now sid cid name prov model al tokens ip) (sm_sessions sm)\<rparr>) =
      (Inr (), (s', sm\<lparr>sm_sessions := dict_set sid (new_session now sid cid name prov model al tokens ip) (sm_sessions sm)\<rparr>))"
    using store_session_ok [of env now sid "new_session now sid cid name prov model al tokens ip" s
        "sm\<lparr>sm_sessions := dict_set sid (new_session now sid cid name prov model al tokens ip) (sm_sessions sm)\<rparr>"]
    by (elim exE) (rule that)
  then show ?thesis by (simp add: Register register_session_def on_manager_def bnd_def Let_def)
next
  case (Update now sid status out elapsed)
  show ?thesis
  proof (cases "map_of (sm_sessions sm) sid")
    case (Some x0)
    let ?x = "changed_session status out elapsed x0"
    obtain s' where "store_session env now sid ?x (s, sm\<lparr>sm_sessions := dict_set sid ?x (sm_sessions sm)\<rparr>) =
        (Inr (), (s', sm\<lparr>sm_sessions := dict_set sid ?x (sm_sessions sm)\<rparr>))"
      using store_session_ok [of env now sid ?x s "sm\<lparr>sm_sessions := dict_set sid ?x (sm_sessions sm)\<rparr>"]
      by (elim exE) (rule that)
    with Some show ?thesis
      by (simp add: Update update_session_def on_manager_def bnd_def Let_def changed_session_def)
  qed (simp add: Update update_session_def)
next
  case (Tick now)
  let ?due = "map fst (filter (\<lambda>(_, t). t \<le> now) (sm_pending sm))"
  obtain s' where "for_each ?due (remove_session env now) (s, sm\<lparr>sm_pending := filter (\<lambda>(_, t). now < t) (sm_pending sm)\<rparr>) =
      (Inr (), (s', sm\<lparr>sm_pending := filter (\<lambda>(_, t). now < t) (sm_pending sm), sm_sessions := pop_all ?due (sm_sessions sm)\<rparr>))"
    using remove_all_ok [of ?due env now s "sm\<lparr>sm_pending := filter (\<lambda>(_, t). now < t) (sm_pending sm)\<rparr>"] by auto
  then show ?thesis
    by (simp add: Tick run_pending_def on_manager_def bnd_def for_each_fst)
next
  case (Sweep now age)
  obtain s' where "for_each (map fst (filter (\<lambda>(_, x). is_stale now age x) (sm_sessions sm))) (remove_session env now) (s, sm) =
      (Inr (), (s', manager_step env (Sweep now age) sm))"
    using remove_all_ok [of "map fst (filter (\<lambda>(_, x). is_stale now age x) (sm_sessions sm))" env now s sm] by auto
  then show ?thesis by (simp add: Sweep cleanup_stale_def bnd_def)
qed (simp add: on_manager_def)


section \<open>A closed session leaves the process and the store\<close>

text \<open>Its removal is scheduled, or it is gone from both.\<close>

definition leaving :: "'s view \<Rightarrow> time \<Rightarrow> string \<Rightarrow> time \<Rightarrow> ('s, 'w) sessions \<Rightarrow> bool" where
  "leaving look now sid due = (\<lambda>(s, sm). (sid, due) \<in> set (sm_pending sm) \<or>
     map_of (sm_sessions sm) sid = None \<and> (\<forall>t\<ge>now. look s t (session_key sid) = None))"

definition without_keys :: "'s view \<Rightarrow> time \<Rightarrow> 's \<Rightarrow> string set \<Rightarrow> 's \<Rightarrow> bool" where
  "without_keys look now s ks s' \<longleftrightarrow> (\<forall>t\<ge>now. \<forall>k. look s' t k = (if k \<in> ks then None else look s t k))"

lemma session_key_eq [simp]: "session_key a = session_key b \<longleftrightarrow> a = b"
  by (simp add: session_key_def)

lemma broadcast_simps [simp]:
  "sm_sessions (broadcast env u sm) = sm_sessions sm"
  "sm_pending (broadcast env u sm) = sm_pending sm"
  by (simp_all add: broadcast_def)

lemma close_session_simps:
  "sm_pending (close_session env now sid status sm) =
     (if map_of (sm_sessions sm) sid = None then sm_pending sm else sm_pending sm @ [(sid, now + 30)])"
  "map_of (sm_sessions (close_session env now sid status sm)) i = None \<longleftrightarrow> map_of (sm_sessions sm) i = None"
  by (auto simp: close_session_def Let_def dict_set_lookup split: option.splits)

context kv_store
begin

lemma store_session_kv:
  assumes "inv s" and "se_ops env = ops"
  shows "\<exists>s'. store_session env now sid x (s, sm) = (Inr (), (s', sm)) \<and> inv s' \<and>
    updates look now s (session_key sid) (Some (SStr (se_dump env x), Some (now + 600))) s'"
  using kv_set [OF assms(1), of now "session_key sid" "se_dump env x" 600] assms(2)
  by (auto simp: store_session_def on_kv_apply try_except_def)

lemma remove_session_kv:
  assumes "inv s" and "se_ops env = ops"
  shows "\<exists>s'. remove_session env now sid (s, sm) = (Inr (), (s', sm\<lparr>sm_sessions := dict_pop sid (sm_sessions sm)\<rparr>)) \<and>
    inv s' \<and> without_keys look now s {session_key sid} s'"
  using kv_delete [OF assms(1), of now "session_key sid"] assms(2)
  by (auto simp: remove_session_def on_manager_def bnd_def on_kv_apply try_except_def ret_def updates_def without_keys_def)

lemma remove_all_kv:
  assumes "se_ops env = ops" and "inv s"
  shows "\<exists>s'. for_each sids (remove_session env now) (s, sm) = (Inr (), (s', sm\<lparr>sm_sessions := pop_all sids (sm_sessions sm)\<rparr>)) \<and>
    inv s' \<and> without_keys look now s (session_key ` set sids) s'"
  using assms(2)
proof (induction sids arbitrary: s sm)
  case (Cons sid sids)
  obtain s1 where s1: "remove_session env now sid (s, sm) = (Inr (), (s1, sm\<lparr>sm_sessions := dict_pop sid (sm_sessions sm)\<rparr>))"
      "inv s1" "without_keys look now s {session_key sid} s1"
    using remove_session_kv [OF Cons.prems assms(1), of now sid sm] by (elim exE conjE) (rule that)
  from Cons.IH [OF s1(2), of "sm\<lparr>sm_sessions := dict_pop sid (sm_sessions sm)\<rparr>"] show ?case
    using s1(3) by (auto simp: bnd_def s1(1) pop_all_Cons without_keys_def)
qed (simp add: pop_all_def without_keys_def)

end


context kv_store
begin

lemma leaving_step:
  assumes env: "se_ops env = ops" and s: "inv s" and lv: "leaving look now sid due (s, sm)"
    and "now \<le> op_time op" and "\<not> registers op sid"
  shows "\<exists>s'. session_step env op (s, sm) = (Inr (), (s', manager_step env op sm)) \<and> inv s' \<and>
    leaving look (op_time op) sid due (s', manager_step env op sm) \<and>
    (due \<le> op_time op \<and> (\<exists>t. op = Tick t) \<longrightarrow>
       map_of (sm_sessions (manager_step env op sm)) sid = None \<and> look s' (op_time op) (session_key sid) = None)"
proof (cases op)
  case (Register t i cid name prov model al tokens ip)
  let ?x = "new_session t i cid name prov model al tokens ip"
  obtain s' where "store_session env t i ?x (s, sm\<lparr>sm_sessions := dict_set i ?x (sm_sessions sm)\<rparr>) =
      (Inr (), (s', sm\<lparr>sm_sessions := dict_set i ?x (sm_sessions sm)\<rparr>))" "inv s'"
      "updates look t s (session_key i) (Some (SStr (se_dump env ?x), Some (t + 600))) s'"
    using store_session_kv [OF s env, of t i ?x "sm\<lparr>sm_sessions := dict_set i ?x (sm_sessions sm)\<rparr>"] by (elim exE conjE) (rule that)
  then show ?thesis using lv assms(4,5)
    by (auto simp: Register register_session_def on_manager_def bnd_def Let_def leaving_def dict_set_lookup updates_def)
next
  case (Update t i status out elapsed)
  show ?thesis
  proof (cases "map_of (sm_sessions sm) i")
    case (Some x0)
    let ?x = "changed_session status out elapsed x0"
    obtain s' where s': "store_session env t i ?x (s, sm\<lparr>sm_sessions := dict_set i ?x (sm_sessions sm)\<rparr>) =
        (Inr (), (s', sm\<lparr>sm_sessions := dict_set i ?x (sm_sessions sm)\<rparr>))" "inv s'"
        "updates look t s (session_key i) (Some (SStr (se_dump env ?x), Some (t + 600))) s'"
      using store_session_kv [OF s env, of t i ?x "sm\<lparr>sm_sessions := dict_set i ?x (sm_sessions sm)\<rparr>"] by (elim exE conjE) (rule that)
    have "map_of (sm_sessions sm) sid = None \<Longrightarrow> sid \<noteq> i" using Some by auto
    with s' lv assms(4) Some show ?thesis
      by (auto simp: Update update_session_def on_manager_def bnd_def Let_def changed_session_def [symmetric] leaving_def
          dict_set_lookup updates_def)
  qed (use s lv assms(4) in \<open>auto simp: Update update_session_def leaving_def\<close>)
next
  case (Close t i status)
  then show ?thesis using s lv assms(4) by (auto simp: on_manager_def leaving_def close_session_simps)
next
  case (Tick t)
  let ?due = "map fst (filter (\<lambda>(_, u). u \<le> t) (sm_pending sm))"
  let ?sm = "sm\<lparr>sm_pending := filter (\<lambda>(_, u). t < u) (sm_pending sm)\<rparr>"
  obtain s' where s': "for_each ?due (remove_session env t) (s, ?sm) = (Inr (), (s', ?sm\<lparr>sm_sessions := pop_all ?due (sm_sessions ?sm)\<rparr>))"
      "inv s'" "without_keys look t s (session_key ` set ?due) s'"
    using remove_all_kv [OF env s, of ?due t ?sm] by (elim exE conjE) (rule that)
  have "(sid, due) \<in> set (sm_pending sm) \<Longrightarrow> due \<le> t \<Longrightarrow> sid \<in> set ?due" by force
  with s' lv assms(4) show ?thesis
    by (cases "due \<le> t") (auto simp: Tick run_pending_def on_manager_def bnd_def for_each_fst leaving_def pop_all_lookup without_keys_def not_le)
next
  case (Sweep t age)
  let ?old = "map fst (filter (\<lambda>(_, x). is_stale t age x) (sm_sessions sm))"
  obtain s' where s': "for_each ?old (remove_session env t) (s, sm) = (Inr (), (s', sm\<lparr>sm_sessions := pop_all ?old (sm_sessions sm)\<rparr>))"
      "inv s'" "without_keys look t s (session_key ` set ?old) s'"
    using remove_all_kv [OF env s, of ?old t sm] by (elim exE conjE) (rule that)
  with lv assms(4) show ?thesis
    by (auto simp: Sweep cleanup_stale_def bnd_def leaving_def pop_all_lookup without_keys_def)
qed

end


fun in_order :: "time \<Rightarrow> session_op list \<Rightarrow> bool" where
  "in_order now [] \<longleftrightarrow> True"
| "in_order now (op # ops) \<longleftrightarrow> now \<le> op_time op \<and> in_order (op_time op) ops"

lemma run_session_ops_Cons:
  assumes "session_step env op st = (Inr (), st')"
  shows "run_session_ops env (op # ops) st = run_session_ops env ops st'"
  using assms by (simp add: run_session_ops_def bnd_def)

lemma session_ops_never_raise: "fst (run_session_ops env ops st) = Inr ()"
proof (induction ops arbitrary: st)
  case (Cons op ops)
  obtain s sm where st: "st = (s, sm)" by (cases st)
  obtain s' where s': "session_step env op (s, sm) = (Inr (), (s', manager_step env op sm))"
    using session_step_manager [of env op s sm] by (elim exE) (rule that)
  show ?case unfolding st run_session_ops_Cons [OF s'] by (rule Cons)
qed (simp add: run_session_ops_def ret_def)

context kv_store
begin

lemma leaving_run:
  assumes "se_ops env = ops" and "inv s" and "leaving look now sid due (s, sm)"
    and "in_order now (xs @ [Tick t])" and "\<forall>x \<in> set xs. \<not> registers x sid" and "due \<le> t"
  shows "\<exists>s' sm'. run_session_ops env (xs @ [Tick t]) (s, sm) = (Inr (), (s', sm')) \<and> inv s' \<and>
    map_of (sm_sessions sm') sid = None \<and> look s' t (session_key sid) = None"
  using assms(2-)
proof (induction xs arbitrary: s sm now)
  case Nil
  obtain s' where "session_step env (Tick t) (s, sm) = (Inr (), (s', manager_step env (Tick t) sm))" "inv s'"
      "map_of (sm_sessions (manager_step env (Tick t) sm)) sid = None" "look s' t (session_key sid) = None"
    using leaving_step [OF assms(1) Nil(1,2), of "Tick t"] Nil(3-) by auto
  then show ?case by (auto simp: run_session_ops_Cons) (simp add: run_session_ops_def ret_def)
next
  case (Cons op xs)
  obtain s1 where s1: "session_step env op (s, sm) = (Inr (), (s1, manager_step env op sm))" "inv s1"
      "leaving look (op_time op) sid due (s1, manager_step env op sm)"
    using leaving_step [OF assms(1) Cons.prems(1,2), of op] Cons.prems(3,4) by auto
  from Cons.IH [OF s1(2,3)] Cons.prems(3-) show ?case
    by (simp only: append_Cons run_session_ops_Cons [OF s1(1)]) simp
qed

lemma closing_leaves:
  assumes "map_of (sm_sessions sm) sid \<noteq> None"
  shows "leaving look now sid (now + 30) (s, close_session env now sid status sm)"
  using assms by (auto simp: leaving_def close_session_simps)

end


section \<open>What a subscribed socket knows\<close>

text \<open>A socket replays its messages: a snapshot replaces what it knew, the other messages set the session they carry.\<close>

fun absorb :: "session_update \<Rightarrow> (string, live_session) pydict \<Rightarrow> (string, live_session) pydict" where
  "absorb (SessionStart x _) d = dict_set (ls_session_id x) x d"
| "absorb (SessionUpdated x _) d = dict_set (ls_session_id x) x d"
| "absorb (SessionEnd x _) d = dict_set (ls_session_id x) x d"
| "absorb (Snapshot xs _) d = fold (\<lambda>x. dict_set (ls_session_id x) x) xs []"

definition messages_to :: "'w \<Rightarrow> 'w session_manager \<Rightarrow> session_update list" where
  "messages_to w sm = map snd (filter (\<lambda>(v, _). v = w) (sm_delivered sm))"

definition known :: "'w \<Rightarrow> 'w session_manager \<Rightarrow> (string, live_session) pydict" where
  "known w sm = fold absorb (messages_to w sm) []"

definition follows :: "'w \<Rightarrow> 'w session_manager \<Rightarrow> bool" where
  "follows w sm \<longleftrightarrow> w \<in> set (sm_ws_clients sm) \<and> distinct (sm_ws_clients sm) \<and>
     (\<forall>sid x. map_of (sm_sessions sm) sid = Some x \<longrightarrow> ls_session_id x = sid \<and> map_of (known w sm) sid = Some x)"

lemma filter_one: "distinct ws \<Longrightarrow> w \<in> set ws \<Longrightarrow> filter (\<lambda>v. v = w) ws = [w]"
  by (induction ws) (auto simp: filter_empty_conv)

lemma known_broadcast:
  assumes "w \<in> set (sm_ws_clients sm)" and "distinct (sm_ws_clients sm)" and "se_send env w u"
  shows "known w (broadcast env u sm) = absorb u (known w sm)"
proof -
  have "filter (\<lambda>(v, _). v = w) (map (\<lambda>v. (v, u)) vs) = map (\<lambda>v. (v, u)) (filter (\<lambda>v. v = w) vs)" for vs
    by (induction vs) auto
  moreover have "filter (\<lambda>v. v = w) (filter (\<lambda>v. se_send env v u) (sm_ws_clients sm)) = [w]"
    using assms by (intro filter_one) auto
  ultimately have "messages_to w (broadcast env u sm) = messages_to w sm @ [u]"
    unfolding messages_to_def broadcast_def by (simp del: filter_filter)
  then show ?thesis by (simp add: known_def)
qed

lemma known_frame: "sm_delivered sm' = sm_delivered sm \<Longrightarrow> known w sm' = known w sm"
  by (simp add: known_def messages_to_def)

text \<open>A changed session is announced as it is kept, so the socket keeps up.\<close>

lemma follows_announced:
  assumes "follows w sm" and "\<And>u. se_send env w u" and "ls_session_id x = sid"
    and "\<And>d. absorb u d = dict_set sid x d"
  shows "follows w (broadcast env u (sm\<lparr>sm_sessions := dict_set sid x (sm_sessions sm)\<rparr>))"
proof -
  let ?sm = "sm\<lparr>sm_sessions := dict_set sid x (sm_sessions sm)\<rparr>"
  have "known w (broadcast env u ?sm) = dict_set sid x (known w sm)"
    using assms known_broadcast [of w ?sm env u] known_frame [of ?sm sm w] by (simp add: follows_def)
  moreover have "w \<in> set (sm_ws_clients (broadcast env u ?sm))" "distinct (sm_ws_clients (broadcast env u ?sm))"
    using assms(1,2) by (simp_all add: follows_def broadcast_def)
  ultimately show ?thesis using assms(1,3) by (simp add: follows_def dict_set_lookup)
qed

lemma changed_session_id [simp]: "ls_session_id (changed_session status out elapsed x) = ls_session_id x"
  by (simp add: changed_session_def set_opt_def split: option.splits)

lemma follows_fewer:
  assumes "follows w sm" and "sm_delivered sm' = sm_delivered sm" and "sm_ws_clients sm' = sm_ws_clients sm"
    and "\<And>sid x. map_of (sm_sessions sm') sid = Some x \<Longrightarrow> map_of (sm_sessions sm) sid = Some x"
  shows "follows w sm'"
  using assms known_frame [OF assms(2), of w] by (simp add: follows_def)

lemma follows_step:
  assumes "follows w sm" and "\<And>u. se_send env w u"
  shows "follows w (manager_step env op sm)"
proof (cases op)
  case (Register t i cid name prov model al tokens ip)
  then show ?thesis using assms by (simp add: Let_def follows_announced new_session_def)
next
  case (Update t i status out elapsed)
  show ?thesis
  proof (cases "map_of (sm_sessions sm) i")
    case (Some x0)
    then have "ls_session_id (changed_session status out elapsed x0) = i" using assms(1) by (simp add: follows_def)
    from follows_announced [OF assms this, of "SessionUpdated (changed_session status out elapsed x0) t"] this Some
    show ?thesis by (simp add: Update Let_def)
  qed (use assms(1) in \<open>simp add: Update\<close>)
next
  case (Close t i status)
  show ?thesis
  proof (cases "map_of (sm_sessions sm) i")
    case (Some x0)
    let ?x = "case ls_started_at x0 of None \<Rightarrow> x0\<lparr>ls_status := status\<rparr>
      | Some u \<Rightarrow> x0\<lparr>ls_status := status, ls_elapsed_ms := py_trunc ((t - u) * 1000)\<rparr>"
    have "ls_session_id ?x = i" using assms(1) Some by (auto simp: follows_def split: option.splits)
    from follows_announced [OF assms this, of "SessionEnd ?x t"] this
    have "follows w (broadcast env (SessionEnd ?x t) (sm\<lparr>sm_sessions := dict_set i ?x (sm_sessions sm)\<rparr>))" by simp
    then show ?thesis by (rule follows_fewer) (simp_all add: Close Some close_session_def Let_def)
  qed (use assms(1) in \<open>simp add: Close close_session_def\<close>)
qed (use assms(1) in \<open>auto intro: follows_fewer simp: pop_all_lookup split: if_splits\<close>)

section \<open>Properties\<close>

text \<open>C13.  Once a session has been closed it leaves: whatever other operations run meanwhile, and however the
  session is updated, closed again or swept, as soon as the scheduled removals run thirty seconds later
  it is neither in the process nor under its key in the store.\<close>

theorem closed_session_vanishes:
  fixes lib :: "'r aioredis" and env :: "('r redis_client, 'w) session_env"
  assumes "se_ops env = redis_module lib url" and "in_fallback url c" and "map_of (sm_sessions sm) sid \<noteq> None"
    and "in_order t0 (ops @ [Tick t])" and "\<forall>x \<in> set ops. \<not> registers x sid" and "t0 + 30 \<le> t"
    and "run_session_ops env (Close t0 sid status # ops @ [Tick t]) (c, sm) = (r, (c', sm'))"
  shows "r = Inr () \<and> map_of (sm_sessions sm') sid = None \<and>
    fst (r_get_value (redis_module lib url) t (session_key sid) c') = Inr None"
proof -
  have step: "session_step env (Close t0 sid status) (c, sm) = (Inr (), (c, close_session env t0 sid status sm))"
    by (simp add: on_manager_def)
  obtain c1 sm1 where run: "run_session_ops env (ops @ [Tick t]) (c, close_session env t0 sid status sm) = (Inr (), (c1, sm1))"
      "in_fallback url c1" "map_of (sm_sessions sm1) sid = None" "rc_look c1 t (session_key sid) = None"
    using rc.leaving_run [OF assms(1,2) rc.closing_leaves [OF assms(3), where now = t0 and s = c and env = env and status = status] assms(4-6)] by (elim exE conjE) (rule that)
  have "c' = c1" "sm' = sm1" "r = Inr ()" using assms(7) run(1) by (simp_all add: run_session_ops_Cons [OF step])
  then show ?thesis using run(2-4) rc.kv_get [OF run(2), of lib t "session_key sid"] by auto
qed


definition quiet_env :: "(unit redis_client, nat) session_env" where
  "quiet_env = \<lparr>se_ops = redis_module no_redis_lib [], se_dump = (\<lambda>x. ls_model x), se_load = (\<lambda>_. Inl (ValueError [])),
     se_send = (\<lambda>_ _. True)\<rparr>"

definition one_session :: "nat session_manager" where
  "one_session = new_session_manager\<lparr>sm_sessions := [(''a'', new_session 0 ''a'' None [] ''openai'' ''gpt-4o'' None 10 [])]\<rparr>"

lemma closed_session_vanishes_witness:
  "map_of (sm_sessions (snd (snd (run_session_ops quiet_env
     [Close 5 ''a'' Done, Update 6 ''a'' (Some Running) None None, Tick 35] (new_redis_client, one_session))))) ''a'' = None"
proof -
  have "in_fallback [] (new_redis_client :: unit redis_client)" by (simp add: in_fallback_def new_redis_client_def)
  from closed_session_vanishes [of quiet_env no_redis_lib "[]" new_redis_client one_session "''a''" 5
      "[Update 6 ''a'' (Some Running) None None]" 35 Done, OF _ this _ _ _ _ prod.collapse [symmetric, THEN trans, OF arg_cong [where f = "Pair _", OF prod.collapse [symmetric]]]]
  show ?thesis by (simp add: quiet_env_def one_session_def new_session_manager_def)
qed


lemma run_follows:
  fixes env :: "('s, 'w) session_env"
  assumes "follows w sm" and "\<And>u. se_send env w u"
  shows "follows w (snd (snd (run_session_ops env ops (s, sm))))"
  using assms(1)
proof (induction ops arbitrary: s sm)
  case (Cons op ops)
  obtain s' where s': "session_step env op (s, sm) = (Inr (), (s', manager_step env op sm))"
    using session_step_manager [of env op s sm] by (elim exE) (rule that)
  show ?case unfolding run_session_ops_Cons [OF s'] by (rule Cons.IH [OF follows_step [OF Cons.prems assms(2)]])
qed (simp add: run_session_ops_def ret_def)

text \<open>C35.  A socket that subscribes when the process starts and takes every message knows, by replaying its
  messages, every session of the process exactly as it is kept, whatever operations follow.\<close>

theorem observer_follows:
  fixes env :: "('s, 'w) session_env"
  assumes "\<And>u. se_send env w u" and "subscribe env t0 w (s, new_session_manager) = (r0, (s1, sm1))"
    and "run_session_ops env ops (s1, sm1) = (r, (s', sm'))" and "map_of (sm_sessions sm') sid = Some x"
  shows "map_of (known w sm') sid = Some x"
proof -
  have "w \<in> set (sm_ws_clients sm1) \<and> distinct (sm_ws_clients sm1) \<and> sm_sessions sm1 = []"
    using assms(1,2)
    by (auto simp: subscribe_def on_manager_def bnd_def get_all_def Let_def new_session_manager_def List.insert_def
        split: prod.splits sum.splits)
  then have "follows w sm1" by (simp add: follows_def)
  from run_follows [OF this assms(1), of ops s1] assms(3,4) show ?thesis by (simp add: follows_def)
qed

lemma observer_follows_witness:
  "map_of (known 7 (snd (snd (run_session_ops quiet_env
     [Register 1 ''a'' None ''t'' ''openai'' ''gpt-4o'' None 10 [], Close 3 ''a'' Done]
     (snd (subscribe quiet_env 0 7 (new_redis_client, new_session_manager))))))) ''a'' =
   Some (new_session 1 ''a'' None ''t'' ''openai'' ''gpt-4o'' None 10 []\<lparr>ls_status := Done, ls_elapsed_ms := 2000\<rparr>)"
proof -
  let ?sub = "subscribe quiet_env 0 7 (new_redis_client, new_session_manager)"
  let ?run = "run_session_ops quiet_env [Register 1 ''a'' None ''t'' ''openai'' ''gpt-4o'' None 10 [], Close 3 ''a'' Done] (snd ?sub)"
  let ?ops = "[Register 1 ''a'' None ''t'' ''openai'' ''gpt-4o'' None 10 [], Close 3 ''a'' Done]"
  have sub: "?sub = (fst ?sub, (fst (snd ?sub), snd (snd ?sub)))" by simp
  have run: "run_session_ops quiet_env ?ops (fst (snd ?sub), snd (snd ?sub)) = (fst ?run, (fst (snd ?run), snd (snd ?run)))" by simp
  have "map_of (sm_sessions (snd (snd ?run))) ''a'' =
    Some (new_session 1 ''a'' None ''t'' ''openai'' ''gpt-4o'' None 10 []\<lparr>ls_status := Done, ls_elapsed_ms := 2000\<rparr>)"
    by code_simp
  then show ?thesis by (rule observer_follows [OF _ sub run, rotated]) (simp add: quiet_env_def)
qed

end
