(* ===== verification/Logs.thy ===== *)
theory Logs
  imports Catalog
begin

text \<open>
  \<open>request_logger.py\<close> and the query of \<open>audit.py\<close>: the rows of \<open>request_logs\<close>, their encrypted
  previews, the filtered listings and the deletion of old rows.  Times stand for the texts
  \<open>isoformat\<close> makes of them; the nonces of the two encrypted columns are arguments, and so is
  \<open>dumps\<close>, the text of the messages (\<open>json.dumps\<close> with \<open>ensure_ascii=False\<close>).
\<close>


section \<open>Writing\<close>

record chat_log =
  lg_request_id :: string
  lg_client_id :: "string option"
  lg_client_name :: "string option"
  lg_provider :: "string option"
  lg_model :: "string option"
  lg_alias_used :: "string option"
  lg_input_messages :: "json list"
  lg_output_content :: string
  lg_input_tokens :: int
  lg_output_tokens :: int
  lg_cost_usd :: "rat option"
  lg_duration_ms :: int
  lg_status_code :: int
  lg_was_truncated :: bool
  lg_masked_count :: int
  lg_cache_hit :: bool

text \<open>\<open>s[:n]\<close>; a negative bound counts from the end.\<close>

definition prefix_upto :: "int \<Rightarrow> 'a list \<Rightarrow> 'a list" where
  "prefix_upto n s = (if 0 \<le> n then take (nat n) s else take (length s - nat (- n)) s)"

definition input_preview :: "settings \<Rightarrow> (json \<Rightarrow> string) \<Rightarrow> json list \<Rightarrow> string option" where
  "input_preview st dumps messages =
     (if LOG_REQUEST_BODY st \<and> messages \<noteq> [] then Some (prefix_upto (LOG_REQUEST_MAX_BODY_CHARS st) (dumps (JList messages))) else None)"

definition output_preview :: "settings \<Rightarrow> string \<Rightarrow> string option" where
  "output_preview st content =
     (if LOG_REQUEST_BODY st \<and> content \<noteq> [] then Some (prefix_upto (LOG_REQUEST_MAX_BODY_CHARS st) content) else None)"

definition request_log_entry :: "crypto \<Rightarrow> settings \<Rightarrow> (json \<Rightarrow> string) \<Rightarrow> string \<Rightarrow> time \<Rightarrow> string \<Rightarrow> string \<Rightarrow> chat_log \<Rightarrow> request_log_row" where
  "request_log_entry cr st dumps uid now nonce1 nonce2 lg =
     \<lparr>rl_id = uid, rl_request_id = lg_request_id lg, rl_client_id = lg_client_id lg, rl_timestamp = now,
      rl_provider = lg_provider lg, rl_model = lg_model lg, rl_alias_used = lg_alias_used lg,
      rl_input_preview = process_bind_param cr st nonce1 (input_preview st dumps (lg_input_messages lg)),
      rl_output_preview = process_bind_param cr st nonce2 (output_preview st (lg_output_content lg)),
      rl_input_tokens = lg_input_tokens lg, rl_output_tokens = lg_output_tokens lg, rl_cost_usd = lg_cost_usd lg,
      rl_duration_ms = lg_duration_ms lg, rl_status_code = lg_status_code lg, rl_was_truncated = lg_was_truncated lg,
      rl_masked_count = lg_masked_count lg, rl_cache_hit = lg_cache_hit lg\<rparr>"

text \<open>A failure of the table is logged, not raised.\<close>

definition log_request :: "crypto \<Rightarrow> settings \<Rightarrow> (json \<Rightarrow> string) \<Rightarrow> string \<Rightarrow> time \<Rightarrow> string \<Rightarrow> string \<Rightarrow> chat_log \<Rightarrow> (database, unit) io" where
  "log_request cr st dumps uid now nonce1 nonce2 lg =
     try_except
       (with_db (\<lambda>db.
          if list_ex (\<lambda>r. rl_id r = uid) (t_request_logs db) then (Inl IntegrityError, db)
          else (Inr (), db\<lparr>t_request_logs := t_request_logs db @ [request_log_entry cr st dumps uid now nonce1 nonce2 lg]\<rparr>)))
       (\<lambda>_. ret ())"


section \<open>Reading\<close>

definition read_log :: "crypto \<Rightarrow> settings \<Rightarrow> request_log_row \<Rightarrow> request_log_row" where
  "read_log cr st r = r\<lparr>rl_input_preview := process_result_value cr st (rl_input_preview r),
     rl_output_preview := process_result_value cr st (rl_output_preview r)\<rparr>"

text \<open>\<open>LIMIT\<close> and \<open>OFFSET\<close> as SQLite reads them: negative values are none.\<close>

definition sql_limit :: "int \<Rightarrow> 'a list \<Rightarrow> 'a list" where
  "sql_limit n xs = (if n < 0 then xs else take (nat n) xs)"

definition newest_first :: "('a \<Rightarrow> time) \<Rightarrow> 'a list \<Rightarrow> 'a list" where
  "newest_first f = order_by (\<lambda>x y. f y \<le> f x)"

text \<open>An empty filter text is no filter.\<close>

definition wanted :: "string option \<Rightarrow> string option \<Rightarrow> bool" where
  "wanted filter_text column \<longleftrightarrow> (case filter_text of None \<Rightarrow> True | Some t \<Rightarrow> t = [] \<or> column = Some t)"

definition log_matches :: "string option \<Rightarrow> string option \<Rightarrow> time option \<Rightarrow> time option \<Rightarrow> request_log_row \<Rightarrow> bool" where
  "log_matches client_id provider date_from date_to r \<longleftrightarrow>
     wanted client_id (rl_client_id r) \<and> wanted provider (rl_provider r) \<and>
     (case date_from of None \<Rightarrow> True | Some t \<Rightarrow> t \<le> rl_timestamp r) \<and>
     (case date_to of None \<Rightarrow> True | Some t \<Rightarrow> rl_timestamp r \<le> t)"

definition get_request_logs :: "crypto \<Rightarrow> settings \<Rightarrow> int \<Rightarrow> string option \<Rightarrow> string option \<Rightarrow> time option \<Rightarrow> time option
    \<Rightarrow> database \<Rightarrow> request_log_row list" where
  "get_request_logs cr st limit client_id provider date_from date_to db =
     map (read_log cr st) (sql_limit limit
       (newest_first rl_timestamp (filter (log_matches client_id provider date_from date_to) (t_request_logs db))))"

definition get_request_log_by_id :: "crypto \<Rightarrow> settings \<Rightarrow> string \<Rightarrow> database \<Rightarrow> request_log_row option" where
  "get_request_log_by_id cr st request_id db =
     map_option (read_log cr st) (find (\<lambda>r. rl_request_id r = request_id) (t_request_logs db))"

definition delete_old_request_logs :: "time \<Rightarrow> int \<Rightarrow> (database, nat) io" where
  "delete_old_request_logs now older_than_days =
     (let cutoff = now - of_int older_than_days * 86400 in
      with_db (\<lambda>db. (Inr (length (filter (\<lambda>r. rl_timestamp r < cutoff) (t_request_logs db))),
        db\<lparr>t_request_logs := filter (\<lambda>r. \<not> rl_timestamp r < cutoff) (t_request_logs db)\<rparr>)))"

definition toggle_request_logging :: "bool \<Rightarrow> settings \<Rightarrow> settings" where
  "toggle_request_logging enabled st = st\<lparr>LOG_REQUEST_BODY := enabled\<rparr>"

text \<open>The audit log; its rows show the detail in clear.\<close>

definition get_audit_logs :: "int \<Rightarrow> string option \<Rightarrow> int \<Rightarrow> database \<Rightarrow> audit_log_row list" where
  "get_audit_logs limit event_type_filter offset db =
     sql_limit limit (drop (nat offset)
       (newest_first al_timestamp (filter (\<lambda>r. wanted event_type_filter (Some (al_event_type r))) (t_audit_logs db))))"


section \<open>Properties\<close>

lemma column_reads_back:
  assumes "crypto_ok cr" and "length nonce = 12"
  shows "process_result_value cr st (process_bind_param cr st nonce v) = v"
proof (cases "get_encryption_key st")
  case (Some k)
  show ?thesis
  proof (cases v)
    case v: (Some p)
    obtain c where "encrypt_aes_gcm cr nonce p k = Inr c" "decrypt_aes_gcm cr c k = Inr p"
      using aes_round_trip [OF assms encryption_key_length(1) [OF Some]] by blast
    with Some v show ?thesis by (simp add: process_bind_param_def process_result_value_def)
  qed (simp add: process_bind_param_def process_result_value_def)
qed (simp add: process_bind_param_def process_result_value_def split: option.splits)

lemma find_fresh: "\<not> list_ex P xs \<Longrightarrow> find P (xs @ [x]) = (if P x then Some x else None)"
  by (induction xs) auto

lemma length_prefix_upto: "0 \<le> n \<Longrightarrow> length (prefix_upto n s) \<le> nat n"
  by (simp add: prefix_upto_def)


definition sample_log :: chat_log where
  "sample_log = \<lparr>lg_request_id = ''r1'', lg_client_id = Some ''c1'', lg_client_name = Some ''n'', lg_provider = Some ''openai'',
     lg_model = Some ''gpt-4o'', lg_alias_used = None, lg_input_messages = [JStr ''hello''], lg_output_content = ''world'',
     lg_input_tokens = 3, lg_output_tokens = 2, lg_cost_usd = None, lg_duration_ms = 7, lg_status_code = 200,
     lg_was_truncated = False, lg_masked_count = 0, lg_cache_hit = False\<rparr>"


text \<open>Deleting old rows removes exactly the rows older than the given number of days and reports
  how many; a listing from the cutoff on shows the same rows before and after.\<close>

theorem retention_keeps_recent:
  assumes "delete_old_request_logs now days db = (r, db')" and "now - of_int days * 86400 \<le> t"
  shows "r = Inr (length (t_request_logs db) - length (t_request_logs db')) \<and>
    list_all (\<lambda>x. now - of_int days * 86400 \<le> rl_timestamp x) (t_request_logs db') \<and>
    get_request_logs cr st limit client_id provider (Some t) date_to db' = get_request_logs cr st limit client_id provider (Some t) date_to db"
proof -
  let ?c = "now - of_int days * 86400"
  have db': "db' = db\<lparr>t_request_logs := filter (\<lambda>r. \<not> rl_timestamp r < ?c) (t_request_logs db)\<rparr>"
    and r: "r = Inr (length (filter (\<lambda>r. rl_timestamp r < ?c) (t_request_logs db)))"
    using assms(1) by (auto simp: delete_old_request_logs_def with_db_def Let_def)
  have "length (t_request_logs db) = length (filter (\<lambda>r. rl_timestamp r < ?c) (t_request_logs db)) +
      length (filter (\<lambda>r. \<not> rl_timestamp r < ?c) (t_request_logs db))"
    by (rule sum_length_filter_compl [symmetric])
  moreover have "filter (log_matches client_id provider (Some t) date_to) (filter (\<lambda>r. \<not> rl_timestamp r < ?c) (t_request_logs db)) =
      filter (log_matches client_id provider (Some t) date_to) (t_request_logs db)"
    using assms(2) by (auto simp: log_matches_def intro!: filter_cong)
  ultimately show ?thesis
    by (simp add: r db' get_request_logs_def list_all_iff not_less)
qed

lemma retention_keeps_recent_witness:
  "fst (delete_old_request_logs (86400 * 40) 30 (empty_db\<lparr>t_request_logs :=
     [request_log_entry prefix_cipher default_settings (\<lambda>_. []) ''u'' 5 [] [] sample_log,
      request_log_entry prefix_cipher default_settings (\<lambda>_. []) ''v'' (86400 * 20) [] [] sample_log]\<rparr>)) = Inr 1"
proof -
  let ?db = "empty_db\<lparr>t_request_logs :=
     [request_log_entry prefix_cipher default_settings (\<lambda>_. []) ''u'' 5 [] [] sample_log,
      request_log_entry prefix_cipher default_settings (\<lambda>_. []) ''v'' (86400 * 20) [] [] sample_log]\<rparr>"
  have "length (t_request_logs (snd (delete_old_request_logs (86400 * 40) 30 ?db))) = 1"
    by (simp add: delete_old_request_logs_def with_db_def request_log_entry_def Let_def)
  then show ?thesis
    using retention_keeps_recent [of "86400 * 40" 30 ?db, OF prod.collapse [symmetric], of "86400 * 40"] by simp
qed

end
