(* ===== verification/Chat.thy ===== *)
theory Chat
  imports RateLimiter PolicyDecisions Clients Caching Sessions Logs
begin

text \<open>
  \<open>main.py\<close>: the handler of the chat endpoints, which composes all components, and \<open>metrics.py\<close>.  Bodies are
  parsed JSON objects whose \<open>messages\<close> are a list of objects and whose \<open>model\<close>, \<open>provider\<close> and
  \<open>system\<close> are strings or absent.  One request runs at a time; a stream is read to its end.
\<close>


section \<open>Metrics\<close>

record metrics =
  mt_requests :: "(string \<times> string \<times> string \<times> string, int) pydict"
  mt_durations :: "((string \<times> string \<times> string) \<times> rat) list"
  mt_tokens :: "(string \<times> string \<times> string, int) pydict"
  mt_cost :: "(string \<times> string \<times> string, rat) pydict"
  mt_active :: int

definition new_metrics :: metrics where
  "new_metrics = \<lparr>mt_requests = [], mt_durations = [], mt_tokens = [], mt_cost = [], mt_active = 0\<rparr>"

text \<open>Counters refuse negative amounts.\<close>

definition count_tokens :: "string \<Rightarrow> string \<Rightarrow> string \<Rightarrow> int \<Rightarrow> (metrics, unit) io" where
  "count_tokens client provider typ amount = (\<lambda>m.
     let k = (client, provider, typ) in
     if amount < 0 then (Inl (ValueError ''Counters can only be incremented by non-negative amounts.''),
                         m\<lparr>mt_tokens := dict_set k (dict_get 0 k (mt_tokens m)) (mt_tokens m)\<rparr>)
     else (Inr (), m\<lparr>mt_tokens := dict_set k (dict_get 0 k (mt_tokens m) + amount) (mt_tokens m)\<rparr>))"

definition record_request :: "string \<Rightarrow> string \<Rightarrow> string \<Rightarrow> string \<Rightarrow> rat \<Rightarrow> int \<Rightarrow> int \<Rightarrow> rat option \<Rightarrow> (metrics, unit) io" where
  "record_request client provider model status duration input_tokens output_tokens cost_usd =
     bnd (\<lambda>m. (Inr (), m\<lparr>mt_requests := dict_set (client, provider, model, status)
                            (dict_get 0 (client, provider, model, status) (mt_requests m) + 1) (mt_requests m),
                          mt_durations := mt_durations m @ [((client, provider, model), duration)]\<rparr>)) (\<lambda>_.
     bnd (count_tokens client provider ''input'' input_tokens) (\<lambda>_.
     bnd (count_tokens client provider ''output'' output_tokens) (\<lambda>_ m.
       (case cost_usd of
          Some c \<Rightarrow> if c > 0 then (Inr (), m\<lparr>mt_cost := dict_set (client, provider, model)
                                     (dict_get 0 (client, provider, model) (mt_cost m) + c) (mt_cost m)\<rparr>) else (Inr (), m)
        | None \<Rightarrow> (Inr (), m)))))"


section \<open>State\<close>

record chat_stats =
  st_total_requests :: int
  st_total_input_tokens :: int
  st_total_output_tokens :: int
  st_errors :: int
  st_last_request_time :: "time option"

definition new_stats :: chat_stats where
  "new_stats = \<lparr>st_total_requests = 0, st_total_input_tokens = 0, st_total_output_tokens = 0, st_errors = 0,
     st_last_request_time = None\<rparr>"

definition reset_stats :: "chat_stats \<Rightarrow> chat_stats" where
  "reset_stats _ = new_stats"

text \<open>
  The store, the database and the state of the process: limiter, active filter patterns, key pools,
  breakers, sessions, cache counters, statistics and metrics.  \<open>ap_calls\<close> and \<open>ap_streams\<close> are the logs of
  provider calls, newest first.
\<close>

record ('s, 'w) app =
  ap_store :: 's
  ap_db :: database
  ap_limiter :: limiter
  ap_patterns :: "filter_pattern_row list"
  ap_pools :: key_manager
  ap_breakers :: cb_manager
  ap_step :: nat
  ap_calls :: "oai_response call_log list"
  ap_streams :: "jdict stream call_log list"
  ap_guard_calls :: nat
  ap_sessions :: "'w session_manager"
  ap_cache :: cache_counters
  ap_stats :: chat_stats
  ap_metrics :: metrics

text \<open>
  The world of the handler: the store's operations, what guarding needs (settings, standard library, regular
  expressions and base64 among it), the tokenizer, the adapters' answers for messages, model and
  call parameters, sockets, the texts of sessions, messages and exceptions.
\<close>

record ('s, 'w) chat_env =
  he_ops :: "'s redis_ops"
  he_guard :: guard_env
  he_warn :: bool
  he_tokenizer :: tokenizer
  he_llm :: "message list \<Rightarrow> string \<Rightarrow> jdict \<Rightarrow> oai_response env"
  he_stream :: "message list \<Rightarrow> string \<Rightarrow> jdict \<Rightarrow> jdict stream env"
  he_send :: "'w \<Rightarrow> session_update \<Rightarrow> bool"
  he_dump :: "live_session \<Rightarrow> string"
  he_load :: "string \<Rightarrow> live_session res"
  he_dumps :: "json \<Rightarrow> string"
  he_str_exn :: "py_exn \<Rightarrow> string"

abbreviation he_settings :: "('s, 'w) chat_env \<Rightarrow> settings" where
  "he_settings h \<equiv> ge_settings (he_guard h)"

abbreviation he_lib :: "('s, 'w) chat_env \<Rightarrow> pylib" where
  "he_lib h \<equiv> ge_lib (he_guard h)"

abbreviation he_re :: "('s, 'w) chat_env \<Rightarrow> re_lib" where
  "he_re h \<equiv> ge_re (he_guard h)"

definition session_env_of :: "('s, 'w) chat_env \<Rightarrow> ('s, 'w) session_env" where
  "session_env_of h = \<lparr>se_ops = he_ops h, se_dump = he_dump h, se_load = he_load h, se_send = he_send h\<rparr>"

text \<open>
  A request: head, authenticated user and body, and what the handler draws for it: the name of its task,
  the day, clock readings at the start, when the request lines up for the slot, when the slot is acquired and when the reply
  is there, and new identifiers.
\<close>

record chat_body =
  cb_messages :: "message list"
  cb_model :: "string option"
  cb_stream :: bool
  cb_temperature :: json
  cb_max_tokens :: json
  cb_tools :: json
  cb_tool_choice :: json
  cb_stop :: json
  cb_provider :: "string option"
  cb_system :: "string option"

record chat_request =
  cq_http :: http_request
  cq_user :: auth_user
  cq_body :: chat_body
  cq_openai :: bool
  cq_task :: string
  cq_today :: string
  cq_start :: time
  cq_lined :: time
  cq_queued :: time
  cq_end :: time
  cq_session_id :: string
  cq_usage_id :: string
  cq_log_id :: string
  cq_nonces :: "string \<times> string"

datatype chat_answer =
    Answer "(string \<times> string) list" json
  | EventStream "(string \<times> string) list" "string list"
  | Waiting   \<comment> \<open>suspended for a slot\<close>


section \<open>The components as parts of the state\<close>

definition on_store_part :: "('s, 'a) io \<Rightarrow> (('s, 'w) app, 'a) io" where
  "on_store_part m = (\<lambda>ap. let (x, s) = m (ap_store ap) in (x, ap\<lparr>ap_store := s\<rparr>))"

definition on_guard_part :: "(guard_state, 'a) io \<Rightarrow> (('s, 'w) app, 'a) io" where
  "on_guard_part m = (\<lambda>ap. let (x, g) = m \<lparr>gs_pools = ap_pools ap, gs_calls = ap_guard_calls ap\<rparr>
     in (x, ap\<lparr>ap_pools := gs_pools g, ap_guard_calls := gs_calls g\<rparr>))"

definition on_cache_part :: "('s cache_state, 'a) io \<Rightarrow> (('s, 'w) app, 'a) io" where
  "on_cache_part m = (\<lambda>ap. let (x, (s, c)) = m (ap_store ap, ap_cache ap) in (x, ap\<lparr>ap_store := s, ap_cache := c\<rparr>))"

definition on_session_part :: "(('s, 'w) sessions, 'a) io \<Rightarrow> (('s, 'w) app, 'a) io" where
  "on_session_part m = (\<lambda>ap. let (x, (s, sm)) = m (ap_store ap, ap_sessions ap) in (x, ap\<lparr>ap_store := s, ap_sessions := sm\<rparr>))"

definition on_calls_part :: "(oai_response proxy, 'a) io \<Rightarrow> (('s, 'w) app, 'a) io" where
  "on_calls_part m = (\<lambda>ap.
     let (x, p) = m \<lparr>px_pools = ap_pools ap, px_breakers = ap_breakers ap, px_step = ap_step ap, px_log = ap_calls ap\<rparr>
     in (x, ap\<lparr>ap_pools := px_pools p, ap_breakers := px_breakers p, ap_step := px_step p, ap_calls := px_log p\<rparr>))"

definition on_streams_part :: "(jdict stream proxy \<Rightarrow> 'a \<times> jdict stream proxy) \<Rightarrow> (('s, 'w) app, 'a) io" where
  "on_streams_part m = (\<lambda>ap.
     let (x, p) = m \<lparr>px_pools = ap_pools ap, px_breakers = ap_breakers ap, px_step = ap_step ap, px_log = ap_streams ap\<rparr>
     in (Inr x, ap\<lparr>ap_pools := px_pools p, ap_breakers := px_breakers p, ap_step := px_step p, ap_streams := px_log p\<rparr>))"

definition on_db_part :: "(database, 'a) io \<Rightarrow> (('s, 'w) app, 'a) io" where
  "on_db_part m = (\<lambda>ap. let (x, db) = m (ap_db ap) in (x, ap\<lparr>ap_db := db\<rparr>))"

definition on_metrics_part :: "(metrics, 'a) io \<Rightarrow> (('s, 'w) app, 'a) io" where
  "on_metrics_part m = (\<lambda>ap. let (x, mt) = m (ap_metrics ap) in (x, ap\<lparr>ap_metrics := mt\<rparr>))"

definition modify :: "('p \<Rightarrow> 'p) \<Rightarrow> ('p, unit) io" where
  "modify f = (\<lambda>ap. (Inr (), f ap))"



section \<open>Before the provider is called\<close>

definition admit :: "('s, 'w) chat_env \<Rightarrow> chat_request \<Rightarrow> (('s, 'w) app, unit) io" where
  "admit h rq =
     (let now = cq_start rq; check = (\<lambda>m msg k. bnd (on_store_part m) (\<lambda>(ok, retry). if ok then k else raise (HTTPException 429 msg))) in
      check (check_ip_rate (he_ops h) (he_lib h) (he_settings h) now (cq_task rq) (get_client_ip (cq_http rq))) ''IP rate limit exceeded''
     (check (check_global_rate (he_ops h) (he_lib h) (he_settings h) now (cq_task rq)) ''Global rate limit exceeded''
     (case au_client_id (cq_user rq) of
        Some (c # cs) \<Rightarrow>
          check (check_client_rate (he_ops h) (he_lib h) (he_settings h) now (cq_task rq) (c # cs) 60) ''Client rate limit exceeded''
            (\<lambda>ap. if quota_used_up (get_quota_usage (cq_today rq) None (c # cs) (ap_db ap))
                  then (Inl (HTTPException 429 ''Daily token quota exceeded''), ap) else (Inr (), ap))
      | _ \<Rightarrow> ret ())))"

definition active_alias :: "database \<Rightarrow> string \<Rightarrow> model_alias_row option res" where
  "active_alias db a = Inr (find (\<lambda>r. ma_alias r = a \<and> ma_is_active r) (t_model_aliases db))"

record prepared =
  pp_messages :: "message list"
  pp_masked :: nat
  pp_provider :: string
  pp_model :: string
  pp_alias :: "string option"
  pp_truncated :: bool

text \<open>A reason of the guard that is no string is shown by its text.\<close>

definition prepare :: "('s, 'w) chat_env \<Rightarrow> chat_request \<Rightarrow> (('s, 'w) app, prepared) io" where
  "prepare h rq =
     bnd (admit h rq) (\<lambda>_.
     bnd (\<lambda>ap. lift_res (sanitize_messages (he_re h) (he_warn h) (ap_patterns ap) (cb_messages (cq_body rq))) ap) (\<lambda>(clean, masked) ap.
       (let (provider, model, alias_used) =
          resolve_model (he_settings h) (active_alias (ap_db ap)) (cb_provider (cq_body rq)) (cb_model (cq_body rq)) in
        bnd (on_guard_part (evaluate_request (he_guard h) (ap_db ap) clean model (au_client_id (cq_user rq)))) (\<lambda>guard.
        if \<not> pr_allowed guard
        then raise (HTTPException 403 (if truthy (pr_reject_reason guard) then to_str (he_lib h) (pr_reject_reason guard)
                                       else ''Blocked by content policy''))
        else
          (let clean2 = (case pr_modified guard of Some (m # ms) \<Rightarrow> m # ms | _ \<Rightarrow> clean) in
           bnd (lift_res (if CONTEXT_TRUNCATION_ENABLED (he_settings h)
                          then truncate_messages (he_tokenizer h) clean2 (MAX_CONTEXT_TOKENS_DEFAULT (he_settings h))
                          else Inr (clean2, False))) (\<lambda>(clean3, was_truncated).
           ret \<lparr>pp_messages = clean3, pp_masked = masked, pp_provider = provider, pp_model = model, pp_alias = alias_used,
                pp_truncated = was_truncated\<rparr>))) ap)))"

text \<open>The key is empty where the cache is not used.\<close>

definition cache_key_of :: "('s, 'w) chat_env \<Rightarrow> chat_request \<Rightarrow> prepared \<Rightarrow> string" where
  "cache_key_of h rq pp =
     (if CACHE_ENABLED (he_settings h) \<and> \<not> cb_stream (cq_body rq)
      then compute_cache_key (he_lib h) (pp_messages pp) (pp_model pp) (cb_temperature (cq_body rq)) else [])"

definition cache_bypassed :: "chat_request \<Rightarrow> bool" where
  "cache_bypassed rq \<longleftrightarrow> str_lower (header ''x-cache-control'' (cq_http rq)) = ''no-cache''"

definition lookup_cache :: "('s, 'w) chat_env \<Rightarrow> chat_request \<Rightarrow> prepared \<Rightarrow> (('s, 'w) app, oai_response option) io" where
  "lookup_cache h rq pp =
     (if CACHE_ENABLED (he_settings h) \<and> \<not> cb_stream (cq_body rq) \<and> \<not> cache_bypassed rq
      then on_cache_part (get_cached_response (he_ops h) (he_lib h) (he_settings h) (cq_start rq) (cache_key_of h rq pp))
      else ret None)"

definition answer_headers :: "chat_request \<Rightarrow> bool \<Rightarrow> rat option \<Rightarrow> prepared \<Rightarrow> (string \<times> string) list" where
  "answer_headers rq hit wait pp =
     [(''X-Request-ID'', rq_id (cq_http rq)), (''X-Cache-Hit'', if hit then ''true'' else ''false'')] @
     (case wait of None \<Rightarrow> [] | Some w \<Rightarrow> [(''X-Queue-Wait-Ms'', show_int (py_trunc w))]) @
     (if pp_truncated pp then [(''X-Context-Truncated'', ''true'')] else [])"

definition begin_request :: "('s, 'w) chat_env \<Rightarrow> chat_request \<Rightarrow> prepared \<Rightarrow> (('s, 'w) app, unit) io" where
  "begin_request h rq pp =
     bnd (lift_res (estimate_messages_tokens (he_tokenizer h) (pp_messages pp))) (\<lambda>est.
     bnd (on_session_part (register_session (session_env_of h) (cq_start rq) (cq_session_id rq) (au_client_id (cq_user rq))
            (au_name (cq_user rq)) (pp_provider pp) (pp_model pp) (pp_alias pp) (int est) (get_client_ip (cq_http rq)))) (\<lambda>_.
     modify (\<lambda>ap. ap\<lparr>ap_limiter := register_active_request (cq_start rq) (rq_id (cq_http rq))
       [(''client'', JStr (au_name (cq_user rq))), (''provider'', JStr (pp_provider pp)), (''model'', JStr (pp_model pp))]
       (ap_limiter ap)\<rparr>)))"



section \<open>The provider call\<close>

definition openai_params :: "chat_body \<Rightarrow> jdict" where
  "openai_params b = [(''temperature'', cb_temperature b), (''max_tokens'', cb_max_tokens b), (''tools'', cb_tools b),
     (''tool_choice'', cb_tool_choice b), (''stop'', cb_stop b)]"

text \<open>The native call passes the tools only.\<close>

definition native_params :: "chat_body \<Rightarrow> jdict" where
  "native_params b = [(''tools'', cb_tools b)]"

definition block_to_json :: "content_block \<Rightarrow> json" where
  "block_to_json b = JObj [(''type'', JStr (blk_type b)), (''text'', opt_json JStr (blk_text b)), (''id'', blk_id b), (''name'', blk_name b),
     (''input'', blk_input b)]"

definition native_to_json :: "string \<Rightarrow> bool \<Rightarrow> chat_response \<Rightarrow> json" where
  "native_to_json request_id was_truncated r =
     JObj [(''stop_reason'', opt_json JStr (chr_stop_reason r)), (''content'', JList (map block_to_json (chr_content r))),
           (''usage'', JObj [(''input_tokens'', JInt (chr_input_tokens r)), (''output_tokens'', JInt (chr_output_tokens r))]),
           (''model'', JStr (chr_model r)), (''provider'', JStr (chr_provider r)), (''request_id'', JStr request_id),
           (''alias_used'', opt_json JStr (chr_alias_used r)), (''was_truncated'', JBool was_truncated)]"

record call_reply =
  rp_json :: json
  rp_input :: int
  rp_output :: int
  rp_text :: string
  rp_response :: "oai_response option"

definition openai_reply :: "oai_response \<Rightarrow> call_reply" where
  "openai_reply r =
     \<lparr>rp_json = response_to_json r, rp_input = ou_prompt_tokens (or_usage r), rp_output = ou_completion_tokens (or_usage r),
      rp_text = (case or_choices r of [] \<Rightarrow> [] | c # _ \<Rightarrow> (case om_content (oc_message c) of None \<Rightarrow> [] | Some t \<Rightarrow> t)),
      rp_response = Some r\<rparr>"

definition native_reply :: "string \<Rightarrow> bool \<Rightarrow> chat_response \<Rightarrow> call_reply" where
  "native_reply request_id was_truncated r =
     \<lparr>rp_json = native_to_json request_id was_truncated r, rp_input = chr_input_tokens r, rp_output = chr_output_tokens r,
      rp_text = concat (map (\<lambda>b. case blk_text b of None \<Rightarrow> [] | Some t \<Rightarrow> t) (chr_content r)), rp_response = None\<rparr>"

definition call_provider :: "('s, 'w) chat_env \<Rightarrow> chat_request \<Rightarrow> prepared \<Rightarrow> (('s, 'w) app, call_reply) io" where
  "call_provider h rq pp =
     (if cq_openai rq
      then bnd (on_calls_part (chat_with_retry (he_llm h (pp_messages pp) (pp_model pp) (openai_params (cq_body rq)))
                                 (he_settings h) (pp_provider pp)))
             (\<lambda>r. ret (openai_reply r))
      else (\<lambda>ap. bnd (on_calls_part (chat (he_lib h) (\<lambda>ms m. he_llm h ms m (native_params (cq_body rq))) (he_settings h)
                                      (active_alias (ap_db ap)) (pp_messages pp) (Some (pp_provider pp)) (Some (pp_model pp))
                                      (cb_system (cq_body rq))))
             (\<lambda>r. ret (native_reply (rq_id (cq_http rq)) (pp_truncated pp) r)) ap))"


section \<open>After the call\<close>

definition store_reply :: "('s, 'w) chat_env \<Rightarrow> chat_request \<Rightarrow> prepared \<Rightarrow> call_reply \<Rightarrow> (('s, 'w) app, unit) io" where
  "store_reply h rq pp r =
     (if CACHE_ENABLED (he_settings h) \<and> cache_key_of h rq pp \<noteq> []
      then (case rp_response r of
              Some resp \<Rightarrow> on_store_part (set_cached_response (he_ops h) (he_lib h) (he_settings h) (cq_end rq) (cache_key_of h rq pp) resp
                             (rp_input r + rp_output r))
            | None \<Rightarrow> ret ())
      else ret ())"

definition reply_cost :: "chat_request \<Rightarrow> prepared \<Rightarrow> call_reply \<Rightarrow> database \<Rightarrow> rat option" where
  "reply_cost rq pp r db =
     (if given (au_client_id (cq_user rq)) then calculate_cost (rp_input r) (rp_output r) (get_cost_rate (pp_provider pp) (pp_model pp) db) else None)"

definition charge_client :: "chat_request \<Rightarrow> prepared \<Rightarrow> call_reply \<Rightarrow> database \<Rightarrow> database" where
  "charge_client rq pp r db =
     (case au_client_id (cq_user rq) of
        Some (c # cs) \<Rightarrow>
          touch_client (cq_end rq) (c # cs) (snd (record_token_usage (cq_usage_id rq) (cq_today rq) (c # cs) (pp_provider pp) (pp_model pp)
            (rp_input r) (rp_output r) db))
      | _ \<Rightarrow> db)"

definition duration_ms :: "chat_request \<Rightarrow> int" where
  "duration_ms rq = py_trunc ((cq_end rq - cq_start rq) * 1000)"

definition log_of :: "chat_request \<Rightarrow> prepared \<Rightarrow> call_reply \<Rightarrow> rat option \<Rightarrow> chat_log" where
  "log_of rq pp r cost =
     \<lparr>lg_request_id = rq_id (cq_http rq), lg_client_id = au_client_id (cq_user rq), lg_client_name = Some (au_name (cq_user rq)),
      lg_provider = Some (pp_provider pp), lg_model = Some (pp_model pp), lg_alias_used = pp_alias pp,
      lg_input_messages = map JObj (pp_messages pp), lg_output_content = rp_text r, lg_input_tokens = rp_input r,
      lg_output_tokens = rp_output r, lg_cost_usd = cost, lg_duration_ms = duration_ms rq, lg_status_code = 200,
      lg_was_truncated = pp_truncated pp, lg_masked_count = int (pp_masked pp), lg_cache_hit = False\<rparr>"

definition count_success :: "chat_request \<Rightarrow> call_reply \<Rightarrow> chat_stats \<Rightarrow> chat_stats" where
  "count_success rq r s =
     s\<lparr>st_total_requests := st_total_requests s + 1, st_total_input_tokens := st_total_input_tokens s + rp_input r,
       st_total_output_tokens := st_total_output_tokens s + rp_output r, st_last_request_time := Some (cq_end rq)\<rparr>"

definition account :: "('s, 'w) chat_env \<Rightarrow> chat_request \<Rightarrow> prepared \<Rightarrow> call_reply \<Rightarrow> (('s, 'w) app, unit) io" where
  "account h rq pp r = (\<lambda>ap.
     let cost = reply_cost rq pp r (ap_db ap) in
     bnd (modify (\<lambda>ap. ap\<lparr>ap_db := charge_client rq pp r (ap_db ap)\<rparr>)) (\<lambda>_.
     bnd (on_db_part (log_request (ge_crypto (he_guard h)) (he_settings h) (he_dumps h) (cq_log_id rq) (cq_end rq)
            (fst (cq_nonces rq)) (snd (cq_nonces rq)) (log_of rq pp r cost))) (\<lambda>_.
     bnd (on_metrics_part (record_request (au_name (cq_user rq)) (pp_provider pp) (pp_model pp) ''200''
            (of_int (duration_ms rq) / 1000) (rp_input r) (rp_output r) cost)) (\<lambda>_.
     modify (\<lambda>ap. ap\<lparr>ap_metrics := (ap_metrics ap)\<lparr>mt_active := mt_active (ap_metrics ap) - 1\<rparr>,
       ap_stats := count_success rq r (ap_stats ap)\<rparr>)))) ap)"

definition end_session :: "('s, 'w) chat_env \<Rightarrow> chat_request \<Rightarrow> session_status \<Rightarrow> (('s, 'w) app, unit) io" where
  "end_session h rq final =
     on_session_part (on_manager (close_session (session_env_of h) (cq_end rq) (cq_session_id rq) final))"

definition forget_active :: "chat_request \<Rightarrow> (('s, 'w) app, unit) io" where
  "forget_active rq = modify (\<lambda>ap. ap\<lparr>ap_limiter := unregister_active_request (rq_id (cq_http rq)) (ap_limiter ap)\<rparr>)"

definition note_status :: "('s, 'w) chat_env \<Rightarrow> chat_request \<Rightarrow> session_status \<Rightarrow> (('s, 'w) app, unit) io" where
  "note_status h rq status =
     on_session_part (update_session (session_env_of h) (cq_queued rq) (cq_session_id rq) (Some status) None None)"

definition queue_wait_ms :: "chat_request \<Rightarrow> rat" where
  "queue_wait_ms rq = (cq_queued rq - cq_lined rq) * 1000"

text \<open>
  The body of the \<open>async with\<close> for a request that is no stream.  The text and the flag that the evaluation of the
  response gives are bound and not used.
\<close>

definition serve_reply :: "('s, 'w) chat_env \<Rightarrow> chat_request \<Rightarrow> prepared \<Rightarrow> (('s, 'w) app, chat_answer) io" where
  "serve_reply h rq pp =
     bnd (call_provider h rq pp) (\<lambda>r.
     bnd (\<lambda>ap. lift_res (evaluate_response (he_re h) (ap_db ap) (rp_text r) (au_client_id (cq_user rq))) ap) (\<lambda>(filtered_text, was_filtered).
     bnd (store_reply h rq pp r) (\<lambda>_.
     bnd (account h rq pp r) (\<lambda>_.
     bnd (end_session h rq Done) (\<lambda>_.
     ret (Answer (answer_headers rq False (Some (queue_wait_ms rq)) pp) (rp_json r)))))))"



section \<open>Streams\<close>

definition sse_data :: "string \<Rightarrow> string" where
  "sse_data s = ''data: '' @ s @ [CHR 0x0A, CHR 0x0A]"

text \<open>The total after a chunk, if it has text; a malformed chunk raises.\<close>

definition counted_chunk :: "nat \<Rightarrow> jdict \<Rightarrow> nat list res" where
  "counted_chunk sofar c =
     rbind (chunk_text c) (\<lambda>ts. case ts of [] \<Rightarrow> Inr [] | t # _ \<Rightarrow> rbind (py_len t) (\<lambda>n. Inr [sofar + n div 4 + 1]))"

definition readable_chunk :: "jdict \<Rightarrow> bool" where
  "readable_chunk c \<longleftrightarrow> \<not> isl (counted_chunk 0 c)"

text \<open>
  The events of the chunks up to the first malformed one and the running totals of estimated output
  tokens, one for each chunk with text.
\<close>

fun sse_chunks :: "('s, 'w) chat_env \<Rightarrow> nat \<Rightarrow> jdict list \<Rightarrow> (string list \<times> nat list) \<times> unit res" where
  "sse_chunks h sofar [] = (([], []), Inr ())"
| "sse_chunks h sofar (c # cs) =
     (let ev = sse_data (json_dumps (he_lib h) (JObj c)) in
      case counted_chunk sofar c of
        Inl e \<Rightarrow> (([ev], []), Inl e)
      | Inr ns \<Rightarrow> (let ((evs, ts), r) = sse_chunks h (last (sofar # ns)) cs in ((ev # evs, ns @ ts), r)))"

definition stream_events :: "('s, 'w) chat_env \<Rightarrow> jdict list \<times> unit res \<Rightarrow> string list \<times> nat list" where
  "stream_events h = (\<lambda>(chunks, r).
     let ((evs, totals), r') = sse_chunks h 0 chunks
     in (evs @ [case rbind r' (\<lambda>_. r) of
                  Inr _ \<Rightarrow> sse_data ''[DONE]''
                | Inl e \<Rightarrow> sse_data (json_dumps (he_lib h) (JObj [(''error'', JStr (he_str_exn h e))]))], totals))"

definition count_stream :: "chat_request \<Rightarrow> chat_stats \<Rightarrow> chat_stats" where
  "count_stream rq s = s\<lparr>st_total_requests := st_total_requests s + 1, st_last_request_time := Some (cq_end rq)\<rparr>"

text \<open>
  The generator, which runs while the response is sent.  A malformed chunk ends the reading of the provider's stream.
\<close>

definition sse_generator :: "('s, 'w) chat_env \<Rightarrow> chat_request \<Rightarrow> prepared \<Rightarrow> (('s, 'w) app, string list) io" where
  "sse_generator h rq pp =
     bnd (on_streams_part (stream_with_retry readable_chunk (he_stream h (pp_messages pp) (pp_model pp) (openai_params (cq_body rq)))
            (he_settings h) (pp_provider pp))) (\<lambda>res.
     (let (evs, totals) = stream_events h res in
      bnd (for_each totals (\<lambda>n. on_session_part (update_session (session_env_of h) (cq_end rq) (cq_session_id rq) None
             (Some (int n)) (Some (duration_ms rq))))) (\<lambda>_.
      bnd (end_session h rq Done) (\<lambda>_.
      bnd (forget_active rq) (\<lambda>_.
      bnd (modify (\<lambda>ap. ap\<lparr>ap_stats := count_stream rq (ap_stats ap)\<rparr>)) (\<lambda>_.
      ret evs))))))"


section \<open>The handler\<close>

definition with_slot :: "('s, 'w) chat_env \<Rightarrow> (('s, 'w) app, chat_answer) io \<Rightarrow> (('s, 'w) app, chat_answer) io" where
  "with_slot h body = (\<lambda>ap.
     case acquire_global_slot (he_settings h) (ap_limiter ap) of
       None \<Rightarrow> (Inr Waiting, ap)
     | Some l \<Rightarrow>
         (let (x, ap') = body (ap\<lparr>ap_limiter := l\<rparr>)
          in (x, ap'\<lparr>ap_limiter := release_global_slot (he_settings h) (ap_limiter ap')\<rparr>)))"

text \<open>A stream is only set up here; \<^term>\<open>EventStream hs []\<close> stands for the response whose generator has not run.\<close>

definition serve_request :: "('s, 'w) chat_env \<Rightarrow> chat_request \<Rightarrow> prepared \<Rightarrow> (('s, 'w) app, chat_answer) io" where
  "serve_request h rq pp =
     with_slot h
       (bnd (modify (\<lambda>ap. ap\<lparr>ap_limiter := record_queue_wait (queue_wait_ms rq) (ap_limiter ap)\<rparr>)) (\<lambda>_.
        bnd (note_status h rq Running) (\<lambda>_.
        if cb_stream (cq_body rq)
        then bnd (note_status h rq Streaming) (\<lambda>_. ret (EventStream (answer_headers rq False (Some (queue_wait_ms rq)) pp) []))
        else serve_reply h rq pp)))"

definition count_error :: "(('s, 'w) app, unit) io" where
  "count_error = modify (\<lambda>ap. ap\<lparr>ap_stats := (ap_stats ap)\<lparr>st_errors := st_errors (ap_stats ap) + 1\<rparr>\<rparr>)"

definition fail_request :: "('s, 'w) chat_env \<Rightarrow> chat_request \<Rightarrow> py_exn \<Rightarrow> (('s, 'w) app, chat_answer) io" where
  "fail_request h rq e =
     bnd (end_session h rq Failure) (\<lambda>_.
     bnd (forget_active rq) (\<lambda>_.
     case e of
       RateLimitExceeded _ _ \<Rightarrow> raise (HTTPException 429 (he_str_exn h e))
     | ProviderError _ _ status \<Rightarrow> bnd count_error (\<lambda>_. raise (HTTPException status (he_str_exn h e)))
     | HTTPException _ _ \<Rightarrow> raise e
     | _ \<Rightarrow> bnd count_error (\<lambda>_. raise (HTTPException 502 (he_str_exn h e)))))"

definition handle_chat :: "('s, 'w) chat_env \<Rightarrow> chat_request \<Rightarrow> (('s, 'w) app, chat_answer) io" where
  "handle_chat h rq =
     bnd (prepare h rq) (\<lambda>pp.
     bnd (lookup_cache h rq pp) (\<lambda>cached.
     case cached of
       Some r \<Rightarrow> ret (Answer (answer_headers rq True None pp) (response_to_json r))
     | None \<Rightarrow>
         bnd (begin_request h rq pp) (\<lambda>_.
         bnd (try_except (serve_request h rq pp) (fail_request h rq)) (\<lambda>answer.
         case answer of
           EventStream hs _ \<Rightarrow> bnd (sse_generator h rq pp) (\<lambda>evs. ret (EventStream hs evs))
         | _ \<Rightarrow> ret answer))))"

end
