(* ===== verification/ChatProofs.thy ===== *)
theory ChatProofs
  imports Chat
begin

text \<open>
  What the chat handler guarantees.  Frames come first: \<open>preserves g m\<close> says that \<open>m\<close> leaves the part \<open>g\<close> of the
  state as it was, whatever it returns; the rules \<open>frame_intros\<close> derive it along the structure of the handler.
\<close>

named_theorems frame_intros "rules that derive frames along the structure of the handler"


section \<open>Frames\<close>

definition preserves :: "(('s, 'w) app \<Rightarrow> 'g) \<Rightarrow> (('s, 'w) app, 'a) io \<Rightarrow> bool" where
  "preserves g m \<longleftrightarrow> (\<forall>ap. g (snd (m ap)) = g ap)"

lemma preservesD: "preserves g m \<Longrightarrow> m ap = (x, ap') \<Longrightarrow> g ap' = g ap"
  unfolding preserves_def by (metis snd_conv)

lemma preserves_ret [frame_intros]: "preserves g (ret a)" "preserves g (raise e)" "preserves g (lift_res x)"
  by (simp_all add: preserves_def)

lemma preserves_bnd [frame_intros]: "preserves g m \<Longrightarrow> (\<And>a. preserves g (f a)) \<Longrightarrow> preserves g (bnd m f)"
  by (auto simp: preserves_def bnd_def split: prod.splits sum.splits) (metis snd_conv)+

lemma preserves_try [frame_intros]: "preserves g m \<Longrightarrow> (\<And>e. preserves g (f e)) \<Longrightarrow> preserves g (try_except m f)"
  by (auto simp: preserves_def try_except_def split: prod.splits sum.splits) (metis snd_conv)+

lemma preserves_read: "(\<And>ap. preserves g (m ap)) \<Longrightarrow> preserves g (\<lambda>ap. m ap ap)"
  by (simp add: preserves_def)

lemma preserves_if [frame_intros]: "preserves g m \<Longrightarrow> preserves g m' \<Longrightarrow> preserves g (if b then m else m')"
  by simp

lemma preserves_modify [frame_intros]: "(\<And>ap. g (f ap) = g ap) \<Longrightarrow> preserves g (modify f)"
  by (simp add: preserves_def modify_def)

lemma bnd_modify: "bnd (modify f) k ap = k () (f ap)"
  by (simp add: bnd_def modify_def)

lemma preserves_for_each [frame_intros]: "(\<And>x. preserves g (f x)) \<Longrightarrow> preserves g (for_each xs f)"
  by (induction xs) (auto intro: preserves_ret preserves_bnd)

text \<open>An operation of a component keeps what does not depend on the component.\<close>

lemma preserves_parts [frame_intros]:
  "(\<And>ap s. g (ap\<lparr>ap_store := s\<rparr>) = g ap) \<Longrightarrow> preserves g (on_store_part m1)"
  "(\<And>ap p n. g (ap\<lparr>ap_pools := p, ap_guard_calls := n\<rparr>) = g ap) \<Longrightarrow> preserves g (on_guard_part m2)"
  "(\<And>ap s c. g (ap\<lparr>ap_store := s, ap_cache := c\<rparr>) = g ap) \<Longrightarrow> preserves g (on_cache_part m3)"
  "(\<And>ap s c. g (ap\<lparr>ap_store := s, ap_sessions := c\<rparr>) = g ap) \<Longrightarrow> preserves g (on_session_part m4)"
  "(\<And>ap p b n l. g (ap\<lparr>ap_pools := p, ap_breakers := b, ap_step := n, ap_calls := l\<rparr>) = g ap) \<Longrightarrow> preserves g (on_calls_part m5)"
  "(\<And>ap p b n l. g (ap\<lparr>ap_pools := p, ap_breakers := b, ap_step := n, ap_streams := l\<rparr>) = g ap) \<Longrightarrow> preserves g (on_streams_part m6)"
  "(\<And>ap db. g (ap\<lparr>ap_db := db\<rparr>) = g ap) \<Longrightarrow> preserves g (on_db_part m7)"
  "(\<And>ap mt. g (ap\<lparr>ap_metrics := mt\<rparr>) = g ap) \<Longrightarrow> preserves g (on_metrics_part m8)"
  by (simp_all add: preserves_def on_store_part_def on_guard_part_def on_cache_part_def on_session_part_def on_calls_part_def
      on_streams_part_def on_db_part_def on_metrics_part_def split: prod.splits)

text \<open>What the steps before the provider call leave alone.\<close>

definition settled :: "('s, 'w) app \<Rightarrow> ('s, 'w) app" where
  "settled ap = ap\<lparr>ap_store := undefined, ap_pools := undefined, ap_guard_calls := undefined\<rparr>"

lemma settled_iff: "settled ap' = settled ap \<longleftrightarrow>
    ap' = ap\<lparr>ap_store := ap_store ap', ap_pools := ap_pools ap', ap_guard_calls := ap_guard_calls ap'\<rparr>"
  by (cases ap, cases ap') (auto simp: settled_def)

lemma settled_simps [simp]:
  "ap_db (settled ap) = ap_db ap" "ap_limiter (settled ap) = ap_limiter ap" "ap_patterns (settled ap) = ap_patterns ap"
  "ap_calls (settled ap) = ap_calls ap" "ap_streams (settled ap) = ap_streams ap" "ap_sessions (settled ap) = ap_sessions ap"
  "ap_stats (settled ap) = ap_stats ap" "ap_metrics (settled ap) = ap_metrics ap" "ap_step (settled ap) = ap_step ap"
  by (simp_all add: settled_def)

lemma settled_fields:
  assumes "settled ap' = settled ap"
  shows "ap_db ap' = ap_db ap" "ap_limiter ap' = ap_limiter ap" "ap_patterns ap' = ap_patterns ap" "ap_calls ap' = ap_calls ap"
    "ap_streams ap' = ap_streams ap" "ap_sessions ap' = ap_sessions ap" "ap_stats ap' = ap_stats ap" "ap_metrics ap' = ap_metrics ap" "ap_step ap' = ap_step ap"
  by (metis assms settled_simps)+

lemma admit_settled: "preserves settled (admit h rq)"
  unfolding admit_def Let_def
  by (auto intro!: frame_intros simp: settled_def split: prod.splits list.splits option.splits) (simp_all add: preserves_def)


lemma preserves_lift_read [frame_intros]: "preserves g (\<lambda>ap. lift_res (x ap) ap)"
  by (simp add: preserves_def)

lemma admit_rest: "admit h rq ap = (x, ap') \<Longrightarrow> settled ap' = settled ap"
  by (rule preservesD [OF admit_settled])

lemma prepare_settled: "preserves settled (prepare h rq)"
  unfolding prepare_def Let_def case_prod_beta
  by (rule preserves_bnd, rule admit_settled, rule preserves_bnd, rule preserves_lift_read, rule preserves_read,
      rule preserves_bnd, rule preserves_parts, simp add: settled_def, rule preserves_if, rule preserves_ret,
      rule preserves_bnd, rule preserves_ret, rule preserves_ret)

definition with_messages :: "message list \<Rightarrow> chat_request \<Rightarrow> chat_request" where
  "with_messages ms rq = rq\<lparr>cq_body := (cq_body rq)\<lparr>cb_messages := ms\<rparr>\<rparr>"

lemma with_messages_simps [simp]:
  "cq_http (with_messages ms rq) = cq_http rq" "cq_user (with_messages ms rq) = cq_user rq"
  "cq_openai (with_messages ms rq) = cq_openai rq" "cq_task (with_messages ms rq) = cq_task rq"
  "cq_today (with_messages ms rq) = cq_today rq" "cq_start (with_messages ms rq) = cq_start rq"
  "cq_lined (with_messages ms rq) = cq_lined rq" "cq_queued (with_messages ms rq) = cq_queued rq" "cq_end (with_messages ms rq) = cq_end rq"
  "cq_session_id (with_messages ms rq) = cq_session_id rq" "cq_usage_id (with_messages ms rq) = cq_usage_id rq"
  "cq_log_id (with_messages ms rq) = cq_log_id rq" "cq_nonces (with_messages ms rq) = cq_nonces rq"
  "cb_messages (cq_body (with_messages ms rq)) = ms" "cb_model (cq_body (with_messages ms rq)) = cb_model (cq_body rq)"
  "cb_stream (cq_body (with_messages ms rq)) = cb_stream (cq_body rq)" "cb_tools (cq_body (with_messages ms rq)) = cb_tools (cq_body rq)"
  "cb_temperature (cq_body (with_messages ms rq)) = cb_temperature (cq_body rq)"
  "cb_provider (cq_body (with_messages ms rq)) = cb_provider (cq_body rq)" "cb_system (cq_body (with_messages ms rq)) = cb_system (cq_body rq)"
  "openai_params (cq_body (with_messages ms rq)) = openai_params (cq_body rq)"
  by (simp_all add: with_messages_def openai_params_def)

text \<open>Everything but the masking ignores the messages of the body.\<close>

lemma ignores_messages [simp]:
  "admit h (with_messages ms rq) = admit h rq"
  "cache_key_of h (with_messages ms rq) pp = cache_key_of h rq pp"
  "lookup_cache h (with_messages ms rq) pp = lookup_cache h rq pp"
  "answer_headers (with_messages ms rq) hit w pp = answer_headers rq hit w pp"
  "begin_request h (with_messages ms rq) pp = begin_request h rq pp"
  "call_provider h (with_messages ms rq) pp = call_provider h rq pp"
  "store_reply h (with_messages ms rq) pp r = store_reply h rq pp r"
  "account h (with_messages ms rq) pp r = account h rq pp r"
  "end_session h (with_messages ms rq) f = end_session h rq f"
  "forget_active (with_messages ms rq) = (forget_active rq :: (('s, 'w) app, unit) io)"
  "note_status h (with_messages ms rq) f = note_status h rq f"
  "queue_wait_ms (with_messages ms rq) = queue_wait_ms rq"
  "duration_ms (with_messages ms rq) = duration_ms rq"
  unfolding admit_def cache_key_of_def lookup_cache_def cache_bypassed_def answer_headers_def begin_request_def call_provider_def
      native_params_def store_reply_def account_def reply_cost_def charge_client_def log_of_def duration_ms_def count_success_def
      end_session_def forget_active_def note_status_def queue_wait_ms_def with_messages_simps
  by (rule refl)+

lemma ignores_messages_2 [simp]:
  "serve_reply h (with_messages ms rq) pp = serve_reply h rq pp"
  "serve_request h (with_messages ms rq) pp = serve_request h rq pp"
  "sse_generator h (with_messages ms rq) pp = sse_generator h rq pp"
  "fail_request h (with_messages ms rq) e = fail_request h rq e"
  unfolding serve_reply_def serve_request_def sse_generator_def fail_request_def count_stream_def with_messages_simps ignores_messages
  by (rule refl)+



section \<open>Masking\<close>

lemma prepare_messages:
  assumes "sanitize_messages (he_re h) (he_warn h) (ap_patterns ap) ms =
      sanitize_messages (he_re h) (he_warn h) (ap_patterns ap) (cb_messages (cq_body rq))"
  shows "prepare h (with_messages ms rq) ap = prepare h rq ap"
proof -
  obtain x ap1 where a: "admit h rq ap = (x, ap1)" by fastforce
  have "ap_patterns ap1 = ap_patterns ap" by (rule settled_fields [OF admit_rest [OF a]])
  then show ?thesis using assms unfolding prepare_def ignores_messages with_messages_simps bnd_def a
    by (simp split: sum.splits)
qed

text \<open>C1.  What masking removes from the messages has no influence: two requests whose messages mask to the same
  result have the same answer and leave the same state, the calls of the providers, the cache, the
  sessions and the logs included.\<close>

theorem masked_text_has_no_influence:
  assumes "sanitize_messages (he_re h) (he_warn h) (ap_patterns ap) (cb_messages (cq_body rq')) =
      sanitize_messages (he_re h) (he_warn h) (ap_patterns ap) (cb_messages (cq_body rq))"
    and "rq' = rq\<lparr>cq_body := (cq_body rq)\<lparr>cb_messages := cb_messages (cq_body rq')\<rparr>\<rparr>"
  shows "handle_chat h rq' ap = handle_chat h rq ap"
proof -
  obtain ms where rq': "rq' = with_messages ms rq" using assms(2) by (metis with_messages_def)
  have "prepare h rq' ap = prepare h rq ap" using assms(1) prepare_messages [of h ap ms rq] unfolding rq' by simp
  then show ?thesis unfolding handle_chat_def bnd_def rq' ignores_messages ignores_messages_2 by simp
qed


section \<open>Refusals\<close>

text \<open>
  The keys of the store that the rate limits of a request are kept under, and operations that leave every part of the state
  but the store as it was, and in the store (the in-memory one) every key but those of \<open>K\<close>.
\<close>

definition rate_keys :: "chat_request \<Rightarrow> string set" where
  "rate_keys rq = {''rl:ip:'' @ get_client_ip (cq_http rq), ''rl:global''} \<union>
     (case au_client_id (cq_user rq) of Some c \<Rightarrow> {''rl:client:'' @ c} | None \<Rightarrow> {})"

definition store_only :: "string \<Rightarrow> time \<Rightarrow> string set \<Rightarrow> ('r redis_client, 'w) app \<Rightarrow> ('r redis_client, 'w) app \<Rightarrow> bool" where
  "store_only url now K ap ap' \<longleftrightarrow> (\<exists>s. ap' = ap\<lparr>ap_store := s\<rparr>) \<and> in_fallback url (ap_store ap') \<and>
     (\<forall>t\<ge>now. \<forall>k. k \<notin> K \<longrightarrow> rc_look (ap_store ap') t k = rc_look (ap_store ap) t k)"

definition touches :: "string \<Rightarrow> time \<Rightarrow> string set \<Rightarrow> (('r redis_client, 'w) app, 'a) io \<Rightarrow> bool" where
  "touches url now K m \<longleftrightarrow> (\<forall>ap. in_fallback url (ap_store ap) \<longrightarrow> store_only url now K ap (snd (m ap)))"

lemma touchesD: "touches url now K m \<Longrightarrow> in_fallback url (ap_store ap) \<Longrightarrow> m ap = (x, ap') \<Longrightarrow> store_only url now K ap ap'"
  unfolding touches_def by (metis snd_conv)

lemma store_only_refl: "in_fallback url (ap_store ap) \<Longrightarrow> store_only url now K ap ap"
  unfolding store_only_def by (intro conjI exI [of _ "ap_store ap"]) simp_all

lemma store_only_trans: "store_only url now K ap ap' \<Longrightarrow> store_only url now K ap' ap'' \<Longrightarrow> store_only url now K ap ap''"
  unfolding store_only_def by (elim conjE exE) (auto intro: exI)

lemma touches_bnd:
  assumes "touches url now K m" and "\<And>a. touches url now K (f a)"
  shows "touches url now K (bnd m f)"
  unfolding touches_def
proof (intro allI impI)
  fix ap :: "('a redis_client, 'b) app"
  assume i: "in_fallback url (ap_store ap)"
  obtain x ap1 where m: "m ap = (x, ap1)" by fastforce
  note 1 = touchesD [OF assms(1) i m]
  then have "in_fallback url (ap_store ap1)" by (simp add: store_only_def)
  then have "store_only url now K ap1 (snd (f a ap1))" for a using assms(2) by (simp add: touches_def)
  with 1 store_only_trans [OF 1] show "store_only url now K ap (snd (bnd m f ap))" by (cases x) (simp_all add: bnd_def m)
qed

lemma touches_ret: "touches url now K (ret a)" "touches url now K (raise e)"
  by (simp_all add: touches_def store_only_refl)

lemma touches_check:
  fixes f :: "bool \<times> int \<Rightarrow> (('r redis_client, 'w) app, 'a) io"
  assumes "key \<in> K" and "\<And>x. touches url now K (f x)"
  shows "touches url now K (bnd (on_store_part
    (if b then ret (True, 0) else sliding_window_check (redis_module lib url) pl now task key limit w)) f)"
proof (rule touches_bnd [OF _ assms(2)])
  have "store_only url now K ap (snd (on_store_part (sliding_window_check (redis_module lib url) pl now task key limit w) ap))"
    if "in_fallback url (ap_store ap)" for ap :: "('r redis_client, 'w) app"
  proof -
    obtain y s where c: "sliding_window_check (redis_module lib url) pl now task key limit w (ap_store ap) = (y, s)" by fastforce
    from rc.sliding_window_frame [OF that c] assms(1) show ?thesis by (auto simp: on_store_part_def c store_only_def frame_but_def)
  qed
  moreover have "on_store_part (ret (True, 0 :: int)) ap = (Inr (True, 0), ap)" for ap :: "('r redis_client, 'w) app"
    by (simp add: on_store_part_def)
  ultimately show "touches url now K (on_store_part
      (if b then ret (True, 0) else sliding_window_check (redis_module lib url) pl now task key limit w) :: (('r redis_client, 'w) app, _) io)"
    by (simp add: touches_def store_only_refl)
qed

lemma admit_touches:
  fixes h :: "('r redis_client, 'w) chat_env"
  assumes "he_ops h = redis_module lib url"
  shows "touches url (cq_start rq) (rate_keys rq) (admit h rq)"
proof -
  have quota: "touches url now K (\<lambda>ap. if Q ap then (Inl e, ap) else (Inr (), ap))" for now K Q e
    by (simp add: touches_def store_only_refl)
  have cond: "touches url now K (\<lambda>ap. (case x of (ok, retry) \<Rightarrow> if ok then k else raise e) ap)" if "touches url now K k"
    for now K e and x :: "bool \<times> int" and k :: "(('r redis_client, 'w) app, unit) io"
    using that by (cases x) (simp add: touches_ret)
  have keys: "''rl:ip:'' @ get_client_ip (cq_http rq) \<in> rate_keys rq" "''rl:global'' \<in> rate_keys rq"
    "au_client_id (cq_user rq) = Some cid \<Longrightarrow> ''rl:client:'' @ cid \<in> rate_keys rq" for cid
    by (simp_all add: rate_keys_def)
  note checks = touches_check [OF keys(1)] touches_check [OF keys(2)] touches_check [OF keys(3)]
  show ?thesis
    unfolding admit_def Let_def assms check_ip_rate_def check_global_rate_def check_client_rate_def
    by (cases "au_client_id (cq_user rq)"; (cases "the (au_client_id (cq_user rq))")?;
        simp only: option.case option.sel list.case; intro checks cond quota touches_ret; assumption)
qed

text \<open>What the preparation of a request does: the admission, and then the guard, if it is reached.\<close>

definition guard_asked :: "('s, 'w) chat_env \<Rightarrow> chat_request \<Rightarrow> ('s, 'w) app \<Rightarrow> message list \<Rightarrow> string \<Rightarrow> bool" where
  "guard_asked h rq ap clean model \<longleftrightarrow> fst (admit h rq ap) = Inr () \<and>
     (\<exists>masked provider alias.
        sanitize_messages (he_re h) (he_warn h) (ap_patterns ap) (cb_messages (cq_body rq)) = Inr (clean, masked) \<and>
        resolve_model (he_settings h) (active_alias (ap_db ap)) (cb_provider (cq_body rq)) (cb_model (cq_body rq)) = (provider, model, alias))"

abbreviation guard_part :: "('s, 'w) app \<Rightarrow> guard_state" where
  "guard_part ap \<equiv> \<lparr>gs_pools = ap_pools ap, gs_calls = ap_guard_calls ap\<rparr>"

lemma prepare_effect:
  assumes "prepare h rq ap = (x, ap')" and "admit h rq ap = (y, ap1)" and "ap1 = ap\<lparr>ap_store := s\<rparr>"
  shows "ap' = ap1 \<or> (\<exists>clean model. guard_asked h rq ap clean model \<and>
    (\<exists>g. snd (evaluate_request (he_guard h) (ap_db ap) clean model (au_client_id (cq_user rq)) (guard_part ap)) = g \<and>
      ap' = ap1\<lparr>ap_pools := gs_pools g, ap_guard_calls := gs_calls g\<rparr>))"
proof (cases y)
  case (Inl e)
  then show ?thesis using assms by (simp add: prepare_def bnd_def)
next
  case (Inr u)
  show ?thesis
  proof (cases "sanitize_messages (he_re h) (he_warn h) (ap_patterns ap) (cb_messages (cq_body rq))")
    case (Inl e)
    then show ?thesis using assms Inr by (auto simp: prepare_def bnd_def lift_res_def)
  next
    case clean: (Inr cm)
    obtain clean masked where cm: "cm = (clean, masked)" by fastforce
    obtain provider model alias_used where m:
      "resolve_model (he_settings h) (active_alias (ap_db ap)) (cb_provider (cq_body rq)) (cb_model (cq_body rq)) = (provider, model, alias_used)"
      by (metis prod_cases3)
    obtain z g where e: "evaluate_request (he_guard h) (ap_db ap) clean model (au_client_id (cq_user rq)) (guard_part ap) = (z, g)" by fastforce
    have "guard_asked h rq ap clean model" using assms(2) Inr clean cm m by (auto simp: guard_asked_def)
    moreover have "ap' = ap1\<lparr>ap_pools := gs_pools g, ap_guard_calls := gs_calls g\<rparr>"
      using assms Inr clean cm m e
      by (auto simp: prepare_def bnd_def lift_res_def on_guard_part_def Let_def split: sum.splits if_splits prod.splits)
    ultimately show ?thesis using e by (metis snd_conv)
  qed
qed

text \<open>C11.  A request that is refused (by the rate limits, the quota, masking, the guard or the truncation) is
  answered with that error and leaves no trace.  No provider is called for it, no table, session, statistics, cache
  counter, limiter or gauge changes; in the in-memory store only the windows of its rate limits may change, so that nothing
  is cached or shown; and the key pools and the count of the guard model's calls are as they were if the guard was not
  reached, and otherwise as the evaluation of the masked messages leaves them.\<close>

theorem refused_request_leaves_no_trace:
  fixes h :: "('r redis_client, 'w) chat_env"
  assumes "he_ops h = redis_module lib url" and "in_fallback url (ap_store ap)"
    and "fst (prepare h rq ap) = Inl e" and "handle_chat h rq ap = (r, ap')"
  shows "r = Inl e \<and> ap' = ap\<lparr>ap_store := ap_store ap', ap_pools := ap_pools ap', ap_guard_calls := ap_guard_calls ap'\<rparr> \<and>
    (\<forall>t\<ge>cq_start rq. \<forall>k. k \<notin> rate_keys rq \<longrightarrow> rc_look (ap_store ap') t k = rc_look (ap_store ap) t k) \<and>
    (guard_part ap' = guard_part ap \<or>
     (\<exists>clean model. guard_asked h rq ap clean model \<and>
        guard_part ap' = snd (evaluate_request (he_guard h) (ap_db ap) clean model (au_client_id (cq_user rq)) (guard_part ap))))"
proof -
  obtain ap2 where p: "prepare h rq ap = (Inl e, ap2)" using assms(3) by (metis prod.collapse)
  then have r: "r = Inl e" "ap2 = ap'" using assms(4) by (simp_all add: handle_chat_def bnd_def p)
  obtain y ap1 where a: "admit h rq ap = (y, ap1)" by fastforce
  from touchesD [OF admit_touches [OF assms(1)] assms(2) a] obtain s where
    s: "ap1 = ap\<lparr>ap_store := s\<rparr>" "\<forall>t\<ge>cq_start rq. \<forall>k. k \<notin> rate_keys rq \<longrightarrow> rc_look s t k = rc_look (ap_store ap) t k"
    by (auto simp: store_only_def)
  from prepare_effect [OF p [unfolded r(2)] a s(1)] show ?thesis
  proof (elim disjE exE conjE)
    assume "ap' = ap1"
    with s r(1) show ?thesis by simp
  next
    fix clean model g
    assume g: "guard_asked h rq ap clean model" "ap' = ap1\<lparr>ap_pools := gs_pools g, ap_guard_calls := gs_calls g\<rparr>"
      "snd (evaluate_request (he_guard h) (ap_db ap) clean model (au_client_id (cq_user rq)) (guard_part ap)) = g"
    then have "guard_part ap' = snd (evaluate_request (he_guard h) (ap_db ap) clean model (au_client_id (cq_user rq)) (guard_part ap))"
      by simp
    moreover have "ap' = ap\<lparr>ap_store := ap_store ap', ap_pools := ap_pools ap', ap_guard_calls := ap_guard_calls ap'\<rparr>"
      "\<forall>t\<ge>cq_start rq. \<forall>k. k \<notin> rate_keys rq \<longrightarrow> rc_look (ap_store ap') t k = rc_look (ap_store ap) t k"
      using g(2) s by simp_all
    ultimately show ?thesis using r(1) g(1) by blast
  qed
qed

text \<open>A client that has used up its daily quota is refused.\<close>

lemma check_then:
  fixes m :: "(('s, 'w) app, bool \<times> int) io"
  assumes "preserves ap_db m" and "\<And>ap'. ap_db ap' = ap_db ap \<Longrightarrow> \<exists>e. fst (k ap') = Inl e"
  shows "\<exists>e. fst (bnd m (\<lambda>(ok, retry). if ok then k else raise e0) ap) = Inl e"
proof -
  obtain x ap1 where m: "m ap = (x, ap1)" by fastforce
  with preservesD [OF assms(1) m] assms(2) show ?thesis
    by (cases x) (auto simp: bnd_def split: if_splits)
qed

lemma store_db [simp]: "preserves ap_db (on_store_part m)"
  by (rule preserves_parts) simp

lemma quota_refuses:
  assumes "au_client_id (cq_user rq) = Some (c # cs)" and "quota_used_up (get_quota_usage (cq_today rq) None (c # cs) (ap_db ap))"
  shows "\<exists>e. fst (prepare h rq ap) = Inl e"
proof -
  have "\<exists>e. fst (admit h rq ap) = Inl e"
    unfolding admit_def Let_def assms(1) option.case list.case
    by (rule check_then, simp, rule check_then, simp, rule check_then, simp, use assms(2) in simp)
  then obtain e ap1 where "admit h rq ap = (Inl e, ap1)" by (metis prod.collapse)
  then show ?thesis by (simp add: prepare_def bnd_Inl)
qed


text \<open>A client whose daily quota is used up gets an error and no provider is called for it.\<close>

theorem exhausted_quota_stops_calls:
  assumes "au_client_id (cq_user rq) = Some cid" and "cid \<noteq> []"
    and "quota_used_up (get_quota_usage (cq_today rq) None cid (ap_db ap))" and "handle_chat h rq ap = (r, ap')"
  shows "(\<exists>e. r = Inl e) \<and> ap_calls ap' = ap_calls ap \<and> ap_streams ap' = ap_streams ap \<and> ap_db ap' = ap_db ap"
proof -
  obtain c cs where "cid = c # cs" using assms(2) by (cases cid) auto
  then obtain e where "fst (prepare h rq ap) = Inl e" using quota_refuses assms(1,3) by blast
  then obtain ap1 where p: "prepare h rq ap = (Inl e, ap1)" by (metis prod.collapse)
  then have "r = Inl e" "ap' = ap1" using assms(4) by (simp_all add: handle_chat_def bnd_def p)
  moreover have "ap_calls ap1 = ap_calls ap" "ap_streams ap1 = ap_streams ap" "ap_db ap1 = ap_db ap"
    by (rule settled_fields [OF preservesD [OF prepare_settled p]])+
  ultimately show ?thesis by simp
qed


section \<open>The slot\<close>

abbreviation slots_left :: "('s, 'w) chat_env \<Rightarrow> ('s, 'w) app \<Rightarrow> int" where
  "slots_left h ap \<equiv> get_global_semaphore (he_settings h) (ap_limiter ap)"

lemma limiter_simps [simp]:
  "get_global_semaphore st (register_active_request t i d l) = get_global_semaphore st l"
  "get_global_semaphore st (unregister_active_request i l) = get_global_semaphore st l"
  "get_global_semaphore st (record_queue_wait w l) = get_global_semaphore st l"
  by (simp_all add: get_global_semaphore_def register_active_request_def unregister_active_request_def record_queue_wait_def Let_def)

lemma account_frame:
  assumes "\<And>ap db. g (ap\<lparr>ap_db := db\<rparr>) = g ap" and "\<And>ap m. g (ap\<lparr>ap_metrics := m\<rparr>) = g ap"
    and "\<And>ap m s. g (ap\<lparr>ap_metrics := m, ap_stats := s\<rparr>) = g ap"
  shows "preserves g (account h rq pp r)"
  unfolding account_def Let_def
  by (rule preserves_read, rule preserves_bnd, rule preserves_modify, rule assms(1), rule preserves_bnd, rule preserves_parts,
      rule assms(1), rule preserves_bnd, rule preserves_parts, rule assms(2), rule preserves_modify, rule assms(3))

lemma call_frame:
  assumes "\<And>ap p b n l. g (ap\<lparr>ap_pools := p, ap_breakers := b, ap_step := n, ap_calls := l\<rparr>) = g ap"
  shows "preserves g (call_provider h rq pp)"
  unfolding call_provider_def
  by (rule preserves_if, rule preserves_bnd, rule preserves_parts, rule assms, rule preserves_ret, rule preserves_read,
      rule preserves_bnd, rule preserves_parts, rule assms, rule preserves_ret)

lemma store_reply_frame:
  assumes "\<And>ap s. g (ap\<lparr>ap_store := s\<rparr>) = g ap"
  shows "preserves g (store_reply h rq pp r)"
  using assms by (auto simp: store_reply_def intro!: frame_intros split: option.split)

lemma session_frame:
  assumes "\<And>ap s m. g (ap\<lparr>ap_store := s, ap_sessions := m\<rparr>) = g ap"
  shows "preserves g (end_session h rq f)" "preserves g (note_status h rq f)"
  using assms by (simp_all add: end_session_def note_status_def preserves_parts)

lemma serve_reply_slots: "preserves (slots_left h) (serve_reply h rq pp)"
  unfolding serve_reply_def case_prod_beta
  by (intro preserves_bnd call_frame account_frame store_reply_frame session_frame preserves_ret preserves_lift_read) simp_all

lemma fail_slots: "preserves (slots_left h) (fail_request h rq e)"
  unfolding fail_request_def forget_active_def count_error_def
  by (cases e; intro preserves_bnd session_frame preserves_modify preserves_ret) (auto intro!: frame_intros)


lemma with_slot_slots:
  assumes "preserves (slots_left h) body"
  shows "preserves (slots_left h) (with_slot h body)"
  unfolding preserves_def
proof
  fix ap
  show "slots_left h (snd (with_slot h body ap)) = slots_left h ap"
  proof (cases "acquire_global_slot (he_settings h) (ap_limiter ap)")
    case (Some l)
    obtain x ap' where b: "body (ap\<lparr>ap_limiter := l\<rparr>) = (x, ap')" by fastforce
    have "slots_left h ap' = slots_left h (ap\<lparr>ap_limiter := l\<rparr>)" by (rule preservesD [OF assms b])
    also have "\<dots> = slots_left h ap - 1"
      using Some by (auto simp: acquire_global_slot_def Let_def get_global_semaphore_def split: if_splits)
    finally show ?thesis
      by (simp add: with_slot_def Some b release_global_slot_def) (simp add: get_global_semaphore_def)
  qed (simp add: with_slot_def)
qed

lemma serve_slots: "preserves (slots_left h) (serve_request h rq pp)"
  unfolding serve_request_def
  by (intro with_slot_slots preserves_bnd preserves_modify session_frame preserves_if preserves_ret serve_reply_slots) simp_all

lemma generator_slots: "preserves (slots_left h) (sse_generator h rq pp)"
  unfolding sse_generator_def Let_def case_prod_beta forget_active_def
  by (intro preserves_bnd preserves_parts(6) preserves_for_each preserves_parts(4) session_frame preserves_modify preserves_ret) simp_all

lemma begin_slots: "preserves (slots_left h) (begin_request h rq pp)"
  unfolding begin_request_def
  by (intro preserves_bnd preserves_ret preserves_parts(4) preserves_modify) simp_all

lemma settled_slots: "preserves settled m \<Longrightarrow> preserves (slots_left h) m"
  unfolding preserves_def by (metis settled_fields(2))

text \<open>However a chat request ends, by an answer, an error, a stream or by waiting, the free slots of the global
  semaphore are as many as before.\<close>

theorem slot_is_returned:
  "get_global_semaphore (he_settings h) (ap_limiter (snd (handle_chat h rq ap))) = get_global_semaphore (he_settings h) (ap_limiter ap)"
proof -
  have "preserves (slots_left h) (handle_chat h rq)"
    unfolding handle_chat_def
    by (rule preserves_bnd, rule settled_slots, rule prepare_settled, rule preserves_bnd,
        auto simp: lookup_cache_def intro!: preserves_bnd preserves_parts(3) begin_slots preserves_try serve_slots fail_slots generator_slots
          preserves_ret split: option.split chat_answer.split)
  then show ?thesis by (simp add: preserves_def)
qed



section \<open>The life of a request\<close>

text \<open>The request is among the active requests, and its session is known, or closed with its removal scheduled.\<close>

definition listed :: "chat_request \<Rightarrow> ('s, 'w) app \<Rightarrow> bool" where
  "listed rq ap \<longleftrightarrow> map_of (active_requests (ap_limiter ap)) (rq_id (cq_http rq)) \<noteq> None"

definition present :: "chat_request \<Rightarrow> ('s, 'w) app \<Rightarrow> bool" where
  "present rq ap \<longleftrightarrow> map_of (sm_sessions (ap_sessions ap)) (cq_session_id rq) \<noteq> None"

definition ended :: "chat_request \<Rightarrow> session_status \<Rightarrow> ('s, 'w) app \<Rightarrow> bool" where
  "ended rq f ap \<longleftrightarrow> map_option ls_status (map_of (sm_sessions (ap_sessions ap)) (cq_session_id rq)) = Some f \<and>
     (cq_session_id rq, cq_end rq + 30) \<in> set (sm_pending (ap_sessions ap))"

abbreviation life :: "chat_request \<Rightarrow> ('s, 'w) app \<Rightarrow> bool \<times> bool" where
  "life rq ap \<equiv> (listed rq ap, present rq ap)"

lemma life_frame [simp]:
  "listed rq (ap\<lparr>ap_store := s\<rparr>) = listed rq ap" "present rq (ap\<lparr>ap_store := s\<rparr>) = present rq ap"
  "listed rq (ap\<lparr>ap_db := db\<rparr>) = listed rq ap" "present rq (ap\<lparr>ap_db := db\<rparr>) = present rq ap"
  "listed rq (ap\<lparr>ap_metrics := m\<rparr>) = listed rq ap" "present rq (ap\<lparr>ap_metrics := m\<rparr>) = present rq ap"
  "listed rq (ap\<lparr>ap_stats := st\<rparr>) = listed rq ap" "present rq (ap\<lparr>ap_stats := st\<rparr>) = present rq ap"
  "listed rq (ap\<lparr>ap_metrics := m, ap_stats := st\<rparr>) = listed rq ap" "present rq (ap\<lparr>ap_metrics := m, ap_stats := st\<rparr>) = present rq ap"
  "listed rq (ap\<lparr>ap_store := s, ap_cache := c\<rparr>) = listed rq ap" "present rq (ap\<lparr>ap_store := s, ap_cache := c\<rparr>) = present rq ap"
  "listed rq (ap\<lparr>ap_store := s, ap_sessions := sm\<rparr>) = listed rq ap" "present rq (ap\<lparr>ap_limiter := l\<rparr>) = present rq ap"
  "listed rq (ap\<lparr>ap_pools := p, ap_breakers := b, ap_step := n, ap_calls := cl\<rparr>) = listed rq ap"
  "present rq (ap\<lparr>ap_pools := p, ap_breakers := b, ap_step := n, ap_calls := cl\<rparr>) = present rq ap"
  "listed rq (ap\<lparr>ap_pools := p, ap_breakers := b, ap_step := n, ap_streams := sl\<rparr>) = listed rq ap"
  "present rq (ap\<lparr>ap_pools := p, ap_breakers := b, ap_step := n, ap_streams := sl\<rparr>) = present rq ap"
  by (simp_all add: listed_def present_def)

lemma end_session_eq: "end_session h rq f ap =
    (Inr (), ap\<lparr>ap_sessions := close_session (session_env_of h) (cq_end rq) (cq_session_id rq) f (ap_sessions ap)\<rparr>)"
  by (simp add: end_session_def on_session_part_def on_manager_def)

lemma end_session_life: "preserves (life rq) (end_session h rq f)"
  by (simp add: preserves_def end_session_eq listed_def present_def close_session_simps del: not_None_eq)

lemma end_session_closes: "present rq ap \<Longrightarrow> ended rq f (snd (end_session h rq f ap))"
  by (auto simp: end_session_eq present_def ended_def close_session_def Let_def dict_set_lookup split: option.splits)

lemma update_session_life:
  "preserves (life rq) (on_session_part (update_session env now (cq_session_id rq) status out elapsed))"
proof -
  have "\<exists>s' x. update_session env now i status out elapsed (s, sm) = (x, (s', manager_step env (Update now i status out elapsed) sm))" for i s sm
    using session_step_manager [of env "Update now i status out elapsed" s sm] by auto
  then have u: "snd (snd (update_session env now i status out elapsed (s, sm))) = manager_step env (Update now i status out elapsed) sm" for i s sm
    by (metis snd_conv)
  have "map_of (sm_sessions (manager_step env (Update now i status out elapsed) sm)) i = None \<longleftrightarrow> map_of (sm_sessions sm) i = None" for i sm
    by (auto simp: Let_def split: option.splits)
  then show ?thesis
    using u by (simp add: preserves_def on_session_part_def listed_def present_def case_prod_beta del: manager_step.simps not_None_eq)
qed

lemma note_status_life: "preserves (life rq) (note_status h rq f)"
  unfolding note_status_def by (rule update_session_life)

lemma serve_reply_life: "preserves (life rq) (serve_reply h rq pp)"
  unfolding serve_reply_def case_prod_beta
  by (intro preserves_bnd call_frame account_frame store_reply_frame end_session_life preserves_ret preserves_lift_read) simp_all


text \<open>Running a sequence of steps that returned, step by step.\<close>

lemma serve_reply_steps:
  assumes "serve_reply h rq pp ap = (Inr a, ap')"
  shows "\<exists>r ap1 t ap2 ap3. call_provider h rq pp ap = (Inr r, ap1) \<and>
    evaluate_response (he_re h) (ap_db ap1) (rp_text r) (au_client_id (cq_user rq)) = Inr t \<and>
    store_reply h rq pp r ap1 = (Inr (), ap2) \<and> account h rq pp r ap2 = (Inr (), ap3) \<and> end_session h rq Done ap3 = (Inr (), ap') \<and>
    a = Answer (answer_headers rq False (Some (queue_wait_ms rq)) pp) (rp_json r)"
  using assms
  by (auto simp: serve_reply_def case_prod_beta elim!: bnd_InrE)

lemma serve_reply_closes:
  assumes "serve_reply h rq pp ap = (Inr a, ap')" and "present rq ap"
  shows "ended rq Done ap'" and "\<exists>hs js. a = Answer hs js"
proof -
  obtain r ap1 t ap2 ap3 where s: "call_provider h rq pp ap = (Inr r, ap1)" "store_reply h rq pp r ap1 = (Inr (), ap2)"
      "account h rq pp r ap2 = (Inr (), ap3)" "end_session h rq Done ap3 = (Inr (), ap')"
      "a = Answer (answer_headers rq False (Some (queue_wait_ms rq)) pp) (rp_json r)"
    using serve_reply_steps [OF assms(1)] by (elim exE conjE) (rule that)
  have "life rq ap1 = life rq ap" by (rule preservesD [OF call_frame s(1)]) simp
  moreover have "life rq ap2 = life rq ap1" by (rule preservesD [OF store_reply_frame s(2)]) simp
  moreover have "life rq ap3 = life rq ap2" by (rule preservesD [OF account_frame s(3)]) simp_all
  ultimately have "present rq ap3" using assms(2) by simp
  from end_session_closes [OF this, of Done h] show "ended rq Done ap'" by (simp add: s(4))
  show "\<exists>hs js. a = Answer hs js" by (simp add: s(5))
qed


lemma life_of_slot:
  "acquire_global_slot st l = Some l' \<Longrightarrow> active_requests l' = active_requests l"
  "active_requests (release_global_slot st l) = active_requests l"
  "active_requests (record_queue_wait w l) = active_requests l"
  by (auto simp: acquire_global_slot_def release_global_slot_def record_queue_wait_def Let_def split: if_splits)

lemma with_slot_cases:
  assumes "with_slot h body ap = (x, ap')"
  shows "x = Inr Waiting \<and> ap' = ap \<or>
    (\<exists>ap1 ap2. body ap1 = (x, ap2) \<and> life rq ap1 = life rq ap \<and> life rq ap' = life rq ap2 \<and> (\<forall>f. ended rq f ap' = ended rq f ap2) \<and>
       ap_db ap1 = ap_db ap \<and> ap_db ap' = ap_db ap2 \<and> ap_stats ap1 = ap_stats ap \<and> ap_stats ap' = ap_stats ap2 \<and>
       ap_metrics ap1 = ap_metrics ap \<and> ap_metrics ap' = ap_metrics ap2)"
proof (cases "acquire_global_slot (he_settings h) (ap_limiter ap)")
  case (Some l)
  then have "x = fst (body (ap\<lparr>ap_limiter := l\<rparr>))" "ap' = snd (body (ap\<lparr>ap_limiter := l\<rparr>))\<lparr>ap_limiter :=
      release_global_slot (he_settings h) (ap_limiter (snd (body (ap\<lparr>ap_limiter := l\<rparr>))))\<rparr>"
    using assms by (auto simp: with_slot_def case_prod_beta Let_def)
  then show ?thesis
    by (intro disjI2 exI [of _ "ap\<lparr>ap_limiter := l\<rparr>"] exI [of _ "snd (body (ap\<lparr>ap_limiter := l\<rparr>))"])
      (simp add: listed_def present_def ended_def life_of_slot life_of_slot(1) [OF Some])
qed (use assms in \<open>simp add: with_slot_def\<close>)

lemma queued_life: "preserves (life rq) (modify (\<lambda>ap. ap\<lparr>ap_limiter := record_queue_wait w (ap_limiter ap)\<rparr>))"
  by (rule preserves_modify) (simp add: listed_def life_of_slot)

definition serve_body :: "('s, 'w) chat_env \<Rightarrow> chat_request \<Rightarrow> prepared \<Rightarrow> (('s, 'w) app, chat_answer) io" where
  "serve_body h rq pp =
     bnd (modify (\<lambda>ap. ap\<lparr>ap_limiter := record_queue_wait (queue_wait_ms rq) (ap_limiter ap)\<rparr>)) (\<lambda>_.
     bnd (note_status h rq Running) (\<lambda>_.
     if cb_stream (cq_body rq)
     then bnd (note_status h rq Streaming) (\<lambda>_. ret (EventStream (answer_headers rq False (Some (queue_wait_ms rq)) pp) []))
     else serve_reply h rq pp))"

lemma serve_body: "serve_request h rq pp = with_slot h (serve_body h rq pp)"
  by (simp add: serve_request_def serve_body_def)

lemma serve_body_life: "preserves (life rq) (serve_body h rq pp)"
  unfolding serve_body_def
  by (intro preserves_bnd queued_life note_status_life preserves_if preserves_ret serve_reply_life)

lemma note_status_steps:
  assumes "bnd (note_status h rq f) k ap = (x, ap')"
  shows "\<exists>ap1. note_status h rq f ap = (Inr (), ap1) \<and> k () ap1 = (x, ap')"
proof -
  obtain s1 where "update_session (session_env_of h) (cq_queued rq) (cq_session_id rq) (Some f) None None (ap_store ap, ap_sessions ap) =
      (Inr (), (s1, manager_step (session_env_of h) (Update (cq_queued rq) (cq_session_id rq) (Some f) None None) (ap_sessions ap)))"
    using session_step_manager [of "session_env_of h" "Update (cq_queued rq) (cq_session_id rq) (Some f) None None" "ap_store ap" "ap_sessions ap"]
    by auto
  with assms show ?thesis by (auto simp: bnd_def note_status_def on_session_part_def)
qed

lemma serve_body_steps:
  assumes "serve_body h rq pp ap = (x, ap')"
  shows "\<exists>ap1. life rq ap1 = life rq ap \<and> ap_db ap1 = ap_db ap \<and> ap_stats ap1 = ap_stats ap \<and> ap_metrics ap1 = ap_metrics ap \<and>
    (if cb_stream (cq_body rq) then x = Inr (EventStream (answer_headers rq False (Some (queue_wait_ms rq)) pp) []) \<and> ap' = ap1
     else serve_reply h rq pp ap1 = (x, ap'))"
proof -
  let ?ap0 = "ap\<lparr>ap_limiter := record_queue_wait (queue_wait_ms rq) (ap_limiter ap)\<rparr>"
  let ?same = "\<lambda>ap1 ap. life rq ap1 = life rq ap \<and> ap_db ap1 = ap_db ap \<and> ap_stats ap1 = ap_stats ap \<and> ap_metrics ap1 = ap_metrics ap"
  have 0: "?same ?ap0 ap" by (simp add: listed_def life_of_slot)
  have kept: "?same ap2 ap1" if "note_status h rq f ap1 = (r, ap2)" for f r ap1 ap2
    using preservesD [OF note_status_life that] preservesD [OF session_frame(2) that, of ap_db]
      preservesD [OF session_frame(2) that, of ap_stats] preservesD [OF session_frame(2) that, of ap_metrics] by simp
  have "bnd (note_status h rq Running) (\<lambda>_. if cb_stream (cq_body rq)
      then bnd (note_status h rq Streaming) (\<lambda>_. ret (EventStream (answer_headers rq False (Some (queue_wait_ms rq)) pp) []))
      else serve_reply h rq pp) ?ap0 = (x, ap')"
    using assms unfolding serve_body_def bnd_modify .
  from note_status_steps [OF this] obtain ap1 where 1: "note_status h rq Running ?ap0 = (Inr (), ap1)"
      "(if cb_stream (cq_body rq)
        then bnd (note_status h rq Streaming) (\<lambda>_. ret (EventStream (answer_headers rq False (Some (queue_wait_ms rq)) pp) []))
        else serve_reply h rq pp) ap1 = (x, ap')" by blast
  show ?thesis
  proof (cases "cb_stream (cq_body rq)")
    case True
    with 1(2) have "bnd (note_status h rq Streaming) (\<lambda>_. ret (EventStream (answer_headers rq False (Some (queue_wait_ms rq)) pp) [])) ap1 = (x, ap')" by simp
    from note_status_steps [OF this] obtain ap2 where "note_status h rq Streaming ap1 = (Inr (), ap2)"
        "x = Inr (EventStream (answer_headers rq False (Some (queue_wait_ms rq)) pp) [])" "ap' = ap2" by auto
    with True 0 kept [OF 1(1)] kept [OF this(1)] show ?thesis by auto
  next
    case False
    with 0 kept [OF 1(1)] 1(2) show ?thesis by auto
  qed
qed


lemma serve_outcome:
  assumes "serve_request h rq pp ap = (x, ap')" and "present rq ap"
  shows "life rq ap' = life rq ap" and
    "x = Inr a \<Longrightarrow> a = Waiting \<or> a = EventStream (answer_headers rq False (Some (queue_wait_ms rq)) pp) [] \<or>
       ended rq Done ap' \<and> (\<exists>js. a = Answer (answer_headers rq False (Some (queue_wait_ms rq)) pp) js)"
proof -
  note w = with_slot_cases [OF assms(1) [unfolded serve_body], of rq]
  show "life rq ap' = life rq ap" using w preservesD [OF serve_body_life] by (metis fst_conv snd_conv)
  assume x: "x = Inr a"
  from w show "a = Waiting \<or> a = EventStream (answer_headers rq False (Some (queue_wait_ms rq)) pp) [] \<or>
      ended rq Done ap' \<and> (\<exists>js. a = Answer (answer_headers rq False (Some (queue_wait_ms rq)) pp) js)"
  proof (elim disjE exE conjE)
    fix ap1 ap2
    assume b: "serve_body h rq pp ap1 = (x, ap2)" "life rq ap1 = life rq ap" "\<forall>f. ended rq f ap' = ended rq f ap2"
    obtain ap3 where s: "life rq ap3 = life rq ap1"
      "if cb_stream (cq_body rq) then x = Inr (EventStream (answer_headers rq False (Some (queue_wait_ms rq)) pp) []) \<and> ap2 = ap3
       else serve_reply h rq pp ap3 = (x, ap2)"
      using serve_body_steps [OF b(1)] by blast
    have p: "present rq ap3" using s(1) b(2) assms(2) by simp
    from s(2) show ?thesis
      using serve_reply_steps [of h rq pp ap3 a ap2] serve_reply_closes(1) [of h rq pp ap3 a ap2, OF _ p] b(3) x
      by (auto split: if_splits)
  qed (simp add: x)
qed

lemma begin_outcome:
  assumes "begin_request h rq pp ap = (x, ap')"
  shows "(\<exists>e. x = Inl e \<and> ap' = ap) \<or> x = Inr () \<and> listed rq ap' \<and> present rq ap' \<and> ap_db ap' = ap_db ap \<and> ap_stats ap' = ap_stats ap \<and>
    ap_metrics ap' = ap_metrics ap"
proof (cases "estimate_messages_tokens (he_tokenizer h) (pp_messages pp)")
  case (Inr n)
  let ?op = "Register (cq_start rq) (cq_session_id rq) (au_client_id (cq_user rq)) (au_name (cq_user rq)) (pp_provider pp) (pp_model pp)
      (pp_alias pp) (int n) (get_client_ip (cq_http rq))"
  obtain s1 where "session_step (session_env_of h) ?op (ap_store ap, ap_sessions ap) = (Inr (), (s1, manager_step (session_env_of h) ?op (ap_sessions ap)))"
    using session_step_manager [of "session_env_of h" ?op "ap_store ap" "ap_sessions ap"] by (elim exE) (rule that)
  with assms Inr show ?thesis
    by (auto simp: begin_request_def lift_res_def bnd_def on_session_part_def modify_def listed_def present_def register_active_request_def
        Let_def dict_set_lookup)
qed (use assms in \<open>auto simp: begin_request_def bnd_def lift_res_def\<close>)

lemma fail_outcome:
  assumes "fail_request h rq e ap = (x, ap')" and "present rq ap"
  shows "(\<exists>status t. x = Inl (HTTPException status t)) \<and> \<not> listed rq ap' \<and> ended rq Failure ap'"
proof -
  have "ended rq Failure (snd (end_session h rq Failure ap))" by (rule end_session_closes [OF assms(2)])
  then show ?thesis using assms(1)
    by (cases e) (auto simp: fail_request_def end_session_eq bnd_def forget_active_def count_error_def modify_def ended_def listed_def
        unregister_active_request_def)
qed

lemma totals_shown:
  fixes ap :: "('s, 'w) app"
  shows "\<exists>s sm. for_each ns (\<lambda>n. on_session_part (update_session env now sid None (Some (int n)) (Some d))) ap =
    (Inr (), ap\<lparr>ap_store := s, ap_sessions := sm\<rparr>)"
proof (induction ns arbitrary: ap)
  case Nil
  have "ap = ap\<lparr>ap_store := ap_store ap, ap_sessions := ap_sessions ap\<rparr>" by simp
  then show ?case unfolding for_each.simps ret_apply by blast
next
  case (Cons n ns)
  let ?sm = "manager_step env (Update now sid None (Some (int n)) (Some d)) (ap_sessions ap)"
  obtain s1 where "update_session env now sid None (Some (int n)) (Some d) (ap_store ap, ap_sessions ap) = (Inr (), (s1, ?sm))"
    using session_step_manager [of env "Update now sid None (Some (int n)) (Some d)" "ap_store ap" "ap_sessions ap"] by auto
  then have 1: "on_session_part (update_session env now sid None (Some (int n)) (Some d)) ap = (Inr (), ap\<lparr>ap_store := s1, ap_sessions := ?sm\<rparr>)"
    by (simp add: on_session_part_def)
  show ?case using Cons.IH [of "ap\<lparr>ap_store := s1, ap_sessions := ?sm\<rparr>"] by (auto simp: bnd_def 1)
qed

lemma generator_outcome:
  assumes "sse_generator h rq pp ap = (x, ap')" and "present rq ap"
  shows "(\<exists>evs. x = Inr evs) \<and> \<not> listed rq ap' \<and> ended rq Done ap' \<and> ap_db ap' = ap_db ap \<and> ap_stats ap' = count_stream rq (ap_stats ap) \<and>
    ap_metrics ap' = ap_metrics ap"
proof -
  let ?m = "on_streams_part (stream_with_retry readable_chunk (he_stream h (pp_messages pp) (pp_model pp) (openai_params (cq_body rq))) (he_settings h) (pp_provider pp))"
  obtain res ap1 where 1: "?m ap = (Inr res, ap1)" by (simp add: on_streams_part_def case_prod_beta)
  have same1: "life rq ap1 = life rq ap" "ap_db ap1 = ap_db ap" "ap_stats ap1 = ap_stats ap" "ap_metrics ap1 = ap_metrics ap"
    by (rule preservesD [OF preserves_parts(6) 1]; simp)+
  obtain evs totals where ev: "stream_events h res = (evs, totals)" by fastforce
  let ?up = "\<lambda>n. on_session_part (update_session (session_env_of h) (cq_end rq) (cq_session_id rq) None (Some (int n)) (Some (duration_ms rq)))"
  obtain s sm where 2: "for_each totals ?up ap1 = (Inr (), ap1\<lparr>ap_store := s, ap_sessions := sm\<rparr>)"
    using totals_shown [of totals "session_env_of h" "cq_end rq" "cq_session_id rq" "duration_ms rq" ap1] by blast
  let ?ap2 = "ap1\<lparr>ap_store := s, ap_sessions := sm\<rparr>"
  have "life rq ?ap2 = life rq ap1" by (rule preservesD [OF preserves_for_each 2]) (rule update_session_life)
  with same1(1) assms(2) have "present rq ?ap2" by simp
  then have e: "ended rq Done (snd (end_session h rq Done ?ap2))" by (rule end_session_closes)
  have "x = Inr evs" and "ap' = snd (end_session h rq Done ?ap2)\<lparr>ap_limiter := unregister_active_request (rq_id (cq_http rq)) (ap_limiter ap1),
      ap_stats := count_stream rq (ap_stats ap1)\<rparr>"
    using assms(1) unfolding sse_generator_def bnd_def [of ?m] 1
    by (simp_all add: ev bnd_def 2 end_session_eq forget_active_def modify_def)
  with e same1 show ?thesis by (simp add: ended_def listed_def end_session_eq unregister_active_request_def)
qed


text \<open>The ways through the handler.\<close>

lemma handle_chat_cases:
  assumes "handle_chat h rq ap = (x, ap')"
  shows "(\<exists>e. x = Inl e \<and> prepare h rq ap = (Inl e, ap')) \<or>
    (\<exists>pp ap1 ap2. prepare h rq ap = (Inr pp, ap1) \<and>
      ((\<exists>e. x = Inl e \<and> lookup_cache h rq pp ap1 = (Inl e, ap')) \<or>
       (\<exists>r. lookup_cache h rq pp ap1 = (Inr (Some r), ap') \<and> x = Inr (Answer (answer_headers rq True None pp) (response_to_json r))) \<or>
       (lookup_cache h rq pp ap1 = (Inr None, ap2) \<and>
        ((\<exists>e. begin_request h rq pp ap2 = (Inl e, ap') \<and> x = Inl e) \<or>
         (\<exists>ap3 ap4. begin_request h rq pp ap2 = (Inr (), ap3) \<and>
           ((\<exists>e. serve_request h rq pp ap3 = (Inl e, ap4) \<and> fail_request h rq e ap4 = (x, ap') \<and> (\<forall>a. x \<noteq> Inr a)) \<or>
            (\<exists>a. serve_request h rq pp ap3 = (Inr a, ap') \<and> x = Inr a \<and> (\<forall>hs evs. a \<noteq> EventStream hs evs)) \<or>
            (\<exists>hs evs e0. serve_request h rq pp ap3 = (Inr (EventStream hs e0), ap4) \<and> sse_generator h rq pp ap4 = (Inr evs, ap') \<and>
               x = Inr (EventStream hs evs)) \<or>
            (\<exists>hs e e0. serve_request h rq pp ap3 = (Inr (EventStream hs e0), ap4) \<and> sse_generator h rq pp ap4 = (Inl e, ap') \<and> x = Inl e)))))))"
proof (cases "prepare h rq ap")
  case (Pair y ap1)
  show ?thesis
  proof (cases y)
    case (Inl e)
    with Pair assms show ?thesis by (simp add: handle_chat_def bnd_def)
  next
    case pp: (Inr pp)
    obtain c ap2 where l: "lookup_cache h rq pp ap1 = (c, ap2)" by fastforce
    show ?thesis
    proof (cases c)
      case (Inl e)
      with Pair pp l assms show ?thesis by (simp add: handle_chat_def bnd_def)
    next
      case c: (Inr cached)
      show ?thesis
      proof (cases cached)
        case (Some r)
        with Pair pp l c assms show ?thesis by (simp add: handle_chat_def bnd_def)
      next
        case None
        obtain b ap3 where b: "begin_request h rq pp ap2 = (b, ap3)" by fastforce
        show ?thesis
        proof (cases b)
          case (Inl e)
          with Pair pp l c None b assms show ?thesis by (simp add: handle_chat_def bnd_def)
        next
          case (Inr u)
          obtain a ap4 where s: "serve_request h rq pp ap3 = (a, ap4)" by fastforce
          have fails: "fst (fail_request h rq e ap4) \<noteq> Inr a'" for e a'
            by (cases e) (simp_all add: fail_request_def end_session_eq bnd_def forget_active_def count_error_def modify_def)
          have "bnd (try_except (serve_request h rq pp) (fail_request h rq)) (\<lambda>answer. case answer of
              EventStream hs _ \<Rightarrow> bnd (sse_generator h rq pp) (\<lambda>evs. ret (EventStream hs evs)) | _ \<Rightarrow> ret answer) ap3 = (x, ap')"
            using Pair pp l c None b Inr assms by (simp add: handle_chat_def bnd_def [of "prepare h rq"]) (simp add: bnd_def)
          then have "(\<exists>e. a = Inl e \<and> fail_request h rq e ap4 = (x, ap') \<and> (\<forall>a. x \<noteq> Inr a)) \<or>
            (\<exists>r. a = Inr r \<and> x = Inr r \<and> ap4 = ap' \<and> (\<forall>hs evs. r \<noteq> EventStream hs evs)) \<or>
            (\<exists>hs evs e0. a = Inr (EventStream hs e0) \<and> sse_generator h rq pp ap4 = (Inr evs, ap') \<and> x = Inr (EventStream hs evs)) \<or>
            (\<exists>hs e e0. a = Inr (EventStream hs e0) \<and> sse_generator h rq pp ap4 = (Inl e, ap') \<and> x = Inl e)"
            using fails by (auto simp: bnd_def try_except_def s split: sum.splits prod.splits chat_answer.splits) (metis fst_conv)+
          with Pair pp l c None b Inr s show ?thesis by (cases u) blast
        qed
      qed
    qed
  qed
qed


text \<open>C2.  The life of a request, whichever way it goes: a failed request is no longer active and its session, if
  it had one, is closed as failed and will be removed; a streamed one is closed as done; an answer from the
  cache never starts a session; a request answered by a provider has its session closed but stays among the
  active requests; a waiting request is active with its session open.\<close>

theorem request_lifecycle:
  assumes "handle_chat h rq ap = (r, ap')" and "\<not> listed rq ap" and "\<not> present rq ap"
  shows "case r of
      Inl e \<Rightarrow> \<not> listed rq ap' \<and> (ended rq Failure ap' \<or> \<not> present rq ap')
    | Inr Waiting \<Rightarrow> listed rq ap' \<and> present rq ap'
    | Inr (EventStream hs evs) \<Rightarrow> \<not> listed rq ap' \<and> ended rq Done ap'
    | Inr (Answer hs js) \<Rightarrow>
        if map_of hs ''X-Cache-Hit'' = Some ''true'' then \<not> listed rq ap' \<and> \<not> present rq ap' else listed rq ap' \<and> ended rq Done ap'"
proof -
  have rest: "life rq ap2 = life rq ap1" if "settled ap2 = settled ap1" for ap1 ap2
    by (simp add: listed_def present_def settled_fields [OF that])
  have prep: "life rq ap1 = (False, False)" if "prepare h rq ap = (y, ap1)" for y ap1
    using rest [OF preservesD [OF prepare_settled that]] assms(2,3) by simp
  have look: "life rq ap2 = life rq ap1" if "lookup_cache h rq pp ap1 = (y, ap2)" for pp y ap1 ap2
  proof -
    have "preserves (life rq) (lookup_cache h rq pp)" unfolding lookup_cache_def by (intro preserves_if preserves_parts preserves_ret) simp
    from preservesD [OF this that] show ?thesis .
  qed
  from handle_chat_cases [OF assms(1)] show ?thesis
  proof (elim disjE exE conjE)
    fix e assume "r = Inl e" "prepare h rq ap = (Inl e, ap')"
    with prep show ?thesis by simp
  next
    fix pp ap1 e assume "prepare h rq ap = (Inr pp, ap1)" "r = Inl e" "lookup_cache h rq pp ap1 = (Inl e, ap')"
    with prep look show ?thesis by fastforce
  next
    fix pp ap1 o1 assume "prepare h rq ap = (Inr pp, ap1)" "lookup_cache h rq pp ap1 = (Inr (Some o1), ap')"
      "r = Inr (Answer (answer_headers rq True None pp) (response_to_json o1))"
    with prep look show ?thesis by (fastforce simp: answer_headers_def)
  next
    fix pp ap1 ap2 e assume "prepare h rq ap = (Inr pp, ap1)" "lookup_cache h rq pp ap1 = (Inr None, ap2)"
      "begin_request h rq pp ap2 = (Inl e, ap')" "r = Inl e"
    with prep look begin_outcome [of h rq pp ap2 "Inl e" ap'] show ?thesis by fastforce
  next
    fix pp ap1 ap2 ap3 ap4 e assume "begin_request h rq pp ap2 = (Inr (), ap3)" "serve_request h rq pp ap3 = (Inl e, ap4)"
      "fail_request h rq e ap4 = (r, ap')"
    with begin_outcome [of h rq pp ap2 "Inr ()" ap3] serve_outcome(1) [of h rq pp ap3 "Inl e" ap4] fail_outcome [of h rq e ap4 r ap']
    show ?thesis by auto
  next
    fix pp ap1 ap2 ap3 a assume "begin_request h rq pp ap2 = (Inr (), ap3)" "serve_request h rq pp ap3 = (Inr a, ap')" "r = Inr a"
      "\<forall>hs evs. a \<noteq> EventStream hs evs"
    with begin_outcome [of h rq pp ap2 "Inr ()" ap3] serve_outcome(1) [of h rq pp ap3 "Inr a" ap'] serve_outcome(2) [of h rq pp ap3 "Inr a" ap' a]
    show ?thesis by (auto simp: answer_headers_def)
  next
    fix pp ap1 ap2 ap3 ap4 hs evs e0 assume "begin_request h rq pp ap2 = (Inr (), ap3)" "serve_request h rq pp ap3 = (Inr (EventStream hs e0), ap4)"
      "sse_generator h rq pp ap4 = (Inr evs, ap')" "r = Inr (EventStream hs evs)"
    with begin_outcome [of h rq pp ap2 "Inr ()" ap3] serve_outcome(1) [of h rq pp ap3 "Inr (EventStream hs e0)" ap4]
      generator_outcome [of h rq pp ap4 "Inr evs" ap']
    show ?thesis by auto
  next
    fix pp ap1 ap2 ap3 ap4 hs e e0 assume "begin_request h rq pp ap2 = (Inr (), ap3)" "serve_request h rq pp ap3 = (Inr (EventStream hs e0), ap4)"
      "sse_generator h rq pp ap4 = (Inl e, ap')"
    with begin_outcome [of h rq pp ap2 "Inr ()" ap3] serve_outcome(1) [of h rq pp ap3 "Inr (EventStream hs e0)" ap4]
      generator_outcome [of h rq pp ap4 "Inl e" ap']
    show ?thesis by auto
  qed
qed



section \<open>Accounting\<close>

lemma record_request_active: "mt_active (snd (record_request c p m st d i out cost mt)) = mt_active mt"
  by (auto simp: record_request_def bnd_def count_tokens_def Let_def split: prod.splits option.splits if_splits)

definition charged_rows :: "chat_request \<Rightarrow> prepared \<Rightarrow> call_reply \<Rightarrow> database \<Rightarrow> token_usage_row list" where
  "charged_rows rq pp r db =
     (if given (au_client_id (cq_user rq))
      then [\<lparr>tu_id = cq_usage_id rq, tu_client_id = the (au_client_id (cq_user rq)), tu_date = cq_today rq, tu_provider = pp_provider pp,
             tu_model = pp_model pp, tu_input_tokens = rp_input r, tu_output_tokens = rp_output r, tu_cost_usd = reply_cost rq pp r db\<rparr>]
      else [])"

lemma charge_client_simps:
  "t_token_usage (charge_client rq pp r db) = t_token_usage db @ charged_rows rq pp r db"
  "t_request_logs (charge_client rq pp r db) = t_request_logs db"
  by (auto simp: charge_client_def charged_rows_def reply_cost_def given_def record_token_usage_def touch_client_def Let_def
      split: option.splits list.splits)

lemma log_request_effect:
  "snd (log_request cr st dumps uid now n1 n2 lg db) = db\<lparr>t_request_logs := t_request_logs db @
     (if list_ex (\<lambda>r. rl_id r = uid) (t_request_logs db) then [] else [request_log_entry cr st dumps uid now n1 n2 lg])\<rparr>"
  by (simp add: log_request_def try_except_def with_db_def)

lemma log_request_ok: "fst (log_request cr st dumps uid now n1 n2 lg db) = Inr ()"
  by (simp add: log_request_def try_except_def with_db_def)

lemma account_effect:
  assumes "account h rq pp r ap = (Inr (), ap')"
  shows "ap_stats ap' = count_success rq r (ap_stats ap)" "mt_active (ap_metrics ap') = mt_active (ap_metrics ap) - 1"
    "ap_db ap' = snd (log_request (ge_crypto (he_guard h)) (he_settings h) (he_dumps h) (cq_log_id rq) (cq_end rq)
       (fst (cq_nonces rq)) (snd (cq_nonces rq)) (log_of rq pp r (reply_cost rq pp r (ap_db ap))) (charge_client rq pp r (ap_db ap)))"
proof -
  let ?db = "snd (log_request (ge_crypto (he_guard h)) (he_settings h) (he_dumps h) (cq_log_id rq) (cq_end rq)
       (fst (cq_nonces rq)) (snd (cq_nonces rq)) (log_of rq pp r (reply_cost rq pp r (ap_db ap))) (charge_client rq pp r (ap_db ap)))"
  let ?m = "record_request (au_name (cq_user rq)) (pp_provider pp) (pp_model pp) ''200'' (of_int (duration_ms rq) / 1000) (rp_input r)
       (rp_output r) (reply_cost rq pp r (ap_db ap)) (ap_metrics ap)"
  let ?log = "log_request (ge_crypto (he_guard h)) (he_settings h) (he_dumps h) (cq_log_id rq) (cq_end rq)
       (fst (cq_nonces rq)) (snd (cq_nonces rq)) (log_of rq pp r (reply_cost rq pp r (ap_db ap)))"
  let ?ap1 = "ap\<lparr>ap_db := charge_client rq pp r (ap_db ap)\<rparr>"
  have 1: "on_db_part ?log ?ap1 = (Inr (), ap\<lparr>ap_db := ?db\<rparr>)"
    using log_request_ok by (simp add: on_db_part_def case_prod_beta)
  obtain x where 2: "on_metrics_part (record_request (au_name (cq_user rq)) (pp_provider pp) (pp_model pp) ''200'' (of_int (duration_ms rq) / 1000)
       (rp_input r) (rp_output r) (reply_cost rq pp r (ap_db ap))) (ap\<lparr>ap_db := ?db\<rparr>) = (x, ap\<lparr>ap_db := ?db, ap_metrics := snd ?m\<rparr>)"
    by (simp add: on_metrics_part_def case_prod_beta)
  have "ap' = ap\<lparr>ap_db := ?db, ap_metrics := (snd ?m)\<lparr>mt_active := mt_active (snd ?m) - 1\<rparr>, ap_stats := count_success rq r (ap_stats ap)\<rparr>"
    using assms unfolding account_def Let_def bnd_modify bnd_def [of "on_db_part m" for m] 1 prod.case sum.case bnd_def [of "on_metrics_part m" for m] 2
    by (cases x) (simp_all add: modify_def)
  then show "ap_stats ap' = count_success rq r (ap_stats ap)" "mt_active (ap_metrics ap') = mt_active (ap_metrics ap) - 1" "ap_db ap' = ?db"
    by (simp_all add: record_request_active)
qed

abbreviation books :: "('s, 'w) app \<Rightarrow> database \<times> chat_stats \<times> metrics" where
  "books ap \<equiv> (ap_db ap, ap_stats ap, ap_metrics ap)"

lemma before_serving_books:
  assumes "prepare h rq ap = (y, ap1)" and "lookup_cache h rq pp ap1 = (z, ap2)" and "begin_request h rq pp ap2 = (Inr u, ap3)"
  shows "books ap3 = books ap"
proof -
  have "preserves books (lookup_cache h rq pp)" unfolding lookup_cache_def by (intro preserves_if preserves_parts preserves_ret) simp
  from preservesD [OF this assms(2)] begin_outcome [OF assms(3)] settled_fields [OF preservesD [OF prepare_settled assms(1)]]
  show ?thesis by auto
qed


text \<open>What stands behind an answer that is not from the cache.\<close>

lemma answer_steps:
  assumes "handle_chat h rq ap = (Inr (Answer hs js), ap')" and "map_of hs ''X-Cache-Hit'' = Some ''false''"
    and "\<not> list_ex (\<lambda>x. rl_id x = cq_log_id rq) (t_request_logs (ap_db ap))"
  shows "\<exists>pp r ap1 ap2 x. fst (prepare h rq ap) = Inr pp \<and> call_provider h rq pp ap1 = (Inr r, ap2) \<and>
    evaluate_response (he_re h) (ap_db ap) (rp_text r) (au_client_id (cq_user rq)) = Inr x \<and> js = rp_json r \<and>
    t_request_logs (ap_db ap') = t_request_logs (ap_db ap) @ [request_log_entry (ge_crypto (he_guard h)) (he_settings h) (he_dumps h)
      (cq_log_id rq) (cq_end rq) (fst (cq_nonces rq)) (snd (cq_nonces rq)) (log_of rq pp r (reply_cost rq pp r (ap_db ap)))] \<and>
    t_token_usage (ap_db ap') = t_token_usage (ap_db ap) @ charged_rows rq pp r (ap_db ap) \<and>
    ap_stats ap' = count_success rq r (ap_stats ap) \<and> mt_active (ap_metrics ap') = mt_active (ap_metrics ap) - 1"
proof -
  obtain pp ap1 ap2 ap3 where s: "prepare h rq ap = (Inr pp, ap1)" "lookup_cache h rq pp ap1 = (Inr None, ap2)"
      "begin_request h rq pp ap2 = (Inr (), ap3)" "serve_request h rq pp ap3 = (Inr (Answer hs js), ap')"
  proof -
    from handle_chat_cases [OF assms(1)] show thesis
    proof (elim disjE exE conjE)
      fix pp ap1 r assume "Inr (Answer hs js) = Inr (Answer (answer_headers rq True None pp) (response_to_json r))"
      with assms(2) show thesis by (simp add: answer_headers_def)
    qed (use that in auto)
  qed
  obtain ap4 ap5 where b: "serve_reply h rq pp ap4 = (Inr (Answer hs js), ap5)" "books ap4 = books ap3" "books ap' = books ap5"
  proof -
    from with_slot_cases [OF s(4) [unfolded serve_body], of rq] obtain ap6 ap7 where
      w: "serve_body h rq pp ap6 = (Inr (Answer hs js), ap7)" "books ap6 = books ap3" "books ap' = books ap7" by auto
    from serve_body_steps [OF w(1)] w(2,3) that show thesis by (auto split: if_splits)
  qed
  obtain r ap7 t ap8 ap9 where c: "call_provider h rq pp ap4 = (Inr r, ap7)" "store_reply h rq pp r ap7 = (Inr (), ap8)"
      "account h rq pp r ap8 = (Inr (), ap9)" "end_session h rq Done ap9 = (Inr (), ap5)" "js = rp_json r"
      "evaluate_response (he_re h) (ap_db ap7) (rp_text r) (au_client_id (cq_user rq)) = Inr t"
    using serve_reply_steps [OF b(1)] by auto
  have 7: "books ap7 = books ap4" by (rule preservesD [OF call_frame c(1)]) simp
  moreover have "books ap8 = books ap7" by (rule preservesD [OF store_reply_frame c(2)]) simp
  moreover have "books ap5 = books ap9" by (rule preservesD [OF session_frame(1) c(4)]) simp
  ultimately have bk: "books ap8 = books ap" "books ap' = books ap9" using before_serving_books [OF s(1-3)] b(2,3) by simp_all
  have db7: "ap_db ap7 = ap_db ap" using 7 before_serving_books [OF s(1-3)] b(2) by simp
  have db: "ap_db ap8 = ap_db ap" "ap_stats ap8 = ap_stats ap" "ap_metrics ap8 = ap_metrics ap" using bk(1) by simp_all
  note acc = account_effect [OF c(3), unfolded db]
  have "t_request_logs (ap_db ap9) = t_request_logs (ap_db ap) @ [request_log_entry (ge_crypto (he_guard h)) (he_settings h) (he_dumps h)
      (cq_log_id rq) (cq_end rq) (fst (cq_nonces rq)) (snd (cq_nonces rq)) (log_of rq pp r (reply_cost rq pp r (ap_db ap)))]"
    "t_token_usage (ap_db ap9) = t_token_usage (ap_db ap) @ charged_rows rq pp r (ap_db ap)"
    using assms(3) unfolding acc(3) log_request_effect by (simp_all add: charge_client_simps)
  with bk(2) acc(1,2) s(1) c(1,5) c(6) [unfolded db7] show ?thesis
    by (intro exI [of _ pp] exI [of _ r] exI [of _ ap4] exI [of _ ap7] exI [of _ t]) simp
qed

text \<open>C5.  A request that a provider answered is accounted for once, whatever the evaluation of the response says: one log row
  is written, the client, if there is one, is charged once with the tokens and their cost, and the statistics count it.
  If the evaluation leaves the text alone, the answer and the logged text are those of the provider.  The gauge of active
  requests is decremented, which nothing ever incremented.\<close>

theorem answered_request_is_accounted:
  assumes "handle_chat h rq ap = (Inr (Answer hs js), ap')" and "map_of hs ''X-Cache-Hit'' = Some ''false''"
    and "\<not> list_ex (\<lambda>x. rl_id x = cq_log_id rq) (t_request_logs (ap_db ap))"
  shows "\<exists>pp r ap1 ap2 filtered was t. fst (prepare h rq ap) = Inr pp \<and> call_provider h rq pp ap1 = (Inr r, ap2) \<and>
    evaluate_response (he_re h) (ap_db ap) (rp_text r) (au_client_id (cq_user rq)) = Inr (filtered, was) \<and>
    (\<not> was \<longrightarrow> js = rp_json r \<and> t = rp_text r) \<and>
    t_request_logs (ap_db ap') = t_request_logs (ap_db ap) @ [request_log_entry (ge_crypto (he_guard h)) (he_settings h) (he_dumps h)
      (cq_log_id rq) (cq_end rq) (fst (cq_nonces rq)) (snd (cq_nonces rq)) (log_of rq pp (r\<lparr>rp_text := t\<rparr>) (reply_cost rq pp r (ap_db ap)))] \<and>
    t_token_usage (ap_db ap') = t_token_usage (ap_db ap) @ charged_rows rq pp r (ap_db ap) \<and>
    ap_stats ap' = count_success rq r (ap_stats ap) \<and> mt_active (ap_metrics ap') = mt_active (ap_metrics ap) - 1"
proof -
  obtain pp r ap1 ap2 x where "fst (prepare h rq ap) = Inr pp \<and> call_provider h rq pp ap1 = (Inr r, ap2) \<and>
    evaluate_response (he_re h) (ap_db ap) (rp_text r) (au_client_id (cq_user rq)) = Inr x \<and> js = rp_json r \<and>
    t_request_logs (ap_db ap') = t_request_logs (ap_db ap) @ [request_log_entry (ge_crypto (he_guard h)) (he_settings h) (he_dumps h)
      (cq_log_id rq) (cq_end rq) (fst (cq_nonces rq)) (snd (cq_nonces rq)) (log_of rq pp r (reply_cost rq pp r (ap_db ap)))] \<and>
    t_token_usage (ap_db ap') = t_token_usage (ap_db ap) @ charged_rows rq pp r (ap_db ap) \<and>
    ap_stats ap' = count_success rq r (ap_stats ap) \<and> mt_active (ap_metrics ap') = mt_active (ap_metrics ap) - 1"
    using answer_steps [OF assms] by (elim exE) (rule that)
  then show ?thesis
    by (intro exI [of _ pp] exI [of _ r] exI [of _ ap1] exI [of _ ap2] exI [of _ "fst x"] exI [of _ "snd x"] exI [of _ "rp_text r"]) simp
qed

text \<open>What the evaluation of the response removes from the text reaches the caller all the same.\<close>

theorem response_filter_ignored:
  assumes "handle_chat h rq ap = (Inr (Answer hs js), ap')" and "map_of hs ''X-Cache-Hit'' = Some ''false''"
    and "\<not> list_ex (\<lambda>x. rl_id x = cq_log_id rq) (t_request_logs (ap_db ap))"
  shows "\<exists>pp r ap1 ap2 x. fst (prepare h rq ap) = Inr pp \<and> call_provider h rq pp ap1 = (Inr r, ap2) \<and>
    evaluate_response (he_re h) (ap_db ap) (rp_text r) (au_client_id (cq_user rq)) = Inr x \<and> js = rp_json r"
  using answer_steps [OF assms] by blast

text \<open>A streamed request is free: no usage is recorded and nothing is logged, whatever the stream delivered, so
  it does not count towards the quota; only the number of requests goes up.\<close>

theorem streamed_request_is_free:
  assumes "handle_chat h rq ap = (Inr (EventStream hs evs), ap')"
  shows "ap_db ap' = ap_db ap \<and> ap_metrics ap' = ap_metrics ap \<and> ap_stats ap' = count_stream rq (ap_stats ap)"
proof -
  obtain pp ap1 ap2 ap3 ap4 e0 where s: "prepare h rq ap = (Inr pp, ap1)" "lookup_cache h rq pp ap1 = (Inr None, ap2)"
      "begin_request h rq pp ap2 = (Inr (), ap3)" "serve_request h rq pp ap3 = (Inr (EventStream hs e0), ap4)" "sse_generator h rq pp ap4 = (Inr evs, ap')"
    using handle_chat_cases [OF assms] by auto
  have p: "present rq ap3" using begin_outcome [OF s(3)] by simp
  have "books ap4 = books ap3"
  proof -
    from with_slot_cases [OF s(4) [unfolded serve_body], of rq] obtain ap5 ap6 where
      b: "serve_body h rq pp ap5 = (Inr (EventStream hs e0), ap6)" "books ap5 = books ap3" "books ap4 = books ap6" by auto
    from serve_body_steps [OF b(1)] serve_reply_steps [of h rq pp _ "EventStream hs e0" ap6] b(2,3) show ?thesis
      by (auto split: if_splits)
  qed
  moreover have "present rq ap4" using serve_outcome(1) [OF s(4) p] p by simp
  ultimately show ?thesis using generator_outcome [OF s(5)] before_serving_books [OF s(1-3)] by simp
qed



section \<open>The number of rounds\<close>

lemma step_simps [simp]:
  "px_step (log_call prov key idx now out s) = px_step s" "px_step (note_success now prov idx s) = px_step s"
  "px_step (note_failure now prov idx s) = px_step s" "px_step (note_rate_limited now prov idx e s) = px_step s"
  "px_step (set_pool prov p s) = px_step s"
  by (simp_all add: log_call_def note_success_def note_failure_def note_rate_limited_def set_pool_def)

lemma next_key_step: "next_key env st prov s = (r, s1) \<Longrightarrow> px_step s1 = Suc (px_step s)"
  by (auto simp: next_key_def Let_def split: prod.splits)

lemma breaker_allows_step: "breaker_allows now prov idx s = (a, s1) \<Longrightarrow> px_step s1 = px_step s"
  by (auto simp: breaker_allows_def Let_def split: prod.splits)

lemma attempts_rounds: "px_step (snd (attempts env st prov n err s)) \<le> px_step s + n"
proof (induction n arbitrary: err s)
  case (Suc n)
  obtain r s1 where 1: "next_key env st prov s = (r, s1)" by fastforce
  show ?case
  proof (cases r)
    case (Some ki)
    obtain key idx where ki: "ki = (key, idx)" by fastforce
    obtain a s2 where 2: "breaker_allows (env_before env (px_step s)) prov idx s1 = (a, s2)" by fastforce
    have step: "px_step s2 = Suc (px_step s)" using next_key_step [OF 1] breaker_allows_step [OF 2] by simp
    have more: "px_step (snd (attempts env st prov n e t)) \<le> Suc (px_step s + n)" if "px_step t = Suc (px_step s)" for e t
      using Suc [of e t] that by simp
    show ?thesis
      by (auto simp: 1 2 Some ki Let_def step more split: sum.splits outcome.splits)
  qed (simp add: 1 next_key_step [OF 1] Let_def)
qed simp

lemma try_providers_rounds: "px_step (snd (try_providers env st ps err s)) \<le> px_step s + length ps * nat (MAX_RETRIES st)"
proof (induction ps arbitrary: err s)
  case (Cons prov ps)
  obtain r e s1 where 1: "attempts env st prov (nat (MAX_RETRIES st)) err s = ((r, e), s1)" by (metis surj_pair)
  have "px_step s1 \<le> px_step s + nat (MAX_RETRIES st)" using attempts_rounds [of env st prov "nat (MAX_RETRIES st)" err s] 1 by simp
  with Cons [of e s1] 1 show ?case by (cases r) simp_all
qed simp

lemma stream_rounds: "px_step (snd (stream_providers fits env st ps err s)) \<le> px_step s + length ps"
proof (induction ps arbitrary: err s)
  case (Cons prov ps)
  obtain r s1 where 1: "next_key env st prov s = (r, s1)" by fastforce
  have more: "px_step (snd (stream_providers fits env st ps e t)) \<le> Suc (px_step s + length ps)" if "px_step t = Suc (px_step s)" for e t
    using Cons [of e t] that by simp
  show ?case
  proof (cases r)
    case None
    with 1 more next_key_step [OF 1] show ?thesis by (simp add: Let_def)
  next
    case (Some ki)
    obtain key idx where ki: "ki = (key, idx)" by fastforce
    obtain a s2 where 2: "breaker_allows (env_before env (px_step s)) prov idx s1 = (a, s2)" by fastforce
    have step: "px_step s2 = Suc (px_step s)" using next_key_step [OF 1] breaker_allows_step [OF 2] by simp
    show ?thesis
      by (auto simp: 1 2 Some ki Let_def step more case_prod_beta split: sum.splits outcome.splits option.splits)
  qed
qed simp

definition rounds_bound :: "settings \<Rightarrow> nat" where
  "rounds_bound st = (1 + length (fallback_chain_list st)) * max 1 (nat (MAX_RETRIES st))"

lemma chat_rounds: "px_step (snd (chat_with_retry env st prov s)) \<le> px_step s + rounds_bound st"
proof -
  have "px_step (snd (try_providers env st (providers_to_try st prov) None s)) \<le> px_step s + length (providers_to_try st prov) * nat (MAX_RETRIES st)"
    by (rule try_providers_rounds)
  also have "\<dots> \<le> px_step s + rounds_bound st"
    unfolding rounds_bound_def by (intro add_left_mono mult_le_mono providers_to_try_props(3)) simp
  finally show ?thesis by (auto simp: chat_with_retry_def split: prod.splits option.splits)
qed

lemma stream_retry_rounds: "px_step (snd (stream_with_retry fits env st prov s)) \<le> px_step s + rounds_bound st"
proof -
  have "px_step (snd (stream_providers fits env st (providers_to_try st prov) None s)) \<le> px_step s + length (providers_to_try st prov)"
    by (rule stream_rounds)
  also have "\<dots> \<le> px_step s + rounds_bound st"
    using mult_le_mono [OF providers_to_try_props(3) [of st prov], of 1 "max 1 (nat (MAX_RETRIES st))"] by (simp add: rounds_bound_def)
  finally show ?thesis by (auto simp: stream_with_retry_def split: prod.splits option.splits)
qed
definition rounds :: "nat \<Rightarrow> (('s, 'w) app, 'a) io \<Rightarrow> bool" where
  "rounds k m \<longleftrightarrow> (\<forall>ap. ap_step (snd (m ap)) \<le> ap_step ap + k)"

lemma roundsD: "rounds k m \<Longrightarrow> m ap = (x, ap') \<Longrightarrow> ap_step ap' \<le> ap_step ap + k"
  unfolding rounds_def by (metis snd_conv)

lemma rounds_preserves: "preserves ap_step m \<Longrightarrow> rounds k m"
  by (simp add: preserves_def rounds_def)

lemma rounds_bnd: "rounds k m \<Longrightarrow> (\<And>a. preserves ap_step (f a)) \<Longrightarrow> rounds k (bnd m f)"
  by (auto simp: rounds_def preserves_def bnd_def split: prod.splits sum.splits) (metis snd_conv)+

lemma rounds_after: "preserves ap_step m \<Longrightarrow> (\<And>a. rounds k (f a)) \<Longrightarrow> rounds k (bnd m f)"
  by (auto simp: rounds_def preserves_def bnd_def split: prod.splits sum.splits) (metis add_le_mono le_add1 le_refl le_trans snd_conv)+

lemma call_rounds: "rounds (rounds_bound (he_settings h)) (call_provider h rq pp)"
proof -
  have 1: "rounds (rounds_bound (he_settings h)) (on_calls_part (chat_with_retry env (he_settings h) prov) :: (('a, 'b) app, oai_response) io)" for env prov
    unfolding rounds_def on_calls_part_def using chat_rounds [of env "he_settings h" prov]
    by (auto simp: case_prod_beta) (metis proxy.select_convs(3))
  have "px_step (snd (chat pl env st lookup ms p m sys s)) \<le> px_step s + rounds_bound st" for pl env st lookup ms p m sys s
    using chat_rounds by (auto simp: chat_def bnd_def Let_def case_prod_beta split: sum.splits prod.splits)
  then have 2: "rounds (rounds_bound (he_settings h)) (on_calls_part (chat pl env (he_settings h) lookup ms p m sys) :: (('a, 'b) app, chat_response) io)"
    for pl env lookup ms p m sys
    unfolding rounds_def on_calls_part_def by (auto simp: case_prod_beta) (metis proxy.select_convs(3))
  have read: "rounds k (\<lambda>ap. m ap ap)" if "\<And>ap. rounds k (m ap)" for k and m :: "('a, 'b) app \<Rightarrow> (('a, 'b) app, call_reply) io"
    using that by (simp add: rounds_def)
  show ?thesis
  proof (cases "cq_openai rq")
    case True
    show ?thesis unfolding call_provider_def if_P [OF True] by (rule rounds_bnd [OF 1], rule preserves_ret)
  next
    case False
    show ?thesis unfolding call_provider_def if_not_P [OF False] by (rule read, rule rounds_bnd [OF 2], rule preserves_ret)
  qed
qed

lemma serve_reply_rounds: "rounds (rounds_bound (he_settings h)) (serve_reply h rq pp)"
  unfolding serve_reply_def case_prod_beta
  by (rule rounds_bnd [OF call_rounds]) (intro preserves_bnd account_frame store_reply_frame session_frame preserves_ret preserves_lift_read; simp)
lemma begin_steps: "preserves ap_step (begin_request h rq pp)"
  unfolding begin_request_def by (intro preserves_bnd preserves_ret preserves_parts(4) preserves_modify) simp_all

lemma fail_steps: "preserves ap_step (fail_request h rq e)"
  unfolding fail_request_def forget_active_def count_error_def
  by (cases e; intro preserves_bnd session_frame preserves_modify preserves_ret) (auto intro!: frame_intros)

lemma serve_rounds:
  assumes "serve_request h rq pp ap = (x, ap')"
  shows "ap_step ap' \<le> ap_step ap + (if cb_stream (cq_body rq) then 0 else rounds_bound (he_settings h))"
    and "x = Inr (EventStream hs evs) \<Longrightarrow> cb_stream (cq_body rq)"
proof -
  have "rounds (if cb_stream (cq_body rq) then 0 else rounds_bound (he_settings h)) (serve_body h rq pp)"
    unfolding serve_body_def
    by (rule rounds_after, rule preserves_modify, simp, rule rounds_after, rule session_frame, simp)
       (auto intro!: rounds_preserves preserves_bnd preserves_ret session_frame serve_reply_rounds)
  then show "ap_step ap' \<le> ap_step ap + (if cb_stream (cq_body rq) then 0 else rounds_bound (he_settings h))"
    using assms unfolding serve_body with_slot_def
    by (auto dest: roundsD simp: Let_def split: option.splits prod.splits if_splits)
  assume x: "x = Inr (EventStream hs evs)"
  from with_slot_cases [OF assms [unfolded serve_body], of rq] x obtain ap5 ap6 where
    b: "serve_body h rq pp ap5 = (Inr (EventStream hs evs), ap6)" by auto
  from serve_body_steps [OF b] serve_reply_steps [of h rq pp _ "EventStream hs evs" ap6] show "cb_stream (cq_body rq)"
    by (auto split: if_splits)
qed

lemma generator_rounds: "rounds (rounds_bound (he_settings h)) (sse_generator h rq pp)"
proof -
  have 1: "rounds (rounds_bound (he_settings h)) (on_streams_part (stream_with_retry fits env (he_settings h) prov) :: (('a, 'b) app, jdict list \<times> unit res) io)" for fits :: "jdict \<Rightarrow> bool" and env prov
    unfolding rounds_def on_streams_part_def using stream_retry_rounds [of fits env "he_settings h" prov]
    by (auto simp: case_prod_beta) (metis proxy.select_convs(3))
  show ?thesis
    unfolding sse_generator_def Let_def case_prod_beta forget_active_def
    by (rule rounds_bnd [OF 1]) (intro preserves_bnd preserves_for_each preserves_parts(4) session_frame preserves_modify preserves_ret; simp)
qed

text \<open>The guard model is asked at most once by each policy.\<close>

definition asks :: "nat \<Rightarrow> (guard_state, 'a) io \<Rightarrow> bool" where
  "asks k m \<longleftrightarrow> (\<forall>s. gs_calls (snd (m s)) \<le> gs_calls s + k)"

lemma asks_bnd:
  assumes "asks j m" and "\<And>a. asks k (f a)"
  shows "asks (j + k) (bnd m f)"
  unfolding asks_def
proof
  fix s
  obtain x s1 where m: "m s = (x, s1)" by fastforce
  have 1: "gs_calls s1 \<le> gs_calls s + j" using assms(1) m by (metis asks_def snd_conv)
  show "gs_calls (snd (bnd m f s)) \<le> gs_calls s + (j + k)"
  proof (cases x)
    case (Inr a)
    have "gs_calls (snd (f a s1)) \<le> gs_calls s1 + k" using assms(2) [of a] by (simp add: asks_def)
    with 1 m Inr show ?thesis by (simp add: bnd_def)
  qed (use 1 m in \<open>simp add: bnd_def\<close>)
qed

lemma asks_ret: "asks k (ret a)" "asks k (lift_res x)"
  by (simp_all add: asks_def lift_res_def)

lemma asks_bnd_0: "asks 0 m \<Longrightarrow> (\<And>a. asks k (f a)) \<Longrightarrow> asks k (bnd m f)"
  using asks_bnd [of 0 m k f] by simp

lemma asks_last: "asks k m \<Longrightarrow> (\<And>a. asks 0 (f a)) \<Longrightarrow> asks k (bnd m f)"
  using asks_bnd [of k m 0 f] by simp

lemma ai_step_asks: "asks 1 (ai_step env config th label msg tx)"
proof -
  have "asks 1 (ai_classify_threat env tx a b c)" for a b c
    by (auto simp: asks_def ai_classify_threat_def Let_def split: sum.splits prod.splits outcome.splits)
  then show ?thesis unfolding ai_step_def by (rule asks_last) (simp add: asks_ret)
qed

lemma eval_policy_asks: "asks 1 (eval_policy env model p r ms)"
proof -
  have "asks 1 (eval_injection env p r ms)"
    unfolding eval_injection_def Let_def case_prod_beta
    by (rule asks_bnd_0, rule asks_ret, rule asks_bnd_0, simp add: asks_ret, rule asks_last) (simp_all add: ai_step_asks [simplified] asks_ret)
  moreover have "asks 1 (eval_jailbreak env p r ms)"
    unfolding eval_jailbreak_def Let_def case_prod_beta
    by (rule asks_bnd_0, simp add: asks_ret, rule asks_last) (simp_all add: ai_step_asks [simplified] asks_ret)
  ultimately show ?thesis by (simp add: eval_policy_def asks_ret split: policy_type.split)
qed

lemma run_policies_asks: "asks (length ps) (run_policies env model ps r ms)"
proof (induction ps arbitrary: r ms)
  case (Cons p ps)
  have "asks (1 + length ps) (run_policies env model (p # ps) r ms)"
    unfolding run_policies.simps by (rule asks_bnd [OF eval_policy_asks]) (simp add: Cons asks_ret split: verdict.split)
  then show ?case by simp
qed (simp add: asks_ret)

lemma applicable_length: "applicable c rows = Inr ps \<Longrightarrow> length ps \<le> length rows"
  by (induction rows arbitrary: ps) (auto simp: rbind_Inr_iff split: if_splits intro: le_SucI)

abbreviation active_policies :: "('s, 'w) app \<Rightarrow> nat" where
  "active_policies ap \<equiv> length (filter cp_is_active (t_content_policies (ap_db ap)))"

lemma order_by_length: "length (order_by le rows) = length rows"
proof -
  have "length (insert_by le x ys) = Suc (length ys)" for x ys by (induction ys) simp_all
  then show ?thesis by (induction rows) (simp_all add: order_by_def)
qed

lemma evaluate_asks: "asks (length (filter cp_is_active (t_content_policies db))) (evaluate_request env db ms model c)"
proof (cases "load_policies c db")
  case (Inl e)
  then show ?thesis by (simp add: evaluate_request_def asks_def bnd_def lift_res_def)
next
  case (Inr ps)
  then have "length ps \<le> length (filter cp_is_active (t_content_policies db))"
    using applicable_length by (fastforce simp: load_policies_def order_by_length)
  moreover have "asks (length ps) (bnd (run_policies env model ps allow_result ms) (\<lambda>v. ret (finish ms v)))"
    by (rule asks_last [OF run_policies_asks]) (simp add: asks_ret)
  ultimately show ?thesis
    by (auto simp: evaluate_request_def asks_def bnd_def lift_res_def Inr split: prod.splits sum.splits) (fastforce)+
qed

lemma prepare_asks:
  assumes "prepare h rq ap = (x, ap')"
  shows "ap_guard_calls ap' \<le> ap_guard_calls ap + active_policies ap"
proof -
  obtain y ap1 where a: "admit h rq ap = (y, ap1)" by fastforce
  have "preserves (\<lambda>ap. ap\<lparr>ap_store := undefined\<rparr>) (admit h rq)"
    unfolding admit_def Let_def
    by (auto intro!: frame_intros split: prod.splits list.splits option.splits) (simp_all add: preserves_def)
  from preservesD [OF this a] have "ap1 = ap\<lparr>ap_store := ap_store ap1\<rparr>" by (cases ap, cases ap1) simp
  then obtain s where s: "ap1 = ap\<lparr>ap_store := s\<rparr>" by blast
  from prepare_effect [OF assms a s] s show ?thesis
    using evaluate_asks [of "ap_db ap" "he_guard h"] by (auto simp: asks_def) (metis guard_state.select_convs(2))
qed

text \<open>After the preparation of a request the guard model is not asked any more.\<close>

lemma with_slot_frame:
  assumes "preserves g body" and "\<And>ap l. g (ap\<lparr>ap_limiter := l\<rparr>) = g ap"
  shows "preserves g (with_slot h body)"
  unfolding preserves_def
proof
  fix ap
  show "g (snd (with_slot h body ap)) = g ap"
  proof (cases "acquire_global_slot (he_settings h) (ap_limiter ap)")
    case (Some l)
    obtain x ap' where b: "body (ap\<lparr>ap_limiter := l\<rparr>) = (x, ap')" by fastforce
    from preservesD [OF assms(1) b] assms(2) show ?thesis by (simp add: with_slot_def Some b)
  qed (simp add: with_slot_def)
qed

lemma later_unasked:
  "preserves ap_guard_calls (lookup_cache h rq pp)" "preserves ap_guard_calls (begin_request h rq pp)"
  "preserves ap_guard_calls (serve_request h rq pp)" "preserves ap_guard_calls (fail_request h rq e)"
  "preserves ap_guard_calls (sse_generator h rq pp)"
proof -
  show "preserves ap_guard_calls (lookup_cache h rq pp)" unfolding lookup_cache_def by (intro preserves_if preserves_parts preserves_ret) simp
  show "preserves ap_guard_calls (begin_request h rq pp)"
    unfolding begin_request_def by (intro preserves_bnd preserves_ret preserves_parts(4) preserves_modify) simp_all
  have "preserves ap_guard_calls (serve_reply h rq pp)"
    unfolding serve_reply_def case_prod_beta
    by (intro preserves_bnd call_frame account_frame store_reply_frame session_frame preserves_ret preserves_lift_read) simp_all
  then show "preserves ap_guard_calls (serve_request h rq pp)"
    unfolding serve_request_def
    by (intro with_slot_frame preserves_bnd preserves_modify session_frame preserves_if preserves_ret) simp_all
  show "preserves ap_guard_calls (fail_request h rq e)"
    unfolding fail_request_def forget_active_def count_error_def
    by (cases e; intro preserves_bnd session_frame preserves_modify preserves_ret) (auto intro!: frame_intros)
  show "preserves ap_guard_calls (sse_generator h rq pp)"
    unfolding sse_generator_def Let_def case_prod_beta forget_active_def
    by (intro preserves_bnd preserves_parts(6) preserves_for_each preserves_parts(4) session_frame preserves_modify preserves_ret) simp_all
qed

lemma handle_chat_asks: "ap_guard_calls (snd (handle_chat h rq ap)) \<le> ap_guard_calls ap + active_policies ap"
proof -
  obtain x ap1 where p: "prepare h rq ap = (x, ap1)" by fastforce
  show ?thesis
  proof (cases x)
    case (Inl e)
    with p prepare_asks [OF p] show ?thesis by (simp add: handle_chat_def bnd_def)
  next
    case (Inr pp)
    let ?rest = "bnd (lookup_cache h rq pp) (\<lambda>cached. case cached of
       Some r \<Rightarrow> ret (Answer (answer_headers rq True None pp) (response_to_json r))
     | None \<Rightarrow> bnd (begin_request h rq pp) (\<lambda>_. bnd (try_except (serve_request h rq pp) (fail_request h rq)) (\<lambda>answer. case answer of
           EventStream hs _ \<Rightarrow> bnd (sse_generator h rq pp) (\<lambda>evs. ret (EventStream hs evs)) | _ \<Rightarrow> ret answer)))"
    have "preserves ap_guard_calls ?rest"
      by (rule preserves_bnd, rule later_unasked)
        (auto intro!: preserves_bnd preserves_try later_unasked preserves_ret split: option.split chat_answer.split)
    then have "ap_guard_calls (snd (?rest ap1)) = ap_guard_calls ap1" by (simp add: preserves_def)
    moreover have "handle_chat h rq ap = ?rest ap1" by (simp add: handle_chat_def bnd_def [of "prepare h rq"] p Inr)
    ultimately show ?thesis using prepare_asks [OF p] by simp
  qed
qed

lemma handle_chat_rounds:
  "ap_step (snd (handle_chat h rq ap)) \<le> ap_step ap +
     (1 + length (fallback_chain_list (he_settings h))) * max 1 (nat (MAX_RETRIES (he_settings h)))"
proof -
  obtain x ap' where r: "handle_chat h rq ap = (x, ap')" by fastforce
  have prep: "ap_step ap1 = ap_step ap" if "prepare h rq ap = (y, ap1)" for y ap1
    using settled_fields(9) [OF preservesD [OF prepare_settled that]] .
  have look: "ap_step ap2 = ap_step ap1" if "lookup_cache h rq pp ap1 = (y, ap2)" for pp y ap1 ap2
  proof -
    have "preserves ap_step (lookup_cache h rq pp)" unfolding lookup_cache_def by (intro preserves_if preserves_parts preserves_ret) simp
    from preservesD [OF this that] show ?thesis .
  qed
  have start: "ap_step ap3 = ap_step ap2" if "begin_request h rq pp ap2 = (y, ap3)" for pp y ap2 ap3
    by (rule preservesD [OF begin_steps that])
  have "ap_step ap' \<le> ap_step ap + rounds_bound (he_settings h)"
    using handle_chat_cases [OF r]
  proof (elim disjE exE conjE)
    fix pp ap1 ap2 ap3 ap4 e assume "prepare h rq ap = (Inr pp, ap1)" "lookup_cache h rq pp ap1 = (Inr None, ap2)"
      "begin_request h rq pp ap2 = (Inr (), ap3)" "serve_request h rq pp ap3 = (Inl e, ap4)" "fail_request h rq e ap4 = (x, ap')"
    with prep look start serve_rounds(1) [of h rq pp ap3 "Inl e" ap4] preservesD [OF fail_steps, of h rq e ap4 x ap']
    show ?thesis by (fastforce split: if_splits)
  next
    fix pp ap1 ap2 ap3 a assume "prepare h rq ap = (Inr pp, ap1)" "lookup_cache h rq pp ap1 = (Inr None, ap2)"
      "begin_request h rq pp ap2 = (Inr (), ap3)" "serve_request h rq pp ap3 = (Inr a, ap')"
    with prep look start serve_rounds(1) [of h rq pp ap3 "Inr a" ap'] show ?thesis by (fastforce split: if_splits)
  next
    fix pp ap1 ap2 ap3 ap4 hs evs e0 assume "prepare h rq ap = (Inr pp, ap1)" "lookup_cache h rq pp ap1 = (Inr None, ap2)"
      "begin_request h rq pp ap2 = (Inr (), ap3)" "serve_request h rq pp ap3 = (Inr (EventStream hs e0), ap4)" "sse_generator h rq pp ap4 = (Inr evs, ap')"
    with prep look start serve_rounds(1) [of h rq pp ap3 "Inr (EventStream hs e0)" ap4]
      serve_rounds(2) [of h rq pp ap3 "Inr (EventStream hs e0)" ap4 hs e0] roundsD [OF generator_rounds, of h rq pp ap4 "Inr evs" ap']
    show ?thesis by fastforce
  next
    fix pp ap1 ap2 ap3 ap4 hs e e0 assume "prepare h rq ap = (Inr pp, ap1)" "lookup_cache h rq pp ap1 = (Inr None, ap2)"
      "begin_request h rq pp ap2 = (Inr (), ap3)" "serve_request h rq pp ap3 = (Inr (EventStream hs e0), ap4)" "sse_generator h rq pp ap4 = (Inl e, ap')"
    with prep look start serve_rounds(1) [of h rq pp ap3 "Inr (EventStream hs e0)" ap4]
      serve_rounds(2) [of h rq pp ap3 "Inr (EventStream hs e0)" ap4 hs e0] roundsD [OF generator_rounds, of h rq pp ap4 "Inl e" ap']
    show ?thesis by fastforce
  qed (use prep look start in \<open>fastforce+\<close>)
  then show ?thesis by (simp add: r rounds_bound_def)
qed

text \<open>C12.  Handling a chat request ends: whatever the guard model, the providers, keys and breakers do, streamed or not, the
  guard model is asked at most once for each active policy, and the proxy goes through at most as many rounds of choosing a
  key and calling a provider as there are providers in the chain, plus the requested one, times the configured number of
  attempts.\<close>

theorem handling_ends_within_bound:
  "ap_guard_calls (snd (handle_chat h rq ap)) \<le> ap_guard_calls ap + active_policies ap \<and>
   ap_step (snd (handle_chat h rq ap)) \<le> ap_step ap +
     (1 + length (fallback_chain_list (he_settings h))) * max 1 (nat (MAX_RETRIES (he_settings h)))"
  using handle_chat_asks handle_chat_rounds by (rule conjI)

section \<open>An example\<close>

text \<open>One provider with one key, a pattern that masks digits, and a provider that answers.\<close>

definition sample_chat_env :: "(unit redis_client, nat) chat_env" where
  "sample_chat_env =
     \<lparr>he_ops = redis_module no_redis_lib [],
      he_guard = \<lparr>ge_re = python_re, ge_crypto = prefix_cipher, ge_lib = plain_lib\<lparr>json_dumps := (\<lambda>_. ''j'')\<rparr>,
                 ge_settings = default_settings\<lparr>ENVIRONMENT := ''testing''\<rparr>, ge_now = (\<lambda>_. 0),
                 ge_call = (\<lambda>_ _ _ _ _ _. Reply sample_response)\<rparr>,
      he_warn = True, he_tokenizer = None,
      he_llm = (\<lambda>_ _ _. \<lparr>env_call = (\<lambda>_ _ _. Reply sample_response), env_before = (\<lambda>_. 0), env_after = (\<lambda>_. 1), env_pick = (\<lambda>_. 0)\<rparr>),
      he_stream = (\<lambda>_ _ _. \<lparr>env_call = (\<lambda>_ _ _. Reply ([[]], None)), env_before = (\<lambda>_. 0), env_after = (\<lambda>_. 1), env_pick = (\<lambda>_. 0)\<rparr>),
      he_send = (\<lambda>_ _. True), he_dump = ls_model, he_load = (\<lambda>_. Inl (ValueError [])), he_dumps = (\<lambda>_. ''m''), he_str_exn = (\<lambda>_. ''e'')\<rparr>"

definition sample_app :: "(unit redis_client, nat) app" where
  "sample_app =
     \<lparr>ap_store = new_redis_client, ap_db = empty_db, ap_limiter = new_limiter, ap_patterns = [pin_row],
      ap_pools = [(''anthropic'', (new_pool ''anthropic'')\<lparr>kp_keys := [\<lparr>ke_plaintext = ''k'', ke_db_id = None, ke_usage = 0, ke_errors = 0,
                   ke_healthy = True, ke_last_used = None\<rparr>]\<rparr>)],
      ap_breakers = new_manager default_settings, ap_step = 0, ap_calls = [], ap_streams = [], ap_guard_calls = 0,
      ap_sessions = new_session_manager, ap_cache = \<lparr>hit_count = 0, miss_count = 0\<rparr>, ap_stats = new_stats, ap_metrics = new_metrics\<rparr>"

definition sample_chat :: "string \<Rightarrow> bool \<Rightarrow> chat_request" where
  "sample_chat t stream =
     \<lparr>cq_http = \<lparr>rq_method = ''POST'', rq_path = ''/v1/chat/completions'', rq_headers = [], rq_cookies = [], rq_client = Some ''h'',
                rq_id = ''r1'', rq_signing = None\<rparr>,
      cq_user = \<lparr>au_name = ''n'', au_roles = [], au_permissions = [], au_client_id = Some ''c'', au_is_api_client = True\<rparr>,
      cq_body = \<lparr>cb_messages = said (JStr t), cb_model = Some ''m'', cb_stream = stream, cb_temperature = JNull, cb_max_tokens = JNull,
                cb_tools = JNull, cb_tool_choice = JNull, cb_stop = JNull, cb_provider = Some ''anthropic'', cb_system = None\<rparr>,
      cq_openai = True, cq_task = ''t'', cq_today = ''d'', cq_start = 0, cq_lined = 0, cq_queued = 0, cq_end = 1, cq_session_id = ''s'',
      cq_usage_id = ''u'', cq_log_id = ''l'', cq_nonces = ([], [])\<rparr>"


definition is_answer :: "py_exn + chat_answer \<Rightarrow> bool" where
  "is_answer x \<longleftrightarrow> (case x of Inr (Answer hs js) \<Rightarrow> map_of hs ''X-Cache-Hit'' = Some ''false'' | _ \<Rightarrow> False)"

definition is_stream :: "py_exn + chat_answer \<Rightarrow> bool" where
  "is_stream x \<longleftrightarrow> (case x of Inr (EventStream hs js) \<Rightarrow> True | _ \<Rightarrow> False)"

lemma sample_answer: "is_answer (fst (handle_chat sample_chat_env (sample_chat ''hi'' False) sample_app))"
  by code_simp

lemma sample_stream: "is_stream (fst (handle_chat sample_chat_env (sample_chat ''hi'' True) sample_app))"
  by code_simp

lemma sample_masked:
  "sanitize_messages (he_re sample_chat_env) (he_warn sample_chat_env) (ap_patterns sample_app) (cb_messages (cq_body (sample_chat ''id 12'' False))) =
   sanitize_messages (he_re sample_chat_env) (he_warn sample_chat_env) (ap_patterns sample_app) (cb_messages (cq_body (sample_chat ''id 34'' False)))"
  by code_simp


lemma masked_text_has_no_influence_witness:
  "handle_chat sample_chat_env (sample_chat ''id 12'' False) sample_app = handle_chat sample_chat_env (sample_chat ''id 34'' False) sample_app"
  by (rule masked_text_has_no_influence, rule sample_masked) (simp add: sample_chat_def)

definition broken_app :: "(unit redis_client, nat) app" where
  "broken_app = sample_app\<lparr>ap_patterns := [broken_row]\<rparr>"

lemma refused_request_leaves_no_trace_witness:
  "fst (handle_chat sample_chat_env (sample_chat ''hi'' False) broken_app) = Inl KeyError \<and>
   rc_look (ap_store (snd (handle_chat sample_chat_env (sample_chat ''hi'' False) broken_app))) 5 ''k'' = rc_look (ap_store broken_app) 5 ''k''"
proof -
  have p: "fst (prepare sample_chat_env (sample_chat ''hi'' False) broken_app) = Inl KeyError" by code_simp
  have o: "he_ops sample_chat_env = redis_module no_redis_lib []" by (simp add: sample_chat_env_def)
  have f: "in_fallback [] (ap_store broken_app)" by (simp add: broken_app_def sample_app_def in_fallback_def new_redis_client_def)
  have "''k'' \<notin> rate_keys (sample_chat ''hi'' False)" "cq_start (sample_chat ''hi'' False) \<le> 5"
    by (simp_all add: rate_keys_def sample_chat_def)
  with refused_request_leaves_no_trace [OF o f p prod.collapse [symmetric]] show ?thesis by blast
qed

definition spent_app :: "(unit redis_client, nat) app" where
  "spent_app = sample_app\<lparr>ap_db := record_all ''d'' [\<lparr>ue_uid = ''x'', ue_client = ''c'', ue_provider = ''p'', ue_model = ''m'', ue_input = 60,
     ue_output = 40\<rparr>] (empty_db\<lparr>t_clients := [(new_client_row ''c'' 5 [] (default_client_create ''a''))\<lparr>cl_daily_token_quota := 100\<rparr>]\<rparr>)\<rparr>"

lemma exhausted_quota_stops_calls_witness:
  "ap_calls (snd (handle_chat sample_chat_env (sample_chat ''hi'' False) spent_app)) = []"
proof -
  let ?rq = "sample_chat ''hi'' False"
  have "quota_used_up (get_quota_usage (cq_today ?rq) None ''c'' (ap_db spent_app))" by code_simp
  from exhausted_quota_stops_calls [OF _ _ this prod.collapse [symmetric]]
  have "ap_calls (snd (handle_chat sample_chat_env ?rq spent_app)) = ap_calls spent_app" by (simp add: sample_chat_def)
  then show ?thesis by (simp add: spent_app_def sample_app_def)
qed

lemma sample_fresh: "\<not> listed (sample_chat t b) sample_app" "\<not> present (sample_chat t b) sample_app"
  by (simp_all add: listed_def present_def sample_chat_def sample_app_def new_limiter_def new_session_manager_def)

lemma request_lifecycle_witness:
  "listed (sample_chat ''hi'' False) (snd (handle_chat sample_chat_env (sample_chat ''hi'' False) sample_app))"
  using request_lifecycle [OF prod.collapse [symmetric, of "handle_chat sample_chat_env (sample_chat ''hi'' False) sample_app"] sample_fresh] sample_answer
  by (auto simp: is_answer_def split: sum.splits chat_answer.splits)

lemma answered_request_is_accounted_witness:
  "mt_active (ap_metrics (snd (handle_chat sample_chat_env (sample_chat ''hi'' False) sample_app))) = - 1"
proof -
  obtain hs js where a: "fst (handle_chat sample_chat_env (sample_chat ''hi'' False) sample_app) = Inr (Answer hs js)"
      "map_of hs ''X-Cache-Hit'' = Some ''false''"
    using sample_answer by (auto simp: is_answer_def split: sum.splits chat_answer.splits)
  have "\<not> list_ex (\<lambda>x. rl_id x = cq_log_id (sample_chat ''hi'' False)) (t_request_logs (ap_db sample_app))"
    by (simp add: sample_app_def empty_db_def)
  from answered_request_is_accounted [OF prod.collapse [symmetric, of "handle_chat sample_chat_env (sample_chat ''hi'' False) sample_app", unfolded a(1)] a(2) this]
  show ?thesis by (auto simp: sample_app_def new_metrics_def)
qed

lemma streamed_request_is_free_witness:
  "ap_db (snd (handle_chat sample_chat_env (sample_chat ''hi'' True) sample_app)) = ap_db sample_app"
proof -
  obtain hs evs where a: "fst (handle_chat sample_chat_env (sample_chat ''hi'' True) sample_app) = Inr (EventStream hs evs)"
    using sample_stream by (auto simp: is_stream_def split: sum.splits chat_answer.splits)
  from streamed_request_is_free [OF prod.collapse [symmetric, of "handle_chat sample_chat_env (sample_chat ''hi'' True) sample_app", unfolded a]]
  show ?thesis by simp
qed

end
