(* ===== verification/Alerting.thy ===== *)
theory Alerting
  imports Caching Logs KeyPool
begin

text \<open>
  \<open>alerting.py\<close> and the health check of \<open>main.py\<close>: alerts sent to the web hooks that want them, the history of what
  was sent, and the table of configurations.  The state is the database and the list of requests made; the
  answer of a web hook, the texts of times and exceptions and new identifiers are arguments.  The configurations are selected
  without an order; the model takes them in the order of the table, as SQLite returns them.
\<close>


section \<open>Sending\<close>

record webhook_call =
  wc_url :: string
  wc_payload :: json
  wc_signature :: "string option"

record alert_env =
  an_settings :: settings
  an_lib :: pylib
  an_iso :: "time \<Rightarrow> string"
  an_post :: "string \<Rightarrow> json \<Rightarrow> string option \<Rightarrow> int res"   \<comment> \<open>the status of the answer\<close>
  an_str_exn :: "py_exn \<Rightarrow> string"

type_synonym alert_state = "database \<times> webhook_call list"

definition severity_order :: "(string, int) pydict" where
  "severity_order = [(''info'', 0), (''warning'', 1), (''critical'', 2)]"

definition wants_alert :: "string \<Rightarrow> string \<Rightarrow> alert_config_row \<Rightarrow> bool" where
  "wants_alert evt sev config \<longleftrightarrow>
     (ac_event_type config = [] \<or> ac_event_type config = evt \<or> ac_event_type config = ''*'') \<and>
     dict_get 1 (ac_min_severity config) severity_order \<le> dict_get 1 sev severity_order"

definition alert_payload :: "alert_env \<Rightarrow> time \<Rightarrow> string \<Rightarrow> string \<Rightarrow> string \<Rightarrow> string option \<Rightarrow> json" where
  "alert_payload env now evt sev msg detail =
     JObj [(''event'', JStr evt), (''severity'', JStr sev), (''timestamp'', JStr (an_iso env now)), (''message'', JStr msg),
           (''detail'', opt_json JStr detail), (''proxy_id'', JStr ''llm-sentinel'')]"

definition webhook_signature :: "alert_env \<Rightarrow> json \<Rightarrow> string option" where
  "webhook_signature env payload =
     (if WEBHOOK_SECRET (an_settings env) \<noteq> []
      then Some (hmac_sha256_hex (an_lib env) (utf8_encode (WEBHOOK_SECRET (an_settings env)))
                   (utf8_encode (json_dumps (an_lib env) (sort_keys payload))))
      else None)"

definition alert_history_entry :: "string \<Rightarrow> time \<Rightarrow> string \<Rightarrow> string \<Rightarrow> string \<Rightarrow> string \<Rightarrow> bool \<Rightarrow> string option \<Rightarrow> alert_history_row" where
  "alert_history_entry uid now config_id evt sev msg success err =
     \<lparr>ah_id = uid, ah_config_id = config_id, ah_event_type = evt, ah_severity = sev, ah_message = msg, ah_sent_at = now,
      ah_success = success, ah_error_message = err\<rparr>"

text \<open>Whether the web hook took the alert, and the error kept otherwise.\<close>

definition delivery :: "alert_env \<Rightarrow> int res \<Rightarrow> bool \<times> string option" where
  "delivery env answer =
     (case answer of
        Inr status \<Rightarrow> if 200 \<le> status \<and> status < 300 then (True, None) else (False, Some (''HTTP '' @ show_int status))
      | Inl e \<Rightarrow> (False, Some (an_str_exn env e)))"

definition send_webhook :: "alert_env \<Rightarrow> string \<Rightarrow> time \<Rightarrow> alert_config_row \<Rightarrow> string \<Rightarrow> string \<Rightarrow> string \<Rightarrow> string option
    \<Rightarrow> (alert_state, unit) io" where
  "send_webhook env uid now config evt sev msg detail = (\<lambda>(db, calls).
     let payload = alert_payload env now evt sev msg detail;
         sig = webhook_signature env payload;
         (success, err) = delivery env (an_post env (ac_webhook_url config) payload sig);
         (_, db') = try_except (with_db (\<lambda>db.
           if list_ex (\<lambda>r. ah_id r = uid) (t_alert_history db) then (Inl IntegrityError, db)
           else (Inr (), db\<lparr>t_alert_history := t_alert_history db @ [alert_history_entry uid now (ac_id config) evt sev msg success err]\<rparr>)))
           (\<lambda>_. ret ()) db
     in (Inr (), (db', calls @ [\<lparr>wc_url = ac_webhook_url config, wc_payload = payload, wc_signature = sig\<rparr>])))"

fun send_all :: "alert_env \<Rightarrow> (nat \<Rightarrow> string) \<Rightarrow> time \<Rightarrow> alert_config_row list \<Rightarrow> string \<Rightarrow> string \<Rightarrow> string \<Rightarrow> string option
    \<Rightarrow> nat \<Rightarrow> (alert_state, unit) io" where
  "send_all env uids now [] evt sev msg detail n = ret ()"
| "send_all env uids now (config # configs) evt sev msg detail n =
     (if wants_alert evt sev config
      then bnd (send_webhook env (uids n) now config evt sev msg detail) (\<lambda>_. send_all env uids now configs evt sev msg detail (Suc n))
      else send_all env uids now configs evt sev msg detail n)"

definition fire_alert :: "alert_env \<Rightarrow> (nat \<Rightarrow> string) \<Rightarrow> time \<Rightarrow> string \<Rightarrow> string \<Rightarrow> string \<Rightarrow> string option \<Rightarrow> (alert_state, unit) io" where
  "fire_alert env uids now evt sev msg detail = (\<lambda>(db, calls).
     send_all env uids now (filter ac_is_active (t_alert_configs db)) evt sev msg detail 0 (db, calls))"

definition find_alert_config :: "string \<Rightarrow> database \<Rightarrow> alert_config_row option" where
  "find_alert_config config_id db = find (\<lambda>r. ac_id r = config_id) (t_alert_configs db)"

definition test_webhook :: "alert_env \<Rightarrow> string \<Rightarrow> time \<Rightarrow> string \<Rightarrow> (alert_state, json) io" where
  "test_webhook env uid now config_id = (\<lambda>(db, calls).
     case find_alert_config config_id db of
       None \<Rightarrow> (Inr (JObj [(''success'', JBool False), (''error'', JStr ''Config not found'')]), (db, calls))
     | Some config \<Rightarrow>
         bnd (send_webhook env uid now config ''test_ping'' ''info'' ''Test ping from onPrem LLM Sentinel'' None)
           (\<lambda>_. ret (JObj [(''success'', JBool True), (''webhook_url'', JStr (ac_webhook_url config))])) (db, calls))"


section \<open>Configurations\<close>

record alert_config =
  av_id :: string
  av_event_type :: string
  av_webhook_url :: string
  av_description :: "string option"
  av_is_active :: bool
  av_min_severity :: string
  av_created_at :: time

definition severity_ok :: "string \<Rightarrow> bool" where
  "severity_ok s \<longleftrightarrow> s = ''info'' \<or> s = ''warning'' \<or> s = ''critical''"

definition alert_config_of :: "alert_config_row \<Rightarrow> alert_config res" where
  "alert_config_of r =
     (if severity_ok (ac_min_severity r)
      then Inr \<lparr>av_id = ac_id r, av_event_type = ac_event_type r, av_webhook_url = ac_webhook_url r, av_description = ac_description r,
                av_is_active = ac_is_active r, av_min_severity = ac_min_severity r, av_created_at = ac_created_at r\<rparr>
      else Inl (OtherError ''ValidationError''))"

definition get_all_configs :: "database \<Rightarrow> alert_config list res" where
  "get_all_configs db = all_res alert_config_of (newest_first ac_created_at (t_alert_configs db))"

definition new_alert_config :: "string \<Rightarrow> time \<Rightarrow> string \<Rightarrow> string \<Rightarrow> string option \<Rightarrow> string \<Rightarrow> alert_config_row" where
  "new_alert_config uid now event_type webhook_url description min_severity =
     \<lparr>ac_id = uid, ac_event_type = event_type, ac_webhook_url = webhook_url, ac_description = description, ac_is_active = True,
      ac_min_severity = min_severity, ac_created_at = now\<rparr>"

text \<open>The request model admits the three severities only.\<close>

definition create_config :: "string \<Rightarrow> time \<Rightarrow> string \<Rightarrow> string \<Rightarrow> string option \<Rightarrow> string \<Rightarrow> (database, alert_config) io" where
  "create_config uid now event_type webhook_url description min_severity =
     (let row = new_alert_config uid now event_type webhook_url description min_severity in
      if \<not> severity_ok min_severity then raise (OtherError ''ValidationError'')
      else with_db (\<lambda>db.
        if list_ex (\<lambda>r. ac_id r = uid) (t_alert_configs db) then (Inl IntegrityError, db)
        else (alert_config_of row, db\<lparr>t_alert_configs := t_alert_configs db @ [row]\<rparr>)))"

text \<open>
  \<open>update_config\<close> sets every column it is given a value for, the identifier included; values of other types than
  the columns' are outside the model, and so is the time of creation.
\<close>

record alert_fields =
  af_id :: "string option"
  af_event_type :: "string option"
  af_webhook_url :: "string option"
  af_description :: "string option"
  af_is_active :: "bool option"
  af_min_severity :: "string option"

definition apply_alert_fields :: "alert_fields \<Rightarrow> alert_config_row \<Rightarrow> alert_config_row" where
  "apply_alert_fields f r =
     r\<lparr>ac_id := (case af_id f of None \<Rightarrow> ac_id r | Some v \<Rightarrow> v),
       ac_event_type := (case af_event_type f of None \<Rightarrow> ac_event_type r | Some v \<Rightarrow> v),
       ac_webhook_url := (case af_webhook_url f of None \<Rightarrow> ac_webhook_url r | Some v \<Rightarrow> v),
       ac_description := (case af_description f of None \<Rightarrow> ac_description r | Some v \<Rightarrow> Some v),
       ac_is_active := (case af_is_active f of None \<Rightarrow> ac_is_active r | Some v \<Rightarrow> v),
       ac_min_severity := (case af_min_severity f of None \<Rightarrow> ac_min_severity r | Some v \<Rightarrow> v)\<rparr>"

definition update_config :: "string \<Rightarrow> alert_fields \<Rightarrow> (database, alert_config option) io" where
  "update_config config_id f =
     with_db (\<lambda>db.
       case find_alert_config config_id db of
         None \<Rightarrow> (Inr None, db)
       | Some row \<Rightarrow>
           (let row' = apply_alert_fields f row in
            if ac_id row' \<noteq> config_id \<and> list_ex (\<lambda>r. ac_id r = ac_id row') (t_alert_configs db) then (Inl IntegrityError, db)
            else (rbind (alert_config_of row') (\<lambda>v. Inr (Some v)),
                  db\<lparr>t_alert_configs := update_first (\<lambda>r. ac_id r = config_id) (\<lambda>_. row') (t_alert_configs db)\<rparr>)))"

text \<open>Deleting a configuration deletes its history.\<close>

definition delete_config :: "string \<Rightarrow> database \<Rightarrow> bool \<times> database" where
  "delete_config config_id db =
     (case find_alert_config config_id db of
        None \<Rightarrow> (False, db)
      | Some _ \<Rightarrow>
          (True, db\<lparr>t_alert_configs := delete_first (\<lambda>r. ac_id r = config_id) (t_alert_configs db),
                    t_alert_history := filter (\<lambda>r. ah_config_id r \<noteq> config_id) (t_alert_history db)\<rparr>))"

definition get_alert_history :: "int \<Rightarrow> string option \<Rightarrow> database \<Rightarrow> alert_history_row list" where
  "get_alert_history limit config_id db =
     sql_limit limit (newest_first ah_sent_at (filter (\<lambda>r. wanted config_id (Some (ah_config_id r))) (t_alert_history db)))"


section \<open>The health check\<close>

text \<open>The providers that have keys, none of them healthy.\<close>

definition unhealthy_providers :: "key_manager \<Rightarrow> string list" where
  "unhealthy_providers m =
     map fst (filter (\<lambda>(prov, pool). filter ke_healthy (kp_keys pool) = [] \<and> kp_count pool > 0) m)"

fun alert_unhealthy :: "alert_env \<Rightarrow> (nat \<Rightarrow> nat \<Rightarrow> string) \<Rightarrow> time \<Rightarrow> string list \<Rightarrow> nat \<Rightarrow> (alert_state, unit) io" where
  "alert_unhealthy env uids now [] n = ret ()"
| "alert_unhealthy env uids now (prov # ps) n =
     bnd (fire_alert env (uids n) now ''no_healthy_keys'' ''critical'' (''No healthy API keys for provider: '' @ prov) None)
       (\<lambda>_. alert_unhealthy env uids now ps (Suc n))"

definition health_check :: "alert_env \<Rightarrow> (nat \<Rightarrow> nat \<Rightarrow> string) \<Rightarrow> time \<Rightarrow> key_manager \<Rightarrow> (alert_state, unit) io" where
  "health_check env uids now m = try_except (alert_unhealthy env uids now (unhealthy_providers m) 0) (\<lambda>_. ret ())"


section \<open>Properties\<close>

definition call_to :: "alert_env \<Rightarrow> time \<Rightarrow> string \<Rightarrow> string \<Rightarrow> string \<Rightarrow> string option \<Rightarrow> alert_config_row \<Rightarrow> webhook_call" where
  "call_to env now evt sev msg detail c =
     \<lparr>wc_url = ac_webhook_url c, wc_payload = alert_payload env now evt sev msg detail,
      wc_signature = webhook_signature env (alert_payload env now evt sev msg detail)\<rparr>"

text \<open>What the history records of a call.\<close>

definition record_of :: "alert_env \<Rightarrow> webhook_call \<Rightarrow> alert_config_row \<Rightarrow> string \<times> bool \<times> string option" where
  "record_of env w c = (ac_id c, delivery env (an_post env (wc_url w) (wc_payload w) (wc_signature w)))"

definition recorded :: "alert_history_row \<Rightarrow> string \<times> bool \<times> string option" where
  "recorded r = (ah_config_id r, ah_success r, ah_error_message r)"

lemma send_webhook_effect:
  assumes "\<not> list_ex (\<lambda>r. ah_id r = uid) (t_alert_history db)"
  shows "\<exists>row. ah_id row = uid \<and> recorded row = record_of env (call_to env now evt sev msg detail c) c \<and>
    send_webhook env uid now c evt sev msg detail (db, calls) =
      (Inr (), (db\<lparr>t_alert_history := t_alert_history db @ [row]\<rparr>, calls @ [call_to env now evt sev msg detail c]))"
  using assms
  by (intro exI [of _ "alert_history_entry uid now (ac_id c) evt sev msg
        (fst (delivery env (an_post env (ac_webhook_url c) (alert_payload env now evt sev msg detail)
           (webhook_signature env (alert_payload env now evt sev msg detail)))))
        (snd (delivery env (an_post env (ac_webhook_url c) (alert_payload env now evt sev msg detail)
           (webhook_signature env (alert_payload env now evt sev msg detail)))))"])
    (simp add: send_webhook_def call_to_def record_of_def recorded_def alert_history_entry_def Let_def case_prod_beta try_except_def with_db_def)

lemma send_all_effect:
  assumes "inj uids" and "\<And>k. n \<le> k \<Longrightarrow> \<not> list_ex (\<lambda>r. ah_id r = uids k) (t_alert_history db)"
  shows "\<exists>rows. send_all env uids now cs evt sev msg detail n (db, calls) =
      (Inr (), (db\<lparr>t_alert_history := t_alert_history db @ rows\<rparr>,
                calls @ map (call_to env now evt sev msg detail) (filter (wants_alert evt sev) cs))) \<and>
    map recorded rows = map (\<lambda>c. record_of env (call_to env now evt sev msg detail c) c) (filter (wants_alert evt sev) cs)"
  using assms(2)
proof (induction cs arbitrary: n db calls)
  case Nil
  have "db = db\<lparr>t_alert_history := t_alert_history db @ []\<rparr>" by simp
  then show ?case by (intro exI [of _ "[]"]) simp
next
  case (Cons c cs)
  show ?case
  proof (cases "wants_alert evt sev c")
    case True
    obtain row where row: "ah_id row = uids n" "recorded row = record_of env (call_to env now evt sev msg detail c) c"
      "send_webhook env (uids n) now c evt sev msg detail (db, calls) =
        (Inr (), (db\<lparr>t_alert_history := t_alert_history db @ [row]\<rparr>, calls @ [call_to env now evt sev msg detail c]))"
      using send_webhook_effect [OF Cons.prems [of n]] by blast
    let ?db = "db\<lparr>t_alert_history := t_alert_history db @ [row]\<rparr>"
    have "\<not> list_ex (\<lambda>r. ah_id r = uids k) (t_alert_history ?db)" if "Suc n \<le> k" for k
      using Cons.prems [of k] that row(1) injD [OF assms(1), of n k] by auto
    then obtain rows where rows: "send_all env uids now cs evt sev msg detail (Suc n) (?db, calls @ [call_to env now evt sev msg detail c]) =
        (Inr (), (?db\<lparr>t_alert_history := t_alert_history ?db @ rows\<rparr>, (calls @ [call_to env now evt sev msg detail c]) @
           map (call_to env now evt sev msg detail) (filter (wants_alert evt sev) cs)))"
      "map recorded rows = map (\<lambda>c. record_of env (call_to env now evt sev msg detail c) c) (filter (wants_alert evt sev) cs)"
      using Cons.IH [of "Suc n" ?db "calls @ [call_to env now evt sev msg detail c]"] by blast
    show ?thesis by (rule exI [of _ "row # rows"]) (simp add: True bnd_def row rows)
  next
    case False
    with Cons.IH [of n db calls] Cons.prems show ?thesis by simp
  qed
qed

text \<open>C36.  An alert reaches exactly the active configurations that ask for its event and for a severity no higher than its
  own, each once and in their order, with the same signed payload; the history gets one row for each, which
  says whether the web hook answered with a status of success and keeps the error otherwise.\<close>

theorem alert_reaches_subscribers:
  assumes "inj uids" and "\<And>k. \<not> list_ex (\<lambda>r. ah_id r = uids k) (t_alert_history db)"
    and "fire_alert env uids now evt sev msg detail (db, calls) = (r, (db', calls'))"
  shows "r = Inr () \<and> (let subscribers = filter (\<lambda>c. ac_is_active c \<and> wants_alert evt sev c) (t_alert_configs db) in
    calls' = calls @ map (call_to env now evt sev msg detail) subscribers \<and>
    map recorded (t_alert_history db') = map recorded (t_alert_history db) @
      map (\<lambda>c. record_of env (call_to env now evt sev msg detail c) c) subscribers)"
proof -
  obtain rows where "send_all env uids now (filter ac_is_active (t_alert_configs db)) evt sev msg detail 0 (db, calls) =
      (Inr (), (db\<lparr>t_alert_history := t_alert_history db @ rows\<rparr>,
                calls @ map (call_to env now evt sev msg detail) (filter (wants_alert evt sev) (filter ac_is_active (t_alert_configs db)))))"
    "map recorded rows = map (\<lambda>c. record_of env (call_to env now evt sev msg detail c) c)
       (filter (wants_alert evt sev) (filter ac_is_active (t_alert_configs db)))"
    using send_all_effect [OF assms(1), of 0 db] assms(2) by blast
  with assms(3) show ?thesis by (auto simp: fire_alert_def Let_def filter_filter conj_commute)
qed

definition sample_alert_env :: alert_env where
  "sample_alert_env = \<lparr>an_settings = default_settings, an_lib = plain_lib, an_iso = (\<lambda>_. ''t''),
     an_post = (\<lambda>url _ _. if url = ''a'' then Inr 200 else Inr 500), an_str_exn = (\<lambda>_. ''e'')\<rparr>"

lemma alert_reaches_subscribers_witness:
  "map recorded (t_alert_history (fst (snd (fire_alert sample_alert_env (\<lambda>n. replicate n CHR ''x'') 5 ''ip_ban'' ''warning'' ''m'' None
     (empty_db\<lparr>t_alert_configs := [new_alert_config ''1'' 0 ''ip_ban'' ''a'' None ''info'', new_alert_config ''2'' 0 ''*'' ''b'' None ''warning'',
        new_alert_config ''3'' 0 ''*'' ''a'' None ''critical'']\<rparr>, []))))) =
   [(''1'', True, None), (''2'', False, Some ''HTTP 500'')]"
proof -
  let ?db = "empty_db\<lparr>t_alert_configs := [new_alert_config ''1'' 0 ''ip_ban'' ''a'' None ''info'', new_alert_config ''2'' 0 ''*'' ''b'' None ''warning'',
        new_alert_config ''3'' 0 ''*'' ''a'' None ''critical'']\<rparr>"
  have i: "inj (\<lambda>n. replicate n CHR ''x'')" by (rule injI) simp
  obtain r db' calls' where f: "fire_alert sample_alert_env (\<lambda>n. replicate n CHR ''x'') 5 ''ip_ban'' ''warning'' ''m'' None (?db, []) = (r, (db', calls'))"
    by (metis surj_pair)
  have "show_int 500 = ''500''" by code_simp
  with alert_reaches_subscribers [OF i _ f] have "map recorded (t_alert_history db') = [(''1'', True, None), (''2'', False, Some ''HTTP 500'')]"
    by (simp add: empty_db_def new_alert_config_def wants_alert_def severity_order_def dict_get_def record_of_def call_to_def
        sample_alert_env_def delivery_def Let_def)
  then show ?thesis by (simp add: f)
qed

end
