(* ===== verification/ConfigExport.thy ===== *)
theory ConfigExport
  imports Alerting Clients DataFilter
begin

text \<open>
  \<open>config_export.py\<close>: the signed export of the configuration tables and the import of such data.  Values of an
  import are of the types of the columns; the dash of the error message is the ASCII one; the text of times, new identifiers and the random part of API keys are
  arguments.
\<close>


section \<open>Export\<close>

record export_data =
  xd_schema_version :: string
  xd_exported_at :: "string option"
  xd_proxy_version :: string
  xd_signature :: "string option"
  xd_filter_patterns :: "jdict list"
  xd_model_aliases :: "jdict list"
  xd_cost_rates :: "jdict list"
  xd_alert_configs :: "jdict list"
  xd_clients :: "jdict list"
  xd_content_policies :: "jdict list"
  xd_provider_configs :: "jdict list"
  xd_runtime_config :: jdict

text \<open>The rows as dictionaries of their columns.\<close>

definition pattern_dict :: "(time \<Rightarrow> string) \<Rightarrow> filter_pattern_row \<Rightarrow> jdict" where
  "pattern_dict isof r =
     [(''id'', JStr (fp_id r)), (''name'', JStr (fp_name r)), (''pattern'', JStr (fp_pattern r)), (''replacement'', JStr (fp_replacement r)),
      (''flags'', JStr (fp_flags r)), (''is_active'', JBool (fp_is_active r)), (''is_builtin'', JBool (fp_is_builtin r)),
      (''created_at'', JStr (isof (fp_created_at r)))]"

definition alias_dict :: "(time \<Rightarrow> string) \<Rightarrow> model_alias_row \<Rightarrow> jdict" where
  "alias_dict isof r =
     [(''id'', JStr (ma_id r)), (''alias'', JStr (ma_alias r)), (''provider'', JStr (ma_provider r)), (''model'', JStr (ma_model r)),
      (''description'', opt_json JStr (ma_description r)), (''is_active'', JBool (ma_is_active r)),
      (''created_at'', JStr (isof (ma_created_at r))), (''usage_count'', JInt (ma_usage_count r))]"

definition rate_dict :: "(time \<Rightarrow> string) \<Rightarrow> cost_rate_row \<Rightarrow> jdict" where
  "rate_dict isof r =
     [(''id'', JStr (cr_id r)), (''provider'', JStr (cr_provider r)), (''model'', JStr (cr_model r)),
      (''input_cost_per_1k'', JFloat (cr_input_cost_per_1k r)), (''output_cost_per_1k'', JFloat (cr_output_cost_per_1k r)),
      (''currency'', JStr (cr_currency r)), (''effective_from'', JStr (isof (cr_effective_from r))), (''is_active'', JBool (cr_is_active r))]"

definition alert_dict :: "(time \<Rightarrow> string) \<Rightarrow> alert_config_row \<Rightarrow> jdict" where
  "alert_dict isof r =
     [(''id'', JStr (ac_id r)), (''event_type'', JStr (ac_event_type r)), (''webhook_url'', JStr (ac_webhook_url r)),
      (''description'', opt_json JStr (ac_description r)), (''is_active'', JBool (ac_is_active r)),
      (''min_severity'', JStr (ac_min_severity r)), (''created_at'', JStr (isof (ac_created_at r)))]"

definition provider_dict :: "(time \<Rightarrow> string) \<Rightarrow> provider_config_row \<Rightarrow> jdict" where
  "provider_dict isof r =
     [(''id'', JStr (pc_id r)), (''name'', JStr (pc_name r)), (''provider_type'', JStr (pc_provider_type r)),
      (''base_url'', opt_json JStr (pc_base_url r)), (''api_key_header_name'', JStr (pc_api_key_header_name r)),
      (''default_model'', JStr (pc_default_model r)), (''max_context_tokens'', JInt (pc_max_context_tokens r)),
      (''is_active'', JBool (pc_is_active r)), (''config_json'', pc_config_json r), (''created_at'', JStr (isof (pc_created_at r)))]"

definition policy_dict :: "(time \<Rightarrow> string) \<Rightarrow> content_policy_row \<Rightarrow> jdict" where
  "policy_dict isof r =
     [(''id'', JStr (cp_id r)), (''name'', JStr (cp_name r)), (''policy_type'', JStr (cp_policy_type r)), (''config_json'', JObj (cp_config_json r)),
      (''is_active'', JBool (cp_is_active r)), (''applies_to_clients'', opt_json id (cp_applies_to_clients r)),
      (''priority'', JInt (cp_priority r)), (''created_at'', JStr (isof (cp_created_at r)))]"

text \<open>Neither the digest of the API key nor the metadata of a client is exported.\<close>

definition client_dict :: "(time \<Rightarrow> string) \<Rightarrow> client_row \<Rightarrow> jdict" where
  "client_dict isof c =
     [(''id'', JStr (cl_id c)), (''name'', JStr (cl_name c)), (''roles'', cl_roles c), (''permissions'', cl_permissions c),
      (''allowed_providers'', cl_allowed_providers c), (''allowed_models'', cl_allowed_models c),
      (''rate_limit_per_minute'', JInt (cl_rate_limit_per_minute c)), (''token_limit_per_minute'', JInt (cl_token_limit_per_minute c)),
      (''daily_token_quota'', JInt (cl_daily_token_quota c)), (''max_concurrent_requests'', JInt (cl_max_concurrent_requests c)),
      (''require_signing'', JBool (cl_require_signing c)), (''priority'', JInt (cl_priority c)), (''cache_enabled'', JBool (cl_cache_enabled c)),
      (''ldap_group'', opt_json JStr (cl_ldap_group c)), (''is_active'', JBool (cl_is_active c)), (''created_at'', JStr (isof (cl_created_at c))),
      (''last_used_at'', opt_json (\<lambda>t. JStr (isof t)) (cl_last_used_at c)), (''description'', opt_json JStr (cl_description c))]"

text \<open>What is signed: everything but the signature.\<close>

definition signable :: "export_data \<Rightarrow> json" where
  "signable d =
     JObj [(''schema_version'', JStr (xd_schema_version d)), (''exported_at'', opt_json JStr (xd_exported_at d)),
           (''proxy_version'', JStr (xd_proxy_version d)), (''filter_patterns'', JList (map JObj (xd_filter_patterns d))),
           (''model_aliases'', JList (map JObj (xd_model_aliases d))), (''cost_rates'', JList (map JObj (xd_cost_rates d))),
           (''alert_configs'', JList (map JObj (xd_alert_configs d))), (''clients'', JList (map JObj (xd_clients d))),
           (''content_policies'', JList (map JObj (xd_content_policies d))), (''provider_configs'', JList (map JObj (xd_provider_configs d))),
           (''runtime_config'', JObj (xd_runtime_config d))]"

definition sign_export :: "pylib \<Rightarrow> json \<Rightarrow> string \<Rightarrow> string" where
  "sign_export pl data secret = hmac_sha256_hex pl (utf8_encode secret) (utf8_encode (json_dumps pl (sort_keys data)))"

definition unsigned_export :: "settings \<Rightarrow> (time \<Rightarrow> string) \<Rightarrow> time \<Rightarrow> database \<Rightarrow> export_data" where
  "unsigned_export st isof now db =
     \<lparr>xd_schema_version = ''1.0'', xd_exported_at = Some (isof now), xd_proxy_version = ''1.0.0'', xd_signature = None,
      xd_filter_patterns = map (pattern_dict isof) (t_filter_patterns db), xd_model_aliases = map (alias_dict isof) (t_model_aliases db),
      xd_cost_rates = map (rate_dict isof) (filter cr_is_active (t_cost_rates db)), xd_alert_configs = map (alert_dict isof) (t_alert_configs db),
      xd_clients = map (client_dict isof) (t_clients db), xd_content_policies = map (policy_dict isof) (t_content_policies db),
      xd_provider_configs = map (provider_dict isof) (t_provider_configs db),
      xd_runtime_config = [(''log_request_body'', JBool (LOG_REQUEST_BODY st)), (''context_truncation_enabled'', JBool (CONTEXT_TRUNCATION_ENABLED st))]\<rparr>"

definition export_config :: "pylib \<Rightarrow> settings \<Rightarrow> (time \<Rightarrow> string) \<Rightarrow> time \<Rightarrow> database \<Rightarrow> export_data" where
  "export_config pl st isof now db =
     (let data = unsigned_export st isof now db in
      if KEY_ENCRYPTION_SECRET st \<noteq> [] then data\<lparr>xd_signature := Some (sign_export pl (signable data) (KEY_ENCRYPTION_SECRET st))\<rparr> else data)"

definition verify_signature :: "pylib \<Rightarrow> settings \<Rightarrow> export_data \<Rightarrow> bool option" where
  "verify_signature pl st d =
     (if \<not> given (xd_signature d) \<or> KEY_ENCRYPTION_SECRET st = [] then None
      else Some (sign_export pl (signable d) (KEY_ENCRYPTION_SECRET st) = the (xd_signature d)))"


section \<open>Import\<close>

record import_options =
  io_overwrite_existing :: bool
  io_import_clients :: bool
  io_import_alert_configs :: bool
  io_verify_signature :: bool

record import_result =
  ir_filter_patterns :: nat
  ir_aliases :: nat
  ir_cost_rates :: nat
  ir_alert_configs :: nat
  ir_clients :: nat
  ir_skipped :: nat
  ir_errors :: "string list"
  ir_signature_valid :: "bool option"

definition new_import_result :: import_result where
  "new_import_result = \<lparr>ir_filter_patterns = 0, ir_aliases = 0, ir_cost_rates = 0, ir_alert_configs = 0, ir_clients = 0, ir_skipped = 0,
     ir_errors = [], ir_signature_valid = None\<rparr>"

text \<open>Values for columns: a missing one has its default, null is refused by a column that must have a value.\<close>

definition column :: "(json \<Rightarrow> 'a option) \<Rightarrow> 'a \<Rightarrow> string \<Rightarrow> jdict \<Rightarrow> 'a res" where
  "column f dflt k d =
     (case map_of d k of
        None \<Rightarrow> Inr dflt
      | Some v \<Rightarrow> if v = JNull then Inl IntegrityError else case f v of Some a \<Rightarrow> Inr a | None \<Rightarrow> Inl (OtherError ''StatementError''))"

definition nullable_column :: "(json \<Rightarrow> 'a option) \<Rightarrow> string \<Rightarrow> jdict \<Rightarrow> 'a option res" where
  "nullable_column f k d =
     (case map_of d k of
        None \<Rightarrow> Inr None
      | Some v \<Rightarrow> if v = JNull then Inr None else case f v of Some a \<Rightarrow> Inr (Some a) | None \<Rightarrow> Inl (OtherError ''StatementError''))"

fun of_str :: "json \<Rightarrow> string option" where
  "of_str (JStr s) = Some s"
| "of_str _ = None"

fun of_bool :: "json \<Rightarrow> bool option" where
  "of_bool (JBool b) = Some b"
| "of_bool _ = None"

fun of_number :: "json \<Rightarrow> rat option" where
  "of_number (JInt i) = Some (of_int i)"
| "of_number (JFloat x) = Some x"
| "of_number _ = None"

text \<open>A row whose column equals the value given, which no row does when there is none.\<close>

definition same_text :: "string \<Rightarrow> jdict \<Rightarrow> string \<Rightarrow> bool" where
  "same_text k d s \<longleftrightarrow> map_of d k = Some (JStr s)"

definition import_item :: "bool \<Rightarrow> (database \<Rightarrow> bool) \<Rightarrow> (database, unit) io \<Rightarrow> (import_result \<Rightarrow> import_result) \<Rightarrow> import_result
    \<Rightarrow> (database, import_result) io" where
  "import_item overwrite existing add counted r = (\<lambda>db.
     if existing db \<and> \<not> overwrite then (Inr (r\<lparr>ir_skipped := ir_skipped r + 1\<rparr>), db)
     else bnd add (\<lambda>_. ret (counted r)) db)"

fun import_each :: "(nat \<Rightarrow> jdict \<Rightarrow> import_result \<Rightarrow> (database, import_result) io) \<Rightarrow> nat \<Rightarrow> jdict list \<Rightarrow> import_result
    \<Rightarrow> (database, import_result) io" where
  "import_each f n [] r = ret r"
| "import_each f n (d # ds) r = bnd (f n d r) (\<lambda>r'. import_each f (Suc n) ds r')"

definition insert_row :: "'r res \<Rightarrow> ('r \<Rightarrow> database \<Rightarrow> bool) \<Rightarrow> ('r \<Rightarrow> database \<Rightarrow> database) \<Rightarrow> (database, unit) io" where
  "insert_row row clash add = (\<lambda>db.
     case row of Inl e \<Rightarrow> (Inl e, db) | Inr r \<Rightarrow> if clash r db then (Inl IntegrityError, db) else (Inr (), add r db))"

definition pattern_of_dict :: "string \<Rightarrow> time \<Rightarrow> jdict \<Rightarrow> filter_pattern_row res" where
  "pattern_of_dict uid now d =
     rbind (column of_str [] ''name'' d) (\<lambda>name. rbind (column of_str [] ''pattern'' d) (\<lambda>pattern.
     rbind (column of_str ''[REDACTED]'' ''replacement'' d) (\<lambda>replacement. rbind (column of_str ''IGNORECASE'' ''flags'' d) (\<lambda>flags.
     rbind (column of_bool True ''is_active'' d) (\<lambda>active. rbind (column of_bool False ''is_builtin'' d) (\<lambda>builtin.
     Inr ((new_pattern uid now name pattern replacement flags builtin)\<lparr>fp_is_active := active\<rparr>)))))))"

definition import_pattern :: "bool \<Rightarrow> (nat \<Rightarrow> string) \<Rightarrow> time \<Rightarrow> nat \<Rightarrow> jdict \<Rightarrow> import_result \<Rightarrow> (database, import_result) io" where
  "import_pattern overwrite uids now n d =
     import_item overwrite (\<lambda>db. list_ex (\<lambda>r. same_text ''name'' d (fp_name r)) (t_filter_patterns db))
       (insert_row (pattern_of_dict (uids n) now d) (\<lambda>r db. list_ex (\<lambda>r'. fp_id r' = fp_id r) (t_filter_patterns db))
          (\<lambda>r db. db\<lparr>t_filter_patterns := t_filter_patterns db @ [r]\<rparr>))
       (\<lambda>r. r\<lparr>ir_filter_patterns := ir_filter_patterns r + 1\<rparr>)"

text \<open>The name of an alias is unique, so an existing one cannot be overwritten: the import fails.\<close>

definition alias_of_dict :: "string \<Rightarrow> time \<Rightarrow> jdict \<Rightarrow> model_alias_row res" where
  "alias_of_dict uid now d =
     rbind (column of_str [] ''alias'' d) (\<lambda>a. rbind (column of_str [] ''provider'' d) (\<lambda>provider.
     rbind (column of_str [] ''model'' d) (\<lambda>model. rbind (nullable_column of_str ''description'' d) (\<lambda>description.
     rbind (column of_bool True ''is_active'' d) (\<lambda>active.
     Inr ((new_alias uid now a provider model description)\<lparr>ma_is_active := active\<rparr>))))))"

definition import_alias :: "bool \<Rightarrow> (nat \<Rightarrow> string) \<Rightarrow> time \<Rightarrow> nat \<Rightarrow> jdict \<Rightarrow> import_result \<Rightarrow> (database, import_result) io" where
  "import_alias overwrite uids now n d =
     import_item overwrite (\<lambda>db. list_ex (\<lambda>r. same_text ''alias'' d (ma_alias r)) (t_model_aliases db))
       (insert_row (alias_of_dict (uids n) now d) (\<lambda>r db. alias_exists (ma_alias r) db \<or> list_ex (\<lambda>r'. ma_id r' = ma_id r) (t_model_aliases db))
          (\<lambda>r db. db\<lparr>t_model_aliases := t_model_aliases db @ [r]\<rparr>))
       (\<lambda>r. r\<lparr>ir_aliases := ir_aliases r + 1\<rparr>)"

definition rate_of_dict :: "string \<Rightarrow> time \<Rightarrow> jdict \<Rightarrow> cost_rate_row res" where
  "rate_of_dict uid now d =
     rbind (column of_str [] ''provider'' d) (\<lambda>provider. rbind (column of_str [] ''model'' d) (\<lambda>model.
     rbind (column of_number 0 ''input_cost_per_1k'' d) (\<lambda>inp. rbind (column of_number 0 ''output_cost_per_1k'' d) (\<lambda>outp.
     Inr (new_rate uid now provider model inp outp)))))"

definition import_rate :: "bool \<Rightarrow> (nat \<Rightarrow> string) \<Rightarrow> time \<Rightarrow> nat \<Rightarrow> jdict \<Rightarrow> import_result \<Rightarrow> (database, import_result) io" where
  "import_rate overwrite uids now n d =
     import_item overwrite
       (\<lambda>db. list_ex (\<lambda>r. same_text ''provider'' d (cr_provider r) \<and> same_text ''model'' d (cr_model r)) (t_cost_rates db))
       (insert_row (rate_of_dict (uids n) now d)
          (\<lambda>r db. list_ex (\<lambda>r'. cr_id r' = cr_id r \<or> cr_provider r' = cr_provider r \<and> cr_model r' = cr_model r \<and>
                             cr_effective_from r' = cr_effective_from r) (t_cost_rates db))
          (\<lambda>r db. db\<lparr>t_cost_rates := t_cost_rates db @ [r]\<rparr>))
       (\<lambda>r. r\<lparr>ir_cost_rates := ir_cost_rates r + 1\<rparr>)"

definition alert_of_dict :: "string \<Rightarrow> time \<Rightarrow> jdict \<Rightarrow> alert_config_row res" where
  "alert_of_dict uid now d =
     rbind (column of_str [] ''event_type'' d) (\<lambda>event. rbind (column of_str [] ''webhook_url'' d) (\<lambda>url.
     rbind (nullable_column of_str ''description'' d) (\<lambda>description. rbind (column of_bool True ''is_active'' d) (\<lambda>active.
     rbind (column of_str ''warning'' ''min_severity'' d) (\<lambda>severity.
     Inr ((new_alert_config uid now event url description severity)\<lparr>ac_is_active := active\<rparr>))))))"

definition import_alert :: "bool \<Rightarrow> (nat \<Rightarrow> string) \<Rightarrow> time \<Rightarrow> nat \<Rightarrow> jdict \<Rightarrow> import_result \<Rightarrow> (database, import_result) io" where
  "import_alert overwrite uids now n d =
     import_item overwrite
       (\<lambda>db. list_ex (\<lambda>r. same_text ''webhook_url'' d (ac_webhook_url r) \<and> same_text ''event_type'' d (ac_event_type r)) (t_alert_configs db))
       (insert_row (alert_of_dict (uids n) now d) (\<lambda>r db. list_ex (\<lambda>r'. ac_id r' = ac_id r) (t_alert_configs db))
          (\<lambda>r db. db\<lparr>t_alert_configs := t_alert_configs db @ [r]\<rparr>))
       (\<lambda>r. r\<lparr>ir_alert_configs := ir_alert_configs r + 1\<rparr>)"

text \<open>
  An imported client is inactive, has a key nobody knows, and the limits of a new client, not those of the export.  An
  existing one is skipped whatever the options.
\<close>

definition client_of_dict :: "pylib \<Rightarrow> string \<Rightarrow> time \<Rightarrow> string \<Rightarrow> jdict \<Rightarrow> client_row res" where
  "client_of_dict pl uid now hex d =
     rbind (column of_str [] ''name'' d) (\<lambda>name. rbind (nullable_column of_str ''description'' d) (\<lambda>description.
     Inr ((new_client_row uid now (hash_api_key pl (generate_api_key hex)) (default_client_create name))
            \<lparr>cl_roles := jget_or (JList [JStr ''api_client'']) ''roles'' d, cl_permissions := jget_or (JList [JStr ''*'']) ''permissions'' d,
             cl_is_active := False, cl_description := description\<rparr>)))"

definition import_client :: "pylib \<Rightarrow> (nat \<Rightarrow> string) \<Rightarrow> (nat \<Rightarrow> string) \<Rightarrow> time \<Rightarrow> nat \<Rightarrow> jdict \<Rightarrow> import_result
    \<Rightarrow> (database, import_result) io" where
  "import_client pl uids hexes now n d =
     import_item False
       (\<lambda>db. case jget_or (JStr []) ''name'' d of JStr s \<Rightarrow> list_ex (\<lambda>c. cl_name c = s) (t_clients db) | _ \<Rightarrow> False)
       (insert_row (client_of_dict pl (uids n) now (hexes n) d) (\<lambda>c db. list_ex (\<lambda>c'. cl_id c' = cl_id c) (t_clients db))
          (\<lambda>c db. db\<lparr>t_clients := t_clients db @ [c]\<rparr>))
       (\<lambda>r. r\<lparr>ir_clients := ir_clients r + 1\<rparr>)"

definition import_all :: "pylib \<Rightarrow> (nat \<Rightarrow> string) \<Rightarrow> (nat \<Rightarrow> string) \<Rightarrow> time \<Rightarrow> export_data \<Rightarrow> import_options \<Rightarrow> import_result
    \<Rightarrow> (database, import_result) io" where
  "import_all pl uids hexes now d opts r0 =
     bnd (import_each (import_pattern (io_overwrite_existing opts) uids now) 0 (xd_filter_patterns d) r0) (\<lambda>r1.
     bnd (import_each (import_alias (io_overwrite_existing opts) uids now) 0 (xd_model_aliases d) r1) (\<lambda>r2.
     bnd (import_each (import_rate (io_overwrite_existing opts) uids now) 0 (xd_cost_rates d) r2) (\<lambda>r3.
     bnd (if io_import_alert_configs opts
          then import_each (import_alert (io_overwrite_existing opts) uids now) 0 (xd_alert_configs d) r3 else ret r3) (\<lambda>r4.
     if io_import_clients opts then import_each (import_client pl uids hexes now) 0 (xd_clients d) r4 else ret r4))))"

definition import_config :: "pylib \<Rightarrow> settings \<Rightarrow> (nat \<Rightarrow> string) \<Rightarrow> (nat \<Rightarrow> string) \<Rightarrow> time \<Rightarrow> export_data \<Rightarrow> import_options
    \<Rightarrow> (database, import_result) io" where
  "import_config pl st uids hexes now d opts =
     (let checked = io_verify_signature opts \<and> given (xd_signature d);
          valid = (if checked then verify_signature pl st d else None);
          r0 = new_import_result\<lparr>ir_signature_valid := valid\<rparr>
      in if valid = Some False
         then ret (r0\<lparr>ir_errors := [''Invalid signature - data may have been tampered with'']\<rparr>)
         else with_db (import_all pl uids hexes now d opts r0))"


section \<open>Importing an export\<close>

text \<open>
  The rows of an export that a table lacks, by their key, the first of each key; and a table after the import of rows: its
  own as they were, and then the lacking ones, with the content they were exported with.
\<close>

fun lacking :: "('r \<Rightarrow> 'k) \<Rightarrow> 'k list \<Rightarrow> 'r list \<Rightarrow> 'r list" where
  "lacking key ks [] = []"
| "lacking key ks (x # xs) = (if key x \<in> set ks then lacking key ks xs else x # lacking key (key x # ks) xs)"

definition merged :: "('r \<Rightarrow> 'k) \<Rightarrow> ('r \<Rightarrow> 'c) \<Rightarrow> 'r list \<Rightarrow> 'r list \<Rightarrow> 'r list \<Rightarrow> bool" where
  "merged key core old xs new \<longleftrightarrow> (\<exists>ys. new = old @ ys \<and> map core ys = map core (lacking key (map key old) xs))"

definition lacking_count :: "('r \<Rightarrow> 'k) \<Rightarrow> 'r list \<Rightarrow> 'r list \<Rightarrow> nat" where
  "lacking_count key old xs = length (lacking key (map key old) xs)"

lemma lacking_keys: "set ks = set ks' \<Longrightarrow> lacking key ks xs = lacking key ks' xs"
proof (induction xs arbitrary: ks ks')
  case (Cons x xs)
  have "lacking key (key x # ks) xs = lacking key (key x # ks') xs" by (rule Cons.IH) (simp add: Cons.prems)
  with Cons.IH [OF Cons.prems] Cons.prems show ?case by simp
qed simp

lemma lacking_length: "length (lacking key ks xs) \<le> length xs"
  by (induction xs arbitrary: ks) (auto intro: le_SucI)

text \<open>
  What the import of one kind of row promises: a row whose key is in the table is skipped; one whose key and identifier are
  not is appended, with the content the dictionary was made from; and nothing else changes.
\<close>

locale import_table =
  fixes item :: "nat \<Rightarrow> jdict \<Rightarrow> import_result \<Rightarrow> (database, import_result) io"
    and tbl :: "database \<Rightarrow> 'r list"
    and rest :: "database \<Rightarrow> database"
    and key :: "'r \<Rightarrow> 'k"
    and core :: "'r \<Rightarrow> 'c"
    and rid :: "'r \<Rightarrow> string"
    and dict :: "'r \<Rightarrow> jdict"
    and uids :: "nat \<Rightarrow> string"
  assumes item_known: "key x \<in> key ` set (tbl db) \<Longrightarrow> item n (dict x) r db = (Inr (r\<lparr>ir_skipped := ir_skipped r + 1\<rparr>), db)"
    and item_fresh: "key x \<notin> key ` set (tbl db) \<Longrightarrow> uids n \<notin> rid ` set (tbl db) \<Longrightarrow>
      \<exists>y r' db'. item n (dict x) r db = (Inr r', db') \<and> tbl db' = tbl db @ [y] \<and> rest db' = rest db \<and> key y = key x \<and> core y = core x \<and>
        rid y = uids n \<and> ir_skipped r' = ir_skipped r \<and> ir_signature_valid r' = ir_signature_valid r"
begin

lemma import_rows:
  assumes "inj uids" and "\<And>k. n \<le> k \<Longrightarrow> uids k \<notin> rid ` set (tbl db)"
  shows "\<exists>r' db'. import_each item n (map dict xs) r db = (Inr r', db') \<and> merged key core (tbl db) xs (tbl db') \<and>
    rest db' = rest db \<and> ir_skipped r' + lacking_count key (tbl db) xs = ir_skipped r + length xs \<and>
    ir_signature_valid r' = ir_signature_valid r"
  using assms(2)
proof (induction xs arbitrary: n r db)
  case (Cons x xs)
  show ?case
  proof (cases "key x \<in> key ` set (tbl db)")
    case True
    from Cons.IH [of "Suc n" db "r\<lparr>ir_skipped := ir_skipped r + 1\<rparr>"] Cons.prems obtain r2 db2 where
      "import_each item (Suc n) (map dict xs) (r\<lparr>ir_skipped := ir_skipped r + 1\<rparr>) db = (Inr r2, db2)" "merged key core (tbl db) xs (tbl db2)"
      "rest db2 = rest db" "ir_skipped r2 + lacking_count key (tbl db) xs = ir_skipped r + 1 + length xs"
      "ir_signature_valid r2 = ir_signature_valid r"
      by auto
    with True item_known [OF True] show ?thesis by (simp add: bnd_def merged_def lacking_count_def)
  next
    case False
    obtain y r1 db1 where 1: "item n (dict x) r db = (Inr r1, db1)" "tbl db1 = tbl db @ [y]" "rest db1 = rest db" "key y = key x"
        "core y = core x" "rid y = uids n" "ir_skipped r1 = ir_skipped r" "ir_signature_valid r1 = ir_signature_valid r"
      using item_fresh [OF False, of n r] Cons.prems by auto
    have ids: "uids k \<notin> rid ` set (tbl db1)" if "Suc n \<le> k" for k
      using Cons.prems [of k] that 1(2,6) injD [OF assms(1), of k n] by auto
    have l: "lacking key (map key (tbl db1)) xs = lacking key (key x # map key (tbl db)) xs"
      by (rule lacking_keys) (simp add: 1(2,4))
    from Cons.IH [where n = "Suc n" and db = db1 and r = r1, OF ids] obtain r2 db2 ys where
      2: "import_each item (Suc n) (map dict xs) r1 db1 = (Inr r2, db2)" "tbl db2 = tbl db1 @ ys"
         "map core ys = map core (lacking key (map key (tbl db1)) xs)" "rest db2 = rest db1"
         "ir_skipped r2 + lacking_count key (tbl db1) xs = ir_skipped r1 + length xs" "ir_signature_valid r2 = ir_signature_valid r1"
      by (auto simp: merged_def)
    have "merged key core (tbl db) (x # xs) (tbl db2)"
      unfolding merged_def using 1 2 False l by (intro exI [of _ "y # ys"]) auto
    with 1 2 False l show ?thesis by (auto simp: bnd_def lacking_count_def)
  qed
qed (simp add: merged_def lacking_count_def)

end

definition pattern_core :: "filter_pattern_row \<Rightarrow> string \<times> string \<times> string \<times> string \<times> bool \<times> bool" where
  "pattern_core r = (fp_name r, fp_pattern r, fp_replacement r, fp_flags r, fp_is_active r, fp_is_builtin r)"

definition alias_core :: "model_alias_row \<Rightarrow> string \<times> string \<times> string \<times> string option \<times> bool" where
  "alias_core r = (ma_alias r, ma_provider r, ma_model r, ma_description r, ma_is_active r)"

definition rate_core :: "cost_rate_row \<Rightarrow> string \<times> string \<times> rat \<times> rat" where
  "rate_core r = (cr_provider r, cr_model r, cr_input_cost_per_1k r, cr_output_cost_per_1k r)"

definition alert_core :: "alert_config_row \<Rightarrow> string \<times> string \<times> string option \<times> bool \<times> string" where
  "alert_core r = (ac_event_type r, ac_webhook_url r, ac_description r, ac_is_active r, ac_min_severity r)"

definition rate_key :: "cost_rate_row \<Rightarrow> string \<times> string" where
  "rate_key r = (cr_provider r, cr_model r)"

definition alert_key :: "alert_config_row \<Rightarrow> string \<times> string" where
  "alert_key r = (ac_webhook_url r, ac_event_type r)"

lemmas import_simps = import_item_def insert_row_def bnd_def column_def nullable_column_def same_text_def opt_json_def

interpretation pattern_import: import_table "import_pattern False uids now" t_filter_patterns "\<lambda>db. db\<lparr>t_filter_patterns := []\<rparr>"
    fp_name pattern_core fp_id "pattern_dict isof" uids for isof uids now
  by unfold_locales
    (auto simp: import_pattern_def import_simps pattern_dict_def pattern_of_dict_def pattern_core_def new_pattern_def list_ex_iff image_iff)

interpretation alias_import: import_table "import_alias False uids now" t_model_aliases "\<lambda>db. db\<lparr>t_model_aliases := []\<rparr>"
    ma_alias alias_core ma_id "alias_dict isof" uids for isof uids now
  by unfold_locales
    (auto simp: import_alias_def import_simps alias_dict_def alias_of_dict_def alias_core_def new_alias_def alias_exists_def list_ex_iff image_iff
      split: option.splits)

interpretation rate_import: import_table "import_rate False uids now" t_cost_rates "\<lambda>db. db\<lparr>t_cost_rates := []\<rparr>"
    rate_key rate_core cr_id "rate_dict isof" uids for isof uids now
  by unfold_locales
    (auto simp: import_rate_def import_simps rate_dict_def rate_of_dict_def rate_core_def rate_key_def new_rate_def list_ex_iff image_iff)

interpretation alert_import: import_table "import_alert False uids now" t_alert_configs "\<lambda>db. db\<lparr>t_alert_configs := []\<rparr>"
    alert_key alert_core ac_id "alert_dict isof" uids for isof uids now
  by unfold_locales
    (auto simp: import_alert_def import_simps alert_dict_def alert_of_dict_def alert_core_def alert_key_def new_alert_config_def list_ex_iff image_iff
      split: option.splits)


text \<open>The identifiers that an import draws are not in use.\<close>

definition fresh_ids :: "(nat \<Rightarrow> string) \<Rightarrow> database \<Rightarrow> bool" where
  "fresh_ids uids db \<longleftrightarrow> inj uids \<and> range uids \<inter> (fp_id ` set (t_filter_patterns db) \<union> ma_id ` set (t_model_aliases db) \<union>
     cr_id ` set (t_cost_rates db) \<union> ac_id ` set (t_alert_configs db)) = {}"

lemma own_signature_valid:
  assumes "KEY_ENCRYPTION_SECRET st' = KEY_ENCRYPTION_SECRET st"
  shows "verify_signature pl st' (export_config pl st isof t0 db) \<noteq> Some False"
proof -
  have "signable (d\<lparr>xd_signature := s\<rparr>) = signable d" for d s by (simp add: signable_def)
  then show ?thesis by (simp add: verify_signature_def export_config_def assms Let_def)
qed

lemma export_tables:
  "xd_filter_patterns (export_config pl st isof t0 db) = map (pattern_dict isof) (t_filter_patterns db)"
  "xd_model_aliases (export_config pl st isof t0 db) = map (alias_dict isof) (t_model_aliases db)"
  "xd_cost_rates (export_config pl st isof t0 db) = map (rate_dict isof) (filter cr_is_active (t_cost_rates db))"
  "xd_alert_configs (export_config pl st isof t0 db) = map (alert_dict isof) (t_alert_configs db)"
  by (simp_all add: export_config_def unsigned_export_def Let_def)

lemma same_rest:
  "db\<lparr>t_filter_patterns := []\<rparr> = db'\<lparr>t_filter_patterns := []\<rparr> \<Longrightarrow> t_model_aliases db = t_model_aliases db' \<and> t_cost_rates db = t_cost_rates db' \<and>
     t_alert_configs db = t_alert_configs db' \<and> t_content_policies db = t_content_policies db' \<and> t_provider_configs db = t_provider_configs db'"
  "db\<lparr>t_model_aliases := []\<rparr> = db'\<lparr>t_model_aliases := []\<rparr> \<Longrightarrow> t_filter_patterns db = t_filter_patterns db' \<and> t_cost_rates db = t_cost_rates db' \<and>
     t_alert_configs db = t_alert_configs db' \<and> t_content_policies db = t_content_policies db' \<and> t_provider_configs db = t_provider_configs db'"
  "db\<lparr>t_cost_rates := []\<rparr> = db'\<lparr>t_cost_rates := []\<rparr> \<Longrightarrow> t_filter_patterns db = t_filter_patterns db' \<and> t_model_aliases db = t_model_aliases db' \<and>
     t_alert_configs db = t_alert_configs db' \<and> t_content_policies db = t_content_policies db' \<and> t_provider_configs db = t_provider_configs db'"
  "db\<lparr>t_alert_configs := []\<rparr> = db'\<lparr>t_alert_configs := []\<rparr> \<Longrightarrow> t_filter_patterns db = t_filter_patterns db' \<and> t_model_aliases db = t_model_aliases db' \<and>
     t_cost_rates db = t_cost_rates db' \<and> t_content_policies db = t_content_policies db' \<and> t_provider_configs db = t_provider_configs db'"
  by (cases db; cases db'; simp)+

text \<open>
  Importing an export, nothing being overwritten: every table keeps its rows and gets those of the source that it
  lacks; the others are skipped.
\<close>

definition config_merged :: "database \<Rightarrow> database \<Rightarrow> database \<Rightarrow> bool" where
  "config_merged src db db' \<longleftrightarrow>
     merged fp_name pattern_core (t_filter_patterns db) (t_filter_patterns src) (t_filter_patterns db') \<and>
     merged ma_alias alias_core (t_model_aliases db) (t_model_aliases src) (t_model_aliases db') \<and>
     merged rate_key rate_core (t_cost_rates db) (filter cr_is_active (t_cost_rates src)) (t_cost_rates db') \<and>
     merged alert_key alert_core (t_alert_configs db) (t_alert_configs src) (t_alert_configs db') \<and>
     t_content_policies db' = t_content_policies db \<and> t_provider_configs db' = t_provider_configs db"

definition exported_rows :: "database \<Rightarrow> nat" where
  "exported_rows src = length (t_filter_patterns src) + length (t_model_aliases src) + length (filter cr_is_active (t_cost_rates src)) +
     length (t_alert_configs src)"

definition lacking_rows :: "database \<Rightarrow> database \<Rightarrow> nat" where
  "lacking_rows src db = lacking_count fp_name (t_filter_patterns db) (t_filter_patterns src) +
     lacking_count ma_alias (t_model_aliases db) (t_model_aliases src) +
     lacking_count rate_key (t_cost_rates db) (filter cr_is_active (t_cost_rates src)) +
     lacking_count alert_key (t_alert_configs db) (t_alert_configs src)"

lemma export_import_tables:
  fixes pl :: pylib
  assumes "fresh_ids uids db" and "\<not> io_overwrite_existing opts" and "io_import_alert_configs opts" and "\<not> io_import_clients opts"
    and "import_config pl st' uids hexes now (export_config pl st isof t0 src) opts db = (r, db')"
    and "KEY_ENCRYPTION_SECRET st' = KEY_ENCRYPTION_SECRET st"
  shows "(\<exists>res. r = Inr res \<and> ir_skipped res + lacking_rows src db = exported_rows src \<and> ir_signature_valid res \<noteq> Some False) \<and>
    config_merged src db db'"
proof -
  let ?d = "export_config pl st isof t0 src"
  define r0 where "r0 = new_import_result\<lparr>ir_signature_valid :=
      (if io_verify_signature opts \<and> given (xd_signature ?d) then verify_signature pl st' ?d else None)\<rparr>"
  have r0: "ir_skipped r0 = 0" "ir_signature_valid r0 \<noteq> Some False" using own_signature_valid [OF assms(6)] by (auto simp: r0_def new_import_result_def)
  have run: "with_db (import_all pl uids hexes now ?d opts r0) db = (r, db')"
    using assms(5) r0(2) by (simp add: import_config_def Let_def r0_def)
  have inj: "inj uids" and ids: "uids k \<notin> fp_id ` set (t_filter_patterns db)" "uids k \<notin> ma_id ` set (t_model_aliases db)"
    "uids k \<notin> cr_id ` set (t_cost_rates db)" "uids k \<notin> ac_id ` set (t_alert_configs db)" for k
    using assms(1) unfolding fresh_ids_def by blast+
  obtain r1 db1 where 1: "import_each (import_pattern False uids now) 0 (map (pattern_dict isof) (t_filter_patterns src)) r0 db = (Inr r1, db1)"
      "merged fp_name pattern_core (t_filter_patterns db) (t_filter_patterns src) (t_filter_patterns db1)"
      "db1\<lparr>t_filter_patterns := []\<rparr> = db\<lparr>t_filter_patterns := []\<rparr>"
      "ir_skipped r1 + lacking_count fp_name (t_filter_patterns db) (t_filter_patterns src) = ir_skipped r0 + length (t_filter_patterns src)"
      "ir_signature_valid r1 = ir_signature_valid r0"
    using pattern_import.import_rows [where n = 0 and now = now and isof = isof and uids = uids and db = db and xs = "t_filter_patterns src" and r = r0, OF inj ids(1)] by blast
  note k1 = same_rest(1) [OF 1(3)]
  obtain r2 db2 where 2: "import_each (import_alias False uids now) 0 (map (alias_dict isof) (t_model_aliases src)) r1 db1 = (Inr r2, db2)"
      "merged ma_alias alias_core (t_model_aliases db1) (t_model_aliases src) (t_model_aliases db2)"
      "db2\<lparr>t_model_aliases := []\<rparr> = db1\<lparr>t_model_aliases := []\<rparr>"
      "ir_skipped r2 + lacking_count ma_alias (t_model_aliases db1) (t_model_aliases src) = ir_skipped r1 + length (t_model_aliases src)"
      "ir_signature_valid r2 = ir_signature_valid r1"
    using alias_import.import_rows [where n = 0 and now = now and isof = isof and uids = uids and db = db1 and xs = "t_model_aliases src" and r = r1, OF inj] ids(2) k1 by auto
  note k2 = same_rest(2) [OF 2(3)]
  obtain r3 db3 where 3: "import_each (import_rate False uids now) 0 (map (rate_dict isof) (filter cr_is_active (t_cost_rates src))) r2 db2 = (Inr r3, db3)"
      "merged rate_key rate_core (t_cost_rates db2) (filter cr_is_active (t_cost_rates src)) (t_cost_rates db3)"
      "db3\<lparr>t_cost_rates := []\<rparr> = db2\<lparr>t_cost_rates := []\<rparr>"
      "ir_skipped r3 + lacking_count rate_key (t_cost_rates db2) (filter cr_is_active (t_cost_rates src)) =
         ir_skipped r2 + length (filter cr_is_active (t_cost_rates src))"
      "ir_signature_valid r3 = ir_signature_valid r2"
    using rate_import.import_rows [where n = 0 and now = now and isof = isof and uids = uids and db = db2 and xs = "filter cr_is_active (t_cost_rates src)" and r = r2, OF inj] ids(3) k1 k2 by auto
  note k3 = same_rest(3) [OF 3(3)]
  obtain r4 db4 where 4: "import_each (import_alert False uids now) 0 (map (alert_dict isof) (t_alert_configs src)) r3 db3 = (Inr r4, db4)"
      "merged alert_key alert_core (t_alert_configs db3) (t_alert_configs src) (t_alert_configs db4)"
      "db4\<lparr>t_alert_configs := []\<rparr> = db3\<lparr>t_alert_configs := []\<rparr>"
      "ir_skipped r4 + lacking_count alert_key (t_alert_configs db3) (t_alert_configs src) = ir_skipped r3 + length (t_alert_configs src)"
      "ir_signature_valid r4 = ir_signature_valid r3"
    using alert_import.import_rows [where n = 0 and now = now and isof = isof and uids = uids and db = db3 and xs = "t_alert_configs src" and r = r3, OF inj] ids(4) k1 k2 k3 by auto
  note k4 = same_rest(4) [OF 4(3)]
  have "r = Inr r4" "db' = db4"
    using run assms(2-4) by (simp_all add: import_all_def export_tables with_db_def bnd_def 1(1) 2(1) 3(1) 4(1))
  moreover have "config_merged src db db4" using 1(2) 2(2) 3(2) 4(2) k1 k2 k3 k4 by (simp add: config_merged_def)
  moreover have "ir_skipped r4 + lacking_rows src db = exported_rows src"
    using r0(1) 1(4) 2(4) 3(4) 4(4) k1 k2 k3 by (simp add: lacking_rows_def exported_rows_def)
  ultimately show ?thesis using r0(2) 1(5) 2(5) 3(5) 4(5) by simp
qed

text \<open>Data whose signature is not the one of its content is refused and changes nothing; without a signature, or
  without a key to check it, the data is taken.\<close>

theorem tampered_import_changes_nothing:
  assumes "io_verify_signature opts" and "xd_signature d = Some s" and "s \<noteq> []" and "KEY_ENCRYPTION_SECRET st \<noteq> []"
    and "s \<noteq> sign_export pl (signable d) (KEY_ENCRYPTION_SECRET st)" and "import_config pl st uids hexes now d opts db = (r, db')"
  shows "db' = db \<and> (\<exists>res. r = Inr res \<and> ir_signature_valid res = Some False \<and> ir_errors res \<noteq> [])"
  using assms by (auto simp: import_config_def verify_signature_def given_def Let_def)

end
