(* ===== verification/Providers.thy ===== *)
theory Providers
  imports Caching
begin

text \<open>
  \<open>providers/\<close>: the adapters that translate a chat in the format of OpenAI into the request of a provider and its
  answer, or its stream of events, back.  The client libraries are parameters: a request, which is a dictionary
  of parameters, has an answer, a stream, or fails.  The arguments of a chat are the dictionary \<open>kw\<close> of the
  named ones, a missing one being null.
\<close>


section \<open>The base class\<close>

record adapter =
  ad_api_key :: string
  ad_base_url :: string
  ad_config :: jdict
  ad_timeout :: int

text \<open>Exceptions of the adapter's own code have neither a status code nor a delay.\<close>

definition plain_error :: "(py_exn \<Rightarrow> string) \<Rightarrow> py_exn \<Rightarrow> call_error" where
  "plain_error str_exn e = \<lparr>ce_text = str_exn e, ce_status = 0, ce_retry_after = None\<rparr>"

definition of_res :: "(py_exn \<Rightarrow> string) \<Rightarrow> 'a res \<Rightarrow> 'a outcome" where
  "of_res str_exn r = (case r of Inr a \<Rightarrow> Reply a | Inl e \<Rightarrow> Failed (plain_error str_exn e))"

definition obind :: "'a outcome \<Rightarrow> ('a \<Rightarrow> 'b outcome) \<Rightarrow> 'b outcome" where
  "obind m f = (case m of Reply a \<Rightarrow> f a | Failed e \<Rightarrow> Failed e)"

text \<open>With tool calls the content is dropped.\<close>

definition make_oai_response :: "string \<Rightarrow> time \<Rightarrow> string option \<Rightarrow> string \<Rightarrow> int \<Rightarrow> int \<Rightarrow> string \<Rightarrow> jdict list option \<Rightarrow> oai_response" where
  "make_oai_response uid now content model input_tokens output_tokens finish_reason tool_calls =
     (let called = (case tool_calls of None \<Rightarrow> False | Some ts \<Rightarrow> ts \<noteq> []) in
      \<lparr>or_id = ''chatcmpl-'' @ take 12 uid, or_object = ''chat.completion'', or_created = py_trunc now, or_model = model,
       or_choices = [\<lparr>oc_index = 0,
         oc_message = \<lparr>om_role = ''assistant'', om_content = (if called then None else content), om_tool_calls = tool_calls, om_name = None\<rparr>,
         oc_finish_reason = Some finish_reason\<rparr>],
       or_usage = \<lparr>ou_prompt_tokens = input_tokens, ou_completion_tokens = output_tokens, ou_total_tokens = input_tokens + output_tokens\<rparr>,
       or_system_fingerprint = None\<rparr>)"

text \<open>A chunk; the delta holds the given parts that are not null.\<close>

definition chunk_of :: "string \<Rightarrow> int \<Rightarrow> string \<Rightarrow> jdict \<Rightarrow> json \<Rightarrow> jdict" where
  "chunk_of chunk_id created model delta finish_reason =
     [(''id'', JStr chunk_id), (''object'', JStr ''chat.completion.chunk''), (''created'', JInt created), (''model'', JStr model),
      (''choices'', JList [JObj [(''index'', JInt 0), (''delta'', JObj (filter (\<lambda>(k, v). v \<noteq> JNull) delta)), (''finish_reason'', finish_reason)]])]"

definition make_stream_chunk :: "string \<Rightarrow> time \<Rightarrow> string \<Rightarrow> json \<Rightarrow> json \<Rightarrow> json \<Rightarrow> json \<Rightarrow> jdict" where
  "make_stream_chunk chunk_id now model role content tool_calls finish_reason =
     chunk_of (if chunk_id \<noteq> [] then chunk_id else ''chatcmpl-stream'') (py_trunc now) model
       [(''role'', role), (''content'', content), (''tool_calls'', tool_calls)] finish_reason"

abbreviation role_chunk :: "string \<Rightarrow> time \<Rightarrow> string \<Rightarrow> jdict" where
  "role_chunk cid now model \<equiv> make_stream_chunk cid now model (JStr ''assistant'') JNull JNull JNull"

abbreviation text_chunk :: "string \<Rightarrow> time \<Rightarrow> string \<Rightarrow> json \<Rightarrow> jdict" where
  "text_chunk cid now model t \<equiv> make_stream_chunk cid now model JNull t JNull JNull"

abbreviation end_chunk :: "string \<Rightarrow> time \<Rightarrow> string \<Rightarrow> string \<Rightarrow> jdict" where
  "end_chunk cid now model reason \<equiv> make_stream_chunk cid now model JNull JNull JNull (JStr reason)"

definition stream_id :: "string \<Rightarrow> string" where
  "stream_id uid = ''chatcmpl-'' @ take 12 uid"

definition set_when :: "bool \<Rightarrow> string \<Rightarrow> json \<Rightarrow> jdict \<Rightarrow> jdict" where
  "set_when b k v d = (if b then dict_set k v d else d)"


section \<open>Anthropic\<close>

text \<open>The system messages are taken out; the last one counts.\<close>

fun prepare_messages :: "json \<Rightarrow> message list \<Rightarrow> json \<times> jdict list" where
  "prepare_messages system [] = (system, [])"
| "prepare_messages system (m # ms) =
     (if jget ''role'' m = JStr ''system'' then prepare_messages (jget_or (JStr []) ''content'' m) ms
      else (let (s, converted) = prepare_messages system ms
            in (s, [(''role'', jget_or (JStr ''user'') ''role'' m), (''content'', jget_or (JStr []) ''content'' m)] # converted)))"

definition convert_tool :: "json \<Rightarrow> jdict list res" where
  "convert_tool t =
     (case t of
        JObj d \<Rightarrow>
          (if jget ''type'' d = JStr ''function''
           then (case jget_or (JObj []) ''function'' d of
                   JObj func \<Rightarrow> Inr [[(''name'', jget_or (JStr []) ''name'' func), (''description'', jget_or (JStr []) ''description'' func),
                                     (''input_schema'', jget_or (JObj []) ''parameters'' func)]]
                 | _ \<Rightarrow> Inl AttributeError)
           else if truthy (jget ''name'' d) \<and> truthy (jget ''input_schema'' d) then Inr [d] else Inr [])
      | _ \<Rightarrow> Inl AttributeError)"

definition convert_tools :: "json \<Rightarrow> jdict list res" where
  "convert_tools tools =
     (if \<not> truthy tools then Inr [] else rbind (py_iter tools) (\<lambda>ts. rbind (all_res convert_tool ts) (\<lambda>rs. Inr (concat rs))))"

definition anthropic_params :: "message list \<Rightarrow> string \<Rightarrow> jdict \<Rightarrow> jdict res" where
  "anthropic_params messages model kw =
     (let (system, msgs) = prepare_messages JNull messages;
          temperature = jget ''temperature'' kw; max_tokens = jget ''max_tokens'' kw; stop = jget ''stop'' kw;
          params = [(''model'', JStr model), (''messages'', JList (map JObj msgs)),
                    (''max_tokens'', if truthy max_tokens then max_tokens else JInt 4096)];
          params = set_when (truthy system) ''system'' system params;
          params = set_when (temperature \<noteq> JNull) ''temperature'' temperature params;
          params = set_when (truthy stop) ''stop_sequences'' (case stop of JList _ \<Rightarrow> stop | _ \<Rightarrow> JList [stop]) params
      in rbind (convert_tools (jget ''tools'' kw)) (\<lambda>tools.
         Inr (set_when (tools \<noteq> []) ''tools'' (JList (map JObj tools)) params)))"

text \<open>A message of the library: its blocks, the reason it stopped, and the usage.\<close>

datatype anthropic_block = TextBlock string | ToolUse string string json | OtherBlock string

record anthropic_message =
  an_content :: "anthropic_block list"
  an_stop_reason :: string
  an_model :: string
  an_input_tokens :: int
  an_output_tokens :: int

fun block_text :: "anthropic_block \<Rightarrow> string" where
  "block_text (TextBlock t) = t"
| "block_text _ = []"

fun block_call :: "pylib \<Rightarrow> anthropic_block \<Rightarrow> jdict list" where
  "block_call pl (ToolUse i name inp) =
     [[(''id'', JStr i), (''type'', JStr ''function''),
       (''function'', JObj [(''name'', JStr name), (''arguments'', JStr (json_dumps pl inp))])]]"
| "block_call pl _ = []"

definition anthropic_finish :: "string \<Rightarrow> string" where
  "anthropic_finish stop_reason =
     (if stop_reason = ''tool_use'' then ''tool_calls'' else if stop_reason = ''end_turn'' then ''stop''
      else if stop_reason = ''max_tokens'' then ''length'' else ''stop'')"

definition anthropic_reply :: "pylib \<Rightarrow> string \<Rightarrow> time \<Rightarrow> anthropic_message \<Rightarrow> oai_response" where
  "anthropic_reply pl uid now m =
     (let calls = concat (map (block_call pl) (an_content m)) in
      make_oai_response uid now (Some (concat (map block_text (an_content m)))) (an_model m) (an_input_tokens m) (an_output_tokens m)
        (anthropic_finish (an_stop_reason m)) (if calls = [] then None else Some calls))"

definition anthropic_chat :: "pylib \<Rightarrow> (py_exn \<Rightarrow> string) \<Rightarrow> (jdict \<Rightarrow> anthropic_message outcome) \<Rightarrow> string \<Rightarrow> time \<Rightarrow> message list \<Rightarrow> string
    \<Rightarrow> jdict \<Rightarrow> oai_response outcome" where
  "anthropic_chat pl str_exn create uid now messages model kw =
     obind (of_res str_exn (anthropic_params messages model kw)) (\<lambda>params.
     obind (create params) (\<lambda>m. Reply (anthropic_reply pl uid now m)))"

text \<open>
  The events of a stream.  Deltas are of text, of the JSON text of a tool's input, or of other kinds; the message
  delta carries the reason to stop, if it has one; plain strings come from streams of text.
\<close>

datatype anthropic_event =
    BlockStart anthropic_block
  | TextDelta string
  | InputJsonDelta string
  | OtherDelta
  | BlockStop
  | MessageDelta "string option"
  | PlainText string
  | OtherEvent

record tool_state =
  ts_id :: string                       \<comment> \<open>empty when no tool is open\<close>
  ts_name :: string
  ts_buffer :: string
  ts_finish :: string

definition no_tool :: tool_state where
  "no_tool = \<lparr>ts_id = [], ts_name = [], ts_buffer = [], ts_finish = ''stop''\<rparr>"

definition tool_chunk :: "string \<Rightarrow> time \<Rightarrow> string \<Rightarrow> tool_state \<Rightarrow> jdict" where
  "tool_chunk cid now model s =
     make_stream_chunk cid now model JNull JNull
       (JList [JObj [(''index'', JInt 0), (''id'', JStr (ts_id s)), (''type'', JStr ''function''),
          (''function'', JObj [(''name'', JStr (ts_name s)), (''arguments'', JStr (ts_buffer s))])]]) JNull"

fun on_event :: "string \<Rightarrow> time \<Rightarrow> string \<Rightarrow> anthropic_event \<Rightarrow> tool_state \<Rightarrow> jdict list \<times> tool_state" where
  "on_event cid now model (BlockStart b) s =
     ([], case b of ToolUse i name _ \<Rightarrow> s\<lparr>ts_id := i, ts_name := name, ts_buffer := []\<rparr> | _ \<Rightarrow> s)"
| "on_event cid now model (TextDelta t) s = ([text_chunk cid now model (JStr t)], s)"
| "on_event cid now model (InputJsonDelta t) s = ([], if ts_id s \<noteq> [] then s\<lparr>ts_buffer := ts_buffer s @ t\<rparr> else s)"
| "on_event cid now model OtherDelta s = ([], s)"
| "on_event cid now model BlockStop s =
     (if ts_id s \<noteq> []
      then ([tool_chunk cid now model s], s\<lparr>ts_finish := ''tool_calls'', ts_id := [], ts_name := [], ts_buffer := []\<rparr>)
      else ([], s))"
| "on_event cid now model (MessageDelta reason) s =
     ([], if reason = Some ''tool_use'' then s\<lparr>ts_finish := ''tool_calls''\<rparr>
          else if reason = Some ''max_tokens'' then s\<lparr>ts_finish := ''length''\<rparr> else s)"
| "on_event cid now model (PlainText t) s = ([text_chunk cid now model (JStr t)], s)"
| "on_event cid now model OtherEvent s = ([], s)"

fun on_events :: "string \<Rightarrow> time \<Rightarrow> string \<Rightarrow> anthropic_event list \<Rightarrow> tool_state \<Rightarrow> jdict list \<times> tool_state" where
  "on_events cid now model [] s = ([], s)"
| "on_events cid now model (e # es) s =
     (let (cs, s') = on_event cid now model e s; (cs', s'') = on_events cid now model es s' in (cs @ cs', s''))"

text \<open>
  The first chunk is sent before the request is; the last one only after the stream has ended without an error.
\<close>

definition anthropic_stream :: "(py_exn \<Rightarrow> string) \<Rightarrow> (jdict \<Rightarrow> anthropic_event stream) \<Rightarrow> string \<Rightarrow> time \<Rightarrow> message list \<Rightarrow> string \<Rightarrow> jdict
    \<Rightarrow> jdict stream" where
  "anthropic_stream str_exn create uid now messages model kw =
     (case anthropic_params messages model kw of
        Inl e \<Rightarrow> ([], Some (plain_error str_exn e))
      | Inr params \<Rightarrow>
          (let cid = stream_id uid; (events, err) = create params; (chunks, s) = on_events cid now model events no_tool;
               sent = role_chunk cid now model # chunks
           in case err of
                Some e \<Rightarrow> (sent, Some e)
              | None \<Rightarrow> (sent @ [end_chunk cid now model (ts_finish s)], None)))"

definition anthropic_models :: "string list" where
  "anthropic_models = [''claude-opus-4-6'', ''claude-sonnet-4-6'', ''claude-haiku-4-5-20251001'']"


section \<open>OpenAI and what is compatible with it\<close>

text \<open>How a client is made: the endpoint, the key, and the version of the API or the region.\<close>

record api_client =
  ap_endpoint :: string                 \<comment> \<open>empty for the library's own\<close>
  ap_key :: string
  ap_variant :: json
  ap_timeout :: int

definition openai_client :: "adapter \<Rightarrow> api_client" where
  "openai_client a = \<lparr>ap_endpoint = ad_base_url a, ap_key = ad_api_key a, ap_variant = JNull, ap_timeout = ad_timeout a\<rparr>"

definition groq_client :: "adapter \<Rightarrow> api_client" where
  "groq_client a = \<lparr>ap_endpoint = str_or (ad_base_url a) ''https://api.groq.com/openai/v1'', ap_key = ad_api_key a, ap_variant = JNull,
     ap_timeout = ad_timeout a\<rparr>"

definition mistral_client :: "adapter \<Rightarrow> api_client" where
  "mistral_client a = \<lparr>ap_endpoint = str_or (ad_base_url a) ''https://api.mistral.ai/v1'', ap_key = ad_api_key a, ap_variant = JNull,
     ap_timeout = ad_timeout a\<rparr>"

definition compatible_client :: "adapter \<Rightarrow> api_client res" where
  "compatible_client a =
     (if ad_base_url a = [] then Inl (ValueError ''base_url is required for openai_compatible provider'')
      else Inr \<lparr>ap_endpoint = ad_base_url a, ap_key = str_or (ad_api_key a) ''not-needed'', ap_variant = JNull, ap_timeout = ad_timeout a\<rparr>)"

definition azure_client :: "settings \<Rightarrow> adapter \<Rightarrow> api_client" where
  "azure_client st a = \<lparr>ap_endpoint = str_or (ad_base_url a) (AZURE_OPENAI_ENDPOINT st), ap_key = ad_api_key a,
     ap_variant = jget_or (JStr (AZURE_OPENAI_API_VERSION st)) ''api_version'' (ad_config a), ap_timeout = ad_timeout a\<rparr>"

definition given_params :: "jdict \<Rightarrow> jdict \<Rightarrow> jdict" where
  "given_params kw params =
     set_when (truthy (jget ''tools'' kw)) ''tools'' (jget ''tools'' kw)
       (set_when (jget ''max_tokens'' kw \<noteq> JNull) ''max_tokens'' (jget ''max_tokens'' kw)
          (set_when (jget ''temperature'' kw \<noteq> JNull) ''temperature'' (jget ''temperature'' kw) params))"

definition openai_chat_params :: "message list \<Rightarrow> string \<Rightarrow> jdict \<Rightarrow> jdict" where
  "openai_chat_params messages model kw =
     set_when (truthy (jget ''stop'' kw)) ''stop'' (jget ''stop'' kw)
       (set_when (truthy (jget ''tool_choice'' kw)) ''tool_choice'' (jget ''tool_choice'' kw)
          (given_params kw [(''model'', JStr model), (''messages'', JList (map JObj messages))]))"

text \<open>A stream ignores the choice of a tool; that of Azure also the words to stop at.\<close>

definition openai_stream_params :: "message list \<Rightarrow> string \<Rightarrow> jdict \<Rightarrow> jdict" where
  "openai_stream_params messages model kw =
     set_when (truthy (jget ''stop'' kw)) ''stop'' (jget ''stop'' kw)
       (given_params kw [(''model'', JStr model), (''messages'', JList (map JObj messages)), (''stream'', JBool True)])"

definition azure_stream_params :: "message list \<Rightarrow> string \<Rightarrow> jdict \<Rightarrow> jdict" where
  "azure_stream_params messages model kw =
     given_params kw [(''model'', JStr model), (''messages'', JList (map JObj messages)), (''stream'', JBool True)]"

record openai_call =
  oq_id :: string
  oq_name :: string
  oq_arguments :: string

record openai_message =
  oq_content :: "string option"
  oq_tool_calls :: "openai_call list"

record openai_choice =
  oq_message :: "openai_message option"
  oq_finish_reason :: "string option"

record openai_completion =
  oq_choices :: "openai_choice list"
  oq_model :: string
  oq_usage :: "(int \<times> int) option"         \<comment> \<open>tokens of the prompt and of the completion\<close>

definition call_json :: "openai_call \<Rightarrow> jdict" where
  "call_json t = [(''id'', JStr (oq_id t)), (''type'', JStr ''function''),
     (''function'', JObj [(''name'', JStr (oq_name t)), (''arguments'', JStr (oq_arguments t))])]"

definition completion_reply :: "string \<Rightarrow> time \<Rightarrow> openai_completion \<Rightarrow> oai_response" where
  "completion_reply uid now r =
     (let choice = (case oq_choices r of [] \<Rightarrow> None | c # _ \<Rightarrow> Some c);
          msg = (case choice of None \<Rightarrow> None | Some c \<Rightarrow> oq_message c);
          content = (case msg of None \<Rightarrow> [] | Some m \<Rightarrow> (case oq_content m of None \<Rightarrow> [] | Some t \<Rightarrow> t));
          finish = (case choice of None \<Rightarrow> ''stop'' | Some c \<Rightarrow> (case oq_finish_reason c of None \<Rightarrow> [] | Some f \<Rightarrow> f));
          tc = (case msg of None \<Rightarrow> None | Some m \<Rightarrow> if oq_tool_calls m = [] then None else Some (map call_json (oq_tool_calls m)));
          (prompt, completion) = (case oq_usage r of None \<Rightarrow> (0, 0) | Some u \<Rightarrow> u)
      in make_oai_response uid now (Some content) (oq_model r) prompt completion (str_or finish ''stop'') tc)"

definition openai_chat :: "(jdict \<Rightarrow> openai_completion outcome) \<Rightarrow> string \<Rightarrow> time \<Rightarrow> message list \<Rightarrow> string \<Rightarrow> jdict \<Rightarrow> oai_response outcome" where
  "openai_chat create uid now messages model kw =
     obind (create (openai_chat_params messages model kw)) (\<lambda>r. Reply (completion_reply uid now r))"

record openai_delta_call =
  od_index :: int
  od_id :: "string option"
  od_function :: "(string option \<times> string option) option"   \<comment> \<open>name and arguments\<close>

record openai_delta =
  od_role :: "string option"
  od_content :: "string option"
  od_tool_calls :: "openai_delta_call list"

record openai_chunk =
  od_chunk_id :: string
  od_created :: int
  od_model :: string
  od_choices :: "(openai_delta option \<times> string option) list"

definition delta_call_json :: "openai_delta_call \<Rightarrow> json" where
  "delta_call_json t =
     JObj [(''index'', JInt (od_index t)), (''id'', opt_json JStr (od_id t)), (''type'', JStr ''function''),
       (''function'', JObj [(''name'', case od_function t of None \<Rightarrow> JNull | Some (n, _) \<Rightarrow> opt_json JStr n),
                            (''arguments'', case od_function t of None \<Rightarrow> JStr [] | Some (_, a) \<Rightarrow> opt_json JStr a)])]"

definition delta_json :: "openai_delta option \<Rightarrow> jdict" where
  "delta_json delta =
     (case delta of
        None \<Rightarrow> []
      | Some d \<Rightarrow>
          (case od_role d of Some r \<Rightarrow> if r \<noteq> [] then [(''role'', JStr r)] else [] | None \<Rightarrow> []) @
          (case od_content d of Some t \<Rightarrow> [(''content'', JStr t)] | None \<Rightarrow> []) @
          (if od_tool_calls d \<noteq> [] then [(''tool_calls'', JList (map delta_call_json (od_tool_calls d)))] else []))"

text \<open>Chunks pass as they come; those without a choice are skipped.\<close>

definition pass_chunk :: "openai_chunk \<Rightarrow> jdict list" where
  "pass_chunk ch =
     (case od_choices ch of
        [] \<Rightarrow> []
      | (delta, finish) # _ \<Rightarrow> [chunk_of (od_chunk_id ch) (od_created ch) (od_model ch) (delta_json delta) (opt_json JStr finish)])"

definition openai_stream :: "(jdict \<Rightarrow> openai_chunk stream) \<Rightarrow> message list \<Rightarrow> string \<Rightarrow> jdict \<Rightarrow> jdict stream" where
  "openai_stream create messages model kw =
     (let (chunks, err) = create (openai_stream_params messages model kw) in (concat (map pass_chunk chunks), err))"

definition azure_stream :: "(jdict \<Rightarrow> openai_chunk stream) \<Rightarrow> message list \<Rightarrow> string \<Rightarrow> jdict \<Rightarrow> jdict stream" where
  "azure_stream create messages model kw =
     (let (chunks, err) = create (azure_stream_params messages model kw) in (concat (map pass_chunk chunks), err))"

record embedding_response =
  er_data :: "(json \<times> int) list"        \<comment> \<open>vectors and their index\<close>
  er_model :: string
  er_prompt_tokens :: int
  er_total_tokens :: int

definition openai_embeddings :: "(jdict \<Rightarrow> embedding_response outcome) \<Rightarrow> string list \<Rightarrow> string \<Rightarrow> embedding_response outcome" where
  "openai_embeddings create input_texts model = create [(''model'', JStr model), (''input'', JList (map JStr input_texts))]"

definition openai_models :: "string list outcome \<Rightarrow> string list" where
  "openai_models listed = (case listed of Reply ms \<Rightarrow> ms | Failed _ \<Rightarrow> [''gpt-4o'', ''gpt-4o-mini'', ''gpt-4-turbo'', ''gpt-3.5-turbo''])"

definition azure_models :: "adapter \<Rightarrow> json" where
  "azure_models a = jget_or (JList [JStr ''gpt-4o'', JStr ''gpt-4o-mini'']) ''models'' (ad_config a)"

definition groq_models :: "string list" where
  "groq_models = [''llama-3.3-70b-versatile'', ''llama-3.1-8b-instant'', ''mixtral-8x7b-32768'']"

definition mistral_models :: "string list" where
  "mistral_models = [''mistral-large-latest'', ''mistral-small-latest'', ''codestral-latest'']"

definition compatible_models :: "adapter \<Rightarrow> (api_client \<Rightarrow> string list outcome) \<Rightarrow> json" where
  "compatible_models a listed =
     (case compatible_client a of
        Inl _ \<Rightarrow> jget_or (JList []) ''models'' (ad_config a)
      | Inr c \<Rightarrow> (case listed c of Reply ms \<Rightarrow> JList (map JStr ms) | Failed _ \<Rightarrow> jget_or (JList []) ''models'' (ad_config a)))"

definition azure_chat :: "(jdict \<Rightarrow> openai_completion outcome) \<Rightarrow> string \<Rightarrow> time \<Rightarrow> message list \<Rightarrow> string \<Rightarrow> jdict \<Rightarrow> oai_response outcome" where
  "azure_chat create uid now messages model kw =
     obind (create (openai_chat_params messages model kw)) (\<lambda>r. Reply (completion_reply uid now r))"


section \<open>Gemini\<close>

fun convert_messages :: "json \<Rightarrow> message list \<Rightarrow> json \<times> jdict list" where
  "convert_messages system [] = (system, [])"
| "convert_messages system (m # ms) =
     (let role = jget_or (JStr ''user'') ''role'' m; content = jget_or (JStr []) ''content'' m;
          part = (\<lambda>r. [(''role'', JStr r), (''parts'', JList [JObj [(''text'', content)]])])
      in if role = JStr ''system'' then convert_messages content ms
         else (let (s, contents) = convert_messages system ms
               in (s, part (if role = JStr ''assistant'' then ''model'' else ''user'') # contents)))"

text \<open>Neither tools nor words to stop at are passed on.\<close>

definition gemini_request :: "message list \<Rightarrow> string \<Rightarrow> jdict \<Rightarrow> jdict" where
  "gemini_request messages model kw =
     (let (system, contents) = convert_messages JNull messages;
          config = set_when (truthy system) ''system_instruction'' system
                     (set_when (jget ''max_tokens'' kw \<noteq> JNull) ''max_output_tokens'' (jget ''max_tokens'' kw)
                        (set_when (jget ''temperature'' kw \<noteq> JNull) ''temperature'' (jget ''temperature'' kw) []))
      in [(''model'', JStr model), (''contents'', JList (map JObj contents)), (''config'', if config = [] then JNull else JObj config)])"

record gemini_response =
  gr_text :: "string option"
  gr_usage :: "(int option \<times> int option) option"

text \<open>A count that is null cannot be added.\<close>

definition gemini_reply :: "string \<Rightarrow> time \<Rightarrow> string \<Rightarrow> gemini_response \<Rightarrow> oai_response res" where
  "gemini_reply uid now model r =
     (case (case gr_usage r of None \<Rightarrow> (Some 0, Some 0) | Some u \<Rightarrow> u) of
        (Some p, Some c) \<Rightarrow>
          Inr (make_oai_response uid now (Some (case gr_text r of None \<Rightarrow> [] | Some t \<Rightarrow> t)) model p c ''stop'' None)
      | _ \<Rightarrow> Inl TypeError)"

definition gemini_chat :: "(py_exn \<Rightarrow> string) \<Rightarrow> (jdict \<Rightarrow> gemini_response outcome) \<Rightarrow> string \<Rightarrow> time \<Rightarrow> message list \<Rightarrow> string \<Rightarrow> jdict
    \<Rightarrow> oai_response outcome" where
  "gemini_chat str_exn generate uid now messages model kw =
     obind (generate (gemini_request messages model kw)) (\<lambda>r. of_res str_exn (gemini_reply uid now model r))"

definition gemini_stream :: "(jdict \<Rightarrow> string option stream) \<Rightarrow> string \<Rightarrow> time \<Rightarrow> message list \<Rightarrow> string \<Rightarrow> jdict \<Rightarrow> jdict stream" where
  "gemini_stream generate uid now messages model kw =
     (let cid = stream_id uid; (texts, err) = generate (gemini_request messages model kw);
          sent = role_chunk cid now model #
            concat (map (\<lambda>t. case t of Some s \<Rightarrow> if s \<noteq> [] then [text_chunk cid now model (JStr s)] else [] | None \<Rightarrow> []) texts)
      in case err of Some e \<Rightarrow> (sent, Some e) | None \<Rightarrow> (sent @ [end_chunk cid now model ''stop''], None))"

text \<open>One request for each text; their tokens are not counted.\<close>

fun embed_each :: "(string \<Rightarrow> json outcome) \<Rightarrow> int \<Rightarrow> string list \<Rightarrow> (json \<times> int) list outcome" where
  "embed_each query i [] = Reply []"
| "embed_each query i (t # ts) = obind (query t) (\<lambda>v. obind (embed_each query (i + 1) ts) (\<lambda>vs. Reply ((v, i) # vs)))"

definition gemini_embeddings :: "(jdict \<Rightarrow> json outcome) \<Rightarrow> string list \<Rightarrow> string \<Rightarrow> embedding_response outcome" where
  "gemini_embeddings query input_texts model =
     obind (embed_each (\<lambda>t. query [(''model'', JStr model), (''contents'', JStr t)]) 0 input_texts) (\<lambda>vs.
     Reply \<lparr>er_data = vs, er_model = model, er_prompt_tokens = 0, er_total_tokens = 0\<rparr>)"

definition gemini_models :: "string list" where
  "gemini_models = [''gemini-1.5-pro'', ''gemini-1.5-flash'', ''gemini-2.0-flash'']"


section \<open>Ollama\<close>

definition strip_slashes :: "string \<Rightarrow> string" where
  "strip_slashes s = rev (dropWhile (\<lambda>c. c = CHR ''/'') (rev s))"

definition ollama_base :: "adapter \<Rightarrow> string" where
  "ollama_base a = strip_slashes (str_or (ad_base_url a) ''http://localhost:11434'')"

definition ollama_payload :: "message list \<Rightarrow> string \<Rightarrow> jdict \<Rightarrow> bool \<Rightarrow> jdict" where
  "ollama_payload messages model kw streamed =
     (let options = set_when (jget ''max_tokens'' kw \<noteq> JNull) ''num_predict'' (jget ''max_tokens'' kw)
                      (set_when (jget ''temperature'' kw \<noteq> JNull) ''temperature'' (jget ''temperature'' kw) [])
      in set_when (options \<noteq> []) ''options'' (JObj options)
           [(''model'', JStr model), (''messages'', JList (map JObj messages)), (''stream'', JBool streamed)])"

text \<open>\<open>d.get\<close> on a value that may be no dictionary.\<close>

definition get_from :: "json \<Rightarrow> json \<Rightarrow> string \<Rightarrow> json res" where
  "get_from d dflt k = (case d of JObj m \<Rightarrow> Inr (jget_or dflt k m) | _ \<Rightarrow> Inl AttributeError)"

definition count_or_zero :: "json \<Rightarrow> int res" where
  "count_or_zero v = (if truthy v then as_int v else Inr 0)"

definition ollama_content :: "json \<Rightarrow> json res" where
  "ollama_content data = rbind (get_from data (JObj []) ''message'') (\<lambda>msg. get_from msg (JStr []) ''content'')"

definition ollama_reply :: "string \<Rightarrow> time \<Rightarrow> string \<Rightarrow> json \<Rightarrow> oai_response res" where
  "ollama_reply uid now model data =
     rbind (ollama_content data) (\<lambda>content.
     rbind (rbind (get_from data (JInt 0) ''prompt_eval_count'') count_or_zero) (\<lambda>p.
     rbind (rbind (get_from data (JInt 0) ''eval_count'') count_or_zero) (\<lambda>c.
     rbind (as_opt as_str content) (\<lambda>text.
     Inr (make_oai_response uid now text model p c ''stop'' None)))))"

text \<open>\<open>post\<close> includes the check of the status; a stream is read whatever the status is.\<close>

definition ollama_chat :: "(py_exn \<Rightarrow> string) \<Rightarrow> (string \<Rightarrow> jdict \<Rightarrow> json outcome) \<Rightarrow> adapter \<Rightarrow> string \<Rightarrow> time \<Rightarrow> message list \<Rightarrow> string \<Rightarrow> jdict
    \<Rightarrow> oai_response outcome" where
  "ollama_chat str_exn post a uid now messages model kw =
     obind (post (ollama_base a @ ''/api/chat'') (ollama_payload messages model kw False)) (\<lambda>data.
     of_res str_exn (ollama_reply uid now model data))"

text \<open>The lines of a stream, up to the one that says it is done; lines that are no JSON are skipped.\<close>

fun ollama_lines :: "pylib \<Rightarrow> string \<Rightarrow> time \<Rightarrow> string \<Rightarrow> string list \<Rightarrow> jdict list \<times> (bool \<times> py_exn option)" where
  "ollama_lines pl cid now model [] = ([], False, None)"
| "ollama_lines pl cid now model (line # ls) =
     (if str_strip line = [] then ollama_lines pl cid now model ls
      else
        (case json_loads pl line of
           Inl _ \<Rightarrow> ollama_lines pl cid now model ls
         | Inr data \<Rightarrow>
             (case ollama_content data of
                Inl e \<Rightarrow> ([], False, Some e)
              | Inr content \<Rightarrow>
                  (let out = (if truthy content then [text_chunk cid now model content] else []) in
                   case get_from data JNull ''done'' of
                     Inl e \<Rightarrow> (out, False, Some e)
                   | Inr d \<Rightarrow> if truthy d then (out, True, None)
                              else (let (cs, r) = ollama_lines pl cid now model ls in (out @ cs, r))))))"

definition ollama_stream :: "pylib \<Rightarrow> (py_exn \<Rightarrow> string) \<Rightarrow> (string \<Rightarrow> jdict \<Rightarrow> string stream) \<Rightarrow> adapter \<Rightarrow> string \<Rightarrow> time \<Rightarrow> message list \<Rightarrow> string
    \<Rightarrow> jdict \<Rightarrow> jdict stream" where
  "ollama_stream pl str_exn post_stream a uid now messages model kw =
     (let cid = stream_id uid; (ls, err) = post_stream (ollama_base a @ ''/api/chat'') (ollama_payload messages model kw True);
          (chunks, ended, raised) = ollama_lines pl cid now model ls; sent = role_chunk cid now model # chunks
      in case raised of
           Some e \<Rightarrow> (sent, Some (plain_error str_exn e))
         | None \<Rightarrow> if ended \<or> err = None then (sent @ [end_chunk cid now model ''stop''], None) else (sent, err))"

definition ollama_embeddings :: "(py_exn \<Rightarrow> string) \<Rightarrow> (string \<Rightarrow> jdict \<Rightarrow> json outcome) \<Rightarrow> adapter \<Rightarrow> string list \<Rightarrow> string
    \<Rightarrow> embedding_response outcome" where
  "ollama_embeddings str_exn post a input_texts model =
     obind (embed_each (\<lambda>t. obind (post (ollama_base a @ ''/api/embeddings'') [(''model'', JStr model), (''prompt'', JStr t)]) (\<lambda>r.
              of_res str_exn (get_from r (JList []) ''embedding''))) 0 input_texts) (\<lambda>vs.
     Reply \<lparr>er_data = vs, er_model = model, er_prompt_tokens = 0, er_total_tokens = 0\<rparr>)"

text \<open>Any failure gives the empty list, a model without a name included.\<close>

definition ollama_models :: "json outcome \<Rightarrow> json list" where
  "ollama_models answer =
     (case answer of
        Failed _ \<Rightarrow> []
      | Reply data \<Rightarrow>
          (case rbind (rbind (get_from data (JList []) ''models'') py_iter)
                  (all_res (\<lambda>m. case m of JObj d \<Rightarrow> (case map_of d ''name'' of Some n \<Rightarrow> Inr n | None \<Rightarrow> Inl KeyError) | _ \<Rightarrow> Inl TypeError)) of
             Inr names \<Rightarrow> names
           | Inl _ \<Rightarrow> []))"


section \<open>Bedrock\<close>

definition prepare_body :: "message list \<Rightarrow> jdict \<Rightarrow> jdict" where
  "prepare_body messages kw =
     (let (system, msgs) = prepare_messages JNull messages; temperature = jget ''temperature'' kw; max_tokens = jget ''max_tokens'' kw
      in set_when (temperature \<noteq> JNull) ''temperature'' temperature
           (set_when (truthy system) ''system'' system
              [(''anthropic_version'', JStr ''bedrock-2023-12-15''), (''messages'', JList (map JObj msgs)),
               (''max_tokens'', if truthy max_tokens then max_tokens else JInt 4096)]))"

fun bedrock_text :: "json list \<Rightarrow> string res" where
  "bedrock_text [] = Inr []"
| "bedrock_text (b # bs) =
     rbind (get_from b JNull ''type'') (\<lambda>t.
     if t = JStr ''text''
     then rbind (get_from b (JStr []) ''text'') (\<lambda>v.
            case v of JStr s \<Rightarrow> rbind (bedrock_text bs) (\<lambda>rest. Inr (s @ rest)) | _ \<Rightarrow> Inl TypeError)
     else bedrock_text bs)"

definition bedrock_reply :: "string \<Rightarrow> time \<Rightarrow> string \<Rightarrow> json \<Rightarrow> oai_response res" where
  "bedrock_reply uid now model result =
     rbind (rbind (get_from result (JList []) ''content'') py_iter) (\<lambda>blocks.
     rbind (bedrock_text blocks) (\<lambda>content.
     rbind (get_from result (JObj []) ''usage'') (\<lambda>usage.
     rbind (rbind (get_from usage (JInt 0) ''input_tokens'') as_int) (\<lambda>p.
     rbind (rbind (get_from usage (JInt 0) ''output_tokens'') as_int) (\<lambda>c.
     Inr (make_oai_response uid now (Some content) model p c ''stop'' None))))))"

text \<open>\<open>invoke\<close> is given the model and the text of the body, and answers with a text.\<close>

definition bedrock_chat :: "pylib \<Rightarrow> (py_exn \<Rightarrow> string) \<Rightarrow> (string \<Rightarrow> string \<Rightarrow> string outcome) \<Rightarrow> string \<Rightarrow> time \<Rightarrow> message list \<Rightarrow> string \<Rightarrow> jdict
    \<Rightarrow> oai_response outcome" where
  "bedrock_chat pl str_exn invoke uid now messages model kw =
     obind (invoke model (json_dumps pl (JObj (prepare_body messages kw)))) (\<lambda>answer.
     of_res str_exn (rbind (json_loads pl answer) (bedrock_reply uid now model)))"

text \<open>The chunks one event of a stream gives; an event without bytes counts as an empty object.\<close>

definition bedrock_event :: "pylib \<Rightarrow> string \<Rightarrow> time \<Rightarrow> string \<Rightarrow> string option \<Rightarrow> jdict list res" where
  "bedrock_event pl cid now model event =
     rbind (json_loads pl (case event of None \<Rightarrow> ''{}'' | Some b \<Rightarrow> b)) (\<lambda>data.
     rbind (get_from data JNull ''type'') (\<lambda>t.
     if t = JStr ''content_block_delta''
     then rbind (get_from data (JObj []) ''delta'') (\<lambda>delta.
          rbind (get_from delta JNull ''type'') (\<lambda>dt.
          if dt = JStr ''text_delta'' then rbind (get_from delta (JStr []) ''text'') (\<lambda>v. Inr [text_chunk cid now model v]) else Inr []))
     else Inr []))"

fun bedrock_events :: "pylib \<Rightarrow> string \<Rightarrow> time \<Rightarrow> string \<Rightarrow> string option list \<Rightarrow> jdict list \<times> py_exn option" where
  "bedrock_events pl cid now model [] = ([], None)"
| "bedrock_events pl cid now model (e # es) =
     (case bedrock_event pl cid now model e of
        Inl x \<Rightarrow> ([], Some x)
      | Inr cs \<Rightarrow> (let (cs', r) = bedrock_events pl cid now model es in (cs @ cs', r)))"

text \<open>Here the request comes first, so a refused one sends nothing.\<close>

definition bedrock_stream :: "pylib \<Rightarrow> (py_exn \<Rightarrow> string) \<Rightarrow> (string \<Rightarrow> string \<Rightarrow> string option stream outcome) \<Rightarrow> string \<Rightarrow> time \<Rightarrow> message list
    \<Rightarrow> string \<Rightarrow> jdict \<Rightarrow> jdict stream" where
  "bedrock_stream pl str_exn invoke uid now messages model kw =
     (case invoke model (json_dumps pl (JObj (prepare_body messages kw))) of
        Failed e \<Rightarrow> ([], Some e)
      | Reply (events, err) \<Rightarrow>
          (let cid = stream_id uid; (chunks, raised) = bedrock_events pl cid now model events; sent = role_chunk cid now model # chunks
           in case raised of
                Some e \<Rightarrow> (sent, Some (plain_error str_exn e))
              | None \<Rightarrow> (case err of Some e \<Rightarrow> (sent, Some e) | None \<Rightarrow> (sent @ [end_chunk cid now model ''stop''], None))))"

definition bedrock_region :: "settings \<Rightarrow> adapter \<Rightarrow> json" where
  "bedrock_region st a = jget_or (JStr (AWS_BEDROCK_REGION st)) ''region'' (ad_config a)"

definition bedrock_models :: "string list" where
  "bedrock_models = [''anthropic.claude-3-5-sonnet-20241022-v2:0'', ''anthropic.claude-3-5-haiku-20241022-v1:0'',
     ''anthropic.claude-3-opus-20240229-v1:0'']"


section \<open>The adapter of a provider\<close>

record sdk =
  sdk_lib :: pylib
  sdk_str_exn :: "py_exn \<Rightarrow> string"
  sdk_anthropic :: "api_client \<Rightarrow> jdict \<Rightarrow> anthropic_message outcome"
  sdk_anthropic_stream :: "api_client \<Rightarrow> jdict \<Rightarrow> anthropic_event stream"
  sdk_openai :: "api_client \<Rightarrow> jdict \<Rightarrow> openai_completion outcome"
  sdk_openai_stream :: "api_client \<Rightarrow> jdict \<Rightarrow> openai_chunk stream"
  sdk_openai_embed :: "api_client \<Rightarrow> jdict \<Rightarrow> embedding_response outcome"
  sdk_azure :: "api_client \<Rightarrow> jdict \<Rightarrow> openai_completion outcome"
  sdk_azure_stream :: "api_client \<Rightarrow> jdict \<Rightarrow> openai_chunk stream"
  sdk_azure_embed :: "api_client \<Rightarrow> jdict \<Rightarrow> embedding_response outcome"
  sdk_gemini :: "string \<Rightarrow> jdict \<Rightarrow> gemini_response outcome"
  sdk_gemini_stream :: "string \<Rightarrow> jdict \<Rightarrow> string option stream"
  sdk_gemini_embed :: "string \<Rightarrow> jdict \<Rightarrow> json outcome"
  sdk_bedrock :: "json \<Rightarrow> string \<Rightarrow> string \<Rightarrow> string outcome"
  sdk_bedrock_stream :: "json \<Rightarrow> string \<Rightarrow> string \<Rightarrow> string option stream outcome"
  sdk_post :: "int \<Rightarrow> string \<Rightarrow> jdict \<Rightarrow> json outcome"
  sdk_post_stream :: "int \<Rightarrow> string \<Rightarrow> jdict \<Rightarrow> string stream"

definition anthropic_client :: "adapter \<Rightarrow> api_client" where
  "anthropic_client a = \<lparr>ap_endpoint = [], ap_key = ad_api_key a, ap_variant = JNull, ap_timeout = ad_timeout a\<rparr>"

text \<open>The client of a provider that speaks the protocol of OpenAI itself.\<close>

definition openai_like :: "string \<Rightarrow> adapter \<Rightarrow> api_client res" where
  "openai_like kind a =
     (if kind = ''groq'' then Inr (groq_client a) else if kind = ''mistral'' then Inr (mistral_client a)
      else if kind = ''openai_compatible'' then compatible_client a else Inr (openai_client a))"

definition adapter_chat :: "sdk \<Rightarrow> settings \<Rightarrow> string \<Rightarrow> adapter \<Rightarrow> string \<Rightarrow> time \<Rightarrow> message list \<Rightarrow> string \<Rightarrow> jdict \<Rightarrow> oai_response outcome" where
  "adapter_chat k st kind a uid now messages model kw =
     (if kind = ''anthropic'' then anthropic_chat (sdk_lib k) (sdk_str_exn k) (sdk_anthropic k (anthropic_client a)) uid now messages model kw
      else if kind = ''azure_openai'' then azure_chat (sdk_azure k (azure_client st a)) uid now messages model kw
      else if kind = ''gemini'' then gemini_chat (sdk_str_exn k) (sdk_gemini k (ad_api_key a)) uid now messages model kw
      else if kind = ''bedrock'' then bedrock_chat (sdk_lib k) (sdk_str_exn k) (sdk_bedrock k (bedrock_region st a)) uid now messages model kw
      else if kind = ''ollama'' then ollama_chat (sdk_str_exn k) (sdk_post k (ad_timeout a)) a uid now messages model kw
      else obind (of_res (sdk_str_exn k) (openai_like kind a)) (\<lambda>c. openai_chat (sdk_openai k c) uid now messages model kw))"

definition adapter_stream :: "sdk \<Rightarrow> settings \<Rightarrow> string \<Rightarrow> adapter \<Rightarrow> string \<Rightarrow> time \<Rightarrow> message list \<Rightarrow> string \<Rightarrow> jdict \<Rightarrow> jdict stream" where
  "adapter_stream k st kind a uid now messages model kw =
     (if kind = ''anthropic'' then anthropic_stream (sdk_str_exn k) (sdk_anthropic_stream k (anthropic_client a)) uid now messages model kw
      else if kind = ''azure_openai'' then azure_stream (sdk_azure_stream k (azure_client st a)) messages model kw
      else if kind = ''gemini'' then gemini_stream (sdk_gemini_stream k (ad_api_key a)) uid now messages model kw
      else if kind = ''bedrock'' then bedrock_stream (sdk_lib k) (sdk_str_exn k) (sdk_bedrock_stream k (bedrock_region st a)) uid now messages model kw
      else if kind = ''ollama'' then ollama_stream (sdk_lib k) (sdk_str_exn k) (sdk_post_stream k (ad_timeout a)) a uid now messages model kw
      else (case openai_like kind a of
              Inl e \<Rightarrow> ([], Some (plain_error (sdk_str_exn k) e))
            | Inr c \<Rightarrow> openai_stream (sdk_openai_stream k c) messages model kw))"

text \<open>Anthropic and Bedrock have no embeddings.\<close>

definition adapter_embeddings :: "sdk \<Rightarrow> settings \<Rightarrow> string \<Rightarrow> adapter \<Rightarrow> string list \<Rightarrow> string \<Rightarrow> embedding_response outcome" where
  "adapter_embeddings k st kind a input_texts model =
     (if kind = ''anthropic'' \<or> kind = ''bedrock''
      then Failed (plain_error (sdk_str_exn k) (NotImplementedError (kind @ '' does not support embeddings'')))
      else if kind = ''azure_openai'' then openai_embeddings (sdk_azure_embed k (azure_client st a)) input_texts model
      else if kind = ''gemini'' then gemini_embeddings (sdk_gemini_embed k (ad_api_key a)) input_texts model
      else if kind = ''ollama'' then ollama_embeddings (sdk_str_exn k) (sdk_post k (ad_timeout a)) a input_texts model
      else obind (of_res (sdk_str_exn k) (openai_like kind a)) (\<lambda>c. openai_embeddings (sdk_openai_embed k c) input_texts model))"

text \<open>
  The adapter the retry loops make for a key: it has neither the base URL nor the settings of a stored provider
  configuration.  With it, the calls of the loops are calls of the client libraries, whose answers may differ from
  step to step.
\<close>

definition loop_adapter :: "settings \<Rightarrow> string \<Rightarrow> string \<Rightarrow> adapter" where
  "loop_adapter st prov key = \<lparr>ad_api_key = key, ad_base_url = [], ad_config = [], ad_timeout = get_timeout st prov\<rparr>"

definition chat_calls :: "(nat \<Rightarrow> sdk) \<Rightarrow> settings \<Rightarrow> (nat \<Rightarrow> string) \<Rightarrow> oai_response env \<Rightarrow> message list \<Rightarrow> string \<Rightarrow> jdict \<Rightarrow> oai_response env" where
  "chat_calls k st uids clock messages model kw =
     clock\<lparr>env_call := (\<lambda>n prov key. adapter_chat (k n) st prov (loop_adapter st prov key) (uids n) (env_after clock n) messages model kw)\<rparr>"

definition stream_calls :: "(nat \<Rightarrow> sdk) \<Rightarrow> settings \<Rightarrow> (nat \<Rightarrow> string) \<Rightarrow> jdict stream env \<Rightarrow> message list \<Rightarrow> string \<Rightarrow> jdict \<Rightarrow> jdict stream env" where
  "stream_calls k st uids clock messages model kw =
     clock\<lparr>env_call := (\<lambda>n prov key. Reply (adapter_stream (k n) st prov (loop_adapter st prov key) (uids n) (env_after clock n) messages model kw))\<rparr>"


section \<open>A stream says what the reply says\<close>

text \<open>What a client reads from chunks: text, tool calls, and the reason to finish.\<close>

definition first_choice :: "jdict \<Rightarrow> jdict" where
  "first_choice chunk = (case jget ''choices'' chunk of JList (JObj c # _) \<Rightarrow> c | _ \<Rightarrow> [])"

definition chunk_calls :: "jdict \<Rightarrow> json list" where
  "chunk_calls chunk =
     (case jget ''delta'' (first_choice chunk) of
        JObj d \<Rightarrow> (case jget ''tool_calls'' d of JList ts \<Rightarrow> ts | _ \<Rightarrow> [])
      | _ \<Rightarrow> [])"

definition streamed_calls :: "jdict list \<Rightarrow> json list" where
  "streamed_calls chunks = concat (map chunk_calls chunks)"

definition streamed_text :: "jdict list \<Rightarrow> string" where
  "streamed_text chunks = concat (map str_val (fst (chunk_texts chunks)))"

definition streamed_finish :: "jdict list \<Rightarrow> json" where
  "streamed_finish chunks = (if chunks = [] then JNull else jget ''finish_reason'' (first_choice (last chunks)))"

text \<open>A tool call as a client reads it: identifier, name and the parsed arguments.\<close>

definition call_view :: "pylib \<Rightarrow> json \<Rightarrow> json \<times> json \<times> json res" where
  "call_view pl v =
     (case v of
        JObj d \<Rightarrow>
          (case jget ''function'' d of
             JObj f \<Rightarrow> (jget ''id'' d, jget ''name'' f, case jget ''arguments'' f of JStr a \<Rightarrow> json_loads pl a | _ \<Rightarrow> Inl TypeError)
           | _ \<Rightarrow> (jget ''id'' d, JNull, Inl TypeError))
      | _ \<Rightarrow> (JNull, JNull, Inl TypeError))"

text \<open>
  The documented stream of a message: for every block its start, its text or the JSON text of its input in pieces,
  and its stop, then the reason the message stopped.
\<close>

fun block_events :: "anthropic_block \<times> string list \<Rightarrow> anthropic_event list" where
  "block_events (TextBlock t, ps) = BlockStart (TextBlock []) # map TextDelta ps @ [BlockStop]"
| "block_events (ToolUse i n v, ps) = BlockStart (ToolUse i n (JObj [])) # map InputJsonDelta ps @ [BlockStop]"
| "block_events (OtherBlock k, ps) = BlockStart (OtherBlock k) # map (\<lambda>_. OtherDelta) ps @ [BlockStop]"

fun pieces_ok :: "pylib \<Rightarrow> anthropic_block \<times> string list \<Rightarrow> bool" where
  "pieces_ok pl (TextBlock t, ps) \<longleftrightarrow> concat ps = t"
| "pieces_ok pl (ToolUse i n v, ps) \<longleftrightarrow> i \<noteq> [] \<and> json_loads pl (concat ps) = Inr v"
| "pieces_ok pl (OtherBlock k, ps) \<longleftrightarrow> True"

definition message_events :: "(anthropic_block \<times> string list) list \<Rightarrow> string \<Rightarrow> anthropic_event list" where
  "message_events blocks reason = concat (map block_events blocks) @ [MessageDelta (Some reason)]"

fun is_tool :: "anthropic_block \<Rightarrow> bool" where
  "is_tool (ToolUse i n v) = True"
| "is_tool _ = False"

text \<open>A message stops for a tool exactly when it uses one, unless it was cut off.\<close>

definition reason_ok :: "anthropic_message \<Rightarrow> bool" where
  "reason_ok m \<longleftrightarrow> an_stop_reason m = ''max_tokens'' \<or> (an_stop_reason m = ''tool_use'' \<longleftrightarrow> list_ex is_tool (an_content m))"

lemma jget_Cons: "jget k ((k', v) # d) = (if k' = k then v else jget k d)" "jget k [] = JNull"
  by (simp_all add: jget_def dict_get_def)

lemma jget_or_Cons: "jget_or x k ((k', v) # d) = (if k' = k then v else jget_or x k d)" "jget_or x k [] = x"
  by (simp_all add: jget_or_def dict_get_def)

lemmas chunk_simps = make_stream_chunk_def chunk_of_def chunk_text_def chunk_calls_def first_choice_def jget_Cons jget_or_Cons Let_def

lemma chunk_texts_append:
  "snd (chunk_texts cs) = Inr () \<Longrightarrow> fst (chunk_texts (cs @ ds)) = fst (chunk_texts cs) @ fst (chunk_texts ds)"
  by (induction cs) (auto simp: case_prod_beta split: sum.splits)

lemma chunk_texts_all: "(\<And>c. c \<in> set cs \<Longrightarrow> \<exists>ts. chunk_text c = Inr ts) \<Longrightarrow> snd (chunk_texts cs) = Inr ()"
  by (induction cs) (auto simp: case_prod_beta split: sum.splits, metis Inl_Inr_False)

lemma chunk_views:
  "chunk_text (text_chunk cid now model (JStr t)) = Inr (if t = [] then [] else [JStr t])" "chunk_calls (text_chunk cid now model (JStr t)) = []"
  "chunk_text (role_chunk cid now model) = Inr []" "chunk_calls (role_chunk cid now model) = []"
  "chunk_text (end_chunk cid now model r) = Inr []" "chunk_calls (end_chunk cid now model r) = []"
  "chunk_text (tool_chunk cid now model s) = Inr []"
  "map (call_view pl) (chunk_calls (tool_chunk cid now model s)) = [(JStr (ts_id s), JStr (ts_name s), json_loads pl (ts_buffer s))]"
  "jget ''finish_reason'' (first_choice (end_chunk cid now model r)) = JStr r"
  by (simp_all add: tool_chunk_def chunk_simps call_view_def)


lemma on_events_append:
  "on_events cid now model (es @ es') s =
     (let (cs, s') = on_events cid now model es s; (ds, s'') = on_events cid now model es' s' in (cs @ ds, s''))"
  by (induction es arbitrary: s) (simp_all add: case_prod_beta Let_def)

lemma on_events_significant:
  "on_events cid now model (filter (\<lambda>e. e \<noteq> OtherEvent) es) s = on_events cid now model es s"
  by (induction es arbitrary: s) (auto simp: case_prod_beta)

lemma on_pieces:
  "on_events cid now model (map TextDelta ps) s = (map (\<lambda>t. text_chunk cid now model (JStr t)) ps, s)"
  "ts_id s \<noteq> [] \<Longrightarrow> on_events cid now model (map InputJsonDelta ps) s = ([], s\<lparr>ts_buffer := ts_buffer s @ concat ps\<rparr>)"
  "on_events cid now model (map (\<lambda>_. OtherDelta) ps) s = ([], s)"
  by (induction ps arbitrary: s) simp_all

definition readable :: "jdict list \<Rightarrow> bool" where
  "readable cs \<longleftrightarrow> snd (chunk_texts cs) = Inr ()"

lemma readable_simps [simp]:
  "readable []" "readable (cs @ ds) \<longleftrightarrow> readable cs \<and> readable ds" "streamed_text [] = []" "streamed_calls [] = []"
  "streamed_calls (cs @ ds) = streamed_calls cs @ streamed_calls ds"
  by (auto simp: readable_def streamed_text_def streamed_calls_def)
    (induction cs; auto simp: case_prod_beta split: sum.splits)+

lemma streamed_text_append: "readable cs \<Longrightarrow> streamed_text (cs @ ds) = streamed_text cs @ streamed_text ds"
  by (simp add: readable_def streamed_text_def chunk_texts_append)

lemma one_chunk:
  "chunk_text c = Inr ts \<Longrightarrow> readable [c] \<and> streamed_text [c] = concat (map str_val ts) \<and> streamed_calls [c] = chunk_calls c"
  by (simp add: readable_def streamed_text_def streamed_calls_def)

lemma text_chunks:
  "readable (map (\<lambda>t. text_chunk cid now model (JStr t)) ps) \<and> streamed_text (map (\<lambda>t. text_chunk cid now model (JStr t)) ps) = concat ps \<and>
   streamed_calls (map (\<lambda>t. text_chunk cid now model (JStr t)) ps) = []"
  by (induction ps) (auto simp: readable_def streamed_text_def streamed_calls_def chunk_views case_prod_beta)

lemma block_chunks:
  assumes "pieces_ok pl bp" and "json_codec_ok pl"
  shows "\<exists>cs. on_events cid now model (block_events bp) (no_tool\<lparr>ts_finish := f\<rparr>) =
      (cs, no_tool\<lparr>ts_finish := if is_tool (fst bp) then ''tool_calls'' else f\<rparr>) \<and>
    readable cs \<and> streamed_text cs = block_text (fst bp) \<and>
    map (call_view pl) (streamed_calls cs) = map (call_view pl \<circ> JObj) (block_call pl (fst bp))"
proof (cases bp rule: block_events.cases)
  case (1 t ps)
  with assms(1) show ?thesis
    by (simp add: on_events_append on_pieces no_tool_def text_chunks)
next
  case (2 i n v ps)
  have "json_loads pl (json_dumps pl v) = Inr v" using assms(2) by (simp add: json_codec_ok_def)
  with 2 assms(1) show ?thesis
    by (simp add: on_events_append on_pieces no_tool_def one_chunk [OF chunk_views(7)] chunk_views(8) call_view_def jget_Cons)
next
  case (3 k ps)
  then show ?thesis by (simp add: on_events_append on_pieces no_tool_def)
qed

lemma blocks_chunks:
  assumes "list_all (pieces_ok pl) bs" and "json_codec_ok pl"
  shows "\<exists>cs. on_events cid now model (concat (map block_events bs)) (no_tool\<lparr>ts_finish := f\<rparr>) =
      (cs, no_tool\<lparr>ts_finish := if list_ex is_tool (map fst bs) then ''tool_calls'' else f\<rparr>) \<and>
    readable cs \<and> streamed_text cs = concat (map block_text (map fst bs)) \<and>
    map (call_view pl) (streamed_calls cs) = map (call_view pl \<circ> JObj) (concat (map (block_call pl) (map fst bs)))"
  using assms(1)
proof (induction bs arbitrary: f)
  case (Cons bp bs)
  obtain cs where cs: "on_events cid now model (block_events bp) (no_tool\<lparr>ts_finish := f\<rparr>) =
      (cs, no_tool\<lparr>ts_finish := if is_tool (fst bp) then ''tool_calls'' else f\<rparr>)"
    "readable cs" "streamed_text cs = block_text (fst bp)"
    "map (call_view pl) (streamed_calls cs) = map (call_view pl \<circ> JObj) (block_call pl (fst bp))"
    using block_chunks [OF _ assms(2), of bp cid now model f] Cons.prems by auto
  let ?f = "if is_tool (fst bp) then ''tool_calls'' else f"
  obtain ds where ds: "on_events cid now model (concat (map block_events bs)) (no_tool\<lparr>ts_finish := ?f\<rparr>) =
      (ds, no_tool\<lparr>ts_finish := if list_ex is_tool (map fst bs) then ''tool_calls'' else ?f\<rparr>)"
    "readable ds" "streamed_text ds = concat (map block_text (map fst bs))"
    "map (call_view pl) (streamed_calls ds) = map (call_view pl \<circ> JObj) (concat (map (block_call pl) (map fst bs)))"
    using Cons.IH [of ?f] Cons.prems by auto
  show ?case
    by (rule exI [of _ "cs @ ds"]) (simp add: on_events_append cs ds streamed_text_append)
qed simp

text \<open>C37.  Streaming an answer of Anthropic and asking for it at once tell the client the same: the texts of the
  chunks make up the text of the message, their tool calls are those of the reply with the same arguments, and the
  last chunk gives the reply's reason to finish.  The reply has the text as its content, but only when it has no
  tool calls.\<close>

theorem anthropic_stream_agrees:
  assumes "json_codec_ok pl" and "list_all (pieces_ok pl) blocks" and "map fst blocks = an_content m" and "reason_ok m"
    and "anthropic_params messages model kw = Inr params"
    and "create params = (events, None)" and "filter (\<lambda>e. e \<noteq> OtherEvent) events = message_events blocks (an_stop_reason m)"
    and "anthropic_stream str_exn create uid now messages model kw = (chunks, err)"
    and "hd (or_choices (anthropic_reply pl uid' now' m)) = c"
  shows "err = None \<and> streamed_finish chunks = JStr (the (oc_finish_reason c)) \<and>
    map (call_view pl) (streamed_calls chunks) =
      (case om_tool_calls (oc_message c) of None \<Rightarrow> [] | Some ts \<Rightarrow> map (call_view pl \<circ> JObj) ts) \<and>
    om_content (oc_message c) = (if streamed_calls chunks = [] then Some (streamed_text chunks) else None)"
proof -
  let ?cid = "stream_id uid" and ?calls = "concat (map (block_call pl) (an_content m))"
  obtain cs where cs: "on_events ?cid now model (concat (map block_events blocks)) no_tool =
      (cs, no_tool\<lparr>ts_finish := if list_ex is_tool (an_content m) then ''tool_calls'' else ''stop''\<rparr>)"
    "readable cs" "streamed_text cs = concat (map block_text (an_content m))"
    "map (call_view pl) (streamed_calls cs) = map (call_view pl \<circ> JObj) ?calls"
    using blocks_chunks [OF assms(2,1), of ?cid now model "''stop''"] by (auto simp: assms(3) no_tool_def)
  have "on_events ?cid now model events no_tool = on_events ?cid now model (message_events blocks (an_stop_reason m)) no_tool"
    using on_events_significant [of ?cid now model events no_tool] by (simp add: assms(7))
  also have "\<dots> = (cs, no_tool\<lparr>ts_finish := anthropic_finish (an_stop_reason m)\<rparr>)"
    using assms(4) by (auto simp: message_events_def on_events_append cs anthropic_finish_def reason_ok_def)
  finally have sent: "on_events ?cid now model events no_tool = (cs, no_tool\<lparr>ts_finish := anthropic_finish (an_stop_reason m)\<rparr>)" .
  have chunks: "chunks = role_chunk ?cid now model # cs @ [end_chunk ?cid now model (anthropic_finish (an_stop_reason m))]" "err = None"
    using assms(5,6,8) by (auto simp: anthropic_stream_def Let_def sent)
  have calls: "streamed_calls chunks = streamed_calls cs" and said: "streamed_text chunks = streamed_text cs"
    using cs(2) one_chunk [OF chunk_views(3)] one_chunk [OF chunk_views(5)] chunk_views(4,6)
    by (simp_all add: chunks(1) streamed_calls_def streamed_text_def readable_def chunk_texts_append chunk_views case_prod_beta)
  have none: "streamed_calls cs = [] \<longleftrightarrow> ?calls = []" using cs(4) by (metis map_is_Nil_conv)
  have finish: "streamed_finish chunks = JStr (anthropic_finish (an_stop_reason m))"
    by (simp add: streamed_finish_def chunks(1) chunk_views)
  have "c = \<lparr>oc_index = 0, oc_message = \<lparr>om_role = ''assistant'',
      om_content = (if ?calls \<noteq> [] then None else Some (concat (map block_text (an_content m)))),
      om_tool_calls = (if ?calls = [] then None else Some ?calls), om_name = None\<rparr>,
      oc_finish_reason = Some (anthropic_finish (an_stop_reason m))\<rparr>"
    using assms(9) by (auto simp: anthropic_reply_def make_oai_response_def Let_def simp del: concat_eq_Nil_conv)
  then show ?thesis
    using chunks(2) none cs(3,4) by (simp add: finish calls said del: concat_eq_Nil_conv)
qed

lemma anthropic_stream_agrees_witness:
  "streamed_text (fst (anthropic_stream (\<lambda>_. []) (\<lambda>_. ([OtherEvent, BlockStart (TextBlock []), TextDelta ''ab'', TextDelta ''c'', BlockStop,
     OtherEvent, MessageDelta (Some ''end_turn'')], None)) ''u'' 5 [] ''m'' [])) = ''abc''"
proof -
  let ?b = "[(TextBlock ''abc'', [''ab'', ''c''])]"
  let ?e = "[OtherEvent, BlockStart (TextBlock []), TextDelta ''ab'', TextDelta ''c'', BlockStop, OtherEvent, MessageDelta (Some ''end_turn'')]"
  let ?m = "\<lparr>an_content = [TextBlock ''abc''], an_stop_reason = ''end_turn'', an_model = ''m'', an_input_tokens = 1, an_output_tokens = 1\<rparr>"
  let ?p = "[(''model'', JStr ''m''), (''messages'', JList []), (''max_tokens'', JInt 4096)]"
  have p: "anthropic_params [] ''m'' [] = Inr ?p" by (simp add: anthropic_params_def set_when_def convert_tools_def jget_Cons)
  obtain chunks err where run: "anthropic_stream (\<lambda>_. []) (\<lambda>_. (?e, None)) ''u'' 5 [] ''m'' [] = (chunks, err)" by fastforce
  obtain c where c: "hd (or_choices (anthropic_reply plain_lib ''u'' 5 ?m)) = c" by blast
  from anthropic_stream_agrees [OF plain_lib_json _ _ _ p refl _ run c, of ?b] have
    "om_content (oc_message c) = (if streamed_calls chunks = [] then Some (streamed_text chunks) else None)"
    by (simp add: message_events_def reason_ok_def)
  with c have "streamed_text chunks = ''abc''"
    by (auto simp: anthropic_reply_def make_oai_response_def split: if_splits)
  then show ?thesis by (simp add: run)
qed



section \<open>Other facts of the adapters\<close>

text \<open>Conversion keeps all messages but those of the system, in order; of those the last one is kept.\<close>

lemma prepare_messages_keeps:
  "prepare_messages s ms =
     (foldl (\<lambda>s m. if jget ''role'' m = JStr ''system'' then jget_or (JStr []) ''content'' m else s) s ms,
      map (\<lambda>m. [(''role'', jget_or (JStr ''user'') ''role'' m), (''content'', jget_or (JStr []) ''content'' m)])
        (filter (\<lambda>m. jget ''role'' m \<noteq> JStr ''system'') ms))"
  by (induction ms arbitrary: s) (auto simp: case_prod_beta)

text \<open>The loops cannot use a compatible endpoint: its adapter needs a base URL, which they do not give.\<close>

theorem compatible_endpoint_unusable:
  "adapter_chat k st ''openai_compatible'' (loop_adapter st prov key) uid now messages model kw =
     Failed (plain_error (sdk_str_exn k) (ValueError ''base_url is required for openai_compatible provider''))"
  "adapter_stream k st ''openai_compatible'' (loop_adapter st prov key) uid now messages model kw =
     ([], Some (plain_error (sdk_str_exn k) (ValueError ''base_url is required for openai_compatible provider'')))"
  by (simp_all add: adapter_chat_def adapter_stream_def openai_like_def compatible_client_def loop_adapter_def of_res_def obind_def)

text \<open>A stream that Ollama refuses with an error object counts as an empty answer that ended well.\<close>

theorem refused_ollama_stream_is_empty:
  assumes "json_loads pl line = Inr (JObj [(''error'', v)])" and "str_strip line \<noteq> []"
  shows "ollama_stream pl str_exn (\<lambda>_ _. ([line], None)) a uid now messages model kw =
    ([role_chunk (stream_id uid) now model, end_chunk (stream_id uid) now model ''stop''], None)"
  using assms by (simp add: ollama_stream_def ollama_content_def get_from_def jget_or_Cons Let_def)

end
