(* ===== verification/Users.thy ===== *)
theory Users
  imports AuthProofs Logs
begin

text \<open>
  The part of \<open>main.py\<close> about users: the endpoints that manage local users and the pages and the web socket of
  the administration, which are opened with the cookies of a login.  Bodies are parsed JSON; their strings and
  lists have the types the code expects.
\<close>


section \<open>Managing users\<close>

datatype 'a user_answer = Done 'a | BadPassword "password_error list"

definition list_users :: "(time \<Rightarrow> string) \<Rightarrow> database \<Rightarrow> jdict list" where
  "list_users isof db =
     map (\<lambda>u. [(''id'', JStr (lu_id u)), (''username'', JStr (lu_username u)),
               (''roles'', if truthy (lu_roles u) then lu_roles u else JList []), (''is_active'', JBool (lu_is_active u)),
               (''created_at'', JStr (isof (lu_created_at u))),
               (''last_login_at'', case lu_last_login_at u of None \<Rightarrow> JNull | Some t \<Rightarrow> JStr (isof t))])
       (newest_first lu_created_at (t_local_users db))"

definition find_user :: "string \<Rightarrow> database \<Rightarrow> local_user_row option" where
  "find_user user_id db = find (\<lambda>u. lu_id u = user_id) (t_local_users db)"

definition new_user :: "string \<Rightarrow> time \<Rightarrow> string \<Rightarrow> string \<Rightarrow> json \<Rightarrow> local_user_row" where
  "new_user uid now username hashed roles =
     \<lparr>lu_id = uid, lu_username = username, lu_password_hash = hashed, lu_roles = roles, lu_is_active = True, lu_created_at = now,
      lu_last_login_at = None\<rparr>"

definition add_user :: "local_user_row \<Rightarrow> password_history_row \<Rightarrow> database \<Rightarrow> database" where
  "add_user u h db = db\<lparr>t_local_users := t_local_users db @ [u], t_password_history := t_password_history db @ [h]\<rparr>"

text \<open>\<open>uid\<close> and \<open>row\<close> are the new identifiers of the user and of the row of the password history.\<close>

definition create_user :: "'s auth_env \<Rightarrow> time \<Rightarrow> string \<Rightarrow> string \<Rightarrow> string \<Rightarrow> jdict \<Rightarrow> (database, string user_answer) io" where
  "create_user env now uid row salt body =
     (let username = str_strip (str_val (jget_or (JStr []) ''username'' body));
          password = str_val (jget_or (JStr []) ''password'' body);
          roles = jget_or (JList [JStr ''viewer'']) ''roles'' body
      in if username = [] then raise (HTTPException 400 ''Username is required'')
         else (case validate_password (ae_common env) password (PASSWORD_MIN_LENGTH (ae_settings env)) of
                 (False, errors) \<Rightarrow> ret (BadPassword errors)
               | (True, _) \<Rightarrow> with_db (\<lambda>db.
                   if list_ex (\<lambda>u. lu_username u = username) (t_local_users db)
                   then (Inl (HTTPException 409 (''User '' @ username @ '' already exists'')), db)
                   else (case hash_password (ae_bcrypt env) salt password of
                           Inl e \<Rightarrow> (Inl e, db)
                         | Inr hashed \<Rightarrow>
                             if find_user uid db \<noteq> None then (Inl IntegrityError, db)
                             else (Inr (Done uid),
                                   add_user (new_user uid now username hashed roles) (history_row row now uid hashed) db)))))"

text \<open>A flag that is null or no truth value is refused by its column.\<close>

definition update_user :: "string \<Rightarrow> jdict \<Rightarrow> (database, unit) io" where
  "update_user user_id body =
     with_db (\<lambda>db.
       case find_user user_id db of
         None \<Rightarrow> (Inl (HTTPException 404 ''User not found''), db)
       | Some u \<Rightarrow>
           (let u1 = (case map_of body ''roles'' of None \<Rightarrow> u | Some r \<Rightarrow> u\<lparr>lu_roles := r\<rparr>);
                save = (\<lambda>u'. (Inr (), db\<lparr>t_local_users := update_first (\<lambda>u. lu_id u = user_id) (\<lambda>_. u') (t_local_users db)\<rparr>))
            in case map_of body ''is_active'' of
                 None \<Rightarrow> save u1
               | Some (JBool b) \<Rightarrow> save (u1\<lparr>lu_is_active := b\<rparr>)
               | Some JNull \<Rightarrow> (Inl IntegrityError, db)
               | Some _ \<Rightarrow> (Inl (OtherError ''StatementError''), db)))"

text \<open>The rows of the password history go with their user.\<close>

definition delete_user :: "auth_user \<Rightarrow> string \<Rightarrow> (database, unit) io" where
  "delete_user user user_id =
     with_db (\<lambda>db.
       case find_user user_id db of
         None \<Rightarrow> (Inl (HTTPException 404 ''User not found''), db)
       | Some u \<Rightarrow>
           if lu_username u = au_name user then (Inl (HTTPException 400 ''Cannot delete your own account''), db)
           else (Inr (), db\<lparr>t_local_users := delete_first (\<lambda>u. lu_id u = user_id) (t_local_users db),
                            t_password_history := filter (\<lambda>h. ph_user_id h \<noteq> user_id) (t_password_history db)\<rparr>))"

definition reset_user_password :: "'s auth_env \<Rightarrow> time \<Rightarrow> string \<Rightarrow> string \<Rightarrow> string \<Rightarrow> jdict \<Rightarrow> (database, string user_answer) io" where
  "reset_user_password env now row salt user_id body =
     (let new_password = str_val (jget_or (JStr []) ''password'' body) in
      case validate_password (ae_common env) new_password (PASSWORD_MIN_LENGTH (ae_settings env)) of
        (False, errors) \<Rightarrow> ret (BadPassword errors)
      | (True, _) \<Rightarrow> with_db (\<lambda>db.
          case find_user user_id db of
            None \<Rightarrow> (Inl (HTTPException 404 ''User not found''), db)
          | Some u \<Rightarrow>
              (case hash_password (ae_bcrypt env) salt new_password of
                 Inl e \<Rightarrow> (Inl e, db)
               | Inr hashed \<Rightarrow>
                   (Inr (Done (''Password reset for '' @ lu_username u)),
                    db\<lparr>t_local_users := update_first (\<lambda>u. lu_id u = user_id) (\<lambda>u. u\<lparr>lu_password_hash := hashed\<rparr>) (t_local_users db),
                       t_password_history := t_password_history db @ [history_row row now (lu_id u) hashed]\<rparr>))))"

definition validate_password_ep :: "'s auth_env \<Rightarrow> jdict \<Rightarrow> bool \<times> password_error list" where
  "validate_password_ep env body =
     validate_password (ae_common env) (str_val (jget_or (JStr []) ''password'' body)) (PASSWORD_MIN_LENGTH (ae_settings env))"


section \<open>The pages of the administration\<close>

datatype page_body = LoginForm string | RedirectTo string | DashboardPage

record cookie =
  ck_name :: string
  ck_value :: string
  ck_httponly :: bool
  ck_max_age :: int

record page =
  pg_status :: int
  pg_body :: page_body
  pg_cookies :: "cookie list"

text \<open>The cookie of the web socket, which scripts can read, holds the same token as the other.\<close>

definition admin_login_post :: "'s auth_env \<Rightarrow> time \<Rightarrow> token_ids \<Rightarrow> string \<Rightarrow> string \<Rightarrow> http_request \<Rightarrow> ('s auth_state, page) io" where
  "admin_login_post env now ids username password r =
     bnd (local_authenticate env now username password) (\<lambda>(success, roles).
       if \<not> success then ret \<lparr>pg_status = 401, pg_body = LoginForm ''Invalid username or password'', pg_cookies = []\<rparr>
       else bnd (create_token_pair env now ids username roles (get_client_ip r) (user_agent r)) (\<lambda>pair.
            let max_age = token_ttl (ae_settings env);
                put = (\<lambda>name httponly. \<lparr>ck_name = name, ck_value = tr_access_token pair, ck_httponly = httponly, ck_max_age = max_age\<rparr>)
            in ret \<lparr>pg_status = 303, pg_body = RedirectTo ''/admin/dashboard'',
                    pg_cookies = [put ''access_token'' True, put ''ws_token'' False]\<rparr>))"

definition to_login :: page where
  "to_login = \<lparr>pg_status = 307, pg_body = RedirectTo ''/admin/login'', pg_cookies = []\<rparr>"

definition admin_dashboard :: "'s auth_env \<Rightarrow> time \<Rightarrow> http_request \<Rightarrow> ('s, page) io" where
  "admin_dashboard env now r =
     (let token = dict_get [] ''access_token'' (rq_cookies r) in
      if token = [] then ret to_login
      else try_except
             (bnd (decode_token env now token (get_client_ip r)) (\<lambda>payload.
                ret (if ''admin'' \<notin> set (jc_roles payload) then to_login
                     else \<lparr>pg_status = 200, pg_body = DashboardPage, pg_cookies = []\<rparr>)))
             (\<lambda>_. ret to_login))"

text \<open>What becomes of a web socket when it connects: it is closed with a code, or accepted.  No address is checked.\<close>

definition ws_admission :: "'s auth_env \<Rightarrow> time \<Rightarrow> string \<Rightarrow> ('s, int option) io" where
  "ws_admission env now token =
     (if token = [] then ret (Some 4001)
      else try_except
             (bnd (decode_token env now token []) (\<lambda>payload. ret (if ''admin'' \<notin> set (jc_roles payload) then Some 4003 else None)))
             (\<lambda>_. ret (Some 4001)))"


section \<open>Properties\<close>

text \<open>The documented behaviour of bcrypt: a password matches its own hash.\<close>

definition bcrypt_ok :: "bcrypt \<Rightarrow> bool" where
  "bcrypt_ok bc \<longleftrightarrow> (\<forall>p salt h. hash_password bc salt p = Inr h \<longrightarrow> verify_password bc p h)"

lemma create_user_DoneD:
  assumes "create_user env now uid row salt body db = (Inr (Done i), db1)"
  obtains hashed where "hash_password (ae_bcrypt env) salt (str_val (jget_or (JStr []) ''password'' body)) = Inr hashed"
    and "\<not> list_ex (\<lambda>u. lu_username u = str_strip (str_val (jget_or (JStr []) ''username'' body))) (t_local_users db)"
    and "t_local_users db1 = t_local_users db @
      [new_user uid now (str_strip (str_val (jget_or (JStr []) ''username'' body))) hashed (jget_or (JList [JStr ''viewer'']) ''roles'' body)]"
    and "t_refresh_tokens db1 = t_refresh_tokens db"
  using assms
  by (auto simp: create_user_def with_db_def add_user_def Let_def raise_def ret_def split: if_splits prod.splits bool.splits sum.splits)

context kv_store
begin

lemma right_login:
  assumes "ae_ops env = ops" and "inv s" and "look s u (lockout_key username) = None"
    and "find (\<lambda>x. lu_username x = username \<and> lu_is_active x) (t_local_users db) = Some usr"
    and "verify_password (ae_bcrypt env) pw (lu_password_hash usr)"
  shows "\<exists>st. local_authenticate env u username pw (s, db) = (Inr (True, roles_of (lu_roles usr) []), st)"
proof -
  obtain s1 where s1: "r_get_value ops u (lockout_key username) s = (Inr None, s1)" "inv s1"
    using local_authenticate_reads [OF assms(1,2), of u username] assms(3) by auto
  obtain b s2 where "r_delete_key ops u (failures_key username) s1 = (Inr b, s2)"
    using kv_delete [OF s1(2)] by blast
  with s1(1) show ?thesis
    using assms(1,4,5) by (simp add: local_authenticate_def Let_def bnd_def on_store_apply sv_truthy_def)
qed

text \<open>The dashboard opens for a token of this service exactly when it has the role.\<close>

lemma dashboard_known:
  assumes "ae_ops env = ops" and "inv s" and "jwt_ok (ae_jwt env)" and "secret_known (ae_settings env) k"
    and "of_int (jc_iat c) \<le> now" and "now < of_int (jc_exp c)" and "jc_jti c \<noteq> []" and "look s now (revoked_key (jc_jti c)) = None"
    and "jc_ip c = get_client_ip r"
    and "dict_get [] ''access_token'' (rq_cookies r) = jwt_encode (ae_jwt env) c k (JWT_ALGORITHM (ae_settings env))"
  shows "fst (admin_dashboard env now r s) =
    Inr (if ''admin'' \<in> set (jc_roles c) then \<lparr>pg_status = 200, pg_body = DashboardPage, pg_cookies = []\<rparr> else to_login)"
proof -
  let ?t = "jwt_encode (ae_jwt env) c k (JWT_ALGORITHM (ae_settings env))"
  have "fst (decode_token env now ?t (get_client_ip r) s) = Inr c"
    using decode_token_known [OF assms(1-5,7), of "get_client_ip r"] assms(6,8,9) by (simp add: sv_truthy_def)
  then obtain s' where "decode_token env now ?t (get_client_ip r) s = (Inr c, s')" by (metis prod.collapse)
  moreover have "?t \<noteq> []" using assms(3) unfolding jwt_ok_def by blast
  ultimately show ?thesis
    unfolding admin_dashboard_def Let_def assms(10) by (simp add: try_except_def bnd_def)
qed

end

text \<open>C38.  A user made by an administrator can log in to the administration with the password chosen: the answer sets
  cookies, and as long as the token in them lives and is not revoked they open the dashboard exactly when the
  user was given the role of an administrator.\<close>

theorem created_user_reaches_dashboard:
  fixes lib :: "'r aioredis" and env :: "'r redis_client auth_env"
  assumes "ae_ops env = redis_module lib url" and "in_fallback url s" and "jwt_ok (ae_jwt env)" and "bcrypt_ok (ae_bcrypt env)"
    and "JWT_SECRET (ae_settings env) \<noteq> []" and "jti \<noteq> []"
    and "create_user env t0 uid row salt [(''username'', JStr name), (''password'', JStr pw), (''roles'', roles)] db = (Inr (Done i), db1)"
    and "rc_look s t (lockout_key (str_strip name)) = None"
    and "admin_login_post env t (jti, value, row') (str_strip name) pw r (s, db1) = (Inr page, st)"
    and "in_fallback url s2" and "rc_look s2 t2 (revoked_key jti) = None"
    and "t \<le> t2" and "t2 < of_int \<lfloor>t + of_int (token_ttl (ae_settings env))\<rfloor>"
    and "rq_cookies r2 = map (\<lambda>c. (ck_name c, ck_value c)) (pg_cookies page)" and "get_client_ip r2 = get_client_ip r"
  shows "pg_status page = 303 \<and> fst (admin_dashboard env t2 r2 s2) =
    Inr (if ''admin'' \<in> set (roles_of roles []) then \<lparr>pg_status = 200, pg_body = DashboardPage, pg_cookies = []\<rparr> else to_login)"
proof -
  let ?n = "str_strip name"
  from create_user_DoneD [OF assms(7)] obtain hashed where
    h: "hash_password (ae_bcrypt env) salt pw = Inr hashed" "\<not> list_ex (\<lambda>u. lu_username u = ?n) (t_local_users db)"
       "t_local_users db1 = t_local_users db @ [new_user uid t0 ?n hashed roles]"
    by (auto simp: jget_or_def dict_get_def)
  have "find (\<lambda>x. lu_username x = ?n \<and> lu_is_active x) (t_local_users db) = None"
    using h(2) by (auto simp: find_None_iff list_ex_iff)
  then have "find (\<lambda>x. lu_username x = ?n \<and> lu_is_active x) (t_local_users db1) = Some (new_user uid t0 ?n hashed roles)"
    by (simp add: h(3) find_append new_user_def)
  moreover have "verify_password (ae_bcrypt env) pw hashed" using assms(4) h(1) by (simp add: bcrypt_ok_def)
  ultimately obtain st1 where login: "local_authenticate env t ?n pw (s, db1) = (Inr (True, roles_of roles []), st1)"
    using rc.right_login [OF assms(1,2,8), of db1 "new_user uid t0 ?n hashed roles" pw] by (auto simp: new_user_def)
  obtain pair st2 where pair: "create_token_pair env t (jti, value, row') ?n (roles_of roles []) (get_client_ip r) (user_agent r) st1 = (Inr pair, st2)"
    "page = \<lparr>pg_status = 303, pg_body = RedirectTo ''/admin/dashboard'', pg_cookies =
       [\<lparr>ck_name = ''access_token'', ck_value = tr_access_token pair, ck_httponly = True, ck_max_age = token_ttl (ae_settings env)\<rparr>,
        \<lparr>ck_name = ''ws_token'', ck_value = tr_access_token pair, ck_httponly = False, ck_max_age = token_ttl (ae_settings env)\<rparr>]\<rparr>"
    using assms(9) login by (auto simp: admin_login_post_def bnd_def Let_def ret_def split: prod.splits sum.splits)
  let ?c = "issued env t jti ?n (roles_of roles []) (get_client_ip r) (user_agent r)"
  have token: "dict_get [] ''access_token'' (rq_cookies r2) =
      jwt_encode (ae_jwt env) ?c (JWT_SECRET (ae_settings env)) (JWT_ALGORITHM (ae_settings env))"
    using create_token_pair_access [OF pair(1)] assms(14) by (simp add: pair(2) dict_get_def)
  have "secret_known (ae_settings env) (JWT_SECRET (ae_settings env))" using assms(5) by (simp add: secret_known_def)
  from rc.dashboard_known [OF assms(1,10,3) this issued_before [OF assms(12)] _ _ _ _ token] show ?thesis
    using assms(6,11,13,15) by (simp add: pair(2))
qed

lemma token_ignores_database:
  "request_api_key r = [] \<Longrightarrow>
   fst (get_current_user env t r credentials (s, db1)) = fst (get_current_user env t r credentials (s, db))"
  by (cases credentials; cases "the credentials")
    (simp_all add: get_current_user_def Let_def bnd_def on_store_apply case_prod_beta split: sum.splits)

text \<open>Neither the deletion of a user nor any change of one ends its sessions: access tokens authenticate as before,
  whatever the database holds, and a deletion revokes no refresh token.\<close>

theorem deletion_leaves_sessions:
  assumes "request_api_key r = []" and "delete_user user i db = (x, db1)"
  shows "fst (get_current_user env t r credentials (s, db1)) = fst (get_current_user env t r credentials (s, db)) \<and>
    t_refresh_tokens db1 = t_refresh_tokens db"
proof -
  have "t_refresh_tokens db1 = t_refresh_tokens db"
    using assms(2) by (auto simp: delete_user_def with_db_def split: option.splits if_splits)
  then show ?thesis by (rule conjI [OF token_ignores_database [OF assms(1)]])
qed


text \<open>A user whose login starts with the empty store.\<close>

definition sample_body :: jdict where
  "sample_body = [(''username'', JStr ''u''), (''password'', JStr ''Long-Enough-1''), (''roles'', JList [JStr ''admin''])]"

lemma created_user_reaches_dashboard_witness:
  "\<exists>page st. admin_login_post sample_env 5 (''j'', ''v'', ''q'') ''u'' ''Long-Enough-1'' (sample_request [])
       (new_redis_client, snd (create_user sample_env 1 ''1'' ''h'' ''s'' sample_body empty_db)) = (Inr page, st) \<and>
     fst (admin_dashboard sample_env 60 ((sample_request [])\<lparr>rq_cookies := map (\<lambda>c. (ck_name c, ck_value c)) (pg_cookies page)\<rparr>)
        new_redis_client) = Inr \<lparr>pg_status = 200, pg_body = DashboardPage, pg_cookies = []\<rparr>"
proof -
  let ?r = "sample_request []" and ?db = "snd (create_user sample_env 1 ''1'' ''h'' ''s'' sample_body empty_db)"
  have b: "bcrypt_ok (ae_bcrypt sample_env)"
    by (auto simp: bcrypt_ok_def hash_password_def verify_password_def rbind_Inr_iff utf8_round_trip)
  have "fst (create_user sample_env 1 ''1'' ''h'' ''s'' sample_body empty_db) = Inr (Done ''1'')" by code_simp
  then obtain db1 where db1: "?db = db1" and
    c: "create_user sample_env 1 ''1'' ''h'' ''s'' [(''username'', JStr ''u''), (''password'', JStr ''Long-Enough-1''), (''roles'', JList [JStr ''admin''])]
       empty_db = (Inr (Done ''1''), db1)"
    unfolding sample_body_def by (metis prod.collapse)
  have u: "str_strip ''u'' = ''u''" by code_simp
  have "\<not> isl (fst (admin_login_post sample_env 5 (''j'', ''v'', ''q'') ''u'' ''Long-Enough-1'' ?r (new_redis_client, ?db)))" by code_simp
  then obtain page st where
    l: "admin_login_post sample_env 5 (''j'', ''v'', ''q'') (str_strip ''u'') ''Long-Enough-1'' ?r (new_redis_client, db1) = (Inr page, st)"
    unfolding u db1 by (metis prod.collapse sum.collapse(2))
  let ?r2 = "?r\<lparr>rq_cookies := map (\<lambda>c. (ck_name c, ck_value c)) (pg_cookies page)\<rparr>"
  have ip: "get_client_ip ?r2 = get_client_ip ?r" by (simp add: get_client_ip_def sample_request_def header_def dict_get_def)
  have "fst (admin_dashboard sample_env 60 ?r2 new_redis_client) = Inr \<lparr>pg_status = 200, pg_body = DashboardPage, pg_cookies = []\<rparr>"
    using created_user_reaches_dashboard [where ?t2.0 = 60 and ?r2.0 = ?r2,
        OF sample_env_simps(1) no_redis_new(1) _ b _ _ c _ l no_redis_new(1) _ _ _ _ ip]
    by (simp add: sample_jwt_ok no_redis_new(2) roles_of_def)
  with l show ?thesis unfolding u db1 by blast
qed

end
