(* ===== verification/Startup.thy ===== *)
theory Startup
  imports Alerting DataFilter Catalog Guardrails KeyPool
begin

text \<open>
  The start-up sequence of \<open>main.py\<close>: the tables are seeded, the keys loaded and encrypted anew, the filter
  patterns read, the store connected and the alert of the start sent.  Creating the tables, directories and tasks is
  not modelled.  Identifiers and nonces are drawn for each of the stages.
\<close>

record startup_env =
  su_crypto :: crypto
  su_alerts :: alert_env
  su_uid :: "nat \<Rightarrow> nat \<Rightarrow> string"
  su_nonce :: "nat \<Rightarrow> nat \<Rightarrow> string"
  su_now :: time

abbreviation su_settings :: "startup_env \<Rightarrow> settings" where
  "su_settings e \<equiv> an_settings (su_alerts e)"

record 'r server =
  sv_db :: database
  sv_keys :: key_manager
  sv_patterns :: "filter_pattern_row list"
  sv_redis :: "'r redis_client"
  sv_calls :: "webhook_call list"

definition on_tables :: "(database, 'a) io \<Rightarrow> ('r server, 'a) io" where
  "on_tables m = (\<lambda>s. let (x, db) = m (sv_db s) in (x, s\<lparr>sv_db := db\<rparr>))"

definition on_keys :: "(key_manager \<times> database, 'a) io \<Rightarrow> ('r server, 'a) io" where
  "on_keys m = (\<lambda>s. let (x, (ks, db)) = m (sv_keys s, sv_db s) in (x, s\<lparr>sv_keys := ks, sv_db := db\<rparr>))"

definition on_alerts :: "(alert_state, 'a) io \<Rightarrow> ('r server, 'a) io" where
  "on_alerts m = (\<lambda>s. let (x, (db, calls)) = m (sv_db s, sv_calls s) in (x, s\<lparr>sv_db := db, sv_calls := calls\<rparr>))"

definition on_connection :: "('r redis_client, 'a) io \<Rightarrow> ('r server, 'a) io" where
  "on_connection m = (\<lambda>s. let (x, c) = m (sv_redis s) in (x, s\<lparr>sv_redis := c\<rparr>))"

text \<open>A function of the database that counts and cannot raise, as a coroutine.\<close>

definition counted :: "(database \<Rightarrow> nat \<times> database) \<Rightarrow> (database, nat) io" where
  "counted f = (\<lambda>db. let (n, db') = f db in (Inr n, db'))"

definition reload_config :: "('r server, unit) io" where
  "reload_config = (\<lambda>s. (Inr (), s\<lparr>sv_patterns := reload_patterns (get_all_patterns (sv_db s))\<rparr>))"

definition seed_tables :: "startup_env \<Rightarrow> (database, unit) io" where
  "seed_tables e =
     bnd (counted (seed_builtin_patterns (su_uid e 0) (su_now e))) (\<lambda>_.
     bnd (seed_builtin_aliases (su_uid e 1) (su_now e)) (\<lambda>_.
     bnd (seed_cost_rates (su_uid e 2) (su_now e)) (\<lambda>_.
     bnd (counted (seed_security_policies (su_uid e 3) (su_now e))) (\<lambda>_. ret ()))))"

definition start_keys :: "startup_env \<Rightarrow> (key_manager \<times> database, nat) io" where
  "start_keys e =
     bnd (seed_from_config (su_crypto e) (su_settings e) (su_uid e 4) (su_nonce e 0) (su_now e)) (\<lambda>_.
     bnd (\<lambda>s. (Inr (), load_from_db (su_crypto e) (su_settings e) s)) (\<lambda>_ (m, db).
       let (x, db') = re_encrypt_stale_keys (su_crypto e) (su_settings e) (su_nonce e 1) db in (x, (m, db'))))"

definition lifespan :: "startup_env \<Rightarrow> 'r aioredis \<Rightarrow> string \<Rightarrow> ('r server, unit) io" where
  "lifespan e lib url =
     bnd (on_tables (seed_tables e)) (\<lambda>_.
     bnd (on_keys (start_keys e)) (\<lambda>_.
     bnd reload_config (\<lambda>_.
     bnd (on_connection (get_redis lib url)) (\<lambda>_.
     try_except (on_alerts (fire_alert (su_alerts e) (su_uid e 5) (su_now e) ''system_start'' ''info'' ''onPrem LLM Sentinel started'' None))
       (\<lambda>_. ret ())))))"


section \<open>Seeding\<close>

text \<open>
  What the seeding loops have in common: an entry that is present is passed over; one that is not is put into one
  table, after which it and all that was present are.  \<open>rest\<close> is the database without that table.
\<close>

locale seeding =
  fixes run :: "'e \<Rightarrow> 'x list \<Rightarrow> nat \<Rightarrow> (database, nat) io"
    and present :: "'x \<Rightarrow> database \<Rightarrow> bool"
    and rest :: "database \<Rightarrow> database"
  assumes run_nil: "run e [] n db = (Inr n, db)"
    and run_present: "present x db \<Longrightarrow> run e (x # xs) n db = run e xs n db"
    and run_absent: "\<not> present x db \<Longrightarrow> run e (x # xs) n db = (Inr k, db') \<Longrightarrow>
      \<exists>n1 db1. present x db1 \<and> (\<forall>y. present y db \<longrightarrow> present y db1) \<and> rest db1 = rest db \<and> run e xs n1 db1 = (Inr k, db')"
begin

lemma seeded:
  "run e xs n db = (Inr k, db') \<Longrightarrow>
   (\<forall>x \<in> set xs. present x db') \<and> (\<forall>y. present y db \<longrightarrow> present y db') \<and> rest db' = rest db"
proof (induction xs arbitrary: n db)
  case Nil
  then show ?case by (simp add: run_nil)
next
  case (Cons x xs)
  show ?case
  proof (cases "present x db")
    case True
    with Cons.prems Cons.IH [of n db] run_present [OF True, of e xs n] show ?thesis by auto
  next
    case False
    obtain n1 db1 where 1: "present x db1" "\<forall>y. present y db \<longrightarrow> present y db1" "rest db1 = rest db" "run e xs n1 db1 = (Inr k, db')"
      using run_absent [OF False Cons.prems] by blast
    with Cons.IH [OF 1(4)] show ?thesis by auto
  qed
qed

lemma seeded_again: "\<forall>x \<in> set xs. present x db \<Longrightarrow> run e xs n db = (Inr n, db)"
  by (induction xs) (simp_all add: run_nil run_present)

end

interpretation patterns: seeding "\<lambda>(uid, now) ps n. counted (seed_patterns uid now ps n)"
    "\<lambda>p db. list_ex (\<lambda>r. fp_name r = fst p) (t_filter_patterns db)" "\<lambda>db. db\<lparr>t_filter_patterns := []\<rparr>"
proof (unfold_locales, goal_cases)
  case (3 x db e xs n k db')
  obtain uid now name pattern replacement where e: "e = (uid, now)" "x = (name, pattern, replacement)" by (cases e; cases x)
  with 3 show ?case
    by (intro exI [of _ "Suc n"]
          exI [of _ "db\<lparr>t_filter_patterns := t_filter_patterns db @ [new_pattern (uid n) now name pattern replacement ''IGNORECASE'' True]\<rparr>"])
      (simp add: counted_def new_pattern_def)
qed (auto simp: counted_def split: prod.splits)

interpretation aliases: seeding "\<lambda>(uid, now). seed_aliases uid now"
    "\<lambda>a db. alias_exists (fst a) db" "\<lambda>db. db\<lparr>t_model_aliases := []\<rparr>"
proof (unfold_locales, goal_cases)
  case (3 x db e xs n k db')
  obtain uid now a provider model description where e: "e = (uid, now)" "x = (a, provider, model, description)" by (cases e; cases x)
  with 3 show ?case
    by (intro exI [of _ "Suc n"]
          exI [of _ "db\<lparr>t_model_aliases := t_model_aliases db @ [new_alias (uid n) now a provider model (Some description)]\<rparr>"])
      (simp add: insert_alias_def bnd_def new_alias_def alias_exists_def)
qed (auto split: prod.splits)

interpretation rates: seeding "\<lambda>(uid, now). seed_rates uid now"
    "\<lambda>x db. list_ex (\<lambda>r. cr_provider r = fst x \<and> cr_model r = fst (snd x)) (t_cost_rates db)" "\<lambda>db. db\<lparr>t_cost_rates := []\<rparr>"
proof (unfold_locales, goal_cases)
  case (3 x db e xs n k db')
  obtain uid now provider model inp outp where e: "e = (uid, now)" "x = (provider, model, inp, outp)" by (cases e; cases x)
  with 3 show ?case
    by (intro exI [of _ "Suc n"] exI [of _ "db\<lparr>t_cost_rates := t_cost_rates db @ [new_rate (uid n) now provider model inp outp]\<rparr>"])
      (auto simp: insert_rate_def bnd_def new_rate_def split: if_splits)
qed (auto split: prod.splits)

interpretation policies: seeding "\<lambda>(uid, now) ps n. counted (seed_policies uid now ps n)"
    "\<lambda>p db. list_ex (\<lambda>r. cp_name r = fst p) (t_content_policies db)" "\<lambda>db. db\<lparr>t_content_policies := []\<rparr>"
proof (unfold_locales, goal_cases)
  case (3 x db e xs n k db')
  obtain uid now name kind config priority where e: "e = (uid, now)" "x = (name, kind, config, priority)" by (cases e; cases x)
  with 3 show ?case
    by (intro exI [of _ "Suc n"]
          exI [of _ "db\<lparr>t_content_policies := t_content_policies db @ [new_policy_row (uid n) now name kind config None priority]\<rparr>"])
      (simp add: counted_def new_policy_row_def)
qed (auto simp: counted_def split: prod.splits)

text \<open>A provider is seeded when it has rows, or nothing but blank keys.\<close>

lemma seed_keys_rows:
  "seed_keys cr st uid nonce now provider keys n db = (Inr k, db') \<Longrightarrow>
   \<exists>rows. db' = db\<lparr>t_api_key_pool := t_api_key_pool db @ rows\<rparr> \<and> list_all (\<lambda>r. ak_provider r = provider) rows \<and>
     (rows = [] \<longrightarrow> list_all (\<lambda>v. str_strip v = []) keys)"
proof (induction keys arbitrary: n db)
  case Nil
  then show ?case by (intro exI [of _ "[]"]) simp
next
  case (Cons v keys)
  show ?case
  proof (cases "str_strip v = []")
    case True
    with Cons.prems Cons.IH [of n db] show ?thesis by simp
  next
    case False
    then obtain c where c: "encrypt_key cr (nonce n) (str_strip v) (get_encryption_key st) = Inr c"
      using Cons.prems by (cases "encrypt_key cr (nonce n) (str_strip v) (get_encryption_key st)") auto
    let ?r = "new_key_row (uid n) now provider c"
    from Cons.prems False c Cons.IH [of "Suc n" "db\<lparr>t_api_key_pool := t_api_key_pool db @ [?r]\<rparr>"] obtain rows where
      "db' = db\<lparr>t_api_key_pool := t_api_key_pool db @ (?r # rows)\<rparr>" "list_all (\<lambda>r. ak_provider r = provider) rows" by auto
    then show ?thesis by (intro exI [of _ "?r # rows"]) (simp add: new_key_row_def)
  qed
qed

lemma seed_keys_blank: "list_all (\<lambda>v. str_strip v = []) keys \<Longrightarrow> seed_keys cr st uid nonce now provider keys n db = (Inr n, db)"
  by (induction keys) simp_all

interpretation keys: seeding "\<lambda>(cr, st, uid, nonce, now). seed_providers cr st uid nonce now"
    "\<lambda>x db. list_all (\<lambda>v. str_strip v = []) (snd x) \<or> list_ex (\<lambda>r. ak_provider r = fst x) (t_api_key_pool db)"
    "\<lambda>db. db\<lparr>t_api_key_pool := []\<rparr>"
proof (unfold_locales, goal_cases)
  case (2 x db e xs n)
  then show ?case by (cases e; cases x) (auto simp: bnd_def seed_keys_blank)
next
  case (3 x db e xs n k db')
  obtain cr st uid nonce now provider ks where e: "e = (cr, st, uid, nonce, now)" "x = (provider, ks)" by (cases e; cases x)
  with 3 obtain n1 db1 where 1: "seed_keys cr st uid nonce now provider ks n db = (Inr n1, db1)"
      "seed_providers cr st uid nonce now xs n1 db1 = (Inr k, db')"
    by (auto simp: bnd_def split: prod.splits sum.splits if_splits)
  from seed_keys_rows [OF 1(1)] 3(1) e 1(2) show ?case
    by (intro exI [of _ n1] exI [of _ db1]) (auto simp: list_all_iff list_ex_iff neq_Nil_conv)
qed auto


section \<open>Starting again\<close>

definition builtin_tables :: "database \<Rightarrow> filter_pattern_row list \<times> model_alias_row list \<times> cost_rate_row list \<times> content_policy_row list" where
  "builtin_tables db = (t_filter_patterns db, t_model_aliases db, t_cost_rates db, t_content_policies db)"

definition seeded_tables :: "database \<Rightarrow> (filter_pattern_row list \<times> model_alias_row list \<times> cost_rate_row list \<times> content_policy_row list)
    \<times> api_key_row list" where
  "seeded_tables db = (builtin_tables db, t_api_key_pool db)"

lemma other_tables:
  "db\<lparr>t_filter_patterns := []\<rparr> = db'\<lparr>t_filter_patterns := []\<rparr> \<Longrightarrow> t_model_aliases db = t_model_aliases db' \<and> t_cost_rates db = t_cost_rates db' \<and>
     t_content_policies db = t_content_policies db' \<and> t_api_key_pool db = t_api_key_pool db'"
  "db\<lparr>t_model_aliases := []\<rparr> = db'\<lparr>t_model_aliases := []\<rparr> \<Longrightarrow> t_filter_patterns db = t_filter_patterns db' \<and> t_cost_rates db = t_cost_rates db' \<and>
     t_content_policies db = t_content_policies db' \<and> t_api_key_pool db = t_api_key_pool db'"
  "db\<lparr>t_cost_rates := []\<rparr> = db'\<lparr>t_cost_rates := []\<rparr> \<Longrightarrow> t_filter_patterns db = t_filter_patterns db' \<and> t_model_aliases db = t_model_aliases db' \<and>
     t_content_policies db = t_content_policies db' \<and> t_api_key_pool db = t_api_key_pool db'"
  "db\<lparr>t_content_policies := []\<rparr> = db'\<lparr>t_content_policies := []\<rparr> \<Longrightarrow> t_filter_patterns db = t_filter_patterns db' \<and>
     t_model_aliases db = t_model_aliases db' \<and> t_cost_rates db = t_cost_rates db' \<and> t_api_key_pool db = t_api_key_pool db'"
  "db\<lparr>t_api_key_pool := []\<rparr> = db'\<lparr>t_api_key_pool := []\<rparr> \<Longrightarrow> t_filter_patterns db = t_filter_patterns db' \<and>
     t_model_aliases db = t_model_aliases db' \<and> t_cost_rates db = t_cost_rates db' \<and> t_content_policies db = t_content_policies db'"
  by (cases db; cases db'; simp)+

lemma with_db_InrD: "with_db m db = (Inr a, db') \<Longrightarrow> m db = (Inr a, db')"
  by (auto simp: with_db_def split: prod.splits sum.splits)

lemma seed_tables_again:
  assumes "seed_tables e db = (Inr (), db1)" and "builtin_tables db2 = builtin_tables db1"
  shows "seed_tables e' db2 = (Inr (), db2)"
proof -
  obtain n1 d1 where 1: "counted (seed_patterns (su_uid e 0) (su_now e) builtin_patterns 0) db = (Inr n1, d1)"
    by (cases "seed_patterns (su_uid e 0) (su_now e) builtin_patterns 0 db") (simp add: counted_def)
  from assms(1) 1 obtain n2 d2 n3 d3 n4 where
    2: "seed_aliases (su_uid e 1) (su_now e) builtin_aliases 0 d1 = (Inr n2, d2)" and
    3: "seed_rates (su_uid e 2) (su_now e) builtin_rates 0 d2 = (Inr n3, d3)" and
    4: "counted (seed_policies (su_uid e 3) (su_now e) builtin_security_policies 0) d3 = (Inr n4, db1)"
    by (auto simp: seed_tables_def seed_builtin_patterns_def [abs_def] seed_builtin_aliases_def seed_cost_rates_def
        seed_security_policies_def [abs_def] bnd_def dest!: with_db_InrD split: prod.splits sum.splits)
  note p = patterns.seeded [where e = "(su_uid e 0, su_now e)", unfolded prod.case, OF 1]
  note a = aliases.seeded [where e = "(su_uid e 1, su_now e)", unfolded prod.case, OF 2]
  note r = rates.seeded [where e = "(su_uid e 2, su_now e)", unfolded prod.case, OF 3]
  note o = policies.seeded [where e = "(su_uid e 3, su_now e)", unfolded prod.case, OF 4]
  have t: "t_filter_patterns db2 = t_filter_patterns d1" "t_model_aliases db2 = t_model_aliases d2" "t_cost_rates db2 = t_cost_rates d3"
      "t_content_policies db2 = t_content_policies db1"
    using assms(2) other_tables(2) [of d2 d1] other_tables(3) [of d3 d2] other_tables(4) [of db1 d3] a r o
    by (auto simp: builtin_tables_def)
  have "counted (seed_patterns (su_uid e' 0) (su_now e') builtin_patterns 0) db2 = (Inr 0, db2)"
    using p t patterns.seeded_again [where e = "(su_uid e' 0, su_now e')", unfolded prod.case, of builtin_patterns db2 0] by simp
  moreover have "seed_aliases (su_uid e' 1) (su_now e') builtin_aliases 0 db2 = (Inr 0, db2)"
    using a t aliases.seeded_again [where e = "(su_uid e' 1, su_now e')", unfolded prod.case, of builtin_aliases db2 0]
    by (simp add: alias_exists_def)
  moreover have "seed_rates (su_uid e' 2) (su_now e') builtin_rates 0 db2 = (Inr 0, db2)"
    using r t rates.seeded_again [where e = "(su_uid e' 2, su_now e')", unfolded prod.case, of builtin_rates db2 0] by simp
  moreover have "counted (seed_policies (su_uid e' 3) (su_now e') builtin_security_policies 0) db2 = (Inr 0, db2)"
    using o t policies.seeded_again [where e = "(su_uid e' 3, su_now e')", unfolded prod.case, of builtin_security_policies db2 0] by simp
  ultimately show ?thesis
    by (simp add: seed_tables_def seed_builtin_patterns_def [abs_def] seed_builtin_aliases_def seed_cost_rates_def
        seed_security_policies_def [abs_def] bnd_def with_db_def)
qed

lemma re_encrypt_keeps:
  assumes "crypto_ok cr" and "\<forall>i. length (nonce i) = 12" and "re_encrypt_stale_keys cr st nonce db = (Inr c, db1)"
  shows "map ak_provider (t_api_key_pool db1) = map ak_provider (t_api_key_pool db) \<and> db1\<lparr>t_api_key_pool := []\<rparr> = db\<lparr>t_api_key_pool := []\<rparr> \<and>
    (t_api_key_pool db2 = t_api_key_pool db1 \<longrightarrow> re_encrypt_stale_keys cr st nonce' db2 = (Inr 0, db2))"
proof (cases "get_encryption_key st = None \<or> get_previous_encryption_key st = None")
  case True
  then show ?thesis using assms(3) by (auto simp: re_encrypt_stale_keys_def split: option.splits)
next
  case False
  then obtain k k' where k: "get_encryption_key st = Some k" "get_previous_encryption_key st = Some k'" by auto
  obtain rows' where r: "re_encrypt_rows cr nonce k k' 0 (t_api_key_pool db) = Inr (c, rows')" "db1 = db\<lparr>t_api_key_pool := rows'\<rparr>"
    using assms(3) by (auto simp: re_encrypt_stale_keys_def k split: sum.splits)
  have rel: "list_all2 (re_encrypted cr k k') (t_api_key_pool db) rows'"
    using re_encrypt_rows_ok [OF assms(1,2) encryption_key_length(1) [OF k(1)], of k' 0 "t_api_key_pool db"] r(1) by auto
  have "map ak_provider rows' = map ak_provider (t_api_key_pool db)"
    using rel by (induction rule: list_all2_induct) (simp_all add: re_encrypted_def)
  then show ?thesis
    using re_encrypt_rows_again [OF rel] by (simp add: r(2) re_encrypt_stale_keys_def k)
qed

lemma list_ex_providers: "list_ex (\<lambda>r. ak_provider r = p) rows \<longleftrightarrow> p \<in> set (map ak_provider rows)"
  by (auto simp: list_ex_iff)

lemma start_keys_again:
  assumes "start_keys e (m, db) = (Inr c, (m1, db1))" and "crypto_ok (su_crypto e)" and "\<forall>k i. length (su_nonce e k i) = 12"
    and "su_crypto e' = su_crypto e" and "su_settings e' = su_settings e" and "t_api_key_pool db2 = t_api_key_pool db1"
  shows "db1\<lparr>t_api_key_pool := []\<rparr> = db\<lparr>t_api_key_pool := []\<rparr> \<and> (\<exists>m3. start_keys e' (m2, db2) = (Inr 0, (m3, db2)))"
proof -
  let ?seed = "\<lambda>e. seed_providers (su_crypto e) (su_settings e) (su_uid e 4) (su_nonce e 0) (su_now e) (provider_keys (su_settings e)) 0"
  obtain n da where 1: "?seed e db = (Inr n, da)" and
    2: "re_encrypt_stale_keys (su_crypto e) (su_settings e) (su_nonce e 1) da = (Inr c, db1)"
    using assms(1)
    by (auto simp: start_keys_def seed_from_config_def load_from_db_def bnd_def dest!: with_db_InrD split: prod.splits sum.splits)
  note s = keys.seeded [where e = "(su_crypto e, su_settings e, su_uid e 4, su_nonce e 0, su_now e)", unfolded prod.case, OF 1]
  have n: "\<forall>i. length (su_nonce e 1 i) = 12" using assms(3) by blast
  note r = re_encrypt_keeps [OF assms(2) n 2, of db2 "su_nonce e' 1"]
  have "\<forall>x \<in> set (provider_keys (su_settings e')).
      list_all (\<lambda>v. str_strip v = []) (snd x) \<or> list_ex (\<lambda>r. ak_provider r = fst x) (t_api_key_pool db2)"
    using s r assms(5,6) unfolding list_ex_providers by auto
  from keys.seeded_again [where e = "(su_crypto e', su_settings e', su_uid e' 4, su_nonce e' 0, su_now e')", unfolded prod.case, OF this]
  have "?seed e' db2 = (Inr 0, db2)" .
  then have "start_keys e' (m2, db2) = (Inr 0, (fst (load_from_db (su_crypto e') (su_settings e')
      (load_from_db (su_crypto e') (su_settings e') (m2, db2))), db2))"
    using r assms(4-6) by (simp add: start_keys_def seed_from_config_def load_from_db_def bnd_def with_db_def)
  with s r show ?thesis by (metis (no_types))
qed

lemma send_webhook_tables:
  "\<exists>h cs. send_webhook env uid now c evt sev msg detail (db, calls) = (Inr (), (db\<lparr>t_alert_history := h\<rparr>, cs))"
proof (cases "list_ex (\<lambda>r. ah_id r = uid) (t_alert_history db)")
  case True
  then show ?thesis
    by (intro exI [of _ "t_alert_history db"]) (simp add: send_webhook_def Let_def case_prod_beta try_except_def with_db_def)
next
  case False
  from send_webhook_effect [OF this] show ?thesis by blast
qed

lemma send_all_tables:
  "\<exists>h cs. send_all env uids now configs evt sev msg detail n (db, calls) = (Inr (), (db\<lparr>t_alert_history := h\<rparr>, cs))"
proof (induction configs arbitrary: n db calls)
  case Nil
  show ?case by (intro exI [of _ "t_alert_history db"]) simp
next
  case (Cons c configs)
  obtain h cs where 1: "send_webhook env (uids n) now c evt sev msg detail (db, calls) = (Inr (), (db\<lparr>t_alert_history := h\<rparr>, cs))"
    using send_webhook_tables by blast
  obtain h' cs' where 2: "send_all env uids now configs evt sev msg detail (Suc n) (db\<lparr>t_alert_history := h\<rparr>, cs) =
      (Inr (), (db\<lparr>t_alert_history := h\<rparr>\<lparr>t_alert_history := h'\<rparr>, cs'))"
    using Cons.IH [of "Suc n"] by blast
  from Cons.IH [of n db calls] 1 2 show ?case by (auto simp: bnd_def)
qed

lemma get_redis_Inr: "\<exists>c'. get_redis lib url c = (Inr (), c')"
proof -
  have "\<not> isl (fst (rc_connect lib url c))"
    by (simp add: rc_connect_def Let_def split: sum.split prod.split unit.split)
  then obtain b c' where "rc_connect lib url c = (Inr b, c')"
    by (metis prod.collapse sum.collapse(2))
  then show ?thesis by (simp add: get_redis_def bnd_def)
qed

lemma announced:
  "\<exists>h cs. try_except (on_alerts (fire_alert env uids now evt sev msg detail)) (\<lambda>_. ret ()) s =
     (Inr (), s\<lparr>sv_db := (sv_db s)\<lparr>t_alert_history := h\<rparr>, sv_calls := cs\<rparr>)"
proof -
  obtain h cs where "fire_alert env uids now evt sev msg detail (sv_db s, sv_calls s) = (Inr (), ((sv_db s)\<lparr>t_alert_history := h\<rparr>, cs))"
    using send_all_tables [of env uids now "filter ac_is_active (t_alert_configs (sv_db s))" evt sev msg detail 0 "sv_db s" "sv_calls s"]
    unfolding fire_alert_def by auto
  then show ?thesis by (intro exI [of _ h] exI [of _ cs]) (simp add: try_except_def on_alerts_def)
qed

lemma seeded_tables_history [simp]: "seeded_tables (db\<lparr>t_alert_history := h\<rparr>) = seeded_tables db"
  by (simp add: seeded_tables_def builtin_tables_def)

lemma lifespan_Inr:
  assumes "lifespan e lib url s = (Inr (), s1)"
  obtains d m n d1 m1 where "seed_tables e (sv_db s) = (Inr (), d)" and "start_keys e (m, d) = (Inr n, (m1, d1))"
    and "seeded_tables (sv_db s1) = seeded_tables d1"
proof -
  from assms [unfolded lifespan_def] obtain sa n sb sc sd where a: "on_tables (seed_tables e) s = (Inr (), sa)" and
    b: "on_keys (start_keys e) sa = (Inr n, sb)" and "reload_config sb = (Inr (), sc)" and "on_connection (get_redis lib url) sc = (Inr (), sd)" and
    rc: "try_except (on_alerts (fire_alert (su_alerts e) (su_uid e 5) (su_now e) ''system_start'' ''info'' ''onPrem LLM Sentinel started'' None))
       (\<lambda>_. ret ()) sd = (Inr (), s1)"
    by (elim bnd_InrE) simp
  then have c: "sv_db sd = sv_db sb" by (auto simp: reload_config_def on_connection_def split: prod.splits)
  obtain d where d: "seed_tables e (sv_db s) = (Inr (), d)" "sv_db sa = d"
    using a by (auto simp: on_tables_def split: prod.splits)
  obtain m1 d1 where k: "start_keys e (sv_keys sa, d) = (Inr n, (m1, d1))" "sv_db sb = d1"
    using b d(2) by (auto simp: on_keys_def split: prod.splits)
  have "seeded_tables (sv_db s1) = seeded_tables d1"
    using announced [of "su_alerts e" "su_uid e 5" "su_now e" "''system_start''" "''info''" "''onPrem LLM Sentinel started''" None sd] rc c k(2)
    by auto
  with d(1) k(1) show ?thesis by (rule that)
qed

lemma lifespan_steps:
  assumes "seed_tables e (sv_db s) = (Inr (), d)" and "start_keys e (sv_keys s, d) = (Inr n, (m1, d1))"
    and "get_redis lib url (sv_redis s) = (Inr (), c)"
  shows "\<exists>s1. lifespan e lib url s = (Inr (), s1) \<and> seeded_tables (sv_db s1) = seeded_tables d1"
proof -
  let ?s = "s\<lparr>sv_keys := m1, sv_db := d1, sv_patterns := reload_patterns (get_all_patterns d1), sv_redis := c\<rparr>"
  have "lifespan e lib url s = try_except (on_alerts (fire_alert (su_alerts e) (su_uid e 5) (su_now e) ''system_start'' ''info''
      ''onPrem LLM Sentinel started'' None)) (\<lambda>_. ret ()) ?s"
    using assms unfolding lifespan_def bnd_def on_tables_def on_keys_def on_connection_def reload_config_def by simp
  with announced [of "su_alerts e" "su_uid e 5" "su_now e" "''system_start''" "''info''" "''onPrem LLM Sentinel started''" None ?s]
  show ?thesis by auto
qed

text \<open>C39.  Starting the service again, whatever the new process draws for identifiers and nonces and whenever it is,
  succeeds and changes nothing in the tables of patterns, aliases, rates, policies and keys: each is seeded once,
  and no key is encrypted a second time.\<close>

theorem restart_changes_no_table:
  fixes lib :: "'r aioredis" and s s' :: "'r server"
  assumes "lifespan e lib url s = (Inr (), s1)" and "crypto_ok (su_crypto e)" and "\<forall>k i. length (su_nonce e k i) = 12"
    and "su_crypto e' = su_crypto e" and "su_settings e' = su_settings e" and "sv_db s' = sv_db s1"
    and "lifespan e' lib url s' = (r, s2)"
  shows "r = Inr () \<and> seeded_tables (sv_db s2) = seeded_tables (sv_db s1)"
proof -
  obtain d m n d1 m1 where 1: "seed_tables e (sv_db s) = (Inr (), d)" "start_keys e (m, d) = (Inr n, (m1, d1))"
      "seeded_tables (sv_db s1) = seeded_tables d1"
    by (rule lifespan_Inr [OF assms(1)])
  note k = start_keys_again [OF 1(2) assms(2-5)]
  have same: "t_api_key_pool (sv_db s') = t_api_key_pool d1" "seeded_tables (sv_db s') = seeded_tables d1"
    using 1(3) assms(6) by (auto simp: seeded_tables_def)
  obtain m3 where 2: "start_keys e' (sv_keys s', sv_db s') = (Inr 0, (m3, sv_db s'))" using k [OF same(1)] by blast
  have "builtin_tables d1 = builtin_tables d"
    using k [OF same(1)] other_tables(5) [of d1 d] by (simp add: builtin_tables_def)
  then have "seed_tables e' (sv_db s') = (Inr (), sv_db s')"
    using same(2) by (intro seed_tables_again [OF 1(1)]) (simp add: seeded_tables_def)
  moreover obtain c where "get_redis lib url (sv_redis s') = (Inr (), c)" using get_redis_Inr by blast
  ultimately show ?thesis using lifespan_steps [OF _ 2] assms(7) same(2) 1(3) by fastforce
qed


definition sample_start :: "time \<Rightarrow> startup_env" where
  "sample_start now = \<lparr>su_crypto = prefix_cipher,
     su_alerts = sample_alert_env\<lparr>an_settings := default_settings\<lparr>OPENAI_API_KEYS := ''sk-1'', KEY_ENCRYPTION_SECRET := ''s''\<rparr>\<rparr>,
     su_uid = (\<lambda>_. show_nat), su_nonce = (\<lambda>_ _. replicate 12 CHR ''n''), su_now = now\<rparr>"

definition new_server :: "database \<Rightarrow> unit server" where
  "new_server db = \<lparr>sv_db = db, sv_keys = [], sv_patterns = [], sv_redis = new_redis_client, sv_calls = []\<rparr>"

lemma restart_changes_no_table_witness:
  "\<exists>s1. lifespan (sample_start 1) no_redis_lib [] (new_server empty_db) = (Inr (), s1) \<and>
     seeded_tables (sv_db (snd (lifespan (sample_start 9) no_redis_lib [] (new_server (sv_db s1))))) = seeded_tables (sv_db s1)"
proof -
  have "\<not> isl (fst (lifespan (sample_start 1) no_redis_lib [] (new_server empty_db)))" by code_simp
  then obtain s1 where s1: "lifespan (sample_start 1) no_redis_lib [] (new_server empty_db) = (Inr (), s1)"
    by (metis prod.collapse sum.collapse(2) old.unit.exhaust)
  obtain r s2 where s2: "lifespan (sample_start 9) no_redis_lib [] (new_server (sv_db s1)) = (r, s2)" by fastforce
  have "seeded_tables (sv_db s2) = seeded_tables (sv_db s1)"
    using restart_changes_no_table [OF s1 _ _ _ _ _ s2] prefix_cipher_ok by (simp add: sample_start_def new_server_def)
  with s1 s2 show ?thesis by simp
qed

end
