(* ===== verification/Logger.thy ===== *)
theory Logger
  imports Config
begin

text \<open>
  \<open>logger.py\<close>: the two formats of a log record and the set-up of the loggers, with the part of the standard
  library they rest on: how a record is made, the levels of loggers and their handlers.  Values logged are JSON;
  the text of the record's time and of a traceback are arguments.
\<close>


section \<open>Records\<close>

record log_record =
  lr_name :: string
  lr_levelname :: string
  lr_levelno :: int
  lr_message :: string
  lr_extra :: jdict
  lr_exception :: "string option"
  lr_stack :: "string option"

text \<open>The attributes of a record, which \<open>extra\<close> may not name, and those that the formatters leave out.\<close>

definition record_attributes :: "string list" where
  "record_attributes =
     [''name'', ''msg'', ''args'', ''levelname'', ''levelno'', ''pathname'', ''filename'', ''module'', ''exc_info'', ''exc_text'',
      ''stack_info'', ''lineno'', ''funcName'', ''created'', ''msecs'', ''relativeCreated'', ''thread'', ''threadName'',
      ''processName'', ''process'', ''taskName'']"

definition reserved_fields :: "string list" where
  "reserved_fields =
     [''name'', ''msg'', ''args'', ''created'', ''relativeCreated'', ''exc_info'', ''exc_text'', ''stack_info'', ''lineno'', ''funcName'',
      ''pathname'', ''filename'', ''module'', ''levelno'', ''levelname'', ''thread'', ''threadName'', ''process'', ''processName'',
      ''msecs'', ''message'', ''taskName'']"

definition make_record :: "string \<Rightarrow> string \<Rightarrow> int \<Rightarrow> string \<Rightarrow> jdict \<Rightarrow> string option \<Rightarrow> string option \<Rightarrow> log_record res" where
  "make_record name levelname levelno message extra exception stack =
     (if list_ex (\<lambda>(k, _). k \<in> set ([''message'', ''asctime''] @ record_attributes)) extra then Inl KeyError
      else Inr \<lparr>lr_name = name, lr_levelname = levelname, lr_levelno = levelno, lr_message = message, lr_extra = extra,
                lr_exception = exception, lr_stack = stack\<rparr>)"

text \<open>The extra fields that are shown.\<close>

definition shown :: "string \<Rightarrow> bool" where
  "shown key \<longleftrightarrow> \<not> prefix ''_'' key \<and> key \<notin> set reserved_fields"

definition json_entry :: "string \<Rightarrow> log_record \<Rightarrow> jdict" where
  "json_entry timestamp r =
     (let entry = [(''timestamp'', JStr timestamp), (''level'', JStr (lr_levelname r)), (''logger'', JStr (lr_name r)),
                   (''message'', JStr (lr_message r))];
          merged = fold (\<lambda>(k, v) d. if shown k then dict_set k v d else d) (lr_extra r) entry;
          with_exception = (case lr_exception r of None \<Rightarrow> merged | Some t \<Rightarrow> dict_set ''exception'' (JStr t) merged)
      in case lr_stack r of
           Some t \<Rightarrow> if t \<noteq> [] then dict_set ''stack_info'' (JStr t) with_exception else with_exception
         | None \<Rightarrow> with_exception)"

definition json_format :: "(json \<Rightarrow> string) \<Rightarrow> string \<Rightarrow> log_record \<Rightarrow> string" where
  "json_format dumps timestamp r = dumps (JObj (json_entry timestamp r))"

definition ansi :: "string \<Rightarrow> string" where
  "ansi n = char_of (27 :: nat) # ''['' @ n @ ''m''"

definition colors :: "(string, string) pydict" where
  "colors = [(''DEBUG'', ansi ''36''), (''INFO'', ansi ''32''), (''WARNING'', ansi ''33''), (''ERROR'', ansi ''31''), (''CRITICAL'', ansi ''35'')]"

definition colored_format :: "(json \<Rightarrow> string) \<Rightarrow> string \<Rightarrow> log_record \<Rightarrow> string" where
  "colored_format dumps timestamp r =
     (let reset = ansi ''0'';
          color = dict_get reset (lr_levelname r) colors;
          base = color @ timestamp @ '' ['' @ replicate (8 - length (lr_levelname r)) (CHR '' '') @ lr_levelname r @ ''] '' @
                 lr_name r @ '': '' @ lr_message r @ reset;
          extras = filter (\<lambda>(k, _). shown k) (lr_extra r);
          line = (if extras \<noteq> [] then base @ '' | '' @ dumps (JObj extras) else base)
      in case lr_exception r of None \<Rightarrow> line | Some t \<Rightarrow> line @ [CHR 0x0A] @ t)"


section \<open>Loggers\<close>

datatype log_handler = ConsoleJson | ConsoleColored | FileJson string

record logging_state =
  lg_root_level :: int
  lg_handlers :: "log_handler list"
  lg_levels :: "(string, int) pydict"     \<comment> \<open>levels of other loggers; 0 or no entry is not set\<close>

text \<open>The value of \<open>logging.X\<close> for a text in upper case, where it is a level; two other values are refused.\<close>

definition level_named :: "string \<Rightarrow> int res" where
  "level_named s =
     (if s = ''BASIC_FORMAT'' then Inl (ValueError ''Unknown level: '')
      else if s = ''_STYLES'' then Inl TypeError
      else Inr (dict_get 20 s [(''CRITICAL'', 50), (''FATAL'', 50), (''ERROR'', 40), (''WARNING'', 30), (''WARN'', 30), (''INFO'', 20),
                               (''DEBUG'', 10), (''NOTSET'', 0)]))"

definition noisy_loggers :: "string list" where
  "noisy_loggers = [''httpx'', ''httpcore'', ''uvicorn.access'', ''watchfiles'']"

definition setup_logging :: "string \<Rightarrow> string \<Rightarrow> string option \<Rightarrow> (logging_state, unit) io" where
  "setup_logging log_level log_format log_file = (\<lambda>g.
     case level_named (str_upper log_level) of
       Inl e \<Rightarrow> (Inl e, g)
     | Inr level \<Rightarrow>
         (Inr (), \<lparr>lg_root_level = level,
                   lg_handlers = (if log_format = ''json'' then ConsoleJson else ConsoleColored) #
                                 (case log_file of Some p \<Rightarrow> if p \<noteq> [] then [FileJson p] else [] | None \<Rightarrow> []),
                   lg_levels = fold (\<lambda>n. dict_set n 30) noisy_loggers (lg_levels g)\<rparr>))"

text \<open>
  A logger without a level takes that of its parent, whose name ends before the last dot; a level of 0 at the root
  lets everything pass.  The pieces of the name are given from the last one on.
\<close>

fun level_of :: "logging_state \<Rightarrow> string list \<Rightarrow> int" where
  "level_of g [] = lg_root_level g"
| "level_of g (piece # parents) =
     (let own = dict_get 0 (str_join ''.'' (rev (piece # parents))) (lg_levels g)
      in if own \<noteq> 0 then own else level_of g parents)"

definition effective_level :: "logging_state \<Rightarrow> string \<Rightarrow> int" where
  "effective_level g name = level_of g (rev (split_on (CHR ''.'') name))"

definition render :: "(json \<Rightarrow> string) \<Rightarrow> string \<Rightarrow> string \<Rightarrow> log_record \<Rightarrow> log_handler \<Rightarrow> string" where
  "render dumps iso_time plain_time r h =
     (case h of ConsoleColored \<Rightarrow> colored_format dumps plain_time r | _ \<Rightarrow> json_format dumps iso_time r)"

text \<open>A call such as \<open>log.info(message, extra=extra)\<close>: the lines written, by handler.  Nothing is checked below the level.\<close>

definition log_call :: "logging_state \<Rightarrow> (json \<Rightarrow> string) \<Rightarrow> string \<Rightarrow> string \<Rightarrow> string \<Rightarrow> string \<times> int \<Rightarrow> string \<Rightarrow> jdict \<Rightarrow> string option
    \<Rightarrow> (log_handler \<times> string) list res" where
  "log_call g dumps iso_time plain_time name level message extra exception =
     (if snd level < effective_level g name then Inr []
      else rbind (make_record name (fst level) (snd level) message extra exception None) (\<lambda>r.
           Inr (map (\<lambda>h. (h, render dumps iso_time plain_time r h)) (lg_handlers g))))"


section \<open>What a line shows\<close>

text \<open>
  Every extra field a record can have is shown, unless its name begins with an underscore; the two formats show the
  same fields.  A field may take the place of the level, the logger or the time of the line, never of the message.
\<close>

lemma record_extras_shown:
  assumes "make_record name levelname levelno msg extra exception stack = Inr r" and "(k, v) \<in> set extra"
  shows "shown k \<longleftrightarrow> \<not> prefix ''_'' k"
proof -
  have "k \<notin> set ([''message'', ''asctime''] @ record_attributes)"
    using assms by (auto simp: make_record_def list_ex_iff split: if_splits)
  moreover have "set reserved_fields \<subseteq> set ([''message'', ''asctime''] @ record_attributes)"
    by (simp add: reserved_fields_def record_attributes_def)
  ultimately show ?thesis by (auto simp: shown_def)
qed

lemma merged_fields:
  assumes "dict_wf extra"
  shows "map_of (fold (\<lambda>(k, v) d. if shown k then dict_set k v d else d) extra d) k =
    (if shown k then (case map_of extra k of Some v \<Rightarrow> Some v | None \<Rightarrow> map_of d k) else map_of d k)"
  using assms
proof (induction extra arbitrary: d)
  case (Cons p extra)
  obtain k' v' where p: "p = (k', v')" by (cases p)
  have "map_of extra k' = None" using Cons.prems p by (simp add: map_of_eq_None_iff)
  with Cons p show ?case by (auto split: option.splits)
qed simp

theorem log_line_fields:
  assumes "make_record name levelname levelno msg extra exception None = Inr r" and "dict_wf extra"
  shows "map_of (json_entry timestamp r) ''message'' = Some (JStr msg)"
    and "(k, v) \<in> set extra \<Longrightarrow> \<not> prefix ''_'' k \<Longrightarrow> k \<noteq> ''exception'' \<Longrightarrow> map_of (json_entry timestamp r) k = Some v"
proof -
  have r: "r = \<lparr>lr_name = name, lr_levelname = levelname, lr_levelno = levelno, lr_message = msg, lr_extra = extra,
      lr_exception = exception, lr_stack = None\<rparr>"
    using assms(1) by (simp add: make_record_def split: if_splits)
  have "\<not> shown ''message''" by (simp add: shown_def reserved_fields_def)
  then show "map_of (json_entry timestamp r) ''message'' = Some (JStr msg)"
    by (simp add: r json_entry_def Let_def merged_fields [OF assms(2)] split: option.splits)
  assume "(k, v) \<in> set extra" "\<not> prefix ''_'' k" "k \<noteq> ''exception''"
  then show "map_of (json_entry timestamp r) k = Some v"
    using record_extras_shown [OF assms(1)] assms(2)
    by (auto simp: r json_entry_def Let_def merged_fields [OF assms(2)] split: option.splits)
qed

text \<open>
  After the set-up, a logger whose name has no dot writes to every handler exactly what has at least the level set for
  the root, or a warning at least if it is one of those that are kept quiet.
\<close>

theorem logging_after_setup:
  assumes "setup_logging log_level log_format log_file g = (Inr (), g')" and "CHR ''.'' \<notin> set name"
    and "dict_get 0 name (lg_levels g) = 0" and "level_named (str_upper log_level) = Inr n"
  shows "effective_level g' name = (if name \<in> set noisy_loggers then 30 else n)"
proof -
  have split: "split_on (CHR ''.'') name = [name]"
    using assms(2) by (induction name) auto
  have g': "lg_root_level g' = n" "lg_levels g' = fold (\<lambda>n. dict_set n 30) noisy_loggers (lg_levels g)"
    using assms(1,4) by (auto simp: setup_logging_def)
  show ?thesis
    using assms(2,3) by (auto simp: effective_level_def split g' noisy_loggers_def dict_get_def)
qed

end
