(* ===== verification/Maintenance.thy ===== *)
theory Maintenance
  imports Users
begin

text \<open>
  What is run from the command line or by hand: backups of the database (\<open>backup.py\<close>), the first administrator
  (\<open>bootstrap.py\<close>), a certificate for TLS (\<open>gen_cert.py\<close>), and how the database is opened (\<open>db.py\<close>).  Files are names
  with a size and a time of modification; the program \<open>pg_dump\<close>, what is typed, the query for existing administrators and
  the cryptographic library are arguments.
\<close>


section \<open>Backups\<close>

record file_entry =
  fe_name :: string
  fe_is_file :: bool
  fe_size :: int
  fe_mtime :: time

text \<open>The files of the backup directory, if it exists, and size and time of the database files.\<close>

record disk =
  dk_backups :: "file_entry list option"
  dk_databases :: "(string, int \<times> time) pydict"

record backup_env =
  bk_settings :: settings
  bk_stamp :: string                      \<comment> \<open>the clock as date and time\<close>
  bk_now :: time
  bk_info :: bool                         \<comment> \<open>informative messages are logged\<close>
  bk_pg_dump :: "string \<Rightarrow> string \<Rightarrow> string option \<times> int option"   \<comment> \<open>URL and target: error, size of the file written\<close>

record backup_info =
  bi_filename :: string
  bi_path :: string
  bi_size_bytes :: int
  bi_created_at :: time
  bi_backup_type :: string

definition in_dir :: "backup_env \<Rightarrow> string \<Rightarrow> string" where
  "in_dir e name = BACKUP_DIR (bk_settings e) @ ''/'' @ name"

text \<open>The last piece of a text split at a separator that is not empty.\<close>

fun last_piece :: "string \<Rightarrow> string \<Rightarrow> string \<Rightarrow> string" where
  "last_piece sep piece [] = piece"
| "last_piece sep piece (c # s) =
     (if prefix sep (c # s) then last_piece sep [] (drop (length sep - 1) s) else last_piece sep (piece @ [c]) s)"

definition sqlite_path :: "string \<Rightarrow> string" where
  "sqlite_path db_url = (if str_in ''///'' db_url then last_piece ''///'' [] db_url else ''data/proxy.db'')"

definition is_backup :: "file_entry \<Rightarrow> bool" where
  "is_backup f \<longleftrightarrow> fe_is_file f \<and> prefix ''proxy_'' (fe_name f)"

definition write_file :: "file_entry \<Rightarrow> file_entry list \<Rightarrow> file_entry list" where
  "write_file f fs = filter (\<lambda>g. fe_name g \<noteq> fe_name f) fs @ [f]"

definition cleanup_old_backups :: "backup_env \<Rightarrow> file_entry list \<Rightarrow> nat \<times> file_entry list" where
  "cleanup_old_backups e fs =
     (let cutoff = bk_now e - of_int (BACKUP_KEEP_DAYS (bk_settings e) * 86400); old = (\<lambda>f. is_backup f \<and> fe_mtime f < cutoff)
      in (length (filter old fs), filter (\<lambda>f. \<not> old f) fs))"

text \<open>
  The copy of a file keeps its time of modification.  The report of a finished backup has an extra field that the
  logging library refuses, so with informative messages on it raises.
\<close>

definition finish_backup :: "backup_env \<Rightarrow> backup_info \<Rightarrow> file_entry list \<Rightarrow> (disk, backup_info) io" where
  "finish_backup e info fs = (\<lambda>d.
     (if bk_info e then Inl KeyError else Inr info, d\<lparr>dk_backups := Some (snd (cleanup_old_backups e fs))\<rparr>))"

definition run_backup :: "backup_env \<Rightarrow> (disk, backup_info) io" where
  "run_backup e = (\<lambda>d.
     let db_url = DATABASE_URL (bk_settings e);
         fs = (case dk_backups d of None \<Rightarrow> [] | Some fs \<Rightarrow> fs);
         info = (\<lambda>name bytes kind. \<lparr>bi_filename = name, bi_path = in_dir e name, bi_size_bytes = bytes, bi_created_at = bk_now e,
                                  bi_backup_type = kind\<rparr>)
     in if str_in ''sqlite'' db_url
        then (case map_of (dk_databases d) (sqlite_path db_url) of
                None \<Rightarrow> (Inl (OtherError (''SQLite DB not found: '' @ sqlite_path db_url)), d\<lparr>dk_backups := Some fs\<rparr>)
              | Some (bytes, mtime) \<Rightarrow>
                  (let name = ''proxy_'' @ bk_stamp e @ ''.db''
                   in finish_backup e (info name bytes ''sqlite'')
                        (write_file \<lparr>fe_name = name, fe_is_file = True, fe_size = bytes, fe_mtime = mtime\<rparr> fs) d))
        else (let name = ''proxy_'' @ bk_stamp e @ ''.sql'';
                  (err, written) = bk_pg_dump e (str_replace ''+asyncpg'' [] (str_replace ''+psycopg'' [] db_url)) (in_dir e name);
                  fs' = (case written of
                           None \<Rightarrow> fs
                         | Some bytes \<Rightarrow> write_file \<lparr>fe_name = name, fe_is_file = True, fe_size = bytes, fe_mtime = bk_now e\<rparr> fs)
              in case err of
                   Some t \<Rightarrow> (Inl (OtherError (''pg_dump failed: '' @ t)), d\<lparr>dk_backups := Some fs'\<rparr>)
                 | None \<Rightarrow> finish_backup e (info name (case written of None \<Rightarrow> 0 | Some bytes \<Rightarrow> bytes) ''postgres'') fs' d))"

definition suffix_of :: "string \<Rightarrow> string" where
  "suffix_of name = (let ext = takeWhile (\<lambda>c. c \<noteq> CHR ''.'') (rev name) in
     if CHR ''.'' \<in> set name \<and> ext \<noteq> [] then CHR ''.'' # rev ext else [])"

definition list_backups :: "backup_env \<Rightarrow> disk \<Rightarrow> backup_info list" where
  "list_backups e d =
     (case dk_backups d of
        None \<Rightarrow> []
      | Some fs \<Rightarrow>
          map (\<lambda>f. \<lparr>bi_filename = fe_name f, bi_path = in_dir e (fe_name f), bi_size_bytes = fe_size f, bi_created_at = fe_mtime f,
                    bi_backup_type = (if suffix_of (fe_name f) = ''.sql'' then ''postgres'' else ''sqlite'')\<rparr>)
            (filter is_backup (newest_first fe_mtime fs)))"


section \<open>The first administrator\<close>

datatype admin_setup = AlreadyExists string | NoName | Created

text \<open>The password that is accepted: the first one typed twice alike that keeps the rules.\<close>

fun first_password :: "'s auth_env \<Rightarrow> (string \<times> string) list \<Rightarrow> string option" where
  "first_password env [] = None"
| "first_password env ((password, confirm) # as) =
     (if password = confirm \<and> fst (validate_password (ae_common env) password (PASSWORD_MIN_LENGTH (ae_settings env)))
      then Some password else first_password env as)"

text \<open>\<open>has_admin\<close> is the condition of the query on the column of roles; input that ends before a password is accepted raises.\<close>

definition create_admin_user :: "'s auth_env \<Rightarrow> (json \<Rightarrow> bool) \<Rightarrow> time \<Rightarrow> string \<Rightarrow> string \<Rightarrow> string \<Rightarrow> string \<Rightarrow> (string \<times> string) list
    \<Rightarrow> (database, admin_setup) io" where
  "create_admin_user env has_admin now uid row salt typed attempts = (\<lambda>db.
     case find (\<lambda>u. has_admin (lu_roles u)) (t_local_users db) of
       Some u \<Rightarrow> (Inr (AlreadyExists (lu_username u)), db)
     | None \<Rightarrow>
         (let username = str_strip typed in
          if username = [] then (Inr NoName, db)
          else (case first_password env attempts of
                  None \<Rightarrow> (Inl (OtherError ''EOFError''), db)
                | Some password \<Rightarrow> with_db (\<lambda>db.
                    case hash_password (ae_bcrypt env) salt password of
                      Inl e \<Rightarrow> (Inl e, db)
                    | Inr hashed \<Rightarrow>
                        if list_ex (\<lambda>u. lu_username u = username \<or> lu_id u = uid) (t_local_users db) then (Inl IntegrityError, db)
                        else (Inr Created, add_user (new_user uid now username hashed (JList [JStr ''admin'']))
                                             (history_row row now uid hashed) db)) db)))"


section \<open>A certificate\<close>

record certificate =
  ct_organization :: string
  ct_common_name :: string
  ct_issuer :: "string \<times> string"
  ct_serial :: int
  ct_not_before :: time
  ct_not_after :: time
  ct_dns_names :: "string list"
  ct_addresses :: "string list"
  ct_authority :: bool
  ct_path_length :: int

text \<open>The cryptographic library: the text of a private key and the certificate that a key signs.\<close>

record 'k pki =
  pk_private_text :: "'k \<Rightarrow> string"
  pk_sign :: "'k \<Rightarrow> certificate \<Rightarrow> string"

definition self_signed :: "string \<Rightarrow> int \<Rightarrow> int \<Rightarrow> time \<Rightarrow> certificate" where
  "self_signed common_name serial days now =
     (let organization = ''onPrem LLM Sentinel'' in
      \<lparr>ct_organization = organization, ct_common_name = common_name, ct_issuer = (organization, common_name), ct_serial = serial,
       ct_not_before = now, ct_not_after = now + of_int (days * 86400), ct_dns_names = [''localhost'', ''*.localhost''],
       ct_addresses = [''127.0.0.1''], ct_authority = True, ct_path_length = 0\<rparr>)"

text \<open>The files written, in their order; their directories exist.\<close>

definition generate_self_signed_cert :: "'k pki \<Rightarrow> 'k \<Rightarrow> int \<Rightarrow> time \<Rightarrow> string \<Rightarrow> string \<Rightarrow> int \<Rightarrow> string
    \<Rightarrow> (string, string) pydict \<Rightarrow> (string \<times> string) \<times> (string, string) pydict" where
  "generate_self_signed_cert lib key serial now cert_path key_path days common_name files =
     ((cert_path, key_path),
      dict_set cert_path (pk_sign lib key (self_signed common_name serial days now)) (dict_set key_path (pk_private_text lib key) files))"


section \<open>Opening the database\<close>

definition connect_args :: "string \<Rightarrow> (string, bool) pydict" where
  "connect_args url = (if str_in ''sqlite'' url then [(''check_same_thread'', False)] else [])"

text \<open>The statements run on every new connection; without the second one SQLite ignores foreign keys.\<close>

definition connection_pragmas :: "string \<Rightarrow> string list" where
  "connection_pragmas url =
     (if str_in ''sqlite'' url \<and> \<not> str_in '':memory:'' url then [''PRAGMA journal_mode=WAL'', ''PRAGMA foreign_keys=ON''] else [])"

record engine =
  en_url :: string
  en_connect_args :: "(string, bool) pydict"
  en_pragmas :: "string list"

definition create_engine :: "settings \<Rightarrow> engine" where
  "create_engine st = (let url = effective_database_url st in
     \<lparr>en_url = url, en_connect_args = connect_args url, en_pragmas = connection_pragmas url\<rparr>)"

text \<open>The engine is made once.\<close>

definition get_engine :: "settings \<Rightarrow> engine option \<Rightarrow> engine \<times> engine option" where
  "get_engine st e = (case e of Some x \<Rightarrow> (x, e) | None \<Rightarrow> (create_engine st, Some (create_engine st)))"


section \<open>Properties\<close>

text \<open>
  A backup of an SQLite database that exists always ends in an exception while informative messages are logged,
  although the copy was made; the copy has the time of the database file, so it survives the clean-up that follows
  only when the database was written within the time that backups are kept.
\<close>

theorem sqlite_backup_effect:
  assumes "str_in ''sqlite'' (DATABASE_URL (bk_settings e))" and "bk_info e"
    and "map_of (dk_databases d) (sqlite_path (DATABASE_URL (bk_settings e))) = Some (bytes, mtime)" and "dk_backups d = Some fs"
    and "run_backup e d = (r, d')"
  defines "copy \<equiv> \<lparr>fe_name = ''proxy_'' @ bk_stamp e @ ''.db'', fe_is_file = True, fe_size = bytes, fe_mtime = mtime\<rparr>"
  shows "r = Inl KeyError \<and> (\<exists>fs'. dk_backups d' = Some fs' \<and>
    (copy \<in> set fs' \<longleftrightarrow> bk_now e - of_int (BACKUP_KEEP_DAYS (bk_settings e) * 86400) \<le> mtime) \<and>
    (\<forall>f \<in> set fs. fe_name f \<noteq> fe_name copy \<longrightarrow>
       (f \<in> set fs' \<longleftrightarrow> \<not> is_backup f \<or> bk_now e - of_int (BACKUP_KEEP_DAYS (bk_settings e) * 86400) \<le> fe_mtime f)))"
  using assms
  by (auto simp: run_backup_def finish_backup_def cleanup_old_backups_def write_file_def is_backup_def Let_def)

text \<open>The first administrator can log in with the password typed.\<close>

theorem first_admin_logs_in:
  fixes lib :: "'r aioredis" and env :: "'r redis_client auth_env"
  assumes "ae_ops env = redis_module lib url" and "in_fallback url s" and "bcrypt_ok (ae_bcrypt env)"
    and "create_admin_user env has_admin now uid row salt name attempts db = (Inr Created, db1)"
    and "rc_look s t (lockout_key (str_strip name)) = None"
  shows "\<exists>pw st. first_password env attempts = Some pw \<and> local_authenticate env t (str_strip name) pw (s, db1) = (Inr (True, [''admin'']), st)"
proof -
  from assms(4) obtain pw h where pw: "first_password env attempts = Some pw" and h: "hash_password (ae_bcrypt env) salt pw = Inr h"
    and fresh: "\<not> list_ex (\<lambda>u. lu_username u = str_strip name \<or> lu_id u = uid) (t_local_users db)"
    and db1: "t_local_users db1 = t_local_users db @ [new_user uid now (str_strip name) h (JList [JStr ''admin''])]"
    by (auto simp: create_admin_user_def with_db_def add_user_def Let_def split: option.splits if_splits sum.splits)
  have "find (\<lambda>x. lu_username x = str_strip name \<and> lu_is_active x) (t_local_users db) = None"
    using fresh by (auto simp: find_None_iff list_ex_iff)
  then have "find (\<lambda>x. lu_username x = str_strip name \<and> lu_is_active x) (t_local_users db1) =
      Some (new_user uid now (str_strip name) h (JList [JStr ''admin'']))"
    by (simp add: db1 find_append new_user_def)
  moreover have "verify_password (ae_bcrypt env) pw h" using assms(3) h by (simp add: bcrypt_ok_def)
  ultimately show ?thesis
    using rc.right_login [OF assms(1,2,5), of db1 _ pw] pw by (fastforce simp: new_user_def roles_of_def)
qed

end
