(* ===== verification/Requests.thy ===== *)
theory Requests
  imports ConfigExport Caching Guardrails
begin

text \<open>
  The request models of \<open>models.py\<close>: how a JSON body becomes the arguments of an operation.  A field that is absent
  has its default, a value of another type is refused, fields that are not known are ignored.  The same for the
  export of the configuration, which is both an answer and a request.
\<close>


section \<open>Fields\<close>

fun as_bool :: "json \<Rightarrow> bool res" where
  "as_bool (JBool b) = Inr b"
| "as_bool _ = invalid"

fun as_number :: "json \<Rightarrow> rat res" where
  "as_number (JInt i) = Inr (of_int i)"
| "as_number (JFloat x) = Inr x"
| "as_number _ = invalid"

definition as_strs :: "json \<Rightarrow> string list res" where
  "as_strs v = rbind (as_list v) (all_res as_str)"

definition as_dicts :: "json \<Rightarrow> jdict list res" where
  "as_dicts v = rbind (as_list v) (all_res as_dict)"

definition as_one_of :: "string list \<Rightarrow> json \<Rightarrow> string res" where
  "as_one_of choices v = rbind (as_str v) (\<lambda>s. if s \<in> set choices then Inr s else invalid)"

definition required :: "(json \<Rightarrow> 'a res) \<Rightarrow> string \<Rightarrow> jdict \<Rightarrow> 'a res" where
  "required f k d = rbind (field_req k d) f"

definition field :: "(json \<Rightarrow> 'a res) \<Rightarrow> 'a \<Rightarrow> string \<Rightarrow> jdict \<Rightarrow> 'a res" where
  "field f dflt k d = (case map_of d k of None \<Rightarrow> Inr dflt | Some v \<Rightarrow> f v)"

abbreviation maybe :: "(json \<Rightarrow> 'a res) \<Rightarrow> string \<Rightarrow> jdict \<Rightarrow> 'a option res" where
  "maybe f \<equiv> field (as_opt f) None"

definition checked :: "('a \<Rightarrow> bool) \<Rightarrow> 'a \<Rightarrow> 'a res" where
  "checked P a = (if P a then Inr a else invalid)"


section \<open>Clients\<close>

definition client_create_of_json :: "jdict \<Rightarrow> client_create res" where
  "client_create_of_json d =
     rbind (required as_str ''name'' d) (\<lambda>name.
     rbind (field as_strs [''api_client''] ''roles'' d) (\<lambda>roles.
     rbind (field as_strs [''*''] ''permissions'' d) (\<lambda>permissions.
     rbind (field as_strs [] ''allowed_providers'' d) (\<lambda>allowed_providers.
     rbind (field as_strs [] ''allowed_models'' d) (\<lambda>allowed_models.
     rbind (field as_int 60 ''rate_limit_per_minute'' d) (\<lambda>rate_limit.
     rbind (field as_int 50000 ''token_limit_per_minute'' d) (\<lambda>token_limit.
     rbind (field as_int 0 ''daily_token_quota'' d) (\<lambda>quota.
     rbind (field as_int 10 ''max_concurrent_requests'' d) (\<lambda>max_concurrent.
     rbind (field as_bool False ''require_signing'' d) (\<lambda>signing.
     rbind (field as_int 5 ''priority'' d) (\<lambda>prio.
     rbind (field as_bool False ''cache_enabled'' d) (\<lambda>cache.
     rbind (maybe as_str ''ldap_group'' d) (\<lambda>ldap_group.
     rbind (maybe as_str ''description'' d) (\<lambda>description.
     checked client_create_ok
       \<lparr>cc_name = name, cc_roles = roles, cc_permissions = permissions, cc_allowed_providers = allowed_providers,
        cc_allowed_models = allowed_models, cc_rate_limit_per_minute = rate_limit, cc_token_limit_per_minute = token_limit,
        cc_daily_token_quota = quota, cc_max_concurrent_requests = max_concurrent, cc_require_signing = signing, cc_priority = prio,
        cc_cache_enabled = cache, cc_ldap_group = ldap_group, cc_description = description\<rparr>))))))))))))))"

definition client_update_of_json :: "jdict \<Rightarrow> client_update res" where
  "client_update_of_json d =
     rbind (maybe as_str ''name'' d) (\<lambda>name.
     rbind (maybe as_strs ''roles'' d) (\<lambda>roles.
     rbind (maybe as_strs ''permissions'' d) (\<lambda>permissions.
     rbind (maybe as_strs ''allowed_providers'' d) (\<lambda>allowed_providers.
     rbind (maybe as_strs ''allowed_models'' d) (\<lambda>allowed_models.
     rbind (maybe as_int ''rate_limit_per_minute'' d) (\<lambda>rate_limit.
     rbind (maybe as_int ''token_limit_per_minute'' d) (\<lambda>token_limit.
     rbind (maybe as_int ''daily_token_quota'' d) (\<lambda>quota.
     rbind (maybe as_int ''max_concurrent_requests'' d) (\<lambda>max_concurrent.
     rbind (maybe as_bool ''require_signing'' d) (\<lambda>signing.
     rbind (maybe as_int ''priority'' d) (\<lambda>prio.
     rbind (maybe as_bool ''cache_enabled'' d) (\<lambda>cache.
     rbind (maybe as_str ''ldap_group'' d) (\<lambda>ldap_group.
     rbind (maybe as_bool ''is_active'' d) (\<lambda>active.
     rbind (maybe as_str ''description'' d) (\<lambda>description.
     checked client_update_ok
       \<lparr>cu_name = name, cu_roles = roles, cu_permissions = permissions, cu_allowed_providers = allowed_providers,
        cu_allowed_models = allowed_models, cu_rate_limit_per_minute = rate_limit, cu_token_limit_per_minute = token_limit,
        cu_daily_token_quota = quota, cu_max_concurrent_requests = max_concurrent, cu_require_signing = signing, cu_priority = prio,
        cu_cache_enabled = cache, cu_ldap_group = ldap_group, cu_is_active = active, cu_description = description\<rparr>)))))))))))))))"


section \<open>Aliases, rates, alerts and policies\<close>

definition alias_create_of_json :: "jdict \<Rightarrow> (string \<times> string \<times> string \<times> string option) res" where
  "alias_create_of_json d =
     rbind (required as_str ''alias'' d) (\<lambda>name.
     rbind (required as_str ''provider'' d) (\<lambda>provider.
     rbind (required as_str ''model'' d) (\<lambda>model.
     rbind (maybe as_str ''description'' d) (\<lambda>description. Inr (name, provider, model, description)))))"

definition alias_update_of_json :: "jdict \<Rightarrow> alias_update res" where
  "alias_update_of_json d =
     rbind (maybe as_str ''provider'' d) (\<lambda>provider.
     rbind (maybe as_str ''model'' d) (\<lambda>model.
     rbind (maybe as_str ''description'' d) (\<lambda>description.
     rbind (maybe as_bool ''is_active'' d) (\<lambda>active.
     Inr \<lparr>mau_provider = provider, mau_model = model, mau_description = description, mau_is_active = active\<rparr>))))"

definition rate_create_of_json :: "jdict \<Rightarrow> (string \<times> string \<times> rat \<times> rat) res" where
  "rate_create_of_json d =
     rbind (required as_str ''provider'' d) (\<lambda>provider.
     rbind (required as_str ''model'' d) (\<lambda>model.
     rbind (required as_number ''input_cost_per_1k'' d) (\<lambda>inp.
     rbind (required as_number ''output_cost_per_1k'' d) (\<lambda>outp. Inr (provider, model, inp, outp)))))"

definition alert_create_of_json :: "jdict \<Rightarrow> (string \<times> string \<times> string option \<times> string) res" where
  "alert_create_of_json d =
     rbind (required as_str ''event_type'' d) (\<lambda>event_type.
     rbind (required as_str ''webhook_url'' d) (\<lambda>webhook_url.
     rbind (maybe as_str ''description'' d) (\<lambda>description.
     rbind (field (as_one_of [''info'', ''warning'', ''critical'']) ''warning'' ''min_severity'' d) (\<lambda>severity.
     Inr (event_type, webhook_url, description, severity)))))"

definition policy_create_of_json :: "jdict \<Rightarrow> (string \<times> string \<times> jdict \<times> string list option \<times> int) res" where
  "policy_create_of_json d =
     rbind (required as_str ''name'' d) (\<lambda>name.
     rbind (required (as_one_of (map fst policy_types)) ''policy_type'' d) (\<lambda>policy_type.
     rbind (field as_dict [] ''config_json'' d) (\<lambda>config.
     rbind (maybe as_strs ''applies_to_clients'' d) (\<lambda>applies.
     rbind (field as_int 50 ''priority'' d) (\<lambda>prio. Inr (name, policy_type, config, applies, prio))))))"

definition policy_update_of_json :: "jdict \<Rightarrow> policy_update res" where
  "policy_update_of_json d =
     rbind (maybe as_str ''name'' d) (\<lambda>name.
     rbind (maybe as_dict ''config_json'' d) (\<lambda>config.
     rbind (maybe as_bool ''is_active'' d) (\<lambda>active.
     rbind (maybe as_strs ''applies_to_clients'' d) (\<lambda>applies.
     rbind (maybe as_int ''priority'' d) (\<lambda>prio.
     Inr \<lparr>pu_name = name, pu_config = config, pu_active = active, pu_applies = applies, pu_priority = prio\<rparr>)))))"


section \<open>Export and import\<close>

definition import_options_of_json :: "jdict \<Rightarrow> import_options res" where
  "import_options_of_json d =
     rbind (field as_bool False ''overwrite_existing'' d) (\<lambda>overwrite.
     rbind (field as_bool False ''import_clients'' d) (\<lambda>clients.
     rbind (field as_bool True ''import_alert_configs'' d) (\<lambda>alerts.
     rbind (field as_bool True ''verify_signature'' d) (\<lambda>verify.
     Inr \<lparr>io_overwrite_existing = overwrite, io_import_clients = clients, io_import_alert_configs = alerts,
          io_verify_signature = verify\<rparr>))))"

definition export_data_of_json :: "jdict \<Rightarrow> export_data res" where
  "export_data_of_json d =
     rbind (field as_str ''1.0'' ''schema_version'' d) (\<lambda>schema_version.
     rbind (maybe as_str ''exported_at'' d) (\<lambda>exported_at.
     rbind (field as_str ''1.0.0'' ''proxy_version'' d) (\<lambda>proxy_version.
     rbind (maybe as_str ''signature'' d) (\<lambda>signature.
     rbind (field as_dicts [] ''filter_patterns'' d) (\<lambda>filter_patterns.
     rbind (field as_dicts [] ''model_aliases'' d) (\<lambda>model_aliases.
     rbind (field as_dicts [] ''cost_rates'' d) (\<lambda>cost_rates.
     rbind (field as_dicts [] ''alert_configs'' d) (\<lambda>alert_configs.
     rbind (field as_dicts [] ''clients'' d) (\<lambda>clients.
     rbind (field as_dicts [] ''content_policies'' d) (\<lambda>content_policies.
     rbind (field as_dicts [] ''provider_configs'' d) (\<lambda>provider_configs.
     rbind (field as_dict [] ''runtime_config'' d) (\<lambda>runtime_config.
     Inr \<lparr>xd_schema_version = schema_version, xd_exported_at = exported_at, xd_proxy_version = proxy_version, xd_signature = signature,
          xd_filter_patterns = filter_patterns, xd_model_aliases = model_aliases, xd_cost_rates = cost_rates,
          xd_alert_configs = alert_configs, xd_clients = clients, xd_content_policies = content_policies,
          xd_provider_configs = provider_configs, xd_runtime_config = runtime_config\<rparr>))))))))))))"

definition dicts_to_json :: "jdict list \<Rightarrow> json" where
  "dicts_to_json ds = JList (map JObj ds)"

definition export_to_json :: "export_data \<Rightarrow> jdict" where
  "export_to_json x =
     [(''schema_version'', JStr (xd_schema_version x)), (''exported_at'', opt_json JStr (xd_exported_at x)),
      (''proxy_version'', JStr (xd_proxy_version x)), (''signature'', opt_json JStr (xd_signature x)),
      (''filter_patterns'', dicts_to_json (xd_filter_patterns x)), (''model_aliases'', dicts_to_json (xd_model_aliases x)),
      (''cost_rates'', dicts_to_json (xd_cost_rates x)), (''alert_configs'', dicts_to_json (xd_alert_configs x)),
      (''clients'', dicts_to_json (xd_clients x)), (''content_policies'', dicts_to_json (xd_content_policies x)),
      (''provider_configs'', dicts_to_json (xd_provider_configs x)), (''runtime_config'', JObj (xd_runtime_config x))]"


section \<open>Lemmas\<close>

lemma field_simps_json [simp]:
  "map_of d k = Some v \<Longrightarrow> field f dflt k d = f v"
  "map_of d k = None \<Longrightarrow> field f dflt k d = Inr dflt"
  by (simp_all add: field_def)

lemma as_dicts_to_json [simp]: "as_dicts (dicts_to_json ds) = Inr ds"
  by (simp add: as_dicts_def dicts_to_json_def all_res_map)

text \<open>A body that is accepted has a priority between 1 and 10 and a name.\<close>

lemma client_create_of_json_ok: "client_create_of_json d = Inr c \<Longrightarrow> client_create_ok c"
  by (auto simp: client_create_of_json_def checked_def invalid_def rbind_Inr_iff split: if_splits)

lemma client_update_of_json_ok: "client_update_of_json d = Inr u \<Longrightarrow> client_update_ok u"
  by (auto simp: client_update_of_json_def checked_def invalid_def rbind_Inr_iff split: if_splits)

text \<open>What an export shows is read back as the same export.\<close>

theorem export_read_back: "export_data_of_json (export_to_json x) = Inr x"
  by (cases x) (simp add: export_data_of_json_def export_to_json_def as_opt_json)

end
