(* ===== verification/Endpoints.thy ===== *)
theory Endpoints
  imports Requests Chat Users Providers Maintenance
begin

text \<open>
  The administration and information endpoints of \<open>main.py\<close>, over the state of the whole server: what each reads
  from its body and its path, which operation of a component it calls, and what it answers.  Bodies are parsed JSON
  objects; new identifiers, random texts and the clock are arguments; what the validation library or a missing key of
  the body raises is an exception of the endpoint.
\<close>


section \<open>State and environment\<close>

text \<open>\<open>xs_settings\<close> is part of the state because two endpoints change settings at run time.\<close>

record ('s, 'w) api_state =
  xs_app :: "('s, 'w) app"
  xs_security :: sec_state
  xs_settings :: settings
  xs_webhooks :: "webhook_call list"
  xs_disk :: disk

text \<open>What adapters get when they ask a service for its models: from a client of the OpenAI library, or from Ollama's address.\<close>

record model_lists =
  ml_openai :: "api_client \<Rightarrow> string list outcome"
  ml_ollama :: "string \<Rightarrow> json outcome"

record ('s, 'w) api_env =
  xe_auth :: "'s auth_env"
  xe_guard :: guard_env
  xe_warn :: bool
  xe_alerts :: alert_env
  xe_backup :: backup_env
  xe_models :: model_lists
  xe_list :: "string list env"
  xe_embed :: "json \<Rightarrow> string \<Rightarrow> embedding_response env"
  xe_ldap :: "string option res"            \<comment> \<open>information of the LDAP server, or the exception\<close>
  xe_day :: "string \<Rightarrow> string option"       \<comment> \<open>the day of a date in ISO format\<close>
  xe_str_exn :: "py_exn \<Rightarrow> string"
  xe_now :: time
  xe_started :: time
  xe_today :: string
  xe_uid :: "nat \<Rightarrow> string"
  xe_hex :: "nat \<Rightarrow> string"
  xe_pretty :: "json \<Rightarrow> string"        \<comment> \<open>JSON text with indentation\<close>
  xe_nonces :: "nat \<Rightarrow> string"
  xe_redis_up :: "'s \<Rightarrow> bool"
  xe_session :: "('s, 'w) session_env"

abbreviation xs_db :: "('s, 'w) api_state \<Rightarrow> database" where
  "xs_db x \<equiv> ap_db (xs_app x)"

abbreviation xe_lib :: "('s, 'w) api_env \<Rightarrow> pylib" where
  "xe_lib e \<equiv> ge_lib (xe_guard e)"

abbreviation xe_re :: "('s, 'w) api_env \<Rightarrow> re_lib" where
  "xe_re e \<equiv> ge_re (xe_guard e)"

abbreviation xe_crypto :: "('s, 'w) api_env \<Rightarrow> crypto" where
  "xe_crypto e \<equiv> ge_crypto (xe_guard e)"

abbreviation xe_iso :: "('s, 'w) api_env \<Rightarrow> time \<Rightarrow> string" where
  "xe_iso e \<equiv> ae_iso (xe_auth e)"

definition auth_at :: "('s, 'w) api_env \<Rightarrow> ('s, 'w) api_state \<Rightarrow> 's auth_env" where
  "auth_at e x = (xe_auth e)\<lparr>ae_settings := xs_settings x\<rparr>"

definition alerts_at :: "('s, 'w) api_env \<Rightarrow> ('s, 'w) api_state \<Rightarrow> alert_env" where
  "alerts_at e x = (xe_alerts e)\<lparr>an_settings := xs_settings x\<rparr>"

definition backup_at :: "('s, 'w) api_env \<Rightarrow> ('s, 'w) api_state \<Rightarrow> backup_env" where
  "backup_at e x = (xe_backup e)\<lparr>bk_settings := xs_settings x\<rparr>"


section \<open>Operations of the components on the state\<close>

definition on_app :: "(('s, 'w) app, 'a) io \<Rightarrow> (('s, 'w) api_state, 'a) io" where
  "on_app m = (\<lambda>x. let (r, a) = m (xs_app x) in (r, x\<lparr>xs_app := a\<rparr>))"

definition at_db :: "(database, 'a) io \<Rightarrow> (('s, 'w) api_state, 'a) io" where
  "at_db m = on_app (on_db_part m)"

definition at_keys :: "(key_manager \<times> database, 'a) io \<Rightarrow> (('s, 'w) api_state, 'a) io" where
  "at_keys m = on_app (\<lambda>a. let (r, (ks, db)) = m (ap_pools a, ap_db a) in (r, a\<lparr>ap_pools := ks, ap_db := db\<rparr>))"

definition at_alerts :: "(alert_state, 'a) io \<Rightarrow> (('s, 'w) api_state, 'a) io" where
  "at_alerts m = (\<lambda>x. let (r, (db, calls)) = m (xs_db x, xs_webhooks x)
     in (r, x\<lparr>xs_app := (xs_app x)\<lparr>ap_db := db\<rparr>, xs_webhooks := calls\<rparr>))"

definition at_auth :: "('s auth_state, 'a) io \<Rightarrow> (('s, 'w) api_state, 'a) io" where
  "at_auth m = on_app (\<lambda>a. let (r, (s, db)) = m (ap_store a, ap_db a) in (r, a\<lparr>ap_store := s, ap_db := db\<rparr>))"

definition at_security :: "(sec_state \<Rightarrow> 'a \<times> sec_state) \<Rightarrow> (('s, 'w) api_state, 'a) io" where
  "at_security f = (\<lambda>x. let (r, sec) = f (xs_security x) in (Inr r, x\<lparr>xs_security := sec\<rparr>))"

definition at_disk :: "(disk, 'a) io \<Rightarrow> (('s, 'w) api_state, 'a) io" where
  "at_disk m = (\<lambda>x. let (r, d) = m (xs_disk x) in (r, x\<lparr>xs_disk := d\<rparr>))"

text \<open>Reading, and a change of the tables that cannot fail.\<close>

definition reading :: "('p \<Rightarrow> 'a) \<Rightarrow> ('p, 'a) io" where
  "reading f = (\<lambda>x. (Inr (f x), x))"

definition sure :: "('p \<Rightarrow> 'a \<times> 'p) \<Rightarrow> ('p, 'a) io" where
  "sure f = (\<lambda>x. let (r, x') = f x in (Inr r, x'))"

definition found :: "string \<Rightarrow> 'a option \<Rightarrow> ('p, 'a) io" where
  "found message r = (case r of Some a \<Rightarrow> ret a | None \<Rightarrow> raise (HTTPException 404 message))"

definition done_or_404 :: "string \<Rightarrow> 'a \<Rightarrow> bool \<Rightarrow> ('p, 'a) io" where
  "done_or_404 message answer ok = (if ok then ret answer else raise (HTTPException 404 message))"

text \<open>\<open>body[k]\<close>\<close>

definition body_at :: "string \<Rightarrow> jdict \<Rightarrow> json res" where
  "body_at k d = (case map_of d k of Some v \<Rightarrow> Inr v | None \<Rightarrow> Inl KeyError)"


section \<open>Answers\<close>

datatype api_answer =
    Message string
  | Data json
  | ClientsAnswer "client_response list"
  | ClientAnswer client_response
  | ClientKeyAnswer client_response string
  | QuotaAnswer quota_response
  | KeysAnswer "api_key_entry list"
  | KeyAnswer api_key_entry
  | RotationAnswer secret_rotation_status
  | BreakersAnswer "(string, string) pydict"
  | PatternsAnswer "filter_pattern_row list"
  | PatternAnswer filter_pattern_row
  | FilterTestAnswer filter_test
  | AliasesAnswer "model_alias_row list"
  | AliasAnswer model_alias_row
  | RatesAnswer "cost_rate_row list"
  | RateAnswer cost_rate_row
  | CostsAnswer cost_summary
  | AlertsAnswer "alert_config list"
  | AlertAnswer alert_config
  | AlertHistoryAnswer "alert_history_row list"
  | RequestLogsAnswer "request_log_row list"
  | AuditAnswer "audit_log_row list"
  | PasswordAnswer "bool \<times> password_error list"
  | UserAnswer "string user_answer"
  | BansAnswer "(string \<times> time \<times> int) list"
  | BackupsAnswer "backup_info list"
  | ExportAnswer jdict
  | DownloadAnswer string
  | ImportAnswer import_result
  | PoliciesAnswer "content_policy list"
  | PolicyAnswer content_policy
  | PolicyTestAnswer policy_result
  | CacheAnswer cache_stats
  | QueueAnswer queue_status
  | ModelsAnswer "model_info list"
  | EmbeddingsAnswer embedding_response
  | SessionsAnswer "live_session list"

type_synonym ('s, 'w) api_op = "(('s, 'w) api_state, api_answer) io"


section \<open>Information\<close>

text \<open>The values of a body that must be texts and dictionaries.\<close>

definition text_arg :: "json \<Rightarrow> string option" where
  "text_arg v = (case v of JStr s \<Rightarrow> Some s | _ \<Rightarrow> None)"

definition messages_arg :: "json \<Rightarrow> jdict list res" where
  "messages_arg v = rbind (py_iter v) (all_res (\<lambda>m. case m of JObj d \<Rightarrow> Inr d | _ \<Rightarrow> Inl AttributeError))"

definition uptime :: "('s, 'w) api_env \<Rightarrow> rat" where
  "uptime e = py_round (xe_now e - xe_started e) 1"

definition health :: "('s, 'w) api_env \<Rightarrow> ('s, 'w) api_op" where
  "health e = (\<lambda>x. (rbind (get_all_clients (xs_db x)) (\<lambda>cs. Inr (Data (JObj
     [(''status'', JStr ''ok''), (''uptime_seconds'', JFloat (uptime e)), (''clients_count'', JInt (int (length cs))),
      (''redis_connected'', JBool (xe_redis_up e (ap_store (xs_app x)))),
      (''providers'', JList (map (\<lambda>p. JStr (fst p)) (ap_pools (xs_app x))))]))), x))"

definition get_stats :: "('s, 'w) api_env \<Rightarrow> ('s, 'w) api_op" where
  "get_stats e = reading (\<lambda>x. let s = ap_stats (xs_app x) in Data (JObj
     [(''total_requests'', JInt (st_total_requests s)), (''total_input_tokens'', JInt (st_total_input_tokens s)),
      (''total_output_tokens'', JInt (st_total_output_tokens s)), (''errors'', JInt (st_errors s)),
      (''last_request_time'', opt_json (\<lambda>t. JStr (xe_iso e t)) (st_last_request_time s)), (''uptime_seconds'', JFloat (uptime e))]))"

definition reset_stats_ep :: "('s, 'w) api_op" where
  "reset_stats_ep = on_app (sure (\<lambda>a. (Message ''Stats reset'', a\<lparr>ap_stats := reset_stats (ap_stats a)\<rparr>)))"

text \<open>The counters are open to everyone unless a token is set, which is taken from the query or the header.\<close>

definition metrics_allowed :: "settings \<Rightarrow> string \<Rightarrow> http_request \<Rightarrow> bool" where
  "metrics_allowed st query_token r \<longleftrightarrow>
     METRICS_TOKEN st = [] \<or> str_or query_token (str_replace ''Bearer '' [] (header ''authorization'' r)) = METRICS_TOKEN st"

definition prometheus_metrics :: "string \<Rightarrow> http_request \<Rightarrow> (('s, 'w) api_state, metrics) io" where
  "prometheus_metrics query_token r = (\<lambda>x.
     if metrics_allowed (xs_settings x) query_token r then (Inr (ap_metrics (xs_app x)), x)
     else (Inl (HTTPException 403 ''Invalid metrics token''), x))"

definition active_requests_ep :: "('s, 'w) api_env \<Rightarrow> ('s, 'w) api_op" where
  "active_requests_ep e = reading (\<lambda>x. Data (JObj
     [(''requests'', JList (map JObj (get_active_requests (xe_now e) (ap_limiter (xs_app x)))))]))"

definition queue_status_ep :: "('s, 'w) api_op" where
  "queue_status_ep = reading (\<lambda>x. QueueAnswer (get_queue_status (xs_settings x) (ap_limiter (xs_app x))))"

text \<open>Calls whose results have another type are not in the log of chat calls.\<close>

definition on_other_calls :: "('a proxy \<Rightarrow> 'b \<times> 'a proxy) \<Rightarrow> ('s, 'w) app \<Rightarrow> 'b \<times> ('s, 'w) app" where
  "on_other_calls m = (\<lambda>a.
     let (r, p) = m \<lparr>px_pools = ap_pools a, px_breakers = ap_breakers a, px_step = ap_step a, px_log = []\<rparr>
     in (r, a\<lparr>ap_pools := px_pools p, ap_breakers := px_breakers p, ap_step := px_step p\<rparr>))"

definition list_models :: "('s, 'w) api_env \<Rightarrow> ('s, 'w) api_op" where
  "list_models e = (\<lambda>x. on_app (sure (\<lambda>a.
     let (ms, a') = on_other_calls (list_all_models (xe_list e) (xs_settings x) (ap_db a)) a in (ModelsAnswer ms, a'))) x)"

definition embeddings :: "('s, 'w) api_env \<Rightarrow> jdict \<Rightarrow> ('s, 'w) api_op" where
  "embeddings e body = (\<lambda>x.
     let model_hint = text_arg (jget_or (JStr ''text-embedding-3-small'') ''model'' body);
         given_input = jget_or (JStr []) ''input'' body;
         input = (if is_str given_input then JList [given_input] else given_input);
         (provider, model, _) = resolve_model (xs_settings x) (active_alias (xs_db x)) None model_hint
     in on_app (try_except
          (bnd (on_other_calls (create_embeddings (xe_embed e input model) (xs_settings x) provider)) (\<lambda>r. ret (EmbeddingsAnswer r)))
          (\<lambda>exc. case exc of ProviderError message _ status \<Rightarrow> raise (HTTPException status message) | _ \<Rightarrow> raise exc)) x)"

definition filter_endpoint :: "('s, 'w) api_env \<Rightarrow> jdict \<Rightarrow> ('s, 'w) api_op" where
  "filter_endpoint e body = (\<lambda>x.
     let ft = jget_or (JStr ''messages'') ''filter_type'' body; ps = ap_patterns (xs_app x) in
     (if ft = JStr ''ssh_output''
      then rbind (sanitize_ssh_output (xe_re e) ps (str_val (jget_or (JStr []) ''text'' body))) (\<lambda>(filtered, hits).
           Inr (Data (JObj [(''filter_type'', ft), (''text'', JStr filtered), (''masked_count'', JInt (int (length hits)))])))
      else rbind (messages_arg (jget_or (JList []) ''messages'' body)) (\<lambda>ms.
           rbind (sanitize_messages (xe_re e) (xe_warn e) ps ms) (\<lambda>(filtered, n).
           Inr (Data (JObj [(''filter_type'', ft), (''messages'', JList (map JObj filtered)), (''masked_count'', JInt (int n))]))))
      , x))"

definition get_config :: "('s, 'w) api_op" where
  "get_config = reading (\<lambda>x. Data (JObj
     [(''provider'', case fallback_chain_list (xs_settings x) of [] \<Rightarrow> JNull | p # _ \<Rightarrow> JStr p)]))"

text \<open>The endpoint that is meant to change the configuration repeats its body and changes nothing.\<close>

definition set_config :: "jdict \<Rightarrow> ('s, 'w) api_op" where
  "set_config body = ret (Data (JObj [(''message'', JStr ''Config updated''), (''changes'', JObj body)]))"

definition reload_config_ep :: "('s, 'w) api_op" where
  "reload_config_ep = on_app (sure (\<lambda>a. (Message ''Config reloaded'', a\<lparr>ap_patterns := reload_patterns (get_all_patterns (ap_db a))\<rparr>)))"


section \<open>Clients and their keys\<close>

definition list_clients :: "('s, 'w) api_op" where
  "list_clients = (\<lambda>x. (rbind (get_all_clients (xs_db x)) (\<lambda>cs. Inr (ClientsAnswer cs)), x))"

definition create_client_endpoint :: "('s, 'w) api_env \<Rightarrow> jdict \<Rightarrow> ('s, 'w) api_op" where
  "create_client_endpoint e body =
     bnd (lift_res (client_create_of_json body)) (\<lambda>d.
     bnd (at_db (create_client (xe_lib e) (xe_uid e 0) (xe_now e) (xe_hex e 0) d)) (\<lambda>(resp, key). ret (ClientKeyAnswer resp key)))"

definition get_client_endpoint :: "string \<Rightarrow> ('s, 'w) api_op" where
  "get_client_endpoint client_id =
     bnd (\<lambda>x. (get_client_by_id client_id (xs_db x), x)) (\<lambda>c. bnd (found ''Client not found'' c) (\<lambda>c. ret (ClientAnswer c)))"

definition update_client_endpoint :: "string \<Rightarrow> jdict \<Rightarrow> ('s, 'w) api_op" where
  "update_client_endpoint client_id body =
     bnd (lift_res (client_update_of_json body)) (\<lambda>d.
     bnd (at_db (update_client client_id d)) (\<lambda>c. bnd (found ''Client not found'' c) (\<lambda>c. ret (ClientAnswer c))))"

definition delete_client_endpoint :: "string \<Rightarrow> ('s, 'w) api_op" where
  "delete_client_endpoint client_id =
     bnd (at_db (delete_client client_id)) (done_or_404 ''Client not found'' (Message ''Client deleted''))"

definition regen_key :: "('s, 'w) api_env \<Rightarrow> string \<Rightarrow> ('s, 'w) api_op" where
  "regen_key e client_id =
     bnd (at_db (regenerate_api_key (xe_lib e) (xe_hex e 0) client_id)) (\<lambda>r.
     bnd (found ''Client not found'' r) (\<lambda>(resp, key). ret (ClientKeyAnswer resp key)))"

definition client_quota :: "('s, 'w) api_env \<Rightarrow> string \<Rightarrow> ('s, 'w) api_op" where
  "client_quota e client_id = reading (\<lambda>x. QuotaAnswer (get_quota_usage (xe_today e) None client_id (xs_db x)))"

definition client_quota_reset :: "('s, 'w) api_env \<Rightarrow> string \<Rightarrow> ('s, 'w) api_op" where
  "client_quota_reset e client_id = at_db (sure (\<lambda>db. (Message ''Quota reset'', reset_quota (xe_today e) None client_id db)))"

text \<open>Asking for the keys of a provider makes a pool for it.\<close>

definition list_keys :: "string \<Rightarrow> ('s, 'w) api_op" where
  "list_keys provider = at_keys (sure (\<lambda>(ks, db).
     (KeysAnswer (get_health (get_pool provider ks)), (dict_set provider (get_pool provider ks) ks, db))))"

definition add_key_ep :: "('s, 'w) api_env \<Rightarrow> string \<Rightarrow> jdict \<Rightarrow> ('s, 'w) api_op" where
  "add_key_ep e provider body =
     bnd (lift_res (body_at ''key'' body)) (\<lambda>key x.
     bnd (at_keys (add_key_to_db (xe_crypto e) (xs_settings x) (xe_uid e 0) (xe_nonces e 0) (xe_now e) provider (str_val key)))
       (\<lambda>entry. ret (KeyAnswer entry)) x)"

definition remove_key_ep :: "string \<Rightarrow> int \<Rightarrow> ('s, 'w) api_op" where
  "remove_key_ep provider index =
     bnd (at_keys (remove_key_from_db provider index)) (done_or_404 ''Key not found'' (Message ''Key removed''))"

definition rotate_check :: "('s, 'w) api_env \<Rightarrow> ('s, 'w) api_op" where
  "rotate_check e = reading (\<lambda>x. RotationAnswer (get_rotation_status (xe_crypto e) (xe_lib e) (xs_settings x) (xs_db x)))"

definition rotate_now :: "('s, 'w) api_env \<Rightarrow> ('s, 'w) api_op" where
  "rotate_now e = (\<lambda>x. bnd (at_db (re_encrypt_stale_keys (xe_crypto e) (xs_settings x) (xe_nonces e)))
     (\<lambda>n. ret (Data (JObj [(''re_encrypted'', JInt (int n))]))) x)"

definition list_breakers :: "('s, 'w) api_env \<Rightarrow> ('s, 'w) api_op" where
  "list_breakers e = on_app (sure (\<lambda>a. let (states, m) = get_all_states (xe_now e) (ap_breakers a)
     in (BreakersAnswer states, a\<lparr>ap_breakers := m\<rparr>)))"

definition reset_breaker :: "string \<Rightarrow> ('s, 'w) api_op" where
  "reset_breaker provider = on_app (sure (\<lambda>a. (Message (''Circuit breakers reset for '' @ provider),
     a\<lparr>ap_breakers := cm_reset provider None (ap_breakers a)\<rparr>)))"


section \<open>Filter patterns, aliases and rates\<close>

text \<open>A pattern made, changed or deleted is not active before the patterns are loaded again.\<close>

definition list_patterns :: "('s, 'w) api_op" where
  "list_patterns = reading (\<lambda>x. PatternsAnswer (get_all_patterns (xs_db x)))"

definition create_pattern_ep :: "('s, 'w) api_env \<Rightarrow> jdict \<Rightarrow> ('s, 'w) api_op" where
  "create_pattern_ep e body =
     bnd (lift_res
       (rbind (body_at ''name'' body) (\<lambda>_. rbind (body_at ''pattern'' body) (\<lambda>_.
        rbind (column of_str [] ''name'' body) (\<lambda>name. rbind (column of_str [] ''pattern'' body) (\<lambda>pattern.
        rbind (column of_str ''[REDACTED]'' ''replacement'' body) (\<lambda>replacement.
        rbind (column of_str ''IGNORECASE'' ''flags'' body) (\<lambda>flags. Inr (name, pattern, replacement, flags)))))))))
       (\<lambda>(name, pattern, replacement, flags).
     at_db (sure (\<lambda>db. let (r, db') = create_pattern (xe_uid e 0) (xe_now e) name pattern replacement flags db in (PatternAnswer r, db'))))"

definition changed_pattern :: "jdict \<Rightarrow> filter_pattern_row \<Rightarrow> filter_pattern_row res" where
  "changed_pattern body row =
     rbind (column of_bool (fp_is_active row) ''is_active'' body) (\<lambda>active.
     rbind (column of_str (fp_name row) ''name'' body) (\<lambda>name.
     rbind (column of_str (fp_pattern row) ''pattern'' body) (\<lambda>pattern.
     rbind (column of_str (fp_replacement row) ''replacement'' body) (\<lambda>replacement.
     rbind (column of_str (fp_flags row) ''flags'' body) (\<lambda>flags.
     Inr (row\<lparr>fp_is_active := active, fp_name := name, fp_pattern := pattern, fp_replacement := replacement, fp_flags := flags\<rparr>))))))"

definition update_pattern :: "string \<Rightarrow> jdict \<Rightarrow> ('s, 'w) api_op" where
  "update_pattern pid body = at_db (with_db (\<lambda>db.
     case find (\<lambda>r. fp_id r = pid) (t_filter_patterns db) of
       None \<Rightarrow> (Inl (HTTPException 404 ''Pattern not found''), db)
     | Some row \<Rightarrow> (case changed_pattern body row of
         Inl exc \<Rightarrow> (Inl exc, db)
       | Inr row' \<Rightarrow> (Inr (Message ''Pattern updated''),
           db\<lparr>t_filter_patterns := update_first (\<lambda>r. fp_id r = pid) (\<lambda>_. row') (t_filter_patterns db)\<rparr>))))"

definition delete_pattern_ep :: "string \<Rightarrow> ('s, 'w) api_op" where
  "delete_pattern_ep pid =
     bnd (at_db (sure (delete_pattern pid))) (done_or_404 ''Pattern not found or is built-in'' (Message ''Pattern deleted''))"

definition test_pattern :: "('s, 'w) api_env \<Rightarrow> jdict \<Rightarrow> ('s, 'w) api_op" where
  "test_pattern e body = (\<lambda>x.
     (rbind (test_text (xe_re e) (xe_warn e) (ap_patterns (xs_app x)) (str_val (jget_or (JStr []) ''text'' body)))
        (\<lambda>t. Inr (FilterTestAnswer t)), x))"

definition list_aliases :: "('s, 'w) api_op" where
  "list_aliases = reading (\<lambda>x. AliasesAnswer (get_all_aliases True (xs_db x)))"

definition create_alias_ep :: "('s, 'w) api_env \<Rightarrow> jdict \<Rightarrow> ('s, 'w) api_op" where
  "create_alias_ep e body =
     bnd (lift_res (alias_create_of_json body)) (\<lambda>(name, provider, model, description).
     bnd (at_db (create_alias (xe_uid e 0) (xe_now e) name provider model description)) (\<lambda>a. ret (AliasAnswer a)))"

definition update_alias_ep :: "string \<Rightarrow> jdict \<Rightarrow> ('s, 'w) api_op" where
  "update_alias_ep aid body =
     bnd (lift_res (alias_update_of_json body)) (\<lambda>u.
     bnd (at_db (sure (update_alias aid u))) (\<lambda>a. bnd (found ''Alias not found'' a) (\<lambda>a. ret (AliasAnswer a))))"

definition delete_alias_ep :: "string \<Rightarrow> ('s, 'w) api_op" where
  "delete_alias_ep aid = bnd (at_db (sure (delete_alias aid))) (done_or_404 ''Alias not found'' (Message ''Alias deleted''))"

definition list_cost_rates :: "('s, 'w) api_op" where
  "list_cost_rates = reading (\<lambda>x. RatesAnswer (get_all_rates (xs_db x)))"

definition create_cost_rate :: "('s, 'w) api_env \<Rightarrow> jdict \<Rightarrow> ('s, 'w) api_op" where
  "create_cost_rate e body =
     bnd (lift_res (rate_create_of_json body)) (\<lambda>(provider, model, inp, outp).
     bnd (at_db (create_rate (xe_uid e 0) (xe_now e) provider model inp outp)) (\<lambda>r. ret (RateAnswer r)))"

definition changed_rate :: "jdict \<Rightarrow> cost_rate_row \<Rightarrow> cost_rate_row res" where
  "changed_rate body row =
     rbind (column of_number (cr_input_cost_per_1k row) ''input_cost_per_1k'' body) (\<lambda>inp.
     rbind (column of_number (cr_output_cost_per_1k row) ''output_cost_per_1k'' body) (\<lambda>outp.
     rbind (column of_str (cr_provider row) ''provider'' body) (\<lambda>provider.
     rbind (column of_str (cr_model row) ''model'' body) (\<lambda>model.
     Inr (row\<lparr>cr_input_cost_per_1k := inp, cr_output_cost_per_1k := outp, cr_provider := provider, cr_model := model\<rparr>)))))"

text \<open>Provider, model and the date from which a rate holds are unique together.\<close>

definition rate_clash :: "string \<Rightarrow> cost_rate_row \<Rightarrow> database \<Rightarrow> bool" where
  "rate_clash rid row db \<longleftrightarrow> list_ex (\<lambda>r. cr_id r \<noteq> rid \<and> cr_provider r = cr_provider row \<and> cr_model r = cr_model row \<and>
     cr_effective_from r = cr_effective_from row) (t_cost_rates db)"

definition update_cost_rate :: "string \<Rightarrow> jdict \<Rightarrow> ('s, 'w) api_op" where
  "update_cost_rate rid body = at_db (with_db (\<lambda>db.
     case find (\<lambda>r. cr_id r = rid) (t_cost_rates db) of
       None \<Rightarrow> (Inl (HTTPException 404 ''Rate not found''), db)
     | Some row \<Rightarrow> (case changed_rate body row of
         Inl exc \<Rightarrow> (Inl exc, db)
       | Inr row' \<Rightarrow>
           if rate_clash rid row' db then (Inl IntegrityError, db)
           else (Inr (Message ''Rate updated''),
                 db\<lparr>t_cost_rates := update_first (\<lambda>r. cr_id r = rid) (\<lambda>_. row') (t_cost_rates db)\<rparr>))))"

definition deactivate_cost_rate :: "string \<Rightarrow> ('s, 'w) api_op" where
  "deactivate_cost_rate rid = bnd (at_db (sure (deactivate_rate rid))) (done_or_404 ''Rate not found'' (Message ''Rate deactivated''))"

text \<open>A date of the query that is absent or empty is not used; one that is no date raises.\<close>

definition date_arg :: "(string \<Rightarrow> 'a option) \<Rightarrow> string option \<Rightarrow> 'a option res" where
  "date_arg parse d =
     (if \<not> given d then Inr None
      else case parse (the d) of Some t \<Rightarrow> Inr (Some t) | None \<Rightarrow> Inl (ValueError ''Invalid isoformat string''))"

definition cost_summary_ep :: "('s, 'w) api_env \<Rightarrow> string option \<Rightarrow> string option \<Rightarrow> string option \<Rightarrow> string option \<Rightarrow> ('s, 'w) api_op" where
  "cost_summary_ep e client_id provider date_from date_to = (\<lambda>x.
     (rbind (date_arg (xe_day e) date_from) (\<lambda>df. rbind (date_arg (xe_day e) date_to) (\<lambda>dt.
      Inr (CostsAnswer (get_cost_summary client_id provider None df dt (xs_db x))))), x))"


section \<open>Alerts, logs and security\<close>

definition list_alert_configs :: "('s, 'w) api_op" where
  "list_alert_configs = (\<lambda>x. (rbind (get_all_configs (xs_db x)) (\<lambda>cs. Inr (AlertsAnswer cs)), x))"

definition create_alert_config :: "('s, 'w) api_env \<Rightarrow> jdict \<Rightarrow> ('s, 'w) api_op" where
  "create_alert_config e body =
     bnd (lift_res (alert_create_of_json body)) (\<lambda>(event_type, webhook_url, description, severity).
     bnd (at_db (create_config (xe_uid e 0) (xe_now e) event_type webhook_url description severity)) (\<lambda>c. ret (AlertAnswer c)))"

text \<open>The body becomes the named arguments of \<open>update_config\<close>, so it may not name its first one.\<close>

definition alert_fields_of_json :: "jdict \<Rightarrow> alert_fields res" where
  "alert_fields_of_json d =
     (if map_of d ''config_id'' \<noteq> None then Inl TypeError
      else rbind (nullable_column of_str ''id'' d) (\<lambda>i. rbind (nullable_column of_str ''event_type'' d) (\<lambda>event_type.
           rbind (nullable_column of_str ''webhook_url'' d) (\<lambda>webhook_url. rbind (nullable_column of_str ''description'' d) (\<lambda>description.
           rbind (nullable_column of_bool ''is_active'' d) (\<lambda>active. rbind (nullable_column of_str ''min_severity'' d) (\<lambda>severity.
           Inr \<lparr>af_id = i, af_event_type = event_type, af_webhook_url = webhook_url, af_description = description,
                af_is_active = active, af_min_severity = severity\<rparr>)))))))"

definition update_alert_config :: "string \<Rightarrow> jdict \<Rightarrow> ('s, 'w) api_op" where
  "update_alert_config cid body =
     bnd (lift_res (alert_fields_of_json body)) (\<lambda>f.
     bnd (at_db (update_config cid f)) (\<lambda>c. bnd (found ''Not Found'' c) (\<lambda>c. ret (AlertAnswer c))))"

definition delete_alert_config :: "string \<Rightarrow> ('s, 'w) api_op" where
  "delete_alert_config cid = bnd (at_db (sure (delete_config cid))) (done_or_404 ''Not Found'' (Message ''Alert config deleted''))"

definition test_alert :: "('s, 'w) api_env \<Rightarrow> string \<Rightarrow> ('s, 'w) api_op" where
  "test_alert e cid = (\<lambda>x. bnd (at_alerts (test_webhook (alerts_at e x) (xe_uid e 0) (xe_now e) cid)) (\<lambda>j. ret (Data j)) x)"

definition alert_history :: "int \<Rightarrow> string option \<Rightarrow> ('s, 'w) api_op" where
  "alert_history limit config_id = reading (\<lambda>x. AlertHistoryAnswer (get_alert_history limit config_id (xs_db x)))"

definition list_request_logs :: "('s, 'w) api_env \<Rightarrow> int \<Rightarrow> string option \<Rightarrow> string option \<Rightarrow> string option \<Rightarrow> string option
    \<Rightarrow> ('s, 'w) api_op" where
  "list_request_logs e limit client_id provider date_from date_to = (\<lambda>x.
     (rbind (date_arg (ae_iso_parse (xe_auth e)) date_from) (\<lambda>df. rbind (date_arg (ae_iso_parse (xe_auth e)) date_to) (\<lambda>dt.
      Inr (RequestLogsAnswer (get_request_logs (xe_crypto e) (xs_settings x) limit client_id provider df dt (xs_db x))))), x))"

definition get_request_log :: "('s, 'w) api_env \<Rightarrow> string \<Rightarrow> ('s, 'w) api_op" where
  "get_request_log e request_id = (\<lambda>x.
     bnd (found ''Not Found'' (get_request_log_by_id (xe_crypto e) (xs_settings x) request_id (xs_db x)))
       (\<lambda>r. ret (RequestLogsAnswer [r])) x)"

definition cleanup_request_logs :: "('s, 'w) api_env \<Rightarrow> int \<Rightarrow> ('s, 'w) api_op" where
  "cleanup_request_logs e older_than_days =
     bnd (at_db (delete_old_request_logs (xe_now e) older_than_days)) (\<lambda>n. ret (Data (JObj [(''deleted'', JInt (int n))])))"

text \<open>The two settings that change at run time; what is set is used for its truth value only.\<close>

definition toggle_request_logs :: "jdict \<Rightarrow> ('s, 'w) api_op" where
  "toggle_request_logs body =
     (let enabled = jget_or (JBool False) ''enabled'' body in
      sure (\<lambda>x. (Data (JObj [(''enabled'', enabled)]), x\<lparr>xs_settings := toggle_request_logging (truthy enabled) (xs_settings x)\<rparr>)))"

definition cache_toggle :: "jdict \<Rightarrow> ('s, 'w) api_op" where
  "cache_toggle body =
     (let enabled = jget_or (JBool False) ''enabled'' body in
      sure (\<lambda>x. (Data (JObj [(''enabled'', enabled)]), x\<lparr>xs_settings := (xs_settings x)\<lparr>CACHE_ENABLED := truthy enabled\<rparr>\<rparr>)))"

definition cache_stats_ep :: "('s, 'w) api_env \<Rightarrow> ('s, 'w) api_op" where
  "cache_stats_ep e = (\<lambda>x.
     bnd (on_app (on_cache_part (get_cache_stats (ae_ops (xe_auth e)) (xs_settings x) (xe_now e)))) (\<lambda>s. ret (CacheAnswer s)) x)"

definition cache_invalidate :: "('s, 'w) api_env \<Rightarrow> jdict \<Rightarrow> ('s, 'w) api_op" where
  "cache_invalidate e body =
     bnd (on_app (on_store_part (invalidate_cache (ae_ops (xe_auth e)) (xe_now e) (str_val (jget_or (JStr ''*'') ''pattern'' body)))))
       (\<lambda>n. ret (Data (JObj [(''deleted'', JInt n)])))"

definition list_audit_logs :: "int \<Rightarrow> string option \<Rightarrow> ('s, 'w) api_op" where
  "list_audit_logs limit event_type = reading (\<lambda>x. AuditAnswer (get_audit_logs limit event_type 0 (xs_db x)))"

definition list_ip_bans :: "('s, 'w) api_env \<Rightarrow> ('s, 'w) api_op" where
  "list_ip_bans e = reading (\<lambda>x. BansAnswer (get_banned_ips (xe_now e) (xs_security x)))"

definition unblock_ip :: "string \<Rightarrow> ('s, 'w) api_op" where
  "unblock_ip ip = bnd (at_security (unban_ip ip)) (done_or_404 ''IP not banned'' (Message (''IP '' @ ip @ '' unbanned'')))"

definition reload_tls :: "('s, 'w) api_op" where
  "reload_tls = ret (Message ''TLS reload not yet implemented for uvicorn runtime'')"

definition ldap_status :: "('s, 'w) api_op" where
  "ldap_status = reading (\<lambda>x. let st = xs_settings x; shown_if_on = (\<lambda>v. if LDAP_ENABLED st then JStr v else JNull) in Data (JObj
     [(''enabled'', JBool (LDAP_ENABLED st)), (''server'', shown_if_on (LDAP_SERVER st)), (''base_dn'', shown_if_on (LDAP_BASE_DN st)),
      (''bind_dn'', shown_if_on (LDAP_BIND_DN st)), (''use_ssl'', JBool (LDAP_USE_SSL st)), (''verify_cert'', JBool (LDAP_VERIFY_CERT st)),
      (''admin_group'', shown_if_on (LDAP_ADMIN_GROUP st)), (''operator_group'', shown_if_on (LDAP_OPERATOR_GROUP st)),
      (''cache_ttl'', JInt (LDAP_CACHE_TTL_SECONDS st))]))"

definition failure_answer :: "string \<Rightarrow> api_answer" where
  "failure_answer message = Data (JObj [(''success'', JBool False), (''error'', JStr message)])"

definition ldap_test :: "('s, 'w) api_env \<Rightarrow> ('s, 'w) api_op" where
  "ldap_test e = reading (\<lambda>x.
     if \<not> LDAP_ENABLED (xs_settings x) then failure_answer ''LDAP is not enabled''
     else (case xe_ldap e of
             Inl exc \<Rightarrow> failure_answer (xe_str_exn e exc)
           | Inr info \<Rightarrow> Data (JObj [(''success'', JBool True),
               (''server_info'', JStr (take 500 (case info of Some t \<Rightarrow> t | None \<Rightarrow> ''Connected'')))])))"


section \<open>Users, backups and the configuration\<close>

definition list_users_ep :: "('s, 'w) api_env \<Rightarrow> ('s, 'w) api_op" where
  "list_users_ep e = reading (\<lambda>x. Data (JList (map JObj (list_users (xe_iso e) (xs_db x)))))"

definition create_user_ep :: "('s, 'w) api_env \<Rightarrow> jdict \<Rightarrow> ('s, 'w) api_op" where
  "create_user_ep e body = (\<lambda>x.
     bnd (at_db (create_user (auth_at e x) (xe_now e) (xe_uid e 0) (xe_uid e 1) (xe_nonces e 0) body)) (\<lambda>r. ret (UserAnswer r)) x)"

definition update_user_ep :: "string \<Rightarrow> jdict \<Rightarrow> ('s, 'w) api_op" where
  "update_user_ep uid body = bnd (at_db (update_user uid body)) (\<lambda>_. ret (Message ''User updated''))"

definition delete_user_ep :: "auth_user \<Rightarrow> string \<Rightarrow> ('s, 'w) api_op" where
  "delete_user_ep user uid = bnd (at_db (delete_user user uid)) (\<lambda>_. ret (Message ''User deleted''))"

definition reset_password_ep :: "('s, 'w) api_env \<Rightarrow> string \<Rightarrow> jdict \<Rightarrow> ('s, 'w) api_op" where
  "reset_password_ep e uid body = (\<lambda>x.
     bnd (at_db (reset_user_password (auth_at e x) (xe_now e) (xe_uid e 0) (xe_nonces e 0) uid body)) (\<lambda>r. ret (UserAnswer r)) x)"

definition check_password_ep :: "('s, 'w) api_env \<Rightarrow> jdict \<Rightarrow> ('s, 'w) api_op" where
  "check_password_ep e body = reading (\<lambda>x. PasswordAnswer (validate_password_ep (auth_at e x) body))"

definition run_backup_ep :: "('s, 'w) api_env \<Rightarrow> ('s, 'w) api_op" where
  "run_backup_ep e = (\<lambda>x. bnd (at_disk (run_backup (backup_at e x))) (\<lambda>info. ret (BackupsAnswer [info])) x)"

definition list_backups_ep :: "('s, 'w) api_env \<Rightarrow> ('s, 'w) api_op" where
  "list_backups_ep e = reading (\<lambda>x. BackupsAnswer (list_backups (backup_at e x) (xs_disk x)))"

definition exported :: "('s, 'w) api_env \<Rightarrow> ('s, 'w) api_state \<Rightarrow> jdict" where
  "exported e x = export_to_json (export_config (xe_lib e) (xs_settings x) (xe_iso e) (xe_now e) (xs_db x))"

definition export_config_ep :: "('s, 'w) api_env \<Rightarrow> ('s, 'w) api_op" where
  "export_config_ep e = reading (\<lambda>x. ExportAnswer (exported e x))"

definition export_config_download :: "('s, 'w) api_env \<Rightarrow> ('s, 'w) api_op" where
  "export_config_download e = reading (\<lambda>x. DownloadAnswer (xe_pretty e (JObj (exported e x))))"

text \<open>The data are in a field of the body, or the body itself is the data; \<open>**\<close> wants a dictionary.\<close>

definition keyword_args :: "json \<Rightarrow> jdict res" where
  "keyword_args v = (case v of JObj d \<Rightarrow> Inr d | _ \<Rightarrow> Inl TypeError)"

definition import_config_ep :: "('s, 'w) api_env \<Rightarrow> jdict \<Rightarrow> ('s, 'w) api_op" where
  "import_config_ep e body =
     bnd (lift_res (rbind (keyword_args (jget_or (JObj body) ''data'' body)) export_data_of_json)) (\<lambda>data.
     bnd (lift_res (rbind (keyword_args (jget_or (JObj []) ''options'' body)) import_options_of_json)) (\<lambda>options x.
     bnd (at_db (import_config (xe_lib e) (xs_settings x) (xe_uid e) (xe_hex e) (xe_now e) data options))
       (\<lambda>r. ret (ImportAnswer r)) x))"


section \<open>Provider configurations\<close>

definition provider_view :: "provider_config_row \<Rightarrow> json" where
  "provider_view r = JObj
     [(''id'', JStr (pc_id r)), (''name'', JStr (pc_name r)), (''provider_type'', JStr (pc_provider_type r)),
      (''base_url'', opt_json JStr (pc_base_url r)), (''default_model'', JStr (pc_default_model r)), (''is_active'', JBool (pc_is_active r)),
      (''config_json'', pc_config_json r)]"

definition find_provider :: "string \<Rightarrow> database \<Rightarrow> provider_config_row option" where
  "find_provider pid db = find (\<lambda>r. pc_id r = pid) (t_provider_configs db)"

definition list_providers :: "('s, 'w) api_op" where
  "list_providers = reading (\<lambda>x. Data (JList
     (map provider_view (order_by (\<lambda>r r'. str_le (pc_name r) (pc_name r')) (t_provider_configs (xs_db x))))))"

definition new_provider :: "string \<Rightarrow> time \<Rightarrow> jdict \<Rightarrow> provider_config_row res" where
  "new_provider uid now body =
     rbind (body_at ''name'' body) (\<lambda>_. rbind (body_at ''provider_type'' body) (\<lambda>_.
     rbind (column of_str [] ''name'' body) (\<lambda>name. rbind (column of_str [] ''provider_type'' body) (\<lambda>provider_type.
     rbind (nullable_column of_str ''base_url'' body) (\<lambda>base_url. rbind (column of_str [] ''default_model'' body) (\<lambda>default_model.
     Inr \<lparr>pc_id = uid, pc_name = name, pc_provider_type = provider_type, pc_base_url = base_url,
          pc_api_key_header_name = ''Authorization'', pc_default_model = default_model, pc_max_context_tokens = 128000,
          pc_is_active = True, pc_config_json = jget_or (JObj []) ''config_json'' body, pc_created_at = now\<rparr>))))))"

definition create_provider :: "('s, 'w) api_env \<Rightarrow> jdict \<Rightarrow> ('s, 'w) api_op" where
  "create_provider e body = at_db (with_db (\<lambda>db.
     case new_provider (xe_uid e 0) (xe_now e) body of
       Inl exc \<Rightarrow> (Inl exc, db)
     | Inr row \<Rightarrow>
         if list_ex (\<lambda>r. pc_name r = pc_name row \<or> pc_id r = pc_id row) (t_provider_configs db) then (Inl IntegrityError, db)
         else (Inr (Data (JObj [(''id'', JStr (pc_id row)), (''name'', JStr (pc_name row)),
                                (''provider_type'', JStr (pc_provider_type row))])),
               db\<lparr>t_provider_configs := t_provider_configs db @ [row]\<rparr>)))"

definition get_provider_ep :: "string \<Rightarrow> ('s, 'w) api_op" where
  "get_provider_ep pid = (\<lambda>x. bnd (found ''Not Found'' (find_provider pid (xs_db x))) (\<lambda>r. ret (Data (provider_view r))) x)"

definition changed_provider :: "jdict \<Rightarrow> provider_config_row \<Rightarrow> provider_config_row res" where
  "changed_provider body row =
     rbind (column of_str (pc_name row) ''name'' body) (\<lambda>name.
     rbind (case map_of body ''base_url'' of None \<Rightarrow> Inr (pc_base_url row) | Some _ \<Rightarrow> nullable_column of_str ''base_url'' body) (\<lambda>base_url.
     rbind (column of_str (pc_default_model row) ''default_model'' body) (\<lambda>default_model.
     rbind (column of_bool (pc_is_active row) ''is_active'' body) (\<lambda>active.
     Inr (row\<lparr>pc_name := name, pc_base_url := base_url, pc_default_model := default_model, pc_is_active := active,
              pc_config_json := jget_or (pc_config_json row) ''config_json'' body\<rparr>)))))"

definition change_provider :: "string \<Rightarrow> (provider_config_row \<Rightarrow> provider_config_row res) \<Rightarrow> string \<Rightarrow> ('s, 'w) api_op" where
  "change_provider pid change message = at_db (with_db (\<lambda>db.
     case find_provider pid db of
       None \<Rightarrow> (Inl (HTTPException 404 ''Not Found''), db)
     | Some row \<Rightarrow> (case change row of
         Inl exc \<Rightarrow> (Inl exc, db)
       | Inr row' \<Rightarrow>
           if list_ex (\<lambda>r. pc_id r \<noteq> pid \<and> pc_name r = pc_name row') (t_provider_configs db) then (Inl IntegrityError, db)
           else (Inr (Message message),
                 db\<lparr>t_provider_configs := update_first (\<lambda>r. pc_id r = pid) (\<lambda>_. row') (t_provider_configs db)\<rparr>))))"

definition update_provider :: "string \<Rightarrow> jdict \<Rightarrow> ('s, 'w) api_op" where
  "update_provider pid body = change_provider pid (changed_provider body) ''Provider updated''"

definition delete_provider :: "string \<Rightarrow> ('s, 'w) api_op" where
  "delete_provider pid = change_provider pid (\<lambda>row. Inr (row\<lparr>pc_is_active := False\<rparr>)) ''Provider deactivated''"

text \<open>The models an adapter lists; those of the configuration, where it is a dictionary or empty.\<close>

definition configured_models :: "json \<Rightarrow> string list \<Rightarrow> json res" where
  "configured_models config dflt =
     (if \<not> truthy config then Inr (string_list dflt)
      else case config of JObj d \<Rightarrow> Inr (jget_or (string_list dflt) ''models'' d) | _ \<Rightarrow> Inl AttributeError)"

definition adapter_models :: "model_lists \<Rightarrow> string \<Rightarrow> string \<Rightarrow> json \<Rightarrow> json res" where
  "adapter_models ml kind base_url config =
     (let a = \<lparr>ad_api_key = [], ad_base_url = base_url, ad_config = [], ad_timeout = 10\<rparr> in
      if kind = ''azure_openai'' then configured_models config [''gpt-4o'', ''gpt-4o-mini'']
      else if kind = ''openai_compatible'' then
        (case compatible_client a of
           Inr c \<Rightarrow> (case ml_openai ml c of Reply ms \<Rightarrow> Inr (string_list ms) | Failed _ \<Rightarrow> configured_models config [])
         | Inl _ \<Rightarrow> configured_models config [])
      else if kind = ''ollama'' then Inr (JList (ollama_models (ml_ollama ml (ollama_base a))))
      else Inr (string_list
        (if kind = ''openai'' then openai_models (ml_openai ml (openai_client a)) else if kind = ''anthropic'' then anthropic_models
         else if kind = ''gemini'' then gemini_models else if kind = ''bedrock'' then bedrock_models
         else if kind = ''groq'' then groq_models else mistral_models)))"

definition test_provider :: "('s, 'w) api_env \<Rightarrow> string \<Rightarrow> ('s, 'w) api_op" where
  "test_provider e pid = (\<lambda>x.
     bnd (found ''Not Found'' (find_provider pid (xs_db x))) (\<lambda>row. ret
       (case rbind (get_provider (pc_provider_type row)) (\<lambda>_.
               adapter_models (xe_models e) (pc_provider_type row) (case pc_base_url row of None \<Rightarrow> [] | Some u \<Rightarrow> u) (pc_config_json row)) of
          Inr models \<Rightarrow> Data (JObj [(''success'', JBool True), (''models'', models)])
        | Inl exc \<Rightarrow> failure_answer (xe_str_exn e exc))) x)"


section \<open>Content policies\<close>

definition policy_answer :: "content_policy_row \<Rightarrow> ('s, 'w) api_op" where
  "policy_answer r = bnd (lift_res (content_policy_of r)) (\<lambda>p. ret (PolicyAnswer p))"

definition list_policies :: "('s, 'w) api_op" where
  "list_policies = (\<lambda>x. (rbind (get_all_policies (xs_db x)) (\<lambda>ps. Inr (PoliciesAnswer ps)), x))"

definition create_policy_ep :: "('s, 'w) api_env \<Rightarrow> jdict \<Rightarrow> ('s, 'w) api_op" where
  "create_policy_ep e body =
     bnd (lift_res (policy_create_of_json body)) (\<lambda>(name, policy_type, config, applies, prio).
     bnd (at_db (create_policy (xe_uid e 0) (xe_now e) name policy_type config applies prio)) policy_answer)"

definition get_policy :: "string \<Rightarrow> ('s, 'w) api_op" where
  "get_policy pid = (\<lambda>x.
     bnd (found ''Not Found'' (find (\<lambda>r. cp_id r = pid) (t_content_policies (xs_db x)))) (\<lambda>r. ret (Data (JObj
       [(''id'', JStr (cp_id r)), (''name'', JStr (cp_name r)), (''policy_type'', JStr (cp_policy_type r)),
        (''config_json'', JObj (cp_config_json r)), (''is_active'', JBool (cp_is_active r)),
        (''applies_to_clients'', opt_json id (cp_applies_to_clients r)), (''priority'', JInt (cp_priority r))]))) x)"

definition update_policy_ep :: "string \<Rightarrow> jdict \<Rightarrow> ('s, 'w) api_op" where
  "update_policy_ep pid body =
     bnd (lift_res (policy_update_of_json body)) (\<lambda>u.
     bnd (at_db (update_policy pid u)) (\<lambda>r. bnd (found ''Not Found'' r) policy_answer))"

definition delete_policy_ep :: "string \<Rightarrow> ('s, 'w) api_op" where
  "delete_policy_ep pid = bnd (at_db (sure (delete_policy pid))) (done_or_404 ''Not Found'' (Message ''Policy deleted''))"

definition test_policy_ep :: "string \<Rightarrow> jdict \<Rightarrow> ('s, 'w) api_op" where
  "test_policy_ep pid body = (\<lambda>x.
     (rbind (messages_arg (jget_or (JList []) ''messages'' body)) (\<lambda>ms.
      rbind (test_policy pid ms (str_val (jget_or (JStr ''test-model'') ''model'' body)) (xs_db x)) (\<lambda>r. Inr (PolicyTestAnswer r))), x))"


section \<open>Live sessions, background tasks and the command line\<close>

definition list_sessions_ep :: "('s, 'w) api_env \<Rightarrow> ('s, 'w) api_op" where
  "list_sessions_ep e = bnd (on_app (on_session_part (get_all (xe_session e) (xe_now e)))) (\<lambda>ss. ret (SessionsAnswer ss))"

text \<open>A web socket that was admitted: it subscribes, its pings are answered, and it is forgotten when it goes.\<close>

definition ws_open :: "('s, 'w) api_env \<Rightarrow> 'w \<Rightarrow> (('s, 'w) api_state, unit) io" where
  "ws_open e ws = on_app (on_session_part (subscribe (xe_session e) (xe_now e) ws))"

definition ws_reply :: "string \<Rightarrow> string option" where
  "ws_reply received = (if received = ''ping'' then Some ''pong'' else None)"

definition ws_close :: "'w \<Rightarrow> (('s, 'w) api_state, unit) io" where
  "ws_close ws = on_app (modify (\<lambda>a. a\<lparr>ap_sessions := unsubscribe ws (ap_sessions a)\<rparr>))"

text \<open>What the two background tasks do each time they wake up; whatever is raised is logged only.\<close>

definition background_cleanup :: "('s, 'w) api_env \<Rightarrow> (('s, 'w) api_state, unit) io" where
  "background_cleanup e = try_except
     (bnd (on_app (on_session_part (cleanup_stale (xe_session e) (xe_now e) 300))) (\<lambda>_. ret ())) (\<lambda>_. ret ())"

definition background_health :: "('s, 'w) api_env \<Rightarrow> (nat \<Rightarrow> nat \<Rightarrow> string) \<Rightarrow> (('s, 'w) api_state, unit) io" where
  "background_health e uids = (\<lambda>x. at_alerts (health_check (alerts_at e x) uids (xe_now e) (ap_pools (xs_app x))) x)"

datatype cli_action = GenerateCertificate | CreateAdministrator | BackUp | Serve

definition handle_cli :: "string list \<Rightarrow> cli_action" where
  "handle_cli argv =
     (if ''--gen-cert'' \<in> set argv then GenerateCertificate
      else if ''--create-admin'' \<in> set argv then CreateAdministrator
      else if ''--backup'' \<in> set argv then BackUp else Serve)"

end
