(* ===== verification/Api.thy ===== *)
theory Api
  imports Endpoints PolicyDecisions
begin

text \<open>
  The endpoints as one interface: the requests, who may make them, and how a request is answered - its caller is
  identified, his role is checked, then the endpoint runs.  The chat endpoints, login and logout are in other theories.
\<close>


section \<open>Requests\<close>

datatype info_request =
    HealthCheck | GetStats | ResetStats | ActiveRequests | QueueState | ListModels | Embeddings jdict | FilterText jdict
  | GetConfig | SetConfig jdict | ReloadConfig

datatype client_request =
    ListClients | CreateClient jdict | GetClient string | UpdateClient string jdict | DeleteClient string | RegenerateKey string
  | GetQuota string | ResetQuota string

datatype key_request =
    ListKeys string | AddKey string jdict | RemoveKey string int | RotateCheck | RotateNow | ListBreakers | ResetBreaker string

datatype pattern_request =
    ListPatterns | CreatePattern jdict | UpdatePattern string jdict | DeletePattern string | TestPattern jdict

datatype catalog_request =
    ListAliases | CreateAlias jdict | UpdateAlias string jdict | DeleteAlias string
  | ListRates | CreateRate jdict | UpdateRate string jdict | DeactivateRate string
  | CostSummary "string option" "string option" "string option" "string option"

datatype alert_request =
    ListAlerts | CreateAlert jdict | UpdateAlert string jdict | DeleteAlert string | TestAlert string | AlertHistory int "string option"

datatype logs_request =
    ListLogs int "string option" "string option" "string option" "string option" | GetLog string | CleanupLogs int | ToggleLogs jdict
  | ListAudit int "string option"

datatype user_request =
    ListUsers | CreateUser jdict | UpdateUser string jdict | DeleteUser string | ResetPassword string jdict | CheckPassword jdict
  | LdapStatus | LdapTest | ListBans | UnblockIp string | ReloadTls | LiveSessions

datatype config_request =
    RunBackup | ListBackups | ExportConfig | DownloadConfig | ImportConfig jdict | CacheStats | InvalidateCache jdict | ToggleCache jdict

datatype provider_request =
    ListProviders | CreateProvider jdict | GetProvider string | UpdateProvider string jdict | DeleteProvider string | TestProvider string

datatype policy_request =
    ListPolicies | CreatePolicy jdict | GetPolicy string | UpdatePolicy string jdict | DeletePolicy string | TestPolicy string jdict

datatype api_request =
    Info info_request | Client client_request | Key key_request | Pattern pattern_request | Catalog catalog_request | Alert alert_request
  | Logs logs_request | User user_request | Config config_request | Provider provider_request | Policy policy_request


section \<open>Who may\<close>

datatype access = LoggedIn | AdminOnly

text \<open>The requests that every user may make; all others need the role of an administrator.\<close>

fun needed :: "api_request \<Rightarrow> access" where
  "needed (Info ResetStats) = AdminOnly"
| "needed (Info (SetConfig body)) = AdminOnly"
| "needed (Info ReloadConfig) = AdminOnly"
| "needed (Info r) = LoggedIn"
| "needed (Key ListBreakers) = LoggedIn"
| "needed (Catalog ListAliases) = LoggedIn"
| "needed (Provider ListProviders) = LoggedIn"
| "needed r = AdminOnly"

definition permit :: "access \<Rightarrow> auth_user \<Rightarrow> auth_user res" where
  "permit a user = (case a of LoggedIn \<Rightarrow> Inr user | AdminOnly \<Rightarrow> verify_admin user)"


section \<open>Answers\<close>

fun perform_info :: "('s, 'w) api_env \<Rightarrow> info_request \<Rightarrow> ('s, 'w) api_op" where
  "perform_info e HealthCheck = health e"
| "perform_info e GetStats = get_stats e"
| "perform_info e ResetStats = reset_stats_ep"
| "perform_info e ActiveRequests = active_requests_ep e"
| "perform_info e QueueState = queue_status_ep"
| "perform_info e ListModels = list_models e"
| "perform_info e (Embeddings body) = embeddings e body"
| "perform_info e (FilterText body) = filter_endpoint e body"
| "perform_info e GetConfig = get_config"
| "perform_info e (SetConfig body) = set_config body"
| "perform_info e ReloadConfig = reload_config_ep"

fun perform_client :: "('s, 'w) api_env \<Rightarrow> client_request \<Rightarrow> ('s, 'w) api_op" where
  "perform_client e ListClients = list_clients"
| "perform_client e (CreateClient body) = create_client_endpoint e body"
| "perform_client e (GetClient i) = get_client_endpoint i"
| "perform_client e (UpdateClient i body) = update_client_endpoint i body"
| "perform_client e (DeleteClient i) = delete_client_endpoint i"
| "perform_client e (RegenerateKey i) = regen_key e i"
| "perform_client e (GetQuota i) = client_quota e i"
| "perform_client e (ResetQuota i) = client_quota_reset e i"

fun perform_key :: "('s, 'w) api_env \<Rightarrow> key_request \<Rightarrow> ('s, 'w) api_op" where
  "perform_key e (ListKeys p) = list_keys p"
| "perform_key e (AddKey p body) = add_key_ep e p body"
| "perform_key e (RemoveKey p i) = remove_key_ep p i"
| "perform_key e RotateCheck = rotate_check e"
| "perform_key e RotateNow = rotate_now e"
| "perform_key e ListBreakers = list_breakers e"
| "perform_key e (ResetBreaker p) = reset_breaker p"

fun perform_pattern :: "('s, 'w) api_env \<Rightarrow> pattern_request \<Rightarrow> ('s, 'w) api_op" where
  "perform_pattern e ListPatterns = list_patterns"
| "perform_pattern e (CreatePattern body) = create_pattern_ep e body"
| "perform_pattern e (UpdatePattern i body) = update_pattern i body"
| "perform_pattern e (DeletePattern i) = delete_pattern_ep i"
| "perform_pattern e (TestPattern body) = test_pattern e body"

fun perform_catalog :: "('s, 'w) api_env \<Rightarrow> catalog_request \<Rightarrow> ('s, 'w) api_op" where
  "perform_catalog e ListAliases = list_aliases"
| "perform_catalog e (CreateAlias body) = create_alias_ep e body"
| "perform_catalog e (UpdateAlias i body) = update_alias_ep i body"
| "perform_catalog e (DeleteAlias i) = delete_alias_ep i"
| "perform_catalog e ListRates = list_cost_rates"
| "perform_catalog e (CreateRate body) = create_cost_rate e body"
| "perform_catalog e (UpdateRate i body) = update_cost_rate i body"
| "perform_catalog e (DeactivateRate i) = deactivate_cost_rate i"
| "perform_catalog e (CostSummary c p df dt) = cost_summary_ep e c p df dt"

fun perform_alert :: "('s, 'w) api_env \<Rightarrow> alert_request \<Rightarrow> ('s, 'w) api_op" where
  "perform_alert e ListAlerts = list_alert_configs"
| "perform_alert e (CreateAlert body) = create_alert_config e body"
| "perform_alert e (UpdateAlert i body) = update_alert_config i body"
| "perform_alert e (DeleteAlert i) = delete_alert_config i"
| "perform_alert e (TestAlert i) = test_alert e i"
| "perform_alert e (AlertHistory n i) = alert_history n i"

fun perform_logs :: "('s, 'w) api_env \<Rightarrow> logs_request \<Rightarrow> ('s, 'w) api_op" where
  "perform_logs e (ListLogs n c p df dt) = list_request_logs e n c p df dt"
| "perform_logs e (GetLog i) = get_request_log e i"
| "perform_logs e (CleanupLogs n) = cleanup_request_logs e n"
| "perform_logs e (ToggleLogs body) = toggle_request_logs body"
| "perform_logs e (ListAudit n t) = list_audit_logs n t"

fun perform_user :: "('s, 'w) api_env \<Rightarrow> auth_user \<Rightarrow> user_request \<Rightarrow> ('s, 'w) api_op" where
  "perform_user e user ListUsers = list_users_ep e"
| "perform_user e user (CreateUser body) = create_user_ep e body"
| "perform_user e user (UpdateUser i body) = update_user_ep i body"
| "perform_user e user (DeleteUser i) = delete_user_ep user i"
| "perform_user e user (ResetPassword i body) = reset_password_ep e i body"
| "perform_user e user (CheckPassword body) = check_password_ep e body"
| "perform_user e user LdapStatus = ldap_status"
| "perform_user e user LdapTest = ldap_test e"
| "perform_user e user ListBans = list_ip_bans e"
| "perform_user e user (UnblockIp ip) = unblock_ip ip"
| "perform_user e user ReloadTls = reload_tls"
| "perform_user e user LiveSessions = list_sessions_ep e"

fun perform_config :: "('s, 'w) api_env \<Rightarrow> config_request \<Rightarrow> ('s, 'w) api_op" where
  "perform_config e RunBackup = run_backup_ep e"
| "perform_config e ListBackups = list_backups_ep e"
| "perform_config e ExportConfig = export_config_ep e"
| "perform_config e DownloadConfig = export_config_download e"
| "perform_config e (ImportConfig body) = import_config_ep e body"
| "perform_config e CacheStats = cache_stats_ep e"
| "perform_config e (InvalidateCache body) = cache_invalidate e body"
| "perform_config e (ToggleCache body) = cache_toggle body"

fun perform_provider :: "('s, 'w) api_env \<Rightarrow> provider_request \<Rightarrow> ('s, 'w) api_op" where
  "perform_provider e ListProviders = list_providers"
| "perform_provider e (CreateProvider body) = create_provider e body"
| "perform_provider e (GetProvider i) = get_provider_ep i"
| "perform_provider e (UpdateProvider i body) = update_provider i body"
| "perform_provider e (DeleteProvider i) = delete_provider i"
| "perform_provider e (TestProvider i) = test_provider e i"

fun perform_policy :: "('s, 'w) api_env \<Rightarrow> policy_request \<Rightarrow> ('s, 'w) api_op" where
  "perform_policy e ListPolicies = list_policies"
| "perform_policy e (CreatePolicy body) = create_policy_ep e body"
| "perform_policy e (GetPolicy i) = get_policy i"
| "perform_policy e (UpdatePolicy i body) = update_policy_ep i body"
| "perform_policy e (DeletePolicy i) = delete_policy_ep i"
| "perform_policy e (TestPolicy i body) = test_policy_ep i body"

fun perform :: "('s, 'w) api_env \<Rightarrow> auth_user \<Rightarrow> api_request \<Rightarrow> ('s, 'w) api_op" where
  "perform e user (Info r) = perform_info e r"
| "perform e user (Client r) = perform_client e r"
| "perform e user (Key r) = perform_key e r"
| "perform e user (Pattern r) = perform_pattern e r"
| "perform e user (Catalog r) = perform_catalog e r"
| "perform e user (Alert r) = perform_alert e r"
| "perform e user (Logs r) = perform_logs e r"
| "perform e user (User r) = perform_user e user r"
| "perform e user (Config r) = perform_config e r"
| "perform e user (Provider r) = perform_provider e r"
| "perform e user (Policy r) = perform_policy e r"

definition identify :: "('s, 'w) api_env \<Rightarrow> http_request \<Rightarrow> string option \<Rightarrow> (('s, 'w) api_state, auth_user) io" where
  "identify e r credentials = (\<lambda>x. at_auth (get_current_user (auth_at e x) (xe_now e) r credentials) x)"

definition api_call :: "('s, 'w) api_env \<Rightarrow> http_request \<Rightarrow> string option \<Rightarrow> api_request \<Rightarrow> ('s, 'w) api_op" where
  "api_call e r credentials req =
     bnd (identify e r credentials) (\<lambda>user. bnd (lift_res (permit (needed req) user)) (\<lambda>user. perform e user req))"


section \<open>What a user who is no administrator cannot do\<close>

lemma on_store_db: "snd (snd (on_store m (s, db))) = db"
  by (simp add: on_store_apply)

lemma bnd_ret_state: "snd (bnd m (\<lambda>a. ret (f a)) s) = snd (m s)"
  by (simp add: bnd_def ret_def case_prod_beta split: sum.splits)

lemma get_current_user_db: "snd (snd (get_current_user env now r c (s, db))) = db"
  by (simp add: get_current_user_def Let_def on_store_db bnd_ret_state raise_def split: option.split list.split)

text \<open>
  What only administrators may change: all tables, the active patterns, the bans, the settings, the calls of web hooks
  and the backups.
\<close>

definition protected_part :: "('s, 'w) api_state \<Rightarrow>
    database \<times> filter_pattern_row list \<times> sec_state \<times> settings \<times> webhook_call list \<times> disk" where
  "protected_part x = (xs_db x, ap_patterns (xs_app x), xs_security x, xs_settings x, xs_webhooks x, xs_disk x)"

definition is_admin :: "auth_user \<Rightarrow> bool" where
  "is_admin user \<longleftrightarrow> ''admin'' \<in> set (au_roles user)"

lemma identify_protected: "protected_part (snd (identify e r c x)) = protected_part x"
  using get_current_user_db [of "auth_at e x" "xe_now e" r c "ap_store (xs_app x)" "ap_db (xs_app x)"]
  by (simp add: identify_def at_auth_def on_app_def protected_part_def case_prod_beta Let_def)

lemma reading_state [simp]: "snd (reading f x) = x"
  by (simp add: reading_def)

lemma other_calls_db [simp]: "ap_db (snd (on_other_calls m a)) = ap_db a" "ap_patterns (snd (on_other_calls m a)) = ap_patterns a"
  by (simp_all add: on_other_calls_def case_prod_beta)

lemma on_app_protected:
  assumes "ap_db (snd (m (xs_app x))) = ap_db (xs_app x)" and "ap_patterns (snd (m (xs_app x))) = ap_patterns (xs_app x)"
  shows "protected_part (snd (on_app m x)) = protected_part x"
  using assms by (simp add: on_app_def protected_part_def case_prod_beta Let_def)

lemma list_models_protected: "protected_part (snd (list_models e x)) = protected_part x"
  unfolding list_models_def by (rule on_app_protected) (simp_all add: sure_def case_prod_beta)

lemma try_raise_state: "(\<And>exc. \<exists>exc'. h exc = raise exc') \<Longrightarrow> snd (try_except m h s) = snd (m s)"
  by (auto simp: try_except_def raise_def case_prod_beta split: sum.splits) (metis snd_conv)

lemma embeddings_protected: "protected_part (snd (embeddings e body x)) = protected_part x"
proof -
  have h: "\<exists>exc'. (case exc of ProviderError message _ status \<Rightarrow> raise (HTTPException status message) | _ \<Rightarrow> raise exc) = raise exc'" for exc
    by (cases exc) auto
  show ?thesis
    unfolding embeddings_def Let_def case_prod_beta
    by (rule on_app_protected) (simp_all only: try_raise_state [OF h] bnd_ret_state other_calls_db)
qed

lemma list_breakers_protected: "protected_part (snd (list_breakers e x)) = protected_part x"
  unfolding list_breakers_def by (rule on_app_protected) (simp_all add: sure_def case_prod_beta)

lemma health_state: "snd (health e x) = x" and filter_state: "snd (filter_endpoint e body x) = x"
  by (simp_all add: health_def filter_endpoint_def Let_def)

lemma open_requests_protect:
  assumes "needed req = LoggedIn"
  shows "protected_part (snd (perform e user req x)) = protected_part x"
  using assms
proof (cases req)
  case (Info r)
  then show ?thesis using assms
    by (cases r) (simp_all add: health_state filter_state list_models_protected embeddings_protected
      get_stats_def active_requests_ep_def queue_status_ep_def get_config_def)
next
  case (Key r)
  then show ?thesis using assms by (cases r) (simp_all add: list_breakers_protected)
next
  case (Catalog r)
  then show ?thesis using assms by (cases r) (simp_all add: list_aliases_def)
next
  case (Provider r)
  then show ?thesis using assms by (cases r) (simp_all add: list_providers_def)
qed simp_all


lemma api_call_not_admin:
  assumes "\<And>u. fst (identify e r c x) = Inr u \<Longrightarrow> \<not> is_admin u" and "needed req = AdminOnly"
  shows "isl (fst (api_call e r c req x)) \<and> snd (api_call e r c req x) = snd (identify e r c x)"
  using assms
  by (cases "identify e r c x"; cases "fst (identify e r c x)")
    (auto simp: api_call_def bnd_def permit_def verify_admin_def is_admin_def lift_res_def)

lemma api_call_admin:
  assumes "identify e r c x = (Inr u, x1)" and "is_admin u"
  shows "api_call e r c req x = perform e u req x1"
  using assms by (simp add: api_call_def bnd_def permit_def verify_admin_def is_admin_def lift_res_def split: access.split)

lemma api_call_open:
  assumes "needed req = LoggedIn"
  shows "protected_part (snd (api_call e r c req x)) = protected_part x"
  by (simp add: api_call_def bnd_def permit_def assms lift_res_def case_prod_beta open_requests_protect [OF assms] identify_protected
      split: sum.split)

text \<open>C3.  The gate of the administration.  Whatever request is made, by a caller who is not known or has not the role
  of an administrator, no table, no active pattern, no ban, no setting, no backup changes and no web hook is called;
  and if the request is one of those for administrators, it is answered by an exception and nothing at all has
  happened but the identification of the caller.\<close>

theorem administration_needs_admin:
  assumes "\<And>u. fst (identify e r c x) = Inr u \<Longrightarrow> \<not> is_admin u" and "api_call e r c req x = (ans, x')"
  shows "protected_part x' = protected_part x \<and>
    (needed req = AdminOnly \<longrightarrow> isl ans \<and> x' = snd (identify e r c x))"
proof (cases "needed req")
  case LoggedIn
  then show ?thesis using api_call_open [of req e r c x] assms(2) by simp
next
  case AdminOnly
  have "isl (fst (api_call e r c req x)) \<and> snd (api_call e r c req x) = snd (identify e r c x)"
    using assms(1) AdminOnly by (rule api_call_not_admin)
  then show ?thesis using identify_protected [of e r c x] assms(2) by simp
qed


section \<open>Patterns\<close>

lemma at_db_patterns: "ap_patterns (xs_app (snd (at_db m x))) = ap_patterns (xs_app x)"
  by (simp add: at_db_def on_app_def on_db_part_def case_prod_beta Let_def)

lemma bnd_patterns:
  assumes "\<And>x. ap_patterns (xs_app (snd (m x))) = ap_patterns (xs_app x)"
    and "\<And>a x. ap_patterns (xs_app (snd (f a x))) = ap_patterns (xs_app x)"
  shows "ap_patterns (xs_app (snd (bnd m f x))) = ap_patterns (xs_app x)"
  using assms by (simp add: bnd_def case_prod_beta split: sum.split)

lemma done_state [simp]: "snd (done_or_404 msg a ok x) = x" "snd (found msg v x) = x" "snd (lift_res w x) = x" "snd (ret a x) = x"
  by (simp_all add: done_or_404_def found_def lift_res_def ret_def raise_def split: option.split)

lemma perform_pattern_keeps: "ap_patterns (xs_app (snd (perform_pattern e p x))) = ap_patterns (xs_app x)"
  by (cases p) (auto simp: list_patterns_def create_pattern_ep_def update_pattern_def delete_pattern_ep_def test_pattern_def case_prod_beta
      intro!: bnd_patterns at_db_patterns)

lemma identify_patterns: "ap_patterns (xs_app (snd (identify e r c x))) = ap_patterns (xs_app x)"
  using identify_protected [of e r c x] by (simp add: protected_part_def)

text \<open>
  A request about patterns, whatever it does to the table, leaves the text filter as it was, until an administrator
  asks for a reload: then the patterns of the table are the active ones.
\<close>

theorem pattern_changes_wait_for_reload:
  assumes "api_call e r c (Pattern p) x = (ans, x')"
  shows "ap_patterns (xs_app x') = ap_patterns (xs_app x) \<and>
    fst (filter_endpoint e' body x') = fst (filter_endpoint e' body x) \<and>
    (identify e r c x' = (Inr u, x1) \<and> is_admin u \<longrightarrow>
     ap_patterns (xs_app (snd (api_call e r c (Info ReloadConfig) x'))) = reload_patterns (get_all_patterns (xs_db x')))"
proof -
  have "ap_patterns (xs_app (snd (api_call e r c (Pattern p) x))) = ap_patterns (xs_app x)"
    unfolding api_call_def by (intro bnd_patterns identify_patterns) (simp_all add: perform_pattern_keeps)
  then have keep: "ap_patterns (xs_app x') = ap_patterns (xs_app x)" using assms by simp
  have "xs_db x1 = xs_db x'" if "identify e r c x' = (Inr u, x1)"
    using identify_protected [of e r c x'] that by (simp add: protected_part_def)
  with keep show ?thesis
    by (auto simp: filter_endpoint_def Let_def api_call_admin reload_config_ep_def on_app_def sure_def)
qed


section \<open>The test of a provider\<close>

text \<open>
  The test of a configured provider of a known type reports success whatever the service answers: adapters list fixed
  names or hide the failure.
\<close>

theorem provider_test_always_succeeds:
  assumes "find_provider pid (xs_db x) = Some row" and "pc_provider_type row \<in> set list_provider_types"
    and "pc_config_json row = JObj d \<or> pc_config_json row = JNull"
  shows "\<exists>models. fst (test_provider e pid x) = Inr (Data (JObj [(''success'', JBool True), (''models'', models)]))"
proof -
  have "\<exists>dotted. get_provider (pc_provider_type row) = Inr dotted"
    using assms(2) by (auto simp: list_provider_types_def get_provider_def provider_map_def)
  moreover have "\<exists>ms. configured_models (pc_config_json row) dflt = Inr ms" for dflt
    using assms(3) by (auto simp: configured_models_def)
  then have "\<exists>ms. adapter_models (xe_models e) (pc_provider_type row) (case pc_base_url row of None \<Rightarrow> [] | Some u \<Rightarrow> u)
      (pc_config_json row) = Inr ms"
    by (auto simp: adapter_models_def Let_def split: sum.split outcome.split)
  ultimately obtain dotted ms where "get_provider (pc_provider_type row) = Inr dotted"
    and "adapter_models (xe_models e) (pc_provider_type row) (case pc_base_url row of None \<Rightarrow> [] | Some u \<Rightarrow> u) (pc_config_json row) = Inr ms"
    by blast
  then show ?thesis
    using assms(1) by (simp add: test_provider_def found_def bnd_def ret_def)
qed


section \<open>Moving a configuration\<close>

text \<open>The body of the import is the downloaded document itself; it has no field for the data and none for options.\<close>

lemma exported_fields: "map_of (export_to_json d) ''data'' = None" "map_of (export_to_json d) ''options'' = None"
  by (simp_all add: export_to_json_def)

lemma default_options: "import_options_of_json [] =
    Inr \<lparr>io_overwrite_existing = False, io_import_clients = False, io_import_alert_configs = True, io_verify_signature = True\<rparr>"
  by (simp add: import_options_of_json_def)

lemma import_downloaded: "import_config_ep e (export_to_json d) = (\<lambda>x.
    bnd (at_db (import_config (xe_lib e) (xs_settings x) (xe_uid e) (xe_hex e) (xe_now e) d
      \<lparr>io_overwrite_existing = False, io_import_clients = False, io_import_alert_configs = True, io_verify_signature = True\<rparr>))
     (\<lambda>r. ret (ImportAnswer r)) x)"
  by (simp add: import_config_ep_def jget_or_def dict_get_def exported_fields keyword_args_def export_read_back default_options lift_res_def
      bnd_def)

text \<open>C40.  Moving a configuration between services.  What an administrator downloads from one service and posts to another
  with the same secret (the options are the default ones, so nothing is overwritten) is accepted there and merged:
  every row of the filter patterns, aliases, rates and alert configurations that the second service has, the seeded
  ones among them, stays as it is; of the rows of the first (the active ones for the rates) exactly those whose name, alias,
  provider and model, or address and event the second lacks are added, in their order and with their content; the rest
  is counted as skipped.  The content policies and the provider configurations of the second service stay as they are.\<close>

theorem downloaded_configuration_merges:
  fixes e :: "('s, 'w) api_env" and e2 :: "('t, 'v) api_env"
  assumes "identify e r c x = (Inr u, x1)" and "is_admin u" and "identify e2 r2 c2 y = (Inr u2, y1)" and "is_admin u2"
    and "\<And>j. json_loads (xe_lib e2) (xe_pretty e j) = Inr j" and "xe_lib e2 = xe_lib e"
    and "KEY_ENCRYPTION_SECRET (xs_settings y) = KEY_ENCRYPTION_SECRET (xs_settings x)" and "fresh_ids (xe_uid e2) (xs_db y)"
    and "fst (api_call e r c (Config DownloadConfig) x) = Inr (DownloadAnswer document)"
    and "json_loads (xe_lib e2) document = Inr (JObj body)" and "api_call e2 r2 c2 (Config (ImportConfig body)) y = (ans, y')"
  shows "(\<exists>res. ans = Inr (ImportAnswer res) \<and> ir_skipped res + lacking_rows (xs_db x) (xs_db y) = exported_rows (xs_db x) \<and>
      ir_signature_valid res \<noteq> Some False) \<and>
    config_merged (xs_db x) (xs_db y) (xs_db y')"
proof -
  have same: "xs_db x1 = xs_db x" "xs_settings x1 = xs_settings x" "xs_db y1 = xs_db y" "xs_settings y1 = xs_settings y"
    using identify_protected [of e r c x] identify_protected [of e2 r2 c2 y] assms(1,3) by (simp_all add: protected_part_def)
  let ?d = "export_config (xe_lib e) (xs_settings x) (xe_iso e) (xe_now e) (xs_db x)"
  let ?o = "\<lparr>io_overwrite_existing = False, io_import_clients = False, io_import_alert_configs = True, io_verify_signature = True\<rparr>"
  have "document = xe_pretty e (JObj (export_to_json ?d))"
    using assms(9) by (simp add: api_call_admin [OF assms(1,2)] export_config_download_def reading_def exported_def same)
  then have body: "body = export_to_json ?d" using assms(5,10) by simp
  obtain res db' where imp: "import_config (xe_lib e) (xs_settings y) (xe_uid e2) (xe_hex e2) (xe_now e2) ?d ?o (xs_db y) = (res, db')"
    by (metis surj_pair)
  have run: "api_call e2 r2 c2 (Config (ImportConfig body)) y =
      bnd (at_db (import_config (xe_lib e) (xs_settings y) (xe_uid e2) (xe_hex e2) (xe_now e2) ?d ?o)) (\<lambda>r. ret (ImportAnswer r)) y1"
    by (simp add: api_call_admin [OF assms(3,4)] body import_downloaded assms(6) same)
  have y': "ans = rbind res (\<lambda>r. Inr (ImportAnswer r))" "xs_db y' = db'"
    using assms(11) imp
    by (auto simp: run bnd_def at_db_def on_app_def on_db_part_def same ret_def rbind_def split: sum.splits)
  have "(\<exists>r. res = Inr r \<and> ir_skipped r + lacking_rows (xs_db x) (xs_db y) = exported_rows (xs_db x) \<and>
      ir_signature_valid r \<noteq> Some False) \<and> config_merged (xs_db x) (xs_db y) db'"
    by (rule export_import_tables [OF assms(8) _ _ _ imp assms(7)]) simp_all
  then show ?thesis using y' by auto
qed


section \<open>The properties at a concrete service\<close>

definition sample_api_env :: "(unit redis_client, nat) api_env" where
  "sample_api_env =
     \<lparr>xe_auth = sample_env, xe_guard = silent_guard, xe_warn = False, xe_alerts = sample_alert_env,
      xe_backup = \<lparr>bk_settings = default_settings, bk_stamp = ''s'', bk_now = 5, bk_info = False, bk_pg_dump = (\<lambda>_ _. (None, None))\<rparr>,
      xe_models = \<lparr>ml_openai = (\<lambda>_. Reply []), ml_ollama = (\<lambda>_. Reply JNull)\<rparr>,
      xe_list = \<lparr>env_call = (\<lambda>_ _ _. Reply []), env_before = (\<lambda>_. 0), env_after = (\<lambda>_. 1), env_pick = (\<lambda>_. 0)\<rparr>,
      xe_embed = (\<lambda>_ _. \<lparr>env_call = (\<lambda>_ _ _. Failed \<lparr>ce_text = ''e'', ce_status = 0, ce_retry_after = None\<rparr>), env_before = (\<lambda>_. 0),
                        env_after = (\<lambda>_. 1), env_pick = (\<lambda>_. 0)\<rparr>),
      xe_ldap = Inr None, xe_day = Some, xe_str_exn = (\<lambda>_. ''e''), xe_now = 5, xe_started = 0, xe_today = ''d'',
      xe_uid = (\<lambda>n. replicate n CHR ''x''), xe_hex = (\<lambda>_. ''h''), xe_pretty = json_dumps plain_lib, xe_nonces = (\<lambda>_. []),
      xe_redis_up = (\<lambda>_. False), xe_session = quiet_env\<rparr>"

definition sample_state :: "database \<Rightarrow> (unit redis_client, nat) api_state" where
  "sample_state db =
     \<lparr>xs_app = \<lparr>ap_store = new_redis_client, ap_db = db, ap_limiter = new_limiter, ap_patterns = [], ap_pools = [],
        ap_breakers = new_manager default_settings, ap_step = 0, ap_calls = [], ap_streams = [], ap_guard_calls = 0,
        ap_sessions = new_session_manager, ap_cache = \<lparr>hit_count = 0, miss_count = 0\<rparr>, ap_stats = new_stats, ap_metrics = new_metrics\<rparr>,
      xs_security = new_sec_state, xs_settings = default_settings, xs_webhooks = [], xs_disk = \<lparr>dk_backups = None, dk_databases = []\<rparr>\<rparr>"

text \<open>A client of the service with the key \<open>k\<close> and the roles given.\<close>

definition sample_client :: "string list \<Rightarrow> client_row" where
  "sample_client roles = new_client_row ''c'' 0 (hash_api_key plain_lib ''k'') ((default_client_create ''n'')\<lparr>cc_roles := roles\<rparr>)"

definition with_key :: http_request where
  "with_key = (sample_request [])\<lparr>rq_headers := [(''x-api-key'', ''k'')]\<rparr>"

lemma sample_identify:
  "identify sample_api_env with_key None (sample_state (db\<lparr>t_clients := [sample_client roles]\<rparr>)) =
   (Inr (client_user (sample_client roles)), sample_state (db\<lparr>t_clients := [sample_client roles]\<rparr>))"
  by (simp add: identify_def at_auth_def on_app_def auth_at_def get_current_user_def request_api_key_def with_key_def header_def dict_get_def
      sample_request_def sample_api_env_def sample_state_def sample_client_def new_client_row_def sample_env_def str_lower_def Let_def)

lemma sample_roles: "au_roles (client_user (sample_client roles)) = roles"
  by (induction roles) (simp_all add: client_user_def sample_client_def new_client_row_def roles_of_def string_list_def)

lemma administration_needs_admin_witness:
  "let x = sample_state (empty_db\<lparr>t_content_policies := [new_policy_row ''p'' 0 ''P'' ''topic_block'' [] None 1], t_clients := [sample_client [''viewer'']]\<rparr>)
   in protected_part (snd (api_call sample_api_env with_key None (Policy (DeletePolicy ''p'')) x)) = protected_part x \<and>
      isl (fst (api_call sample_api_env with_key None (Policy (DeletePolicy ''p'')) x))"
proof -
  let ?db = "empty_db\<lparr>t_content_policies := [new_policy_row ''p'' 0 ''P'' ''topic_block'' [] None 1]\<rparr>"
  let ?x = "sample_state (?db\<lparr>t_clients := [sample_client [''viewer'']]\<rparr>)"
  have n: "\<not> is_admin u" if "fst (identify sample_api_env with_key None ?x) = Inr u" for u
    using that by (auto simp: sample_identify is_admin_def sample_roles)
  have "protected_part (snd (api_call sample_api_env with_key None (Policy (DeletePolicy ''p'')) ?x)) = protected_part ?x \<and>
    isl (fst (api_call sample_api_env with_key None (Policy (DeletePolicy ''p'')) ?x))"
    using administration_needs_admin [of sample_api_env with_key None ?x "Policy (DeletePolicy ''p'')", OF n prod.collapse [symmetric]] by auto
  then show ?thesis by (simp add: Let_def)
qed

lemma downloaded_configuration_merges_witness:
  "let x = sample_state (empty_db\<lparr>t_filter_patterns := [pin_row, broken_row], t_clients := [sample_client [''admin'']]\<rparr>);
       y = sample_state (empty_db\<lparr>t_filter_patterns := [pin_row], t_clients := [sample_client [''admin'']]\<rparr>)
   in \<exists>document body new. fst (api_call sample_api_env with_key None (Config DownloadConfig) x) = Inr (DownloadAnswer document) \<and>
        json_loads plain_lib document = Inr (JObj body) \<and>
        t_filter_patterns (xs_db (snd (api_call sample_api_env with_key None (Config (ImportConfig body)) y))) = [pin_row, new] \<and>
        pattern_core new = pattern_core broken_row"
proof -
  let ?x = "sample_state ((empty_db\<lparr>t_filter_patterns := [pin_row, broken_row]\<rparr>)\<lparr>t_clients := [sample_client [''admin'']]\<rparr>)"
  let ?y = "sample_state ((empty_db\<lparr>t_filter_patterns := [pin_row]\<rparr>)\<lparr>t_clients := [sample_client [''admin'']]\<rparr>)"
  have adm: "is_admin (client_user (sample_client [''admin'']))" by (simp add: is_admin_def sample_roles)
  have lib: "xe_lib sample_api_env = plain_lib" "xe_pretty sample_api_env = json_dumps plain_lib"
    by (simp_all add: sample_api_env_def silent_guard_def)
  have "inj (xe_uid sample_api_env)" by (rule injI) (simp add: sample_api_env_def)
  moreover have "fp_id pin_row \<noteq> xe_uid sample_api_env n" for n
    by (cases n) (simp_all add: sample_api_env_def pin_row_def new_pattern_def)
  ultimately have fresh: "fresh_ids (xe_uid sample_api_env) (xs_db ?y)"
    by (auto simp: fresh_ids_def sample_state_def empty_db_def)
  have codec: "json_loads (xe_lib sample_api_env) (xe_pretty sample_api_env j) = Inr j" for j
    using plain_lib_json by (simp add: lib json_codec_ok_def)
  let ?body = "exported sample_api_env ?x" and ?doc = "json_dumps plain_lib (JObj (exported sample_api_env ?x))"
  have down: "fst (api_call sample_api_env with_key None (Config DownloadConfig) ?x) = Inr (DownloadAnswer ?doc)"
    by (simp add: api_call_admin [OF sample_identify adm] export_config_download_def reading_def lib)
  have loads: "json_loads (xe_lib sample_api_env) ?doc = Inr (JObj ?body)"
    using codec by (simp add: lib)
  obtain ans y' where imp: "api_call sample_api_env with_key None (Config (ImportConfig ?body)) ?y = (ans, y')" by (metis surj_pair)
  have "config_merged (xs_db ?x) (xs_db ?y) (xs_db y')"
    using downloaded_configuration_merges [OF sample_identify adm sample_identify adm codec refl _ fresh down loads imp]
    by (simp add: sample_state_def)
  then obtain new where "t_filter_patterns (xs_db y') = [pin_row, new]" "pattern_core new = pattern_core broken_row"
    by (auto simp: config_merged_def merged_def sample_state_def empty_db_def pin_row_def broken_row_def new_pattern_def)
  then show ?thesis using down loads imp by (auto simp: Let_def lib intro!: exI)
qed

end
