(* ===== verification/Web.thy ===== *)
theory Web
  imports Security
begin

text \<open>
  The web application of \<open>main.py\<close>: the middleware of \<open>security.py\<close> in the order in which requests pass it, around
  the routes.  The middleware that was added last runs first: security headers, protection against brute force, limit of
  the size, signatures, then that for cross-origin requests, which is of the web library and a parameter.
\<close>

record 's web_env =
  we_settings :: settings
  we_request_id :: string
  we_before :: time
  we_after :: time
  we_cors :: "'s endpoint \<Rightarrow> 's endpoint"
  we_routes :: "'s endpoint"

text \<open>
  Bans and failures are kept by one middleware and nonces by another; both parts are one state of the process.
\<close>

definition shared :: "(sec_state \<times> sec_state \<times> 's, 'a) io \<Rightarrow> (sec_state \<times> 's, 'a) io" where
  "shared m = (\<lambda>(s, t). let (x, (bans, (nonces, t'))) = m (s, (s, t)) in (x, (bans\<lparr>ss_nonces := ss_nonces nonces\<rparr>, t')))"

definition web_app :: "'s web_env \<Rightarrow> http_request \<Rightarrow> (sec_state \<times> 's, http_response) io" where
  "web_app w r = shared
     (security_headers_dispatch (we_request_id w)
       (brute_force_dispatch (we_settings w) (we_before w) (we_after w)
         (size_limit_dispatch (we_settings w)
           (signing_dispatch (we_settings w) (we_before w) (we_cors w (we_routes w))))) r)"


section \<open>Refusals\<close>

definition ban_left :: "'s web_env \<Rightarrow> http_request \<Rightarrow> sec_state \<Rightarrow> bool" where
  "ban_left w r s \<longleftrightarrow> fst (ban_check (we_before w) (get_client_ip r) s) \<noteq> None"

definition declared_length :: "http_request \<Rightarrow> int option" where
  "declared_length r = (if header ''content-length'' r = [] then Some 0 else parse_int (header ''content-length'' r))"

definition oversize :: "'s web_env \<Rightarrow> http_request \<Rightarrow> bool" where
  "oversize w r \<longleftrightarrow> header ''content-length'' r \<noteq> [] \<and>
     (\<exists>n. declared_length r = Some n \<and> n > MAX_REQUEST_BODY_KB (we_settings w) * 1024)"

definition must_sign :: "'s web_env \<Rightarrow> http_request \<Rightarrow> bool" where
  "must_sign w r \<longleftrightarrow> REQUIRE_REQUEST_SIGNING (we_settings w) \<and> prefix ''/v1/'' (rq_path r) \<and> rq_method r \<noteq> ''OPTIONS'' \<and>
     rq_path r \<notin> set signing_skip_paths"

definition signature_error :: "'s web_env \<Rightarrow> http_request \<Rightarrow> sec_state \<Rightarrow> string option" where
  "signature_error w r s = fst (check_signing (we_settings w) (we_before w) (header ''x-timestamp'' r) (header ''x-nonce'' r)
     (header ''x-signature'' r) s)"

definition refusal :: "'s web_env \<Rightarrow> http_request \<Rightarrow> sec_state \<Rightarrow> int option" where
  "refusal w r s =
     (if ban_left w r s then Some 429 else if oversize w r then Some 413
      else if declared_length r \<noteq> None \<and> must_sign w r \<and> signature_error w r s \<noteq> None then Some 401 else None)"


section \<open>What the middleware guarantees\<close>

lemma set_headers_lookup:
  assumes "distinct (map fst hs)" and "(k, v) \<in> set hs"
  shows "map_of (rs_headers (set_headers hs resp)) k = Some v"
proof -
  have "map_of (fold (\<lambda>(k, v). dict_set k v) hs d) k = Some v" for d
    using assms
  proof (induction hs arbitrary: d)
    case (Cons p hs)
    have "k \<notin> fst ` set hs \<Longrightarrow> map_of (fold (\<lambda>(k, v). dict_set k v) hs d) k = map_of d k" for d :: "(string, string) pydict"
      and hs :: "(string \<times> string) list"
      by (induction hs arbitrary: d) (auto split: prod.splits)
    with Cons show ?case by (auto split: prod.splits)
  qed simp
  then show ?thesis by (simp add: set_headers_def)
qed

lemma all_headers_distinct: "distinct (map fst (security_headers @ [(''x-request-id'', i)]))"
  by (simp add: security_headers_def)

lemma header_id [simp]: "header k (r\<lparr>rq_id := i\<rparr>) = header k r" "get_client_ip (r\<lparr>rq_id := i\<rparr>) = get_client_ip r"
  by (simp_all add: header_def get_client_ip_def Let_def)

lemma web_app_steps:
  "web_app w r (s, t) =
    (let r' = r\<lparr>rq_id := we_request_id w\<rparr>;
         (x, (bans, (nonces, t'))) = brute_force_dispatch (we_settings w) (we_before w) (we_after w)
           (size_limit_dispatch (we_settings w) (signing_dispatch (we_settings w) (we_before w) (we_cors w (we_routes w)))) r' (s, (s, t))
     in (rbind x (\<lambda>resp. Inr (set_headers (security_headers @ [(''x-request-id'', we_request_id w)]) resp)),
         (bans\<lparr>ss_nonces := ss_nonces nonces\<rparr>, t')))"
  by (simp add: web_app_def shared_def security_headers_dispatch_def bnd_def ret_def Let_def rbind_def split: prod.split sum.split)

lemma status_set_headers [simp]: "rs_status (set_headers hs resp) = rs_status resp"
  by (simp add: set_headers_def)

lemma banned_refused:
  "ban_left w r s \<Longrightarrow> \<exists>resp s'. web_app w r (s, t) = (Inr resp, (s', t)) \<and> rs_status resp = 429"
  by (auto simp: web_app_steps Let_def brute_force_dispatch_def ban_left_def json_response_def split: prod.split)

lemma passes_ban:
  assumes "\<not> ban_left w r s" and "call_next (r\<lparr>rq_id := i\<rparr>) (s, t) = (Inr resp, (n, t))"
  shows "\<exists>s'. brute_force_dispatch st (we_before w) after call_next (r\<lparr>rq_id := i\<rparr>) (s, (s, t)) = (Inr resp, (s', (n, t)))"
  using assms by (auto simp: brute_force_dispatch_def ban_left_def Let_def split: prod.split)

lemma inner_refused:
  assumes "\<not> ban_left w r s"
    and "size_limit_dispatch (we_settings w) (signing_dispatch (we_settings w) (we_before w) (we_cors w (we_routes w)))
      (r\<lparr>rq_id := we_request_id w\<rparr>) (s, t) = (Inr resp, (n, t))"
  shows "\<exists>resp' s'. web_app w r (s, t) = (Inr resp', (s', t)) \<and> rs_status resp' = rs_status resp"
  using passes_ban [where call_next = "size_limit_dispatch (we_settings w) (signing_dispatch (we_settings w) (we_before w) (we_cors w (we_routes w)))"
      and st = "we_settings w" and after = "we_after w", OF assms]
  by (auto simp: web_app_steps Let_def)

lemma oversize_refused:
  assumes "\<not> ban_left w r s" and "oversize w r"
  shows "\<exists>resp s'. web_app w r (s, t) = (Inr resp, (s', t)) \<and> rs_status resp = 413"
proof -
  have "\<exists>resp. size_limit_dispatch (we_settings w) call_next (r\<lparr>rq_id := we_request_id w\<rparr>) (s, t) = (Inr resp, (s, t)) \<and> rs_status resp = 413"
    for call_next :: "(sec_state \<times> 'a) endpoint"
    using assms(2) by (auto simp: oversize_def declared_length_def size_limit_dispatch_def json_response_def ret_def Let_def)
  then show ?thesis using inner_refused [OF assms(1)] by metis
qed

lemma unsigned_refused:
  assumes "\<not> ban_left w r s" and "\<not> oversize w r" and "declared_length r \<noteq> None" and "must_sign w r" and "signature_error w r s \<noteq> None"
  shows "\<exists>resp s'. web_app w r (s, t) = (Inr resp, (s', t)) \<and> rs_status resp = 401"
proof -
  have size: "size_limit_dispatch (we_settings w) call_next (r\<lparr>rq_id := we_request_id w\<rparr>) = call_next (r\<lparr>rq_id := we_request_id w\<rparr>)"
    for call_next :: "(sec_state \<times> 'a) endpoint"
    using assms(2,3) by (auto simp: oversize_def declared_length_def size_limit_dispatch_def Let_def)
  have "\<exists>resp n. signing_dispatch (we_settings w) (we_before w) routes (r\<lparr>rq_id := we_request_id w\<rparr>) (s, t) = (Inr resp, (n, t)) \<and>
      rs_status resp = 401" for routes :: "'a endpoint"
    using assms(4,5)
    by (auto simp: must_sign_def signature_error_def signing_dispatch_def json_response_def Let_def split: prod.split)
  then show ?thesis using inner_refused [OF assms(1)] size by metis
qed

text \<open>C4.  The gates in front of the routes.  A request of a banned address, a request that declares too many bytes and one
  without a valid signature where signatures are wanted is answered with status 429, 413 or 401, in that order of
  precedence, and nothing behind the gates runs; and whatever is answered has the security headers and the
  identifier of the request.\<close>

theorem gates_hold:
  assumes "web_app w r (s, t) = (ans, (s', t'))"
  shows "(\<forall>status. refusal w r s = Some status \<longrightarrow> t' = t \<and> (\<exists>resp. ans = Inr resp \<and> rs_status resp = status)) \<and>
    (\<forall>resp. ans = Inr resp \<longrightarrow>
      (\<forall>(k, v) \<in> set (security_headers @ [(''x-request-id'', we_request_id w)]). map_of (rs_headers resp) k = Some v))"
proof (intro conjI allI impI)
  fix resp assume "ans = Inr resp"
  then obtain resp0 where "resp = set_headers (security_headers @ [(''x-request-id'', we_request_id w)]) resp0"
    using assms unfolding web_app_steps by (auto simp: Let_def rbind_def split: prod.splits sum.splits)
  then show "\<forall>(k, v) \<in> set (security_headers @ [(''x-request-id'', we_request_id w)]). map_of (rs_headers resp) k = Some v"
    using set_headers_lookup [OF all_headers_distinct] by blast
next
  fix status assume "refusal w r s = Some status"
  then consider "ban_left w r s" "status = 429" | "\<not> ban_left w r s" "oversize w r" "status = 413"
    | "\<not> ban_left w r s" "\<not> oversize w r" "declared_length r \<noteq> None" "must_sign w r" "signature_error w r s \<noteq> None" "status = 401"
    by (auto simp: refusal_def split: if_splits)
  then have "\<exists>resp s'. web_app w r (s, t) = (Inr resp, (s', t)) \<and> rs_status resp = status"
    by cases (use banned_refused [of w r s t] oversize_refused [of w r s t] unsigned_refused [of w r s t] in auto)
  then show "t' = t" "\<exists>resp. ans = Inr resp \<and> rs_status resp = status" using assms by auto
qed

definition sample_web :: "nat web_env" where
  "sample_web = \<lparr>we_settings = default_settings\<lparr>REQUIRE_REQUEST_SIGNING := True\<rparr>, we_request_id = ''i'', we_before = 50, we_after = 51,
     we_cors = id, we_routes = (\<lambda>_ n. (Inr (json_response 200 []), Suc n))\<rparr>"

definition sample_post :: "(string, string) pydict \<Rightarrow> http_request" where
  "sample_post hs = \<lparr>rq_method = ''POST'', rq_path = ''/v1/chat'', rq_headers = hs, rq_cookies = [], rq_client = Some ''h'', rq_id = [],
     rq_signing = None\<rparr>"

lemma gates_hold_witness:
  "(\<exists>resp s'. web_app sample_web (sample_post []) (new_sec_state\<lparr>ss_bans := [(''h'', 100)]\<rparr>, 7) = (Inr resp, (s', 7)) \<and> rs_status resp = 429) \<and>
   (\<exists>resp s'. web_app sample_web (sample_post []) (new_sec_state, 7) = (Inr resp, (s', 7)) \<and> rs_status resp = 401)"
proof -
  have 1: "refusal sample_web (sample_post []) (new_sec_state\<lparr>ss_bans := [(''h'', 100)]\<rparr>) = Some 429"
    by (simp add: refusal_def ban_left_def ban_check_def get_client_ip_def header_def dict_get_def sample_post_def sample_web_def new_sec_state_def)
  have 2: "refusal sample_web (sample_post []) new_sec_state = Some 401"
    by (simp add: refusal_def ban_left_def ban_check_def oversize_def declared_length_def must_sign_def signature_error_def check_signing_def
        signing_skip_paths_def get_client_ip_def header_def dict_get_def sample_post_def sample_web_def new_sec_state_def)
  obtain a s' n where r1: "web_app sample_web (sample_post []) (new_sec_state\<lparr>ss_bans := [(''h'', 100)]\<rparr>, 7) = (a, (s', n))" by (metis surj_pair)
  obtain b s2 m where r2: "web_app sample_web (sample_post []) (new_sec_state, 7) = (b, (s2, m))" by (metis surj_pair)
  show ?thesis using gates_hold [OF r1] gates_hold [OF r2] 1 2 r1 r2 by auto
qed


section \<open>Who is banned\<close>

text \<open>
  The address that bans and limits go by is the first one of a header that the caller writes: with an address there
  that is not banned, a banned caller passes.
\<close>

lemma split_on_whole: "c \<notin> set s \<Longrightarrow> split_on c s = [s]"
  by (induction s) auto

theorem ban_evaded_by_header:
  assumes "map_of (ss_bans s) ip = None" and "ip \<noteq> []" and "CHR '','' \<notin> set ip" and "str_strip ip = ip"
  shows "\<not> ban_left w (r\<lparr>rq_headers := dict_set ''x-forwarded-for'' ip (rq_headers r)\<rparr>) s"
proof -
  have "get_client_ip (r\<lparr>rq_headers := dict_set ''x-forwarded-for'' ip (rq_headers r)\<rparr>) = ip"
    using assms(2-4) by (simp add: get_client_ip_def header_def dict_get_def split_on_whole)
  with assms(1) show ?thesis by (simp add: ban_left_def ban_check_def)
qed

end
