(* ===== verification/AuditTrail.thy ===== *)
theory AuditTrail
  imports Logger Logs
begin

text \<open>
  \<open>audit.py\<close>: an entry of the audit trail goes to the table and, as a line of JSON, to a file.  The rotation of the
  file is not modelled; whether the session of the database fails is an argument.
\<close>

text \<open>The values of an entry as the file has them: texts that are absent are empty.\<close>

definition audit_fields :: "string \<Rightarrow> string option \<Rightarrow> string option \<Rightarrow> string option \<Rightarrow> string option \<Rightarrow> bool \<Rightarrow> jdict" where
  "audit_fields event_type actor target detail ip success =
     (let or_empty = (\<lambda>v. JStr (case v of Some s \<Rightarrow> s | None \<Rightarrow> [])) in
      [(''event_type'', JStr event_type), (''actor'', or_empty actor), (''target'', or_empty target), (''detail'', or_empty detail),
       (''ip'', or_empty ip), (''success'', JBool success)])"

definition audit_line :: "(json \<Rightarrow> string) \<Rightarrow> string \<Rightarrow> jdict \<Rightarrow> string res" where
  "audit_line dumps timestamp fs =
     rbind (make_record ''audit_file'' ''INFO'' 20 ''Audit event'' fs None None) (\<lambda>r. Inr (json_format dumps timestamp r))"

definition write_audit :: "(json \<Rightarrow> string) \<Rightarrow> (time \<Rightarrow> string) \<Rightarrow> bool \<Rightarrow> string \<Rightarrow> time \<Rightarrow> string \<Rightarrow> string option \<Rightarrow> string option
    \<Rightarrow> string option \<Rightarrow> string option \<Rightarrow> bool \<Rightarrow> database \<times> string list \<Rightarrow> database \<times> string list" where
  "write_audit dumps isof db_up uid now event_type actor target detail ip success = (\<lambda>(db, file).
     (if db_up then db\<lparr>t_audit_logs := t_audit_logs db @
        [\<lparr>al_id = uid, al_timestamp = now, al_event_type = event_type, al_actor = actor, al_target = target, al_detail = detail,
          al_ip = ip, al_success = success\<rparr>]\<rparr> else db,
      case audit_line dumps (isof now) (audit_fields event_type actor target detail ip success) of
        Inr line \<Rightarrow> file @ [line] | Inl _ \<Rightarrow> file))"

text \<open>
  Every entry reaches the file, also when the database is down, with the fields of the event beside those of the line;
  and when the database is up it is the newest in the table.
\<close>

theorem audit_reaches_file:
  assumes "write_audit dumps isof db_up uid now event_type actor target detail ip success (db, file) = (db', file')"
  shows "\<exists>entry. file' = file @ [dumps (JObj entry)] \<and> map_of entry ''message'' = Some (JStr ''Audit event'') \<and>
    (\<forall>(k, v) \<in> set (audit_fields event_type actor target detail ip success). map_of entry k = Some v)"
    and "db_up \<Longrightarrow> \<exists>r. t_audit_logs db' = t_audit_logs db @ [r] \<and> al_event_type r = event_type \<and> al_success r = success"
proof -
  let ?f = "audit_fields event_type actor target detail ip success"
  obtain r where r: "make_record ''audit_file'' ''INFO'' 20 ''Audit event'' ?f None None = Inr r"
    by (simp add: make_record_def audit_fields_def record_attributes_def Let_def)
  have wf: "dict_wf ?f" by (simp add: audit_fields_def Let_def)
  have vis: "\<not> prefix ''_'' k \<and> k \<noteq> ''exception''" if "(k, v) \<in> set ?f" for k v
    using that by (auto simp: audit_fields_def Let_def)
  have "file' = file @ [dumps (JObj (json_entry (isof now) r))]"
    using assms r by (auto simp: write_audit_def audit_line_def rbind_def json_format_def)
  moreover have "\<forall>(k, v) \<in> set ?f. map_of (json_entry (isof now) r) k = Some v"
    using log_line_fields(2) [OF r wf] vis by auto
  ultimately show "\<exists>entry. file' = file @ [dumps (JObj entry)] \<and> map_of entry ''message'' = Some (JStr ''Audit event'') \<and>
      (\<forall>(k, v) \<in> set ?f. map_of entry k = Some v)"
    using log_line_fields(1) [OF r wf] by blast
  assume db_up
  then show "\<exists>r. t_audit_logs db' = t_audit_logs db @ [r] \<and> al_event_type r = event_type \<and> al_success r = success"
    using assms by (auto simp: write_audit_def)
qed

end
