(* ===== verification/Interleaving.thy ===== *)
theory Interleaving
  imports ChatProofs
begin

text \<open>
  Chat requests in flight together.  The handler of \<open>main.py\<close> is cut into phases at the points where it waits:
  for the slot of the global semaphore, for the answer of a provider, for the reading of a stream.  A phase runs
  without interruption, and between two phases of one request those of others run.  Waiting inside a phase (the store, the
  tables, the pauses between the attempts of a call) is not cut further.
\<close>


section \<open>Phases\<close>

datatype phase =
    Arrived                               \<comment> \<open>nothing has run\<close>
  | InLine prepared                       \<comment> \<open>registered, waits for the slot\<close>
  | Holding prepared                      \<comment> \<open>has the slot\<close>
  | Called prepared call_reply            \<comment> \<open>the provider has answered, the slot is held\<close>
  | Opened prepared "(string, string) pydict"  \<comment> \<open>the stream is returned, its generator has not run\<close>
  | Broken py_exn                         \<comment> \<open>the block was left by an exception\<close>
  | Over "chat_answer res"

text \<open>The phase a request is in after an operation.\<close>

definition continue :: "('a \<Rightarrow> phase) \<Rightarrow> (py_exn \<Rightarrow> phase) \<Rightarrow> 'a res \<times> ('s, 'w) app \<Rightarrow> phase \<times> ('s, 'w) app" where
  "continue f g = (\<lambda>(x, ap). (case x of Inr a \<Rightarrow> f a | Inl e \<Rightarrow> g e, ap))"

definition leave_slot :: "('s, 'w) chat_env \<Rightarrow> phase \<times> ('s, 'w) app \<Rightarrow> phase \<times> ('s, 'w) app" where
  "leave_slot h = (\<lambda>(ph, ap). (ph, ap\<lparr>ap_limiter := release_global_slot (he_settings h) (ap_limiter ap)\<rparr>))"

text \<open>Up to the entry of the block, whose slot the request then waits for.\<close>

definition enter_request :: "('s, 'w) chat_env \<Rightarrow> chat_request \<Rightarrow> (('s, 'w) app, phase) io" where
  "enter_request h rq =
     bnd (prepare h rq) (\<lambda>pp.
     bnd (lookup_cache h rq pp) (\<lambda>cached.
     case cached of
       Some r \<Rightarrow> ret (Over (Inr (Answer (answer_headers rq True None pp) (response_to_json r))))
     | None \<Rightarrow> bnd (begin_request h rq pp) (\<lambda>_. ret (InLine pp))))"

text \<open>From the entry of the block to the answer of the provider, or to the response of a stream.\<close>

definition start_serving :: "('s, 'w) chat_env \<Rightarrow> chat_request \<Rightarrow> prepared \<Rightarrow> (('s, 'w) app, phase) io" where
  "start_serving h rq pp =
     bnd (modify (\<lambda>ap. ap\<lparr>ap_limiter := record_queue_wait (queue_wait_ms rq) (ap_limiter ap)\<rparr>)) (\<lambda>_.
     bnd (note_status h rq Running) (\<lambda>_.
     if cb_stream (cq_body rq)
     then bnd (note_status h rq Streaming) (\<lambda>_. ret (Opened pp (answer_headers rq False (Some (queue_wait_ms rq)) pp)))
     else bnd (call_provider h rq pp) (\<lambda>r. ret (Called pp r))))"

text \<open>From the answer of the provider to the end of the block.\<close>

definition finish_serving :: "('s, 'w) chat_env \<Rightarrow> chat_request \<Rightarrow> prepared \<Rightarrow> call_reply \<Rightarrow> (('s, 'w) app, chat_answer) io" where
  "finish_serving h rq pp r =
     bnd (\<lambda>ap. lift_res (evaluate_response (he_re h) (ap_db ap) (rp_text r) (au_client_id (cq_user rq))) ap) (\<lambda>(filtered_text, was_filtered).
     bnd (store_reply h rq pp r) (\<lambda>_.
     bnd (account h rq pp r) (\<lambda>_.
     bnd (end_session h rq Done) (\<lambda>_.
     ret (Answer (answer_headers rq False (Some (queue_wait_ms rq)) pp) (rp_json r))))))"

fun holding :: "phase \<Rightarrow> bool" where
  "holding (Holding pp) = True"
| "holding (Called pp r) = True"
| "holding _ = False"

text \<open>The next phase; \<^const>\<open>None\<close> for a request that waits for the slot or has finished.\<close>

fun chat_step :: "('s, 'w) chat_env \<Rightarrow> chat_request \<Rightarrow> phase \<Rightarrow> ('s, 'w) app \<Rightarrow> (phase \<times> ('s, 'w) app) option" where
  "chat_step h rq Arrived ap = Some (continue id (\<lambda>e. Over (Inl e)) (enter_request h rq ap))"
| "chat_step h rq (InLine pp) ap =
     map_option (\<lambda>l. (Holding pp, ap\<lparr>ap_limiter := l\<rparr>)) (acquire_global_slot (he_settings h) (ap_limiter ap))"
| "chat_step h rq (Holding pp) ap =
     (let (ph, ap') = continue id Broken (start_serving h rq pp ap)
      in Some (if holding ph then (ph, ap') else leave_slot h (ph, ap')))"
| "chat_step h rq (Called pp r) ap =
     Some (leave_slot h (continue (\<lambda>a. Over (Inr a)) Broken (finish_serving h rq pp r ap)))"
| "chat_step h rq (Opened pp hs) ap =
     Some (continue (\<lambda>evs. Over (Inr (EventStream hs evs))) (\<lambda>e. Over (Inl e)) (sse_generator h rq pp ap))"
| "chat_step h rq (Broken e) ap = Some (continue (\<lambda>a. Over (Inr a)) (\<lambda>e. Over (Inl e)) (fail_request h rq e ap))"
| "chat_step h rq (Over x) ap = None"


section \<open>One request alone\<close>

fun run_alone :: "nat \<Rightarrow> ('s, 'w) chat_env \<Rightarrow> chat_request \<Rightarrow> phase \<Rightarrow> ('s, 'w) app \<Rightarrow> phase \<times> ('s, 'w) app" where
  "run_alone 0 h rq ph ap = (ph, ap)"
| "run_alone (Suc n) h rq ph ap = (case chat_step h rq ph ap of None \<Rightarrow> (ph, ap) | Some (ph', ap') \<Rightarrow> run_alone n h rq ph' ap')"

definition outcome_of :: "phase \<Rightarrow> chat_answer res" where
  "outcome_of ph = (case ph of Over x \<Rightarrow> x | _ \<Rightarrow> Inr Waiting)"

lemma run_finished [simp]: "run_alone n h rq (Over x) ap = (Over x, ap)"
  by (cases n) simp_all

lemma serve_reply_parts: "serve_reply h rq pp = bnd (call_provider h rq pp) (finish_serving h rq pp)"
  by (simp add: serve_reply_def finish_serving_def [abs_def])

lemma fail_request_raises: "\<exists>e' ap'. fail_request h rq e ap = (Inl e', ap')"
  by (cases e) (simp_all add: fail_request_def end_session_eq bnd_def forget_active_def count_error_def modify_def)

lemma bnd_assoc: "bnd (bnd m f) g = bnd m (\<lambda>x. bnd (f x) g)"
  by (rule ext) (simp add: bnd_def split: prod.split sum.split)

text \<open>What the phases after \<^const>\<open>start_serving\<close> return.\<close>

fun rest_of_block :: "('s, 'w) chat_env \<Rightarrow> chat_request \<Rightarrow> phase \<Rightarrow> (('s, 'w) app, chat_answer) io" where
  "rest_of_block h rq (Called pp r) = finish_serving h rq pp r"
| "rest_of_block h rq (Opened pp hs) = ret (EventStream hs [])"
| "rest_of_block h rq ph = ret Waiting"

lemma serve_body_parts: "serve_body h rq pp = bnd (start_serving h rq pp) (rest_of_block h rq)"
  unfolding serve_body_def start_serving_def serve_reply_parts
  by (cases "cb_stream (cq_body rq)") (simp_all add: bnd_assoc del: ret_apply)

lemma start_serving_result:
  assumes "start_serving h rq pp ap = (Inr ph, ap')"
  shows "(\<exists>r. ph = Called pp r) \<or> (\<exists>hs. ph = Opened pp hs)"
  using assms by (auto simp: start_serving_def elim!: bnd_InrE split: if_splits)

lemma finish_serving_result:
  assumes "finish_serving h rq pp r ap = (Inr a, ap')"
  shows "\<exists>hs js. a = Answer hs js"
  using assms by (auto simp: finish_serving_def elim!: bnd_InrE split: prod.splits)

lemma block_alone:
  "(let (ph, ap') = run_alone 4 h rq (InLine pp) ap in (outcome_of ph, ap')) =
   bnd (try_except (serve_request h rq pp) (fail_request h rq)) (\<lambda>answer. case answer of
     EventStream hs _ \<Rightarrow> bnd (sse_generator h rq pp) (\<lambda>evs. ret (EventStream hs evs)) | _ \<Rightarrow> ret answer) ap"
proof (cases "acquire_global_slot (he_settings h) (ap_limiter ap)")
  case None
  then show ?thesis by (simp add: eval_nat_numeral serve_body with_slot_def bnd_def try_except_def outcome_of_def)
next
  case (Some l)
  obtain x ap1 where s: "start_serving h rq pp (ap\<lparr>ap_limiter := l\<rparr>) = (x, ap1)" by fastforce
  show ?thesis
  proof (cases x)
    case (Inl e)
    show ?thesis
      using fail_request_raises [of h rq e "ap1\<lparr>ap_limiter := release_global_slot (he_settings h) (ap_limiter ap1)\<rparr>"] Some s Inl
      by (auto simp: eval_nat_numeral serve_body serve_body_parts with_slot_def bnd_def try_except_def outcome_of_def continue_def leave_slot_def)
  next
    case (Inr ph)
    with start_serving_result [of h rq pp] s
    consider r where "ph = Called pp r" | hs where "ph = Opened pp hs" by blast
    then show ?thesis
    proof cases
      case 1
      obtain y ap2 where f: "finish_serving h rq pp r ap1 = (y, ap2)" by fastforce
      let ?ap3 = "ap2\<lparr>ap_limiter := release_global_slot (he_settings h) (ap_limiter ap2)\<rparr>"
      show ?thesis
      proof (cases y)
        case (Inl e)
        then show ?thesis using fail_request_raises [of h rq e ?ap3] Some s Inr 1 f
          by (auto simp: eval_nat_numeral serve_body serve_body_parts with_slot_def bnd_def try_except_def outcome_of_def continue_def
              leave_slot_def)
      next
        case (Inr a)
        then show ?thesis using finish_serving_result [of h rq pp r ap1 a ap2] Some s \<open>x = Inr ph\<close> 1 f
          by (auto simp: eval_nat_numeral serve_body serve_body_parts with_slot_def bnd_def try_except_def outcome_of_def continue_def
              leave_slot_def)
      qed
    next
      case 2
      then show ?thesis using Some s Inr
        by (auto simp: eval_nat_numeral serve_body serve_body_parts with_slot_def bnd_def try_except_def outcome_of_def continue_def
            leave_slot_def split: sum.split prod.split)
    qed
  qed
qed

text \<open>The phases are the handler: run one after the other without interruption, at most five of them, they give the
  answer and the state that the handler gives, which says that it waits when there is no slot.\<close>

theorem phases_are_the_handler:
  "(let (ph, ap') = run_alone 5 h rq Arrived ap in (outcome_of ph, ap')) = handle_chat h rq ap"
proof -
  have five: "run_alone 5 h rq ph ap = (case chat_step h rq ph ap of None \<Rightarrow> (ph, ap) | Some (ph', ap') \<Rightarrow> run_alone 4 h rq ph' ap')" for ph ap
    using run_alone.simps(2) [of 4 h rq ph ap] by (simp del: run_alone.simps)
  show ?thesis
    unfolding five handle_chat_def
    by (auto simp: enter_request_def continue_def bnd_def [of "prepare h rq"] bnd_def [of "lookup_cache h rq pp" for pp]
        bnd_def [of "begin_request h rq pp" for pp] block_alone [symmetric] outcome_of_def
        split: prod.split sum.split option.split)
qed

section \<open>What a step changes\<close>

text \<open>Among the active requests; counted as served; the steps left at most.\<close>

fun shown_active :: "phase \<Rightarrow> bool" where
  "shown_active Arrived = False"
| "shown_active (Over (Inl e)) = False"
| "shown_active (Over (Inr (Answer hs js))) = (map_of hs ''X-Cache-Hit'' \<noteq> Some ''true'')"
| "shown_active (Over (Inr a)) = False"
| "shown_active ph = True"

fun served :: "phase \<Rightarrow> bool" where
  "served (Over (Inr (Answer hs js))) = (map_of hs ''X-Cache-Hit'' \<noteq> Some ''true'')"
| "served (Over (Inr (EventStream hs evs))) = True"
| "served ph = False"

fun steps_left :: "phase \<Rightarrow> nat" where
  "steps_left Arrived = 5"
| "steps_left (InLine pp) = 4"
| "steps_left (Holding pp) = 3"
| "steps_left (Called pp r) = 2"
| "steps_left (Opened pp hs) = 1"
| "steps_left (Broken e) = 1"
| "steps_left (Over x) = 0"

abbreviation total_served :: "('s, 'w) app \<Rightarrow> int" where
  "total_served ap \<equiv> st_total_requests (ap_stats ap)"

abbreviation other :: "chat_request \<Rightarrow> chat_request \<Rightarrow> bool" where
  "other rq rq' \<equiv> rq_id (cq_http rq') \<noteq> rq_id (cq_http rq)"

lemma hit_header [simp]: "map_of (answer_headers rq hit w pp) ''X-Cache-Hit'' = Some (if hit then ''true'' else ''false'')"
  by (simp add: answer_headers_def)

lemma listed_others [simp]:
  assumes "other rq rq'"
  shows "listed rq' (ap\<lparr>ap_limiter := register_active_request t (rq_id (cq_http rq)) d (ap_limiter ap)\<rparr>) = listed rq' ap"
    and "listed rq' (ap\<lparr>ap_limiter := unregister_active_request (rq_id (cq_http rq)) (ap_limiter ap)\<rparr>) = listed rq' ap"
  using assms by (simp_all add: listed_def register_active_request_def unregister_active_request_def Let_def dict_set_lookup)

lemma listed_slot [simp]:
  "listed rq (ap\<lparr>ap_limiter := release_global_slot st (ap_limiter ap)\<rparr>) = listed rq ap"
  "listed rq (ap\<lparr>ap_limiter := record_queue_wait w (ap_limiter ap)\<rparr>) = listed rq ap"
  by (simp_all add: listed_def life_of_slot)

lemma lookup_frame:
  assumes "\<And>ap s c. g (ap\<lparr>ap_store := s, ap_cache := c\<rparr>) = g ap"
  shows "preserves g (lookup_cache h rq pp)"
  unfolding lookup_cache_def by (intro preserves_if preserves_parts preserves_ret) (rule assms)

lemma prepare_frame:
  assumes "\<And>ap ap'. settled ap' = settled ap \<Longrightarrow> g ap' = g ap"
  shows "preserves g (prepare h rq)"
  using prepare_settled [of h rq] assms unfolding preserves_def by blast

lemma begin_frame:
  assumes "\<And>ap s m. g (ap\<lparr>ap_store := s, ap_sessions := m\<rparr>) = g ap"
    and "\<And>ap t d. g (ap\<lparr>ap_limiter := register_active_request t (rq_id (cq_http rq)) d (ap_limiter ap)\<rparr>) = g ap"
  shows "preserves g (begin_request h rq pp)"
  unfolding begin_request_def by (intro preserves_bnd preserves_ret preserves_parts(4) preserves_modify preserves_lift_read) (simp_all add: assms)

lemma enter_frame:
  assumes "\<And>ap ap'. settled ap' = settled ap \<Longrightarrow> g ap' = g ap"
    and "\<And>ap s c. g (ap\<lparr>ap_store := s, ap_cache := c\<rparr>) = g ap"
    and "\<And>ap s m. g (ap\<lparr>ap_store := s, ap_sessions := m\<rparr>) = g ap"
    and "\<And>ap t d. g (ap\<lparr>ap_limiter := register_active_request t (rq_id (cq_http rq)) d (ap_limiter ap)\<rparr>) = g ap"
  shows "preserves g (enter_request h rq)"
  unfolding enter_request_def
proof (intro preserves_bnd)
  show "preserves g (prepare h rq)" using assms(1) by (rule prepare_frame)
  show "preserves g (lookup_cache h rq pp)" for pp by (rule lookup_frame) (rule assms(2))
  show "preserves g (case cached of Some r \<Rightarrow> ret (Over (Inr (Answer (answer_headers rq True None pp) (response_to_json r))))
      | None \<Rightarrow> bnd (begin_request h rq pp) (\<lambda>_. ret (InLine pp)))" for cached pp
    by (cases cached) (auto intro: preserves_bnd preserves_ret begin_frame assms(3,4))
qed

lemma enter_kept:
  "preserves (slots_left h) (enter_request h rq)" "preserves total_served (enter_request h rq)"
  "other rq rq' \<Longrightarrow> preserves (listed rq') (enter_request h rq)"
proof -
  have s: "ap_limiter ap' = ap_limiter ap" "total_served ap' = total_served ap" if "settled ap' = settled ap" for ap ap' :: "('a, 'b) app"
    using settled_fields [OF that] by simp_all
  show "preserves (slots_left h) (enter_request h rq)" by (rule enter_frame, drule s(1)) simp_all
  show "preserves total_served (enter_request h rq)" by (rule enter_frame, drule s(2)) simp_all
  show "preserves (listed rq') (enter_request h rq)" if "other rq rq'"
    by (rule enter_frame, drule s(1)) (simp_all add: that, simp_all add: listed_def)
qed

lemma enter_result:
  assumes "enter_request h rq ap = (x, ap')"
  shows "(\<exists>e. x = Inl e \<and> listed rq ap' = listed rq ap) \<or> (\<exists>pp. x = Inr (InLine pp) \<and> listed rq ap') \<or>
    (\<exists>hs js. x = Inr (Over (Inr (Answer hs js))) \<and> map_of hs ''X-Cache-Hit'' = Some ''true'' \<and> listed rq ap' = listed rq ap)"
proof -
  obtain y ap1 where p: "prepare h rq ap = (y, ap1)" by fastforce
  have 1: "listed rq ap1 = listed rq ap"
    using settled_fields(2) [OF preservesD [OF prepare_settled p]] by (simp add: listed_def)
  show ?thesis
  proof (cases y)
    case (Inl e)
    with assms p 1 show ?thesis by (auto simp: enter_request_def bnd_def)
  next
    case (Inr pp)
    obtain c ap2 where l: "lookup_cache h rq pp ap1 = (c, ap2)" by fastforce
    have 2: "listed rq ap2 = listed rq ap1" by (rule preservesD [OF lookup_frame l]) simp
    show ?thesis
    proof (cases c)
      case (Inl e)
      with assms p l Inr 1 2 show ?thesis by (auto simp: enter_request_def bnd_def)
    next
      case c: (Inr cached)
      obtain b ap3 where b: "begin_request h rq pp ap2 = (b, ap3)" by fastforce
      from assms p l b Inr c 1 2 begin_outcome [OF b] show ?thesis
        by (cases cached) (auto simp: enter_request_def bnd_def)
    qed
  qed
qed

lemma start_frame:
  assumes "\<And>ap s m. g (ap\<lparr>ap_store := s, ap_sessions := m\<rparr>) = g ap"
    and "\<And>ap w. g (ap\<lparr>ap_limiter := record_queue_wait w (ap_limiter ap)\<rparr>) = g ap"
    and "\<And>ap p b n l. g (ap\<lparr>ap_pools := p, ap_breakers := b, ap_step := n, ap_calls := l\<rparr>) = g ap"
  shows "preserves g (start_serving h rq pp)"
  unfolding start_serving_def
  by (intro preserves_bnd preserves_modify preserves_if session_frame call_frame preserves_ret) (rule assms)+

lemma start_kept:
  "preserves (slots_left h) (start_serving h rq pp)" "preserves total_served (start_serving h rq pp)"
  "preserves (listed rq') (start_serving h rq pp)"
  by (rule start_frame; simp)+

lemma finish_kept:
  "preserves (slots_left h) (finish_serving h rq pp r)" "preserves (listed rq') (finish_serving h rq pp r)"
  unfolding finish_serving_def case_prod_beta
  by (intro preserves_bnd account_frame store_reply_frame session_frame preserves_ret preserves_lift_read; simp)+

lemma account_failed: "account h rq pp r ap = (Inl e, ap') \<Longrightarrow> total_served ap' = total_served ap"
proof -
  assume a: "account h rq pp r ap = (Inl e, ap')"
  let ?ap1 = "ap\<lparr>ap_db := charge_client rq pp r (ap_db ap)\<rparr>"
  let ?log = "on_db_part (log_request (ge_crypto (he_guard h)) (he_settings h) (he_dumps h) (cq_log_id rq) (cq_end rq)
       (fst (cq_nonces rq)) (snd (cq_nonces rq)) (log_of rq pp r (reply_cost rq pp r (ap_db ap))))"
  obtain x ap2 where 1: "?log ?ap1 = (x, ap2)" by fastforce
  have 2: "total_served ap2 = total_served ap" using preservesD [OF preserves_parts(7) 1, of total_served] by simp
  let ?m = "on_metrics_part (record_request (au_name (cq_user rq)) (pp_provider pp) (pp_model pp) ''200''
       (of_int (duration_ms rq) / 1000) (rp_input r) (rp_output r) (reply_cost rq pp r (ap_db ap)))"
  obtain y ap3 where 3: "?m ap2 = (y, ap3)" by fastforce
  have 4: "total_served ap3 = total_served ap2" using preservesD [OF preserves_parts(8) 3, of total_served] by simp
  from a 2 4 show ?thesis
    unfolding account_def Let_def bnd_modify bnd_def [of "on_db_part m" for m] 1 prod.case bnd_def [of "on_metrics_part m" for m]
    by (cases x; cases y) (auto simp: 3 modify_def)
qed

lemma finish_total:
  assumes "finish_serving h rq pp r ap = (x, ap')"
  shows "total_served ap' = total_served ap + of_bool (\<not> isl x)" 
    and "x = Inr a \<Longrightarrow> \<exists>js. a = Answer (answer_headers rq False (Some (queue_wait_ms rq)) pp) js"
proof -
  obtain y ap1 where s: "store_reply h rq pp r ap = (y, ap1)" by fastforce
  have 1: "total_served ap1 = total_served ap" by (rule preservesD [OF store_reply_frame s]) simp
  obtain z ap2 where a: "account h rq pp r ap1 = (z, ap2)" by fastforce
  show "total_served ap' = total_served ap + of_bool (\<not> isl x)"
    using assms 1 account_failed [of h rq pp r ap1 _ ap2] account_effect(1) [of h rq pp r ap1 ap2] s a
    by (cases y; cases z) (auto simp: finish_serving_def bnd_def end_session_eq lift_res_def count_success_def split: sum.splits prod.splits)
  show "x = Inr a \<Longrightarrow> \<exists>js. a = Answer (answer_headers rq False (Some (queue_wait_ms rq)) pp) js"
    using assms by (auto simp: finish_serving_def elim!: bnd_InrE split: prod.splits)
qed

lemma generator_frame:
  assumes "\<And>ap p b n l. g (ap\<lparr>ap_pools := p, ap_breakers := b, ap_step := n, ap_streams := l\<rparr>) = g ap"
    and "\<And>ap s m. g (ap\<lparr>ap_store := s, ap_sessions := m\<rparr>) = g ap"
    and "\<And>ap. g (ap\<lparr>ap_limiter := unregister_active_request (rq_id (cq_http rq)) (ap_limiter ap)\<rparr>) = g ap"
    and "\<And>ap. g (ap\<lparr>ap_stats := count_stream rq (ap_stats ap)\<rparr>) = g ap"
  shows "preserves g (sse_generator h rq pp)"
  unfolding sse_generator_def Let_def case_prod_beta forget_active_def
  by (intro preserves_bnd preserves_parts(6) preserves_for_each preserves_parts(4) session_frame preserves_modify preserves_ret; rule assms)

lemma generator_end:
  assumes "sse_generator h rq pp ap = (x, ap')"
  shows "\<exists>evs. x = Inr evs" and "\<not> listed rq ap'" and "total_served ap' = total_served ap + 1"
proof -
  let ?m = "on_streams_part (stream_with_retry readable_chunk (he_stream h (pp_messages pp) (pp_model pp) (openai_params (cq_body rq))) (he_settings h) (pp_provider pp))"
  obtain res ap1 where 1: "?m ap = (Inr res, ap1)" by (simp add: on_streams_part_def case_prod_beta)
  have t: "total_served ap1 = total_served ap" by (rule preservesD [OF preserves_parts(6) 1]) simp
  obtain evs totals where ev: "stream_events h res = (evs, totals)" by fastforce
  let ?up = "\<lambda>n. on_session_part (update_session (session_env_of h) (cq_end rq) (cq_session_id rq) None (Some (int n)) (Some (duration_ms rq)))"
  obtain s sm where 2: "for_each totals ?up ap1 = (Inr (), ap1\<lparr>ap_store := s, ap_sessions := sm\<rparr>)"
    using totals_shown [of totals "session_env_of h" "cq_end rq" "cq_session_id rq" "duration_ms rq" ap1] by blast
  have "x = Inr evs" and "ap' = snd (end_session h rq Done (ap1\<lparr>ap_store := s, ap_sessions := sm\<rparr>))
      \<lparr>ap_limiter := unregister_active_request (rq_id (cq_http rq)) (ap_limiter ap1), ap_stats := count_stream rq (ap_stats ap1)\<rparr>"
    using assms unfolding sse_generator_def bnd_def [of ?m] 1
    by (simp_all add: ev bnd_def 2 end_session_eq forget_active_def modify_def)
  then show "\<exists>evs. x = Inr evs" "\<not> listed rq ap'" "total_served ap' = total_served ap + 1"
    using t by (simp_all add: listed_def end_session_eq unregister_active_request_def count_stream_def)
qed

lemma fail_frame:
  assumes "\<And>ap s m. g (ap\<lparr>ap_store := s, ap_sessions := m\<rparr>) = g ap"
    and "\<And>ap. g (ap\<lparr>ap_limiter := unregister_active_request (rq_id (cq_http rq)) (ap_limiter ap)\<rparr>) = g ap"
    and "\<And>ap. g (ap\<lparr>ap_stats := (ap_stats ap)\<lparr>st_errors := st_errors (ap_stats ap) + 1\<rparr>\<rparr>) = g ap"
  shows "preserves g (fail_request h rq e)"
  unfolding fail_request_def forget_active_def count_error_def
  by (cases e; simp; intro preserves_bnd session_frame preserves_modify preserves_ret; rule assms)

lemma fail_forgets: "fail_request h rq e ap = (x, ap') \<Longrightarrow> \<not> listed rq ap'"
  by (cases e) (auto simp: fail_request_def end_session_eq bnd_def forget_active_def count_error_def modify_def listed_def
      unregister_active_request_def)

lemma later_kept:
  "preserves (slots_left h) (sse_generator h rq pp)" "preserves (slots_left h) (fail_request h rq e)"
  "preserves total_served (fail_request h rq e)"
  "other rq rq' \<Longrightarrow> preserves (listed rq') (sse_generator h rq pp)" "other rq rq' \<Longrightarrow> preserves (listed rq') (fail_request h rq e)"
  by (rule generator_slots fail_slots generator_frame fail_frame; simp)+

text \<open>The bookkeeping of one step, by the phase it starts from.\<close>

definition step_books :: "('s, 'w) chat_env \<Rightarrow> chat_request \<Rightarrow> phase \<Rightarrow> ('s, 'w) app \<Rightarrow> phase \<Rightarrow> ('s, 'w) app \<Rightarrow> bool" where
  "step_books h rq ph ap ph' ap' \<longleftrightarrow>
     slots_left h ap' + of_bool (holding ph') = slots_left h ap + of_bool (holding ph) \<and>
     (0 \<le> slots_left h ap \<longrightarrow> 0 \<le> slots_left h ap') \<and>
     total_served ap' = total_served ap + of_bool (served ph') \<and> \<not> served ph \<and>
     steps_left ph' < steps_left ph \<and>
     (\<forall>rq'. other rq rq' \<longrightarrow> listed rq' ap' = listed rq' ap) \<and>
     (listed rq ap = shown_active ph \<longrightarrow> listed rq ap' = shown_active ph')"

lemma slots_after:
  "acquire_global_slot st l = Some l' \<Longrightarrow> get_global_semaphore st l = get_global_semaphore st l' + 1 \<and> 0 \<le> get_global_semaphore st l'"
  "get_global_semaphore st (release_global_slot st l) = get_global_semaphore st l + 1"
  by (auto simp: acquire_global_slot_def release_global_slot_def get_global_semaphore_def Let_def split: if_splits)

lemma enter_books:
  assumes "chat_step h rq Arrived ap = Some (ph', ap')"
  shows "step_books h rq Arrived ap ph' ap'"
proof -
  obtain x where e: "enter_request h rq ap = (x, ap')" "ph' = (case x of Inr p \<Rightarrow> p | Inl e \<Rightarrow> Over (Inl e))"
    using assms by (cases "enter_request h rq ap") (auto simp: continue_def split: sum.splits)
  have "slots_left h ap' = slots_left h ap" "total_served ap' = total_served ap" "other rq rq' \<Longrightarrow> listed rq' ap' = listed rq' ap" for rq'
    using preservesD [OF enter_kept(1) e(1)] preservesD [OF enter_kept(2) e(1)] preservesD [OF enter_kept(3) e(1)] by simp_all
  with e(2) enter_result [OF e(1)] show ?thesis by (auto simp: step_books_def)
qed

lemma queue_books:
  assumes "chat_step h rq (InLine pp) ap = Some (ph', ap')"
  shows "step_books h rq (InLine pp) ap ph' ap'"
  using assms slots_after(1) [of "he_settings h" "ap_limiter ap"]
  by (auto simp: step_books_def listed_def life_of_slot)

lemma serve_books:
  assumes "chat_step h rq (Holding pp) ap = Some (ph', ap')"
  shows "step_books h rq (Holding pp) ap ph' ap'"
proof -
  obtain x ap1 where s: "start_serving h rq pp ap = (x, ap1)" by fastforce
  have k: "slots_left h ap1 = slots_left h ap" "total_served ap1 = total_served ap" "\<forall>rq'. listed rq' ap1 = listed rq' ap"
    using preservesD [OF start_kept(1) s] preservesD [OF start_kept(2) s] preservesD [OF start_kept(3) s] by simp_all
  let ?ap2 = "ap1\<lparr>ap_limiter := release_global_slot (he_settings h) (ap_limiter ap1)\<rparr>"
  consider e where "x = Inl e" | r where "x = Inr (Called pp r)" | hs where "x = Inr (Opened pp hs)"
    using start_serving_result [of h rq pp ap _ ap1] s by (cases x) auto
  then have "(\<exists>r. ph' = Called pp r) \<and> ap' = ap1 \<or> ((\<exists>e. ph' = Broken e) \<or> (\<exists>hs. ph' = Opened pp hs)) \<and> ap' = ?ap2"
    using assms s by cases (auto simp: continue_def leave_slot_def)
  moreover have "slots_left h ?ap2 = slots_left h ap1 + 1" by (simp add: slots_after(2))
  moreover have "total_served ?ap2 = total_served ap1" "\<forall>rq'. listed rq' ?ap2 = listed rq' ap1" by simp_all
  ultimately show ?thesis unfolding step_books_def using k by (elim disjE conjE exE) simp_all
qed

lemma reply_books:
  assumes "chat_step h rq (Called pp r) ap = Some (ph', ap')"
  shows "step_books h rq (Called pp r) ap ph' ap'"
proof -
  obtain x ap1 where s: "finish_serving h rq pp r ap = (x, ap1)" by fastforce
  have k: "slots_left h ap1 = slots_left h ap" "listed rq' ap1 = listed rq' ap" for rq'
    using preservesD [OF finish_kept(1) s] preservesD [OF finish_kept(2) s] by simp_all
  from assms s finish_total [OF s] show ?thesis
    by (cases x) (auto simp: step_books_def continue_def leave_slot_def k slots_after(2))
qed

lemma stream_books:
  assumes "chat_step h rq (Opened pp hs) ap = Some (ph', ap')"
  shows "step_books h rq (Opened pp hs) ap ph' ap'"
proof -
  obtain x ap1 where s: "sse_generator h rq pp ap = (x, ap1)" by fastforce
  from assms s generator_end [OF s] preservesD [OF later_kept(1) s] preservesD [OF later_kept(4) s] show ?thesis
    by (auto simp: step_books_def continue_def)
qed

lemma fail_books:
  assumes "chat_step h rq (Broken e) ap = Some (ph', ap')"
  shows "step_books h rq (Broken e) ap ph' ap'"
proof -
  obtain x ap1 where s: "fail_request h rq e ap = (Inl x, ap1)" using fail_request_raises by blast
  from assms s fail_forgets [OF s] preservesD [OF later_kept(2) s] preservesD [OF later_kept(3) s] preservesD [OF later_kept(5) s]
  show ?thesis by (auto simp: step_books_def continue_def)
qed

lemma every_step_books: "chat_step h rq ph ap = Some (ph', ap') \<Longrightarrow> step_books h rq ph ap ph' ap'"
  by (cases ph) (blast intro: enter_books queue_books serve_books reply_books stream_books fail_books | simp)+

section \<open>Requests in flight together\<close>

type_synonym ('s, 'w) traffic = "('s, 'w) app \<times> (chat_request \<times> phase) list"

text \<open>One of the requests takes its next step.\<close>

inductive chat_move :: "('s, 'w) chat_env \<Rightarrow> ('s, 'w) traffic \<Rightarrow> ('s, 'w) traffic \<Rightarrow> bool" for h where
  move: "i < length ps \<Longrightarrow> ps ! i = (rq, ph) \<Longrightarrow> chat_step h rq ph ap = Some (ph', ap') \<Longrightarrow>
    chat_move h (ap, ps) (ap', ps[i := (rq, ph')])"

inductive_cases chat_moveE: "chat_move h (ap, ps) s"

definition arriving :: "chat_request list \<Rightarrow> (chat_request \<times> phase) list" where
  "arriving rqs = map (\<lambda>rq. (rq, Arrived)) rqs"

definition holders :: "(chat_request \<times> phase) list \<Rightarrow> int" where
  "holders ps = (\<Sum>(rq, ph) \<leftarrow> ps. of_bool (holding ph))"

definition served_count :: "(chat_request \<times> phase) list \<Rightarrow> int" where
  "served_count ps = (\<Sum>(rq, ph) \<leftarrow> ps. of_bool (served ph))"

definition steps_ahead :: "(chat_request \<times> phase) list \<Rightarrow> nat" where
  "steps_ahead ps = (\<Sum>(rq, ph) \<leftarrow> ps. steps_left ph)"

lemma sum_list_update_int:
  fixes f :: "'a \<Rightarrow> int"
  shows "i < length xs \<Longrightarrow> (\<Sum>x \<leftarrow> xs[i := y]. f x) = (\<Sum>x \<leftarrow> xs. f x) - f (xs ! i) + f y"
  by (induction xs arbitrary: i) (auto split: nat.split)

lemma sum_list_update_nat:
  fixes f :: "'a \<Rightarrow> nat"
  shows "i < length xs \<Longrightarrow> (\<Sum>x \<leftarrow> xs[i := y]. f x) + f (xs ! i) = (\<Sum>x \<leftarrow> xs. f x) + f y"
  by (induction xs arbitrary: i) (auto split: nat.split)

text \<open>What every interleaving keeps, for requests whose identifiers differ.\<close>

definition traffic_ok :: "('s, 'w) chat_env \<Rightarrow> chat_request list \<Rightarrow> ('s, 'w) app \<Rightarrow> ('s, 'w) traffic \<Rightarrow> bool" where
  "traffic_ok h rqs ap0 = (\<lambda>(ap, ps).
     map fst ps = rqs \<and>
     slots_left h ap + holders ps = slots_left h ap0 \<and> 0 \<le> slots_left h ap \<and>
     total_served ap = total_served ap0 + served_count ps \<and>
     (\<forall>(rq, ph) \<in> set ps. listed rq ap = shown_active ph))"

lemma move_keeps:
  assumes "chat_move h s s'" and "traffic_ok h rqs ap0 s" and "distinct (map (\<lambda>rq. rq_id (cq_http rq)) rqs)"
  shows "traffic_ok h rqs ap0 s' \<and> steps_ahead (snd s') < steps_ahead (snd s)"
  using assms(1)
proof cases
  case (move i ps rq ph ap ph' ap')
  note b = every_step_books [OF move(5), unfolded step_books_def]
  have rqs: "map fst (ps[i := (rq, ph')]) = rqs"
    using assms(2) move(1,3,4) by (simp add: traffic_ok_def map_update) (metis fst_conv list_update_id nth_map)
  have hold: "holders (ps[i := (rq, ph')]) = holders ps - of_bool (holding ph) + of_bool (holding ph')"
    and serve: "served_count (ps[i := (rq, ph')]) = served_count ps - of_bool (served ph) + of_bool (served ph')"
    and steps: "steps_ahead (ps[i := (rq, ph')]) + steps_left ph = steps_ahead ps + steps_left ph'"
    using sum_list_update_int [OF move(3), of "\<lambda>(rq, ph). of_bool (holding ph)" "(rq, ph')"]
      sum_list_update_int [OF move(3), of "\<lambda>(rq, ph). of_bool (served ph)" "(rq, ph')"]
      sum_list_update_nat [OF move(3), of "\<lambda>(rq, ph). steps_left ph" "(rq, ph')"]
    by (simp_all add: holders_def served_count_def steps_ahead_def move(4))
  have act: "listed rq1 ap' = shown_active ph1" if mem: "(rq1, ph1) \<in> set (ps[i := (rq, ph')])" for rq1 ph1
  proof -
    obtain j where j: "j < length ps" "ps[i := (rq, ph')] ! j = (rq1, ph1)" using mem by (auto simp: in_set_conv_nth)
    show ?thesis
    proof (cases "j = i")
      case True
      then have "rq1 = rq" "ph1 = ph'" using j move(3) by simp_all
      moreover have "listed rq ap = shown_active ph"
        using assms(2) move(1,3,4) by (fastforce simp: traffic_ok_def in_set_conv_nth)
      ultimately show ?thesis using b by simp
    next
      case False
      then have ps: "ps ! j = (rq1, ph1)" using j by simp
      have "rqs ! i = rq" "rqs ! j = rq1" "length rqs = length ps"
        using assms(2) move(1,3,4) j(1) ps by (auto simp: traffic_ok_def)
      then have "other rq rq1" using assms(3) False j(1) move(3) by (auto simp: distinct_conv_nth)
      moreover have "listed rq1 ap = shown_active ph1" using assms(2) move(1) ps j(1) by (fastforce simp: traffic_ok_def in_set_conv_nth)
      ultimately show ?thesis using b by simp
    qed
  qed
  show ?thesis
    using assms(2) b rqs hold serve steps act unfolding move(1,2) traffic_ok_def by auto
qed

lemma moves_keep:
  assumes "(chat_move h ^^ k) s s'" and "traffic_ok h rqs ap0 s" and "distinct (map (\<lambda>rq. rq_id (cq_http rq)) rqs)"
  shows "traffic_ok h rqs ap0 s' \<and> steps_ahead (snd s') + k \<le> steps_ahead (snd s)"
  using assms(1)
proof (induction k arbitrary: s')
  case 0
  then show ?case using assms(2) by simp
next
  case (Suc k)
  then obtain t where t: "(chat_move h ^^ k) s t" "chat_move h t s'" by auto
  from Suc.IH [OF t(1)] move_keeps [OF t(2) _ assms(3)] show ?case by fastforce
qed

lemma arriving_ok:
  assumes "0 \<le> slots_left h ap" and "\<forall>rq \<in> set rqs. \<not> listed rq ap"
  shows "traffic_ok h rqs ap (ap, arriving rqs)" and "steps_ahead (arriving rqs) = 5 * length rqs"
  using assms
  by (simp_all add: traffic_ok_def arriving_def holders_def served_count_def steps_ahead_def comp_def sum_list_triv)

definition over :: "phase \<Rightarrow> bool" where
  "over ph \<longleftrightarrow> (\<exists>x. ph = Over x)"

text \<open>C9.  Chat requests in flight together, in whatever order their phases interleave: at every moment the free slots and
  the requests that hold one make up the slots there were, never more; the statistics count exactly the
  requests answered by a provider or streamed to the end; and the registry of active requests shows exactly those
  that wait, run or stream - and, for ever, those that were answered without a stream.\<close>

theorem concurrent_requests_accounted:
  assumes "(chat_move h ^^ k) (ap0, arriving rqs) (ap, ps)"
    and "distinct (map (\<lambda>rq. rq_id (cq_http rq)) rqs)" and "\<forall>rq \<in> set rqs. \<not> listed rq ap0"
    and "0 \<le> get_global_semaphore (he_settings h) (ap_limiter ap0)"
  shows "map fst ps = rqs \<and>
    get_global_semaphore (he_settings h) (ap_limiter ap) + holders ps = get_global_semaphore (he_settings h) (ap_limiter ap0) \<and>
    0 \<le> get_global_semaphore (he_settings h) (ap_limiter ap) \<and>
    st_total_requests (ap_stats ap) = st_total_requests (ap_stats ap0) + served_count ps \<and>
    (\<forall>(rq, ph) \<in> set ps. listed rq ap \<longleftrightarrow> shown_active ph)"
  using moves_keep [OF assms(1) arriving_ok(1) assms(2)] assms(3,4) by (simp add: traffic_ok_def)

lemma chat_step_blocked:
  assumes "chat_step h rq ph ap = None"
  shows "over ph \<or> slots_left h ap \<le> 0 \<and> \<not> holding ph"
  using assms
  by (cases ph) (auto simp: over_def acquire_global_slot_def Let_def case_prod_beta split: if_splits)

lemma over_holds_nothing: "over ph \<Longrightarrow> \<not> holding ph"
  by (auto simp: over_def)

lemma no_holders: "\<forall>(rq, ph) \<in> set ps. \<not> holding ph \<Longrightarrow> holders ps = 0"
  unfolding holders_def by (induction ps) auto

lemma traffic_moves:
  assumes "traffic_ok h rqs ap0 (ap, ps)" and "0 < slots_left h ap0" and "\<not> (\<forall>(rq, ph) \<in> set ps. over ph)"
  shows "\<exists>s. chat_move h (ap, ps) s"
proof (rule ccontr)
  assume stuck: "\<nexists>s. chat_move h (ap, ps) s"
  have none: "chat_step h rq ph ap = None" if "(rq, ph) \<in> set ps" for rq ph
  proof (rule ccontr)
    assume "chat_step h rq ph ap \<noteq> None"
    then obtain ph' ap' where "chat_step h rq ph ap = Some (ph', ap')" by auto
    moreover obtain i where "i < length ps" "ps ! i = (rq, ph)" using \<open>(rq, ph) \<in> set ps\<close> by (auto simp: in_set_conv_nth)
    ultimately show False using stuck chat_move.move by blast
  qed
  then have blocked: "over ph \<or> slots_left h ap \<le> 0 \<and> \<not> holding ph" if "(rq, ph) \<in> set ps" for rq ph
    using that chat_step_blocked by blast
  then have "holders ps = 0" using over_holds_nothing by (intro no_holders) blast
  with assms(1,2) have "0 < slots_left h ap" by (simp add: traffic_ok_def)
  with blocked assms(3) show False by fastforce
qed

text \<open>C10.  No request waits for ever: while there is a slot at all, any number of chat requests in flight together come to
  their answers in whatever order their phases interleave, since there are at most five steps for each, some
  request can go on until all are over, and then all slots are free again.\<close>

theorem concurrent_requests_end:
  assumes "(chat_move h ^^ k) (ap0, arriving rqs) (ap, ps)"
    and "distinct (map (\<lambda>rq. rq_id (cq_http rq)) rqs)" and "\<forall>rq \<in> set rqs. \<not> listed rq ap0"
    and "0 < get_global_semaphore (he_settings h) (ap_limiter ap0)"
  shows "k \<le> 5 * length rqs \<and> ((\<exists>s. chat_move h (ap, ps) s) \<or>
    (\<forall>(rq, ph) \<in> set ps. over ph) \<and>
    get_global_semaphore (he_settings h) (ap_limiter ap) = get_global_semaphore (he_settings h) (ap_limiter ap0))"
proof -
  have ok: "traffic_ok h rqs ap0 (ap, ps)" and k: "steps_ahead ps + k \<le> 5 * length rqs"
    using moves_keep [OF assms(1) arriving_ok(1) assms(2)] arriving_ok(2) [of h ap0 rqs] assms(3,4) by simp_all
  show ?thesis
  proof (cases "\<forall>(rq, ph) \<in> set ps. over ph")
    case True
    then have "holders ps = 0" using over_holds_nothing by (intro no_holders) blast
    with True ok k show ?thesis by (simp add: traffic_ok_def)
  next
    case False
    with traffic_moves [OF ok assms(4)] k show ?thesis by simp
  qed
qed


section \<open>Two requests and one slot\<close>

text \<open>A schedule names the request that takes the next step.\<close>

fun run_schedule :: "('s, 'w) chat_env \<Rightarrow> nat list \<Rightarrow> ('s, 'w) traffic \<Rightarrow> ('s, 'w) traffic option" where
  "run_schedule h [] s = Some s"
| "run_schedule h (i # is) (ap, ps) =
     (if i < length ps
      then (case chat_step h (fst (ps ! i)) (snd (ps ! i)) ap of
              Some (ph, ap') \<Rightarrow> run_schedule h is (ap', ps[i := (fst (ps ! i), ph)])
            | None \<Rightarrow> None)
      else None)"

lemma schedule_moves: "run_schedule h is s = Some s' \<Longrightarrow> (chat_move h ^^ length is) s s'"
proof (induction "is" arbitrary: s)
  case (Cons i "is")
  obtain ap ps where s: "s = (ap, ps)" by fastforce
  from Cons.prems s obtain ph ap' where 1: "i < length ps" "chat_step h (fst (ps ! i)) (snd (ps ! i)) ap = Some (ph, ap')"
      "run_schedule h is (ap', ps[i := (fst (ps ! i), ph)]) = Some s'"
    by (auto split: if_splits option.splits)
  have "chat_move h s (ap', ps[i := (fst (ps ! i), ph)])" unfolding s by (rule chat_move.move [OF 1(1) _ 1(2)]) simp
  with Cons.IH [OF 1(3)] show ?case by (metis length_Cons relpowp_Suc_I2)
qed simp

definition one_slot :: "(unit redis_client, nat) app" where
  "one_slot = sample_app\<lparr>ap_limiter := new_limiter\<lparr>global_semaphore := Some 1\<rparr>\<rparr>"

definition second_chat :: chat_request where
  "second_chat = (sample_chat ''ho'' True)\<lparr>cq_http := (cq_http (sample_chat ''ho'' True))\<lparr>rq_id := ''r2''\<rparr>, cq_session_id := ''s2''\<rparr>"

definition two_chats :: "chat_request list" where
  "two_chats = [sample_chat ''hi'' False, second_chat]"

text \<open>Both enter; the first takes the slot and is answered, then the second streams.\<close>

definition both_over :: "(unit redis_client, nat) traffic option \<Rightarrow> bool" where
  "both_over x \<longleftrightarrow> (case x of Some (ap, ps) \<Rightarrow> served_count ps = 2 | None \<Rightarrow> False)"

lemma sample_schedule: "both_over (run_schedule sample_chat_env [0, 1, 0, 0, 0, 1, 1, 1] (one_slot, arriving two_chats))"
  by code_simp

lemma two_chats_start:
  "distinct (map (\<lambda>rq. rq_id (cq_http rq)) two_chats)" "\<forall>rq \<in> set two_chats. \<not> listed rq one_slot"
  "get_global_semaphore (he_settings sample_chat_env) (ap_limiter one_slot) = 1"
  by (simp_all add: two_chats_def second_chat_def sample_chat_def listed_def one_slot_def new_limiter_def get_global_semaphore_def)

lemma concurrent_requests_accounted_witness:
  "\<exists>ap ps. (chat_move sample_chat_env ^^ 8) (one_slot, arriving two_chats) (ap, ps) \<and>
     st_total_requests (ap_stats ap) = st_total_requests (ap_stats one_slot) + 2"
proof -
  obtain ap ps where s: "run_schedule sample_chat_env [0, 1, 0, 0, 0, 1, 1, 1] (one_slot, arriving two_chats) = Some (ap, ps)" "served_count ps = 2"
    using sample_schedule by (auto simp: both_over_def split: option.splits)
  have m: "(chat_move sample_chat_env ^^ 8) (one_slot, arriving two_chats) (ap, ps)" using schedule_moves [OF s(1)] by (simp add: eval_nat_numeral del: relpowp.simps)
  from concurrent_requests_accounted [OF m two_chats_start(1,2)] two_chats_start(3) s(2) m show ?thesis by auto
qed

lemma concurrent_requests_end_witness:
  "(\<exists>s. chat_move sample_chat_env (one_slot, arriving two_chats) s)"
proof -
  have "(chat_move sample_chat_env ^^ 0) (one_slot, arriving two_chats) (one_slot, arriving two_chats)" by simp
  from concurrent_requests_end [OF this two_chats_start(1,2)] two_chats_start(3) show ?thesis
    by (auto simp: arriving_def two_chats_def over_def)
qed

end
