(* ===== verification/ChatEndpoints.thy ===== *)
theory ChatEndpoints
  imports ChatProofs
begin

text \<open>
  The three endpoints of \<open>main.py\<close> before the chat handler, and the arguments the server is started with.  The user of a
  request is identified before, and its body is parsed JSON.
\<close>


section \<open>Endpoints\<close>

definition in_format :: "bool \<Rightarrow> chat_request \<Rightarrow> chat_request" where
  "in_format openai rq = rq\<lparr>cq_openai := openai\<rparr>"

definition as_stream :: "chat_request \<Rightarrow> chat_request" where
  "as_stream rq = rq\<lparr>cq_body := (cq_body rq)\<lparr>cb_stream := True\<rparr>\<rparr>"

definition chat_completions :: "('s, 'w) chat_env \<Rightarrow> chat_request \<Rightarrow> (('s, 'w) app, chat_answer) io" where
  "chat_completions h rq = handle_chat h (in_format True rq)"

definition chat_native :: "('s, 'w) chat_env \<Rightarrow> chat_request \<Rightarrow> (('s, 'w) app, chat_answer) io" where
  "chat_native h rq = handle_chat h (in_format False rq)"

definition chat_stream_native :: "('s, 'w) chat_env \<Rightarrow> chat_request \<Rightarrow> (('s, 'w) app, chat_answer) io" where
  "chat_stream_native h rq = handle_chat h (in_format False (as_stream rq))"

definition health_live :: json where
  "health_live = JObj [(''status'', JStr ''alive'')]"

definition health_ready :: json where
  "health_ready = JObj [(''status'', JStr ''ready'')]"


section \<open>The server\<close>

record server_arguments =
  sa_host :: string
  sa_port :: int
  sa_workers :: int
  sa_log_level :: string
  sa_ssl :: "(string \<times> string) option"   \<comment> \<open>certificate and key\<close>

definition server_arguments_of :: "settings \<Rightarrow> server_arguments" where
  "server_arguments_of st =
     \<lparr>sa_host = PROXY_HOST st, sa_port = PROXY_PORT st, sa_workers = PROXY_WORKERS st, sa_log_level = str_lower (PROXY_LOG_LEVEL st),
      sa_ssl = (if PROXY_TLS_ENABLED st then Some (PROXY_TLS_CERT st, PROXY_TLS_KEY st) else None)\<rparr>"


section \<open>What the format of a request decides\<close>

lemma in_format_simps [simp]:
  "cq_http (in_format b rq) = cq_http rq" "cq_user (in_format b rq) = cq_user rq" "cq_body (in_format b rq) = cq_body rq"
  "cq_task (in_format b rq) = cq_task rq" "cq_today (in_format b rq) = cq_today rq" "cq_start (in_format b rq) = cq_start rq"
  "cq_lined (in_format b rq) = cq_lined rq" "cq_queued (in_format b rq) = cq_queued rq" "cq_end (in_format b rq) = cq_end rq"
  "cq_session_id (in_format b rq) = cq_session_id rq" "cq_openai (in_format b rq) = b"
  by (simp_all add: in_format_def)

text \<open>Only the call for an answer that is no stream looks at the format.\<close>

lemma ignores_format [simp]:
  "prepare h (in_format b rq) = prepare h rq" "lookup_cache h (in_format b rq) pp = lookup_cache h rq pp"
  "answer_headers (in_format b rq) hit w pp = answer_headers rq hit w pp"
  "begin_request h (in_format b rq) pp = begin_request h rq pp" "end_session h (in_format b rq) f = end_session h rq f"
  "forget_active (in_format b rq) = (forget_active rq :: (('s, 'w) app, unit) io)" "note_status h (in_format b rq) f = note_status h rq f"
  "queue_wait_ms (in_format b rq) = queue_wait_ms rq" "duration_ms (in_format b rq) = duration_ms rq"
  unfolding prepare_def admit_def lookup_cache_def cache_bypassed_def cache_key_of_def answer_headers_def begin_request_def end_session_def
    forget_active_def note_status_def queue_wait_ms_def duration_ms_def in_format_simps
  by (rule refl)+

lemma streams_ignore_format:
  assumes "cb_stream (cq_body rq)"
  shows "handle_chat h (in_format b rq) = handle_chat h rq"
proof -
  have serve: "serve_request h (in_format b rq) pp = serve_request h rq pp" for pp
    unfolding serve_request_def ignores_format in_format_simps using assms by simp
  have stream: "sse_generator h (in_format b rq) pp = sse_generator h rq pp" for pp
    unfolding sse_generator_def ignores_format in_format_simps count_stream_def by (rule refl)
  have fail: "fail_request h (in_format b rq) = fail_request h rq"
    unfolding fail_request_def ignores_format by (rule refl)
  show ?thesis unfolding handle_chat_def ignores_format serve stream fail by (rule refl)
qed

text \<open>
  The endpoint for native streams sends the chunks of OpenAI's format: it is the other endpoint with a stream asked for.
\<close>

theorem native_streams_are_openai: "chat_stream_native h rq = chat_completions h (as_stream rq)"
  by (simp add: chat_stream_native_def chat_completions_def streams_ignore_format as_stream_def)

text \<open>The native endpoint answers in the format of OpenAI when the answer comes from the cache.\<close>

theorem native_hits_are_openai:
  assumes "chat_native h rq ap = (Inr (Answer hs js), ap')" and "map_of hs ''X-Cache-Hit'' = Some ''true''"
  shows "\<exists>r. js = response_to_json r"
proof -
  have "map_of (answer_headers rq False (Some w) pp) ''X-Cache-Hit'' = Some ''false''" for w pp by (simp add: answer_headers_def)
  then have miss: "\<not> (\<exists>pp js'. Answer hs js = Answer (answer_headers rq False (Some (queue_wait_ms rq)) pp) js')" using assms(2) by force
  from handle_chat_cases [OF assms(1) [unfolded chat_native_def]] show ?thesis
  proof (elim disjE exE conjE)
    fix pp ap1 ap2 ap3 a assume b: "begin_request h (in_format False rq) pp ap2 = (Inr (), ap3)"
      and s: "serve_request h (in_format False rq) pp ap3 = (Inr a, ap')" and a: "Inr (Answer hs js) = Inr a"
    have "present (in_format False rq) ap3" using begin_outcome [OF b] by simp
    from serve_outcome(2) [OF s this refl] miss a show ?thesis by auto
  qed auto
qed

end
