(* ===== verification/Spec2Isabelle.thy ===== *)
theory Spec2Isabelle
  imports Prelude RedisClient Config RateLimiter CircuitBreaker Db KeyPool Catalog Routing LlmProxy Regex DataFilter Threats Guardrails PolicyDecisions Security Auth AuthProofs Caching Clients Sessions Logs Chat ChatProofs Alerting ConfigExport Providers Users Startup Logger Maintenance Requests Endpoints Api Web AuditTrail Interleaving ChatEndpoints
begin

text \<open>
  Verification of LLM-Sentinel, a proxy that stands between applications and the providers of large language models.

  The program and its parts.  A client authenticates with an API key or a token and posts a chat; the service checks
  its limits and its quota, masks secrets in the messages, asks the content policies, looks for a cached answer, chooses
  a provider, a model and a key, calls the provider (again with other keys and other providers when a call fails),
  and keeps books: usage, logs, sessions shown live, metrics, alerts.  Administrators manage all that by further
  endpoints.  State is kept in three places: tables of a database, a key-value store (Redis, or a store in the process
  that replaces it), and objects of the process (key pools, circuit breakers, limiter, sessions, caches of patterns).

  How the model is made.  Each theory below is one source file or a part of one, in the order of the code.
  A class is a record, an operation is a function from the state to the result and the new state, with the
  arguments in the order of the code.  Exceptions are the left side of a sum (type \<open>py_exn\<close>, with the name of the class,
  the text and the status of an HTTP answer); \<open>('s, 'a) io\<close> is the type of effectful operations, \<open>bnd\<close> is sequencing and
  \<open>try_except\<close> the try statement.  Dictionaries keep the order of insertion and are lists of pairs; JSON values are
  a datatype; tables are lists of rows, and a column declared unique raises IntegrityError.  Whatever the program takes
  from outside its files is an argument: the clock, random values and new identifiers, the Redis library, the AES cipher,
  base64, bcrypt, JWT, LDAP, the tokenizer, the HTTP client, the SDKs of the providers, and the texts of floating point
  numbers, JSON and dates (record \<open>pylib\<close>).  Where a property needs a law of such a library, the law is a hypothesis
  with a name (for example \<open>json_codec_ok\<close>), and the witness of the property instantiates the library by a concrete
  function.  One operation reads the clock once; handling a chat reads it at four moments (start, before and after the
  wait for the slot, end).
  Times and money are exact rationals.  Characters have codes below 256.

  Foundations.
    Prelude: effectful calls, dictionaries, JSON, the string functions of Python that occur, shell patterns, integers as
      text, rounding; the collections of rules shared by all theories.
    RedisClient (redis_client.py): the store of the process (values, counters, sets, sorted sets, each with a time of
      expiry), the client that uses a Redis server or falls back to that store, and the functions of the module as a
      record of operations, which other components take as an argument.  Locale \<open>kv_store\<close> states what they rely on, laws
      for what is read after a write under an invariant; it is interpreted on the store (\<open>mem\<close>) and on the client
      in fallback mode (\<open>rc\<close>).
    Config (config.py): settings with defaults, the resolution of secrets (environment, file, vault), the checks at start.
    Db (db.py): tables, encrypted columns with the previous secret as a second key, sessions with commit and rollback.
    Logger (logger.py): the record of a log call, its two formats, the set-up of the loggers.

  Traffic.
    RateLimiter (rate_limiter.py): sliding windows over the store, concurrency slots, the registry of active requests.
      The window refines an abstract list of admission times; the slots are a step relation (\<open>slot_step\<close>) over all
      interleavings of acquire and release.
    CircuitBreaker (circuit_breaker.py): one breaker and its step relation (\<open>cb_step\<close>), the manager, the exchange with
      other workers.
    KeyPool (key_pool.py): rotation, health and backoff of keys (\<open>pool_step\<close>), the table, encryption anew.
    Catalog (cost_tracker.py, model_alias.py): rates with wildcards, costs, summaries, aliases.
    Routing and LlmProxy (llm_proxy.py): token estimates, truncation, resolution of provider and model; the loops over keys
      and providers, streaming, embeddings, the native format.  The state keeps a log of the calls made, over which the
      properties speak.
    Providers (providers/): the adapters of all providers and the registry.

  Content.
    Regex: the expressions of Python's re module, parser and backtracking matcher.  The matcher takes fuel for
      repetitions; the lemma \<open>ends_iff_stretch\<close> shows that the fuel it is given, the length of the text, is enough.
    DataFilter (data_filter.py, filter_db.py): masking, over the locale \<open>regex_engine\<close>, interpreted on Regex (\<open>python\<close>).
    Threats, Guardrails, PolicyDecisions (guardrails.py): detectors, content policies, the guard model; the run of
      the policies is the conjunction of what each permits.

  People.
    Security (security.py, password_utils.py): password rules and the middleware.
    Auth, AuthProofs (auth.py): keys, tokens and their revocation, local and LDAP login with lockout, sessions.
    Clients (clients.py): clients, their keys and their daily quota.
    Users (main.py): local users, the login page and dashboard, admission to the web socket.

  Books.
    Caching (caching.py), Sessions (session_manager.py), Logs and AuditTrail (request_logger.py, audit.py), Alerting
      (alerting.py), ConfigExport (config_export.py; locale \<open>import_table\<close>, interpreted on the four tables imported).

  The whole.
    Chat, ChatProofs (main.py, metrics.py): the handler behind the chat endpoints, which composes the components over one
      state \<open>app\<close>; its proofs rest on frames (\<open>preserves g m\<close>: the operation leaves part \<open>g\<close> of the state as it was).
    Interleaving (main.py): the handler cut into phases at the points where it waits for the slot, for the provider and for
      the reading of a stream; \<open>chat_move\<close> is the step relation of requests in flight together, and one request run
      alone is the handler (\<open>phases_are_the_handler\<close>).
    ChatEndpoints (main.py): the three endpoints before the handler, the probes, the arguments of the server.
    Startup (main.py): the lifespan; locale \<open>seeding\<close>, interpreted on the five seeding loops.
    Maintenance (backup.py, bootstrap.py, gen_cert.py, db.py): what is run from the command line or by hand.
    Requests (models.py): how a JSON body becomes the arguments of an operation.
    Endpoints, Api (main.py): every endpoint of administration and information over the state of the server, and the
      interface: a request is a value of a datatype, \<open>api_call\<close> identifies the caller, checks the role and performs it.
    Web (main.py, security.py): the stack of middleware around the routes.

  What the lemmas show.  Every component has lemmas for each branch of its operations, errors included; these carry
  the properties, which are marked C1 to C40 in the theories:
    the chat handler: masked text influences nothing, what a refused and an answered request leaves behind, down to the
      keys of the store, the life of a request in the registries, a bound on the calls of the guard model and on the
      rounds of calls (ChatProofs, LlmProxy), and for requests in flight
      together the slots, the counters, the registry and the absence of deadlock (Interleaving);
    admission: windows and slots are never exceeded, waiting as told is enough, breakers follow their states and trip exactly at
      their threshold, keys that rest are not handed out, rotation is fair (RateLimiter, CircuitBreaker, KeyPool);
    security: gates and bans, administration is for administrators, revoked access tokens stay so, lockout after five
      failures, what a key of a client is worth after any operations, quota (Web, Security, Api, Auth, Clients);
    round trips: encrypted columns, tokens, cached answers, logs, users, and configurations, which an import merges into the
      tables there are (Db, AuthProofs, Caching, Logs, Users, ConfigExport, Api);
    refinements and equivalences: the window in the store, the matcher of expressions, the socket of an observer, a stream
      and the reply it stands for (RateLimiter, Regex, Sessions, Providers).
  Theorems without a number state what the code does against its intention or its documents, for example
  \<open>startup_loads_twice\<close>, \<open>broken_stream_repeats\<close>, \<open>refresh_never_succeeds\<close>, \<open>response_filter_ignored\<close>,
  \<open>half_open_admits_all\<close>, \<open>streamed_request_is_free\<close>, \<open>ban_evaded_by_header\<close>.

  Bounds and fuel.  The retry loops end by a measure, the attempts and providers left; the loop of a provider has
  the maximal number of retries of the settings as its bound, and \<open>handling_ends_within_bound\<close> bounds the rounds of a
  whole request, by \<open>rounds_bound\<close>, and the calls of its guard model, by the number of active policies.  Other loops run over lists.  No function of the model is partial.

  Not modelled.  HTML pages, styles and scripts of the interface; start scripts and tests.  The rotation of log files, the
  text format of the metrics, TLS and the web server itself, the making of tables and directories:
  these are calls into libraries with no decision of the program.  Coercions of the validation library (a number
  given as text, say) are refused here; the response models that no code makes use of and the request models no
  endpoint reads are left out.  New identifiers are taken to be unused, integers of columns are not bounded, and rows
  selected without an order come in the order of the table.  Characters above 255 and the case mapping of letters outside ASCII.  Interleaving
  inside an operation of a component, or inside a phase of the chat handler, where the code waits for the store or the
  tables: the properties about concurrency (windows, breakers, keys, sessions, requests in flight) are about all
  sequences of such operations and phases.
\<close>

end
